(* ===== verification/Sails_Prelude.thy ===== *)
theory Sails_Prelude
  imports Main "HOL-Library.Char_ord"
begin

text \<open>
  Shared vocabulary of the development: the error classes of
  \<^verbatim>\<open>src/common/errors\<close> as a datatype, handlers (async service methods) as functions
  from a database state to a result and the next state, an equational weakest
  precondition for them, decimal printing and parsing of integers, and the joining of
  strings with a separator on which every canonical encoding of the program rests.
\<close>

named_theorems wp_eqs \<open>equations that compute weakest preconditions of handlers\<close>
named_theorems preserves_intros \<open>rules that reduce the preservation of an invariant to the primitives\<close>

section \<open>Errors\<close>

text \<open>
  The error classes the modelled code throws. An error keeps its class, and the string is
  a tag for the throw site, not the interpolated message, except where the message is
  inspected by the code.
\<close>

datatype sails_error =
    NotFoundError string string
  | ForbiddenError string
  | EscrowError string
  | ValidationError string
  | CircuitBreakerOpenError string
  | IdempotencyKeyConflictError string
  | EconomicAuthorityAmbiguityError string
  | GenericError string
  | ProviderError string
  | DatabaseError string

type_synonym 'a result = "sails_error + 'a"

text \<open>Sequencing of pure functions that may throw.\<close>

definition bindR :: "'a result \<Rightarrow> ('a \<Rightarrow> 'b result) \<Rightarrow> 'b result" where
  "bindR r f = (case r of Inl e \<Rightarrow> Inl e | Inr a \<Rightarrow> f a)"

definition guardR :: "bool \<Rightarrow> sails_error \<Rightarrow> unit result" where
  "guardR b e = (if b then Inr () else Inl e)"

lemma bindR_simps [simp]: "bindR (Inl e) f = Inl e" "bindR (Inr a) f = f a"
  by (simp_all add: bindR_def)

lemma guardR_eq [simp]: "guardR b e = Inr u \<longleftrightarrow> b" "guardR True e = Inr ()" "guardR False e = Inl e"
  by (simp_all add: guardR_def)

lemma bindR_eq_Inr: "bindR r f = Inr b \<longleftrightarrow> (\<exists>a. r = Inr a \<and> f a = Inr b)"
  by (cases r) simp_all

section \<open>Handlers: state passing with thrown errors\<close>

text \<open>
  An async method reads and writes the database and either returns or throws; writes made
  before a throw stay. It is a function from the state to the result and the next state.
\<close>

type_synonym ('s, 'a) handler = "'s \<Rightarrow> 'a result \<times> 's"

definition ret :: "'a \<Rightarrow> ('s, 'a) handler" where
  "ret a = (\<lambda>s. (Inr a, s))"

definition throw :: "sails_error \<Rightarrow> ('s, 'a) handler" where
  "throw e = (\<lambda>s. (Inl e, s))"

definition seqH :: "('s, 'a) handler \<Rightarrow> ('a \<Rightarrow> ('s, 'b) handler) \<Rightarrow> ('s, 'b) handler" where
  "seqH m f = (\<lambda>s. case m s of (Inl e, s') \<Rightarrow> (Inl e, s') | (Inr a, s') \<Rightarrow> f a s')"

definition catchH :: "('s, 'a) handler \<Rightarrow> (sails_error \<Rightarrow> ('s, 'a) handler) \<Rightarrow> ('s, 'a) handler" where
  "catchH m h = (\<lambda>s. case m s of (Inl e, s') \<Rightarrow> h e s' | (Inr a, s') \<Rightarrow> (Inr a, s'))"

definition readH :: "('s \<Rightarrow> 'a) \<Rightarrow> ('s, 'a) handler" where
  "readH f = (\<lambda>s. (Inr (f s), s))"

definition writeH :: "('s \<Rightarrow> 's) \<Rightarrow> ('s, unit) handler" where
  "writeH f = (\<lambda>s. (Inr (), f s))"

definition liftH :: "'a result \<Rightarrow> ('s, 'a) handler" where
  "liftH r = (\<lambda>s. (r, s))"

definition guardH :: "bool \<Rightarrow> sails_error \<Rightarrow> ('s, unit) handler" where
  "guardH b e = (if b then ret () else throw e)"

definition requireH :: "'a option \<Rightarrow> sails_error \<Rightarrow> ('s, 'a) handler" where
  "requireH x e = (case x of None \<Rightarrow> throw e | Some a \<Rightarrow> ret a)"

text \<open>
  \<open>wpH m Q E s\<close>: run from \<open>s\<close>, the handler ends in \<open>Q\<close> if it returns and in
  \<open>E\<close> if it throws. The equations below compute it over the combinators.
\<close>

definition wpH :: "('s, 'a) handler \<Rightarrow> ('a \<Rightarrow> 's \<Rightarrow> bool) \<Rightarrow> (sails_error \<Rightarrow> 's \<Rightarrow> bool) \<Rightarrow> 's \<Rightarrow> bool" where
  "wpH m Q E s = (case m s of (Inl e, s') \<Rightarrow> E e s' | (Inr a, s') \<Rightarrow> Q a s')"

lemma wp_ret [wp_eqs]: "wpH (ret a) Q E = Q a"
  by (rule ext) (simp add: wpH_def ret_def)

lemma wp_throw [wp_eqs]: "wpH (throw e) Q E = E e"
  by (rule ext) (simp add: wpH_def throw_def)

lemma wp_seqH [wp_eqs]: "wpH (seqH m f) Q E = wpH m (\<lambda>a. wpH (f a) Q E) E"
  by (rule ext) (simp add: wpH_def seqH_def split: prod.split sum.split)

lemma wp_catchH [wp_eqs]: "wpH (catchH m h) Q E = wpH m Q (\<lambda>e. wpH (h e) Q E)"
  by (rule ext) (simp add: wpH_def catchH_def split: prod.split sum.split)

lemma wp_readH [wp_eqs]: "wpH (readH f) Q E s = Q (f s) s"
  by (simp add: wpH_def readH_def)

lemma wp_writeH [wp_eqs]: "wpH (writeH f) Q E s = Q () (f s)"
  by (simp add: wpH_def writeH_def)

lemma wp_liftH [wp_eqs]:
  "wpH (liftH r) Q E s = (case r of Inl e \<Rightarrow> E e s | Inr a \<Rightarrow> Q a s)"
  by (simp add: wpH_def liftH_def)

lemma wp_guardH [wp_eqs]: "wpH (guardH b e) Q E s = (if b then Q () s else E e s)"
  by (simp add: guardH_def wp_ret wp_throw)

lemma wp_requireH [wp_eqs]:
  "wpH (requireH x e) Q E s = (case x of None \<Rightarrow> E e s | Some a \<Rightarrow> Q a s)"
  by (simp add: requireH_def wp_ret wp_throw split: option.split)

lemma wp_if [wp_eqs]: "wpH (if b then m else n) Q E = (if b then wpH m Q E else wpH n Q E)"
  by simp

lemma wpH_I: "wpH m Q E s \<Longrightarrow> m s = (Inr a, s') \<Longrightarrow> Q a s'"
  by (simp add: wpH_def)

lemma wpH_E: "wpH m Q E s \<Longrightarrow> m s = (Inl e, s') \<Longrightarrow> E e s'"
  by (simp add: wpH_def)

lemma wpH_result: "m s = (r, s') \<Longrightarrow> wpH m Q E s = (case r of Inl e \<Rightarrow> E e s' | Inr a \<Rightarrow> Q a s')"
  by (simp add: wpH_def)

lemma wpH_mono:
  assumes "wpH m Q E s" and "\<And>a t. Q a t \<Longrightarrow> Q' a t" and "\<And>e t. E e t \<Longrightarrow> E' e t"
  shows "wpH m Q' E' s"
  using assms by (auto simp: wpH_def split: prod.splits sum.splits)

lemma wpH_snd: "wpH m (\<lambda>_. P) (\<lambda>_. P) s \<Longrightarrow> P (snd (m s))"
  by (auto simp: wpH_def split: prod.splits sum.splits)

lemma wpH_snd_iff: "P (snd (m s)) \<longleftrightarrow> wpH m (\<lambda>_. P) (\<lambda>_. P) s"
  by (auto simp: wpH_def split: prod.splits sum.splits)

lemma wpH_eq_iff: "(\<exists>a s'. m s = (Inr a, s') \<and> P a s') \<longleftrightarrow> wpH m P (\<lambda>_ _. False) s"
  by (auto simp: wpH_def split: prod.splits sum.splits)

section \<open>Invariants of handlers\<close>

text \<open>
  \<open>preserves I m\<close>: whether it returns or throws, the handler keeps the invariant. The rules
  follow the structure of a handler down to its writes.
\<close>

definition preserves :: "('s \<Rightarrow> bool) \<Rightarrow> ('s, 'a) handler \<Rightarrow> bool" where
  "preserves I m \<longleftrightarrow> (\<forall>s. I s \<longrightarrow> I (snd (m s)))"

lemma preservesD: "preserves I m \<Longrightarrow> I s \<Longrightarrow> I (snd (m s))"
  by (simp add: preserves_def)

lemma preserves_run: "preserves I m \<Longrightarrow> I s \<Longrightarrow> m s = (r, s') \<Longrightarrow> I s'"
  by (metis preservesD snd_conv)

lemma preserves_wp: "preserves I m \<Longrightarrow> I s \<Longrightarrow> wpH m (\<lambda>_. I) (\<lambda>_. I) s"
  using wpH_snd_iff preservesD by metis

lemma preserves_ret [preserves_intros]: "preserves I (ret a)"
  by (simp add: preserves_def ret_def)

lemma preserves_throw [preserves_intros]: "preserves I (throw e)"
  by (simp add: preserves_def throw_def)

lemma preserves_seqH [preserves_intros]:
  "preserves I m \<Longrightarrow> (\<And>a. preserves I (f a)) \<Longrightarrow> preserves I (seqH m f)"
  by (fastforce simp: preserves_def seqH_def split: prod.splits sum.splits)

lemma preserves_catchH [preserves_intros]:
  "preserves I m \<Longrightarrow> (\<And>e. preserves I (h e)) \<Longrightarrow> preserves I (catchH m h)"
  by (fastforce simp: preserves_def catchH_def split: prod.splits sum.splits)

lemma preserves_readH [preserves_intros]: "preserves I (readH f)"
  by (simp add: preserves_def readH_def)

lemma preserves_writeH [preserves_intros]: "(\<And>s. I s \<Longrightarrow> I (f s)) \<Longrightarrow> preserves I (writeH f)"
  by (simp add: preserves_def writeH_def)

lemma preserves_liftH [preserves_intros]: "preserves I (liftH r)"
  by (simp add: preserves_def liftH_def)

lemma preserves_guardH [preserves_intros]: "preserves I (guardH b e)"
  by (simp add: preserves_def guardH_def ret_def throw_def)

lemma preserves_requireH [preserves_intros]: "preserves I (requireH x e)"
  by (simp add: preserves_def requireH_def ret_def throw_def split: option.split)

lemma preserves_if [preserves_intros]:
  "(b \<Longrightarrow> preserves I m) \<Longrightarrow> (\<not> b \<Longrightarrow> preserves I n) \<Longrightarrow> preserves I (if b then m else n)"
  by simp

lemma preserves_option [preserves_intros]:
  "(x = None \<Longrightarrow> preserves I m) \<Longrightarrow> (\<And>a. x = Some a \<Longrightarrow> preserves I (f a)) \<Longrightarrow>
   preserves I (case x of None \<Rightarrow> m | Some a \<Rightarrow> f a)"
  by (cases x) auto

lemma preserves_prod [preserves_intros]:
  "(\<And>a b. x = (a, b) \<Longrightarrow> preserves I (f a b)) \<Longrightarrow> preserves I (case x of (a, b) \<Rightarrow> f a b)"
  by (cases x) auto

section \<open>Decimal strings of integers\<close>

text \<open>
  \<^verbatim>\<open>String(n)\<close> on a non-negative integer and \<^verbatim>\<open>BigInt(s)\<close> on a string of
  digits, with the test \<^verbatim>\<open>/^\d+$/\<close>.
\<close>

definition digit_char :: "nat \<Rightarrow> char" where
  "digit_char d = char_of (48 + d)"

definition is_digit_char :: "char \<Rightarrow> bool" where
  "is_digit_char c \<longleftrightarrow> 48 \<le> (of_char c :: nat) \<and> (of_char c :: nat) \<le> 57"

fun show_nat :: "nat \<Rightarrow> string" where
  "show_nat n = (if n < 10 then [digit_char n] else show_nat (n div 10) @ [digit_char (n mod 10)])"

declare show_nat.simps [simp del]

definition parse_digits :: "string \<Rightarrow> nat" where
  "parse_digits s = foldl (\<lambda>a c. 10 * a + ((of_char c :: nat) - 48)) 0 s"

definition is_digit_string :: "string \<Rightarrow> bool" where
  "is_digit_string s \<longleftrightarrow> s \<noteq> [] \<and> list_all is_digit_char s"

lemma of_digit_char: "d < 10 \<Longrightarrow> (of_char (digit_char d) :: nat) = 48 + d"
  by (simp add: digit_char_def)

lemma is_digit_digit_char: "d < 10 \<Longrightarrow> is_digit_char (digit_char d)"
  by (simp add: is_digit_char_def of_digit_char)

lemma parse_digits_snoc:
  "parse_digits (s @ [c]) = 10 * parse_digits s + ((of_char c :: nat) - 48)"
  by (simp add: parse_digits_def)

lemma parse_show_nat [simp]: "parse_digits (show_nat n) = n"
proof (induction n rule: show_nat.induct)
  case (1 n)
  show ?case
  proof (cases "n < 10")
    case True
    then show ?thesis
      by (subst show_nat.simps) (simp add: parse_digits_def of_digit_char)
  next
    case False
    with "1.IH" have "parse_digits (show_nat (n div 10)) = n div 10" by simp
    with False show ?thesis
      by (subst show_nat.simps) (simp add: parse_digits_snoc of_digit_char)
  qed
qed

lemma digit_string_show_nat [simp]: "is_digit_string (show_nat n)"
proof (induction n rule: show_nat.induct)
  case (1 n)
  show ?case
    by (subst show_nat.simps)
      (use "1.IH" in \<open>auto simp: is_digit_string_def is_digit_digit_char\<close>)
qed

lemma show_nat_inject [simp]: "show_nat m = show_nat n \<longleftrightarrow> m = n"
  by (metis parse_show_nat)

lemma digit_string_no_sep:
  "is_digit_string s \<Longrightarrow> \<not> is_digit_char c \<Longrightarrow> c \<notin> set s"
  by (auto simp: is_digit_string_def list_all_iff)

lemma show_nat_no_sep [simp]: "\<not> is_digit_char c \<Longrightarrow> c \<notin> set (show_nat n)"
  using digit_string_no_sep digit_string_show_nat by blast

text \<open>
  \<^verbatim>\<open>BigInt(s)\<close> on an optional sign and decimal digits; the empty string is zero and anything else
  throws. (Surrounding blanks and the prefixes of other bases, which JavaScript accepts too, never
  occur: every argument is a printed number or has been matched against \<^verbatim>\<open>/^\d+$/\<close>.)
\<close>

definition parse_bigint :: "string \<Rightarrow> int result" where
  "parse_bigint s =
     (case s of
        c # ds \<Rightarrow> if c = CHR ''-'' \<and> is_digit_string ds then Inr (- int (parse_digits ds))
                  else if c = CHR ''+'' \<and> is_digit_string ds then Inr (int (parse_digits ds))
                  else if is_digit_string s then Inr (int (parse_digits s))
                  else Inl (GenericError ''Cannot convert to a BigInt'')
      | [] \<Rightarrow> Inr 0)"

text \<open>\<^verbatim>\<open>String(n)\<close> on an integer.\<close>

definition show_int :: "int \<Rightarrow> string" where
  "show_int n = (if n < 0 then CHR ''-'' # show_nat (nat (- n)) else show_nat (nat n))"

lemma parse_bigint_digits: "is_digit_string s \<Longrightarrow> parse_bigint s = Inr (int (parse_digits s))"
  by (cases s) (auto simp: parse_bigint_def is_digit_string_def is_digit_char_def)

lemma parse_show_int [simp]: "parse_bigint (show_int n) = Inr n"
proof (cases "n < 0")
  case True
  then show ?thesis by (simp add: parse_bigint_def show_int_def)
next
  case False
  then show ?thesis by (simp add: show_int_def parse_bigint_digits)
qed

lemma show_int_inject [simp]: "show_int m = show_int n \<longleftrightarrow> m = n"
  by (metis parse_show_int sum.inject(2))

lemma show_int_no_sep [simp]: "\<not> is_digit_char c \<Longrightarrow> c \<noteq> CHR ''-'' \<Longrightarrow> c \<notin> set (show_int n)"
  by (simp add: show_int_def)

section \<open>Joining with a separator\<close>

text \<open>\<^verbatim>\<open>xs.join(c)\<close> for a separator of one character.\<close>

fun join_with :: "char \<Rightarrow> string list \<Rightarrow> string" where
  "join_with c [] = []"
| "join_with c [x] = x"
| "join_with c (x # y # ys) = x @ c # join_with c (y # ys)"

lemma split_first_sep:
  assumes "x @ c # u = y @ c # v" and "c \<notin> set x" and "c \<notin> set y"
  shows "x = y \<and> u = v"
  using assms
proof (induction x arbitrary: y)
  case Nil
  then show ?case by (cases y) auto
next
  case (Cons a x)
  then show ?case by (cases y) auto
qed

lemma split_last_sep:
  assumes eq: "u @ c # x = v @ c # y" and "c \<notin> set x" and "c \<notin> set y"
  shows "u = v \<and> x = y"
proof -
  from eq have "rev x @ c # rev u = rev y @ c # rev v"
    by (metis append_Cons append_Nil append_assoc rev.simps(2) rev_append)
  with assms(2,3) show ?thesis
    using split_first_sep [of "rev x" c "rev u" "rev y" "rev v"] by auto
qed

lemma join_with_Cons: "ys \<noteq> [] \<Longrightarrow> join_with c (x # ys) = x @ c # join_with c ys"
  by (cases ys) auto

lemma join_with_inj:
  assumes "length xs = length ys"
    and "\<forall>x \<in> set xs. c \<notin> set x" and "\<forall>y \<in> set ys. c \<notin> set y"
    and "join_with c xs = join_with c ys"
  shows "xs = ys"
  using assms
proof (induction xs ys rule: list_induct2)
  case Nil
  then show ?case by simp
next
  case (Cons x xs y ys)
  show ?case
  proof (cases "xs = []")
    case True
    with Cons show ?thesis by auto
  next
    case False
    with Cons.hyps have "ys \<noteq> []" by auto
    with False Cons.prems have eq: "x @ c # join_with c xs = y @ c # join_with c ys"
      by (simp add: join_with_Cons)
    with Cons.prems have "x = y" and "join_with c xs = join_with c ys"
      using split_first_sep [of x c "join_with c xs" y "join_with c ys"] by auto
    with Cons show ?thesis by auto
  qed
qed

section \<open>Searching and summing lists\<close>

lemma find_append: "find P (xs @ ys) = (case find P xs of None \<Rightarrow> find P ys | Some x \<Rightarrow> Some x)"
  by (induction xs) auto

lemma find_SomeD: "find P xs = Some x \<Longrightarrow> x \<in> set xs \<and> P x"
  by (auto simp: find_Some_iff)

lemma sum_list_map_nonneg: "(\<And>x. x \<in> set xs \<Longrightarrow> (0::int) \<le> f x) \<Longrightarrow> 0 \<le> sum_list (map f xs)"
  by (induction xs) auto

lemma sum_list_floor_le:
  fixes f :: "'a \<Rightarrow> int"
  assumes "0 < d"
  shows "sum_list (map (\<lambda>x. f x div d) xs) * d \<le> sum_list (map f xs)"
proof (induction xs)
  case Nil
  then show ?case by simp
next
  case (Cons x xs)
  have "f x div d * d = f x - f x mod d" by (simp add: minus_mod_eq_div_mult)
  moreover have "0 \<le> f x mod d" using assms by simp
  ultimately have "f x div d * d \<le> f x" by linarith
  with Cons show ?case by (simp add: distrib_right)
qed

lemma sum_list_floor_gt:
  fixes f :: "'a \<Rightarrow> int"
  assumes "0 < d"
  shows "sum_list (map f xs) \<le> sum_list (map (\<lambda>x. f x div d) xs) * d + int (length xs) * (d - 1)"
proof (induction xs)
  case Nil
  then show ?case by simp
next
  case (Cons x xs)
  have "f x = f x div d * d + f x mod d" by simp
  moreover have "f x mod d \<le> d - 1" using assms by simp
  ultimately have "f x \<le> f x div d * d + (d - 1)" by linarith
  with Cons show ?case by (simp add: algebra_simps)
qed

lemma takeWhile_no_dot: "CHR ''.'' \<notin> set xs \<Longrightarrow> takeWhile (\<lambda>c. c \<noteq> CHR ''.'') xs = xs"
  by (induction xs) auto

end
