(* ===== verification/Condition_Result.thy ===== *)
theory Condition_Result
  imports Sails_Prelude Complex_Main
begin

text \<open>
  The four-valued condition algebra of the semantic core,
  \<^verbatim>\<open>packages/sails-core/src/condition-result.ts\<close>: the frozen order, AND as minimum, OR as
  maximum and the N-of-M threshold. The order is made an instance of the class of linear
  orders, so that minimum and maximum of the library apply to it. The threshold is shown to
  be the n-th largest result, to generalise AND and OR, and to decide exactly what can
  still happen to the open conditions.
\<close>

section \<open>The vocabulary and its order\<close>

datatype ConditionResult = SATISFIED | NOT_YET_SATISFIED | UNSATISFIABLE | UNKNOWN

definition CONDITION_RESULTS :: "ConditionResult list" where
  "CONDITION_RESULTS = [UNSATISFIABLE, UNKNOWN, NOT_YET_SATISFIED, SATISFIED]"

fun ORDER :: "ConditionResult \<Rightarrow> int" where
  "ORDER UNSATISFIABLE = 0"
| "ORDER UNKNOWN = 1"
| "ORDER NOT_YET_SATISFIED = 2"
| "ORDER SATISFIED = 3"

definition fromOrder :: "int \<Rightarrow> ConditionResult result" where
  "fromOrder v =
     (case find (\<lambda>r. ORDER r = v) CONDITION_RESULTS of
        None \<Rightarrow> Inl (GenericError ''invalid ConditionResult order value'')
      | Some r \<Rightarrow> Inr r)"

text \<open>\<^verbatim>\<open>Math.min\<close> and \<^verbatim>\<open>Math.max\<close> of at least one argument.\<close>

definition math_min :: "int \<Rightarrow> int list \<Rightarrow> int" where
  "math_min x xs = fold min xs x"

definition math_max :: "int \<Rightarrow> int list \<Rightarrow> int" where
  "math_max x xs = fold max xs x"

fun conditionAnd :: "ConditionResult list \<Rightarrow> ConditionResult result" where
  "conditionAnd [] = Inl (GenericError ''conditionAnd requires at least one ConditionResult'')"
| "conditionAnd (r # rs) = fromOrder (math_min (ORDER r) (map ORDER rs))"

fun conditionOr :: "ConditionResult list \<Rightarrow> ConditionResult result" where
  "conditionOr [] = Inl (GenericError ''conditionOr requires at least one ConditionResult'')"
| "conditionOr (r # rs) = fromOrder (math_max (ORDER r) (map ORDER rs))"

text \<open>
  The threshold \<open>n\<close> is a finite JavaScript number, so a rational here; the guard
  \<^verbatim>\<open>Number.isInteger(n)\<close> is kept.
\<close>

definition conditionThreshold :: "rat \<Rightarrow> ConditionResult list \<Rightarrow> ConditionResult result" where
  "conditionThreshold n results =
     (if of_int \<lfloor>n\<rfloor> \<noteq> n \<or> n < 1
      then Inl (GenericError ''conditionThreshold requires an integer n >= 1'')
      else if results = []
      then Inl (GenericError ''conditionThreshold requires at least one ConditionResult'')
      else let s = of_nat (count_list results SATISFIED);
               p = of_nat (count_list results NOT_YET_SATISFIED);
               k = of_nat (count_list results UNKNOWN)
           in if s \<ge> n then Inr SATISFIED
              else if s + p + k < n then Inr UNSATISFIABLE
              else if s + p \<ge> n then Inr NOT_YET_SATISFIED
              else Inr UNKNOWN)"

section \<open>The frozen order as a linear order\<close>

instantiation ConditionResult :: linorder
begin

definition less_eq_ConditionResult :: "ConditionResult \<Rightarrow> ConditionResult \<Rightarrow> bool" where
  "less_eq_ConditionResult a b \<longleftrightarrow> ORDER a \<le> ORDER b"

definition less_ConditionResult :: "ConditionResult \<Rightarrow> ConditionResult \<Rightarrow> bool" where
  "less_ConditionResult a b \<longleftrightarrow> ORDER a < ORDER b"

instance
proof
  fix a b c :: ConditionResult
  show "(a < b) = (a \<le> b \<and> \<not> b \<le> a)"
    by (auto simp: less_eq_ConditionResult_def less_ConditionResult_def)
  show "a \<le> a" by (simp add: less_eq_ConditionResult_def)
  show "a \<le> b \<Longrightarrow> b \<le> c \<Longrightarrow> a \<le> c" by (simp add: less_eq_ConditionResult_def)
  show "a \<le> b \<Longrightarrow> b \<le> a \<Longrightarrow> a = b"
    by (cases a; cases b) (simp_all add: less_eq_ConditionResult_def)
  show "a \<le> b \<or> b \<le> a" by (auto simp: less_eq_ConditionResult_def)
qed

end

lemmas cr_order = less_eq_ConditionResult_def less_ConditionResult_def

lemma ORDER_inject [simp]: "ORDER a = ORDER b \<longleftrightarrow> a = b"
  by (cases a; cases b) simp_all

lemma fromOrder_ORDER [simp]: "fromOrder (ORDER r) = Inr r"
  by (cases r) (simp_all add: fromOrder_def CONDITION_RESULTS_def)

lemma ORDER_min: "ORDER (min a b) = min (ORDER a) (ORDER b)"
  by (simp add: min_def cr_order)

lemma ORDER_max: "ORDER (max a b) = max (ORDER a) (ORDER b)"
  by (simp add: max_def cr_order)

lemma math_min_ORDER: "math_min (ORDER r) (map ORDER rs) = ORDER (fold min rs r)"
  unfolding math_min_def
  by (induction rs arbitrary: r) (simp_all add: ORDER_min [symmetric])

lemma math_max_ORDER: "math_max (ORDER r) (map ORDER rs) = ORDER (fold max rs r)"
  unfolding math_max_def
  by (induction rs arbitrary: r) (simp_all add: ORDER_max [symmetric])

lemma conditionAnd_Min: "rs \<noteq> [] \<Longrightarrow> conditionAnd rs = Inr (Min (set rs))"
proof (cases rs)
  case (Cons r rs')
  then show ?thesis using Min.set_eq_fold [of r rs'] by (simp add: math_min_ORDER)
qed simp

lemma conditionOr_Max: "rs \<noteq> [] \<Longrightarrow> conditionOr rs = Inr (Max (set rs))"
proof (cases rs)
  case (Cons r rs')
  then show ?thesis using Max.set_eq_fold [of r rs'] by (simp add: math_max_ORDER)
qed simp

section \<open>Counting results at or above a level\<close>

definition at_least :: "ConditionResult \<Rightarrow> ConditionResult list \<Rightarrow> nat" where
  "at_least x rs = length (filter (\<lambda>r. x \<le> r) rs)"

lemma at_least_Nil [simp]: "at_least x [] = 0"
  by (simp add: at_least_def)

lemma at_least_Cons [simp]: "at_least x (r # rs) = (if x \<le> r then 1 else 0) + at_least x rs"
  by (simp add: at_least_def)

lemma at_least_SAT: "at_least SATISFIED rs = count_list rs SATISFIED"
proof (induction rs)
  case (Cons r rs)
  then show ?case by (cases r) (simp_all add: cr_order)
qed simp

lemma at_least_NYS:
  "at_least NOT_YET_SATISFIED rs = count_list rs SATISFIED + count_list rs NOT_YET_SATISFIED"
proof (induction rs)
  case (Cons r rs)
  then show ?case by (cases r) (simp_all add: cr_order)
qed simp

lemma at_least_UNK:
  "at_least UNKNOWN rs =
     count_list rs SATISFIED + count_list rs NOT_YET_SATISFIED + count_list rs UNKNOWN"
proof (induction rs)
  case (Cons r rs)
  then show ?case by (cases r) (simp_all add: cr_order)
qed simp

lemmas at_least_counts = at_least_SAT at_least_NYS at_least_UNK

lemma conditionThreshold_nat:
  assumes "1 \<le> n" and "rs \<noteq> []"
  shows "conditionThreshold (of_nat n) rs =
    Inr (if n \<le> at_least SATISFIED rs then SATISFIED
         else if at_least UNKNOWN rs < n then UNSATISFIABLE
         else if n \<le> at_least NOT_YET_SATISFIED rs then NOT_YET_SATISFIED
         else UNKNOWN)"
proof -
  have le: "(of_nat n \<le> (of_nat m :: rat)) = (n \<le> m)" for m by simp
  have "\<not> (of_nat n < (1::rat))" using assms(1) by simp
  then show ?thesis using assms(2)
    by (simp add: conditionThreshold_def Let_def at_least_counts
        flip: of_nat_add)
qed

lemma conditionThreshold_defined:
  assumes "conditionThreshold n rs = Inr r"
  obtains m where "n = of_nat m" and "1 \<le> m" and "rs \<noteq> []"
proof -
  from assms have i: "of_int \<lfloor>n\<rfloor> = n" and ge: "1 \<le> n" and ne: "rs \<noteq> []"
    by (auto simp: conditionThreshold_def split: if_splits)
  from ge have "1 \<le> \<lfloor>n\<rfloor>" by (simp add: le_floor_iff)
  then obtain k where k: "\<lfloor>n\<rfloor> = int k" and "1 \<le> k"
    by (cases "\<lfloor>n\<rfloor>" rule: int_cases) auto
  with i have "n = of_nat k" by (metis of_int_of_nat_eq)
  with \<open>1 \<le> k\<close> ne that show ?thesis by blast
qed

lemma at_least_antimono: "x \<le> y \<Longrightarrow> at_least y rs \<le> at_least x rs"
  by (induction rs) auto

lemma at_least_mono: "list_all2 (\<le>) rs rs' \<Longrightarrow> at_least x rs \<le> at_least x rs'"
  by (induction rule: list_all2_induct) auto

lemma at_least_le_length: "at_least x rs \<le> length rs"
  by (simp add: at_least_def)

section \<open>What open conditions can still become\<close>

text \<open>
  The meaning of the vocabulary: a satisfied condition stays satisfied, an unsatisfiable
  one stays unsatisfied, the other two may go either way. \<open>resolves r b\<close>: the condition
  with result \<open>r\<close> may end as \<open>b\<close>.
\<close>

fun resolves :: "ConditionResult \<Rightarrow> bool \<Rightarrow> bool" where
  "resolves SATISFIED b = b"
| "resolves UNSATISFIABLE b = (\<not> b)"
| "resolves _ b = True"

definition resolutions :: "ConditionResult list \<Rightarrow> bool list \<Rightarrow> bool" where
  "resolutions rs bs = list_all2 resolves rs bs"

definition trues :: "bool list \<Rightarrow> nat" where
  "trues bs = length (filter id bs)"

lemma resolutions_count:
  "resolutions rs bs \<Longrightarrow> at_least SATISFIED rs \<le> trues bs \<and> trues bs \<le> at_least UNKNOWN rs"
  unfolding resolutions_def
proof (induction rule: list_all2_induct)
  case (Cons r rs b bs)
  then show ?case by (cases r) (auto simp: trues_def cr_order)
qed (simp add: trues_def)

lemma resolutions_level:
  assumes "x = UNKNOWN \<or> x = NOT_YET_SATISFIED \<or> x = SATISFIED"
  shows "resolutions rs (map (\<lambda>r. x \<le> r) rs) \<and> trues (map (\<lambda>r. x \<le> r) rs) = at_least x rs"
proof (induction rs)
  case (Cons r rs)
  then show ?case using assms
    by (cases r) (auto simp: trues_def resolutions_def cr_order)
qed (simp add: trues_def resolutions_def)

section \<open>Properties\<close>

text \<open>
  AND and OR are the least and the greatest operand in the frozen order
  UNSATISFIABLE below UNKNOWN below NOT_YET_SATISFIED below SATISFIED, and they throw
  exactly on no operands. Hence neither depends on order or repetition of its operands.
\<close>

theorem condition_and_or_are_min_max:
  "(conditionAnd rs = Inr r \<longleftrightarrow> r \<in> set rs \<and> \<not> (\<exists>x. x \<in> set rs \<and> ORDER x < ORDER r)) \<and>
   (conditionOr rs = Inr r \<longleftrightarrow> r \<in> set rs \<and> \<not> (\<exists>x. x \<in> set rs \<and> ORDER r < ORDER x))"
proof -
  have 1: "conditionAnd rs = Inr r \<longleftrightarrow> rs \<noteq> [] \<and> Min (set rs) = r"
    by (cases "rs = []") (simp_all add: conditionAnd_Min)
  have 2: "conditionOr rs = Inr r \<longleftrightarrow> rs \<noteq> [] \<and> Max (set rs) = r"
    by (cases "rs = []") (simp_all add: conditionOr_Max)
  have "conditionAnd rs = Inr r \<longleftrightarrow> r \<in> set rs \<and> \<not> (\<exists>x. x \<in> set rs \<and> ORDER x < ORDER r)"
    unfolding 1 by (cases "rs = []") (auto simp: Min_eq_iff cr_order not_less)
  moreover have "conditionOr rs = Inr r \<longleftrightarrow> r \<in> set rs \<and> \<not> (\<exists>x. x \<in> set rs \<and> ORDER r < ORDER x)"
    unfolding 2 by (cases "rs = []") (auto simp: Max_eq_iff cr_order not_less)
  ultimately show ?thesis by blast
qed

text \<open>
  The threshold generalises the two connectives: all of M is AND, one of M is OR.
\<close>

theorem threshold_generalises_and_or:
  assumes "rs \<noteq> []"
  shows "conditionThreshold (of_nat (length rs)) rs = conditionAnd rs
       \<and> conditionThreshold 1 rs = conditionOr rs"
proof -
  have lvl: "length rs \<le> at_least x rs \<longleftrightarrow> x \<le> Min (set rs)" for x
  proof -
    have "length rs \<le> at_least x rs \<longleftrightarrow> (\<forall>r \<in> set rs. x \<le> r)"
      using at_least_le_length [of x rs]
      by (simp add: at_least_def) (metis length_filter_less less_le_not_le filter_True linorder_le_cases)
    then show ?thesis using assms by (simp add: Min_ge_iff)
  qed
  have one: "1 \<le> at_least x rs \<longleftrightarrow> x \<le> Max (set rs)" for x
    using assms by (auto simp: at_least_def Max_ge_iff Suc_le_eq filter_empty_conv length_greater_0_conv)
  have len: "1 \<le> length rs" using assms by (cases rs) simp_all
  have 1: "conditionThreshold (of_nat (length rs)) rs = conditionAnd rs"
    using lvl unfolding conditionThreshold_nat [OF len assms] conditionAnd_Min [OF assms] not_le [symmetric]
    by (cases "Min (set rs)") (simp_all add: cr_order)
  have 2: "conditionThreshold (of_nat 1) rs = conditionOr rs"
    using one unfolding conditionThreshold_nat [OF order_refl assms] conditionOr_Max [OF assms] not_le [symmetric]
    by (cases "Max (set rs)") (simp_all add: cr_order)
  from 1 2 show ?thesis by simp
qed

theorem threshold_generalises_and_or_witness:
  "conditionThreshold (of_nat (length [SATISFIED, UNKNOWN, NOT_YET_SATISFIED])) [SATISFIED, UNKNOWN, NOT_YET_SATISFIED] = Inr UNKNOWN
   \<and> conditionThreshold 1 [SATISFIED, UNKNOWN, NOT_YET_SATISFIED] = Inr SATISFIED"
proof -
  have "conditionAnd [SATISFIED, UNKNOWN, NOT_YET_SATISFIED] = Inr UNKNOWN"
    and "conditionOr [SATISFIED, UNKNOWN, NOT_YET_SATISFIED] = Inr SATISFIED"
    by (simp_all add: math_min_def math_max_def fromOrder_def CONDITION_RESULTS_def)
  with threshold_generalises_and_or [of "[SATISFIED, UNKNOWN, NOT_YET_SATISFIED]"]
  show ?thesis by simp
qed

text \<open>
  The threshold answers by what can still happen. For a positive whole \<open>n\<close> and at
  least one condition, SATISFIED means that every way the open conditions may resolve meets
  the threshold, UNSATISFIABLE that none does, and NOT_YET_SATISFIED is answered over UNKNOWN
  exactly when the threshold can be met with every UNKNOWN condition failing.
\<close>

theorem threshold_decides_possibility:
  assumes "1 \<le> n" and "rs \<noteq> []"
  shows "(conditionThreshold (of_nat n) rs = Inr SATISFIED
            \<longleftrightarrow> (\<forall>bs. resolutions rs bs \<longrightarrow> n \<le> trues bs))
       \<and> (conditionThreshold (of_nat n) rs = Inr UNSATISFIABLE
            \<longleftrightarrow> (\<forall>bs. resolutions rs bs \<longrightarrow> trues bs < n))
       \<and> (conditionThreshold (of_nat n) rs \<in> {Inr SATISFIED, Inr NOT_YET_SATISFIED}
            \<longleftrightarrow> n \<le> trues (map (\<lambda>r. r = SATISFIED \<or> r = NOT_YET_SATISFIED) rs))"
proof -
  note thr = conditionThreshold_nat [OF assms]
  have mono: "at_least SATISFIED rs \<le> at_least NOT_YET_SATISFIED rs"
    "at_least NOT_YET_SATISFIED rs \<le> at_least UNKNOWN rs"
    by (simp_all add: at_least_counts)
  have all_ge: "(\<forall>bs. resolutions rs bs \<longrightarrow> n \<le> trues bs) \<longleftrightarrow> n \<le> at_least SATISFIED rs"
    using resolutions_count resolutions_level [of SATISFIED rs] by (metis le_trans)
  have all_lt: "(\<forall>bs. resolutions rs bs \<longrightarrow> trues bs < n) \<longleftrightarrow> at_least UNKNOWN rs < n"
    using resolutions_count resolutions_level [of UNKNOWN rs] by (metis le_less_trans)
  have "map (\<lambda>r. r = SATISFIED \<or> r = NOT_YET_SATISFIED) rs = map (\<lambda>r. NOT_YET_SATISFIED \<le> r) rs"
  proof (rule map_cong [OF refl])
    fix r
    show "(r = SATISFIED \<or> r = NOT_YET_SATISFIED) = (NOT_YET_SATISFIED \<le> r)"
      by (cases r) (simp_all add: cr_order)
  qed
  then have nys: "trues (map (\<lambda>r. r = SATISFIED \<or> r = NOT_YET_SATISFIED) rs) = at_least NOT_YET_SATISFIED rs"
    using resolutions_level [of NOT_YET_SATISFIED rs] by metis
  show ?thesis unfolding thr all_ge all_lt nys using mono by auto
qed

theorem threshold_decides_possibility_witness:
  "conditionThreshold (of_nat 2) [SATISFIED, UNKNOWN, UNSATISFIABLE] \<notin> {Inr SATISFIED, Inr NOT_YET_SATISFIED}"
  using threshold_decides_possibility [of 2 "[SATISFIED, UNKNOWN, UNSATISFIABLE]",
      THEN conjunct2, THEN conjunct2]
  by (simp add: trues_def)

text \<open>
  C24: the threshold is the n-th largest result: it reaches a level above UNSATISFIABLE
  exactly when at least \<open>n\<close> results do, and improving any of the results never lowers it.
\<close>

theorem threshold_is_nth_largest:
  assumes "conditionThreshold (of_nat n) rs = Inr r"
  shows "(\<forall>x. x \<noteq> UNSATISFIABLE \<longrightarrow> (x \<le> r \<longleftrightarrow> n \<le> length (filter (\<lambda>y. x \<le> y) rs)))
       \<and> (\<forall>rs' r'. list_all2 (\<le>) rs rs' \<longrightarrow> conditionThreshold (of_nat n) rs' = Inr r' \<longrightarrow> r \<le> r')"
proof -
  from assms obtain m where "of_nat n = (of_nat m :: rat)" and n: "1 \<le> m" and ne: "rs \<noteq> []"
    by (rule conditionThreshold_defined)
  then have n: "1 \<le> n" by simp
  have lvl: "x \<noteq> UNSATISFIABLE \<Longrightarrow> x \<le> q \<longleftrightarrow> n \<le> at_least x ts"
    if "conditionThreshold (of_nat n) ts = Inr q" and "ts \<noteq> []" for x q ts
  proof -
    assume x: "x \<noteq> UNSATISFIABLE"
    have "at_least SATISFIED ts \<le> at_least NOT_YET_SATISFIED ts"
      "at_least NOT_YET_SATISFIED ts \<le> at_least UNKNOWN ts"
      by (simp_all add: at_least_counts)
    with that(1) x show "x \<le> q \<longleftrightarrow> n \<le> at_least x ts"
      unfolding conditionThreshold_nat [OF n that(2)]
      by (cases x) (auto simp: cr_order split: if_splits)
  qed
  have "r \<le> r'" if le: "list_all2 (\<le>) rs rs'" and r': "conditionThreshold (of_nat n) rs' = Inr r'" for rs' r'
  proof (cases "r = UNSATISFIABLE")
    case True
    then show ?thesis by (cases r') (simp_all add: cr_order)
  next
    case False
    from le ne have ne': "rs' \<noteq> []" by auto
    from lvl [OF assms ne False] have "n \<le> at_least r rs" by simp
    also have "\<dots> \<le> at_least r rs'" by (rule at_least_mono [OF le])
    finally show ?thesis using lvl [OF r' ne' False] by simp
  qed
  with lvl [OF assms ne] show ?thesis by (auto simp: at_least_def)
qed

theorem threshold_is_nth_largest_witness:
  "NOT_YET_SATISFIED \<le> NOT_YET_SATISFIED \<longleftrightarrow>
     2 \<le> length (filter (\<lambda>y. NOT_YET_SATISFIED \<le> y) [SATISFIED, NOT_YET_SATISFIED, UNKNOWN])"
proof -
  have "conditionThreshold (of_nat 2) [SATISFIED, NOT_YET_SATISFIED, UNKNOWN] = Inr NOT_YET_SATISFIED"
    by (subst conditionThreshold_nat) (simp_all add: cr_order)
  from threshold_is_nth_largest [OF this] show ?thesis by blast
qed

end
