(* ===== verification/Semantic_Core.thy ===== *)
theory Semantic_Core
  imports Condition_Result
begin

text \<open>
  The data model and the evaluators of \<^verbatim>\<open>packages/sails-core/src\<close>: branded
  identifiers, evaluation time, evaluator and profile identities, ruleset references and
  their binding check, assertions, outcomes, transition records, the timelock and attribution
  leaf evaluators, the correspondence evaluator, the conformance harness and the dispatch
  gate. Opaque content is a type parameter; a semantic commitment is a string, which is what
  every producer in the repository supplies.
\<close>

section \<open>Identifiers and time\<close>

definition createBrandedString :: "string \<Rightarrow> string result" where
  "createBrandedString value =
     (if length value = 0 then Inl (GenericError ''identifier value must not be empty'')
      else Inr value)"

type_synonym InteractionId = string
type_synonym ActorId = string
type_synonym SourceRef = string
type_synonym AssertionId = string
type_synonym TransitionTypeId = string
type_synonym SemanticCommitment = string

definition createInteractionId :: "string \<Rightarrow> InteractionId result" where
  "createInteractionId value = createBrandedString value"

definition createActorId :: "string \<Rightarrow> ActorId result" where
  "createActorId value = createBrandedString value"

definition createSourceRef :: "string \<Rightarrow> SourceRef result" where
  "createSourceRef value = createBrandedString value"

definition createAssertionId :: "string \<Rightarrow> AssertionId result" where
  "createAssertionId value = createBrandedString value"

definition createTransitionTypeId :: "string \<Rightarrow> TransitionTypeId result" where
  "createTransitionTypeId value = createBrandedString value"

text \<open>A JavaScript number: a finite one is a rational.\<close>

datatype js_number = Num rat | NaN | PosInfinity | NegInfinity

type_synonym EvaluationTime = rat

fun createEvaluationTime :: "js_number \<Rightarrow> EvaluationTime result" where
  "createEvaluationTime (Num ms) = Inr ms"
| "createEvaluationTime _ = Inl (GenericError ''EvaluationTime must be a finite number'')"

definition isAtOrAfter :: "EvaluationTime \<Rightarrow> EvaluationTime \<Rightarrow> bool" where
  "isAtOrAfter time deadline \<longleftrightarrow> time \<ge> deadline"

section \<open>Identities and rulesets\<close>

record CanonicalEvaluatorIdentity =
  ev_name :: string
  ev_version :: string

record CanonicalSemanticProfileIdentity =
  pr_name :: string
  pr_version :: string

definition createCanonicalEvaluatorIdentity :: "string \<Rightarrow> string \<Rightarrow> CanonicalEvaluatorIdentity result" where
  "createCanonicalEvaluatorIdentity name version =
     (if length name = 0 \<or> length version = 0
      then Inl (GenericError ''CanonicalEvaluatorIdentity requires a non-empty name and version'')
      else Inr \<lparr>ev_name = name, ev_version = version\<rparr>)"

definition createCanonicalSemanticProfileIdentity ::
    "string \<Rightarrow> string \<Rightarrow> CanonicalSemanticProfileIdentity result" where
  "createCanonicalSemanticProfileIdentity name version =
     (if length name = 0 \<or> length version = 0
      then Inl (GenericError ''CanonicalSemanticProfileIdentity requires a non-empty name and version'')
      else Inr \<lparr>pr_name = name, pr_version = version\<rparr>)"

definition evaluatorIdentityEquals :: "CanonicalEvaluatorIdentity \<Rightarrow> CanonicalEvaluatorIdentity \<Rightarrow> bool" where
  "evaluatorIdentityEquals a b \<longleftrightarrow> ev_name a = ev_name b \<and> ev_version a = ev_version b"

definition profileIdentityEquals ::
    "CanonicalSemanticProfileIdentity \<Rightarrow> CanonicalSemanticProfileIdentity \<Rightarrow> bool" where
  "profileIdentityEquals a b \<longleftrightarrow> pr_name a = pr_name b \<and> pr_version a = pr_version b"

record RulesetRef =
  rs_name :: string
  rs_identity :: string
  rs_version :: string
  rs_commitment :: SemanticCommitment
  expectedEvaluatorIdentity :: CanonicalEvaluatorIdentity
  expectedProfileIdentity :: CanonicalSemanticProfileIdentity

definition createRulesetRef :: "RulesetRef \<Rightarrow> RulesetRef result" where
  "createRulesetRef input =
     (if length (rs_identity input) = 0 \<or> length (rs_version input) = 0
      then Inl (GenericError ''RulesetRef requires a non-empty identity and version'')
      else Inr input)"

datatype RulesetBindingCheck = Consistent | Inconsistent string

definition checkRulesetBinding ::
    "RulesetRef \<Rightarrow> CanonicalEvaluatorIdentity \<Rightarrow> CanonicalSemanticProfileIdentity \<Rightarrow> RulesetBindingCheck" where
  "checkRulesetBinding ruleset evaluatorIdentity profileIdentity =
     (let ee = expectedEvaluatorIdentity ruleset; ep = expectedProfileIdentity ruleset in
      if \<not> evaluatorIdentityEquals ee evaluatorIdentity
      then Inconsistent (''expected evaluator identity '' @ ev_name ee @ ''@'' @ ev_version ee
             @ '', got '' @ ev_name evaluatorIdentity @ ''@'' @ ev_version evaluatorIdentity)
      else if \<not> profileIdentityEquals ep profileIdentity
      then Inconsistent (''expected profile identity '' @ pr_name ep @ ''@'' @ pr_version ep
             @ '', got '' @ pr_name profileIdentity @ ''@'' @ pr_version profileIdentity)
      else Consistent)"

lemma evaluatorIdentityEquals_iff [simp]: "evaluatorIdentityEquals a b \<longleftrightarrow> a = b"
  by (auto simp: evaluatorIdentityEquals_def)

lemma profileIdentityEquals_iff [simp]: "profileIdentityEquals a b \<longleftrightarrow> a = b"
  by (auto simp: profileIdentityEquals_def)

lemma checkRulesetBinding_Consistent:
  "checkRulesetBinding r e p = Consistent \<longleftrightarrow>
     expectedEvaluatorIdentity r = e \<and> expectedProfileIdentity r = p"
  by (simp add: checkRulesetBinding_def Let_def)

section \<open>Assertions, outcomes and transition records\<close>

record 'content Assertion =
  as_id :: AssertionId
  as_interaction :: InteractionId
  as_source :: SourceRef
  as_type :: string
  as_content :: 'content
  as_commitment :: SemanticCommitment
  as_supersedes :: "AssertionId option"

definition createAssertion :: "'content Assertion \<Rightarrow> 'content Assertion result" where
  "createAssertion input =
     (if length (as_type input) = 0 then Inl (GenericError ''Assertion requires a non-empty type'')
      else Inr input)"

datatype 'reference DestinationBinding = DestinationBinding (binding_reference: 'reference)

record ('content, 'destination) Outcome =
  out_content :: 'content
  destinationBinding :: "'destination DestinationBinding option"

record 'payload CandidateTransition =
  ct_interaction :: InteractionId
  ct_type :: TransitionTypeId
  ct_payload :: 'payload

record DiscretionaryAttributionMaterial =
  att_actor :: ActorId
  att_rawProof :: string
  att_resolvedIdentityReference :: string

record SemanticHistoryPosition =
  hp_interaction :: InteractionId
  hp_rulesetRef :: RulesetRef
  hp_evaluatorIdentity :: CanonicalEvaluatorIdentity
  hp_profileIdentity :: CanonicalSemanticProfileIdentity
  hp_reference :: string

datatype prior_position = LEGACY_UNVERIFIED | Position SemanticHistoryPosition

record ('payload, 'content, 'destination) TransitionRecord =
  tr_interaction :: InteractionId
  tr_priorPosition :: prior_position
  tr_transition :: "'payload CandidateTransition"
  tr_rulesetRef :: RulesetRef
  tr_evaluatorIdentity :: CanonicalEvaluatorIdentity
  tr_profileIdentity :: CanonicalSemanticProfileIdentity
  tr_conditionResult :: ConditionResult
  tr_attribution :: "DiscretionaryAttributionMaterial option"
  tr_outcome :: "('content, 'destination) Outcome option"

section \<open>Leaf evaluators\<close>

record 'input LeafEvaluator =
  le_identity :: CanonicalEvaluatorIdentity
  le_evaluate :: "'input \<Rightarrow> ConditionResult"

record TimelockInput =
  tl_deadline :: EvaluationTime
  tl_evaluationTime :: EvaluationTime

definition SAILS_TIMELOCK_EVALUATOR_IDENTITY :: CanonicalEvaluatorIdentity where
  "SAILS_TIMELOCK_EVALUATOR_IDENTITY = \<lparr>ev_name = ''sails-timelock-evaluator'', ev_version = ''1.0''\<rparr>"

definition SAILS_SEMANTIC_PROFILE_IDENTITY :: CanonicalSemanticProfileIdentity where
  "SAILS_SEMANTIC_PROFILE_IDENTITY = \<lparr>pr_name = ''sails-semantic-profile'', pr_version = ''1.0''\<rparr>"

definition referenceTimelockEvaluator :: "TimelockInput LeafEvaluator" where
  "referenceTimelockEvaluator =
     \<lparr>le_identity = SAILS_TIMELOCK_EVALUATOR_IDENTITY,
      le_evaluate = (\<lambda>i. if isAtOrAfter (tl_evaluationTime i) (tl_deadline i)
                         then SATISFIED else NOT_YET_SATISFIED)\<rparr>"

record AttributionClaim =
  cl_actor :: ActorId
  claimedInteraction :: InteractionId
  claimedTransitionType :: TransitionTypeId
  claimedContentCommitment :: SemanticCommitment
  proofVerified :: bool

record AttributionContext =
  cx_interaction :: InteractionId
  cx_transitionType :: TransitionTypeId
  cx_contentCommitment :: SemanticCommitment

definition SAILS_ATTRIBUTION_EVALUATOR_IDENTITY :: CanonicalEvaluatorIdentity where
  "SAILS_ATTRIBUTION_EVALUATOR_IDENTITY = \<lparr>ev_name = ''sails-attribution-evaluator'', ev_version = ''1.0''\<rparr>"

definition referenceAttributionEvaluator :: "(AttributionClaim \<times> AttributionContext) LeafEvaluator" where
  "referenceAttributionEvaluator =
     \<lparr>le_identity = SAILS_ATTRIBUTION_EVALUATOR_IDENTITY,
      le_evaluate = (\<lambda>(claim, context).
        if \<not> proofVerified claim then UNSATISFIABLE
        else if claimedInteraction claim \<noteq> cx_interaction context then UNSATISFIABLE
        else if claimedTransitionType claim \<noteq> cx_transitionType context then UNSATISFIABLE
        else if claimedContentCommitment claim \<noteq> cx_contentCommitment context then UNSATISFIABLE
        else SATISFIED)\<rparr>"

lemma timelock_satisfied:
  "le_evaluate referenceTimelockEvaluator i = SATISFIED \<longleftrightarrow> tl_deadline i \<le> tl_evaluationTime i"
  by (simp add: referenceTimelockEvaluator_def isAtOrAfter_def)

lemma attribution_satisfied:
  "le_evaluate referenceAttributionEvaluator (claim, context) = SATISFIED \<longleftrightarrow>
     proofVerified claim \<and> claimedInteraction claim = cx_interaction context
     \<and> claimedTransitionType claim = cx_transitionType context
     \<and> claimedContentCommitment claim = cx_contentCommitment context"
  by (simp add: referenceAttributionEvaluator_def)

section \<open>Correspondence of execution with authorization\<close>

datatype CorrespondenceResult = MATCH | DIVERGENT | PENDING | UNKNOWN_CORRESPONDENCE

datatype ExecutionEvidenceStatus = OBSERVED | AWAITED | IRRESOLVABLE

record 'd ExecutionObservation =
  ob_status :: ExecutionEvidenceStatus
  ob_destinationReference :: "'d option"
  ob_amount :: "string option"
  ob_asset :: "string option"

record 'd CorrespondenceInput =
  authorizedDestination :: "'d DestinationBinding option"
  authorizedAmount :: "string option"
  authorizedAsset :: "string option"
  ci_observation :: "'d ExecutionObservation"

text \<open>One dimension: nothing is pushed when the authorization did not bind it.\<close>

definition dimension_check :: "'a option \<Rightarrow> 'a option \<Rightarrow> CorrespondenceResult list" where
  "dimension_check authorized observed =
     (case authorized of
        None \<Rightarrow> []
      | Some a \<Rightarrow> [case observed of
                      None \<Rightarrow> UNKNOWN_CORRESPONDENCE
                    | Some b \<Rightarrow> if b = a then MATCH else DIVERGENT])"

definition SAILS_DESTINATION_CORRESPONDENCE_EVALUATOR_IDENTITY :: CanonicalEvaluatorIdentity where
  "SAILS_DESTINATION_CORRESPONDENCE_EVALUATOR_IDENTITY =
     \<lparr>ev_name = ''sails-destination-correspondence-evaluator'', ev_version = ''1.0''\<rparr>"

definition evaluateCorrespondence :: "'d CorrespondenceInput \<Rightarrow> CorrespondenceResult" where
  "evaluateCorrespondence input =
     (let obs = ci_observation input in
      if ob_status obs = AWAITED then PENDING
      else if ob_status obs = IRRESOLVABLE then UNKNOWN_CORRESPONDENCE
      else let checks =
             dimension_check (map_option binding_reference (authorizedDestination input)) (ob_destinationReference obs)
             @ dimension_check (authorizedAmount input) (ob_amount obs)
             @ dimension_check (authorizedAsset input) (ob_asset obs)
           in if DIVERGENT \<in> set checks then DIVERGENT
              else if UNKNOWN_CORRESPONDENCE \<in> set checks then UNKNOWN_CORRESPONDENCE
              else MATCH)"

definition dimension_agrees :: "'a option \<Rightarrow> 'a option \<Rightarrow> bool" where
  "dimension_agrees authorized observed \<longleftrightarrow> authorized = None \<or> observed = authorized"

definition dimension_differs :: "'a option \<Rightarrow> 'a option \<Rightarrow> bool" where
  "dimension_differs authorized observed \<longleftrightarrow>
     (\<exists>a b. authorized = Some a \<and> observed = Some b \<and> b \<noteq> a)"

lemma dimension_check_DIVERGENT: "DIVERGENT \<in> set (dimension_check a b) \<longleftrightarrow> dimension_differs a b"
  by (auto simp: dimension_check_def dimension_differs_def split: option.split)

lemma dimension_check_clean:
  "DIVERGENT \<notin> set (dimension_check a b) \<and> UNKNOWN_CORRESPONDENCE \<notin> set (dimension_check a b)
     \<longleftrightarrow> dimension_agrees a b"
  by (cases a; cases b) (auto simp: dimension_check_def dimension_agrees_def)

lemma dimension_not_both: "dimension_differs a b \<Longrightarrow> \<not> dimension_agrees a b"
  by (auto simp: dimension_differs_def dimension_agrees_def)

section \<open>Conformance harness\<close>

record ('input, 'r) ConformanceVector =
  vectorId :: string
  cv_evaluatorIdentity :: CanonicalEvaluatorIdentity
  cv_profileIdentity :: CanonicalSemanticProfileIdentity
  semanticDefinitionReference :: string
  cv_input :: 'input
  expectedOutput :: 'r

record 'r ConformanceOutcome =
  co_vectorId :: string
  passed :: bool
  co_expected :: 'r
  co_actual :: 'r

definition runConformanceVectors ::
    "('input \<Rightarrow> ConditionResult) \<Rightarrow> ('input, ConditionResult) ConformanceVector list \<Rightarrow> ConditionResult ConformanceOutcome list" where
  "runConformanceVectors evaluate vectors =
     map (\<lambda>v. let actual = evaluate (cv_input v) in
          \<lparr>co_vectorId = vectorId v, passed = (actual = expectedOutput v),
           co_expected = expectedOutput v, co_actual = actual\<rparr>) vectors"

definition allPassed :: "ConditionResult ConformanceOutcome list \<Rightarrow> bool" where
  "allPassed outcomes = list_all passed outcomes"

definition runCorrespondenceConformanceVectors ::
    "('input \<Rightarrow> CorrespondenceResult) \<Rightarrow> ('input, CorrespondenceResult) ConformanceVector list
       \<Rightarrow> CorrespondenceResult ConformanceOutcome list" where
  "runCorrespondenceConformanceVectors evaluate vectors =
     map (\<lambda>v. let actual = evaluate (cv_input v) in
          \<lparr>co_vectorId = vectorId v, passed = (actual = expectedOutput v),
           co_expected = expectedOutput v, co_actual = actual\<rparr>) vectors"

definition allCorrespondencePassed :: "CorrespondenceResult ConformanceOutcome list \<Rightarrow> bool" where
  "allCorrespondencePassed outcomes = list_all passed outcomes"

lemma allPassed_iff:
  "allPassed (runConformanceVectors f vs) \<longleftrightarrow> (\<forall>v \<in> set vs. f (cv_input v) = expectedOutput v)"
  by (auto simp: allPassed_def runConformanceVectors_def list_all_iff Let_def)

lemma allCorrespondencePassed_iff:
  "allCorrespondencePassed (runCorrespondenceConformanceVectors f vs) \<longleftrightarrow>
     (\<forall>v \<in> set vs. f (cv_input v) = expectedOutput v)"
  by (auto simp: allCorrespondencePassed_def runCorrespondenceConformanceVectors_def list_all_iff Let_def)

section \<open>Dispatch gate\<close>

datatype DispatchGateVerdict = ELIGIBLE | INELIGIBLE string

record ('payload, 'content, 'destination) DispatchGateInput =
  dg_record :: "('payload, 'content, 'destination) TransitionRecord"
  requiresAttribution :: bool
  requiresOutcome :: bool
  alreadyDispatched :: bool

definition evaluateDispatchEligibility :: "('p, 'c, 'd) DispatchGateInput \<Rightarrow> DispatchGateVerdict" where
  "evaluateDispatchEligibility input =
     (let record = dg_record input in
      if tr_conditionResult record \<noteq> SATISFIED
      then INELIGIBLE ''underlying semantic transition is not SATISFIED''
      else if requiresAttribution input \<and> tr_attribution record = None
      then INELIGIBLE ''discretionary transition has no durable attribution''
      else if requiresOutcome input \<and> tr_outcome record = None
      then INELIGIBLE ''no durable economic Outcome exists for this transition''
      else if requiresOutcome input \<and> destinationBinding (the (tr_outcome record)) = None
      then INELIGIBLE ''Outcome has no destination binding''
      else if alreadyDispatched input
      then INELIGIBLE ''dispatch already occurred for this exact semantic authorization''
      else ELIGIBLE)"

definition evaluateLiveDispatchEligibility ::
    "(InteractionId \<Rightarrow> TransitionTypeId \<Rightarrow> bool) \<Rightarrow> ('p, 'c, 'd) TransitionRecord \<Rightarrow> bool \<Rightarrow> bool \<Rightarrow> DispatchGateVerdict" where
  "evaluateLiveDispatchEligibility checkDurableDispatchRecord record reqAttribution reqOutcome =
     evaluateDispatchEligibility
       \<lparr>dg_record = record, requiresAttribution = reqAttribution, requiresOutcome = reqOutcome,
        alreadyDispatched = checkDurableDispatchRecord (tr_interaction record) (ct_type (tr_transition record))\<rparr>"

lemma dispatch_ELIGIBLE_iff:
  "evaluateDispatchEligibility input = ELIGIBLE \<longleftrightarrow>
     tr_conditionResult (dg_record input) = SATISFIED
     \<and> (requiresAttribution input \<longrightarrow> tr_attribution (dg_record input) \<noteq> None)
     \<and> (requiresOutcome input \<longrightarrow>
          (\<exists>out b. tr_outcome (dg_record input) = Some out \<and> destinationBinding out = Some b))
     \<and> \<not> alreadyDispatched input"
  by (auto simp: evaluateDispatchEligibility_def Let_def)

section \<open>Properties\<close>

text \<open>
  Execution corresponds to its authorization only on evidence. The verdict is MATCH
  exactly when the execution was observed and every dimension the authorization bound
  (destination, amount, asset) was reported equal; it is DIVERGENT exactly when the execution
  was observed and some bound dimension was reported different, whatever else is missing; a
  bound dimension that was not reported is never a match.
\<close>

theorem correspondence_needs_evidence:
  "(evaluateCorrespondence input = MATCH \<longleftrightarrow>
      ob_status (ci_observation input) = OBSERVED
      \<and> dimension_agrees (map_option binding_reference (authorizedDestination input)) (ob_destinationReference (ci_observation input))
      \<and> dimension_agrees (authorizedAmount input) (ob_amount (ci_observation input))
      \<and> dimension_agrees (authorizedAsset input) (ob_asset (ci_observation input)))
   \<and> (evaluateCorrespondence input = DIVERGENT \<longleftrightarrow>
      ob_status (ci_observation input) = OBSERVED
      \<and> (dimension_differs (map_option binding_reference (authorizedDestination input)) (ob_destinationReference (ci_observation input))
         \<or> dimension_differs (authorizedAmount input) (ob_amount (ci_observation input))
         \<or> dimension_differs (authorizedAsset input) (ob_asset (ci_observation input))))"
  using dimension_check_clean
    [of "map_option binding_reference (authorizedDestination input)" "ob_destinationReference (ci_observation input)"]
    dimension_check_clean [of "authorizedAmount input" "ob_amount (ci_observation input)"]
    dimension_check_clean [of "authorizedAsset input" "ob_asset (ci_observation input)"]
  by (cases "ob_status (ci_observation input)")
    (auto simp: evaluateCorrespondence_def Let_def dimension_check_DIVERGENT)

end
