(* ===== verification/Capability_Registry.thy ===== *)
theory Capability_Registry
  imports Sails_Prelude "HOL-Library.List_Lexorder" "HOL-Library.Multiset"
begin

text \<open>
  Capability grants, \<^verbatim>\<open>src/core/capability-registry.ts\<close> over
  \<^verbatim>\<open>src/core/capability-grant-repository.ts\<close>: the canonical scopes, granting with
  re-use of an equivalent live grant, resolution of an active grant, the check every guarded
  operation performs, and revocation by the holder. The table keeps its rows in creation
  order. Reading a date from a JSON value (\<^verbatim>\<open>new Date(x)\<close>) and the database's
  identifier generator are parameters.
\<close>

section \<open>JSON constraints\<close>

datatype json =
    JNull
  | JBool bool
  | JNum string
  | JStr string
  | JArr "json list"
  | JObj "(string \<times> json) list"

text \<open>
  \<^verbatim>\<open>JSON.stringify\<close>. In a string quotes and backslashes are escaped, the control characters have
  their short or their numeric escape.
\<close>

definition hex_digit :: "nat \<Rightarrow> char" where
  "hex_digit n = ''0123456789abcdef'' ! (n mod 16)"

definition json_escape :: "char \<Rightarrow> string" where
  "json_escape c =
     (let n = of_char c :: nat in
      if n = 0x22 \<or> n = 0x5C then [CHR 0x5C, c]
      else if n = 8 then [CHR 0x5C, CHR ''b''] else if n = 9 then [CHR 0x5C, CHR ''t'']
      else if n = 10 then [CHR 0x5C, CHR ''n''] else if n = 12 then [CHR 0x5C, CHR ''f'']
      else if n = 13 then [CHR 0x5C, CHR ''r'']
      else if n < 0x20 then CHR 0x5C # ''u00'' @ [hex_digit (n div 16), hex_digit n]
      else [c])"

definition json_quote :: "string \<Rightarrow> string" where
  "json_quote s = CHR 0x22 # concat (map json_escape s) @ [CHR 0x22]"

fun json_stringify :: "json \<Rightarrow> string" where
  "json_stringify JNull = ''null''"
| "json_stringify (JBool b) = (if b then ''true'' else ''false'')"
| "json_stringify (JNum n) = n"
| "json_stringify (JStr s) = json_quote s"
| "json_stringify (JArr vs) = ''['' @ join_with (CHR '','') (map json_stringify vs) @ '']''"
| "json_stringify (JObj kvs) =
     ''{'' @ join_with (CHR '','') (map (\<lambda>(k, v). json_quote k @ '':'' @ v) (map (\<lambda>(k, v). (k, json_stringify v)) kvs)) @ ''}''"

text \<open>
  The members of an object are rendered first and then sorted by key, which gives the
  same string as sorting them first; a key occurs once in a JavaScript object.
\<close>

fun canonicalJson :: "json \<Rightarrow> string" where
  "canonicalJson JNull = ''null''"
| "canonicalJson (JArr vs) = ''['' @ join_with (CHR '','') (map canonicalJson vs) @ '']''"
| "canonicalJson (JObj kvs) =
     (if kvs = [] then ''null''
      else ''{'' @ join_with (CHR '','')
             (map (\<lambda>(k, v). json_quote k @ '':'' @ v)
               (sort_key fst (map (\<lambda>(k, v). (k, canonicalJson v)) kvs))) @ ''}'')"
| "canonicalJson (JBool b) = (if b then ''true'' else ''false'')"
| "canonicalJson (JNum n) = n"
| "canonicalJson (JStr s) = json_quote s"

definition sameConstraints :: "json \<Rightarrow> json \<Rightarrow> bool" where
  "sameConstraints a b \<longleftrightarrow> canonicalJson a = canonicalJson b"

fun json_member :: "string \<Rightarrow> json \<Rightarrow> json option" where
  "json_member k (JObj kvs) = map_of kvs k"
| "json_member k _ = None"

fun truthy :: "json \<Rightarrow> bool" where
  "truthy JNull = False"
| "truthy (JBool b) = b"
| "truthy (JNum n) = (n \<noteq> ''0'')"
| "truthy (JStr s) = (s \<noteq> [])"
| "truthy _ = True"

section \<open>State\<close>

record CapabilityGrant =
  grantId :: string
  grantedTo :: string
  capabilityName :: string
  scope :: "string list"
  constraints :: json
  issuedBy :: string
  revokedAt :: "int option"

text \<open>
  Every service state extends this one: the clock that \<^verbatim>\<open>new Date()\<close> reads, the number
  of identifiers drawn so far, and the grants.
\<close>

record registry_state =
  clock :: int
  draws :: nat
  grants :: "CapabilityGrant list"

section \<open>Canonical scopes\<close>

definition CAPABILITY_IMPLEMENTATIONS :: "string \<Rightarrow> string option" where
  "CAPABILITY_IMPLEMENTATIONS = map_of
     [(''openp2p'', ''trade-coordination''), (''opensettlement'', ''settlement''),
      (''openliquidity'', ''liquidity-discovery''), (''openidentity'', ''identity-verification''),
      (''openreputation'', ''reputation-scoring''), (''openagents'', ''agent-delegation''),
      (''openfinance'', ''financial-instruments''), (''openproof'', ''proof-verification'')]"

definition CANONICAL_CAPABILITY_SCOPES :: "string \<Rightarrow> string list option" where
  "CANONICAL_CAPABILITY_SCOPES = map_of
     [(''trade-coordination'', [''intent.created'', ''intent.discovering'']),
      (''settlement'', [''settlement.escrow.released'', ''settlement.escrow.refunded'', ''settlement.escrow.split''])]"

definition assertCanonicalCapabilityGrant :: "string \<Rightarrow> string list \<Rightarrow> unit result" where
  "assertCanonicalCapabilityGrant name scp =
     (case CANONICAL_CAPABILITY_SCOPES name of
        None \<Rightarrow> Inl (ValidationError ''Unknown capabilityName'')
      | Some allowed \<Rightarrow>
          (let invalid = filter (\<lambda>s. s \<notin> set allowed) scp in
           if length invalid > 0 then Inl (ValidationError ''Invalid scope(s) for capability'') else Inr ()))"

section \<open>Repository\<close>

definition isPastExpiry :: "(json \<Rightarrow> int option) \<Rightarrow> json \<Rightarrow> int \<Rightarrow> bool" where
  "isPastExpiry dateOf c now =
     (case json_member ''expiresAt'' c of
        Some (JStr s) \<Rightarrow> (case dateOf (JStr s) of None \<Rightarrow> False | Some d \<Rightarrow> d \<le> now)
      | _ \<Rightarrow> False)"

definition findActiveGrants :: "string \<Rightarrow> string \<Rightarrow> ('a registry_state_scheme, CapabilityGrant list) handler" where
  "findActiveGrants who name =
     readH (\<lambda>s. filter (\<lambda>g. grantedTo g = who \<and> capabilityName g = name \<and> revokedAt g = None) (grants s))"

definition findGrantById :: "string \<Rightarrow> ('a registry_state_scheme, CapabilityGrant option) handler" where
  "findGrantById gid = readH (\<lambda>s. find (\<lambda>g. grantId g = gid) (grants s))"

definition listActiveGrants :: "string \<Rightarrow> ('a registry_state_scheme, CapabilityGrant list) handler" where
  "listActiveGrants who =
     readH (\<lambda>s. rev (filter (\<lambda>g. grantedTo g = who \<and> revokedAt g = None) (grants s)))"

definition equivalentGrant :: "(json \<Rightarrow> int option) \<Rightarrow> int \<Rightarrow> CapabilityGrant \<Rightarrow> CapabilityGrant \<Rightarrow> bool" where
  "equivalentGrant dateOf now input g \<longleftrightarrow>
     issuedBy g = issuedBy input \<and> \<not> isPastExpiry dateOf (constraints g) now
     \<and> set (scope input) \<subseteq> set (scope g) \<and> sameConstraints (constraints g) (constraints input)"

text \<open>
  \<open>createGrant\<close>: within one transaction under the lock of (holder, capability), the oldest
  equivalent live grant is returned, and a new row is inserted only when there is none.
\<close>

definition createGrant ::
    "(nat \<Rightarrow> string) \<Rightarrow> (json \<Rightarrow> int option) \<Rightarrow> CapabilityGrant \<Rightarrow> ('a registry_state_scheme, CapabilityGrant) handler" where
  "createGrant uuid dateOf input =
     seqH (findActiveGrants (grantedTo input) (capabilityName input)) (\<lambda>live.
     seqH (readH clock) (\<lambda>now.
       case find (equivalentGrant dateOf now input) live of
         Some g \<Rightarrow> ret g
       | None \<Rightarrow>
           seqH (readH (\<lambda>s. input\<lparr>grantId := uuid (draws s), revokedAt := None\<rparr>)) (\<lambda>row.
           seqH (writeH (\<lambda>s. s\<lparr>grants := grants s @ [row], draws := Suc (draws s)\<rparr>)) (\<lambda>_.
             ret row))))"

definition markRevoked :: "CapabilityGrant \<Rightarrow> ('a registry_state_scheme, unit) handler" where
  "markRevoked g =
     writeH (\<lambda>s. s\<lparr>grants := map (\<lambda>r. if grantId r = grantId g then r\<lparr>revokedAt := Some (clock s)\<rparr> else r) (grants s)\<rparr>)"

section \<open>Registry\<close>

definition grant ::
    "(nat \<Rightarrow> string) \<Rightarrow> (json \<Rightarrow> int option) \<Rightarrow> CapabilityGrant \<Rightarrow> ('a registry_state_scheme, CapabilityGrant) handler" where
  "grant uuid dateOf input =
     seqH (liftH (assertCanonicalCapabilityGrant (capabilityName input) (scope input))) (\<lambda>_.
       createGrant uuid dateOf input)"

definition grantCovers :: "(json \<Rightarrow> int option) \<Rightarrow> int \<Rightarrow> string \<Rightarrow> CapabilityGrant \<Rightarrow> bool" where
  "grantCovers dateOf now requiredScope g \<longleftrightarrow>
     requiredScope \<in> set (scope g)
     \<and> \<not> (case json_member ''expiresAt'' (constraints g) of
            None \<Rightarrow> False
          | Some e \<Rightarrow> truthy e \<and> (case dateOf e of None \<Rightarrow> False | Some d \<Rightarrow> d \<le> now))"

definition resolveActiveGrant ::
    "(json \<Rightarrow> int option) \<Rightarrow> string \<Rightarrow> string \<Rightarrow> string \<Rightarrow> ('a registry_state_scheme, CapabilityGrant option) handler" where
  "resolveActiveGrant dateOf who name requiredScope =
     seqH (findActiveGrants who name) (\<lambda>gs.
     seqH (readH clock) (\<lambda>now. ret (find (grantCovers dateOf now requiredScope) gs)))"

definition checkCapability ::
    "(json \<Rightarrow> int option) \<Rightarrow> string \<Rightarrow> string \<Rightarrow> string \<Rightarrow> ('a registry_state_scheme, bool) handler" where
  "checkCapability dateOf who name requiredScope =
     seqH (resolveActiveGrant dateOf who name requiredScope) (\<lambda>g. ret (g \<noteq> None))"

definition revoke :: "string \<Rightarrow> string \<Rightarrow> ('a registry_state_scheme, unit) handler" where
  "revoke gid requestedBy =
     seqH (findGrantById gid) (\<lambda>existing.
     seqH (requireH existing (NotFoundError ''CapabilityGrant'' gid)) (\<lambda>g.
     seqH (guardH (grantedTo g = requestedBy) (ForbiddenError ''does not own CapabilityGrant'')) (\<lambda>_.
       markRevoked g)))"

definition listGrants :: "string \<Rightarrow> ('a registry_state_scheme, CapabilityGrant list) handler" where
  "listGrants who = listActiveGrants who"

section \<open>Lemmas\<close>

definition coveredBy :: "(json \<Rightarrow> int option) \<Rightarrow> string \<Rightarrow> string \<Rightarrow> string \<Rightarrow> 'a registry_state_scheme \<Rightarrow> CapabilityGrant \<Rightarrow> bool" where
  "coveredBy dateOf who name req s g \<longleftrightarrow>
     g \<in> set (grants s) \<and> grantedTo g = who \<and> capabilityName g = name \<and> revokedAt g = None
     \<and> grantCovers dateOf (clock s) req g"

definition permitted :: "(json \<Rightarrow> int option) \<Rightarrow> string \<Rightarrow> string \<Rightarrow> string \<Rightarrow> 'a registry_state_scheme \<Rightarrow> bool" where
  "permitted dateOf who name req s \<longleftrightarrow> (\<exists>g. coveredBy dateOf who name req s g)"

lemma checkCapability_result:
  "checkCapability dateOf who name req s = (Inr (permitted dateOf who name req s), s)"
proof -
  let ?gs = "filter (\<lambda>g. grantedTo g = who \<and> capabilityName g = name \<and> revokedAt g = None) (grants s)"
  have "find (grantCovers dateOf (clock s) req) ?gs \<noteq> None \<longleftrightarrow> permitted dateOf who name req s"
    unfolding find_None_iff permitted_def coveredBy_def by auto
  then show ?thesis
    by (simp add: checkCapability_def resolveActiveGrant_def findActiveGrants_def seqH_def readH_def ret_def)
qed

lemma wp_checkCapability [wp_eqs]:
  "wpH (checkCapability dateOf who name req) Q E s = Q (permitted dateOf who name req s) s"
  by (simp add: wpH_def checkCapability_result)

text \<open>Grants only ever hold scopes that are canonical for their capability.\<close>

definition canonical_grants :: "'a registry_state_scheme \<Rightarrow> bool" where
  "canonical_grants s \<longleftrightarrow>
     (\<forall>g \<in> set (grants s). assertCanonicalCapabilityGrant (capabilityName g) (scope g) = Inr ())"

lemma grant_wp:
  "wpH (grant uuid dateOf input) Q E s =
     (case assertCanonicalCapabilityGrant (capabilityName input) (scope input) of
        Inl e \<Rightarrow> E e s
      | Inr _ \<Rightarrow>
         (case find (equivalentGrant dateOf (clock s) input)
                 (filter (\<lambda>g. grantedTo g = grantedTo input \<and> capabilityName g = capabilityName input
                              \<and> revokedAt g = None) (grants s)) of
            Some g \<Rightarrow> Q g s
          | None \<Rightarrow> (let row = input\<lparr>grantId := uuid (draws s), revokedAt := None\<rparr> in
                      Q row (s\<lparr>grants := grants s @ [row], draws := Suc (draws s)\<rparr>))))"
  by (simp add: grant_def createGrant_def findActiveGrants_def wp_eqs Let_def
      split: sum.split option.split)

lemma sort_key_perm_cong:
  assumes "mset xs = mset ys" and "distinct (map fst xs)"
  shows "sort_key fst xs = sort_key fst ys"
proof -
  have "mset (map fst xs) = mset (map fst ys)" using assms(1) by (metis mset_map)
  then have "distinct (map fst ys)" using assms(2) mset_eq_imp_distinct_iff by blast
  moreover have "mset (map fst (sort_key fst zs)) = mset (map fst zs)" for zs :: "('a \<times> 'b) list"
    by simp
  ultimately have d: "distinct (map fst (sort_key fst xs))" "distinct (map fst (sort_key fst ys))"
    using assms(2) mset_eq_imp_distinct_iff by blast+
  have "inj_on fst (set (sort_key fst xs) \<union> set (sort_key fst ys))"
    using assms by (metis distinct_map set_mset_mset set_sort sup.idem)
  then show ?thesis
    using d assms(1) by (intro map_sorted_distinct_set_unique) (auto dest: mset_eq_setD)
qed

text \<open>
  Constraints are compared without regard to the order of object members.
\<close>

lemma sameConstraints_order_insensitive:
  assumes "mset kvs = mset kvs'" and "distinct (map fst kvs)"
  shows "sameConstraints (JObj kvs) (JObj kvs')"
proof -
  let ?f = "\<lambda>(k, v). (k, canonicalJson v)"
  have "mset (map ?f kvs) = mset (map ?f kvs')" using assms(1) by (metis mset_map)
  moreover have "distinct (map fst (map ?f kvs))"
    using assms(2) by (simp add: comp_def case_prod_beta)
  ultimately have "sort_key fst (map ?f kvs) = sort_key fst (map ?f kvs')"
    by (rule sort_key_perm_cong)
  moreover have "kvs = [] \<longleftrightarrow> kvs' = []" using assms(1) by (metis mset_zero_iff)
  ultimately show ?thesis by (simp add: sameConstraints_def)
qed

lemma grant_returns_equivalent:
  assumes "grant uuid dateOf input s = (Inr g, s')" and "\<not> isPastExpiry dateOf (constraints input) (clock s)"
  shows "find (equivalentGrant dateOf (clock s) input)
           (filter (\<lambda>g. grantedTo g = grantedTo input \<and> capabilityName g = capabilityName input
                        \<and> revokedAt g = None) (grants s')) = Some g
       \<and> clock s' = clock s \<and> length (grants s') \<le> Suc (length (grants s))"
proof -
  let ?row = "input\<lparr>grantId := uuid (draws s), revokedAt := None\<rparr>"
  have self: "equivalentGrant dateOf (clock s) input ?row"
    using assms(2) by (simp add: equivalentGrant_def sameConstraints_def)
  have "wpH (grant uuid dateOf input)
     (\<lambda>g s'. find (equivalentGrant dateOf (clock s) input)
           (filter (\<lambda>g. grantedTo g = grantedTo input \<and> capabilityName g = capabilityName input
                        \<and> revokedAt g = None) (grants s')) = Some g
       \<and> clock s' = clock s \<and> length (grants s') \<le> Suc (length (grants s))) (\<lambda>_ _. True) s"
    using self by (simp add: grant_wp find_append Let_def split: sum.split option.split)
  from wpH_I [OF this assms(1)] show ?thesis .
qed

section \<open>Properties\<close>

text \<open>
  Granting is idempotent and effective. Issuing the same grant again at the same
  instant returns the row of the first call and inserts nothing; whatever row a grant
  returns is live, so the capability check of its holder passes for every scope asked for.
\<close>

theorem grant_idempotent_and_effective:
  assumes first: "grant uuid dateOf input s = (Inr g, s')"
    and live: "\<not> isPastExpiry dateOf (constraints input) (clock s)"
    and typed: "\<forall>e. json_member ''expiresAt'' (constraints g) = Some e \<longrightarrow> (\<exists>t. e = JStr t)"
    and req: "req \<in> set (scope input)"
  shows "grant uuid dateOf input s' = (Inr g, s')
       \<and> checkCapability dateOf (grantedTo input) (capabilityName input) req s' = (Inr True, s')"
proof -
  note f = grant_returns_equivalent [OF first live]
  from first obtain u where "assertCanonicalCapabilityGrant (capabilityName input) (scope input) = Inr u"
    by (auto simp: grant_def seqH_def liftH_def split: sum.splits)
  with f have again: "grant uuid dateOf input s' = (Inr g, s')"
    by (simp add: grant_def createGrant_def findActiveGrants_def seqH_def liftH_def readH_def ret_def)
  from f have g: "g \<in> set (grants s')" "grantedTo g = grantedTo input"
    "capabilityName g = capabilityName input" "revokedAt g = None"
    and eq: "equivalentGrant dateOf (clock s) input g"
    by (auto dest: find_SomeD)
  from eq req typed have "grantCovers dateOf (clock s) req g"
    by (auto simp: equivalentGrant_def grantCovers_def isPastExpiry_def split: option.splits)
  with f g have "permitted dateOf (grantedTo input) (capabilityName input) req s'"
    by (auto simp: permitted_def coveredBy_def)
  with again show ?thesis by (simp add: checkCapability_result)
qed

theorem grant_idempotent_and_effective_witness:
  "let input = \<lparr>grantId = [], grantedTo = ''alice'', capabilityName = ''settlement'',
                scope = [''settlement.escrow.released''], constraints = JNull,
                issuedBy = ''root'', revokedAt = None\<rparr>;
       s = \<lparr>clock = 5, draws = 0, grants = []\<rparr>
   in fst (checkCapability (\<lambda>_. None) ''alice'' ''settlement'' ''settlement.escrow.released''
             (snd (grant show_nat (\<lambda>_. None) input s))) = Inr True"
proof -
  let ?input = "\<lparr>grantId = [], grantedTo = ''alice'', capabilityName = ''settlement'',
                scope = [''settlement.escrow.released''], constraints = JNull,
                issuedBy = ''root'', revokedAt = None\<rparr>"
  let ?s = "\<lparr>clock = 5, draws = 0, grants = []\<rparr>"
  let ?g = "?input\<lparr>grantId := show_nat 0\<rparr>"
  let ?t = "?s\<lparr>draws := 1, grants := [?g]\<rparr>"
  have "grant show_nat (\<lambda>_. None) ?input ?s = (Inr ?g, ?t)"
    by (simp add: grant_def createGrant_def findActiveGrants_def seqH_def liftH_def readH_def
        ret_def writeH_def assertCanonicalCapabilityGrant_def CANONICAL_CAPABILITY_SCOPES_def)
  from grant_idempotent_and_effective [OF this, of "''settlement.escrow.released''"] this
  show ?thesis by (simp add: isPastExpiry_def Let_def)
qed

end
