(* ===== verification/Interfaces.thy ===== *)
theory Interfaces
  imports Sails_Prelude
begin

text \<open>
  The contracts that several components of the program share, as locales: a table of
  allowed status transitions that only ever moves forward, the conditional update with
  which every service claims a transition, and the hash chain of an audit log. Their
  lemmas are proved here once; each component interprets them on its own definitions.
\<close>

section \<open>Forward-moving transition tables\<close>

text \<open>
  A lifecycle given by a table of successors and a rank that every listed step increases.
\<close>

locale forward_lifecycle =
  fixes allowed :: "'st \<Rightarrow> 'st list"
    and rank :: "'st \<Rightarrow> nat"
    and top :: nat
  assumes forward: "t \<in> set (allowed s) \<Longrightarrow> rank s < rank t"
    and bounded: "rank s \<le> top"
begin

fun walk :: "'st \<Rightarrow> 'st list \<Rightarrow> bool" where
  "walk s [] = True"
| "walk s (t # ts) = (t \<in> set (allowed s) \<and> walk t ts)"

lemma walk_ranks: "walk s ts \<Longrightarrow> t \<in> set ts \<Longrightarrow> rank s < rank t"
proof (induction ts arbitrary: s)
  case (Cons u ts)
  then show ?case using forward [of u s] less_trans by fastforce
qed simp

lemma walk_never_revisits: "walk s ts \<Longrightarrow> distinct (s # ts)"
proof (induction ts arbitrary: s)
  case (Cons u ts)
  then have "distinct (u # ts)" and "s \<notin> set (u # ts)"
    using walk_ranks [of s "u # ts" s] by auto
  then show ?case by simp
qed simp

lemma walk_length: "walk s ts \<Longrightarrow> length ts + rank s \<le> top"
proof (induction ts arbitrary: s)
  case Nil
  then show ?case using bounded by simp
next
  case (Cons u ts)
  then have "length ts + rank u \<le> top" by simp
  moreover have "rank s < rank u" using Cons.prems forward by simp
  ultimately show ?case by simp
qed

lemma no_self_step: "s \<notin> set (allowed s)"
  using forward by blast

end

section \<open>Claiming a transition by a conditional update\<close>

text \<open>
  \<^verbatim>\<open>updateMany({where: {id, status: from}, data: {status: to}})\<close> and its affected-row
  count: the update happens for the caller whose expected status is still the stored one.
\<close>

locale status_claim =
  fixes claim :: "'id \<Rightarrow> 'st \<Rightarrow> 'st \<Rightarrow> 's \<Rightarrow> nat \<times> 's"
    and status_of :: "'s \<Rightarrow> 'id \<Rightarrow> 'st option"
  assumes claim_count: "fst (claim i f t s) = (if status_of s i = Some f then 1 else 0)"
    and claim_lost: "status_of s i \<noteq> Some f \<Longrightarrow> snd (claim i f t s) = s"
    and claim_won: "status_of s i = Some f \<Longrightarrow> status_of (snd (claim i f t s)) = (status_of s)(i \<mapsto> t)"
begin

lemma claim_wins_iff: "fst (claim i f t s) = 1 \<longleftrightarrow> status_of s i = Some f"
  by (simp add: claim_count)

lemma second_claim_loses:
  assumes "fst (claim i f t s) = 1" and "t \<noteq> f"
  shows "fst (claim i f t' (snd (claim i f t s))) = 0"
  using assms by (simp add: claim_count claim_won split: if_splits)

lemma claim_frame: "j \<noteq> i \<Longrightarrow> status_of (snd (claim i f t s)) j = status_of s j"
  by (cases "status_of s i = Some f") (simp_all add: claim_won claim_lost)

lemma claim_then_revert:
  assumes "status_of s i = Some f"
  shows "status_of (snd (claim i t f (snd (claim i f t s)))) = status_of s"
  using assms by (auto simp: claim_won fun_upd_idem_iff)

lemma revert_by_non_owner:
  assumes "status_of s i \<noteq> Some t"
  shows "snd (claim i t f s) = s"
  using assms by (rule claim_lost)

end

section \<open>Hash chains\<close>

text \<open>
  An append-only log in which every entry carries the hash of its predecessor. An entry is
  a body and the two stored hashes; rows written before the chain existed carry no entry
  hash and are skipped. \<open>h\<close> hashes a body together with the previous hash.
\<close>

record 'b chain_row =
  body :: 'b
  prev_hash :: "string option"
  entry_hash :: "string option"

locale hash_chain =
  fixes h :: "'b \<Rightarrow> string \<Rightarrow> string"
    and genesis :: string
begin

definition appended :: "'b \<Rightarrow> 'b chain_row list \<Rightarrow> 'b chain_row" where
  "appended b rows =
     (let prev = (case rows of [] \<Rightarrow> genesis
                   | _ \<Rightarrow> (case entry_hash (last rows) of None \<Rightarrow> genesis | Some e \<Rightarrow> e))
      in \<lparr>body = b, prev_hash = Some prev, entry_hash = Some (h b prev)\<rparr>)"

fun chain_ok :: "string \<Rightarrow> 'b chain_row list \<Rightarrow> bool" where
  "chain_ok p [] = True"
| "chain_ok p (r # rs) =
     (case entry_hash r of
        None \<Rightarrow> chain_ok p rs
      | Some e \<Rightarrow> (let q = (case prev_hash r of None \<Rightarrow> genesis | Some x \<Rightarrow> x)
                  in e = h (body r) q \<and> q = p \<and> chain_ok e rs))"

fun end_hash :: "string \<Rightarrow> 'b chain_row list \<Rightarrow> string" where
  "end_hash p [] = p"
| "end_hash p (r # rs) = (case entry_hash r of None \<Rightarrow> end_hash p rs | Some e \<Rightarrow> end_hash e rs)"

text \<open>Rows without a hash come first: the migration added the columns once.\<close>

definition migrated :: "'b chain_row list \<Rightarrow> bool" where
  "migrated rows \<longleftrightarrow>
     (\<exists>old new. rows = old @ new \<and> list_all (\<lambda>r. entry_hash r = None) old
                \<and> list_all (\<lambda>r. entry_hash r \<noteq> None) new)"

lemma chain_ok_append: "chain_ok p (xs @ ys) \<longleftrightarrow> chain_ok p xs \<and> chain_ok (end_hash p xs) ys"
  by (induction xs arbitrary: p) (auto simp: Let_def split: option.splits)

lemma end_hash_append: "end_hash p (xs @ ys) = end_hash (end_hash p xs) ys"
  by (induction xs arbitrary: p) (auto split: option.splits)

lemma end_hash_unhashed: "list_all (\<lambda>r. entry_hash r = None) rs \<Longrightarrow> end_hash p rs = p"
  by (induction rs) auto

lemma chain_ok_unhashed: "list_all (\<lambda>r. entry_hash r = None) rs \<Longrightarrow> chain_ok p rs"
  by (induction rs) auto

lemma end_hash_migrated:
  assumes "migrated rows"
  shows "end_hash genesis rows =
    (case rows of [] \<Rightarrow> genesis
     | _ \<Rightarrow> (case entry_hash (last rows) of None \<Rightarrow> genesis | Some e \<Rightarrow> e))"
proof -
  from assms obtain old new where rows: "rows = old @ new"
    and old: "list_all (\<lambda>r. entry_hash r = None) old"
    and new: "list_all (\<lambda>r. entry_hash r \<noteq> None) new"
    by (auto simp: migrated_def)
  show ?thesis
  proof (cases new rule: rev_cases)
    case Nil
    with old show ?thesis
      by (cases old rule: rev_cases)
        (auto simp: rows end_hash_unhashed end_hash_append list.case_eq_if)
  next
    case (snoc ys y)
    with new obtain e where "entry_hash y = Some e" by auto
    with snoc show ?thesis by (simp add: rows end_hash_append list.case_eq_if)
  qed
qed

lemma append_preserves_chain:
  assumes "migrated rows" and "chain_ok genesis rows"
  shows "chain_ok genesis (rows @ [appended b rows])"
  using assms by (simp add: chain_ok_append appended_def Let_def end_hash_migrated)

lemma append_migrated: "migrated rows \<Longrightarrow> migrated (rows @ [appended b rows])"
proof -
  assume "migrated rows"
  then obtain old new where rows: "rows = old @ new"
    and old: "list_all (\<lambda>r. entry_hash r = None) old"
    and new: "list_all (\<lambda>r. entry_hash r \<noteq> None) new"
    by (auto simp: migrated_def)
  from new have "list_all (\<lambda>r. entry_hash r \<noteq> None) (new @ [appended b rows])"
    by (simp add: appended_def Let_def)
  with rows old show ?thesis unfolding migrated_def by (metis append_assoc)
qed

lemma append_keeps_log:
  assumes "migrated rows" and "chain_ok genesis rows"
  shows "migrated (rows @ [appended b rows]) \<and> chain_ok genesis (rows @ [appended b rows])"
  using assms append_migrated append_preserves_chain by blast

text \<open>
  Tamper evidence. Let the hash be injective on the previous hashes that occur (those of
  the set \<open>G\<close>), and let no hash be the start value. Then two valid chains of hashed rows
  that end in the same hash hold the same bodies.
\<close>

lemma end_hash_is_hash:
  assumes "list_all (\<lambda>r. entry_hash r \<noteq> None) xs" and "chain_ok p xs" and "xs \<noteq> []"
  shows "end_hash p xs = h (body (last xs)) (end_hash p (butlast xs))"
proof -
  obtain ys y where xs: "xs = ys @ [y]" using assms(3) by (cases xs rule: rev_cases) auto
  with assms(1) obtain e where "entry_hash y = Some e" by auto
  with assms(2) xs show ?thesis by (auto simp: chain_ok_append end_hash_append Let_def)
qed

lemma chain_bodies_unique:
  assumes inj: "\<And>b p b' p'. p \<in> G \<Longrightarrow> p' \<in> G \<Longrightarrow> h b p = h b' p' \<Longrightarrow> b = b' \<and> p = p'"
    and G: "genesis \<in> G" "\<And>b p. h b p \<in> G" and fresh: "\<And>b p. h b p \<noteq> genesis"
    and "list_all (\<lambda>r. entry_hash r \<noteq> None) xs" and "list_all (\<lambda>r. entry_hash r \<noteq> None) ys"
    and "chain_ok genesis xs" and "chain_ok genesis ys"
    and "end_hash genesis xs = end_hash genesis ys"
  shows "map body xs = map body ys"
  using assms(5-)
proof (induction xs arbitrary: ys rule: rev_induct)
  case Nil
  have "ys = []"
  proof (rule ccontr)
    assume "ys \<noteq> []"
    with Nil have "h (body (last ys)) (end_hash genesis (butlast ys)) = genesis"
      using end_hash_is_hash [of ys genesis] by simp
    with fresh show False by blast
  qed
  then show ?case by simp
next
  case (snoc x xs)
  have in_G: "end_hash genesis zs \<in> G"
    if "list_all (\<lambda>r. entry_hash r \<noteq> None) zs" "chain_ok genesis zs" for zs
    using that G end_hash_is_hash [of zs genesis] by (cases "zs = []") auto
  have e: "end_hash genesis (xs @ [x]) = h (body x) (end_hash genesis xs)"
    using snoc.prems end_hash_is_hash [of "xs @ [x]" genesis] by simp
  show ?case
  proof (cases ys rule: rev_cases)
    case Nil
    with e snoc.prems have "h (body x) (end_hash genesis xs) = genesis" by simp
    with fresh show ?thesis by blast
  next
    case (snoc vs v)
    then have "end_hash genesis ys = h (body v) (end_hash genesis vs)"
      using snoc.prems(2,4) end_hash_is_hash [of ys genesis] by simp
    with e snoc snoc.prems in_G [of xs] in_G [of vs]
    have "body x = body v" and "end_hash genesis xs = end_hash genesis vs"
      using inj by (auto simp: chain_ok_append)
    with snoc snoc.prems snoc.IH [of vs] show ?thesis by (simp add: chain_ok_append)
  qed
qed

end

end
