(* ===== verification/Intent_Engine.thy ===== *)
theory Intent_Engine
  imports Interfaces Capability_Registry Semantic_Core
begin

text \<open>
  The intent engine: \<^verbatim>\<open>src/core/state-machine.ts\<close> (statuses, transition table,
  expiry), \<^verbatim>\<open>src/core/intent-repository.ts\<close>, \<^verbatim>\<open>src/core/coordination-engine.ts\<close>,
  the sanity check of \<^verbatim>\<open>src/core/policy-engine.ts\<close>, the trade handler of
  \<^verbatim>\<open>src/modules/open-p2p/intent-handler.ts\<close> and \<^verbatim>\<open>src/core/intent-engine.ts\<close>
  itself (create, transition, cancel, and the hash-chained audit log). SHA-256, the
  identifier generator, the conversion \<^verbatim>\<open>Number(x)\<close> and the date parser are parameters.
\<close>

section \<open>Statuses\<close>

datatype IntentStatus =
    I_CREATED | I_VALIDATED | I_COORDINATED | I_DISCOVERING | I_MATCHED | I_NEGOTIATING
  | I_COMMITTED | I_SETTLING | I_FULFILLED | I_EXPIRED | I_CANCELLED | I_FAILED

fun status_name :: "IntentStatus \<Rightarrow> string" where
  "status_name I_CREATED = ''CREATED''"
| "status_name I_VALIDATED = ''VALIDATED''"
| "status_name I_COORDINATED = ''COORDINATED''"
| "status_name I_DISCOVERING = ''DISCOVERING''"
| "status_name I_MATCHED = ''MATCHED''"
| "status_name I_NEGOTIATING = ''NEGOTIATING''"
| "status_name I_COMMITTED = ''COMMITTED''"
| "status_name I_SETTLING = ''SETTLING''"
| "status_name I_FULFILLED = ''FULFILLED''"
| "status_name I_EXPIRED = ''EXPIRED''"
| "status_name I_CANCELLED = ''CANCELLED''"
| "status_name I_FAILED = ''FAILED''"

fun INTENT_TRANSITIONS :: "IntentStatus \<Rightarrow> IntentStatus list" where
  "INTENT_TRANSITIONS I_CREATED = [I_VALIDATED, I_CANCELLED, I_EXPIRED]"
| "INTENT_TRANSITIONS I_VALIDATED = [I_COORDINATED, I_CANCELLED, I_EXPIRED]"
| "INTENT_TRANSITIONS I_COORDINATED = [I_DISCOVERING, I_CANCELLED, I_EXPIRED]"
| "INTENT_TRANSITIONS I_DISCOVERING = [I_MATCHED, I_EXPIRED, I_CANCELLED]"
| "INTENT_TRANSITIONS I_MATCHED = [I_NEGOTIATING, I_CANCELLED]"
| "INTENT_TRANSITIONS I_NEGOTIATING = [I_COMMITTED, I_CANCELLED]"
| "INTENT_TRANSITIONS I_COMMITTED = [I_SETTLING, I_FAILED]"
| "INTENT_TRANSITIONS I_SETTLING = [I_FULFILLED, I_FAILED]"
| "INTENT_TRANSITIONS I_FULFILLED = []"
| "INTENT_TRANSITIONS I_EXPIRED = []"
| "INTENT_TRANSITIONS I_CANCELLED = []"
| "INTENT_TRANSITIONS I_FAILED = []"

definition assertValidTransition :: "IntentStatus \<Rightarrow> IntentStatus \<Rightarrow> unit result" where
  "assertValidTransition from to =
     (if to \<in> set (INTENT_TRANSITIONS from) then Inr ()
      else Inl (GenericError ''Invalid Intent transition''))"

definition EXPIRABLE_STATES :: "IntentStatus list" where
  "EXPIRABLE_STATES = [I_CREATED, I_VALIDATED, I_COORDINATED, I_DISCOVERING, I_MATCHED,
                       I_NEGOTIATING, I_COMMITTED, I_SETTLING]"

definition isExpired :: "int \<Rightarrow> IntentStatus \<Rightarrow> int option \<Rightarrow> bool" where
  "isExpired now status expiresAt \<longleftrightarrow>
     status \<in> set EXPIRABLE_STATES \<and> (case expiresAt of None \<Rightarrow> False | Some e \<Rightarrow> e \<le> now)"

section \<open>Payload validation\<close>

datatype IntentType = TradeIntent | PaymentIntent | SwapIntent | LoanIntent | EarnIntent | AgentIntent

datatype js_value = JsUndefined | JsString string | JsNumber js_number | JsOther

record TradeIntentPayload =
  p_asset :: js_value
  p_side :: js_value
  p_minValue :: js_value
  p_maxValue :: js_value
  p_minPriceUsd :: js_value
  p_maxPriceUsd :: js_value
  p_minReputationRating :: js_value

fun is_js_string :: "js_value \<Rightarrow> bool" where
  "is_js_string (JsString _) = True"
| "is_js_string _ = False"

text \<open>The structural check of the one registered handler; the result is its list of errors.\<close>

definition validateTradeIntent :: "TradeIntentPayload \<Rightarrow> string list" where
  "validateTradeIntent p =
     (if \<not> is_js_string (p_asset p) \<or> p_asset p = JsString [] then [''asset is required''] else [])
   @ (if p_side p \<noteq> JsString ''BUY'' \<and> p_side p \<noteq> JsString ''SELL'' then [''side must be BUY or SELL''] else [])
   @ (if p_maxValue p \<noteq> JsUndefined \<and> \<not> is_js_string (p_maxValue p) then [''maxValue must be a decimal string''] else [])
   @ (if p_minValue p \<noteq> JsUndefined \<and> \<not> is_js_string (p_minValue p) then [''minValue must be a decimal string''] else [])
   @ (if p_maxPriceUsd p \<noteq> JsUndefined \<and> \<not> is_js_string (p_maxPriceUsd p) then [''maxPriceUsd must be a decimal string''] else [])
   @ (if p_minPriceUsd p \<noteq> JsUndefined \<and> \<not> is_js_string (p_minPriceUsd p) then [''minPriceUsd must be a decimal string''] else [])
   @ (case p_minReputationRating p of
        JsUndefined \<Rightarrow> []
      | JsNumber (Num r) \<Rightarrow> if r < 0 \<or> 5 < r then [''minReputationRating must be between 0 and 5''] else []
      | _ \<Rightarrow> [''minReputationRating must be a finite number''])"

definition MAX_SANE_TRADE_VALUE :: rat where
  "MAX_SANE_TRADE_VALUE = 100000000"

definition field_sanity :: "(js_value \<Rightarrow> js_number) \<Rightarrow> js_value \<Rightarrow> string list" where
  "field_sanity toNumber raw =
     (if raw = JsUndefined then []
      else case toNumber raw of
             Num n \<Rightarrow> (if n < 0 then [''cannot be negative''] else [])
                     @ (if n > MAX_SANE_TRADE_VALUE then [''exceeds sane bounds''] else [])
           | _ \<Rightarrow> [''is not a valid decimal string''])"

definition pair_sanity :: "(js_value \<Rightarrow> js_number) \<Rightarrow> js_value \<Rightarrow> js_value \<Rightarrow> string list" where
  "pair_sanity toNumber lo hi =
     (if lo = JsUndefined \<or> hi = JsUndefined then []
      else case (toNumber lo, toNumber hi) of
             (Num a, Num b) \<Rightarrow> if a > b then [''minimum cannot exceed maximum''] else []
           | _ \<Rightarrow> [])"

definition validateFinancialSanity :: "(js_value \<Rightarrow> js_number) \<Rightarrow> TradeIntentPayload \<Rightarrow> string list" where
  "validateFinancialSanity toNumber p =
     field_sanity toNumber (p_minValue p) @ field_sanity toNumber (p_maxValue p)
   @ field_sanity toNumber (p_minPriceUsd p) @ field_sanity toNumber (p_maxPriceUsd p)
   @ pair_sanity toNumber (p_minValue p) (p_maxValue p)
   @ pair_sanity toNumber (p_minPriceUsd p) (p_maxPriceUsd p)"

section \<open>State\<close>

record intent_row =
  ir_type :: IntentType
  ir_participantId :: string
  ir_agentId :: "string option"
  ir_moduleId :: string
  ir_payload :: TradeIntentPayload
  ir_status :: IntentStatus
  ir_expiresAt :: "int option"
  ir_idempotencyClaimId :: "string option"

record intent_event_body =
  ie_from :: "IntentStatus option"
  ie_to :: IntentStatus
  ie_triggeredBy :: string

text \<open>An audit row: its intent, its note (which is not hashed) and the chained body.\<close>

type_synonym intent_event = "string \<times> string option \<times> intent_event_body chain_row"

record engine_state = registry_state +
  intents :: "string \<rightharpoonup> intent_row"
  intent_claims :: "string \<rightharpoonup> string"
  intent_events :: "intent_event list"
  bus :: "(string \<times> string) list"

text \<open>
  What the engine takes from its environment: the registered handlers by intent type, the
  configuration flag, and the library functions.
\<close>

record engine_env =
  sha256 :: "string \<Rightarrow> string"
  uuid :: "nat \<Rightarrow> string"
  dateOf :: "json \<Rightarrow> int option"
  toNumber :: "js_value \<Rightarrow> js_number"
  enforceCapabilities :: bool
  handlers :: "IntentType \<Rightarrow> (TradeIntentPayload \<Rightarrow> string list) option"

section \<open>Repository\<close>

definition rows_of :: "string \<Rightarrow> intent_event list \<Rightarrow> intent_event_body chain_row list" where
  "rows_of i evs = map (snd \<circ> snd) (filter (\<lambda>e. fst e = i) evs)"

definition findIntentById :: "string \<Rightarrow> ('a engine_state_scheme, intent_row option) handler" where
  "findIntentById i = readH (\<lambda>s. intents s i)"

definition findByIdempotencyClaimId :: "string \<Rightarrow> ('a engine_state_scheme, intent_row option) handler" where
  "findByIdempotencyClaimId c =
     readH (\<lambda>s. case intent_claims s c of None \<Rightarrow> None | Some i \<Rightarrow> intents s i)"

text \<open>
  The column \<^verbatim>\<open>idempotencyClaimId\<close> is unique: a second insert with the same
  value fails. \<open>intent_claims\<close> is that unique index.
\<close>

definition claim_taken :: "string option \<Rightarrow> 'a engine_state_scheme \<Rightarrow> bool" where
  "claim_taken c s \<longleftrightarrow> (case c of None \<Rightarrow> False | Some k \<Rightarrow> intent_claims s k \<noteq> None)"

definition createIntentRow :: "engine_env \<Rightarrow> intent_row \<Rightarrow> ('a engine_state_scheme, string) handler" where
  "createIntentRow env row =
     seqH (readH (\<lambda>s. (uuid env (draws s), claim_taken (ir_idempotencyClaimId row) s))) (\<lambda>(i, taken).
     seqH (guardH (\<not> taken) (DatabaseError ''P2002'')) (\<lambda>_.
     seqH (writeH (\<lambda>s. s\<lparr>intents := (intents s)(i \<mapsto> row), draws := Suc (draws s),
             intent_claims := (case ir_idempotencyClaimId row of None \<Rightarrow> intent_claims s
                               | Some k \<Rightarrow> (intent_claims s)(k \<mapsto> i))\<rparr>)) (\<lambda>_. ret i)))"

definition claimIntentStatus ::
    "string \<Rightarrow> IntentStatus \<Rightarrow> IntentStatus \<Rightarrow> 'a engine_state_scheme \<Rightarrow> nat \<times> 'a engine_state_scheme" where
  "claimIntentStatus i from to s =
     (case intents s i of
        Some r \<Rightarrow> if ir_status r = from
                  then (1, s\<lparr>intents := (intents s)(i \<mapsto> r\<lparr>ir_status := to\<rparr>)\<rparr>) else (0, s)
      | None \<Rightarrow> (0, s))"

definition claimTransition :: "string \<Rightarrow> IntentStatus \<Rightarrow> IntentStatus \<Rightarrow> ('a engine_state_scheme, nat) handler" where
  "claimTransition i from to s = (case claimIntentStatus i from to s of (n, s') \<Rightarrow> (Inr n, s'))"

definition findLastEvent :: "string \<Rightarrow> ('a engine_state_scheme, intent_event_body chain_row option) handler" where
  "findLastEvent i =
     readH (\<lambda>s. let rows = rows_of i (intent_events s) in if rows = [] then None else Some (last rows))"

definition createEvent ::
    "string \<Rightarrow> string option \<Rightarrow> intent_event_body chain_row \<Rightarrow> ('a engine_state_scheme, unit) handler" where
  "createEvent i note row = writeH (\<lambda>s. s\<lparr>intent_events := intent_events s @ [(i, note, row)]\<rparr>)"

section \<open>Engine\<close>

definition intent_entry :: "intent_event_body \<Rightarrow> string \<Rightarrow> string" where
  "intent_entry b prev =
     (case ie_from b of None \<Rightarrow> [] | Some f \<Rightarrow> status_name f) @ ''|'' @ status_name (ie_to b)
     @ ''|'' @ ie_triggeredBy b @ ''|'' @ prev"

definition intent_hash :: "(string \<Rightarrow> string) \<Rightarrow> intent_event_body \<Rightarrow> string \<Rightarrow> string" where
  "intent_hash sha b prev = sha (intent_entry b prev)"

definition writeIntentEvent ::
    "engine_env \<Rightarrow> string \<Rightarrow> IntentStatus option \<Rightarrow> IntentStatus \<Rightarrow> string \<Rightarrow> string option
       \<Rightarrow> ('a engine_state_scheme, unit) handler" where
  "writeIntentEvent env i from to by note =
     seqH (findLastEvent i) (\<lambda>l.
       let prev = (case l of None \<Rightarrow> ''genesis''
                    | Some r \<Rightarrow> (case entry_hash r of None \<Rightarrow> ''genesis'' | Some e \<Rightarrow> e));
           b = \<lparr>ie_from = from, ie_to = to, ie_triggeredBy = by\<rparr>
       in createEvent i note \<lparr>body = b, prev_hash = Some prev, entry_hash = Some (intent_hash (sha256 env) b prev)\<rparr>)"

definition emitEvent :: "string \<Rightarrow> string \<Rightarrow> ('a engine_state_scheme, unit) handler" where
  "emitEvent name correlationId = writeH (\<lambda>s. s\<lparr>bus := bus s @ [(name, correlationId)]\<rparr>)"

text \<open>The trade handler reacts to a new intent with nothing.\<close>

definition onCreated :: "intent_row option \<Rightarrow> ('a engine_state_scheme, unit) handler" where
  "onCreated intent = ret ()"

text \<open>
  The part of \<^verbatim>\<open>transition\<close> after the expiry check. The recursive call with EXPIRED
  reads the record again, skips the expiry branch and runs this part.
\<close>

definition advanceIntent ::
    "engine_env \<Rightarrow> string \<Rightarrow> IntentStatus \<Rightarrow> IntentStatus \<Rightarrow> string \<Rightarrow> string \<Rightarrow> string option
       \<Rightarrow> ('a engine_state_scheme, intent_row option) handler" where
  "advanceIntent env i currentStatus toStatus by eventName note =
     seqH (liftH (assertValidTransition currentStatus toStatus)) (\<lambda>_.
     seqH (claimTransition i currentStatus toStatus) (\<lambda>claimedCount.
     seqH (guardH (claimedCount \<noteq> 0) (ValidationError ''already transitioned by a concurrent request'')) (\<lambda>_.
     seqH (findIntentById i) (\<lambda>updated.
     seqH (writeIntentEvent env i (Some currentStatus) toStatus by note) (\<lambda>_.
     seqH (emitEvent eventName i) (\<lambda>_. ret updated))))))"

definition expireIntent :: "engine_env \<Rightarrow> string \<Rightarrow> ('a engine_state_scheme, intent_row option) handler" where
  "expireIntent env i =
     seqH (findIntentById i) (\<lambda>r0.
     seqH (requireH r0 (NotFoundError ''Intent'' i)) (\<lambda>record.
       advanceIntent env i (ir_status record) I_EXPIRED ''system:expiry-check'' ''intent.expired'' None))"

definition transition ::
    "engine_env \<Rightarrow> string \<Rightarrow> IntentStatus \<Rightarrow> string \<Rightarrow> string \<Rightarrow> string option
       \<Rightarrow> ('a engine_state_scheme, intent_row option) handler" where
  "transition env i toStatus by eventName note =
     seqH (findIntentById i) (\<lambda>r0.
     seqH (requireH r0 (NotFoundError ''Intent'' i)) (\<lambda>record.
     seqH (readH clock) (\<lambda>now.
       if isExpired now (ir_status record) (ir_expiresAt record) \<and> toStatus \<noteq> I_EXPIRED
       then seqH (expireIntent env i) (\<lambda>_. throw (ValidationError ''expired before transitioning''))
       else advanceIntent env i (ir_status record) toStatus by eventName note)))"

definition validateStructure :: "engine_env \<Rightarrow> IntentType \<Rightarrow> TradeIntentPayload \<Rightarrow> string list" where
  "validateStructure env ty p =
     (case handlers env ty of
        None \<Rightarrow> [''Unsupported intent type (no handler registered yet)'']
      | Some validate \<Rightarrow> validate p)"

definition decide :: "string \<Rightarrow> ('a engine_state_scheme, string) handler" where
  "decide i =
     seqH (findIntentById i) (\<lambda>r0.
     seqH (requireH r0 (NotFoundError ''Intent'' i)) (\<lambda>record. ret (ir_moduleId record)))"

definition createIntent ::
    "engine_env \<Rightarrow> IntentType \<Rightarrow> TradeIntentPayload \<Rightarrow> string \<Rightarrow> string option \<Rightarrow> string option
       \<Rightarrow> ('a engine_state_scheme, intent_row option) handler" where
  "createIntent env ty payload participantId agentId idempotencyClaimId =
     seqH (guardH (validateStructure env ty payload = []) (ValidationError ''Malformed Intent rejected at entry boundary'')) (\<lambda>_.
     seqH (guardH (validateFinancialSanity (toNumber env) payload = []) (ValidationError ''Intent failed financial sanity check'')) (\<lambda>_.
     seqH (if enforceCapabilities env
           then seqH (checkCapability (dateOf env) participantId (the (CAPABILITY_IMPLEMENTATIONS ''openp2p'')) ''intent.created'')
                  (\<lambda>allowed. guardH allowed (ForbiddenError ''no active capability grant covering intent.created''))
           else ret ()) (\<lambda>_.
     seqH (createIntentRow env \<lparr>ir_type = ty, ir_participantId = participantId, ir_agentId = agentId,
             ir_moduleId = ''openp2p'', ir_payload = payload, ir_status = I_CREATED,
             ir_expiresAt = None, ir_idempotencyClaimId = idempotencyClaimId\<rparr>) (\<lambda>i.
     seqH (writeIntentEvent env i None I_CREATED participantId None) (\<lambda>_.
     seqH (emitEvent ''intent.created'' i) (\<lambda>_.
     seqH (transition env i I_VALIDATED participantId ''intent.validated'' None) (\<lambda>validated.
     seqH (decide i) (\<lambda>_.
     seqH (case handlers env ty of None \<Rightarrow> ret () | Some _ \<Rightarrow> onCreated validated) (\<lambda>_.
       transition env i I_COORDINATED participantId ''intent.coordinated'' None)))))))))"

definition cancel :: "engine_env \<Rightarrow> string \<Rightarrow> string \<Rightarrow> ('a engine_state_scheme, unit) handler" where
  "cancel env i cancelledBy =
     seqH (findIntentById i) (\<lambda>r0.
     seqH (requireH r0 (NotFoundError ''Intent'' i)) (\<lambda>record.
     seqH (guardH (ir_participantId record = cancelledBy) (ForbiddenError ''does not own Intent'')) (\<lambda>_.
     seqH (readH clock) (\<lambda>now.
       if isExpired now (ir_status record) (ir_expiresAt record)
       then seqH (expireIntent env i) (\<lambda>_. ret ())
       else seqH (transition env i I_CANCELLED cancelledBy ''intent.cancelled'' None) (\<lambda>_. ret ())))))"

section \<open>The shared contracts\<close>

fun intent_rank :: "IntentStatus \<Rightarrow> nat" where
  "intent_rank I_CREATED = 0"
| "intent_rank I_VALIDATED = 1"
| "intent_rank I_COORDINATED = 2"
| "intent_rank I_DISCOVERING = 3"
| "intent_rank I_MATCHED = 4"
| "intent_rank I_NEGOTIATING = 5"
| "intent_rank I_COMMITTED = 6"
| "intent_rank I_SETTLING = 7"
| "intent_rank _ = 8"

interpretation intent_life: forward_lifecycle INTENT_TRANSITIONS intent_rank 8
proof unfold_locales
  fix s t :: IntentStatus
  show "intent_rank s < intent_rank t" if "t \<in> set (INTENT_TRANSITIONS s)"
    using that by (cases s) auto
  show "intent_rank s \<le> 8" by (cases s) simp_all
qed

interpretation intent_claim: status_claim claimIntentStatus "\<lambda>s i. map_option ir_status (intents s i)"
  by unfold_locales (auto simp: claimIntentStatus_def split: option.splits)

interpretation intent_chain: hash_chain "intent_hash sha" "''genesis''" for sha .

section \<open>What the operations do\<close>

definition advanced ::
    "engine_env \<Rightarrow> string \<Rightarrow> intent_row \<Rightarrow> IntentStatus \<Rightarrow> string \<Rightarrow> string \<Rightarrow> string option
       \<Rightarrow> 'a engine_state_scheme \<Rightarrow> 'a engine_state_scheme" where
  "advanced env i r to by ev note s =
     s\<lparr>intents := (intents s)(i \<mapsto> r\<lparr>ir_status := to\<rparr>),
       intent_events := intent_events s @ [(i, note,
         intent_chain.appended (sha256 env) \<lparr>ie_from = Some (ir_status r), ie_to = to, ie_triggeredBy = by\<rparr>
           (rows_of i (intent_events s)))],
       bus := bus s @ [(ev, i)]\<rparr>"

lemma wp_writeIntentEvent [wp_eqs]:
  "wpH (writeIntentEvent env i from to by note) Q E s =
     Q () (s\<lparr>intent_events := intent_events s @ [(i, note,
             intent_chain.appended (sha256 env) \<lparr>ie_from = from, ie_to = to, ie_triggeredBy = by\<rparr>
               (rows_of i (intent_events s)))]\<rparr>)"
  by (simp add: writeIntentEvent_def findLastEvent_def createEvent_def wp_eqs Let_def
      intent_chain.appended_def list.case_eq_if)

lemma wp_findIntentById [wp_eqs]: "wpH (findIntentById i) Q E s = Q (intents s i) s"
  by (simp add: findIntentById_def wp_eqs)

lemma wp_emitEvent [wp_eqs]: "wpH (emitEvent n c) Q E s = Q () (s\<lparr>bus := bus s @ [(n, c)]\<rparr>)"
  by (simp add: emitEvent_def wp_eqs)

lemma wp_claimTransition [wp_eqs]:
  "wpH (claimTransition i f t) Q E s =
     Q (fst (claimIntentStatus i f t s)) (snd (claimIntentStatus i f t s))"
  by (simp add: claimTransition_def wpH_def split: prod.split)

lemma advance_wp:
  assumes "intents s i = Some r"
  shows "wpH (advanceIntent env i (ir_status r) to by ev note) Q E s =
    (if to \<in> set (INTENT_TRANSITIONS (ir_status r))
     then Q (Some (r\<lparr>ir_status := to\<rparr>)) (advanced env i r to by ev note s)
     else E (GenericError ''Invalid Intent transition'') s)"
  using assms
  by (simp add: advanceIntent_def wp_eqs assertValidTransition_def claimIntentStatus_def advanced_def)

lemma transition_wp:
  "wpH (transition env i to by ev note) Q E s =
     (case intents s i of
        None \<Rightarrow> E (NotFoundError ''Intent'' i) s
      | Some r \<Rightarrow>
          if isExpired (clock s) (ir_status r) (ir_expiresAt r) \<and> to \<noteq> I_EXPIRED
          then if I_EXPIRED \<in> set (INTENT_TRANSITIONS (ir_status r))
               then E (ValidationError ''expired before transitioning'')
                      (advanced env i r I_EXPIRED ''system:expiry-check'' ''intent.expired'' None s)
               else E (GenericError ''Invalid Intent transition'') s
          else if to \<in> set (INTENT_TRANSITIONS (ir_status r))
               then Q (Some (r\<lparr>ir_status := to\<rparr>)) (advanced env i r to by ev note s)
               else E (GenericError ''Invalid Intent transition'') s)"
  by (auto simp: transition_def expireIntent_def wp_eqs advance_wp split: option.split)

lemma cancel_wp:
  "wpH (cancel env i who) Q E s =
     (case intents s i of
        None \<Rightarrow> E (NotFoundError ''Intent'' i) s
      | Some r \<Rightarrow>
          if ir_participantId r \<noteq> who then E (ForbiddenError ''does not own Intent'') s
          else if isExpired (clock s) (ir_status r) (ir_expiresAt r)
          then if I_EXPIRED \<in> set (INTENT_TRANSITIONS (ir_status r))
               then Q () (advanced env i r I_EXPIRED ''system:expiry-check'' ''intent.expired'' None s)
               else E (GenericError ''Invalid Intent transition'') s
          else if I_CANCELLED \<in> set (INTENT_TRANSITIONS (ir_status r))
               then Q () (advanced env i r I_CANCELLED who ''intent.cancelled'' None s)
               else E (GenericError ''Invalid Intent transition'') s)"
  by (auto simp: cancel_def expireIntent_def wp_eqs advance_wp transition_wp split: option.split)

section \<open>The audit invariant\<close>

text \<open>
  A history: the first entry creates the intent, every further one starts where the one
  before it ended and follows the transition table; it ends in the given status.
\<close>

fun history :: "IntentStatus option \<Rightarrow> intent_event_body list \<Rightarrow> IntentStatus option" where
  "history st [] = st"
| "history None (b # bs) =
     (if ie_from b = None \<and> ie_to b = I_CREATED then history (Some I_CREATED) bs else None)"
| "history (Some st) (b # bs) =
     (if ie_from b = Some st \<and> ie_to b \<in> set (INTENT_TRANSITIONS st) then history (Some (ie_to b)) bs else None)"

text \<open>
  The log of one intent, given its stored status: hashed rows that form a chain and whose
  history leads from creation to that status. An identifier without a row has no log.
\<close>

definition log_ok :: "(string \<Rightarrow> string) \<Rightarrow> intent_event_body chain_row list \<Rightarrow> IntentStatus option \<Rightarrow> bool" where
  "log_ok sha rows st \<longleftrightarrow>
     list_all (\<lambda>r. entry_hash r \<noteq> None) rows \<and> intent_chain.chain_ok sha ''genesis'' rows
     \<and> history None (map body rows) = st \<and> (st = None \<longrightarrow> rows = [])"

text \<open>Every intent has such a log, and its identifier has been drawn.\<close>

definition audited :: "(string \<Rightarrow> string) \<Rightarrow> (nat \<Rightarrow> string) \<Rightarrow> 'a engine_state_scheme \<Rightarrow> bool" where
  "audited sha gen s \<longleftrightarrow>
     (\<forall>i. log_ok sha (rows_of i (intent_events s)) (map_option ir_status (intents s i)))
   \<and> (\<forall>i \<in> dom (intents s). \<exists>k < draws s. i = gen k)"

lemma rows_of_append:
  "rows_of i (evs @ [(j, note, row)]) = rows_of i evs @ (if i = j then [row] else [])"
  by (simp add: rows_of_def)

lemma history_append:
  "history st bs = Some st' \<Longrightarrow> history st (bs @ cs) = history (Some st') cs"
  by (induction st bs rule: history.induct) (auto split: if_splits)

lemma hashed_migrated: "list_all (\<lambda>r. entry_hash r \<noteq> None) rows \<Longrightarrow> intent_chain.migrated rows"
  unfolding intent_chain.migrated_def by (rule exI [of _ "[]"]) auto

lemma log_ok_extend:
  assumes "log_ok sha rows st"
    and "history st [b] = Some to" and "st = None \<longrightarrow> rows = []"
  shows "log_ok sha (rows @ [intent_chain.appended sha b rows]) (Some to)"
proof -
  from assms(1) have h: "list_all (\<lambda>r. entry_hash r \<noteq> None) rows"
    and c: "intent_chain.chain_ok sha ''genesis'' rows"
    and hist: "history None (map body rows) = st"
    by (auto simp: log_ok_def)
  have "history None (map body rows @ [b]) = Some to"
  proof (cases st)
    case None
    with assms(2,3) show ?thesis by simp
  next
    case (Some st')
    with hist assms(2) history_append [of None "map body rows" st' "[b]"] show ?thesis by simp
  qed
  with h intent_chain.append_preserves_chain [OF hashed_migrated [OF h] c] show ?thesis
    by (simp add: log_ok_def intent_chain.appended_def Let_def)
qed

lemma audited_log: "audited sha gen s \<Longrightarrow> log_ok sha (rows_of i (intent_events s)) (map_option ir_status (intents s i))"
  by (simp add: audited_def)

lemma audited_advanced:
  assumes inv: "audited (sha256 env) gen s" and r: "intents s i = Some r"
    and ok: "to \<in> set (INTENT_TRANSITIONS (ir_status r))"
  shows "audited (sha256 env) gen (advanced env i r to by ev note s)"
proof -
  have "log_ok (sha256 env) (rows_of i (intent_events s)) (Some (ir_status r))"
    using audited_log [OF inv, of i] r by simp
  from log_ok_extend [OF this, of "\<lparr>ie_from = Some (ir_status r), ie_to = to, ie_triggeredBy = by\<rparr>" to]
  have "log_ok (sha256 env) (rows_of i (intent_events (advanced env i r to by ev note s))) (Some to)"
    using ok by (simp add: advanced_def rows_of_append)
  with inv r show ?thesis
    by (auto simp: audited_def advanced_def rows_of_append)
qed

lemma audited_frame:
  assumes inv: "audited sha gen s" and "intents s' = intents s"
    and "intent_events s' = intent_events s" and "draws s' = draws s"
  shows "audited sha gen s'"
  using assms by (simp add: audited_def)

definition created ::
    "engine_env \<Rightarrow> string \<Rightarrow> intent_row \<Rightarrow> 'a engine_state_scheme \<Rightarrow> 'a engine_state_scheme" where
  "created env i r s =
     s\<lparr>intents := (intents s)(i \<mapsto> r), draws := Suc (draws s),
       intent_claims := (case ir_idempotencyClaimId r of None \<Rightarrow> intent_claims s
                         | Some k \<Rightarrow> (intent_claims s)(k \<mapsto> i)),
       intent_events := intent_events s @ [(i, None,
         intent_chain.appended (sha256 env) \<lparr>ie_from = None, ie_to = I_CREATED, ie_triggeredBy = ir_participantId r\<rparr>
           (rows_of i (intent_events s)))],
       bus := bus s @ [(''intent.created'', i)]\<rparr>"

lemma audited_created:
  assumes inv: "audited (sha256 env) (uuid env) s" and inj: "inj (uuid env)"
    and i: "i = uuid env (draws s)" and r: "ir_status r = I_CREATED"
  shows "audited (sha256 env) (uuid env) (created env i r s)"
proof -
  have fresh: "intents s i = None"
    using inv inj i by (fastforce simp: audited_def dom_def dest: injD)
  have "log_ok (sha256 env) (rows_of i (intent_events s)) None"
    using audited_log [OF inv, of i] fresh by simp
  from log_ok_extend [OF this, of "\<lparr>ie_from = None, ie_to = I_CREATED, ie_triggeredBy = ir_participantId r\<rparr>" I_CREATED]
    this
  have "log_ok (sha256 env) (rows_of i (intent_events (created env i r s))) (Some I_CREATED)"
    by (simp add: created_def rows_of_append log_ok_def)
  with inv r i show ?thesis
    by (auto simp: audited_def created_def rows_of_append less_Suc_eq)
qed

lemma transition_audited:
  assumes "audited (sha256 env) gen s"
  shows "audited (sha256 env) gen (snd (transition env i to by ev note s))"
proof -
  have "wpH (transition env i to by ev note) (\<lambda>_. audited (sha256 env) gen) (\<lambda>_. audited (sha256 env) gen) s"
    using assms by (simp add: transition_wp audited_advanced split: option.split)
  then show ?thesis by (rule wpH_snd)
qed

lemma cancel_audited:
  assumes "audited (sha256 env) gen s"
  shows "audited (sha256 env) gen (snd (cancel env i who s))"
proof -
  have "wpH (cancel env i who) (\<lambda>_. audited (sha256 env) gen) (\<lambda>_. audited (sha256 env) gen) s"
    using assms by (simp add: cancel_wp audited_advanced split: option.split)
  then show ?thesis by (rule wpH_snd)
qed

section \<open>Creation\<close>

definition new_intent ::
    "IntentType \<Rightarrow> TradeIntentPayload \<Rightarrow> string \<Rightarrow> string option \<Rightarrow> string option \<Rightarrow> intent_row" where
  "new_intent ty p who agent claim =
     \<lparr>ir_type = ty, ir_participantId = who, ir_agentId = agent, ir_moduleId = ''openp2p'',
      ir_payload = p, ir_status = I_CREATED, ir_expiresAt = None, ir_idempotencyClaimId = claim\<rparr>"

definition admissible ::
    "engine_env \<Rightarrow> IntentType \<Rightarrow> TradeIntentPayload \<Rightarrow> string \<Rightarrow> string option \<Rightarrow> 'a engine_state_scheme \<Rightarrow> bool" where
  "admissible env ty p who claim s \<longleftrightarrow>
     validateStructure env ty p = [] \<and> validateFinancialSanity (toNumber env) p = []
     \<and> (enforceCapabilities env \<longrightarrow> permitted (dateOf env) who ''trade-coordination'' ''intent.created'' s)
     \<and> \<not> claim_taken claim s"

definition coordinated_state ::
    "engine_env \<Rightarrow> string \<Rightarrow> intent_row \<Rightarrow> 'a engine_state_scheme \<Rightarrow> 'a engine_state_scheme" where
  "coordinated_state env i r s =
     advanced env i (r\<lparr>ir_status := I_VALIDATED\<rparr>) I_COORDINATED (ir_participantId r) ''intent.coordinated'' None
       (advanced env i r I_VALIDATED (ir_participantId r) ''intent.validated'' None (created env i r s))"

lemma created_lookup: "intents (created env i r s) i = Some r"
  by (simp add: created_def)

lemma advanced_lookup: "intents (advanced env i r to by ev note s) i = Some (r\<lparr>ir_status := to\<rparr>)"
  by (simp add: advanced_def)

lemma wp_createIntentRow [wp_eqs]:
  "wpH (createIntentRow env r) Q E s =
     (if claim_taken (ir_idempotencyClaimId r) s then E (DatabaseError ''P2002'') s
      else Q (uuid env (draws s))
             (s\<lparr>intents := (intents s)(uuid env (draws s) \<mapsto> r), draws := Suc (draws s),
                intent_claims := (case ir_idempotencyClaimId r of None \<Rightarrow> intent_claims s
                                  | Some k \<Rightarrow> (intent_claims s)(k \<mapsto> uuid env (draws s)))\<rparr>))"
  by (simp add: createIntentRow_def wp_eqs)

lemma wp_onCreated [wp_eqs]: "wpH (case h of None \<Rightarrow> ret () | Some _ \<Rightarrow> onCreated v) Q E s = Q () s"
  by (simp add: onCreated_def wp_eqs split: option.split)

lemma createIntent_wp:
  "wpH (createIntent env ty p who agent claim) Q E s =
     (if validateStructure env ty p \<noteq> [] then E (ValidationError ''Malformed Intent rejected at entry boundary'') s
      else if validateFinancialSanity (toNumber env) p \<noteq> [] then E (ValidationError ''Intent failed financial sanity check'') s
      else if enforceCapabilities env \<and> \<not> permitted (dateOf env) who ''trade-coordination'' ''intent.created'' s
      then E (ForbiddenError ''no active capability grant covering intent.created'') s
      else if claim_taken claim s then E (DatabaseError ''P2002'') s
      else (let r = new_intent ty p who agent claim; i = uuid env (draws s)
            in Q (Some (r\<lparr>ir_status := I_COORDINATED\<rparr>)) (coordinated_state env i r s)))"
  by (simp add: createIntent_def wp_eqs transition_wp decide_def isExpired_def CAPABILITY_IMPLEMENTATIONS_def
      coordinated_state_def created_def advanced_def new_intent_def Let_def)

lemma createIntent_audited:
  assumes inv: "audited (sha256 env) (uuid env) s" and inj: "inj (uuid env)"
  shows "audited (sha256 env) (uuid env) (snd (createIntent env ty p who agent claim s))"
proof -
  let ?r = "new_intent ty p who agent claim" and ?i = "uuid env (draws s)"
  have "audited (sha256 env) (uuid env) (created env ?i ?r s)"
    by (rule audited_created [OF inv inj]) (simp_all add: new_intent_def)
  then have "audited (sha256 env) (uuid env) (coordinated_state env ?i ?r s)"
    unfolding coordinated_state_def
    by (intro audited_advanced) (simp_all add: created_lookup advanced_lookup new_intent_def)
  then have "wpH (createIntent env ty p who agent claim) (\<lambda>_. audited (sha256 env) (uuid env))
      (\<lambda>_. audited (sha256 env) (uuid env)) s"
    using inv by (simp add: createIntent_wp Let_def)
  then show ?thesis by (rule wpH_snd)
qed

section \<open>Sequences of requests\<close>

text \<open>The requests that reach the engine, with the clock read at each of them.\<close>

datatype intent_op =
    OpCreate IntentType TradeIntentPayload string "string option" "string option"
  | OpTransition string IntentStatus string string "string option"
  | OpCancel string string

definition run_intent_op :: "engine_env \<Rightarrow> engine_state \<Rightarrow> int \<times> intent_op \<Rightarrow> engine_state" where
  "run_intent_op env s op =
     (let s' = s\<lparr>clock := fst op\<rparr> in
      case snd op of
        OpCreate ty p who agent claim \<Rightarrow> snd (createIntent env ty p who agent claim s')
      | OpTransition i to by ev note \<Rightarrow> snd (transition env i to by ev note s')
      | OpCancel i who \<Rightarrow> snd (cancel env i who s'))"

definition empty_engine :: "CapabilityGrant list \<Rightarrow> engine_state" where
  "empty_engine gs = \<lparr>clock = 0, draws = 0, grants = gs, intents = Map.empty, intent_claims = Map.empty,
                      intent_events = [], bus = []\<rparr>"

lemma empty_audited: "audited sha gen (empty_engine gs)"
  by (simp add: audited_def empty_engine_def rows_of_def log_ok_def)

lemma run_intent_op_audited:
  assumes "audited (sha256 env) (uuid env) s" and "inj (uuid env)"
  shows "audited (sha256 env) (uuid env) (run_intent_op env s op)"
proof -
  have "audited (sha256 env) (uuid env) (s\<lparr>clock := fst op\<rparr>)"
    by (rule audited_frame [OF assms(1)]) simp_all
  then show ?thesis
    using assms(2) by (simp add: run_intent_op_def Let_def createIntent_audited transition_audited
        cancel_audited split: intent_op.split)
qed

lemma run_ops_audited:
  assumes "inj (uuid env)"
  shows "audited (sha256 env) (uuid env) (foldl (run_intent_op env) (empty_engine gs) ops)"
  by (induction ops rule: rev_induct) (simp_all add: empty_audited run_intent_op_audited assms)

lemma history_walk:
  "history (Some st) bs = Some st' \<Longrightarrow> intent_life.walk st (map ie_to bs)"
  by (induction "Some st" bs arbitrary: st rule: history.induct) (auto split: if_splits)

lemma history_bounds:
  assumes "history None bs = st" and "st = None \<longrightarrow> bs = []"
  shows "distinct (map ie_to bs) \<and> length bs \<le> 9"
proof (cases bs)
  case (Cons b cs)
  with assms obtain st' where "history (Some I_CREATED) cs = Some st'" and b: "ie_to b = I_CREATED"
    by (auto split: if_splits)
  then have "intent_life.walk I_CREATED (map ie_to cs)" using history_walk by blast
  from intent_life.walk_never_revisits [OF this] intent_life.walk_length [OF this] b Cons
  show ?thesis by auto
qed simp

lemma log_bounds:
  assumes "log_ok sha rows st"
  shows "distinct (map (ie_to \<circ> body) rows) \<and> length rows \<le> 9"
  using assms history_bounds [of "map body rows" st] by (simp add: log_ok_def)

section \<open>Injectivity of the hashed entry\<close>

lemma status_name_inject: "status_name a = status_name b \<longleftrightarrow> a = b"
  by (cases a; cases b) simp_all

lemma status_name_plain: "CHR ''|'' \<notin> set (status_name a)" and status_name_nonempty: "status_name a \<noteq> []"
  by (cases a; simp)+

definition from_name :: "IntentStatus option \<Rightarrow> string" where
  "from_name f = (case f of None \<Rightarrow> [] | Some st \<Rightarrow> status_name st)"

lemma from_name_inject: "from_name a = from_name b \<longleftrightarrow> a = b"
  by (auto simp: from_name_def status_name_inject status_name_nonempty status_name_nonempty [symmetric]
      split: option.splits)

lemma from_name_plain: "CHR ''|'' \<notin> set (from_name a)"
  by (simp add: from_name_def status_name_plain split: option.split)

lemma intent_entry_inject:
  assumes eq: "intent_entry b p = intent_entry b' p'"
    and p: "CHR ''|'' \<notin> set p" and p': "CHR ''|'' \<notin> set p'"
  shows "b = b' \<and> p = p'"
proof -
  have entry: "intent_entry c q =
     from_name (ie_from c) @ CHR ''|'' # (status_name (ie_to c) @ CHR ''|'' # (ie_triggeredBy c @ CHR ''|'' # q))"
    for c q by (simp add: intent_entry_def from_name_def)
  note split1 = split_first_sep [OF eq [unfolded entry] from_name_plain from_name_plain]
  note split2 = split_first_sep [OF conjunct2 [OF split1] status_name_plain status_name_plain]
  note split3 = split_last_sep [OF conjunct2 [OF split2] p p']
  from split1 split2 split3 show ?thesis by (simp add: from_name_inject status_name_inject)
qed

definition hex_output :: "(string \<Rightarrow> string) \<Rightarrow> bool" where
  "hex_output sha \<longleftrightarrow> (\<forall>x. set (sha x) \<subseteq> set ''0123456789abcdef'')"

lemma intent_bodies_unique:
  assumes hex: "hex_output sha" and inj: "inj sha"
    and "list_all (\<lambda>r. entry_hash r \<noteq> None) xs" and "list_all (\<lambda>r. entry_hash r \<noteq> None) ys"
    and "intent_chain.chain_ok sha ''genesis'' xs" and "intent_chain.chain_ok sha ''genesis'' ys"
    and "intent_chain.end_hash ''genesis'' xs = intent_chain.end_hash ''genesis'' ys"
  shows "map body xs = map body ys"
proof (rule intent_chain.chain_bodies_unique [where G = "{p. CHR ''|'' \<notin> set p}", OF _ _ _ _ assms(3-)])
  fix b b' p p'
  assume "p \<in> {p. CHR ''|'' \<notin> set p}" and "p' \<in> {p. CHR ''|'' \<notin> set p}"
    and eq: "intent_hash sha b p = intent_hash sha b' p'"
  then have "CHR ''|'' \<notin> set p" and "CHR ''|'' \<notin> set p'" by simp_all
  moreover have "intent_entry b p = intent_entry b' p'"
    using eq inj unfolding intent_hash_def by (rule injD [rotated])
  ultimately show "b = b' \<and> p = p'" using intent_entry_inject by blast
next
  show "''genesis'' \<in> {p. CHR ''|'' \<notin> set p}" by simp
next
  fix b :: intent_event_body and p
  have "set (intent_hash sha b p) \<subseteq> set ''0123456789abcdef''"
    using hex unfolding hex_output_def intent_hash_def by blast
  then show "intent_hash sha b p \<in> {p. CHR ''|'' \<notin> set p}" and "intent_hash sha b p \<noteq> ''genesis''"
    by auto
qed

section \<open>Properties\<close>

definition demo_payload :: TradeIntentPayload where
  "demo_payload = \<lparr>p_asset = JsString ''BTC'', p_side = JsString ''BUY'', p_minValue = JsUndefined,
     p_maxValue = JsUndefined, p_minPriceUsd = JsUndefined, p_maxPriceUsd = JsUndefined,
     p_minReputationRating = JsUndefined\<rparr>"

definition hex_digest :: "string \<Rightarrow> string" where
  "hex_digest s = concat (map (\<lambda>c. let n = (of_char c :: nat) in
     [''0123456789abcdef'' ! (n div 16 mod 16), ''0123456789abcdef'' ! (n mod 16)]) s)"

definition demo_env :: engine_env where
  "demo_env = \<lparr>sha256 = hex_digest, uuid = show_nat, dateOf = (\<lambda>_. None), toNumber = (\<lambda>_. NaN),
     enforceCapabilities = False,
     handlers = (\<lambda>ty. if ty = TradeIntent then Some validateTradeIntent else None)\<rparr>"

definition demo_intent :: "IntentStatus \<Rightarrow> int option \<Rightarrow> intent_row" where
  "demo_intent st e = \<lparr>ir_type = TradeIntent, ir_participantId = ''alice'', ir_agentId = None,
     ir_moduleId = ''openp2p'', ir_payload = demo_payload, ir_status = st, ir_expiresAt = e,
     ir_idempotencyClaimId = None\<rparr>"

lemma hex_digest_hex: "hex_output hex_digest"
proof -
  have "''0123456789abcdef'' ! (n mod 16) \<in> set ''0123456789abcdef''" for n :: nat
    by (rule nth_mem) simp
  then show ?thesis by (simp add: hex_output_def hex_digest_def Let_def subset_iff) blast
qed



text \<open>
  No intent returns to a status it has left, and its log is bounded. After any sequence
  of requests the statuses recorded for an intent are pairwise different, so the log has at
  most nine rows.
\<close>

theorem intent_never_revisits:
  assumes "inj (uuid env)"
  shows "distinct (map (ie_to \<circ> body) (rows_of i (intent_events (foldl (run_intent_op env) (empty_engine gs) ops))))
       \<and> length (rows_of i (intent_events (foldl (run_intent_op env) (empty_engine gs) ops))) \<le> 9"
  by (rule log_bounds [OF audited_log [OF run_ops_audited [OF assms]]])

theorem intent_never_revisits_witness:
  "length (rows_of ''0'' (intent_events (foldl (run_intent_op demo_env) (empty_engine [])
     [(1, OpCreate TradeIntent demo_payload ''alice'' None None), (2, OpCancel ''0'' ''alice'')]))) \<le> 9"
  using intent_never_revisits [of demo_env "''0''" "[]"
      "[(1, OpCreate TradeIntent demo_payload ''alice'' None None), (2, OpCancel ''0'' ''alice'')]"]
  by (simp add: demo_env_def inj_def)

text \<open>
  The log is tamper evident. Two audited logs whose last entry hashes agree record the
  same sequence of transitions and actors, or they exhibit a collision of the hash
  function; the participant identifiers may be any strings, also with the separator in them.
\<close>

theorem intent_log_tamper_evident:
  assumes "hex_output sha" and "audited sha gen s" and "audited sha gen' t"
    and "intent_chain.end_hash ''genesis'' (rows_of i (intent_events s))
       = intent_chain.end_hash ''genesis'' (rows_of j (intent_events t))"
  shows "map body (rows_of i (intent_events s)) = map body (rows_of j (intent_events t))
       \<or> (\<exists>x y. x \<noteq> y \<and> sha x = sha y)"
proof (cases "inj sha")
  case True
  have "list_all (\<lambda>r. entry_hash r \<noteq> None) (rows_of i (intent_events s))"
    "intent_chain.chain_ok sha ''genesis'' (rows_of i (intent_events s))"
    "list_all (\<lambda>r. entry_hash r \<noteq> None) (rows_of j (intent_events t))"
    "intent_chain.chain_ok sha ''genesis'' (rows_of j (intent_events t))"
    using audited_log [OF assms(2), of i] audited_log [OF assms(3), of j] by (auto simp: log_ok_def)
  with intent_bodies_unique [OF assms(1) True] assms(4) show ?thesis by blast
qed (auto simp: inj_def)

theorem intent_log_tamper_evident_witness:
  "let s = foldl (run_intent_op demo_env) (empty_engine [])
             [(1, OpCreate TradeIntent demo_payload ''alice'' None None)]
   in map body (rows_of ''0'' (intent_events s)) = map body (rows_of ''0'' (intent_events s))
      \<or> (\<exists>x y. x \<noteq> y \<and> hex_digest x = hex_digest y)"
proof -
  let ?s = "foldl (run_intent_op demo_env) (empty_engine [])
             [(1, OpCreate TradeIntent demo_payload ''alice'' None None)]"
  have "audited hex_digest show_nat ?s"
    using run_ops_audited [of demo_env "[]" "[(1, OpCreate TradeIntent demo_payload ''alice'' None None)]"]
    by (simp add: demo_env_def inj_def)
  from intent_log_tamper_evident [OF hex_digest_hex this this refl] show ?thesis
    unfolding Let_def .
qed



text \<open>
  A sane field is absent or converts to a finite number between zero and the bound; a sane
  pair has its minimum not above its maximum.
\<close>

definition sane_field :: "(js_value \<Rightarrow> js_number) \<Rightarrow> js_value \<Rightarrow> bool" where
  "sane_field num v \<longleftrightarrow> v = JsUndefined \<or> (\<exists>n. num v = Num n \<and> 0 \<le> n \<and> n \<le> MAX_SANE_TRADE_VALUE)"

definition sane_pair :: "(js_value \<Rightarrow> js_number) \<Rightarrow> js_value \<Rightarrow> js_value \<Rightarrow> bool" where
  "sane_pair num lo hi \<longleftrightarrow>
     (\<forall>a b. lo \<noteq> JsUndefined \<longrightarrow> hi \<noteq> JsUndefined \<longrightarrow> num lo = Num a \<longrightarrow> num hi = Num b \<longrightarrow> a \<le> b)"

lemma field_sanity_iff: "field_sanity num v = [] \<longleftrightarrow> sane_field num v"
  by (auto simp: field_sanity_def sane_field_def split: js_number.split)

lemma pair_sanity_iff: "pair_sanity num lo hi = [] \<longleftrightarrow> sane_pair num lo hi"
  by (auto simp: pair_sanity_def sane_pair_def split: js_number.split)

text \<open>
  What creating an intent does. The call returns exactly when the handler of its type
  finds no structural error, every amount and price bound of the payload is absent or a
  finite number between 0 and the sane maximum with minimum not above maximum, the caller
  holds the capability where capabilities are enforced, and the idempotency claim is
  unused; then the new intent is stored as COORDINATED and exactly the two statuses before
  it are in its log. Otherwise an error is thrown and nothing at all is written.
\<close>

theorem createIntent_all_or_nothing:
  "if validateStructure env ty p = []
      \<and> list_all (sane_field (toNumber env)) [p_minValue p, p_maxValue p, p_minPriceUsd p, p_maxPriceUsd p]
      \<and> sane_pair (toNumber env) (p_minValue p) (p_maxValue p)
      \<and> sane_pair (toNumber env) (p_minPriceUsd p) (p_maxPriceUsd p)
      \<and> (if enforceCapabilities env
         then permitted (dateOf env) who ''trade-coordination'' ''intent.created'' s else True)
      \<and> \<not> claim_taken claim s
   then \<exists>r s'. createIntent env ty p who agent claim s = (Inr (Some r), s')
          \<and> intents s' = (intents s)(uuid env (draws s) \<mapsto> r)
          \<and> ir_status r = I_COORDINATED \<and> ir_participantId r = who \<and> ir_payload r = p
          \<and> map (ie_to \<circ> body) (rows_of (uuid env (draws s)) (drop (length (intent_events s)) (intent_events s')))
              = [I_CREATED, I_VALIDATED, I_COORDINATED]
   else \<exists>e. createIntent env ty p who agent claim s = (Inl e, s)"
proof -
  let ?ok = "validateStructure env ty p = [] \<and> validateFinancialSanity (toNumber env) p = []
      \<and> (if enforceCapabilities env
         then permitted (dateOf env) who ''trade-coordination'' ''intent.created'' s else True)
      \<and> \<not> claim_taken claim s"
  let ?r = "new_intent ty p who agent claim" and ?i = "uuid env (draws s)"
  have yes: "createIntent env ty p who agent claim s
      = (Inr (Some (?r\<lparr>ir_status := I_COORDINATED\<rparr>)), coordinated_state env ?i ?r s)" if ?ok
    using that createIntent_wp [of env ty p who agent claim "\<lambda>a t. a = Some (?r\<lparr>ir_status := I_COORDINATED\<rparr>)
        \<and> t = coordinated_state env ?i ?r s" "\<lambda>_ _. False" s]
    by (auto simp: wpH_def Let_def split: prod.splits sum.splits if_splits)
  have no: "\<exists>e. createIntent env ty p who agent claim s = (Inl e, s)" if "\<not> ?ok"
    using that createIntent_wp [of env ty p who agent claim "\<lambda>_ _. False" "\<lambda>_ t. t = s" s]
    by (auto simp: wpH_def Let_def split: prod.splits sum.splits if_splits)
  have rows: "map (ie_to \<circ> body) (rows_of ?i (drop (length (intent_events s)) (intent_events (coordinated_state env ?i ?r s))))
      = [I_CREATED, I_VALIDATED, I_COORDINATED]"
    by (simp add: coordinated_state_def advanced_def created_def rows_of_def intent_chain.appended_def Let_def)
  have "intents (coordinated_state env ?i ?r s) = (intents s)(?i \<mapsto> ?r\<lparr>ir_status := I_COORDINATED\<rparr>)"
    by (simp add: coordinated_state_def advanced_def created_def)
  with yes no rows show ?thesis
    by (auto simp: validateFinancialSanity_def field_sanity_iff pair_sanity_iff new_intent_def)
qed

text \<open>
  Cancelling. The call returns only for the participant who owns the intent and only
  from a status before COMMITTED; then the intent is CANCELLED, or EXPIRED if its window
  had closed, one row is logged, and no other intent changes. In every other case an error
  is thrown and nothing is written.
\<close>

theorem cancel_only_by_owner_before_commit:
  "case cancel env i who s of
     (Inr _, s') \<Rightarrow> \<exists>r st. intents s i = Some r \<and> ir_participantId r = who
        \<and> ir_status r \<in> {I_CREATED, I_VALIDATED, I_COORDINATED, I_DISCOVERING, I_MATCHED, I_NEGOTIATING}
        \<and> st = (if isExpired (clock s) (ir_status r) (ir_expiresAt r) then I_EXPIRED else I_CANCELLED)
        \<and> intents s' = (intents s)(i \<mapsto> r\<lparr>ir_status := st\<rparr>)
        \<and> length (intent_events s') = Suc (length (intent_events s))
   | (Inl _, s') \<Rightarrow> s' = s"
proof -
  have table: "st \<in> {I_CREATED, I_VALIDATED, I_COORDINATED, I_DISCOVERING, I_MATCHED, I_NEGOTIATING}"
    if "I_EXPIRED \<in> set (INTENT_TRANSITIONS st) \<or> I_CANCELLED \<in> set (INTENT_TRANSITIONS st)" for st
    using that by (cases st) simp_all
  have "wpH (cancel env i who)
     (\<lambda>_ s'. \<exists>r st. intents s i = Some r \<and> ir_participantId r = who
        \<and> ir_status r \<in> {I_CREATED, I_VALIDATED, I_COORDINATED, I_DISCOVERING, I_MATCHED, I_NEGOTIATING}
        \<and> st = (if isExpired (clock s) (ir_status r) (ir_expiresAt r) then I_EXPIRED else I_CANCELLED)
        \<and> intents s' = (intents s)(i \<mapsto> r\<lparr>ir_status := st\<rparr>)
        \<and> length (intent_events s') = Suc (length (intent_events s))) (\<lambda>_ s'. s' = s) s"
    using table by (simp add: cancel_wp advanced_def split: option.split) blast
  then show ?thesis unfolding wpH_def .
qed

end
