(* ===== verification/Provider_Registry.thy ===== *)
theory Provider_Registry
  imports Sails_Prelude
begin

text \<open>
  Which settlement implementation an escrow gets: the product scopes of
  \<^verbatim>\<open>common/settlement-scope-registry.ts\<close>, the provider registrations of
  \<^verbatim>\<open>common/settlement-provider-registry.ts\<close>, candidate discovery
  (\<^verbatim>\<open>common/execution-candidates.ts\<close>), the legacy asset translation
  (\<^verbatim>\<open>common/settlement-scope-legacy.ts\<close>), the type tables and gates of
  \<^verbatim>\<open>escrow-providers.ts\<close>, \<^verbatim>\<open>arbitration-policy.ts\<close>,
  \<^verbatim>\<open>capability-profile.ts\<close> and \<^verbatim>\<open>resolveEscrowType\<close> of
  \<^verbatim>\<open>escrow.service.ts\<close>.
\<close>

section \<open>Assets, rails and implementations\<close>

datatype AssetType =
    A_BTC | USDT_ERC20 | USDT_TRC20 | USDT_LIQUID | USDT_LIGHTNING
  | LN_BTC | LIQUID_BTC | A_SPARK | STACKS | RSK_BTC

datatype EscrowType = MULTISIG | LIGHTNING_HODL | LIQUID_COVENANT | WDK_USDT_EVM | SAFE_GUARD_EVM | MOCK

datatype Asset = BTC | USDT | USDC | DEPIX | XAUT

datatype SettlementRail =
    BITCOIN_L1 | LIGHTNING | SPARK | ARKADE | LIQUID | ETHEREUM | BASE | OPTIMISM
  | POLYGON | AVALANCHE | SOLANA | TRON | TON | BNB_CHAIN | ARBITRUM

record SettlementScope =
  sc_asset :: Asset
  sc_rail :: SettlementRail

abbreviation scope_of :: "Asset \<Rightarrow> SettlementRail \<Rightarrow> SettlementScope" where
  "scope_of a r \<equiv> \<lparr>sc_asset = a, sc_rail = r\<rparr>"

definition CANONICAL_DAY0_SCOPES :: "SettlementScope list" where
  "CANONICAL_DAY0_SCOPES =
     [scope_of BTC BITCOIN_L1, scope_of BTC LIGHTNING, scope_of BTC SPARK, scope_of BTC ARKADE,
      scope_of BTC LIQUID, scope_of DEPIX LIQUID, scope_of DEPIX SPARK,
      scope_of USDT ETHEREUM, scope_of USDT BASE, scope_of USDT OPTIMISM, scope_of USDT POLYGON,
      scope_of USDT AVALANCHE, scope_of USDT SOLANA, scope_of USDT TRON, scope_of USDT TON,
      scope_of USDT BNB_CHAIN, scope_of USDT ARBITRUM, scope_of USDT LIQUID,
      scope_of USDC ETHEREUM, scope_of USDC BASE, scope_of USDC OPTIMISM, scope_of USDC ARBITRUM,
      scope_of USDC AVALANCHE, scope_of USDC POLYGON, scope_of XAUT ETHEREUM]"

definition isSettlementScopeRegistered :: "Asset \<Rightarrow> SettlementRail \<Rightarrow> bool" where
  "isSettlementScopeRegistered asset rail =
     list_ex (\<lambda>s. sc_asset s = asset \<and> sc_rail s = rail) CANONICAL_DAY0_SCOPES"

definition listSettlementRailsForAsset :: "Asset \<Rightarrow> SettlementRail list" where
  "listSettlementRailsForAsset asset = map sc_rail (filter (\<lambda>s. sc_asset s = asset) CANONICAL_DAY0_SCOPES)"

definition listAssetsForSettlementRail :: "SettlementRail \<Rightarrow> Asset list" where
  "listAssetsForSettlementRail rail = map sc_asset (filter (\<lambda>s. sc_rail s = rail) CANONICAL_DAY0_SCOPES)"

section \<open>Provider registrations\<close>

datatype SettlementCapability = cap_release | cap_refund | cap_split | cap_signatureCollection

record SettlementProviderRegistration =
  reg_implementation :: EscrowType
  reg_scope :: SettlementScope
  reg_capabilities :: "SettlementCapability list"

definition PROVIDER_REGISTRATIONS :: "SettlementProviderRegistration list" where
  "PROVIDER_REGISTRATIONS =
     [\<lparr>reg_implementation = MULTISIG, reg_scope = scope_of BTC BITCOIN_L1,
        reg_capabilities = [cap_release, cap_refund, cap_split, cap_signatureCollection]\<rparr>,
      \<lparr>reg_implementation = LIGHTNING_HODL, reg_scope = scope_of BTC ARKADE,
        reg_capabilities = [cap_release, cap_refund, cap_signatureCollection]\<rparr>,
      \<lparr>reg_implementation = WDK_USDT_EVM, reg_scope = scope_of USDT ETHEREUM,
        reg_capabilities = [cap_release, cap_refund, cap_split]\<rparr>]"

text \<open>The check the registry makes when it is loaded.\<close>

definition registry_boots :: "SettlementProviderRegistration list \<Rightarrow> bool" where
  "registry_boots regs =
     list_all (\<lambda>r. isSettlementScopeRegistered (sc_asset (reg_scope r)) (sc_rail (reg_scope r))) regs"

definition listProvidersForScope ::
    "Asset \<Rightarrow> SettlementRail \<Rightarrow> SettlementCapability option \<Rightarrow> SettlementProviderRegistration list" where
  "listProvidersForScope asset rail requiredCapability =
     filter (\<lambda>r. sc_asset (reg_scope r) = asset \<and> sc_rail (reg_scope r) = rail
                \<and> (case requiredCapability of None \<Rightarrow> True | Some c \<Rightarrow> c \<in> set (reg_capabilities r)))
       PROVIDER_REGISTRATIONS"

definition implementationSupportsScope :: "EscrowType \<Rightarrow> Asset \<Rightarrow> SettlementRail \<Rightarrow> bool" where
  "implementationSupportsScope impl asset rail =
     list_ex (\<lambda>r. reg_implementation r = impl \<and> sc_asset (reg_scope r) = asset \<and> sc_rail (reg_scope r) = rail)
       PROVIDER_REGISTRATIONS"

section \<open>Candidate discovery\<close>

datatype CandidateDiscoveryResult =
    SCOPE_NOT_REGISTERED
  | SCOPE_REGISTERED_NO_PROVIDER
  | NO_PROVIDER_WITH_REQUIRED_CAPABILITY SettlementCapability "SettlementProviderRegistration list"
  | SINGLE_STRUCTURALLY_COMPATIBLE_CANDIDATE SettlementProviderRegistration
  | MULTIPLE_STRUCTURALLY_COMPATIBLE_CANDIDATES "SettlementProviderRegistration list"

definition discoverExecutionCandidates ::
    "Asset \<Rightarrow> SettlementRail \<Rightarrow> SettlementCapability option \<Rightarrow> CandidateDiscoveryResult" where
  "discoverExecutionCandidates asset rail requiredCapability =
     (if \<not> isSettlementScopeRegistered asset rail then SCOPE_NOT_REGISTERED
      else let allRegistered = listProvidersForScope asset rail None in
      if allRegistered = [] then SCOPE_REGISTERED_NO_PROVIDER
      else let compatible = (case requiredCapability of None \<Rightarrow> allRegistered
                              | Some c \<Rightarrow> filter (\<lambda>p. c \<in> set (reg_capabilities p)) allRegistered) in
      case (requiredCapability, compatible) of
        (Some c, []) \<Rightarrow> NO_PROVIDER_WITH_REQUIRED_CAPABILITY c allRegistered
      | (_, [p]) \<Rightarrow> SINGLE_STRUCTURALLY_COMPATIBLE_CANDIDATE p
      | _ \<Rightarrow> MULTIPLE_STRUCTURALLY_COMPATIBLE_CANDIDATES compatible)"

definition resolveSingleStructurallyCompatibleImplementation ::
    "Asset \<Rightarrow> SettlementRail \<Rightarrow> SettlementCapability option \<Rightarrow> string + EscrowType" where
  "resolveSingleStructurallyCompatibleImplementation asset rail cap =
     (case discoverExecutionCandidates asset rail cap of
        SCOPE_NOT_REGISTERED \<Rightarrow> Inl ''is not a registered Product Scope''
      | SCOPE_REGISTERED_NO_PROVIDER \<Rightarrow> Inl ''has zero registered settlement implementations yet''
      | NO_PROVIDER_WITH_REQUIRED_CAPABILITY _ _ \<Rightarrow> Inl ''none declare the required capability''
      | SINGLE_STRUCTURALLY_COMPATIBLE_CANDIDATE p \<Rightarrow> Inr (reg_implementation p)
      | MULTIPLE_STRUCTURALLY_COMPATIBLE_CANDIDATES _ \<Rightarrow> Inl ''refusing to guess which one to use'')"

fun translateLegacyAssetType :: "AssetType \<Rightarrow> SettlementScope option" where
  "translateLegacyAssetType A_BTC = Some (scope_of BTC BITCOIN_L1)"
| "translateLegacyAssetType USDT_ERC20 = Some (scope_of USDT ETHEREUM)"
| "translateLegacyAssetType USDT_TRC20 = Some (scope_of USDT TRON)"
| "translateLegacyAssetType USDT_LIQUID = Some (scope_of USDT LIQUID)"
| "translateLegacyAssetType LIQUID_BTC = Some (scope_of BTC LIQUID)"
| "translateLegacyAssetType _ = None"

section \<open>Provider tables and gates\<close>

text \<open>The keys of \<^verbatim>\<open>PROVIDERS\<close>, of the two provider sub-tables and of the rail sets.\<close>

definition PROVIDERS :: "EscrowType list" where
  "PROVIDERS = [MOCK, LIGHTNING_HODL, WDK_USDT_EVM, MULTISIG, SAFE_GUARD_EVM]"

definition NON_CUSTODIAL_PROVIDERS :: "EscrowType list" where
  "NON_CUSTODIAL_PROVIDERS = [MULTISIG, LIGHTNING_HODL, SAFE_GUARD_EVM]"

definition SIGNATURE_COLLECTION_PROVIDERS :: "EscrowType list" where
  "SIGNATURE_COLLECTION_PROVIDERS = [MULTISIG, LIGHTNING_HODL, SAFE_GUARD_EVM]"

definition FEE_COLLECTION_CAPABLE_RAILS :: "EscrowType list" where
  "FEE_COLLECTION_CAPABLE_RAILS = [MULTISIG]"

definition REAL_ESCROW_TYPES :: "EscrowType list" where
  "REAL_ESCROW_TYPES = [MULTISIG, LIGHTNING_HODL, SAFE_GUARD_EVM, WDK_USDT_EVM, MOCK]"

definition PRODUCTION_INELIGIBLE_TYPES :: "EscrowType list" where
  "PRODUCTION_INELIGIBLE_TYPES = [MOCK]"

fun RECOMMENDED_ESCROW_TYPE :: "AssetType \<Rightarrow> EscrowType option" where
  "RECOMMENDED_ESCROW_TYPE A_BTC = Some MULTISIG"
| "RECOMMENDED_ESCROW_TYPE LN_BTC = Some LIGHTNING_HODL"
| "RECOMMENDED_ESCROW_TYPE USDT_ERC20 = Some WDK_USDT_EVM"
| "RECOMMENDED_ESCROW_TYPE _ = None"

definition assertRailCanActivateFeeCollection :: "EscrowType \<Rightarrow> unit result" where
  "assertRailCanActivateFeeCollection rail =
     (if rail \<in> set REAL_ESCROW_TYPES \<and> rail \<notin> set FEE_COLLECTION_CAPABLE_RAILS
      then Inl (EscrowError ''Fee policy activation is not supported for rail'') else Inr ())"

definition assertDeploymentEligible :: "bool \<Rightarrow> EscrowType \<Rightarrow> unit result" where
  "assertDeploymentEligible production type =
     (if production \<and> type \<in> set PRODUCTION_INELIGIBLE_TYPES
      then Inl (EscrowError ''not economically eligible in production'') else Inr ())"

definition recommendedEscrowType :: "AssetType \<Rightarrow> EscrowType result" where
  "recommendedEscrowType asset =
     (case RECOMMENDED_ESCROW_TYPE asset of
        None \<Rightarrow> Inl (EscrowError ''No real SettlementProvider is wired for asset'')
      | Some t \<Rightarrow> Inr t)"

text \<open>The provider is looked up by its key, which stands for it here.\<close>

definition getSettlementProvider :: "bool \<Rightarrow> EscrowType \<Rightarrow> EscrowType result" where
  "getSettlementProvider production type =
     (case assertDeploymentEligible production type of
        Inl e \<Rightarrow> Inl e
      | Inr _ \<Rightarrow> if type = MOCK then Inr MOCK
                 else if type \<in> set PROVIDERS then Inr type
                 else Inl (EscrowError ''No SettlementProvider registered for escrow type''))"

definition getSignatureCollectionProvider :: "bool \<Rightarrow> EscrowType \<Rightarrow> EscrowType option result" where
  "getSignatureCollectionProvider production type =
     (case assertDeploymentEligible production type of
        Inl e \<Rightarrow> Inl e
      | Inr _ \<Rightarrow> Inr (if type \<in> set SIGNATURE_COLLECTION_PROVIDERS then Some type else None))"

definition resolveEscrowTypeCandidate :: "bool \<Rightarrow> AssetType \<Rightarrow> EscrowType option \<Rightarrow> EscrowType result" where
  "resolveEscrowTypeCandidate mockEscrow asset explicitType =
     (if explicitType = Some MOCK then Inr MOCK
      else if explicitType = None \<and> mockEscrow then Inr MOCK
      else case translateLegacyAssetType asset of
             Some sc \<Rightarrow>
               (case resolveSingleStructurallyCompatibleImplementation (sc_asset sc) (sc_rail sc) None of
                  Inl _ \<Rightarrow> Inl (EscrowError ''Cannot create an escrow'')
                | Inr impl \<Rightarrow>
                    if explicitType \<noteq> None \<and> explicitType \<noteq> Some impl
                    then Inl (EscrowError ''type does not match the canonical settlement implementation'')
                    else Inr impl)
           | None \<Rightarrow> (case explicitType of Some t \<Rightarrow> Inr t | None \<Rightarrow> recommendedEscrowType asset))"

definition resolveEscrowType :: "bool \<Rightarrow> bool \<Rightarrow> AssetType \<Rightarrow> EscrowType option \<Rightarrow> EscrowType result" where
  "resolveEscrowType production mockEscrow asset explicitType =
     (case resolveEscrowTypeCandidate mockEscrow asset explicitType of
        Inl e \<Rightarrow> Inl e
      | Inr resolved \<Rightarrow> (case getSettlementProvider production resolved of
                            Inl e \<Rightarrow> Inl e | Inr _ \<Rightarrow> Inr resolved))"

section \<open>Arbitration policy\<close>

datatype ArbitrationMode = trusted_list | market

datatype ArbitrationCapability = FIXED_ARBITER_COMMITMENT | DYNAMIC_REASSIGNABLE | UNKNOWN_CAPABILITY

fun arbitrationCapabilityFor :: "EscrowType \<Rightarrow> ArbitrationCapability" where
  "arbitrationCapabilityFor MULTISIG = FIXED_ARBITER_COMMITMENT"
| "arbitrationCapabilityFor MOCK = DYNAMIC_REASSIGNABLE"
| "arbitrationCapabilityFor _ = UNKNOWN_CAPABILITY"

definition resolveArbitrationModeForImplementation ::
    "EscrowType \<Rightarrow> ArbitrationMode \<Rightarrow> (EscrowType \<rightharpoonup> ArbitrationMode) \<Rightarrow> ArbitrationMode" where
  "resolveArbitrationModeForImplementation impl defaultMode overrides =
     (case overrides impl of None \<Rightarrow> defaultMode | Some m \<Rightarrow> m)"

definition assertArbitrationPolicyCompatible :: "EscrowType \<Rightarrow> ArbitrationMode \<Rightarrow> unit result" where
  "assertArbitrationPolicyCompatible impl mode =
     (if mode \<noteq> market then Inr ()
      else if arbitrationCapabilityFor impl = DYNAMIC_REASSIGNABLE then Inr ()
      else Inl (GenericError ''FATAL: market arbitration requires DYNAMIC_REASSIGNABLE''))"

text \<open>The boot-time check over every registered provider; the loop stops at the first failure.\<close>

fun check_each :: "('a \<Rightarrow> unit result) \<Rightarrow> 'a list \<Rightarrow> unit result" where
  "check_each f [] = Inr ()"
| "check_each f (x # xs) = (case f x of Inl e \<Rightarrow> Inl e | Inr _ \<Rightarrow> check_each f xs)"

definition assertArbitrationModeCompatibleWithAvailableRails ::
    "ArbitrationMode \<Rightarrow> (EscrowType \<rightharpoonup> ArbitrationMode) \<Rightarrow> unit result" where
  "assertArbitrationModeCompatibleWithAvailableRails defaultMode overrides =
     check_each (\<lambda>impl. assertArbitrationPolicyCompatible impl
                   (resolveArbitrationModeForImplementation impl defaultMode overrides)) PROVIDERS"

section \<open>Participant capability profiles\<close>

definition MULTISIG_CAPABILITY_PROFILE_V1 :: string where
  "MULTISIG_CAPABILITY_PROFILE_V1 = ''multisig-p2wsh-psbt-v1''"

definition isKnownCapabilityProfile :: "string \<Rightarrow> bool" where
  "isKnownCapabilityProfile p \<longleftrightarrow> p \<in> set [MULTISIG_CAPABILITY_PROFILE_V1]"

definition assertKnownCapabilityProfile :: "string option \<Rightarrow> unit result" where
  "assertKnownCapabilityProfile profile =
     (case profile of
        None \<Rightarrow> Inr ()
      | Some p \<Rightarrow> if isKnownCapabilityProfile p then Inr ()
                  else Inl (EscrowError ''Unrecognized capability profile''))"

fun REQUIRED_CAPABILITY_PROFILE :: "EscrowType \<Rightarrow> string option" where
  "REQUIRED_CAPABILITY_PROFILE MULTISIG = Some MULTISIG_CAPABILITY_PROFILE_V1"
| "REQUIRED_CAPABILITY_PROFILE _ = None"

datatype key_role = buyer | seller | arbiter

datatype blocker_reason = missing | incompatible

definition findCapabilityCommitBlocker ::
    "EscrowType \<Rightarrow> string option \<Rightarrow> string option \<Rightarrow> (key_role \<times> blocker_reason \<times> string option) option" where
  "findCapabilityCommitBlocker type buyerProfile sellerProfile =
     (case REQUIRED_CAPABILITY_PROFILE type of
        None \<Rightarrow> None
      | Some required \<Rightarrow>
          if buyerProfile = None \<or> buyerProfile = Some [] then Some (buyer, missing, None)
          else if buyerProfile \<noteq> Some required then Some (buyer, incompatible, buyerProfile)
          else if sellerProfile = None \<or> sellerProfile = Some [] then Some (seller, missing, None)
          else if sellerProfile \<noteq> Some required then Some (seller, incompatible, sellerProfile)
          else None)"

section \<open>Lemmas\<close>

lemma check_each_ok: "check_each f xs = Inr () \<longleftrightarrow> (\<forall>x \<in> set xs. f x = Inr ())"
  by (induction xs) (auto split: sum.split)

lemmas registry_defs =
  isSettlementScopeRegistered_def CANONICAL_DAY0_SCOPES_def PROVIDER_REGISTRATIONS_def
  listProvidersForScope_def discoverExecutionCandidates_def
  resolveSingleStructurallyCompatibleImplementation_def

lemma resolved_legacy:
  "translateLegacyAssetType a = Some sc \<Longrightarrow>
   resolveSingleStructurallyCompatibleImplementation (sc_asset sc) (sc_rail sc) None = Inr t \<Longrightarrow>
   implementationSupportsScope t (sc_asset sc) (sc_rail sc)"
  by (cases a) (auto simp: registry_defs implementationSupportsScope_def Let_def)

section \<open>Properties\<close>

text \<open>
  The type an escrow gets is never guessed. Whenever a type is resolved it is a wired
  provider, MOCK only when it was asked for or configured and never in production, any type
  the caller named is the one returned, and for an asset with a canonical scope a type other
  than MOCK is registered for exactly that scope.
\<close>

theorem resolveEscrowType_sound:
  assumes "resolveEscrowType production mockEscrow asset explicitType = Inr t"
  shows "t \<in> set PROVIDERS \<and> (t = MOCK \<longrightarrow> \<not> production \<and> (explicitType = Some MOCK \<or> mockEscrow))
       \<and> (explicitType = None \<or> explicitType = Some t)
       \<and> (\<forall>sc. translateLegacyAssetType asset = Some sc \<longrightarrow> t \<noteq> MOCK
                \<longrightarrow> implementationSupportsScope t (sc_asset sc) (sc_rail sc))"
proof -
  from assms have cand: "resolveEscrowTypeCandidate mockEscrow asset explicitType = Inr t"
    and prov: "getSettlementProvider production t = Inr t"
    by (auto simp: resolveEscrowType_def getSettlementProvider_def split: sum.splits if_splits)
  have wired: "t \<in> set PROVIDERS" and elig: "t = MOCK \<longrightarrow> \<not> production"
    using prov by (auto simp: getSettlementProvider_def assertDeploymentEligible_def PROVIDERS_def
        PRODUCTION_INELIGIBLE_TYPES_def split: sum.splits if_splits)
  have notmock: "resolveSingleStructurallyCompatibleImplementation a r None \<noteq> Inr MOCK" for a r
    by (auto simp: registry_defs Let_def split: list.split)
  have "RECOMMENDED_ESCROW_TYPE asset \<noteq> Some MOCK" by (cases asset) simp_all
  with cand notmock have "t = MOCK \<longrightarrow> explicitType = Some MOCK \<or> mockEscrow"
    by (auto simp: resolveEscrowTypeCandidate_def recommendedEscrowType_def
        split: if_splits option.splits sum.splits)
  moreover have "explicitType = None \<or> explicitType = Some t"
    using cand by (auto simp: resolveEscrowTypeCandidate_def split: if_splits option.splits sum.splits)
  moreover have "implementationSupportsScope t (sc_asset sc) (sc_rail sc)"
    if "translateLegacyAssetType asset = Some sc" "t \<noteq> MOCK" for sc
    using that cand resolved_legacy [OF that(1)]
    by (auto simp: resolveEscrowTypeCandidate_def split: if_splits sum.splits)
  ultimately show ?thesis using wired elig by blast
qed

theorem resolveEscrowType_sound_witness:
  "resolveEscrowType True False USDT_ERC20 None = Inr WDK_USDT_EVM
   \<and> implementationSupportsScope WDK_USDT_EVM USDT ETHEREUM"
proof -
  have r: "resolveEscrowType True False USDT_ERC20 None = Inr WDK_USDT_EVM"
    by (simp add: resolveEscrowType_def resolveEscrowTypeCandidate_def getSettlementProvider_def
        assertDeploymentEligible_def PRODUCTION_INELIGIBLE_TYPES_def PROVIDERS_def registry_defs Let_def)
  with resolveEscrowType_sound [OF r] show ?thesis by simp
qed

text \<open>
  The arbitration boot check. The node starts exactly when no wired provider other
  than MOCK is, by default or by override, under market arbitration; so a deployment whose
  default is market must override every other provider to the trusted list.
\<close>

theorem market_arbitration_only_for_mock:
  "assertArbitrationModeCompatibleWithAvailableRails defaultMode overrides = Inr ()
   \<longleftrightarrow> list_all (\<lambda>p. p = MOCK \<or> resolveArbitrationModeForImplementation p defaultMode overrides = trusted_list)
        PROVIDERS"
proof -
  have "assertArbitrationPolicyCompatible p m = Inr () \<longleftrightarrow> p = MOCK \<or> m = trusted_list" for p m
    by (cases p; cases m) (simp_all add: assertArbitrationPolicyCompatible_def)
  then show ?thesis
    by (simp add: assertArbitrationModeCompatibleWithAvailableRails_def check_each_ok list_all_iff)
qed

end
