(* ===== verification/Settlement_State.thy ===== *)
theory Settlement_State
  imports Interfaces Capability_Registry Semantic_Core Provider_Registry
begin

text \<open>
  The rows, the database state and the environment of the settlement module
  (\<^verbatim>\<open>src/modules/open-settlement\<close>), and the repositories over them
  (\<^verbatim>\<open>escrow-repository.ts\<close>, \<^verbatim>\<open>escrow-funding-evidence-repository.ts\<close>,
  \<^verbatim>\<open>payout-address.service.ts\<close>). A table with a unique key is a map; a log is a list.

  Database writes that happen inside a \<^verbatim>\<open>try\<close> block may fail: the state carries a list
  of booleans, one consumed per such write, and \<open>True\<close> makes the write throw. An empty list
  is a database that does not fail.
\<close>

section \<open>Rows\<close>

datatype EscrowStatus =
    CREATED | FUNDS_LOCKED | PAYMENT_PENDING | COMPLETED | DISPUTED | REFUNDED | SPLIT | EXPIRED

fun escrow_status_name :: "EscrowStatus \<Rightarrow> string" where
  "escrow_status_name CREATED = ''CREATED''"
| "escrow_status_name FUNDS_LOCKED = ''FUNDS_LOCKED''"
| "escrow_status_name PAYMENT_PENDING = ''PAYMENT_PENDING''"
| "escrow_status_name COMPLETED = ''COMPLETED''"
| "escrow_status_name DISPUTED = ''DISPUTED''"
| "escrow_status_name REFUNDED = ''REFUNDED''"
| "escrow_status_name SPLIT = ''SPLIT''"
| "escrow_status_name EXPIRED = ''EXPIRED''"

text \<open>The policy fields copied into an escrow when it is created.\<close>

record FeeSnapshotFields =
  fs_feePolicyVersionId :: string
  fs_protocolFeeRate :: rat
  fs_feeCollectionAddress :: "string option"
  fs_waivedPreFunding :: bool

record escrow_row =
  er_tradeId :: string
  er_type :: EscrowType
  er_status :: EscrowStatus
  er_lockedAmount :: rat
  er_asset :: AssetType
  er_network :: "string option"
  er_timelockHours :: int
  er_multisigAddr :: "string option"
  er_txLockId :: "string option"
  er_txLockVout :: "nat option"
  er_txReleaseId :: "string option"
  er_fundedAmount :: "rat option"
  er_lockedAt :: "int option"
  er_expiresAt :: "int option"
  er_releasedAt :: "int option"
  er_feePolicyVersionId :: "string option"
  er_snapshotProtocolFeeRate :: "rat option"
  er_snapshotFeeCollectionAddress :: "string option"
  er_snapshotWaivedPreFunding :: "bool option"
  er_feeCharged :: "rat option"

record trade_row =
  t_buyerId :: string
  t_sellerId :: string
  t_escrowId :: "string option"

record dispute_assignment =
  d_tradeId :: string
  d_arbiterId :: "string option"

record escrow_event_body =
  ee_from :: EscrowStatus
  ee_to :: EscrowStatus
  ee_triggeredBy :: string

type_synonym escrow_event = "string \<times> string option \<times> escrow_event_body chain_row"

datatype FundingEvidenceKind =
    OBSERVED_CONFIRMED | REORGED_INVALIDATED | RECONFIRMED | REPLACEMENT_OBSERVED | AMBIGUOUS

text \<open>
  A row of the evidence about the funding or the release of an escrow, as \<^verbatim>\<open>record\<close> of the two
  repositories takes it; the note for the operator is left out, nothing reads it.
\<close>

record chain_evidence =
  ev_escrowId :: string
  ev_kind :: FundingEvidenceKind
  ev_txid :: "string option"
  ev_vout :: "nat option"
  ev_amountSats :: "int option"
  ev_observedAtHeight :: "int option"
  ev_tipHeight :: "int option"

record participant_key =
  k_role :: key_role
  k_participantId :: string
  k_pubkey :: string
  k_capabilityProfile :: "string option"

record EscrowTimelockExpiryPayload =
  fromState :: EscrowStatus
  toState :: EscrowStatus
  deadlineMs :: int
  evaluationTimeMs :: int

text \<open>
  The durable row of an authoritative expiry, with the columns of
  \<^verbatim>\<open>toSemanticTransitionRecordRow\<close>.
\<close>

record semantic_record_row =
  sr_interactionId :: string
  sr_transitionType :: string
  sr_fromState :: EscrowStatus
  sr_toState :: EscrowStatus
  sr_priorPosition :: "string option"
  sr_ruleset :: RulesetRef
  sr_evaluatorIdentity :: CanonicalEvaluatorIdentity
  sr_profileIdentity :: CanonicalSemanticProfileIdentity
  sr_deadlineMs :: int
  sr_evaluationTimeMs :: int
  sr_conditionResult :: ConditionResult

datatype EconomicDetermination = OWED | NOT_APPLICABLE

datatype FeeCollectionStatus =
    PENDING_COLLECTION | IN_PROGRESS | WAIVED | UNCOLLECTIBLE_BYPASSED | COLLECTED | DISTRIBUTED

record fee_obligation_row =
  fo_escrowId :: string
  fo_feePolicyVersionId :: string
  fo_determination :: EconomicDetermination
  fo_collectionStatus :: "FeeCollectionStatus option"
  fo_basisAmount :: "rat option"
  fo_computedFee :: "rat option"
  fo_asset :: "AssetType option"

datatype FeePolicyStatus = DRAFT | PUBLISHED | RETIRED

record fee_policy_row =
  fp_id :: string
  fp_railScope :: EscrowType
  fp_status :: FeePolicyStatus
  fp_protocolFeeRate :: rat
  fp_requiredConfirmations :: "int option"
  fp_fixtureOnlyMinimum :: "rat option"

text \<open>A call of a settlement provider, with whether it succeeded.\<close>

datatype provider_action =
    LockCall | ReleaseCall string | RefundCall | SplitCall string string rat

type_synonym provider_call = "string \<times> provider_action \<times> bool"

section \<open>State and environment\<close>

record settlement_state = registry_state +
  escrows :: "string \<rightharpoonup> escrow_row"
  escrow_ids :: "string list"
  trade_escrow :: "string \<rightharpoonup> string"
  trades :: "string \<rightharpoonup> trade_row"
  disputes :: "dispute_assignment list"
  escrow_events :: "escrow_event list"
  funding_evidence :: "chain_evidence list"
  release_approvals :: "(string \<times> string) list"
  participant_keys :: "(string \<times> participant_key) list"
  payout_addresses :: "string \<times> AssetType \<rightharpoonup> string"
  semantic_records :: "semantic_record_row list"
  fee_policies :: "fee_policy_row list"
  obligations :: "string \<rightharpoonup> fee_obligation_row"
  obligation_of :: "string \<rightharpoonup> string"
  failures :: "string \<rightharpoonup> nat \<times> int"
  openCircuits :: "string \<rightharpoonup> nat \<times> int"
  settle_bus :: "(string \<times> string) list"
  provider_calls :: "provider_call list"
  faults :: "bool list"

record lock_result =
  lr_txId :: string
  lr_address :: string
  lr_vout :: "nat option"
  lr_fundedAmount :: "rat option"
  lr_confirmedAtHeight :: "int option"
  lr_tipHeight :: "int option"

record settle_env =
  s_sha256 :: "string \<Rightarrow> string"
  s_uuid :: "nat \<Rightarrow> string"
  s_dateOf :: "json \<Rightarrow> int option"
  s_round :: "rat \<Rightarrow> rat"
  s_stringify :: "string \<Rightarrow> string"
  s_enforceCapabilities :: bool
  s_requireDualApproval :: bool
  s_mockEscrow :: bool
  s_isProduction :: bool
  s_defaultTimelockHours :: int
  s_failureThreshold :: nat
  s_windowMs :: int
  s_cooldownMs :: int
  s_feeCollectionAddress :: "string option"
  s_outputScript :: "string \<Rightarrow> nat list option"
  pv_lock :: "EscrowType \<Rightarrow> string \<Rightarrow> escrow_row \<Rightarrow> nat \<Rightarrow> lock_result result"
  pv_release :: "EscrowType \<Rightarrow> string \<Rightarrow> escrow_row \<Rightarrow> string \<Rightarrow> nat \<Rightarrow> string result"
  pv_refund :: "EscrowType \<Rightarrow> string \<Rightarrow> escrow_row \<Rightarrow> nat \<Rightarrow> string result"
  pv_split :: "EscrowType \<Rightarrow> (string \<Rightarrow> escrow_row \<Rightarrow> string \<Rightarrow> string \<Rightarrow> rat \<Rightarrow> nat \<Rightarrow> string list result) option"
  pv_depositAddress :: "EscrowType \<Rightarrow> string \<Rightarrow> string \<Rightarrow> string \<Rightarrow> nat \<Rightarrow> (string \<times> string option \<times> string option) result"

type_synonym 'a settle = "(settlement_state, 'a) handler"

section \<open>Fallible writes and provider calls\<close>

definition dbWrite :: "string \<Rightarrow> (settlement_state \<Rightarrow> settlement_state) \<Rightarrow> unit settle" where
  "dbWrite tag f s =
     (case faults s of
        True # fs \<Rightarrow> (Inl (DatabaseError tag), s\<lparr>faults := fs\<rparr>)
      | False # fs \<Rightarrow> (Inr (), f (s\<lparr>faults := fs\<rparr>))
      | [] \<Rightarrow> (Inr (), f s))"

text \<open>
  \<^verbatim>\<open>prisma.$transaction\<close>: an error inside takes back every write of the body; what the
  database did to cause it is not taken back.
\<close>

definition transactionH :: "'a settle \<Rightarrow> 'a settle" where
  "transactionH m s = (case m s of (Inl e, s') \<Rightarrow> (Inl e, s\<lparr>faults := faults s'\<rparr>) | (Inr a, s') \<Rightarrow> (Inr a, s'))"

text \<open>
  A provider call is numbered by the calls before it, which is how its answer may depend on
  the outside world, and is recorded with its outcome.
\<close>

definition callProvider :: "string \<Rightarrow> provider_action \<Rightarrow> (nat \<Rightarrow> 'a result) \<Rightarrow> 'a settle" where
  "callProvider i act f s =
     (let r = f (length (provider_calls s)) in
      (r, s\<lparr>provider_calls := provider_calls s @ [(i, act, case r of Inl _ \<Rightarrow> False | Inr _ \<Rightarrow> True)]\<rparr>))"

definition succeeded_calls :: "string \<Rightarrow> settlement_state \<Rightarrow> provider_action list" where
  "succeeded_calls i s = map (fst \<circ> snd) (filter (\<lambda>(j, _, ok). j = i \<and> ok) (provider_calls s))"

section \<open>Escrow repository\<close>

definition findEscrow :: "string \<Rightarrow> escrow_row option settle" where
  "findEscrow i = readH (\<lambda>s. escrows s i)"

definition findTrade :: "string \<Rightarrow> trade_row option settle" where
  "findTrade i = readH (\<lambda>s. trades s i)"

definition requireEscrow :: "string \<Rightarrow> escrow_row settle" where
  "requireEscrow i = seqH (findEscrow i) (\<lambda>r. requireH r (NotFoundError ''Escrow'' i))"

definition requireTrade :: "string \<Rightarrow> trade_row settle" where
  "requireTrade i = seqH (findTrade i) (\<lambda>r. requireH r (NotFoundError ''Trade'' i))"

definition set_escrow :: "string \<Rightarrow> (escrow_row \<Rightarrow> escrow_row) \<Rightarrow> settlement_state \<Rightarrow> settlement_state" where
  "set_escrow i f s =
     s\<lparr>escrows := (case escrows s i of None \<Rightarrow> escrows s | Some r \<Rightarrow> (escrows s)(i \<mapsto> f r))\<rparr>"

definition claimEscrowStatus ::
    "string \<Rightarrow> EscrowStatus \<Rightarrow> EscrowStatus \<Rightarrow> settlement_state \<Rightarrow> nat \<times> settlement_state" where
  "claimEscrowStatus i from to s =
     (case escrows s i of
        Some r \<Rightarrow> if er_status r = from
                  then (1, s\<lparr>escrows := (escrows s)(i \<mapsto> r\<lparr>er_status := to\<rparr>)\<rparr>) else (0, s)
      | None \<Rightarrow> (0, s))"

definition claimTransitionE :: "string \<Rightarrow> EscrowStatus \<Rightarrow> EscrowStatus \<Rightarrow> nat settle" where
  "claimTransitionE i from to s = (case claimEscrowStatus i from to s of (n, s') \<Rightarrow> (Inr n, s'))"

definition revertStatus :: "string \<Rightarrow> EscrowStatus \<Rightarrow> EscrowStatus \<Rightarrow> unit settle" where
  "revertStatus i claimed from =
     dbWrite ''revertStatus'' (\<lambda>s. snd (claimEscrowStatus i claimed from s))"

definition createEscrowRow :: "settle_env \<Rightarrow> escrow_row \<Rightarrow> string settle" where
  "createEscrowRow env row =
     seqH (readH (\<lambda>s. (s_uuid env (draws s), trade_escrow s (er_tradeId row)))) (\<lambda>(i, existing).
     seqH (guardH (existing = None) (DatabaseError ''P2002'')) (\<lambda>_.
     seqH (writeH (\<lambda>s. s\<lparr>escrows := (escrows s)(i \<mapsto> row), escrow_ids := escrow_ids s @ [i],
             trade_escrow := (trade_escrow s)(er_tradeId row \<mapsto> i), draws := Suc (draws s)\<rparr>)) (\<lambda>_. ret i)))"

definition findDisputeByTradeAndArbiter :: "string \<Rightarrow> string \<Rightarrow> dispute_assignment option settle" where
  "findDisputeByTradeAndArbiter tradeId arbiterId =
     readH (\<lambda>s. find (\<lambda>d. d_tradeId d = tradeId \<and> d_arbiterId d = Some arbiterId) (disputes s))"

definition select_escrows :: "(escrow_row \<Rightarrow> bool) \<Rightarrow> settlement_state \<Rightarrow> (string \<times> escrow_row) list" where
  "select_escrows P s =
     concat (map (\<lambda>i. case escrows s i of None \<Rightarrow> [] | Some r \<Rightarrow> if P r then [(i, r)] else []) (escrow_ids s))"

definition findExpiredFundsLocked :: "int \<Rightarrow> (string \<times> escrow_row) list settle" where
  "findExpiredFundsLocked now =
     readH (select_escrows (\<lambda>r. er_status r = FUNDS_LOCKED
              \<and> (case er_expiresAt r of None \<Rightarrow> False | Some e \<Rightarrow> e < now)))"

definition findFundsLockedExpiryCandidates :: "int \<Rightarrow> EscrowType list \<Rightarrow> (string \<times> escrow_row) list settle" where
  "findFundsLockedExpiryCandidates now types =
     readH (select_escrows (\<lambda>r. er_status r = FUNDS_LOCKED \<and> er_type r \<in> set types
              \<and> (case er_expiresAt r of None \<Rightarrow> False | Some e \<Rightarrow> e \<le> now)))"

definition updateMultisigAddr :: "string \<Rightarrow> string \<Rightarrow> unit settle" where
  "updateMultisigAddr i addr = writeH (set_escrow i (\<lambda>r. r\<lparr>er_multisigAddr := Some addr\<rparr>))"

text \<open>
  The outpoint columns are unique as a pair; a null vout never conflicts. A conflict
  surfaces as an \<^verbatim>\<open>EscrowError\<close>.
\<close>

definition outpoint_taken :: "string \<Rightarrow> string \<Rightarrow> nat option \<Rightarrow> settlement_state \<Rightarrow> bool" where
  "outpoint_taken i txId vout s \<longleftrightarrow>
     vout \<noteq> None
     \<and> list_ex (\<lambda>j. j \<noteq> i \<and> (case escrows s j of None \<Rightarrow> False
                 | Some r \<Rightarrow> er_txLockId r = Some txId \<and> er_txLockVout r = vout)) (escrow_ids s)"

definition updateLockResult :: "string \<Rightarrow> lock_result \<Rightarrow> int \<Rightarrow> int \<Rightarrow> unit settle" where
  "updateLockResult i res now expiresAt =
     seqH (readH (outpoint_taken i (lr_txId res) (lr_vout res))) (\<lambda>conflict.
     seqH (guardH (\<not> conflict) (EscrowError ''Funding outpoint is already claimed by another escrow'')) (\<lambda>_.
       dbWrite ''updateLockResult''
         (set_escrow i (\<lambda>r. r\<lparr>er_txLockId := Some (lr_txId res), er_txLockVout := lr_vout res,
            er_multisigAddr := Some (lr_address res), er_lockedAt := Some now, er_expiresAt := Some expiresAt,
            er_fundedAmount := (case lr_fundedAmount res of None \<Rightarrow> er_fundedAmount r | Some f \<Rightarrow> Some f)\<rparr>))))"

definition updateReleaseResult :: "string \<Rightarrow> string \<Rightarrow> int \<Rightarrow> unit settle" where
  "updateReleaseResult i txId now =
     dbWrite ''updateReleaseResult'' (set_escrow i (\<lambda>r. r\<lparr>er_txReleaseId := Some txId, er_releasedAt := Some now, er_feeCharged := None\<rparr>))"

definition updateRefundResult :: "string \<Rightarrow> string \<Rightarrow> unit settle" where
  "updateRefundResult i txId =
     dbWrite ''updateRefundResult'' (set_escrow i (\<lambda>r. r\<lparr>er_txReleaseId := Some txId\<rparr>))"

definition updateSplitResult :: "string \<Rightarrow> string \<Rightarrow> int \<Rightarrow> unit settle" where
  "updateSplitResult i txIds now =
     dbWrite ''updateSplitResult'' (set_escrow i (\<lambda>r. r\<lparr>er_txReleaseId := Some txIds, er_releasedAt := Some now\<rparr>))"

section \<open>Funding evidence and payout addresses\<close>

definition recordFundingEvidence :: "chain_evidence \<Rightarrow> unit settle" where
  "recordFundingEvidence ev =
     dbWrite ''escrowFundingEvidence'' (\<lambda>s. s\<lparr>funding_evidence := funding_evidence s @ [ev]\<rparr>)"

definition listFundingEvidence :: "string \<Rightarrow> settlement_state \<Rightarrow> chain_evidence list" where
  "listFundingEvidence i s = filter (\<lambda>e. ev_escrowId e = i) (funding_evidence s)"

definition TRUSTWORTHY_KINDS :: "FundingEvidenceKind list" where
  "TRUSTWORTHY_KINDS = [OBSERVED_CONFIRMED, RECONFIRMED]"

definition isFundingUncertain :: "string \<Rightarrow> bool settle" where
  "isFundingUncertain i =
     readH (\<lambda>s. let evidence = listFundingEvidence i s in
                evidence \<noteq> [] \<and> ev_kind (last evidence) \<notin> set TRUSTWORTHY_KINDS)"

definition setPayoutAddress :: "string \<Rightarrow> AssetType \<Rightarrow> string \<Rightarrow> unit settle" where
  "setPayoutAddress who asset addr =
     writeH (\<lambda>s. s\<lparr>payout_addresses := (payout_addresses s)((who, asset) \<mapsto> addr)\<rparr>)"

definition getPayoutAddress :: "string \<Rightarrow> AssetType \<Rightarrow> string option settle" where
  "getPayoutAddress who asset = readH (\<lambda>s. payout_addresses s (who, asset))"

definition getPayoutAddressOrThrow :: "string \<Rightarrow> AssetType \<Rightarrow> string settle" where
  "getPayoutAddressOrThrow who asset =
     seqH (getPayoutAddress who asset) (\<lambda>r. requireH r (NotFoundError ''PayoutAddress'' who))"

section \<open>Weakest preconditions of the repositories\<close>

lemma wp_dbWrite [wp_eqs]:
  "wpH (dbWrite tag f) Q E s =
     (case faults s of
        True # fs \<Rightarrow> E (DatabaseError tag) (s\<lparr>faults := fs\<rparr>)
      | False # fs \<Rightarrow> Q () (f (s\<lparr>faults := fs\<rparr>))
      | [] \<Rightarrow> Q () (f s))"
  by (simp add: wpH_def dbWrite_def split: list.split bool.split)

lemma wp_transactionH [wp_eqs]:
  "wpH (transactionH m) Q E s = wpH m Q (\<lambda>e s'. E e (s\<lparr>faults := faults s'\<rparr>)) s"
  by (simp add: wpH_def transactionH_def split: prod.split sum.split)

lemma wp_callProvider [wp_eqs]:
  "wpH (callProvider i act f) Q E s =
     (case f (length (provider_calls s)) of
        Inl e \<Rightarrow> E e (s\<lparr>provider_calls := provider_calls s @ [(i, act, False)]\<rparr>)
      | Inr a \<Rightarrow> Q a (s\<lparr>provider_calls := provider_calls s @ [(i, act, True)]\<rparr>))"
  by (simp add: wpH_def callProvider_def Let_def split: sum.split)

lemma wp_findEscrow [wp_eqs]: "wpH (findEscrow i) Q E s = Q (escrows s i) s"
  by (simp add: findEscrow_def wp_eqs)

lemma wp_requireEscrow [wp_eqs]:
  "wpH (requireEscrow i) Q E s =
     (case escrows s i of None \<Rightarrow> E (NotFoundError ''Escrow'' i) s | Some r \<Rightarrow> Q r s)"
  by (simp add: requireEscrow_def findEscrow_def wp_eqs)

lemma wp_requireTrade [wp_eqs]:
  "wpH (requireTrade i) Q E s =
     (case trades s i of None \<Rightarrow> E (NotFoundError ''Trade'' i) s | Some r \<Rightarrow> Q r s)"
  by (simp add: requireTrade_def findTrade_def wp_eqs)

lemma wp_claimTransitionE [wp_eqs]:
  "wpH (claimTransitionE i f t) Q E s =
     Q (fst (claimEscrowStatus i f t s)) (snd (claimEscrowStatus i f t s))"
  by (simp add: claimTransitionE_def wpH_def split: prod.split)

lemma wp_findDispute [wp_eqs]:
  "wpH (findDisputeByTradeAndArbiter t a) Q E s =
     Q (find (\<lambda>d. d_tradeId d = t \<and> d_arbiterId d = Some a) (disputes s)) s"
  by (simp add: findDisputeByTradeAndArbiter_def wp_eqs)

definition funding_uncertain :: "string \<Rightarrow> settlement_state \<Rightarrow> bool" where
  "funding_uncertain i s \<longleftrightarrow>
     listFundingEvidence i s \<noteq> [] \<and> ev_kind (last (listFundingEvidence i s)) \<notin> {OBSERVED_CONFIRMED, RECONFIRMED}"

lemma wp_isFundingUncertain [wp_eqs]:
  "wpH (isFundingUncertain i) Q E s = Q (funding_uncertain i s) s"
  by (simp add: isFundingUncertain_def wp_eqs Let_def funding_uncertain_def TRUSTWORTHY_KINDS_def)

lemma wp_getPayoutAddress [wp_eqs]:
  "wpH (getPayoutAddress who asset) Q E s = Q (payout_addresses s (who, asset)) s"
  by (simp add: getPayoutAddress_def wp_eqs)

interpretation escrow_claim: status_claim claimEscrowStatus "\<lambda>s i. map_option er_status (escrows s i)"
  by unfold_locales (auto simp: claimEscrowStatus_def split: option.splits)

section \<open>Invariants of settlement handlers\<close>

text \<open>
  An invariant of the settlement state that does not speak about what the database is going
  to do nor about the published events; and one that does not depend on the provider calls
  made so far either. Every operation of the module is built from the handlers below, so a client
  proves its invariant only for the writes that touch it.
\<close>

locale write_invariant =
  fixes I :: "settlement_state \<Rightarrow> bool"
  assumes inv_faults: "I s \<Longrightarrow> I (s\<lparr>faults := fs\<rparr>)"
    and inv_bus: "I s \<Longrightarrow> I (s\<lparr>settle_bus := b\<rparr>)"
begin

lemma preserves_dbWrite: "(\<And>s. I s \<Longrightarrow> I (f s)) \<Longrightarrow> preserves I (dbWrite tag f)"
  by (auto simp: preserves_def dbWrite_def inv_faults split: list.split bool.split)

lemma preserves_transactionH: "preserves I m \<Longrightarrow> preserves I (transactionH m)"
  by (fastforce simp: preserves_def transactionH_def inv_faults split: prod.splits sum.splits)

lemma preserves_reads:
  "preserves I (findEscrow i)" "preserves I (findTrade j)" "preserves I (requireEscrow i)"
  "preserves I (requireTrade j)" "preserves I (findDisputeByTradeAndArbiter j a)"
  "preserves I (isFundingUncertain i)" "preserves I (getPayoutAddress who asset)"
  "preserves I (findExpiredFundsLocked now)" "preserves I (findFundsLockedExpiryCandidates now tys)"
  by (simp_all add: findEscrow_def findTrade_def requireEscrow_def requireTrade_def
      findDisputeByTradeAndArbiter_def isFundingUncertain_def getPayoutAddress_def
      findExpiredFundsLocked_def findFundsLockedExpiryCandidates_def
      preserves_seqH preserves_readH preserves_requireH)

lemmas preserves_base = preserves_dbWrite preserves_transactionH preserves_reads

end

locale settlement_invariant = write_invariant +
  assumes inv_calls: "I s \<Longrightarrow> I (s\<lparr>provider_calls := cs\<rparr>)"
begin

lemma preserves_callProvider: "preserves I (callProvider i act f)"
  by (simp add: preserves_def callProvider_def Let_def inv_calls)

end

end
