(* ===== verification/Fee_Obligation.thy ===== *)
theory Fee_Obligation
  imports Settlement_State
begin

text \<open>
  The protocol fee of a settlement: \<^verbatim>\<open>fee-reserve-math.ts\<close>, the dust policy of
  \<^verbatim>\<open>bitcoin-dust-policy.ts\<close>, \<^verbatim>\<open>fee-policy.service.ts\<close> with its repository,
  \<^verbatim>\<open>escrow-fee-snapshot.service.ts\<close>, \<^verbatim>\<open>execution-cost-policy.ts\<close> and
  \<^verbatim>\<open>fee-obligation.service.ts\<close> with its repository.

  Amounts are decimals of the library \<^verbatim>\<open>decimal.js\<close>: exact rationals whose products,
  quotients and sums are rounded to the precision of the library. That rounding is a
  parameter \<open>rnd\<close>; what the code relies on is \<open>decimal_rounding\<close>: rounding to a number
  of significant digits is monotone, keeps zero and commutes with a shift of the point.
\<close>

section \<open>Decimal arithmetic\<close>

definition decimal_rounding :: "(rat \<Rightarrow> rat) \<Rightarrow> bool" where
  "decimal_rounding rnd \<longleftrightarrow> mono rnd \<and> rnd 0 = 0 \<and> (\<forall>x. rnd (10 * x) = 10 * rnd x)"

text \<open>\<^verbatim>\<open>toDecimalPlaces(8, ROUND_DOWN)\<close>: truncation towards zero.\<close>

definition to_8dp_down :: "rat \<Rightarrow> rat" where
  "to_8dp_down x =
     (if 0 \<le> x then of_int \<lfloor>x * 100000000\<rfloor> / 100000000 else of_int \<lceil>x * 100000000\<rceil> / 100000000)"

text \<open>\<^verbatim>\<open>toFixed(0)\<close>: to the nearest integer, halves away from zero.\<close>

definition to_fixed_0 :: "rat \<Rightarrow> int" where
  "to_fixed_0 x = (if 0 \<le> x then \<lfloor>x + 1 / 2\<rfloor> else \<lceil>x - 1 / 2\<rceil>)"

section \<open>Reserve mathematics\<close>

definition computeProtocolFee :: "(rat \<Rightarrow> rat) \<Rightarrow> rat \<Rightarrow> rat \<Rightarrow> rat" where
  "computeProtocolFee rnd basisAmount rate = to_8dp_down (rnd (basisAmount * rate))"

definition computeMaxProtocolFee :: "(rat \<Rightarrow> rat) \<Rightarrow> rat \<Rightarrow> rat \<Rightarrow> rat" where
  "computeMaxProtocolFee rnd lockedAmount rate = computeProtocolFee rnd lockedAmount rate"

definition computeRequiredFundingAmount :: "(rat \<Rightarrow> rat) \<Rightarrow> rat \<Rightarrow> rat \<Rightarrow> rat" where
  "computeRequiredFundingAmount rnd lockedAmount rate =
     rnd (lockedAmount + computeMaxProtocolFee rnd lockedAmount rate)"

text \<open>The part of a split on which the fee is due: what the seller keeps.\<close>

definition obligation_basis :: "(rat \<Rightarrow> rat) \<Rightarrow> rat \<Rightarrow> rat option \<Rightarrow> rat" where
  "obligation_basis rnd lockedAmount splitBuyerBps =
     (case splitBuyerBps of
        None \<Rightarrow> lockedAmount
      | Some bps \<Rightarrow> to_8dp_down (rnd (rnd (lockedAmount * (10000 - bps)) / 10000)))"

section \<open>Dust\<close>

text \<open>Output scripts are lists of byte values.\<close>

definition isWitnessProgram :: "nat list \<Rightarrow> bool" where
  "isWitnessProgram script \<longleftrightarrow>
     4 \<le> length script \<and> length script \<le> 42
     \<and> (script ! 0 = 0 \<or> (81 \<le> script ! 0 \<and> script ! 0 \<le> 96))
     \<and> 2 \<le> script ! 1 \<and> script ! 1 \<le> 40 \<and> length script = 2 + script ! 1"

datatype OutputScriptKind = P2WPKH | P2WSH | P2TR | P2WITNESS_OTHER | P2PKH | P2SH | OTHER

definition classifyOutputScript :: "nat list \<Rightarrow> OutputScriptKind" where
  "classifyOutputScript script =
     (if isWitnessProgram script then
        if script ! 0 = 0 \<and> script ! 1 = 20 then P2WPKH
        else if script ! 0 = 0 \<and> script ! 1 = 32 then P2WSH
        else if script ! 0 = 81 \<and> script ! 1 = 32 then P2TR
        else P2WITNESS_OTHER
      else if length script = 25 \<and> script ! 0 = 118 \<and> script ! 1 = 169 \<and> script ! 2 = 20
              \<and> script ! 23 = 136 \<and> script ! 24 = 172 then P2PKH
      else if length script = 23 \<and> script ! 0 = 169 \<and> script ! 1 = 20 \<and> script ! 22 = 135 then P2SH
      else OTHER)"

definition dustThresholdSats :: "nat list \<Rightarrow> int result" where
  "dustThresholdSats script =
     (if 252 < length script then Inl (EscrowError ''UnsupportedOutputScriptError'')
      else let txoutSize = 8 + 1 + int (length script);
               witnessDiscountedInputOverhead = 32 + 4 + 1 + 107 div 4 + 4;
               legacyInputOverhead = 32 + 4 + 1 + 107 + 4;
               inputOverhead = (if isWitnessProgram script then witnessDiscountedInputOverhead else legacyInputOverhead);
               nSize = txoutSize + inputOverhead
           in Inr ((3000 * nSize + 999) div 1000))"

record ValidatedOutput =
  vo_address :: string
  vo_value :: int
  vo_script :: "nat list"
  vo_kind :: OutputScriptKind
  vo_dustThreshold :: int

definition validateOutput :: "(string \<Rightarrow> nat list option) \<Rightarrow> string \<Rightarrow> int \<Rightarrow> ValidatedOutput result" where
  "validateOutput toOutputScript address value =
     (case toOutputScript address of
        None \<Rightarrow> Inl (EscrowError ''destination address is invalid or does not match the configured network'')
      | Some script \<Rightarrow>
          (case dustThresholdSats script of
             Inl e \<Rightarrow> Inl e
           | Inr threshold \<Rightarrow>
               if value < threshold then Inl (EscrowError ''output is below the dust threshold'')
               else Inr \<lparr>vo_address = address, vo_value = value, vo_script = script,
                         vo_kind = classifyOutputScript script, vo_dustThreshold = threshold\<rparr>))"

definition evaluateFeeCollectibility :: "settle_env \<Rightarrow> int \<Rightarrow> (bool \<times> string option) result" where
  "evaluateFeeCollectibility env candidateFeeSats =
     (if candidateFeeSats \<le> 0 then Inr (False, None)
      else case s_feeCollectionAddress env of
        None \<Rightarrow> Inr (False, None)
      | Some address \<Rightarrow>
          (if address = [] then Inr (False, None)
           else case s_outputScript env address of
             None \<Rightarrow> Inr (False, None)
           | Some script \<Rightarrow>
               (case dustThresholdSats script of
                  Inl e \<Rightarrow> Inl e
                | Inr threshold \<Rightarrow>
                    if candidateFeeSats < threshold then Inr (False, None) else Inr (True, Some address))))"

section \<open>Execution cost\<close>

record cost_config =
  maxFeeRateSatsPerVByte :: rat
  maxFeeProportionOfGrossBasisPoints :: int
  minFeeFloorSats :: int

definition estimatedVBytesForOutputCount :: "int \<Rightarrow> int" where
  "estimatedVBytesForOutputCount outputCount = 11 + 110 + 43 * outputCount"

text \<open>Division of big integers truncates towards zero.\<close>

definition bigint_div :: "int \<Rightarrow> int \<Rightarrow> int" where
  "bigint_div a b = (if 0 \<le> a then a div b else - ((- a) div b))"

definition maxExecutionCostSats :: "cost_config \<Rightarrow> int \<Rightarrow> int \<Rightarrow> int" where
  "maxExecutionCostSats cfg outputCount grossSats =
     (let rateBound = \<lceil>maxFeeRateSatsPerVByte cfg * of_int (estimatedVBytesForOutputCount outputCount)\<rceil>;
          proportionalBound = bigint_div (grossSats * maxFeeProportionOfGrossBasisPoints cfg) 10000;
          tightest = (if rateBound < proportionalBound then rateBound else proportionalBound);
          floor = minFeeFloorSats cfg
      in if tightest > floor then tightest else floor)"

definition deriveDistributableTotal :: "cost_config \<Rightarrow> int \<Rightarrow> int \<Rightarrow> int \<Rightarrow> string + int \<times> int" where
  "deriveDistributableTotal cfg grossSats deliveredTotalSats outputCount =
     (let impliedFeeSats = grossSats - deliveredTotalSats in
      if impliedFeeSats < 0 then Inl ''exceeds the authorized gross entitlement''
      else if impliedFeeSats > maxExecutionCostSats cfg outputCount grossSats
      then Inl ''implied execution cost exceeds the deterministic ceiling''
      else Inr (deliveredTotalSats, impliedFeeSats))"

section \<open>Fee policies\<close>

definition findPolicy :: "string \<Rightarrow> fee_policy_row option settle" where
  "findPolicy pid = readH (\<lambda>s. find (\<lambda>p. fp_id p = pid) (fee_policies s))"

definition createDraft :: "settle_env \<Rightarrow> fee_policy_row \<Rightarrow> fee_policy_row settle" where
  "createDraft env input =
     seqH (readH (\<lambda>s. input\<lparr>fp_id := s_uuid env (draws s), fp_status := DRAFT\<rparr>)) (\<lambda>row.
     seqH (writeH (\<lambda>s. s\<lparr>fee_policies := fee_policies s @ [row], draws := Suc (draws s)\<rparr>)) (\<lambda>_. ret row))"

definition setPolicyStatus :: "string \<Rightarrow> FeePolicyStatus \<Rightarrow> unit settle" where
  "setPolicyStatus pid st =
     writeH (\<lambda>s. s\<lparr>fee_policies := map (\<lambda>p. if fp_id p = pid then p\<lparr>fp_status := st\<rparr> else p) (fee_policies s)\<rparr>)"

text \<open>
  A partial unique index of the database allows one PUBLISHED row per rail: the update that
  would make a second one fails.
\<close>

definition rail_has_other_published :: "string \<Rightarrow> EscrowType \<Rightarrow> settlement_state \<Rightarrow> bool" where
  "rail_has_other_published pid rail s \<longleftrightarrow>
     list_ex (\<lambda>p. fp_id p \<noteq> pid \<and> fp_railScope p = rail \<and> fp_status p = PUBLISHED) (fee_policies s)"

definition publish :: "string \<Rightarrow> unit settle" where
  "publish pid =
     seqH (findPolicy pid) (\<lambda>r.
     seqH (requireH r (ValidationError ''FeePolicyVersion not found'')) (\<lambda>policy.
     seqH (guardH (fp_status policy = DRAFT) (ValidationError ''only a DRAFT policy may be published'')) (\<lambda>_.
     seqH (guardH (\<not> fp_protocolFeeRate policy < 0) (ValidationError ''protocolFeeRate must be >= 0'')) (\<lambda>_.
     seqH (guardH (case fp_requiredConfirmations policy of None \<Rightarrow> False | Some c \<Rightarrow> \<not> c \<le> 0)
             (ValidationError ''requiredConfirmations must be a positive integer'')) (\<lambda>_.
     seqH (liftH (assertRailCanActivateFeeCollection (fp_railScope policy))) (\<lambda>_.
     seqH (readH (rail_has_other_published pid (fp_railScope policy))) (\<lambda>taken.
     seqH (guardH (\<not> taken) (DatabaseError ''P2002'')) (\<lambda>_.
       setPolicyStatus pid PUBLISHED))))))))"

definition retire :: "string \<Rightarrow> unit settle" where
  "retire pid =
     seqH (findPolicy pid) (\<lambda>r.
     seqH (requireH r (ValidationError ''FeePolicyVersion not found'')) (\<lambda>policy.
     seqH (guardH (fp_status policy = PUBLISHED) (ValidationError ''only a PUBLISHED policy may be retired'')) (\<lambda>_.
       setPolicyStatus pid RETIRED)))"

definition findPublishedForRail :: "EscrowType \<Rightarrow> fee_policy_row list settle" where
  "findPublishedForRail rail =
     readH (\<lambda>s. filter (\<lambda>p. fp_railScope p = rail \<and> fp_status p = PUBLISHED) (fee_policies s))"

definition findLivePolicyForRail :: "EscrowType \<Rightarrow> fee_policy_row option settle" where
  "findLivePolicyForRail rail =
     seqH (findPublishedForRail rail) (\<lambda>published.
       case published of
         [] \<Rightarrow> ret None
       | [p] \<Rightarrow> ret (Some p)
       | _ \<Rightarrow> throw (EconomicAuthorityAmbiguityError ''several FeePolicyVersion rows are PUBLISHED for this rail''))"

definition assertPublished :: "string \<Rightarrow> fee_policy_row settle" where
  "assertPublished pid =
     seqH (findPolicy pid) (\<lambda>r.
     seqH (requireH r (ValidationError ''FeePolicyVersion is not PUBLISHED'')) (\<lambda>policy.
     seqH (guardH (fp_status policy = PUBLISHED) (ValidationError ''FeePolicyVersion is not PUBLISHED'')) (\<lambda>_. ret policy)))"

definition computeSnapshotFields :: "settle_env \<Rightarrow> EscrowType \<Rightarrow> rat \<Rightarrow> FeeSnapshotFields option settle" where
  "computeSnapshotFields env rail lockedAmount =
     seqH (findLivePolicyForRail rail) (\<lambda>live.
       case live of
         None \<Rightarrow> ret None
       | Some policy \<Rightarrow>
           seqH (liftH (assertRailCanActivateFeeCollection rail)) (\<lambda>_.
             let rate = fp_protocolFeeRate policy in
             seqH (if rate > 0 \<and> rail \<in> set FEE_COLLECTION_CAPABLE_RAILS
                   then let fmaxCandidate = computeMaxProtocolFee (s_round env) lockedAmount rate;
                            fmaxCandidateSats = to_fixed_0 (s_round env (fmaxCandidate * 100000000))
                        in seqH (liftH (evaluateFeeCollectibility env fmaxCandidateSats)) (\<lambda>(collectible, address).
                             ret (if collectible then (address, False) else (None, True)))
                   else ret (None, False)) (\<lambda>(collectionAddress, waivedPreFunding).
               ret (Some \<lparr>fs_feePolicyVersionId = fp_id policy, fs_protocolFeeRate = rate,
                          fs_feeCollectionAddress = collectionAddress,
                          fs_waivedPreFunding = waivedPreFunding\<rparr>))))"

definition apply_snapshot :: "FeeSnapshotFields option \<Rightarrow> escrow_row \<Rightarrow> escrow_row" where
  "apply_snapshot fs r =
     (case fs of
        None \<Rightarrow> r
      | Some f \<Rightarrow> r\<lparr>er_feePolicyVersionId := Some (fs_feePolicyVersionId f),
                    er_snapshotProtocolFeeRate := Some (fs_protocolFeeRate f),
                    er_snapshotFeeCollectionAddress := fs_feeCollectionAddress f,
                    er_snapshotWaivedPreFunding := Some (fs_waivedPreFunding f)\<rparr>)"

definition snapshotEscrowFeePolicy :: "settle_env \<Rightarrow> string \<Rightarrow> EscrowType \<Rightarrow> rat \<Rightarrow> string option settle" where
  "snapshotEscrowFeePolicy env i rail lockedAmount =
     seqH (computeSnapshotFields env rail lockedAmount) (\<lambda>fields.
       case fields of
         None \<Rightarrow> ret None
       | Some f \<Rightarrow> seqH (writeH (set_escrow i (apply_snapshot fields))) (\<lambda>_. ret (Some (fs_feePolicyVersionId f))))"

section \<open>Obligations\<close>

fun VALID_COLLECTION_TRANSITIONS :: "FeeCollectionStatus \<Rightarrow> FeeCollectionStatus list" where
  "VALID_COLLECTION_TRANSITIONS PENDING_COLLECTION = [IN_PROGRESS, WAIVED, UNCOLLECTIBLE_BYPASSED]"
| "VALID_COLLECTION_TRANSITIONS IN_PROGRESS = [COLLECTED, PENDING_COLLECTION, UNCOLLECTIBLE_BYPASSED]"
| "VALID_COLLECTION_TRANSITIONS COLLECTED = [IN_PROGRESS, DISTRIBUTED]"
| "VALID_COLLECTION_TRANSITIONS WAIVED = []"
| "VALID_COLLECTION_TRANSITIONS UNCOLLECTIBLE_BYPASSED = []"
| "VALID_COLLECTION_TRANSITIONS DISTRIBUTED = []"

text \<open>The insert of both create operations; the escrow column is unique.\<close>

definition insertObligation :: "settle_env \<Rightarrow> fee_obligation_row \<Rightarrow> string settle" where
  "insertObligation env row =
     seqH (readH (\<lambda>s. (s_uuid env (draws s), obligation_of s (fo_escrowId row)))) (\<lambda>(oid, existing).
     seqH (guardH (existing = None) (EscrowError ''already exists for escrow'')) (\<lambda>_.
     seqH (dbWrite ''feeObligation'' (\<lambda>s. s\<lparr>obligations := (obligations s)(oid \<mapsto> row),
             obligation_of := (obligation_of s)(fo_escrowId row \<mapsto> oid), draws := Suc (draws s)\<rparr>)) (\<lambda>_. ret oid)))"

definition createOwed :: "settle_env \<Rightarrow> string \<Rightarrow> string \<Rightarrow> rat \<Rightarrow> rat \<Rightarrow> AssetType \<Rightarrow> string settle" where
  "createOwed env escrowId policyId basisAmount computedFee asset =
     insertObligation env \<lparr>fo_escrowId = escrowId, fo_feePolicyVersionId = policyId, fo_determination = OWED,
       fo_collectionStatus = Some PENDING_COLLECTION, fo_basisAmount = Some basisAmount,
       fo_computedFee = Some computedFee, fo_asset = Some asset\<rparr>"

definition createNotApplicable :: "settle_env \<Rightarrow> string \<Rightarrow> string \<Rightarrow> string settle" where
  "createNotApplicable env escrowId policyId =
     insertObligation env \<lparr>fo_escrowId = escrowId, fo_feePolicyVersionId = policyId,
       fo_determination = NOT_APPLICABLE, fo_collectionStatus = None, fo_basisAmount = None,
       fo_computedFee = None, fo_asset = None\<rparr>"

definition claimCollectionStatus ::
    "string \<Rightarrow> FeeCollectionStatus \<Rightarrow> FeeCollectionStatus \<Rightarrow> settlement_state \<Rightarrow> nat \<times> settlement_state" where
  "claimCollectionStatus oid from to s =
     (case obligations s oid of
        Some o' \<Rightarrow> if fo_collectionStatus o' = Some from
                   then (1, s\<lparr>obligations := (obligations s)(oid \<mapsto> o'\<lparr>fo_collectionStatus := Some to\<rparr>)\<rparr>)
                   else (0, s)
      | None \<Rightarrow> (0, s))"

definition claimCollectionStatusTransition ::
    "string \<Rightarrow> FeeCollectionStatus \<Rightarrow> FeeCollectionStatus \<Rightarrow> nat settle" where
  "claimCollectionStatusTransition oid from to s =
     (case claimCollectionStatus oid from to s of (n, s') \<Rightarrow> (Inr n, s'))"

definition transitionCollectionStatus ::
    "string \<Rightarrow> FeeCollectionStatus \<Rightarrow> FeeCollectionStatus \<Rightarrow> unit settle" where
  "transitionCollectionStatus oid from to =
     seqH (guardH (to \<in> set (VALID_COLLECTION_TRANSITIONS from))
             (EscrowError ''Invalid FeeObligation collectionStatus transition'')) (\<lambda>_.
     seqH (claimCollectionStatusTransition oid from to) (\<lambda>affected.
       guardH (affected \<noteq> 0) (EscrowError ''a concurrent transition already moved it'')))"

datatype SettlementOutcome = O_RELEASE | O_FULL_REFUND | O_SPLIT | O_DISPUTE_SELLER_WINS | O_DISPUTE_BUYER_WINS

definition OWED_OUTCOMES :: "SettlementOutcome list" where
  "OWED_OUTCOMES = [O_RELEASE, O_SPLIT, O_DISPUTE_SELLER_WINS]"

record CreateObligationInput =
  co_escrowId :: string
  co_feePolicyVersionId :: string
  co_outcome :: SettlementOutcome
  co_basisAmount :: "rat option"
  co_computedFee :: "rat option"
  co_asset :: "AssetType option"

definition createObligationForSettlement :: "settle_env \<Rightarrow> CreateObligationInput \<Rightarrow> string settle" where
  "createObligationForSettlement env input =
     (if co_outcome input \<in> set OWED_OUTCOMES
      then case (co_basisAmount input, co_computedFee input, co_asset input) of
             (Some b, Some f, Some a) \<Rightarrow>
               createOwed env (co_escrowId input) (co_feePolicyVersionId input) b f a
           | _ \<Rightarrow> throw (EscrowError ''OWED outcome requires basisAmount, computedFee, and asset'')
      else createNotApplicable env (co_escrowId input) (co_feePolicyVersionId input))"

definition waived_by_small_trade_rule :: "fee_policy_row option \<Rightarrow> rat \<Rightarrow> bool" where
  "waived_by_small_trade_rule policy computedFee \<longleftrightarrow>
     (case Option.bind policy fp_fixtureOnlyMinimum of None \<Rightarrow> False | Some m \<Rightarrow> computedFee < m)"

text \<open>
  An observed collection is the amount actually built into the settlement transaction and
  whether it was waived. Every error is swallowed: the settlement has already happened.
\<close>

definition recordObligationForEscrowSettlement ::
    "settle_env \<Rightarrow> string \<Rightarrow> escrow_row \<Rightarrow> SettlementOutcome \<Rightarrow> rat option \<Rightarrow> (int \<times> bool) option \<Rightarrow> unit settle" where
  "recordObligationForEscrowSettlement env escrowId escrow outcome splitBuyerBps actualCollection =
     (case er_feePolicyVersionId escrow of
        None \<Rightarrow> ret ()
      | Some policyId \<Rightarrow>
        if policyId = [] then ret () else
        catchH
          (seqH (readH (\<lambda>s. obligation_of s escrowId)) (\<lambda>existing.
             if existing \<noteq> None then ret ()
             else if outcome = O_FULL_REFUND
             then seqH (createObligationForSettlement env
                          \<lparr>co_escrowId = escrowId, co_feePolicyVersionId = policyId, co_outcome = O_FULL_REFUND,
                           co_basisAmount = None, co_computedFee = None, co_asset = None\<rparr>) (\<lambda>_. ret ())
             else case er_snapshotProtocolFeeRate escrow of
               None \<Rightarrow> ret ()
             | Some rate \<Rightarrow>
                 let basisAmount = (if outcome = O_SPLIT
                                    then obligation_basis (s_round env) (er_lockedAmount escrow)
                                           (Some (case splitBuyerBps of None \<Rightarrow> 0 | Some b \<Rightarrow> b))
                                    else er_lockedAmount escrow);
                     computedFee = computeProtocolFee (s_round env) basisAmount rate
                 in seqH (case actualCollection of
                            Some (_, waived) \<Rightarrow> ret waived
                          | None \<Rightarrow> seqH (findPolicy policyId) (\<lambda>policy.
                                     ret (waived_by_small_trade_rule policy computedFee))) (\<lambda>waived.
                    let recordedFee = (case actualCollection of
                                         Some (feeSats, _) \<Rightarrow>
                                           if waived then computedFee else s_round env (of_int feeSats / 100000000)
                                       | None \<Rightarrow> computedFee)
                    in seqH (createObligationForSettlement env
                               \<lparr>co_escrowId = escrowId, co_feePolicyVersionId = policyId,
                                co_outcome = (if outcome = O_SPLIT then O_SPLIT else O_RELEASE),
                                co_basisAmount = Some basisAmount, co_computedFee = Some recordedFee,
                                co_asset = Some (er_asset escrow)\<rparr>) (\<lambda>oid.
                       if waived then transitionCollectionStatus oid PENDING_COLLECTION WAIVED else ret ()))))
          (\<lambda>_. ret ()))"

section \<open>Rounding lemmas\<close>

lemma to_8dp_down_nonneg: "0 \<le> x \<Longrightarrow> 0 \<le> to_8dp_down x"
  by (simp add: to_8dp_down_def)

lemma to_8dp_down_le: "0 \<le> x \<Longrightarrow> to_8dp_down x \<le> x"
  using of_int_floor_le [of "x * 100000000"] by (simp add: to_8dp_down_def field_simps)

lemma to_8dp_down_mono: "0 \<le> x \<Longrightarrow> x \<le> y \<Longrightarrow> to_8dp_down x \<le> to_8dp_down y"
  by (simp add: to_8dp_down_def divide_right_mono floor_mono)

lemma to_8dp_down_units: "\<exists>n::int. to_8dp_down x = of_int n / 100000000"
  by (auto simp: to_8dp_down_def)

lemma rounding_nonneg: "decimal_rounding rnd \<Longrightarrow> 0 \<le> x \<Longrightarrow> 0 \<le> rnd x"
  by (metis decimal_rounding_def monoD)

lemma rounding_le: "decimal_rounding rnd \<Longrightarrow> x \<le> y \<Longrightarrow> rnd x \<le> rnd y"
  by (simp add: decimal_rounding_def monoD)

lemma rounding_shift: "decimal_rounding rnd \<Longrightarrow> rnd (10000 * x) = 10000 * rnd x"
proof -
  assume d: "decimal_rounding rnd"
  have ten: "rnd (10 * y) = 10 * rnd y" for y using d by (simp add: decimal_rounding_def)
  have "rnd (10 * (10 * (10 * (10 * x)))) = 10 * (10 * (10 * (10 * rnd x)))" by (simp only: ten)
  then show ?thesis by simp
qed

lemma basis_bounds:
  assumes d: "decimal_rounding rnd" and l: "0 \<le> locked" and exact: "rnd locked = locked"
    and b: "case bps of None \<Rightarrow> True | Some x \<Rightarrow> 0 \<le> x \<and> x \<le> 10000"
  shows "0 \<le> obligation_basis rnd locked bps \<and> obligation_basis rnd locked bps \<le> locked"
proof (cases bps)
  case None
  with l show ?thesis by (simp add: obligation_basis_def)
next
  case (Some x)
  let ?in = "locked * (10000 - x)"
  have x: "0 \<le> x" "x \<le> 10000" using b Some by simp_all
  have nn: "0 \<le> ?in" using l x by simp
  have "?in \<le> locked * 10000" using l x by (intro mult_left_mono) auto
  then have "rnd ?in \<le> rnd (10000 * locked)" using rounding_le [OF d] by (simp add: mult.commute)
  then have up: "rnd ?in / 10000 \<le> locked" using rounding_shift [OF d] exact by simp
  then have "rnd (rnd ?in / 10000) \<le> rnd locked" by (rule rounding_le [OF d])
  moreover have "0 \<le> rnd (rnd ?in / 10000)" using rounding_nonneg [OF d] nn by simp
  ultimately show ?thesis
    using Some exact to_8dp_down_le [of "rnd (rnd ?in / 10000)"] to_8dp_down_nonneg
    by (force simp: obligation_basis_def)
qed

section \<open>What recording an obligation changes\<close>

text \<open>Only the obligation tables, the identifier counter and the fault list.\<close>

definition obligation_frame :: "settlement_state \<Rightarrow> settlement_state \<Rightarrow> bool" where
  "obligation_frame s s' \<longleftrightarrow>
     s' = s\<lparr>draws := draws s', obligations := obligations s', obligation_of := obligation_of s', faults := faults s'\<rparr>"

lemma obligation_frame_fields:
  assumes "obligation_frame s s'"
  shows "escrows s' = escrows s" "escrow_ids s' = escrow_ids s" "trades s' = trades s" "disputes s' = disputes s"
    "escrow_events s' = escrow_events s" "provider_calls s' = provider_calls s" "clock s' = clock s"
    "grants s' = grants s" "settle_bus s' = settle_bus s" "funding_evidence s' = funding_evidence s"
    "semantic_records s' = semantic_records s" "failures s' = failures s" "openCircuits s' = openCircuits s"
    "release_approvals s' = release_approvals s" "payout_addresses s' = payout_addresses s"
    "trade_escrow s' = trade_escrow s" "fee_policies s' = fee_policies s" "participant_keys s' = participant_keys s"
  by (subst assms [unfolded obligation_frame_def]; simp)+

lemma wp_claimCollection [wp_eqs]:
  "wpH (claimCollectionStatusTransition i f t) Q E s =
     Q (fst (claimCollectionStatus i f t s)) (snd (claimCollectionStatus i f t s))"
  by (simp add: claimCollectionStatusTransition_def wpH_def split: prod.split)

lemma wp_findPolicy [wp_eqs]:
  "wpH (findPolicy pid) Q E s = Q (find (\<lambda>p. fp_id p = pid) (fee_policies s)) s"
  by (simp add: findPolicy_def wp_eqs)

lemma frame_insert:
  "wpH (insertObligation env row)
     (\<lambda>oid s'. obligation_frame s s' \<and> obligation_of s (fo_escrowId row) = None
        \<and> obligation_of s' = (obligation_of s)(fo_escrowId row \<mapsto> oid)
        \<and> obligations s' = (obligations s)(oid \<mapsto> row))
     (\<lambda>_ s'. obligation_frame s s' \<and> obligation_of s' = obligation_of s \<and> obligations s' = obligations s) s"
  by (simp add: insertObligation_def wp_eqs obligation_frame_def split: list.split bool.split)

interpretation collection_claim: status_claim claimCollectionStatus
  "\<lambda>s i. Option.bind (obligations s i) fo_collectionStatus"
  by unfold_locales (auto simp: claimCollectionStatus_def fun_eq_iff split: option.splits bind_splits)

definition settles_obligation :: "string \<Rightarrow> settlement_state \<Rightarrow> settlement_state \<Rightarrow> bool" where
  "settles_obligation i s s' \<longleftrightarrow>
     obligation_frame s s' \<and> (\<forall>j. j \<noteq> i \<longrightarrow> obligation_of s' j = obligation_of s j)
     \<and> (obligation_of s i \<noteq> None \<longrightarrow> s' = s)"

lemma obligation_frame_refl: "obligation_frame s s"
  by (simp add: obligation_frame_def)

lemma settles_refl: "settles_obligation i s s"
  by (simp add: settles_obligation_def obligation_frame_refl)

lemma obligation_frame_collection:
  assumes "obligation_frame s s'"
  shows "obligation_frame s (snd (claimCollectionStatus oid f t s'))"
proof -
  from assms obtain a b c d where "s' = s\<lparr>draws := a, obligations := b, obligation_of := c, faults := d\<rparr>"
    by (auto simp: obligation_frame_def)
  then show ?thesis by (simp add: obligation_frame_def claimCollectionStatus_def split: option.split)
qed

lemma obligation_of_collection: "obligation_of (snd (claimCollectionStatus oid f t s)) = obligation_of s"
  by (simp add: claimCollectionStatus_def split: option.split)

lemma frame_create:
  "wpH (createObligationForSettlement env inp)
     (\<lambda>oid s'. obligation_frame s s' \<and> (\<forall>j. j \<noteq> co_escrowId inp \<longrightarrow> obligation_of s' j = obligation_of s j)
               \<and> obligation_of s (co_escrowId inp) = None)
     (\<lambda>_ s'. obligation_frame s s' \<and> obligation_of s' = obligation_of s) s"
  by (auto simp: createObligationForSettlement_def createOwed_def createNotApplicable_def wp_eqs
      obligation_frame_refl split: option.split intro!: wpH_mono [OF frame_insert])

lemma frame_create_then_waive:
  assumes "obligation_of s (co_escrowId inp) = None"
  shows "wpH (createObligationForSettlement env inp)
     (\<lambda>oid. wpH (if w then transitionCollectionStatus oid PENDING_COLLECTION WAIVED else ret ())
        (\<lambda>_. settles_obligation (co_escrowId inp) s) (\<lambda>_. settles_obligation (co_escrowId inp) s))
     (\<lambda>_. settles_obligation (co_escrowId inp) s) s"
proof (rule wpH_mono [OF frame_create])
  fix oid t
  assume h: "obligation_frame s t \<and> (\<forall>j. j \<noteq> co_escrowId inp \<longrightarrow> obligation_of t j = obligation_of s j)
      \<and> obligation_of s (co_escrowId inp) = None"
  show "wpH (if w then transitionCollectionStatus oid PENDING_COLLECTION WAIVED else ret ())
        (\<lambda>_. settles_obligation (co_escrowId inp) s) (\<lambda>_. settles_obligation (co_escrowId inp) s) t"
    using h by (simp add: transitionCollectionStatus_def wp_eqs settles_obligation_def
        obligation_frame_collection obligation_of_collection)
qed (use assms in \<open>auto simp: settles_obligation_def\<close>)

lemma record_swallows:
  "wpH m (\<lambda>_. P) (\<lambda>_. P) s \<Longrightarrow> wpH (catchH m (\<lambda>_. ret ())) (\<lambda>_. P) (\<lambda>_ _. False) s"
  by (simp add: wp_eqs)

lemma record_settles:
  "wpH (recordObligationForEscrowSettlement env i r oc b ac) (\<lambda>_. settles_obligation i s) (\<lambda>_ _. False) s"
proof (cases "er_feePolicyVersionId r")
  case None
  then show ?thesis by (simp add: recordObligationForEscrowSettlement_def wp_ret settles_refl)
next
  case (Some pid)
  note create = frame_create_then_waive [of s "\<lparr>co_escrowId = i, co_feePolicyVersionId = pid, co_outcome = _,
      co_basisAmount = _, co_computedFee = _, co_asset = _\<rparr>", simplified]
  show ?thesis
  proof (cases "pid = []")
    case True
    with Some show ?thesis by (simp add: recordObligationForEscrowSettlement_def wp_ret settles_refl)
  next
    case False
    show ?thesis
      unfolding recordObligationForEscrowSettlement_def
      using Some False create [where w = False] create
      by (auto simp: Let_def wp_seqH wp_readH wp_ret wp_findPolicy settles_refl
          split: option.split intro!: record_swallows)
  qed
qed

lemma record_result:
  "\<exists>s'. recordObligationForEscrowSettlement env i r oc b ac s = (Inr (), s') \<and> settles_obligation i s s'"
  using record_settles [of env i r oc b ac s] unfolding wpH_eq_iff [symmetric] by auto

lemma wp_record [wp_eqs]:
  "wpH (recordObligationForEscrowSettlement env i r oc b ac) Q E s =
     Q () (snd (recordObligationForEscrowSettlement env i r oc b ac s))"
  using record_result [of env i r oc b ac s] by (auto simp: wpH_def)

lemma record_frame: "obligation_frame s (snd (recordObligationForEscrowSettlement env i r oc b ac s))"
  using record_result [of env i r oc b ac s] by (auto simp: settles_obligation_def)

section \<open>Policies: at most one is live\<close>

definition published :: "fee_policy_row list \<Rightarrow> fee_policy_row list" where
  "published ps = filter (\<lambda>p. fp_status p = PUBLISHED) ps"

definition publishable :: "fee_policy_row \<Rightarrow> bool" where
  "publishable p \<longleftrightarrow> 0 \<le> fp_protocolFeeRate p
     \<and> (case fp_requiredConfirmations p of None \<Rightarrow> False | Some c \<Rightarrow> 0 < c)
     \<and> assertRailCanActivateFeeCollection (fp_railScope p) = Inr ()"

definition policies_ok :: "(nat \<Rightarrow> string) \<Rightarrow> nat \<Rightarrow> fee_policy_row list \<Rightarrow> bool" where
  "policies_ok gen n ps \<longleftrightarrow>
     distinct (map fp_id ps) \<and> list_all (\<lambda>p. fp_id p \<in> gen ` {..<n}) ps
     \<and> distinct (map fp_railScope (published ps)) \<and> list_all publishable (published ps)"

abbreviation policies_ok_in :: "(nat \<Rightarrow> string) \<Rightarrow> settlement_state \<Rightarrow> bool" where
  "policies_ok_in gen s \<equiv> policies_ok gen (draws s) (fee_policies s)"

definition with_status :: "string \<Rightarrow> FeePolicyStatus \<Rightarrow> fee_policy_row \<Rightarrow> fee_policy_row" where
  "with_status pid st p = (if fp_id p = pid then p\<lparr>fp_status := st\<rparr> else p)"

lemma with_status_sel [simp]:
  "fp_id (with_status pid st p) = fp_id p" "fp_railScope (with_status pid st p) = fp_railScope p"
  "fp_protocolFeeRate (with_status pid st p) = fp_protocolFeeRate p"
  "fp_requiredConfirmations (with_status pid st p) = fp_requiredConfirmations p"
  "fp_status (with_status pid st p) = (if fp_id p = pid then st else fp_status p)"
  by (simp_all add: with_status_def)

lemma publishable_with_status [simp]: "publishable (with_status pid st p) = publishable p"
  by (simp add: publishable_def)

lemma published_with_status:
  "published (map (with_status pid st) ps) =
     map (with_status pid st) (filter (\<lambda>p. if fp_id p = pid then st = PUBLISHED else fp_status p = PUBLISHED) ps)"
  by (induction ps) (simp_all add: published_def)

lemma policies_ok_draft:
  assumes "policies_ok gen n ps" and "inj gen" and "fp_id row = gen n" and "fp_status row = DRAFT"
  shows "policies_ok gen (Suc n) (ps @ [row])"
proof -
  have "gen n \<notin> gen ` {..<n}" using assms(2) by (auto dest: injD)
  then have "\<forall>p \<in> set ps. fp_id p \<noteq> gen n"
    using assms(1) unfolding policies_ok_def list_all_iff by metis
  then have "fp_id row \<notin> fp_id ` set ps" using assms(3) by auto
  with assms show ?thesis
    by (simp add: policies_ok_def published_def list_all_iff lessThan_Suc)
qed

lemma policies_ok_demote:
  assumes "policies_ok gen n ps" and "st \<noteq> PUBLISHED"
  shows "policies_ok gen n (map (with_status pid st) ps)"
proof -
  have "filter (\<lambda>p. if fp_id p = pid then st = PUBLISHED else fp_status p = PUBLISHED) ps
      = filter (\<lambda>p. fp_id p \<noteq> pid) (published ps)"
    using assms(2) by (auto simp: published_def intro!: filter_cong)
  then show ?thesis
    using assms(1) by (simp add: policies_ok_def published_with_status comp_def distinct_map_filter list_all_iff)
qed

lemma distinct_publish_one:
  assumes "distinct (map fp_id ps)" and "distinct (map fp_railScope (published ps))"
    and "list_all (\<lambda>q. fp_id q = pid \<longrightarrow> fp_railScope q = rail) ps"
    and "list_all (\<lambda>q. fp_id q \<noteq> pid \<longrightarrow> fp_status q = PUBLISHED \<longrightarrow> fp_railScope q \<noteq> rail) ps"
  shows "distinct (map fp_railScope (filter (\<lambda>q. fp_id q = pid \<or> fp_status q = PUBLISHED) ps))"
  using assms
proof (induction ps)
  case (Cons a ps)
  have "fp_railScope a \<notin> fp_railScope ` set (filter (\<lambda>q. fp_id q = pid \<or> fp_status q = PUBLISHED) ps)"
    if sel: "fp_id a = pid \<or> fp_status a = PUBLISHED"
  proof
    assume "fp_railScope a \<in> fp_railScope ` set (filter (\<lambda>q. fp_id q = pid \<or> fp_status q = PUBLISHED) ps)"
    then obtain q where q: "q \<in> set ps" "fp_railScope q = fp_railScope a" "fp_id q = pid \<or> fp_status q = PUBLISHED"
      by auto
    have "fp_id q \<in> fp_id ` set ps" using q(1) by simp
    with Cons.prems(1) have "fp_id q \<noteq> fp_id a" by auto
    then have diff: "fp_id q \<noteq> fp_id a" .
    have same: "fp_id x = pid \<Longrightarrow> fp_railScope x = rail"
      and off: "fp_id x \<noteq> pid \<Longrightarrow> fp_status x = PUBLISHED \<Longrightarrow> fp_railScope x \<noteq> rail"
      if "x = a \<or> x = q" for x
      using that q(1) Cons.prems(3,4) by (auto simp: list_all_iff)
    show False
    proof (cases "fp_id a = pid \<or> fp_id q = pid")
      case True
      then show False using same [of a] same [of q] off [of a] off [of q] diff q sel by metis
    next
      case False
      with q sel have "q \<in> set (published ps)" and "fp_status a = PUBLISHED" by (auto simp: published_def)
      with Cons.prems(2) have "fp_railScope q \<noteq> fp_railScope a" by (auto simp: published_def image_iff)
      with q(2) show False by contradiction
    qed
  qed
  with Cons show ?case by (auto simp: published_def split: if_splits)
qed simp

lemma policies_ok_publish:
  assumes ok: "policies_ok gen n ps" and p: "p \<in> set ps" "fp_id p = pid"
    and alone: "list_all (\<lambda>q. fp_id q \<noteq> pid \<longrightarrow> fp_status q = PUBLISHED \<longrightarrow> fp_railScope q \<noteq> fp_railScope p) ps"
    and valid: "publishable p"
  shows "policies_ok gen n (map (with_status pid PUBLISHED) ps)"
proof -
  let ?sel = "filter (\<lambda>q. fp_id q = pid \<or> fp_status q = PUBLISHED) ps"
  have d: "distinct (map fp_id ps)" using ok by (simp add: policies_ok_def)
  have pid: "q = p" if "q \<in> set ps" "fp_id q = pid" for q
    using that p d by (metis distinct_map inj_on_def)
  have "distinct (map fp_railScope ?sel)"
    using distinct_publish_one [OF d _ _ alone] ok pid by (auto simp: policies_ok_def list_all_iff)
  moreover have "list_all publishable ?sel"
    using ok valid pid by (auto simp: policies_ok_def list_all_iff published_def)
  moreover have "published (map (with_status pid PUBLISHED) ps) = map (with_status pid PUBLISHED) ?sel"
    by (simp add: published_with_status if_bool_eq_disj) (metis (mono_tags))
  ultimately show ?thesis
    using ok by (simp add: policies_ok_def comp_def list_all_iff)
qed

lemma setPolicyStatus_wp [wp_eqs]:
  "wpH (setPolicyStatus pid st) Q E s = Q () (s\<lparr>fee_policies := map (with_status pid st) (fee_policies s)\<rparr>)"
  by (simp add: setPolicyStatus_def wp_eqs with_status_def [abs_def])

lemma publish_policies_ok:
  assumes ok: "policies_ok_in gen s"
  shows "policies_ok_in gen (snd (publish pid s))"
proof -
  have "wpH (publish pid) (\<lambda>_. policies_ok_in gen) (\<lambda>_. policies_ok_in gen) s"
  proof (cases "find (\<lambda>p. fp_id p = pid) (fee_policies s)")
    case None
    with ok show ?thesis by (simp add: publish_def wp_eqs)
  next
    case (Some p)
    then have p: "p \<in> set (fee_policies s)" "fp_id p = pid" by (auto dest: find_SomeD)
    have "policies_ok gen (draws s) (map (with_status pid PUBLISHED) (fee_policies s))"
      if "\<not> rail_has_other_published pid (fp_railScope p) s" "publishable p"
    proof (rule policies_ok_publish [OF ok p _ that(2)])
      show "list_all (\<lambda>q. fp_id q \<noteq> pid \<longrightarrow> fp_status q = PUBLISHED \<longrightarrow> fp_railScope q \<noteq> fp_railScope p) (fee_policies s)"
        using that(1) by (auto simp: rail_has_other_published_def list_all_iff list_ex_iff)
    qed
    with ok Some show ?thesis
      by (simp add: publish_def wp_eqs publishable_def not_less not_le split: option.split sum.split)
  qed
  then show ?thesis by (rule wpH_snd)
qed

lemma retire_policies_ok:
  assumes ok: "policies_ok_in gen s"
  shows "policies_ok_in gen (snd (retire pid s))"
proof -
  have "wpH (retire pid) (\<lambda>_. policies_ok_in gen) (\<lambda>_. policies_ok_in gen) s"
    using ok policies_ok_demote [OF ok, of RETIRED pid]
    by (simp add: retire_def wp_eqs split: option.split)
  then show ?thesis by (rule wpH_snd)
qed

lemma createDraft_policies_ok:
  assumes "policies_ok_in (s_uuid env) s" and "inj (s_uuid env)"
  shows "policies_ok_in (s_uuid env) (snd (createDraft env input s))"
  using policies_ok_draft [OF assms, of "input\<lparr>fp_id := s_uuid env (draws s), fp_status := DRAFT\<rparr>"]
  by (simp add: createDraft_def seqH_def readH_def writeH_def ret_def)

lemma distinct_map_filter_single: "distinct (map f xs) \<Longrightarrow> length (filter (\<lambda>x. f x = r) xs) \<le> 1"
proof (induction xs)
  case (Cons a xs)
  have "filter (\<lambda>x. f x = r) xs = []" if "f a = r"
    using that Cons.prems by (auto simp: filter_empty_conv image_iff)
  with Cons show ?case by simp
qed simp

lemma live_policy_unambiguous:
  assumes "policies_ok_in gen s"
  shows "length (filter (\<lambda>p. fp_railScope p = rail \<and> fp_status p = PUBLISHED) (fee_policies s)) \<le> 1"
proof -
  have "filter (\<lambda>p. fp_railScope p = rail \<and> fp_status p = PUBLISHED) (fee_policies s)
      = filter (\<lambda>p. fp_railScope p = rail) (published (fee_policies s))"
    by (simp add: published_def conj_commute)
  with distinct_map_filter_single assms show ?thesis by (metis policies_ok_def)
qed

section \<open>Properties\<close>



text \<open>
  The dust thresholds are those of the network's relay policy: 294 satoshi for a
  native segwit key output, 330 for a segwit script or taproot output, 546 for a key-hash
  and 540 for a script-hash output.
\<close>

theorem dust_thresholds_match_relay_policy:
  "case classifyOutputScript script of
     P2WPKH \<Rightarrow> dustThresholdSats script = Inr 294
   | P2WSH \<Rightarrow> dustThresholdSats script = Inr 330
   | P2TR \<Rightarrow> dustThresholdSats script = Inr 330
   | P2PKH \<Rightarrow> dustThresholdSats script = Inr 546
   | P2SH \<Rightarrow> dustThresholdSats script = Inr 540
   | _ \<Rightarrow> True"
proof (cases "isWitnessProgram script")
  case True
  then have len: "length script = 2 + script ! 1" by (simp add: isWitnessProgram_def)
  have "dustThresholdSats script = Inr ((3000 * (76 + int (length script)) + 999) div 1000)"
    using True by (simp add: dustThresholdSats_def isWitnessProgram_def Let_def)
  with True len show ?thesis by (simp add: classifyOutputScript_def)
next
  case False
  have "dustThresholdSats script = Inr ((3000 * (157 + int (length script)) + 999) div 1000)"
    if "length script \<le> 252"
    using False that by (simp add: dustThresholdSats_def Let_def)
  with False show ?thesis by (simp add: classifyOutputScript_def)
qed

text \<open>
  Bookkeeping never undoes a settlement. Recording the fee obligation of a settled
  escrow always returns, whatever the database does; it touches nothing but the obligation of
  that escrow, and where one exists already the call changes nothing.
\<close>

theorem obligation_recording_is_safe:
  "\<exists>s'. recordObligationForEscrowSettlement env i r oc b ac s = (Inr (), s')
      \<and> escrows s' = escrows s \<and> escrow_events s' = escrow_events s \<and> provider_calls s' = provider_calls s
      \<and> (obligation_of s')(i := None) = (obligation_of s)(i := None)
      \<and> (case obligation_of s i of None \<Rightarrow> True | Some _ \<Rightarrow> s' = s)"
proof -
  obtain s' where run: "recordObligationForEscrowSettlement env i r oc b ac s = (Inr (), s')"
    and st: "settles_obligation i s s'" using record_result by blast
  from st have fr: "obligation_frame s s'" by (simp add: settles_obligation_def)
  have "(obligation_of s')(i := None) = (obligation_of s)(i := None)"
    using st by (auto simp: settles_obligation_def fun_eq_iff)
  with run fr st show ?thesis
    by (auto simp: obligation_frame_fields [OF fr] settles_obligation_def split: option.split)
qed

text \<open>
  What a settlement owes. With a working database, the first settlement of an escrow
  that carries a fee policy and a rate records exactly one obligation: owed, on the locked
  amount or the seller's part of a split, for the fee computed from the rate frozen in the
  escrow, waived when the policy's minimum is not reached and pending collection otherwise.
\<close>

theorem settlement_obligation_recorded:
  assumes "faults s = []" and "er_feePolicyVersionId r = Some pid" and "pid \<noteq> []"
    and "er_snapshotProtocolFeeRate r = Some rate" and "obligation_of s i = None"
    and "oc = O_RELEASE \<and> b = None \<or> oc = O_SPLIT \<and> b = Some bps"
  shows "\<exists>s' oid. recordObligationForEscrowSettlement env i r oc b None s = (Inr (), s')
     \<and> obligation_of s' i = Some oid
     \<and> obligations s' oid = Some
        (let basis = obligation_basis (s_round env) (er_lockedAmount r) b;
             fee = computeProtocolFee (s_round env) basis rate;
             waived = waived_by_small_trade_rule (find (\<lambda>p. fp_id p = pid) (fee_policies s)) fee
         in \<lparr>fo_escrowId = i, fo_feePolicyVersionId = pid, fo_determination = OWED,
             fo_collectionStatus = Some (if waived then WAIVED else PENDING_COLLECTION),
             fo_basisAmount = Some basis, fo_computedFee = Some fee, fo_asset = Some (er_asset r)\<rparr>)"
proof -
  have basis: "(if oc = O_SPLIT then obligation_basis (s_round env) (er_lockedAmount r)
        (Some (case b of None \<Rightarrow> 0 | Some x \<Rightarrow> x)) else er_lockedAmount r) = obligation_basis (s_round env) (er_lockedAmount r) b"
    and oc: "oc \<noteq> O_FULL_REFUND" "(if oc = O_SPLIT then O_SPLIT else O_RELEASE) = oc" "oc \<in> set OWED_OUTCOMES"
    using assms(6) by (auto simp: obligation_basis_def OWED_OUTCOMES_def)
  show ?thesis
    unfolding recordObligationForEscrowSettlement_def Let_def basis
    using assms(1-5) oc
    by (simp add: seqH_def catchH_def readH_def ret_def findPolicy_def createObligationForSettlement_def
        createOwed_def insertObligation_def guardH_def dbWrite_def transitionCollectionStatus_def
        claimCollectionStatusTransition_def claimCollectionStatus_def)
qed

definition demo_senv :: settle_env where
  "demo_senv = \<lparr>s_sha256 = id, s_uuid = show_nat, s_dateOf = (\<lambda>_. None), s_round = id, s_stringify = id,
     s_enforceCapabilities = False, s_requireDualApproval = False, s_mockEscrow = False, s_isProduction = True,
     s_defaultTimelockHours = 24, s_failureThreshold = 5, s_windowMs = 30000, s_cooldownMs = 120000,
     s_feeCollectionAddress = None, s_outputScript = (\<lambda>_. None),
     pv_lock = (\<lambda>_ i _ _. Inr \<lparr>lr_txId = i, lr_address = i, lr_vout = Some 0, lr_fundedAmount = None,
       lr_confirmedAtHeight = None, lr_tipHeight = None\<rparr>),
     pv_release = (\<lambda>_ i _ _ _. Inr i), pv_refund = (\<lambda>_ i _ _. Inr i), pv_split = (\<lambda>_. None),
     pv_depositAddress = (\<lambda>_ i _ _ _. Inr (i, None, None))\<rparr>"

definition demo_settlement :: "escrow_row option \<Rightarrow> settlement_state" where
  "demo_settlement r = \<lparr>clock = 10, draws = 0, grants = [], escrows = (\<lambda>i. if i = ''e'' then r else None),
     escrow_ids = [''e''], trade_escrow = [''t'' \<mapsto> ''e''],
     trades = [''t'' \<mapsto> \<lparr>t_buyerId = ''bob'', t_sellerId = ''alice'', t_escrowId = Some ''e''\<rparr>],
     disputes = [\<lparr>d_tradeId = ''t'', d_arbiterId = Some ''carol''\<rparr>], escrow_events = [], funding_evidence = [],
     release_approvals = [], participant_keys = [], payout_addresses = Map.empty, semantic_records = [],
     fee_policies = [], obligations = Map.empty, obligation_of = Map.empty, failures = Map.empty,
     openCircuits = Map.empty, settle_bus = [], provider_calls = [], faults = []\<rparr>"

definition demo_escrow :: "EscrowStatus \<Rightarrow> escrow_row" where
  "demo_escrow st = \<lparr>er_tradeId = ''t'', er_type = WDK_USDT_EVM, er_status = st, er_lockedAmount = 2, er_asset = USDT_ERC20,
     er_network = None, er_timelockHours = 24, er_multisigAddr = None, er_txLockId = None, er_txLockVout = None,
     er_txReleaseId = None, er_fundedAmount = None, er_lockedAt = None, er_expiresAt = Some 5, er_releasedAt = None,
     er_feePolicyVersionId = Some ''p'', er_snapshotProtocolFeeRate = Some (1/100),
     er_snapshotFeeCollectionAddress = None, er_snapshotWaivedPreFunding = None,
     er_feeCharged = None\<rparr>"

theorem settlement_obligation_recorded_witness:
  "\<exists>oid. obligation_of (snd (recordObligationForEscrowSettlement demo_senv ''e'' (demo_escrow COMPLETED) O_RELEASE None None
       (demo_settlement (Some (demo_escrow COMPLETED))))) ''e'' = Some oid"
  using settlement_obligation_recorded [of "demo_settlement (Some (demo_escrow COMPLETED))" "demo_escrow COMPLETED" "''p''"
      "1/100" "''e''" O_RELEASE None 0 demo_senv]
  by (auto simp: demo_settlement_def demo_escrow_def)

text \<open>
  At most one fee policy is live per rail. Drafting, publishing and retiring keep the
  policy table well formed: identifiers are unique, no rail has two published policies, and
  every published policy has a rate that is not negative, a positive confirmation depth and
  a rail that can collect fees. In such a state the lookup of the live policy never reports an
  ambiguity.
\<close>

theorem fee_policies_stay_unambiguous:
  assumes "policies_ok (s_uuid env) (draws s) (fee_policies s)" and "inj (s_uuid env)"
    and "t \<in> {snd (createDraft env input s), snd (publish pid s), snd (retire pid s)}"
  shows "policies_ok (s_uuid env) (draws t) (fee_policies t)
       \<and> (\<exists>p. findLivePolicyForRail rail t = (Inr p, t))"
proof -
  have ok: "policies_ok_in (s_uuid env) t"
    using assms createDraft_policies_ok publish_policies_ok retire_policies_ok by auto
  let ?pub = "filter (\<lambda>p. fp_railScope p = rail \<and> fp_status p = PUBLISHED) (fee_policies t)"
  have "length ?pub \<le> 1" by (rule live_policy_unambiguous [OF ok])
  then have "\<exists>p. findLivePolicyForRail rail t = (Inr p, t)"
    by (cases ?pub; cases "tl ?pub")
      (auto simp: findLivePolicyForRail_def findPublishedForRail_def seqH_def readH_def ret_def)
  with ok show ?thesis by blast
qed

theorem fee_policies_stay_unambiguous_witness:
  "let s = (demo_settlement None)\<lparr>draws := 1, fee_policies := [\<lparr>fp_id = show_nat 0, fp_railScope = MULTISIG,
              fp_status = DRAFT, fp_protocolFeeRate = 1/100, fp_requiredConfirmations = Some 3,
              fp_fixtureOnlyMinimum = None\<rparr>]\<rparr>
   in \<exists>p. findLivePolicyForRail MULTISIG (snd (publish (show_nat 0) s)) = (Inr p, snd (publish (show_nat 0) s))"
proof -
  let ?s = "(demo_settlement None)\<lparr>draws := 1, fee_policies := [\<lparr>fp_id = show_nat 0, fp_railScope = MULTISIG,
              fp_status = DRAFT, fp_protocolFeeRate = 1/100, fp_requiredConfirmations = Some 3,
              fp_fixtureOnlyMinimum = None\<rparr>]\<rparr>"
  have ok: "policies_ok (s_uuid demo_senv) (draws ?s) (fee_policies ?s)"
    by (simp add: policies_ok_def published_def demo_senv_def)
  have inj: "inj (s_uuid demo_senv)" by (simp add: demo_senv_def inj_def)
  show ?thesis
    unfolding Let_def
    by (rule conjunct2 [OF fee_policies_stay_unambiguous [OF ok inj, where pid = "show_nat 0"]])
      (intro insertI2 insertI1)
qed

text \<open>
  The implied miner fee of a delivered settlement is accepted exactly when nothing was
  created out of thin air and the gap stays under the ceiling, and the ceiling is the smaller
  of the rate bound and the share of the gross amount, but never under the configured floor.
\<close>

theorem execution_cost_bounded:
  "(case deriveDistributableTotal cfg gross delivered outputs of
      Inr (distributable, fee) \<Rightarrow> distributable = delivered \<and> distributable + fee = gross \<and> 0 \<le> fee
        \<and> fee \<le> max (minFeeFloorSats cfg)
                    (min \<lceil>maxFeeRateSatsPerVByte cfg * of_int (121 + 43 * outputs)\<rceil>
                         (bigint_div (gross * maxFeeProportionOfGrossBasisPoints cfg) 10000))
    | Inl _ \<Rightarrow> gross < delivered
        \<or> max (minFeeFloorSats cfg)
              (min \<lceil>maxFeeRateSatsPerVByte cfg * of_int (121 + 43 * outputs)\<rceil>
                   (bigint_div (gross * maxFeeProportionOfGrossBasisPoints cfg) 10000)) < gross - delivered)"
  by (simp add: deriveDistributableTotal_def maxExecutionCostSats_def estimatedVBytesForOutputCount_def Let_def
      min_def max_def)

end
