(* ===== verification/Escrow_Lifecycle.thy ===== *)
theory Escrow_Lifecycle
  imports Fee_Obligation
begin

text \<open>
  The guards and primitives every settlement operation is built from:
  \<^verbatim>\<open>fixed-window-counter.ts\<close>, \<^verbatim>\<open>escrow-circuit-breaker.ts\<close>,
  \<^verbatim>\<open>escrow-lifecycle.ts\<close> (transition table, authorization, the atomic claim and its
  reversal, the hash-chained event log and its verifier), \<^verbatim>\<open>escrow-dual-approval.ts\<close>,
  \<^verbatim>\<open>expiry-authority.ts\<close>, \<^verbatim>\<open>expiry-shadow.ts\<close> and
  \<^verbatim>\<open>semantic-transition-record.ts\<close>.
\<close>

section \<open>Fixed-window counters\<close>

type_synonym windows = "string \<rightharpoonup> nat \<times> int"

definition window_sweep :: "int \<Rightarrow> windows \<Rightarrow> windows" where
  "window_sweep now ws = (\<lambda>k. case ws k of None \<Rightarrow> None | Some (c, r) \<Rightarrow> if r \<le> now then None else Some (c, r))"

definition window_increment :: "int \<Rightarrow> string \<Rightarrow> int \<Rightarrow> windows \<Rightarrow> nat \<times> windows" where
  "window_increment now key windowMs ws =
     (case ws key of
        None \<Rightarrow> (1, ws(key \<mapsto> (1, now + windowMs)))
      | Some (c, resetAt) \<Rightarrow>
          if resetAt \<le> now then (1, ws(key \<mapsto> (1, now + windowMs)))
          else (c + 1, ws(key \<mapsto> (c + 1, resetAt))))"

definition window_peek :: "int \<Rightarrow> string \<Rightarrow> windows \<Rightarrow> nat" where
  "window_peek now key ws =
     (case ws key of None \<Rightarrow> 0 | Some (c, resetAt) \<Rightarrow> if resetAt \<le> now then 0 else c)"

section \<open>Circuit breaker\<close>

definition assertCircuitClosed :: "string \<Rightarrow> unit settle" where
  "assertCircuitClosed i =
     seqH (readH (\<lambda>s. window_peek (clock s) i (openCircuits s))) (\<lambda>n.
       guardH (n = 0) (CircuitBreakerOpenError ''temporarily paused after repeated conflicting requests''))"

definition recordEscrowConflict :: "settle_env \<Rightarrow> string \<Rightarrow> unit settle" where
  "recordEscrowConflict env i =
     seqH (readH (\<lambda>s. window_increment (clock s) i (s_windowMs env) (failures s))) (\<lambda>(count, ws).
     seqH (writeH (\<lambda>s. s\<lparr>failures := ws\<rparr>)) (\<lambda>_.
       if count < s_failureThreshold env then ret ()
       else writeH (\<lambda>s. s\<lparr>openCircuits := snd (window_increment (clock s) i (s_cooldownMs env) (openCircuits s))\<rparr>)))"

section \<open>Transition table\<close>

fun VALID_TRANSITIONS :: "EscrowStatus \<Rightarrow> EscrowStatus list" where
  "VALID_TRANSITIONS CREATED = [FUNDS_LOCKED, REFUNDED]"
| "VALID_TRANSITIONS FUNDS_LOCKED = [PAYMENT_PENDING, DISPUTED, REFUNDED, EXPIRED]"
| "VALID_TRANSITIONS PAYMENT_PENDING = [COMPLETED, DISPUTED]"
| "VALID_TRANSITIONS COMPLETED = []"
| "VALID_TRANSITIONS DISPUTED = [COMPLETED, REFUNDED, SPLIT]"
| "VALID_TRANSITIONS REFUNDED = []"
| "VALID_TRANSITIONS SPLIT = []"
| "VALID_TRANSITIONS EXPIRED = [DISPUTED, REFUNDED]"

definition assertEscrowTransition :: "EscrowStatus \<Rightarrow> EscrowStatus \<Rightarrow> unit result" where
  "assertEscrowTransition current next =
     (if next \<in> set (VALID_TRANSITIONS current) then Inr () else Inl (EscrowError ''Invalid escrow transition''))"

section \<open>Authorization\<close>

text \<open>
  \<^verbatim>\<open>^agent:[^:]+:<participantId>$\<close>. Participant identifiers are UUIDs, which contain no
  character with a meaning in a regular expression, so the identifier matches itself.
\<close>

definition isPartyOrAgent :: "string \<Rightarrow> string \<Rightarrow> bool" where
  "isPartyOrAgent triggeredBy participantId \<longleftrightarrow>
     triggeredBy = participantId
     \<or> (take 6 triggeredBy = ''agent:''
        \<and> (let rest = drop 6 triggeredBy; agent = takeWhile (\<lambda>c. c \<noteq> CHR '':'') rest
           in agent \<noteq> [] \<and> drop (length agent) rest = CHR '':'' # participantId))"

definition isSellerOrAssignedArbiter :: "string \<Rightarrow> string \<Rightarrow> string \<Rightarrow> bool settle" where
  "isSellerOrAssignedArbiter tradeId sellerId triggeredBy =
     (if isPartyOrAgent triggeredBy sellerId then ret True
      else seqH (findDisputeByTradeAndArbiter tradeId triggeredBy) (\<lambda>d. ret (d \<noteq> None)))"

definition assertDisputedDispositionAuthority ::
    "string \<Rightarrow> EscrowStatus \<Rightarrow> string \<Rightarrow> dispute_assignment option settle" where
  "assertDisputedDispositionAuthority tradeId status triggeredBy =
     (if status \<noteq> DISPUTED then ret None
      else seqH (findDisputeByTradeAndArbiter tradeId triggeredBy) (\<lambda>d.
           seqH (guardH (d \<noteq> None) (ForbiddenError ''not the current assigned arbiter'')) (\<lambda>_. ret d)))"

datatype FundScope = Released | Refunded | SplitScope

fun scope_name :: "FundScope \<Rightarrow> string" where
  "scope_name Released = ''settlement.escrow.released''"
| "scope_name Refunded = ''settlement.escrow.refunded''"
| "scope_name SplitScope = ''settlement.escrow.split''"

definition checkFundMovementCapability :: "settle_env \<Rightarrow> string \<Rightarrow> FundScope \<Rightarrow> unit settle" where
  "checkFundMovementCapability env triggeredBy fundScope =
     (if \<not> s_enforceCapabilities env then ret ()
      else seqH (checkCapability (s_dateOf env) triggeredBy (the (CAPABILITY_IMPLEMENTATIONS ''opensettlement''))
                   (scope_name fundScope)) (\<lambda>allowed.
           guardH allowed (ForbiddenError ''no active capability grant'')))"

definition assertFundingNotUncertain :: "string \<Rightarrow> EscrowType \<Rightarrow> unit settle" where
  "assertFundingNotUncertain i type =
     (if type \<noteq> MULTISIG then ret ()
      else seqH (isFundingUncertain i) (\<lambda>u. guardH (\<not> u) (EscrowError ''funding evidence is currently uncertain'')))"

definition loadEscrowWithAuthorization :: "string \<Rightarrow> string \<Rightarrow> (escrow_row \<times> trade_row) settle" where
  "loadEscrowWithAuthorization i triggeredBy =
     seqH (requireEscrow i) (\<lambda>escrow.
     seqH (requireTrade (er_tradeId escrow)) (\<lambda>trade.
     seqH (if er_status escrow = DISPUTED
           then seqH (assertDisputedDispositionAuthority (er_tradeId escrow) (er_status escrow) triggeredBy) (\<lambda>_. ret ())
           else seqH (isSellerOrAssignedArbiter (er_tradeId escrow) (t_sellerId trade) triggeredBy) (\<lambda>ok.
                  guardH ok (ForbiddenError ''neither the seller nor the assigned dispute arbiter''))) (\<lambda>_.
       ret (escrow, trade))))"

definition loadParticipantPubkeys :: "string \<Rightarrow> (string option \<times> string option \<times> string option) settle" where
  "loadParticipantPubkeys i =
     readH (\<lambda>s. let keys = map snd (filter (\<lambda>k. fst k = i) (participant_keys s));
                    key_of = (\<lambda>role. map_option k_pubkey (find (\<lambda>k. k_role k = role) keys))
                in (key_of buyer, key_of seller, key_of arbiter))"

section \<open>Claiming and reverting\<close>

definition claimEscrowTransition :: "settle_env \<Rightarrow> string \<Rightarrow> EscrowStatus \<Rightarrow> EscrowStatus \<Rightarrow> unit settle" where
  "claimEscrowTransition env i fromStatus toStatus =
     seqH (assertCircuitClosed i) (\<lambda>_.
     seqH (guardH (toStatus \<in> set (VALID_TRANSITIONS fromStatus)) (EscrowError ''Invalid escrow transition'')) (\<lambda>_.
     seqH (claimTransitionE i fromStatus toStatus) (\<lambda>claimedCount.
       if claimedCount = 0
       then seqH (recordEscrowConflict env i) (\<lambda>_.
              throw (EscrowError ''already transitioned by a concurrent request''))
       else ret ())))"

definition revertEscrowStatus :: "string \<Rightarrow> EscrowStatus \<Rightarrow> EscrowStatus \<Rightarrow> unit settle" where
  "revertEscrowStatus i claimedStatus fromStatus =
     catchH (revertStatus i claimedStatus fromStatus) (\<lambda>_. ret ())"

section \<open>Event log\<close>

definition escrow_entry :: "escrow_event_body \<Rightarrow> string \<Rightarrow> string" where
  "escrow_entry b prev =
     escrow_status_name (ee_from b) @ ''|'' @ escrow_status_name (ee_to b) @ ''|'' @ ee_triggeredBy b @ ''|'' @ prev"

definition computeEscrowEventHash :: "(string \<Rightarrow> string) \<Rightarrow> escrow_event_body \<Rightarrow> string \<Rightarrow> string" where
  "computeEscrowEventHash sha b prevHash = sha (escrow_entry b prevHash)"

definition escrow_rows :: "string \<Rightarrow> settlement_state \<Rightarrow> escrow_event_body chain_row list" where
  "escrow_rows i s = map (snd \<circ> snd) (filter (\<lambda>e. fst e = i) (escrow_events s))"

definition withEscrowFundingLock :: "'a settle \<Rightarrow> 'a settle" where
  "withEscrowFundingLock fn = transactionH fn"

definition emitEscrowTransition ::
    "settle_env \<Rightarrow> string \<Rightarrow> string \<Rightarrow> EscrowStatus \<Rightarrow> EscrowStatus \<Rightarrow> string \<Rightarrow> string \<Rightarrow> string option \<Rightarrow> bool settle" where
  "emitEscrowTransition env i tradeId from to triggeredBy eventName note =
     seqH (withEscrowFundingLock
       (seqH (readH (escrow_rows i)) (\<lambda>rows.
          if list_ex (\<lambda>r. ee_to (body r) = to) rows then ret False
          else let prevHash = (if rows = [] then ''genesis''
                               else case entry_hash (last rows) of None \<Rightarrow> ''genesis'' | Some h \<Rightarrow> h);
                   b = \<lparr>ee_from = from, ee_to = to, ee_triggeredBy = triggeredBy\<rparr>
               in seqH (dbWrite ''escrowEvent'' (\<lambda>s. s\<lparr>escrow_events := escrow_events s @
                          [(i, note, \<lparr>body = b, prev_hash = Some prevHash,
                                      entry_hash = Some (computeEscrowEventHash (s_sha256 env) b prevHash)\<rparr>)]\<rparr>))
                       (\<lambda>_. ret True)))) (\<lambda>claimed.
       if \<not> claimed then ret False
       else seqH (dbWrite ''eventBus'' (\<lambda>s. s\<lparr>settle_bus := settle_bus s @ [(eventName, tradeId)]\<rparr>)) (\<lambda>_. ret True))"

datatype EscrowChainVerification = ChainValid | ChainBroken nat string

fun verify_chain ::
    "(escrow_event_body \<Rightarrow> string \<Rightarrow> string) \<Rightarrow> nat \<Rightarrow> bool \<Rightarrow> string \<Rightarrow> escrow_event_body chain_row list
       \<Rightarrow> EscrowChainVerification" where
  "verify_chain h idx started expectedPrevHash [] = ChainValid"
| "verify_chain h idx started expectedPrevHash (event # events) =
     (case entry_hash event of
        None \<Rightarrow> verify_chain h (Suc idx) started expectedPrevHash events
      | Some e \<Rightarrow>
          let storedPrevHash = (case prev_hash event of None \<Rightarrow> ''genesis'' | Some p \<Rightarrow> p) in
          if e \<noteq> h (body event) storedPrevHash
          then ChainBroken idx ''entryHash does not match the recomputed hash''
          else let expected = (if started then expectedPrevHash else ''genesis'') in
          if storedPrevHash \<noteq> expected
          then ChainBroken idx ''prevHash does not match the running chain''
          else verify_chain h (Suc idx) True e events)"

definition verifyEscrowEventChain :: "settle_env \<Rightarrow> string \<Rightarrow> EscrowChainVerification settle" where
  "verifyEscrowEventChain env i =
     readH (\<lambda>s. verify_chain (computeEscrowEventHash (s_sha256 env)) 0 False ''genesis'' (escrow_rows i s))"

definition resolvePayoutAddress :: "string option \<Rightarrow> string \<Rightarrow> AssetType \<Rightarrow> string settle" where
  "resolvePayoutAddress explicitAddress participantId asset =
     (case explicitAddress of
        Some a \<Rightarrow> if a \<noteq> [] then ret a
                  else seqH (getPayoutAddress participantId asset) (\<lambda>r.
                         requireH r (EscrowError ''No payout address provided and none is registered''))
      | None \<Rightarrow> seqH (getPayoutAddress participantId asset) (\<lambda>r.
                  requireH r (EscrowError ''No payout address provided and none is registered'')))"

section \<open>Dual approval\<close>

definition approveRelease :: "string \<Rightarrow> string \<Rightarrow> unit settle" where
  "approveRelease i approverId =
     seqH (requireEscrow i) (\<lambda>escrow.
     seqH (requireTrade (er_tradeId escrow)) (\<lambda>trade.
     seqH (guardH (approverId = t_buyerId trade \<or> approverId = t_sellerId trade)
             (ForbiddenError ''not a counterparty'')) (\<lambda>_.
       writeH (\<lambda>s. if (i, approverId) \<in> set (release_approvals s) then s
                   else s\<lparr>release_approvals := release_approvals s @ [(i, approverId)]\<rparr>))))"

definition getReleaseApprovals :: "string \<Rightarrow> string list settle" where
  "getReleaseApprovals i = readH (\<lambda>s. map snd (filter (\<lambda>a. fst a = i) (release_approvals s)))"

definition hasDualApproval :: "string \<Rightarrow> bool settle" where
  "hasDualApproval i = seqH (getReleaseApprovals i) (\<lambda>as. ret (2 \<le> length as))"

section \<open>Expiry authority\<close>

definition ESCROW_TIMELOCK_EXPIRY_RULESET :: RulesetRef where
  "ESCROW_TIMELOCK_EXPIRY_RULESET =
     \<lparr>rs_name = ''Sails Escrow Timelock Expiry Ruleset'', rs_identity = ''sails-escrow-timelock-expiry-ruleset'',
      rs_version = ''1.0'', rs_commitment = ''sails-escrow-timelock-expiry-ruleset@1.0:evaluationTime>=deadline'',
      expectedEvaluatorIdentity = SAILS_TIMELOCK_EVALUATOR_IDENTITY,
      expectedProfileIdentity = SAILS_SEMANTIC_PROFILE_IDENTITY\<rparr>"

type_synonym expiry_record = "(EscrowTimelockExpiryPayload, unit, unit) TransitionRecord"

datatype ExpiryAuthorityVerdict =
    AUTHORIZED expiry_record
  | NOT_ELIGIBLE ConditionResult
  | BINDING_MISMATCH string
  | EVALUATION_FAILED

definition evaluateExpiryAuthority ::
    "string \<Rightarrow> int \<Rightarrow> int \<Rightarrow> RulesetRef \<Rightarrow> (TimelockInput \<Rightarrow> ConditionResult result) \<Rightarrow> ExpiryAuthorityVerdict result" where
  "evaluateExpiryAuthority escrowId deadline evaluationTime rulesetRef evaluate =
     (case checkRulesetBinding rulesetRef SAILS_TIMELOCK_EVALUATOR_IDENTITY SAILS_SEMANTIC_PROFILE_IDENTITY of
        Inconsistent reason \<Rightarrow> Inr (BINDING_MISMATCH reason)
      | Consistent \<Rightarrow>
          (case evaluate \<lparr>tl_deadline = of_int deadline, tl_evaluationTime = of_int evaluationTime\<rparr> of
             Inl _ \<Rightarrow> Inr EVALUATION_FAILED
           | Inr conditionResult \<Rightarrow>
               if conditionResult \<noteq> SATISFIED then Inr (NOT_ELIGIBLE conditionResult)
               else case createInteractionId escrowId of
                 Inl e \<Rightarrow> Inl e
               | Inr interaction \<Rightarrow> Inr (AUTHORIZED
                   \<lparr>tr_interaction = interaction, tr_priorPosition = LEGACY_UNVERIFIED,
                    tr_transition = \<lparr>ct_interaction = interaction, ct_type = ''escrow.timelock.expire'',
                      ct_payload = \<lparr>fromState = FUNDS_LOCKED, toState = EXPIRED, deadlineMs = deadline,
                                    evaluationTimeMs = evaluationTime\<rparr>\<rparr>,
                    tr_rulesetRef = rulesetRef, tr_evaluatorIdentity = SAILS_TIMELOCK_EVALUATOR_IDENTITY,
                    tr_profileIdentity = SAILS_SEMANTIC_PROFILE_IDENTITY, tr_conditionResult = conditionResult,
                    tr_attribution = None, tr_outcome = None\<rparr>)))"

text \<open>The defaults of the two optional arguments.\<close>

definition expiry_verdict :: "string \<Rightarrow> int \<Rightarrow> int \<Rightarrow> ExpiryAuthorityVerdict result" where
  "expiry_verdict escrowId deadline evaluationTime =
     evaluateExpiryAuthority escrowId deadline evaluationTime ESCROW_TIMELOCK_EXPIRY_RULESET
       (\<lambda>i. Inr (le_evaluate referenceTimelockEvaluator i))"

definition toSemanticTransitionRecordRow :: "(string \<Rightarrow> string) \<Rightarrow> expiry_record \<Rightarrow> semantic_record_row result" where
  "toSemanticTransitionRecordRow stringify rec =
     (if tr_attribution rec \<noteq> None then Inl (GenericError ''never carries discretionary attribution'')
      else if tr_outcome rec \<noteq> None then Inl (GenericError ''never carries an economic Outcome'')
      else let p = ct_payload (tr_transition rec) in
        Inr \<lparr>sr_interactionId = tr_interaction rec, sr_transitionType = ct_type (tr_transition rec),
             sr_fromState = fromState p, sr_toState = toState p,
             sr_priorPosition = (case tr_priorPosition rec of LEGACY_UNVERIFIED \<Rightarrow> None
                                 | Position pos \<Rightarrow> Some (stringify (hp_reference pos))),
             sr_ruleset = tr_rulesetRef rec, sr_evaluatorIdentity = tr_evaluatorIdentity rec,
             sr_profileIdentity = tr_profileIdentity rec, sr_deadlineMs = deadlineMs p,
             sr_evaluationTimeMs = evaluationTimeMs p, sr_conditionResult = tr_conditionResult rec\<rparr>)"

text \<open>
  One transaction: the claim of the status and the record of why. The table is unique in
  interaction and transition type.
\<close>

definition createSemanticRecord :: "semantic_record_row \<Rightarrow> unit settle" where
  "createSemanticRecord row =
     seqH (readH (\<lambda>s. list_ex (\<lambda>r. sr_interactionId r = sr_interactionId row
                                     \<and> sr_transitionType r = sr_transitionType row) (semantic_records s))) (\<lambda>dup.
     seqH (guardH (\<not> dup) (DatabaseError ''P2002'')) (\<lambda>_.
       dbWrite ''semanticTransitionRecord'' (\<lambda>s. s\<lparr>semantic_records := semantic_records s @ [row]\<rparr>)))"

definition findByInteractionAndTransitionType :: "string \<Rightarrow> string \<Rightarrow> semantic_record_row option settle" where
  "findByInteractionAndTransitionType interactionId transitionType =
     readH (\<lambda>s. find (\<lambda>r. sr_interactionId r = interactionId \<and> sr_transitionType r = transitionType) (semantic_records s))"

definition commitAuthoritativeEscrowTimelockExpiry ::
    "settle_env \<Rightarrow> string \<Rightarrow> EscrowStatus \<Rightarrow> EscrowStatus \<Rightarrow> expiry_record \<Rightarrow> bool settle" where
  "commitAuthoritativeEscrowTimelockExpiry env i fromStatus toStatus rec =
     seqH (liftH (toSemanticTransitionRecordRow (s_stringify env) rec)) (\<lambda>row.
       transactionH
         (seqH (claimTransitionE i fromStatus toStatus) (\<lambda>claimedCount.
            if claimedCount = 0 then ret False
            else seqH (createSemanticRecord row) (\<lambda>_. ret True))))"

section \<open>Expiry shadow\<close>

datatype ShadowComparison = AGREE | DIVERGE | INCONCLUSIVE

definition isLegacyExpired :: "int \<Rightarrow> int \<Rightarrow> bool" where
  "isLegacyExpired expiresAt now \<longleftrightarrow> expiresAt < now"

definition compareExpiryShadow :: "(TimelockInput \<Rightarrow> ConditionResult) \<Rightarrow> int \<Rightarrow> int \<Rightarrow> ShadowComparison" where
  "compareExpiryShadow evaluate expiresAt now =
     (let legacyExpired = isLegacyExpired expiresAt now;
          coreResult = evaluate \<lparr>tl_deadline = of_int expiresAt, tl_evaluationTime = of_int now\<rparr>
      in if coreResult \<noteq> SATISFIED \<and> coreResult \<noteq> NOT_YET_SATISFIED then INCONCLUSIVE
         else if legacyExpired = (coreResult = SATISFIED) then AGREE else DIVERGE)"

section \<open>The shared contracts\<close>

fun escrow_rank :: "EscrowStatus \<Rightarrow> nat" where
  "escrow_rank CREATED = 0"
| "escrow_rank FUNDS_LOCKED = 1"
| "escrow_rank PAYMENT_PENDING = 2"
| "escrow_rank EXPIRED = 2"
| "escrow_rank DISPUTED = 3"
| "escrow_rank _ = 4"

interpretation escrow_life: forward_lifecycle VALID_TRANSITIONS escrow_rank 4
proof unfold_locales
  fix s t :: EscrowStatus
  show "escrow_rank s < escrow_rank t" if "t \<in> set (VALID_TRANSITIONS s)"
    using that by (cases s) auto
  show "escrow_rank s \<le> 4" by (cases s) simp_all
qed

interpretation escrow_chain: hash_chain "computeEscrowEventHash sha" "''genesis''" for sha .

lemma transition_changes: "t \<in> set (VALID_TRANSITIONS f) \<Longrightarrow> t \<noteq> f"
  using escrow_life.no_self_step by blast

section \<open>Weakest preconditions\<close>

definition circuit_open :: "string \<Rightarrow> settlement_state \<Rightarrow> bool" where
  "circuit_open i s \<longleftrightarrow> window_peek (clock s) i (openCircuits s) \<noteq> 0"

lemma wp_assertCircuitClosed [wp_eqs]:
  "wpH (assertCircuitClosed i) Q E s =
     (if circuit_open i s
      then E (CircuitBreakerOpenError ''temporarily paused after repeated conflicting requests'') s else Q () s)"
  by (simp add: assertCircuitClosed_def wp_eqs circuit_open_def)

definition conflict_recorded :: "settle_env \<Rightarrow> string \<Rightarrow> settlement_state \<Rightarrow> settlement_state" where
  "conflict_recorded env i s =
     (let (count, ws) = window_increment (clock s) i (s_windowMs env) (failures s) in
      s\<lparr>failures := ws,
        openCircuits := (if count < s_failureThreshold env then openCircuits s
                         else snd (window_increment (clock s) i (s_cooldownMs env) (openCircuits s)))\<rparr>)"

lemma wp_recordEscrowConflict [wp_eqs]:
  "wpH (recordEscrowConflict env i) Q E s = Q () (conflict_recorded env i s)"
  by (simp add: recordEscrowConflict_def conflict_recorded_def wp_eqs case_prod_beta)

definition may_dispose :: "escrow_row \<Rightarrow> trade_row \<Rightarrow> string \<Rightarrow> settlement_state \<Rightarrow> bool" where
  "may_dispose r t who s \<longleftrightarrow>
     (let assigned = list_ex (\<lambda>d. d_tradeId d = er_tradeId r \<and> d_arbiterId d = Some who) (disputes s) in
      if er_status r = DISPUTED then assigned else isPartyOrAgent who (t_sellerId t) \<or> assigned)"

lemma find_exists: "(\<exists>y. find P xs = Some y) = list_ex P xs"
  by (induction xs) auto

lemma wp_loadEscrowWithAuthorization [wp_eqs]:
  "wpH (loadEscrowWithAuthorization i who) Q E s =
     (case escrows s i of
        None \<Rightarrow> E (NotFoundError ''Escrow'' i) s
      | Some r \<Rightarrow>
          (case trades s (er_tradeId r) of
             None \<Rightarrow> E (NotFoundError ''Trade'' (er_tradeId r)) s
           | Some t \<Rightarrow>
               if may_dispose r t who s then Q (r, t) s
               else if er_status r = DISPUTED then E (ForbiddenError ''not the current assigned arbiter'') s
               else E (ForbiddenError ''neither the seller nor the assigned dispute arbiter'') s))"
  by (simp add: loadEscrowWithAuthorization_def assertDisputedDispositionAuthority_def
      isSellerOrAssignedArbiter_def wp_eqs find_exists may_dispose_def Let_def
      split: option.split)

definition capability_ok :: "settle_env \<Rightarrow> string \<Rightarrow> FundScope \<Rightarrow> settlement_state \<Rightarrow> bool" where
  "capability_ok env who sc s \<longleftrightarrow>
     (s_enforceCapabilities env \<longrightarrow> permitted (s_dateOf env) who ''settlement'' (scope_name sc) s)"

lemma wp_checkFundMovementCapability [wp_eqs]:
  "wpH (checkFundMovementCapability env who sc) Q E s =
     (if capability_ok env who sc s then Q () s else E (ForbiddenError ''no active capability grant'') s)"
  by (simp add: checkFundMovementCapability_def wp_eqs capability_ok_def CAPABILITY_IMPLEMENTATIONS_def)

lemma wp_assertFundingNotUncertain [wp_eqs]:
  "wpH (assertFundingNotUncertain i ty) Q E s =
     (if ty = MULTISIG \<and> funding_uncertain i s then E (EscrowError ''funding evidence is currently uncertain'') s
      else Q () s)"
  by (simp add: assertFundingNotUncertain_def wp_eqs)

definition set_status :: "string \<Rightarrow> escrow_row \<Rightarrow> EscrowStatus \<Rightarrow> settlement_state \<Rightarrow> settlement_state" where
  "set_status i r st s = s\<lparr>escrows := (escrows s)(i \<mapsto> r\<lparr>er_status := st\<rparr>)\<rparr>"

lemma claim_stored:
  "escrows s i = Some r \<Longrightarrow> claimEscrowStatus i (er_status r) to s = (1, set_status i r to s)"
  by (simp add: claimEscrowStatus_def set_status_def)

lemma wp_claimEscrowTransition:
  assumes "escrows s i = Some r" and "er_status r = from"
  shows "wpH (claimEscrowTransition env i from to) Q E s =
     (if circuit_open i s then E (CircuitBreakerOpenError ''temporarily paused after repeated conflicting requests'') s
      else if to \<notin> set (VALID_TRANSITIONS from) then E (EscrowError ''Invalid escrow transition'') s
      else Q () (set_status i r to s))"
  using assms by (auto simp: claimEscrowTransition_def wp_eqs claim_stored)

lemma wp_revertEscrowStatus [wp_eqs]:
  "wpH (revertEscrowStatus i claimed from) Q E s =
     (case faults s of
        True # fs \<Rightarrow> Q () (s\<lparr>faults := fs\<rparr>)
      | False # fs \<Rightarrow> Q () (snd (claimEscrowStatus i claimed from (s\<lparr>faults := fs\<rparr>)))
      | [] \<Rightarrow> Q () (snd (claimEscrowStatus i claimed from s)))"
  by (simp add: revertEscrowStatus_def revertStatus_def wp_eqs)

lemma wp_resolvePayoutAddress [wp_eqs]:
  "wpH (resolvePayoutAddress a who asset) Q E s =
     (case (if a = Some [] then None else a) of
        Some x \<Rightarrow> Q x s
      | None \<Rightarrow> (case payout_addresses s (who, asset) of
                   None \<Rightarrow> E (EscrowError ''No payout address provided and none is registered'') s
                 | Some x \<Rightarrow> Q x s))"
  by (simp add: resolvePayoutAddress_def wp_eqs split: option.split)

definition already_emitted :: "string \<Rightarrow> EscrowStatus \<Rightarrow> settlement_state \<Rightarrow> bool" where
  "already_emitted i to s = list_ex (\<lambda>r. ee_to (body r) = to) (escrow_rows i s)"

definition log_event ::
    "settle_env \<Rightarrow> string \<Rightarrow> EscrowStatus \<Rightarrow> EscrowStatus \<Rightarrow> string \<Rightarrow> string option \<Rightarrow> settlement_state \<Rightarrow> settlement_state" where
  "log_event env i from to who note s =
     s\<lparr>escrow_events := escrow_events s @ [(i, note,
         escrow_chain.appended (s_sha256 env) \<lparr>ee_from = from, ee_to = to, ee_triggeredBy = who\<rparr> (escrow_rows i s))]\<rparr>"

definition publish_event :: "string \<Rightarrow> string \<Rightarrow> settlement_state \<Rightarrow> settlement_state" where
  "publish_event ev tid s = s\<lparr>settle_bus := settle_bus s @ [(ev, tid)]\<rparr>"

lemma wp_emitEscrowTransition [wp_eqs]:
  "wpH (emitEscrowTransition env i tid from to who ev note) Q E s =
     (if already_emitted i to s then Q False s
      else wpH (dbWrite ''escrowEvent'' (log_event env i from to who note))
             (\<lambda>_. wpH (dbWrite ''eventBus'' (publish_event ev tid)) (\<lambda>_. Q True) E) E s)"
  by (simp add: emitEscrowTransition_def withEscrowFundingLock_def wp_eqs already_emitted_def Let_def
      log_event_def escrow_chain.appended_def list.case_eq_if escrow_rows_def publish_event_def
      split: list.split bool.split)

section \<open>The event log\<close>

lemma verify_chain_ok:
  assumes "started \<or> p = ''genesis''"
  shows "verify_chain (computeEscrowEventHash sha) n started p rows = ChainValid
     \<longleftrightarrow> escrow_chain.chain_ok sha p rows"
  using assms by (induction rows arbitrary: n started p) (auto simp: Let_def split: option.split)

end
