(* ===== verification/Escrow_Service.thy ===== *)
theory Escrow_Service
  imports Escrow_Lifecycle
begin

text \<open>
  The escrow service, \<^verbatim>\<open>escrow.service.ts\<close>: creating an escrow, collecting the
  participants' keys, locking, marking payment, releasing, disputing, refunding, splitting
  and the expiry sweep. A settlement provider is a parameter; what its calls return may
  depend on everything that happened before.
\<close>

section \<open>Creation and keys\<close>

record CreateEscrowInput =
  ci_tradeId :: string
  ci_type :: "EscrowType option"
  ci_lockedAmount :: rat
  ci_asset :: AssetType
  ci_network :: "string option"
  ci_timelockHours :: "int option"

definition new_escrow :: "settle_env \<Rightarrow> CreateEscrowInput \<Rightarrow> EscrowType \<Rightarrow> FeeSnapshotFields option \<Rightarrow> escrow_row" where
  "new_escrow env input type snap =
     apply_snapshot snap
       \<lparr>er_tradeId = ci_tradeId input, er_type = type, er_status = CREATED, er_lockedAmount = ci_lockedAmount input,
        er_asset = ci_asset input, er_network = ci_network input,
        er_timelockHours = (case ci_timelockHours input of None \<Rightarrow> s_defaultTimelockHours env | Some h \<Rightarrow> h),
        er_multisigAddr = None, er_txLockId = None, er_txLockVout = None, er_txReleaseId = None,
        er_fundedAmount = None, er_lockedAt = None, er_expiresAt = None, er_releasedAt = None,
        er_feePolicyVersionId = None, er_snapshotProtocolFeeRate = None, er_snapshotFeeCollectionAddress = None,
        er_snapshotWaivedPreFunding = None, er_feeCharged = None\<rparr>"

definition createEscrow :: "settle_env \<Rightarrow> CreateEscrowInput \<Rightarrow> string \<Rightarrow> string settle" where
  "createEscrow env input participantId =
     seqH (requireTrade (ci_tradeId input)) (\<lambda>trade.
     seqH (guardH (participantId = t_buyerId trade \<or> participantId = t_sellerId trade)
             (ForbiddenError ''not a counterparty'')) (\<lambda>_.
     seqH (guardH (t_escrowId trade = None \<or> t_escrowId trade = Some []) (EscrowError ''Trade already has an escrow'')) (\<lambda>_.
     seqH (liftH (resolveEscrowType (s_isProduction env) (s_mockEscrow env) (ci_asset input) (ci_type input))) (\<lambda>type.
     seqH (computeSnapshotFields env type (ci_lockedAmount input)) (\<lambda>feeSnapshot.
     seqH (createEscrowRow env (new_escrow env input type feeSnapshot)) (\<lambda>i.
     seqH (dbWrite ''eventBus'' (\<lambda>s. s\<lparr>settle_bus := settle_bus s @ [(''settlement.escrow.created'', ci_tradeId input)]\<rparr>)) (\<lambda>_.
       ret i)))))))"

definition is_hex_char :: "char \<Rightarrow> bool" where
  "is_hex_char c \<longleftrightarrow> c \<in> set ''0123456789abcdefABCDEF''"

definition pubkey_hex_pattern :: "string \<Rightarrow> bool" where
  "pubkey_hex_pattern k \<longleftrightarrow>
     length k = 66 \<and> k ! 0 = CHR ''0'' \<and> (k ! 1 = CHR ''2'' \<or> k ! 1 = CHR ''3'') \<and> list_all is_hex_char (drop 2 k)"

definition upsert_key :: "string \<Rightarrow> participant_key \<Rightarrow> settlement_state \<Rightarrow> settlement_state" where
  "upsert_key i k s =
     s\<lparr>participant_keys :=
        (if list_ex (\<lambda>(j, k'). j = i \<and> k_role k' = k_role k) (participant_keys s)
         then map (\<lambda>(j, k'). if j = i \<and> k_role k' = k_role k then (j, k) else (j, k')) (participant_keys s)
         else participant_keys s @ [(i, k)])\<rparr>"

definition keys_of :: "string \<Rightarrow> settlement_state \<Rightarrow> participant_key list" where
  "keys_of i s = map snd (filter (\<lambda>k. fst k = i) (participant_keys s))"

definition submitParticipantKey ::
    "settle_env \<Rightarrow> string \<Rightarrow> string \<Rightarrow> string \<Rightarrow> string option \<Rightarrow> (escrow_row option \<times> bool \<times> bool) settle" where
  "submitParticipantKey env i participantId pubkey capabilityProfile =
     seqH (requireEscrow i) (\<lambda>escrow.
     seqH (guardH (er_type escrow \<in> set NON_CUSTODIAL_PROVIDERS)
             (EscrowError ''does not use client-submitted keys'')) (\<lambda>_.
     seqH (requireTrade (er_tradeId escrow)) (\<lambda>trade.
     seqH (if participantId = t_buyerId trade then ret buyer
           else if participantId = t_sellerId trade then ret seller
           else throw (ForbiddenError ''not a counterparty'')) (\<lambda>role.
     seqH (guardH (pubkey_hex_pattern pubkey) (EscrowError ''pubkey must be a compressed secp256k1 key'')) (\<lambda>_.
     seqH (liftH (assertKnownCapabilityProfile capabilityProfile)) (\<lambda>_.
     seqH (writeH (upsert_key i \<lparr>k_role = role, k_participantId = participantId, k_pubkey = pubkey,
                                  k_capabilityProfile = capabilityProfile\<rparr>)) (\<lambda>_.
     seqH (readH (keys_of i)) (\<lambda>keys.
       let buyerKey = find (\<lambda>k. k_role k = buyer) keys; sellerKey = find (\<lambda>k. k_role k = seller) keys in
       seqH (case (buyerKey, sellerKey) of
               (Some b, Some s) \<Rightarrow>
                 if (er_multisigAddr escrow = None \<or> er_multisigAddr escrow = Some []) \<and> \<not> s_mockEscrow env
                 then seqH (guardH (findCapabilityCommitBlocker (er_type escrow) (k_capabilityProfile b) (k_capabilityProfile s) = None)
                              (EscrowError ''every participant must declare a compatible capability profile'')) (\<lambda>_.
                      seqH (readH (\<lambda>st. pv_depositAddress env (er_type escrow) (er_tradeId escrow) (k_pubkey b) (k_pubkey s)
                                           (length (provider_calls st)))) (\<lambda>dep.
                      seqH (liftH dep) (\<lambda>(address, arbiterPubkeyHex, arbiterId).
                      seqH (updateMultisigAddr i address) (\<lambda>_.
                        case (arbiterPubkeyHex, arbiterId) of
                          (Some pk, Some aid) \<Rightarrow>
                            if pk \<noteq> [] \<and> aid \<noteq> []
                            then seqH (readH (\<lambda>st. list_ex (\<lambda>k. k_role k = arbiter) (keys_of i st))) (\<lambda>dup.
                                 seqH (guardH (\<not> dup) (DatabaseError ''P2002'')) (\<lambda>_.
                                   writeH (\<lambda>st. st\<lparr>participant_keys := participant_keys st @
                                     [(i, \<lparr>k_role = arbiter, k_participantId = aid, k_pubkey = pk, k_capabilityProfile = None\<rparr>)]\<rparr>)))
                            else ret ()
                        | _ \<Rightarrow> ret ()))))
                 else ret ()
             | _ \<Rightarrow> ret ()) (\<lambda>_.
       seqH (findEscrow i) (\<lambda>updated. ret (updated, buyerKey \<noteq> None, sellerKey \<noteq> None)))))))))))"

section \<open>Locking and payment\<close>

text \<open>
  The body of a \<^verbatim>\<open>try\<close> whose handler gives the claim back and throws the error again.
\<close>

definition tryOrRevert :: "string \<Rightarrow> EscrowStatus \<Rightarrow> EscrowStatus \<Rightarrow> 'a settle \<Rightarrow> 'a settle" where
  "tryOrRevert i claimed from m =
     catchH m (\<lambda>err. seqH (revertEscrowStatus i claimed from) (\<lambda>_. throw err))"

definition lock_evidence :: "string \<Rightarrow> lock_result \<Rightarrow> chain_evidence" where
  "lock_evidence i result = \<lparr>ev_escrowId = i, ev_kind = OBSERVED_CONFIRMED, ev_txid = Some (lr_txId result), ev_vout = lr_vout result,
     ev_amountSats = map_option round (lr_fundedAmount result), ev_observedAtHeight = lr_confirmedAtHeight result,
     ev_tipHeight = lr_tipHeight result\<rparr>"

definition lockFunds :: "settle_env \<Rightarrow> string \<Rightarrow> string \<Rightarrow> escrow_row option settle" where
  "lockFunds env i triggeredBy =
     seqH (requireEscrow i) (\<lambda>escrow.
     seqH (liftH (assertEscrowTransition (er_status escrow) FUNDS_LOCKED)) (\<lambda>_.
     seqH (requireTrade (er_tradeId escrow)) (\<lambda>trade.
     seqH (guardH (isPartyOrAgent triggeredBy (t_sellerId trade)) (ForbiddenError ''only the seller may lock escrow funds'')) (\<lambda>_.
     seqH (claimEscrowTransition env i (er_status escrow) FUNDS_LOCKED) (\<lambda>_.
     tryOrRevert i FUNDS_LOCKED (er_status escrow)
       (seqH (liftH (getSettlementProvider (s_isProduction env) (er_type escrow))) (\<lambda>provider.
        seqH (if er_type escrow \<in> set NON_CUSTODIAL_PROVIDERS then loadParticipantPubkeys i else ret (None, None, None)) (\<lambda>_.
        seqH (callProvider i LockCall (pv_lock env provider i escrow)) (\<lambda>result.
        seqH (readH clock) (\<lambda>now.
        seqH (updateLockResult i result now (now + er_timelockHours escrow * 3600 * 1000)) (\<lambda>_.
        seqH (findEscrow i) (\<lambda>updated.
        seqH (if lr_vout result \<noteq> None then recordFundingEvidence (lock_evidence i result) else ret ()) (\<lambda>_.
        seqH (emitEscrowTransition env i (er_tradeId escrow) CREATED FUNDS_LOCKED triggeredBy ''settlement.escrow.locked'' None) (\<lambda>_.
          ret updated))))))))))))))"

definition markPaymentSent :: "settle_env \<Rightarrow> string \<Rightarrow> string \<Rightarrow> escrow_row option settle" where
  "markPaymentSent env i triggeredBy =
     seqH (requireEscrow i) (\<lambda>escrow.
     seqH (liftH (assertEscrowTransition (er_status escrow) PAYMENT_PENDING)) (\<lambda>_.
     seqH (assertFundingNotUncertain i (er_type escrow)) (\<lambda>_.
     seqH (requireTrade (er_tradeId escrow)) (\<lambda>trade.
     seqH (guardH (isPartyOrAgent triggeredBy (t_buyerId trade)) (ForbiddenError ''only the buyer may confirm payment sent'')) (\<lambda>_.
     seqH (withEscrowFundingLock
             (seqH (isFundingUncertain i) (\<lambda>uncertain.
              seqH (guardH (\<not> uncertain) (EscrowError ''funding evidence became uncertain'')) (\<lambda>_.
                claimTransitionE i (er_status escrow) PAYMENT_PENDING)))) (\<lambda>claimedCount.
     seqH (guardH (claimedCount \<noteq> 0) (EscrowError ''already transitioned by a concurrent request'')) (\<lambda>_.
     seqH (findEscrow i) (\<lambda>updated.
     seqH (emitEscrowTransition env i (er_tradeId escrow) FUNDS_LOCKED PAYMENT_PENDING triggeredBy ''settlement.escrow.payment_pending'' None) (\<lambda>_.
       ret updated)))))))))"

section \<open>Release, dispute, refund, split\<close>

text \<open>The two-person control of a release that no dispute has decided.\<close>

definition checkDualApproval :: "settle_env \<Rightarrow> string \<Rightarrow> escrow_row \<Rightarrow> unit settle" where
  "checkDualApproval env i escrow =
     (if s_requireDualApproval env \<and> er_status escrow = PAYMENT_PENDING
      then seqH (hasDualApproval i) (\<lambda>dual.
             guardH dual (EscrowError ''Release blocked: both counterparties must approve''))
      else ret ())"

definition releaseFunds :: "settle_env \<Rightarrow> string \<Rightarrow> string option \<Rightarrow> string \<Rightarrow> escrow_row option settle" where
  "releaseFunds env i toAddress triggeredBy =
     seqH (loadEscrowWithAuthorization i triggeredBy) (\<lambda>(escrow, trade).
     seqH (liftH (assertEscrowTransition (er_status escrow) COMPLETED)) (\<lambda>_.
     seqH (resolvePayoutAddress toAddress (t_buyerId trade) (er_asset escrow)) (\<lambda>resolvedToAddress.
     seqH (checkFundMovementCapability env triggeredBy Released) (\<lambda>_.
     seqH (checkDualApproval env i escrow) (\<lambda>_.
     seqH (claimEscrowTransition env i (er_status escrow) COMPLETED) (\<lambda>_.
     tryOrRevert i COMPLETED (er_status escrow)
       (seqH (liftH (getSettlementProvider (s_isProduction env) (er_type escrow))) (\<lambda>provider.
        seqH (callProvider i (ReleaseCall resolvedToAddress) (pv_release env provider i escrow resolvedToAddress)) (\<lambda>txId.
        seqH (readH clock) (\<lambda>now.
        seqH (updateReleaseResult i txId now) (\<lambda>_.
        seqH (findEscrow i) (\<lambda>updated.
        seqH (recordObligationForEscrowSettlement env i escrow O_RELEASE None None) (\<lambda>_.
        seqH (emitEscrowTransition env i (er_tradeId escrow) (er_status escrow) COMPLETED triggeredBy ''settlement.escrow.released'' None) (\<lambda>_.
          ret updated))))))))))))))"

definition openDispute :: "settle_env \<Rightarrow> string \<Rightarrow> string \<Rightarrow> string \<Rightarrow> escrow_row option settle" where
  "openDispute env i triggeredBy reason =
     seqH (requireEscrow i) (\<lambda>escrow.
     seqH (liftH (assertEscrowTransition (er_status escrow) DISPUTED)) (\<lambda>_.
     seqH (requireTrade (er_tradeId escrow)) (\<lambda>trade.
     seqH (guardH (isPartyOrAgent triggeredBy (t_buyerId trade) \<or> isPartyOrAgent triggeredBy (t_sellerId trade))
             (ForbiddenError ''not a party to the trade'')) (\<lambda>_.
     seqH (claimEscrowTransition env i (er_status escrow) DISPUTED) (\<lambda>_.
     seqH (findEscrow i) (\<lambda>updated.
     seqH (emitEscrowTransition env i (er_tradeId escrow) (er_status escrow) DISPUTED triggeredBy ''settlement.escrow.disputed'' (Some reason)) (\<lambda>_.
       ret updated)))))))"

definition refundFunds :: "settle_env \<Rightarrow> string \<Rightarrow> string \<Rightarrow> escrow_row option settle" where
  "refundFunds env i triggeredBy =
     seqH (loadEscrowWithAuthorization i triggeredBy) (\<lambda>(escrow, trade).
     seqH (liftH (assertEscrowTransition (er_status escrow) REFUNDED)) (\<lambda>_.
     seqH (checkFundMovementCapability env triggeredBy Refunded) (\<lambda>_.
     seqH (claimEscrowTransition env i (er_status escrow) REFUNDED) (\<lambda>_.
     tryOrRevert i REFUNDED (er_status escrow)
       (seqH (liftH (getSettlementProvider (s_isProduction env) (er_type escrow))) (\<lambda>provider.
        seqH (callProvider i RefundCall (pv_refund env provider i escrow)) (\<lambda>txId.
        seqH (updateRefundResult i txId) (\<lambda>_.
        seqH (findEscrow i) (\<lambda>updated.
        seqH (recordObligationForEscrowSettlement env i escrow O_FULL_REFUND None None) (\<lambda>_.
        seqH (emitEscrowTransition env i (er_tradeId escrow) (er_status escrow) REFUNDED triggeredBy ''settlement.escrow.refunded'' None) (\<lambda>_.
          ret updated)))))))))))"

definition splitFunds ::
    "settle_env \<Rightarrow> string \<Rightarrow> string option \<Rightarrow> string option \<Rightarrow> rat \<Rightarrow> string \<Rightarrow> escrow_row option settle" where
  "splitFunds env i buyerAddress sellerAddress buyerBps triggeredBy =
     seqH (guardH (buyerBps > 0 \<and> buyerBps < 10000) (ValidationError ''buyerBps must be strictly between 0 and 10000'')) (\<lambda>_.
     seqH (loadEscrowWithAuthorization i triggeredBy) (\<lambda>(escrow, trade).
     seqH (liftH (assertEscrowTransition (er_status escrow) SPLIT)) (\<lambda>_.
     seqH (checkFundMovementCapability env triggeredBy SplitScope) (\<lambda>_.
     seqH (resolvePayoutAddress buyerAddress (t_buyerId trade) (er_asset escrow)) (\<lambda>ba.
     seqH (resolvePayoutAddress sellerAddress (t_sellerId trade) (er_asset escrow)) (\<lambda>sa.
     seqH (liftH (getSettlementProvider (s_isProduction env) (er_type escrow))) (\<lambda>provider.
     seqH (requireH (pv_split env provider) (EscrowError ''does not support a SPLIT settlement action'')) (\<lambda>doSplit.
     seqH (claimEscrowTransition env i (er_status escrow) SPLIT) (\<lambda>_.
     tryOrRevert i SPLIT (er_status escrow)
       (seqH (callProvider i (SplitCall ba sa buyerBps) (doSplit i escrow ba sa buyerBps)) (\<lambda>txIds.
        seqH (readH clock) (\<lambda>now.
        seqH (updateSplitResult i (join_with CHR '','' txIds) now) (\<lambda>_.
        seqH (findEscrow i) (\<lambda>updated.
        seqH (recordObligationForEscrowSettlement env i escrow O_SPLIT (Some buyerBps) None) (\<lambda>_.
        seqH (emitEscrowTransition env i (er_tradeId escrow) (er_status escrow) SPLIT triggeredBy ''settlement.escrow.split'' None) (\<lambda>_.
          ret updated))))))))))))))))"

section \<open>Expiry sweep\<close>

record sweep_report =
  sw_refunded :: "string list"
  sw_manual :: "string list"
  sw_failed :: "(string \<times> sails_error) list"

definition isSignatureCollectionType :: "EscrowType \<Rightarrow> bool" where
  "isSignatureCollectionType t \<longleftrightarrow> t \<in> set SIGNATURE_COLLECTION_PROVIDERS"

text \<open>One round of the first loop: an escrow whose funds need signatures to move.\<close>

definition expire_one :: "settle_env \<Rightarrow> int \<Rightarrow> string \<times> escrow_row \<Rightarrow> sweep_report \<Rightarrow> sweep_report settle" where
  "expire_one env now candidate rep =
     (let i = fst candidate; escrow = snd candidate in
      if \<not> isSignatureCollectionType (er_type escrow) then ret rep
      else case er_expiresAt escrow of
        None \<Rightarrow> ret (rep\<lparr>sw_failed := sw_failed rep @ [(i, GenericError ''has no expiresAt'')]\<rparr>)
      | Some deadline \<Rightarrow>
          catchH
            (seqH (liftH (expiry_verdict i deadline now)) (\<lambda>verdict.
               case verdict of
                 NOT_ELIGIBLE _ \<Rightarrow> ret rep
               | BINDING_MISMATCH _ \<Rightarrow> ret (rep\<lparr>sw_failed := sw_failed rep @ [(i, GenericError ''BINDING_MISMATCH'')]\<rparr>)
               | EVALUATION_FAILED \<Rightarrow> ret (rep\<lparr>sw_failed := sw_failed rep @ [(i, GenericError ''EVALUATION_FAILED'')]\<rparr>)
               | AUTHORIZED rec \<Rightarrow>
                   seqH (assertCircuitClosed i) (\<lambda>_.
                   seqH (guardH (EXPIRED \<in> set (VALID_TRANSITIONS FUNDS_LOCKED)) (EscrowError ''no longer a recognized transition'')) (\<lambda>_.
                   seqH (requireTrade (er_tradeId escrow)) (\<lambda>trade.
                   seqH (commitAuthoritativeEscrowTimelockExpiry env i FUNDS_LOCKED EXPIRED rec) (\<lambda>committed.
                     if \<not> committed then seqH (recordEscrowConflict env i) (\<lambda>_. ret rep)
                     else seqH (emitEscrowTransition env i (er_tradeId escrow) FUNDS_LOCKED EXPIRED ''system:expiry-sweeper''
                                  ''settlement.escrow.expired'' (Some ''Timelock expired with no cooperative resolution'')) (\<lambda>_.
                          ret (rep\<lparr>sw_manual := sw_manual rep @ [i]\<rparr>))))))))
            (\<lambda>err. ret (rep\<lparr>sw_failed := sw_failed rep @ [(i, err)]\<rparr>)))"

text \<open>
  One round of the second loop: an automatic refund on behalf of the seller. The shadow
  comparison only logs.
\<close>

definition refund_one :: "settle_env \<Rightarrow> string \<times> escrow_row \<Rightarrow> sweep_report \<Rightarrow> sweep_report settle" where
  "refund_one env candidate rep =
     (let i = fst candidate; escrow = snd candidate in
      if isSignatureCollectionType (er_type escrow) then ret rep
      else catchH
        (seqH (requireTrade (er_tradeId escrow)) (\<lambda>trade.
         seqH (refundFunds env i (t_sellerId trade)) (\<lambda>_.
           ret (rep\<lparr>sw_refunded := sw_refunded rep @ [i]\<rparr>))))
        (\<lambda>err. ret (rep\<lparr>sw_failed := sw_failed rep @ [(i, err)]\<rparr>)))"

fun loopH :: "('x \<Rightarrow> 'r \<Rightarrow> 'r settle) \<Rightarrow> 'x list \<Rightarrow> 'r \<Rightarrow> 'r settle" where
  "loopH f [] rep = ret rep"
| "loopH f (x # xs) rep = seqH (f x rep) (loopH f xs)"

definition sweepExpiredEscrows :: "settle_env \<Rightarrow> sweep_report settle" where
  "sweepExpiredEscrows env =
     seqH (readH clock) (\<lambda>now.
     seqH (findFundsLockedExpiryCandidates now SIGNATURE_COLLECTION_PROVIDERS) (\<lambda>expiryCandidates.
     seqH (loopH (expire_one env now) expiryCandidates \<lparr>sw_refunded = [], sw_manual = [], sw_failed = []\<rparr>) (\<lambda>rep.
     seqH (findExpiredFundsLocked now) (\<lambda>expired.
       loopH (refund_one env) expired rep))))"

end
