(* ===== verification/Escrow_Invariants.thy ===== *)
theory Escrow_Invariants
  imports Escrow_Service
begin

text \<open>
  Invariants that hold across every operation of the escrow service. The locale
  \<open>bookkeeping_client\<close> states what an invariant has to tolerate of the bookkeeping, and
  \<open>event_log_client\<close> extends it to invariants that do not depend on the escrow rows; inside it
  every operation is shown to preserve them. It is interpreted for the hash-chained event log and
  for the tables of other modules.
\<close>

section \<open>Sequences of requests\<close>

text \<open>
  A request is one of the service's operations, with the clock it sees and what the database
  does to its fallible writes.
\<close>

datatype escrow_op =
    OpCreateEscrow CreateEscrowInput string
  | OpSubmitKey string string string "string option"
  | OpLock string string
  | OpMarkPaid string string
  | OpRelease string "string option" string
  | OpDispute string string string
  | OpRefund string string
  | OpSplit string "string option" "string option" rat string
  | OpSweep

definition run_escrow_op :: "settle_env \<Rightarrow> settlement_state \<Rightarrow> int \<times> bool list \<times> escrow_op \<Rightarrow> settlement_state" where
  "run_escrow_op env s req =
     (let s' = s\<lparr>clock := fst req, faults := fst (snd req)\<rparr> in
      case snd (snd req) of
        OpCreateEscrow input who \<Rightarrow> snd (createEscrow env input who s')
      | OpSubmitKey i who pk prof \<Rightarrow> snd (submitParticipantKey env i who pk prof s')
      | OpLock i who \<Rightarrow> snd (lockFunds env i who s')
      | OpMarkPaid i who \<Rightarrow> snd (markPaymentSent env i who s')
      | OpRelease i addr who \<Rightarrow> snd (releaseFunds env i addr who s')
      | OpDispute i who reason \<Rightarrow> snd (openDispute env i who reason s')
      | OpRefund i who \<Rightarrow> snd (refundFunds env i who s')
      | OpSplit i ba sa bps who \<Rightarrow> snd (splitFunds env i ba sa bps who s')
      | OpSweep \<Rightarrow> snd (sweepExpiredEscrows env s'))"

section \<open>Invariants that bookkeeping cannot break\<close>

text \<open>
  The contract of an invariant against everything an operation does besides moving an
  escrow: the breaker's counters, the fee obligations, the event log, the funding evidence.
\<close>

locale bookkeeping_client = write_invariant I for I :: "settlement_state \<Rightarrow> bool" +
  fixes env :: settle_env
  assumes inv_breaker: "I s \<Longrightarrow> I (s\<lparr>failures := ws, openCircuits := oc\<rparr>)"
    and inv_obligations: "I s \<Longrightarrow> obligation_frame s s' \<Longrightarrow> I s'"
    and inv_log: "I s \<Longrightarrow> \<not> already_emitted i to s \<Longrightarrow> I (log_event env i from to who note s)"
begin

lemma preserves_emit: "preserves I (emitEscrowTransition env i tid from to who ev note)"
proof -
  have "wpH (emitEscrowTransition env i tid from to who ev note) (\<lambda>_. I) (\<lambda>_. I) s" if "I s" for s
  proof -
    have "I (log_event env i from to who note (s\<lparr>faults := fs\<rparr>))" if "\<not> already_emitted i to s" for fs
      by (rule inv_log [OF inv_faults [OF \<open>I s\<close>]]) (use that in \<open>simp add: already_emitted_def escrow_rows_def\<close>)
    moreover have "I (log_event env i from to who note s)" if "\<not> already_emitted i to s"
      using inv_log [OF \<open>I s\<close> that] .
    ultimately show ?thesis
      using \<open>I s\<close> by (simp add: wp_eqs publish_event_def inv_faults inv_bus split: list.split bool.split)
  qed
  then show ?thesis by (simp add: preserves_def wpH_snd)
qed

lemma preserves_conflict: "preserves I (recordEscrowConflict env i)"
proof -
  have "I (conflict_recorded env i s)" if "I s" for s
    using that by (simp add: conflict_recorded_def Let_def case_prod_beta inv_breaker)
  then have "wpH (recordEscrowConflict env i) (\<lambda>_. I) (\<lambda>_. I) s" if "I s" for s
    using that by (simp add: wp_eqs)
  then show ?thesis by (simp add: preserves_def wpH_snd)
qed

lemma preserves_record: "preserves I (recordObligationForEscrowSettlement env i r oc b ac)"
  using record_frame inv_obligations by (auto simp: preserves_def)

lemma preserves_checkCapability: "preserves I (checkCapability d w n r)"
  by (simp add: preserves_def checkCapability_result)

lemmas book_rules = preserves_intros preserves_base preserves_emit preserves_conflict preserves_record
  preserves_checkCapability

lemma preserves_guards:
  "preserves I (loadEscrowWithAuthorization i who)" "preserves I (checkFundMovementCapability env who sc)"
  "preserves I (assertFundingNotUncertain i ty)" "preserves I (resolvePayoutAddress a who asset)"
  "preserves I (hasDualApproval i)" "preserves I (loadParticipantPubkeys i)" "preserves I (assertCircuitClosed i)"
  unfolding loadEscrowWithAuthorization_def checkFundMovementCapability_def assertFundingNotUncertain_def
    resolvePayoutAddress_def hasDualApproval_def getReleaseApprovals_def loadParticipantPubkeys_def
    assertDisputedDispositionAuthority_def isSellerOrAssignedArbiter_def assertCircuitClosed_def
  by (intro book_rules)+

end

text \<open>The same against the provider calls as well.\<close>

locale mover_client = bookkeeping_client I env + settlement_invariant I
  for I :: "settlement_state \<Rightarrow> bool" and env :: settle_env
begin

lemmas mover_rules = book_rules preserves_callProvider

end

section \<open>Invariants that do not depend on the escrow rows\<close>

locale event_log_client = mover_client I env for I :: "settlement_state \<Rightarrow> bool" and env :: settle_env +
  assumes inv_escrows: "I s \<Longrightarrow> I (s\<lparr>escrows := e\<rparr>)"
    and inv_insert: "I s \<Longrightarrow> I (s\<lparr>escrows := e, escrow_ids := ids, trade_escrow := te, draws := d\<rparr>)"
    and inv_evidence: "I s \<Longrightarrow> I (s\<lparr>funding_evidence := funding_evidence s @ [lock_evidence i res]\<rparr>)"
    and inv_keys: "I s \<Longrightarrow> I (s\<lparr>participant_keys := ks\<rparr>)"
    and inv_clock: "I s \<Longrightarrow> I (s\<lparr>clock := c\<rparr>)"
    and inv_records: "I s \<Longrightarrow> I (s\<lparr>semantic_records := rs\<rparr>)"
begin

lemma inv_set_escrow: "I s \<Longrightarrow> I (set_escrow i f s)"
  by (simp add: set_escrow_def inv_escrows)

lemma inv_claim: "I s \<Longrightarrow> I (snd (claimEscrowStatus i f t s))"
  by (simp add: claimEscrowStatus_def inv_escrows split: option.split)

lemma preserves_claim: "preserves I (claimTransitionE i f t)"
  by (simp add: preserves_def claimTransitionE_def inv_claim case_prod_beta)

lemmas step_rules = mover_rules preserves_claim

lemma preserves_claimEscrowTransition: "preserves I (claimEscrowTransition env i f t)"
  unfolding claimEscrowTransition_def assertCircuitClosed_def by (intro step_rules)

lemma preserves_revert: "preserves I (revertEscrowStatus i f t)"
  unfolding revertEscrowStatus_def revertStatus_def by (intro step_rules inv_claim)

lemma preserves_updates:
  "preserves I (updateLockResult i res now e)" "preserves I (updateReleaseResult i tx now)"
  "preserves I (updateRefundResult i tx)" "preserves I (updateSplitResult i tx now)"
  "preserves I (updateMultisigAddr i addr)" "preserves I (recordFundingEvidence (lock_evidence j lr))"
  unfolding updateLockResult_def updateReleaseResult_def updateRefundResult_def updateSplitResult_def
    updateMultisigAddr_def recordFundingEvidence_def
  by (intro step_rules inv_set_escrow inv_evidence; assumption)+

lemma preserves_tryOrRevert: "preserves I m \<Longrightarrow> preserves I (tryOrRevert i f t m)"
  unfolding tryOrRevert_def by (intro step_rules preserves_revert)

lemmas op_rules = step_rules preserves_claimEscrowTransition preserves_revert preserves_guards preserves_updates
  preserves_tryOrRevert

lemma preserves_lockFunds: "preserves I (lockFunds env i who)"
  unfolding lockFunds_def by (intro op_rules)

lemma preserves_markPaymentSent: "preserves I (markPaymentSent env i who)"
  unfolding markPaymentSent_def withEscrowFundingLock_def by (intro op_rules)

lemma preserves_releaseFunds: "preserves I (releaseFunds env i addr who)"
  unfolding releaseFunds_def checkDualApproval_def by (intro op_rules)

lemma preserves_openDispute: "preserves I (openDispute env i who reason)"
  unfolding openDispute_def by (intro op_rules)

lemma preserves_refundFunds: "preserves I (refundFunds env i who)"
  unfolding refundFunds_def by (intro op_rules)

lemma preserves_splitFunds: "preserves I (splitFunds env i ba sa bps who)"
  unfolding splitFunds_def by (intro op_rules)

lemma preserves_snapshot: "preserves I (computeSnapshotFields env rail amount)"
proof -
  have live: "preserves I (findLivePolicyForRail rail)"
    by (auto simp: preserves_def findLivePolicyForRail_def findPublishedForRail_def seqH_def readH_def ret_def
        throw_def split: list.split)
  show ?thesis
    unfolding computeSnapshotFields_def Let_def by (intro op_rules live)
qed

lemma preserves_createEscrow: "preserves I (createEscrow env input who)"
  unfolding createEscrow_def createEscrowRow_def
  by (intro op_rules preserves_snapshot inv_insert inv_bus; assumption)

lemma preserves_submitParticipantKey: "preserves I (submitParticipantKey env i who pk prof)"
  unfolding submitParticipantKey_def Let_def upsert_key_def
  by (intro op_rules inv_keys; assumption)

lemma preserves_commit: "preserves I (commitAuthoritativeEscrowTimelockExpiry env i f t rec)"
  unfolding commitAuthoritativeEscrowTimelockExpiry_def createSemanticRecord_def
  by (intro op_rules inv_records; assumption)

lemma preserves_verdict:
  assumes "\<And>rec. preserves I (f rec)" and "\<And>c. preserves I (g c)" and "\<And>r. preserves I (h r)" and "preserves I k"
  shows "preserves I (case v of NOT_ELIGIBLE c \<Rightarrow> g c | BINDING_MISMATCH r \<Rightarrow> h r | EVALUATION_FAILED \<Rightarrow> k | AUTHORIZED rec \<Rightarrow> f rec)"
  using assms by (cases v) auto

lemma preserves_loopH: "(\<And>x rep. preserves I (f x rep)) \<Longrightarrow> preserves I (loopH f xs rep)"
  by (induction xs arbitrary: rep) (auto intro!: preserves_ret preserves_seqH)

lemma preserves_sweep: "preserves I (sweepExpiredEscrows env)"
proof -
  have "preserves I (expire_one env now c rep)" for now c rep
    unfolding expire_one_def Let_def by (intro op_rules preserves_verdict preserves_commit)
  moreover have "preserves I (refund_one env c rep)" for c rep
    unfolding refund_one_def Let_def by (intro op_rules preserves_refundFunds)
  ultimately show ?thesis
    unfolding sweepExpiredEscrows_def by (intro op_rules preserves_loopH)
qed

lemma run_op: "I s \<Longrightarrow> I (run_escrow_op env s req)"
proof -
  assume "I s"
  then have "I (s\<lparr>clock := fst req, faults := fst (snd req)\<rparr>)" using inv_clock inv_faults by simp
  then show ?thesis
    by (simp add: run_escrow_op_def Let_def preservesD preserves_createEscrow preserves_submitParticipantKey
        preserves_lockFunds preserves_markPaymentSent preserves_releaseFunds preserves_openDispute
        preserves_refundFunds preserves_splitFunds preserves_sweep split: escrow_op.split)
qed

lemma run_ops: "I s \<Longrightarrow> I (foldl (run_escrow_op env) s reqs)"
  by (induction reqs arbitrary: s) (simp_all add: run_op)

end

section \<open>The event log\<close>

definition escrow_log_ok :: "(string \<Rightarrow> string) \<Rightarrow> settlement_state \<Rightarrow> bool" where
  "escrow_log_ok sha s \<longleftrightarrow>
     (\<forall>i. escrow_chain.migrated (escrow_rows i s) \<and> escrow_chain.chain_ok sha ''genesis'' (escrow_rows i s)
          \<and> distinct (map (ee_to \<circ> body) (escrow_rows i s)))"

lemma escrow_rows_log:
  "escrow_rows j (log_event env i from to who note s) =
     escrow_rows j s @ (if j = i then [escrow_chain.appended (s_sha256 env)
        \<lparr>ee_from = from, ee_to = to, ee_triggeredBy = who\<rparr> (escrow_rows i s)] else [])"
  by (simp add: escrow_rows_def log_event_def)

lemma escrow_log_ok_log:
  assumes ok: "escrow_log_ok (s_sha256 env) s" and new: "\<not> already_emitted i to s"
  shows "escrow_log_ok (s_sha256 env) (log_event env i from to who note s)"
proof -
  let ?b = "\<lparr>ee_from = from, ee_to = to, ee_triggeredBy = who\<rparr>"
  have row: "escrow_chain.migrated (escrow_rows i s)" "escrow_chain.chain_ok (s_sha256 env) ''genesis'' (escrow_rows i s)"
    "distinct (map (ee_to \<circ> body) (escrow_rows i s))"
    using ok by (auto simp: escrow_log_ok_def)
  have "to \<notin> (ee_to \<circ> body) ` set (escrow_rows i s)"
    using new by (auto simp: already_emitted_def list_ex_iff)
  then have "distinct (map (ee_to \<circ> body) (escrow_rows i s @ [escrow_chain.appended (s_sha256 env) ?b (escrow_rows i s)]))"
    using row(3) by (simp add: escrow_chain.appended_def Let_def)
  with ok escrow_chain.append_keeps_log [OF row(1,2), of ?b] show ?thesis
    by (simp add: escrow_log_ok_def escrow_rows_log)
qed

lemma escrow_log_ok_events: "escrow_events s' = escrow_events s \<Longrightarrow> escrow_log_ok sha s \<Longrightarrow> escrow_log_ok sha s'"
  by (simp add: escrow_log_ok_def escrow_rows_def)

interpretation escrow_log: event_log_client "escrow_log_ok (s_sha256 env)" env for env
proof unfold_locales
  fix s s' assume "escrow_log_ok (s_sha256 env) s" "obligation_frame s s'"
  then show "escrow_log_ok (s_sha256 env) s'"
    by (metis escrow_log_ok_events obligation_frame_fields(5))
qed (erule escrow_log_ok_log, assumption | erule escrow_log_ok_events [rotated], simp)+

section \<open>What the service does not write\<close>

text \<open>The tables of the other modules, which the settlement module may only read.\<close>

definition foreign_tables ::
    "settlement_state \<Rightarrow> (string \<rightharpoonup> trade_row) \<times> dispute_assignment list \<times> CapabilityGrant list
       \<times> fee_policy_row list \<times> (string \<times> AssetType \<rightharpoonup> string) \<times> (string \<times> string) list" where
  "foreign_tables s = (trades s, disputes s, grants s, fee_policies s, payout_addresses s, release_approvals s)"

interpretation foreign: event_log_client "\<lambda>s. foreign_tables s = ft" env for ft env
proof unfold_locales
  fix s s' assume "foreign_tables s = ft" "obligation_frame s s'"
  then show "foreign_tables s' = ft"
    by (simp add: foreign_tables_def obligation_frame_fields)
qed (simp_all add: foreign_tables_def log_event_def)

section \<open>Properties\<close>

text \<open>
  C4: the settlement log is chained and repeats nothing. After any sequence of service operations,
  whatever the providers answer and wherever the database fails, the event rows of every
  escrow form a hash chain that the verifier accepts, and no status is entered twice in it.
\<close>

theorem escrow_log_verifies:
  assumes "escrow_log_ok (s_sha256 env) s"
  shows "verifyEscrowEventChain env i (foldl (run_escrow_op env) s reqs)
           = (Inr ChainValid, foldl (run_escrow_op env) s reqs)
       \<and> distinct (map (ee_to \<circ> body) (escrow_rows i (foldl (run_escrow_op env) s reqs)))"
proof -
  let ?t = "foldl (run_escrow_op env) s reqs"
  have "escrow_log_ok (s_sha256 env) ?t" using assms by (rule escrow_log.run_ops)
  then have "escrow_chain.chain_ok (s_sha256 env) ''genesis'' (escrow_rows i ?t)"
    and "distinct (map (ee_to \<circ> body) (escrow_rows i ?t))"
    by (auto simp: escrow_log_ok_def)
  then show ?thesis
    by (simp add: verifyEscrowEventChain_def readH_def verify_chain_ok)
qed

theorem escrow_log_verifies_witness:
  "fst (verifyEscrowEventChain demo_senv ''e'' (foldl (run_escrow_op demo_senv)
     (demo_settlement (Some (demo_escrow CREATED))) [(1, [], OpLock ''e'' ''alice'')])) = Inr ChainValid"
  using escrow_log_verifies [of demo_senv "demo_settlement (Some (demo_escrow CREATED))" "''e''"
      "[(1, [], OpLock ''e'' ''alice'')]"]
  by (simp add: escrow_log_ok_def escrow_rows_def demo_settlement_def escrow_chain.migrated_def)

text \<open>
  The service stays inside its module. No operation writes the trades, the disputes, the
  capability grants, the fee policies, the registered payout addresses or the release
  approvals, on any path and under any failure.
\<close>

theorem settlement_never_writes_foreign_tables:
  "foreign_tables (foldl (run_escrow_op env) s reqs) = foreign_tables s"
  by (rule foreign.run_ops) simp

end
