(* ===== verification/Escrow_Payout.thy ===== *)
theory Escrow_Payout
  imports Escrow_Invariants
begin

text \<open>
  What the fund-moving operations do: who may call them, that a refused call leaves no trace,
  that an accepted one calls the provider exactly once, what is stored when it succeeds and
  what is given back when it fails.
\<close>

section \<open>A database that works\<close>

lemma no_faults_dbWrite: "(\<And>s. faults (f s) = faults s) \<Longrightarrow> preserves (\<lambda>s. faults s = []) (dbWrite tag f)"
  by (simp add: preserves_def dbWrite_def)

lemma no_faults_record:
  "preserves (\<lambda>s. faults s = []) (recordObligationForEscrowSettlement env i r oc b ac)"
proof -
  have ins: "preserves (\<lambda>s. faults s = []) (insertObligation env row)" for row
    unfolding insertObligation_def by (intro preserves_intros no_faults_dbWrite) simp
  have create: "preserves (\<lambda>s. faults s = []) (createObligationForSettlement env inp)" for inp
    unfolding createObligationForSettlement_def createOwed_def createNotApplicable_def
    by (intro preserves_intros ins)
  have claim: "preserves (\<lambda>s. faults s = []) (claimCollectionStatusTransition oid f t)" for oid f t
    by (simp add: preserves_def claimCollectionStatusTransition_def claimCollectionStatus_def split: option.split)
  show ?thesis
    unfolding recordObligationForEscrowSettlement_def transitionCollectionStatus_def findPolicy_def Let_def
    by (intro preserves_intros create claim)
qed

lemma dbWrite_no_faults: "faults s = [] \<Longrightarrow> wpH (dbWrite tag f) Q E s = Q () (f s)"
  by (simp add: wp_dbWrite)

section \<open>The tail of a payout\<close>

text \<open>
  The end of a successful payout: the row is stored, the obligation recorded, and the
  transition logged and published unless it has been before.
\<close>

definition settled ::
    "settle_env \<Rightarrow> string \<Rightarrow> escrow_row \<Rightarrow> escrow_row \<Rightarrow> provider_action \<Rightarrow> SettlementOutcome \<Rightarrow> rat option
       \<Rightarrow> EscrowStatus \<Rightarrow> string \<Rightarrow> string \<Rightarrow> settlement_state \<Rightarrow> settlement_state" where
  "settled env i r r' act oc b to who ev s =
     (let s1 = s\<lparr>escrows := (escrows s)(i \<mapsto> r'), provider_calls := provider_calls s @ [(i, act, True)]\<rparr>;
          s2 = snd (recordObligationForEscrowSettlement env i r oc b None s1)
      in if already_emitted i to s2 then s2
         else publish_event ev (er_tradeId r) (log_event env i (er_status r) to who None s2))"

definition payout_failed :: "string \<Rightarrow> provider_action \<Rightarrow> settlement_state \<Rightarrow> settlement_state" where
  "payout_failed i act s = s\<lparr>provider_calls := provider_calls s @ [(i, act, False)]\<rparr>"

lemma set_status_fields [simp]:
  "faults (set_status i r st s) = faults s" "provider_calls (set_status i r st s) = provider_calls s"
  "clock (set_status i r st s) = clock s" "escrows (set_status i r st s) = (escrows s)(i \<mapsto> r\<lparr>er_status := st\<rparr>)"
  by (simp_all add: set_status_def)

lemma revert_no_faults:
  assumes "escrows s i = Some r" and "faults s = []"
  shows "wpH (revertEscrowStatus i to (er_status r)) Q E
           (set_status i r to s\<lparr>provider_calls := cs\<rparr>) = Q () (s\<lparr>provider_calls := cs\<rparr>)"
  using assms by (simp add: wp_eqs claimEscrowStatus_def set_status_def fun_upd_idem)

lemma emit_no_faults:
  assumes "faults s = []"
  shows "wpH (emitEscrowTransition env i tid from to who ev note) Q E s =
    (if already_emitted i to s then Q False s
     else Q True (publish_event ev tid (log_event env i from to who note s)))"
  using assms by (simp add: wp_emitEscrowTransition dbWrite_no_faults log_event_def)

text \<open>
  The tail shared by release, refund and split, from the claimed state to the end, when the
  database works.
\<close>

lemma payout_tail:
  assumes r: "escrows s i = Some r" and nf: "faults s = []"
    and upd: "\<And>x t. upd x t = dbWrite tag (set_escrow i (g x t))"
  shows "wpH (tryOrRevert i to (er_status r)
      (seqH (callProvider i act f) (\<lambda>x.
       seqH (readH clock) (\<lambda>t.
       seqH (upd x t) (\<lambda>_.
       seqH (findEscrow i) (\<lambda>u.
       seqH (recordObligationForEscrowSettlement env i r oc b None) (\<lambda>_.
       seqH (emitEscrowTransition env i (er_tradeId r) (er_status r) to who ev None) (\<lambda>_. ret u)))))))) Q E (set_status i r to s) =
    (case f (length (provider_calls s)) of
       Inl e \<Rightarrow> E e (payout_failed i act s)
     | Inr x \<Rightarrow> let r' = g x (clock s) (r\<lparr>er_status := to\<rparr>)
                in Q (Some r') (settled env i r r' act oc b to who ev s))"
proof (cases "f (length (provider_calls s))")
  case (Inl e)
  then show ?thesis
    using revert_no_faults [OF r nf, of to _ _ "provider_calls s @ [(i, act, False)]"]
    by (simp add: tryOrRevert_def wp_seqH wp_catchH wp_callProvider wp_throw payout_failed_def)
next
  case (Inr x)
  let ?r' = "g x (clock s) (r\<lparr>er_status := to\<rparr>)"
  let ?s1 = "s\<lparr>escrows := (escrows s)(i \<mapsto> ?r'), provider_calls := provider_calls s @ [(i, act, True)]\<rparr>"
  have s1: "set_escrow i (g x (clock s)) ((set_status i r to s)\<lparr>provider_calls := provider_calls s @ [(i, act, True)]\<rparr>) = ?s1"
    by (simp add: set_escrow_def set_status_def)
  have nf2: "faults (snd (recordObligationForEscrowSettlement env i r oc b None ?s1)) = []"
    using preservesD [OF no_faults_record, of ?s1] nf by simp
  show ?thesis
    using Inr nf s1 nf2
    by (simp add: tryOrRevert_def wp_seqH wp_catchH wp_callProvider wp_readH wp_findEscrow wp_record wp_ret
        upd dbWrite_no_faults emit_no_faults settled_def Let_def)
qed

section \<open>Guards\<close>

definition payout_ready :: "settle_env \<Rightarrow> string \<Rightarrow> FundScope \<Rightarrow> EscrowStatus \<Rightarrow> string \<Rightarrow> settlement_state \<Rightarrow> bool" where
  "payout_ready env i sc to who s \<longleftrightarrow>
     (\<exists>r t. escrows s i = Some r \<and> trades s (er_tradeId r) = Some t \<and> may_dispose r t who s
        \<and> to \<in> set (VALID_TRANSITIONS (er_status r)) \<and> capability_ok env who sc s \<and> \<not> circuit_open i s)"

definition payout_address :: "string option \<Rightarrow> string \<Rightarrow> AssetType \<Rightarrow> settlement_state \<Rightarrow> string option" where
  "payout_address explicit who asset s =
     (case (if explicit = Some [] then None else explicit) of
        Some a \<Rightarrow> Some a | None \<Rightarrow> payout_addresses s (who, asset))"

lemma wp_payout_address:
  "wpH (resolvePayoutAddress a who asset) Q E s =
     (case payout_address a who asset s of
        None \<Rightarrow> E (EscrowError ''No payout address provided and none is registered'') s | Some x \<Rightarrow> Q x s)"
  by (simp add: wp_resolvePayoutAddress payout_address_def split: option.split)

definition approved_by_both :: "settle_env \<Rightarrow> string \<Rightarrow> escrow_row \<Rightarrow> settlement_state \<Rightarrow> bool" where
  "approved_by_both env i r s \<longleftrightarrow>
     (s_requireDualApproval env \<and> er_status r = PAYMENT_PENDING
        \<longrightarrow> 2 \<le> length (filter (\<lambda>a. fst a = i) (release_approvals s)))"

lemma wp_dual:
  "wpH (checkDualApproval env i r) Q E s =
   (if approved_by_both env i r s then Q () s else E (EscrowError ''Release blocked: both counterparties must approve'') s)"
  by (simp add: checkDualApproval_def wp_eqs hasDualApproval_def getReleaseApprovals_def approved_by_both_def)

lemma wp_assertEscrowTransition:
  "wpH (liftH (assertEscrowTransition a b)) Q E s =
     (if b \<in> set (VALID_TRANSITIONS a) then Q () s else E (EscrowError ''Invalid escrow transition'') s)"
  by (simp add: wp_liftH assertEscrowTransition_def)

lemmas guard_wps = wp_seqH wp_loadEscrowWithAuthorization wp_assertEscrowTransition wp_payout_address
  wp_checkFundMovementCapability wp_dual wp_guardH wp_requireH wp_claimEscrowTransition

lemma throws_unchanged: "wpH m (\<lambda>_ _. False) (\<lambda>_ t. t = s) s \<Longrightarrow> \<exists>e. m s = (Inl e, s)"
  by (auto simp: wpH_def split: prod.splits sum.splits)

definition releasable :: "settle_env \<Rightarrow> string \<Rightarrow> string option \<Rightarrow> string \<Rightarrow> settlement_state \<Rightarrow> bool" where
  "releasable env i addr who s \<longleftrightarrow>
     payout_ready env i Released COMPLETED who s
     \<and> (\<exists>r t. escrows s i = Some r \<and> trades s (er_tradeId r) = Some t
          \<and> payout_address addr (t_buyerId t) (er_asset r) s \<noteq> None \<and> approved_by_both env i r s)"

lemma release_refused:
  assumes "\<not> releasable env i addr who s"
  shows "\<exists>e. releaseFunds env i addr who s = (Inl e, s)"
proof (rule throws_unchanged)
  show "wpH (releaseFunds env i addr who) (\<lambda>_ _. False) (\<lambda>_ t. t = s) s"
    using assms by (auto simp: releaseFunds_def guard_wps releasable_def payout_ready_def split: option.split)
qed

lemma refund_refused:
  assumes "\<not> payout_ready env i Refunded REFUNDED who s"
  shows "\<exists>e. refundFunds env i who s = (Inl e, s)"
proof (rule throws_unchanged)
  show "wpH (refundFunds env i who) (\<lambda>_ _. False) (\<lambda>_ t. t = s) s"
    using assms by (auto simp: refundFunds_def guard_wps payout_ready_def split: option.split)
qed

definition splittable :: "settle_env \<Rightarrow> string \<Rightarrow> string option \<Rightarrow> string option \<Rightarrow> rat \<Rightarrow> string \<Rightarrow> settlement_state \<Rightarrow> bool" where
  "splittable env i ba sa bps who s \<longleftrightarrow>
     0 < bps \<and> bps < 10000 \<and> payout_ready env i SplitScope SPLIT who s
     \<and> (\<exists>r t p. escrows s i = Some r \<and> trades s (er_tradeId r) = Some t
          \<and> payout_address ba (t_buyerId t) (er_asset r) s \<noteq> None
          \<and> payout_address sa (t_sellerId t) (er_asset r) s \<noteq> None
          \<and> getSettlementProvider (s_isProduction env) (er_type r) = Inr p \<and> pv_split env p \<noteq> None)"

lemma split_refused:
  assumes "\<not> splittable env i ba sa bps who s"
  shows "\<exists>e. splitFunds env i ba sa bps who s = (Inl e, s)"
proof (rule throws_unchanged)
  show "wpH (splitFunds env i ba sa bps who) (\<lambda>_ _. False) (\<lambda>_ t. t = s) s"
    using assms
    by (auto simp: splitFunds_def guard_wps wp_liftH splittable_def payout_ready_def split: option.split sum.split)
qed

section \<open>Outcomes\<close>

lemma seqH_read_const: "seqH (readH f) (\<lambda>_. m) = m"
  by (simp add: seqH_def readH_def)

lemma settled_fields:
  "escrows (settled env i r r' act oc b to who ev s) = (escrows s)(i \<mapsto> r')"
  "provider_calls (settled env i r r' act oc b to who ev s) = provider_calls s @ [(i, act, True)]"
  "already_emitted i to (settled env i r r' act oc b to who ev s)"
  using obligation_frame_fields [OF record_frame [of
        "s\<lparr>escrows := (escrows s)(i \<mapsto> r'), provider_calls := provider_calls s @ [(i, act, True)]\<rparr>" env i r oc b None]]
  by (simp_all add: settled_def Let_def publish_event_def log_event_def already_emitted_def escrow_rows_def
      escrow_chain.appended_def)

lemma run_wp: "wpH m (\<lambda>a t. (Inr a, t) = x) (\<lambda>e t. (Inl e, t) = x) s \<Longrightarrow> m s = x"
  by (simp add: wpH_def split: prod.splits sum.splits)

lemma release_runs:
  assumes "faults s = []" and "escrows s i = Some r" and "trades s (er_tradeId r) = Some t"
    and "releasable env i addr who s" and "payout_address addr (t_buyerId t) (er_asset r) s = Some a"
    and "getSettlementProvider (s_isProduction env) (er_type r) = Inr p"
  shows "releaseFunds env i addr who s =
    (case pv_release env p i r a (length (provider_calls s)) of
       Inl e \<Rightarrow> (Inl e, payout_failed i (ReleaseCall a) s)
     | Inr tx \<Rightarrow> let r' = r\<lparr>er_status := COMPLETED, er_txReleaseId := Some tx, er_releasedAt := Some (clock s), er_feeCharged := None\<rparr>
                 in (Inr (Some r'), settled env i r r' (ReleaseCall a) O_RELEASE None COMPLETED who ''settlement.escrow.released'' s))"
proof (rule run_wp, goal_cases)
  case 1
  note tail = payout_tail [OF assms(2,1), where upd = "updateReleaseResult i" and tag = "''updateReleaseResult''"
      and g = "\<lambda>tx now r. r\<lparr>er_txReleaseId := Some tx, er_releasedAt := Some now, er_feeCharged := None\<rparr>", OF updateReleaseResult_def]
  have skip: "tryOrRevert i COMPLETED st (seqH (liftH (Inr p)) m) = tryOrRevert i COMPLETED st (m p)" for st m
    by (simp add: seqH_def liftH_def)
  show ?case
    unfolding releaseFunds_def
    using assms(2-6)
    by (auto simp: guard_wps releasable_def payout_ready_def assms(6) skip tail Let_def split: sum.split)
qed

lemma refund_runs:
  assumes "faults s = []" and "escrows s i = Some r"
    and "payout_ready env i Refunded REFUNDED who s"
    and "getSettlementProvider (s_isProduction env) (er_type r) = Inr p"
  shows "refundFunds env i who s =
    (case pv_refund env p i r (length (provider_calls s)) of
       Inl e \<Rightarrow> (Inl e, payout_failed i RefundCall s)
     | Inr tx \<Rightarrow> let r' = r\<lparr>er_status := REFUNDED, er_txReleaseId := Some tx\<rparr>
                 in (Inr (Some r'), settled env i r r' RefundCall O_FULL_REFUND None REFUNDED who ''settlement.escrow.refunded'' s))"
proof (rule run_wp, goal_cases)
  case 1
  obtain t where ready: "trades s (er_tradeId r) = Some t" "may_dispose r t who s"
    "REFUNDED \<in> set (VALID_TRANSITIONS (er_status r))" "capability_ok env who Refunded s" "\<not> circuit_open i s"
    using assms(2,3) by (auto simp: payout_ready_def)
  note tail = payout_tail [OF assms(2,1), where upd = "\<lambda>x t. updateRefundResult i x" and tag = "''updateRefundResult''"
      and g = "\<lambda>tx now r. r\<lparr>er_txReleaseId := Some tx\<rparr>", OF updateRefundResult_def, unfolded seqH_read_const]
  have skip: "tryOrRevert i REFUNDED st (seqH (liftH (Inr p)) m) = tryOrRevert i REFUNDED st (m p)" for st m
    by (simp add: seqH_def liftH_def)
  show ?case
    unfolding refundFunds_def
    using ready assms(2,4) by (simp add: guard_wps skip tail Let_def split: sum.split)
qed

lemma split_runs:
  assumes "faults s = []" and "escrows s i = Some r" and "trades s (er_tradeId r) = Some t"
    and "splittable env i ba sa bps who s"
    and "payout_address ba (t_buyerId t) (er_asset r) s = Some a"
    and "payout_address sa (t_sellerId t) (er_asset r) s = Some a'"
    and "getSettlementProvider (s_isProduction env) (er_type r) = Inr p" and "pv_split env p = Some doSplit"
  shows "splitFunds env i ba sa bps who s =
    (case doSplit i r a a' bps (length (provider_calls s)) of
       Inl e \<Rightarrow> (Inl e, payout_failed i (SplitCall a a' bps) s)
     | Inr txs \<Rightarrow> let r' = r\<lparr>er_status := SPLIT, er_txReleaseId := Some (join_with CHR '','' txs), er_releasedAt := Some (clock s)\<rparr>
                 in (Inr (Some r'), settled env i r r' (SplitCall a a' bps) O_SPLIT (Some bps) SPLIT who ''settlement.escrow.split'' s))"
proof (rule run_wp, goal_cases)
  case 1
  note tail = payout_tail [OF assms(2,1), where upd = "\<lambda>txs now. updateSplitResult i (join_with CHR '','' txs) now"
      and tag = "''updateSplitResult''"
      and g = "\<lambda>txs now r. r\<lparr>er_txReleaseId := Some (join_with CHR '','' txs), er_releasedAt := Some now\<rparr>",
      OF updateSplitResult_def]
  show ?case
    unfolding splitFunds_def
    using assms(2-8)
    by (auto simp: guard_wps wp_liftH assertEscrowTransition_def splittable_def payout_ready_def tail Let_def
        split: sum.split)
qed

section \<open>Properties\<close>

text \<open>
  C2: a payout that is not allowed leaves no trace. Unless the caller is the seller (or the
  seller's agent) or the assigned arbiter, the transition table allows the move, the
  capability and the approvals required are present, the breaker is closed and the addresses
  resolve, release, refund and split throw and the whole state is unchanged: no provider is
  called and no status claimed, whatever the database does.
\<close>

theorem refused_payout_leaves_no_trace:
  "(releasable env i addr who s \<or> (\<exists>e. releaseFunds env i addr who s = (Inl e, s)))
   \<and> (payout_ready env i Refunded REFUNDED who s \<or> (\<exists>e. refundFunds env i who s = (Inl e, s)))
   \<and> (splittable env i ba sa bps who s \<or> (\<exists>e. splitFunds env i ba sa bps who s = (Inl e, s)))"
  using release_refused refund_refused split_refused by blast

text \<open>
  C3: in a dispute only the assigned arbiter disposes of the funds. While an escrow is
  DISPUTED, a release, refund or split requested by anyone who is not the arbiter recorded
  for that trade, its seller included, is refused with the state unchanged.
\<close>

theorem disputed_funds_only_by_arbiter:
  assumes "escrows s i = Some r" and "er_status r = DISPUTED"
    and "\<not> list_ex (\<lambda>d. d_tradeId d = er_tradeId r \<and> d_arbiterId d = Some who) (disputes s)"
  shows "(\<exists>e. releaseFunds env i addr who s = (Inl e, s)) \<and> (\<exists>e. refundFunds env i who s = (Inl e, s))
       \<and> (\<exists>e. splitFunds env i ba sa bps who s = (Inl e, s))"
proof -
  have "\<not> payout_ready env i sc to who s" for sc to
    using assms by (auto simp: payout_ready_def may_dispose_def Let_def)
  then show ?thesis
    using release_refused refund_refused split_refused unfolding releasable_def splittable_def by blast
qed

theorem disputed_funds_only_by_arbiter_witness:
  "\<exists>e. refundFunds demo_senv ''e'' ''alice'' (demo_settlement (Some (demo_escrow DISPUTED)))
       = (Inl e, demo_settlement (Some (demo_escrow DISPUTED)))"
  using disputed_funds_only_by_arbiter [of "demo_settlement (Some (demo_escrow DISPUTED))" "''e''" "demo_escrow DISPUTED" "''alice''" demo_senv]
  by (simp add: demo_settlement_def demo_escrow_def)

text \<open>
  C1: releasing. With a working database and a registered provider, an allowed release calls
  the provider exactly once, with the explicit address or else the buyer's registered one. If
  the provider fails, its error is thrown and, apart from the record of that call, the state
  is the one before. If it succeeds, the escrow is COMPLETED with the transaction identifier
  and time stored, no other escrow changes, and the transition is in the log.
\<close>

theorem releaseFunds_outcome:
  assumes "faults s = []" and "escrows s i = Some r" and "trades s (er_tradeId r) = Some t"
    and "releasable env i addr who s" and "payout_address addr (t_buyerId t) (er_asset r) s = Some a"
    and "getSettlementProvider (s_isProduction env) (er_type r) = Inr p"
  shows "case pv_release env p i r a (length (provider_calls s)) of
       Inl e \<Rightarrow> releaseFunds env i addr who s
                 = (Inl e, s\<lparr>provider_calls := provider_calls s @ [(i, ReleaseCall a, False)]\<rparr>)
     | Inr tx \<Rightarrow> \<exists>s' r'. releaseFunds env i addr who s = (Inr (Some r'), s')
          \<and> r' = r\<lparr>er_status := COMPLETED, er_txReleaseId := Some tx, er_releasedAt := Some (clock s), er_feeCharged := None\<rparr>
          \<and> escrows s' = (escrows s)(i \<mapsto> r')
          \<and> provider_calls s' = provider_calls s @ [(i, ReleaseCall a, True)] \<and> already_emitted i COMPLETED s'"
  using release_runs [OF assms]
  by (simp add: settled_fields payout_failed_def Let_def split: sum.split)

lemma demo_fields [simp]:
  "faults (demo_settlement x) = []" "escrows (demo_settlement x) ''e'' = x" "provider_calls (demo_settlement x) = []"
  "trades (demo_settlement x) ''t'' = Some \<lparr>t_buyerId = ''bob'', t_sellerId = ''alice'', t_escrowId = Some ''e''\<rparr>"
  "er_tradeId (demo_escrow st) = ''t''" "er_status (demo_escrow st) = st"
  "pv_refund demo_senv = (\<lambda>_ i _ _. Inr i)" "pv_release demo_senv = (\<lambda>_ i _ _ _. Inr i)"
  by (simp_all add: demo_settlement_def demo_escrow_def demo_senv_def)

lemma demo_provider: "getSettlementProvider (s_isProduction demo_senv) (er_type (demo_escrow st)) = Inr WDK_USDT_EVM"
  by (simp add: getSettlementProvider_def assertDeploymentEligible_def PRODUCTION_INELIGIBLE_TYPES_def
      PROVIDERS_def demo_escrow_def)

lemma demo_ready:
  assumes "to \<in> set (VALID_TRANSITIONS st)" and "st = DISPUTED \<and> who = ''carol'' \<or> st \<noteq> DISPUTED \<and> who = ''alice''"
  shows "payout_ready demo_senv ''e'' sc to who (demo_settlement (Some (demo_escrow st)))"
  using assms by (auto simp: payout_ready_def demo_settlement_def demo_escrow_def may_dispose_def Let_def
      isPartyOrAgent_def capability_ok_def demo_senv_def circuit_open_def window_peek_def)

theorem releaseFunds_outcome_witness:
  "\<exists>s' r'. releaseFunds demo_senv ''e'' (Some ''addr'') ''alice'' (demo_settlement (Some (demo_escrow PAYMENT_PENDING)))
       = (Inr (Some r'), s') \<and> er_status r' = COMPLETED"
proof -
  let ?s = "demo_settlement (Some (demo_escrow PAYMENT_PENDING))"
  have "releasable demo_senv ''e'' (Some ''addr'') ''alice'' ?s"
    using demo_ready [of COMPLETED PAYMENT_PENDING "''alice''"]
    by (simp add: releasable_def payout_address_def approved_by_both_def demo_senv_def demo_settlement_def demo_escrow_def)
  then show ?thesis
    using releaseFunds_outcome [OF _ _ _ _ _ demo_provider, of ?s "''e''" PAYMENT_PENDING _ "Some ''addr''" "''alice''" "''addr''"]
    by (auto simp: demo_settlement_def demo_escrow_def payout_address_def demo_senv_def)
qed

text \<open>
  Refunding. With a working database and a registered provider, an allowed refund calls
  the provider exactly once; a provider error changes nothing else, and success stores
  REFUNDED with the transaction identifier and logs the transition.
\<close>

theorem refundFunds_outcome:
  assumes "faults s = []" and "escrows s i = Some r" and "payout_ready env i Refunded REFUNDED who s"
    and "getSettlementProvider (s_isProduction env) (er_type r) = Inr p"
  shows "case pv_refund env p i r (length (provider_calls s)) of
       Inl e \<Rightarrow> refundFunds env i who s = (Inl e, s\<lparr>provider_calls := provider_calls s @ [(i, RefundCall, False)]\<rparr>)
     | Inr tx \<Rightarrow> \<exists>s' r'. refundFunds env i who s = (Inr (Some r'), s')
          \<and> r' = r\<lparr>er_status := REFUNDED, er_txReleaseId := Some tx\<rparr> \<and> escrows s' = (escrows s)(i \<mapsto> r')
          \<and> provider_calls s' = provider_calls s @ [(i, RefundCall, True)] \<and> already_emitted i REFUNDED s'"
  using refund_runs [OF assms]
  by (simp add: settled_fields payout_failed_def Let_def split: sum.split)

theorem refundFunds_outcome_witness:
  "\<exists>s' r'. refundFunds demo_senv ''e'' ''carol'' (demo_settlement (Some (demo_escrow DISPUTED)))
       = (Inr (Some r'), s') \<and> er_status r' = REFUNDED"
  using refundFunds_outcome [OF demo_fields(1,2) demo_ready [of REFUNDED DISPUTED "''carol''"] demo_provider] by auto

text \<open>
  Splitting. It is possible from DISPUTED only; with a working database an allowed split
  calls the provider's split exactly once with both resolved addresses and the buyer's share,
  a provider error changes nothing else, and success stores SPLIT with all transaction
  identifiers and logs the transition.
\<close>

theorem splitFunds_outcome:
  assumes "faults s = []" and "escrows s i = Some r" and "trades s (er_tradeId r) = Some t"
    and "splittable env i ba sa bps who s"
    and "payout_address ba (t_buyerId t) (er_asset r) s = Some a"
    and "payout_address sa (t_sellerId t) (er_asset r) s = Some a'"
    and "getSettlementProvider (s_isProduction env) (er_type r) = Inr p" and "pv_split env p = Some doSplit"
  shows "er_status r = DISPUTED \<and>
    (case doSplit i r a a' bps (length (provider_calls s)) of
       Inl e \<Rightarrow> splitFunds env i ba sa bps who s
                 = (Inl e, s\<lparr>provider_calls := provider_calls s @ [(i, SplitCall a a' bps, False)]\<rparr>)
     | Inr txs \<Rightarrow> \<exists>s' r'. splitFunds env i ba sa bps who s = (Inr (Some r'), s')
          \<and> r' = r\<lparr>er_status := SPLIT, er_txReleaseId := Some (join_with CHR '','' txs), er_releasedAt := Some (clock s)\<rparr>
          \<and> escrows s' = (escrows s)(i \<mapsto> r')
          \<and> provider_calls s' = provider_calls s @ [(i, SplitCall a a' bps, True)] \<and> already_emitted i SPLIT s')"
proof -
  have "SPLIT \<in> set (VALID_TRANSITIONS (er_status r))"
    using assms(2,4) by (auto simp: splittable_def payout_ready_def)
  then have "er_status r = DISPUTED" by (cases "er_status r") simp_all
  with split_runs [OF assms] show ?thesis
    by (simp add: settled_fields payout_failed_def Let_def split: sum.split)
qed

theorem splitFunds_outcome_witness:
  "let env = demo_senv\<lparr>pv_split := (\<lambda>_. Some (\<lambda>i _ a b _ _. Inr [a, b]))\<rparr>
   in \<exists>s' r'. splitFunds env ''e'' (Some ''x'') (Some ''y'') 2500 ''carol'' (demo_settlement (Some (demo_escrow DISPUTED)))
        = (Inr (Some r'), s') \<and> er_txReleaseId r' = Some ''x,y''"
proof -
  let ?env = "demo_senv\<lparr>pv_split := (\<lambda>_. Some (\<lambda>i _ a b _ _. Inr [a, b]))\<rparr>"
  let ?s = "demo_settlement (Some (demo_escrow DISPUTED))"
  have p: "getSettlementProvider (s_isProduction ?env) (er_type (demo_escrow DISPUTED)) = Inr WDK_USDT_EVM"
    using demo_provider by simp
  have sp: "pv_split ?env WDK_USDT_EVM = Some (\<lambda>i _ a b _ _. Inr [a, b])" by simp
  have "payout_ready ?env ''e'' SplitScope SPLIT ''carol'' ?s"
    using demo_ready [of SPLIT DISPUTED "''carol''" SplitScope] by (simp add: payout_ready_def capability_ok_def)
  then have "splittable ?env ''e'' (Some ''x'') (Some ''y'') 2500 ''carol'' ?s"
    using p by (simp add: splittable_def payout_address_def)
  then show ?thesis
    using splitFunds_outcome [OF demo_fields(1,2) _ _ _ _ p sp, of _ "Some ''x''" "Some ''y''" 2500 "''carol''" "''x''" "''y''"]
    by (auto simp: payout_address_def)
qed

lemma payout_address_cong:
  "payout_addresses s' = payout_addresses s \<Longrightarrow> payout_address e who asset s' = payout_address e who asset s"
  by (simp add: payout_address_def split: option.split)

text \<open>Readiness for a release depends on these fields only.\<close>

lemma releasable_cong:
  assumes "escrows s i = Some r" and "escrows s' i = Some r'"
    and "er_tradeId r' = er_tradeId r" and "er_status r' = er_status r" and "er_asset r' = er_asset r"
    and "trades s' = trades s" and "disputes s' = disputes s" and "grants s' = grants s" and "clock s' = clock s"
    and "openCircuits s' = openCircuits s" and "payout_addresses s' = payout_addresses s"
    and "release_approvals s' = release_approvals s"
  shows "releasable env i addr who s' = releasable env i addr who s"
  using assms
  by (simp add: releasable_def payout_ready_def may_dispose_def capability_ok_def permitted_def coveredBy_def
      circuit_open_def payout_address_cong [OF assms(11)] approved_by_both_def)

lemma release_publish_fails:
  assumes "faults s = [False, False, True]" and "escrows s i = Some r" and "trades s (er_tradeId r) = Some t"
    and "releasable env i addr who s" and "payout_address addr (t_buyerId t) (er_asset r) s = Some a"
    and "getSettlementProvider (s_isProduction env) (er_type r) = Inr p"
    and "er_feePolicyVersionId r = None" and "\<not> already_emitted i COMPLETED s"
    and "pv_release env p i r a (length (provider_calls s)) = Inr tx"
  shows "releaseFunds env i addr who s =
    (Inl (DatabaseError ''eventBus''),
     (log_event env i (er_status r) COMPLETED who None s)
       \<lparr>escrows := (escrows s)(i \<mapsto> r\<lparr>er_txReleaseId := Some tx, er_releasedAt := Some (clock s), er_feeCharged := None\<rparr>),
        provider_calls := provider_calls s @ [(i, ReleaseCall a, True)], faults := []\<rparr>)"
proof (rule run_wp, goal_cases)
  case 1
  have no_fee: "recordObligationForEscrowSettlement env i r O_RELEASE None None = ret ()"
    using assms(7) by (simp add: recordObligationForEscrowSettlement_def)
  have fresh: "\<not> already_emitted i COMPLETED (s\<lparr>provider_calls := y, faults := z, escrows := x\<rparr>)" for x y z
    using assms(8) by (simp add: already_emitted_def escrow_rows_def)
  obtain ready: "may_dispose r t who s" "COMPLETED \<in> set (VALID_TRANSITIONS (er_status r))"
    "capability_ok env who Released s" "\<not> circuit_open i s" "approved_by_both env i r s"
    using assms(2-4) by (auto simp: releasable_def payout_ready_def)
  show ?case
    unfolding releaseFunds_def
    using ready assms(1-3,5,6,9) fresh
    by (simp add: guard_wps tryOrRevert_def wp_catchH wp_liftH wp_callProvider wp_readH wp_throw wp_ret assertEscrowTransition_def
        updateReleaseResult_def wp_dbWrite wp_findEscrow no_fee wp_emitEscrowTransition wp_revertEscrowStatus
        set_status_def set_escrow_def claimEscrowStatus_def log_event_def escrow_rows_def publish_event_def)
qed

text \<open>
  C26: a release whose announcement cannot be stored asks the provider twice and is never
  announced. Let the row update and the log entry succeed and only the event store fail, once.
  The call throws and gives the claim back, so the escrow is releasable again although the
  provider has reported a transfer and the log already says COMPLETED. The retry then calls the
  provider's release a second time, so only an idempotent provider prevents a second transfer,
  and it finds the log entry of the first call, so the release event is never published.
\<close>

theorem failed_publish_calls_provider_twice:
  assumes "faults s = [False, False, True]" and "escrows s i = Some r" and "trades s (er_tradeId r) = Some t"
    and "releasable env i addr who s" and "payout_address addr (t_buyerId t) (er_asset r) s = Some a"
    and "getSettlementProvider (s_isProduction env) (er_type r) = Inr p"
    and "er_feePolicyVersionId r = None" and "\<not> already_emitted i COMPLETED s"
    and "\<forall>row n. \<exists>tx. pv_release env p i row a n = Inr tx"
  shows "\<exists>s1 s2 r1 r2. releaseFunds env i addr who s = (Inl (DatabaseError ''eventBus''), s1)
       \<and> escrows s1 i = Some r1 \<and> er_status r1 = er_status r
       \<and> releaseFunds env i addr who s1 = (Inr (Some r2), s2)
       \<and> escrows s2 i = Some r2 \<and> er_status r2 = COMPLETED
       \<and> provider_calls s2 = provider_calls s @ [(i, ReleaseCall a, True), (i, ReleaseCall a, True)]
       \<and> settle_bus s2 = settle_bus s"
proof -
  obtain tx where tx: "pv_release env p i r a (length (provider_calls s)) = Inr tx" using assms(9) by blast
  let ?r1 = "r\<lparr>er_txReleaseId := Some tx, er_releasedAt := Some (clock s), er_feeCharged := None\<rparr>"
  let ?s1 = "(log_event env i (er_status r) COMPLETED who None s)
       \<lparr>escrows := (escrows s)(i \<mapsto> ?r1), provider_calls := provider_calls s @ [(i, ReleaseCall a, True)], faults := []\<rparr>"
  have first: "releaseFunds env i addr who s = (Inl (DatabaseError ''eventBus''), ?s1)"
    using release_publish_fails [OF assms(1-8) tx] .
  have again: "releasable env i addr who ?s1"
    using assms(4) releasable_cong [OF assms(2), of ?s1 ?r1 env addr who] by (simp add: log_event_def)
  obtain tx2 where tx2: "pv_release env p i ?r1 a (length (provider_calls ?s1)) = Inr tx2" using assms(9) by blast
  let ?r2 = "?r1\<lparr>er_status := COMPLETED, er_txReleaseId := Some tx2, er_releasedAt := Some (clock ?s1), er_feeCharged := None\<rparr>"
  have second: "releaseFunds env i addr who ?s1 = (Inr (Some ?r2),
      settled env i ?r1 ?r2 (ReleaseCall a) O_RELEASE None COMPLETED who ''settlement.escrow.released'' ?s1)"
  proof -
    have "trades ?s1 (er_tradeId ?r1) = Some t" "payout_address addr (t_buyerId t) (er_asset ?r1) ?s1 = Some a"
      using assms(3,5) payout_address_cong [of ?s1 s] by (simp_all add: log_event_def)
    with release_runs [of ?s1 i ?r1 t env addr who a p] again assms(6) tx2 show ?thesis by (simp add: Let_def)
  qed
  have logged: "already_emitted i COMPLETED ?s1"
    by (simp add: already_emitted_def escrow_rows_def log_event_def escrow_chain.appended_def Let_def)
  have no_fee: "recordObligationForEscrowSettlement env i ?r1 O_RELEASE None None = ret ()"
    using assms(7) by (simp add: recordObligationForEscrowSettlement_def)
  have bus: "settle_bus (settled env i ?r1 ?r2 (ReleaseCall a) O_RELEASE None COMPLETED who ''settlement.escrow.released'' ?s1)
      = settle_bus s"
    using logged by (simp add: settled_def no_fee ret_def Let_def already_emitted_def escrow_rows_def log_event_def)
  have "escrows ?s1 i = Some ?r1" by simp
  with first second bus show ?thesis
    by (intro exI conjI) (assumption | simp add: settled_fields)+
qed

theorem failed_publish_calls_provider_twice_witness:
  "let s = (demo_settlement (Some ((demo_escrow PAYMENT_PENDING)\<lparr>er_feePolicyVersionId := None\<rparr>)))\<lparr>faults := [False, False, True]\<rparr>
   in \<exists>s2. provider_calls s2 = [(''e'', ReleaseCall ''addr'', True), (''e'', ReleaseCall ''addr'', True)]
         \<and> (\<exists>s1 e r. releaseFunds demo_senv ''e'' (Some ''addr'') ''alice'' s = (Inl e, s1)
               \<and> releaseFunds demo_senv ''e'' (Some ''addr'') ''alice'' s1 = (Inr r, s2))"
proof -
  let ?r = "(demo_escrow PAYMENT_PENDING)\<lparr>er_feePolicyVersionId := None\<rparr>"
  let ?s = "(demo_settlement (Some ?r))\<lparr>faults := [False, False, True]\<rparr>"
  have ready: "releasable demo_senv ''e'' (Some ''addr'') ''alice'' ?s"
    using demo_ready [of COMPLETED PAYMENT_PENDING "''alice''" Released]
    by (auto simp: releasable_def payout_ready_def payout_address_def approved_by_both_def demo_senv_def may_dispose_def
        isPartyOrAgent_def capability_ok_def circuit_open_def demo_settlement_def window_peek_def)
  have p: "getSettlementProvider (s_isProduction demo_senv) (er_type ?r) = Inr WDK_USDT_EVM"
    using demo_provider by simp
  have fresh: "\<not> already_emitted ''e'' COMPLETED ?s"
    by (simp add: already_emitted_def escrow_rows_def demo_settlement_def)
  show ?thesis
    using failed_publish_calls_provider_twice [of ?s "''e''" ?r _ demo_senv "Some ''addr''" "''alice''" "''addr''" WDK_USDT_EVM,
        OF _ _ _ ready _ p _ fresh]
    by (auto simp: payout_address_def)
qed

end
