(* ===== verification/Escrow_Safeguards.thy ===== *)
theory Escrow_Safeguards
  imports Escrow_Payout
begin

text \<open>
  The safeguards around the fund-moving operations: the per-escrow circuit breaker with its
  fixed-window counters, and the two-person control of a release.
\<close>

section \<open>Fixed-window counters\<close>

text \<open>
  The periodic sweep only frees memory: no later reading of any counter can tell whether it
  ran.
\<close>

lemma window_sweep_unobservable:
  assumes "now \<le> later"
  shows "window_peek later k (window_sweep now ws) = window_peek later k ws"
    and "fst (window_increment later k ms (window_sweep now ws)) = fst (window_increment later k ms ws)"
    and "window_sweep later (snd (window_increment later k ms (window_sweep now ws)))
       = window_sweep later (snd (window_increment later k ms ws))"
  using assms
  by (auto simp: window_peek_def window_increment_def window_sweep_def fun_eq_iff split: option.splits if_splits)

section \<open>Circuit breaker\<close>

text \<open>Conflicts on one escrow, recorded at the given times.\<close>

definition conflicts :: "settle_env \<Rightarrow> string \<Rightarrow> int list \<Rightarrow> settlement_state \<Rightarrow> settlement_state" where
  "conflicts env i ts s = foldl (\<lambda>s t. snd (recordEscrowConflict env i (s\<lparr>clock := t\<rparr>))) s ts"

lemma recordEscrowConflict_run: "recordEscrowConflict env i s = (Inr (), conflict_recorded env i s)"
  by (rule run_wp) (simp add: wp_eqs)

lemma conflicts_snoc: "conflicts env i (ts @ [t]) s = conflict_recorded env i ((conflicts env i ts s)\<lparr>clock := t\<rparr>)"
  by (simp add: conflicts_def recordEscrowConflict_run)

lemma conflicts_state:
  assumes "failures s i = None" and "openCircuits s i = None"
    and "ts \<noteq> []" and "\<And>t. t \<in> set ts \<Longrightarrow> t < hd ts + s_windowMs env" and "length ts \<le> s_failureThreshold env"
  shows "failures (conflicts env i ts s) i = Some (length ts, hd ts + s_windowMs env)
       \<and> openCircuits (conflicts env i ts s) i =
           (if length ts = s_failureThreshold env then Some (1, last ts + s_cooldownMs env) else None)"
  using assms
proof (induction ts rule: rev_induct)
  case (snoc t ts)
  show ?case
  proof (cases "ts = []")
    case True
    then show ?thesis
      using snoc.prems by (simp add: conflicts_def recordEscrowConflict_run conflict_recorded_def window_increment_def)
  next
    case False
    with snoc.IH snoc.prems have
      "failures (conflicts env i ts s) i = Some (length ts, hd ts + s_windowMs env)"
      "openCircuits (conflicts env i ts s) i = None"
      by (auto simp: hd_append)
    moreover have "t < hd ts + s_windowMs env" using snoc.prems(4) [of t] False by (simp add: hd_append)
    ultimately show ?thesis
      using False snoc.prems(5) by (auto simp: conflicts_snoc conflict_recorded_def window_increment_def hd_append)
  qed
qed simp

lemma conflicts_others:
  assumes "j \<noteq> i"
  shows "openCircuits (conflicts env i ts s) j = openCircuits s j"
proof (induction ts rule: rev_induct)
  case (snoc t ts)
  then show ?case
    using assms
    by (auto simp: conflicts_snoc conflict_recorded_def window_increment_def case_prod_beta split: option.split)
qed (simp add: conflicts_def)

lemma assertCircuitClosed_run:
  "assertCircuitClosed i s =
     (if circuit_open i s then Inl (CircuitBreakerOpenError ''temporarily paused after repeated conflicting requests'')
      else Inr (), s)"
  by (rule run_wp) (simp add: wp_eqs)

section \<open>Two-person control\<close>

definition approve_all :: "(string \<times> string) list \<Rightarrow> settlement_state \<Rightarrow> settlement_state" where
  "approve_all calls s = foldl (\<lambda>s (i, who). snd (approveRelease i who s)) s calls"

definition may_approve :: "string \<Rightarrow> string \<Rightarrow> settlement_state \<Rightarrow> bool" where
  "may_approve i who s \<longleftrightarrow>
     (\<exists>r t. escrows s i = Some r \<and> trades s (er_tradeId r) = Some t \<and> who \<in> {t_buyerId t, t_sellerId t})"

lemma approveRelease_state:
  "snd (approveRelease i who s) =
     (if may_approve i who s \<and> (i, who) \<notin> set (release_approvals s)
      then s\<lparr>release_approvals := release_approvals s @ [(i, who)]\<rparr> else s)"
  (is "_ = ?rhs")
proof -
  have "wpH (approveRelease i who) (\<lambda>_ t. t = ?rhs) (\<lambda>_ t. t = ?rhs) s"
    by (auto simp: approveRelease_def wp_eqs may_approve_def split: option.split)
  then show ?thesis by (rule wpH_snd)
qed

lemma may_approve_approvals [simp]:
  "may_approve i who (s\<lparr>release_approvals := as\<rparr>) = may_approve i who s"
  by (simp add: may_approve_def)

lemma approve_all_frame:
  "\<exists>as. approve_all calls s = s\<lparr>release_approvals := as\<rparr>"
proof (induction calls rule: rev_induct)
  case (snoc c cs)
  then obtain as where "approve_all cs s = s\<lparr>release_approvals := as\<rparr>" ..
  then show ?case
    by (cases c) (auto simp: approve_all_def approveRelease_state intro: exI [of _ as])
qed (auto simp: approve_all_def intro: exI [of _ "release_approvals s"])

lemma may_approve_all: "may_approve i who (approve_all calls s) = may_approve i who s"
  using approve_all_frame [of calls s] by auto

lemma approve_all_approvals:
  assumes "distinct (release_approvals s)"
  shows "distinct (release_approvals (approve_all calls s))
       \<and> set (release_approvals (approve_all calls s))
           = set (release_approvals s) \<union> {c \<in> set calls. may_approve (fst c) (snd c) s}"
proof (induction calls rule: rev_induct)
  case (snoc c cs)
  have step: "approve_all (cs @ [c]) s = snd (approveRelease (fst c) (snd c) (approve_all cs s))"
    by (simp add: approve_all_def case_prod_beta)
  show ?case
    using snoc by (auto simp: step approveRelease_state may_approve_all)
qed (simp add: approve_all_def assms)

lemma approvals_of_trade:
  assumes "distinct as" and "\<And>a. a \<in> set as \<Longrightarrow> fst a = i \<Longrightarrow> snd a = b \<or> snd a = c" and "b \<noteq> c"
  shows "2 \<le> length (filter (\<lambda>a. fst a = i) as) \<longleftrightarrow> (i, b) \<in> set as \<and> (i, c) \<in> set as"
proof -
  let ?F = "{a \<in> set as. fst a = i}"
  have len: "length (filter (\<lambda>a. fst a = i) as) = card ?F"
    using assms(1) by (metis distinct_card distinct_filter set_filter)
  have sub: "?F \<subseteq> {(i, b), (i, c)}"
  proof
    fix a assume "a \<in> ?F"
    then show "a \<in> {(i, b), (i, c)}" using assms(2) [of a] by (cases a) auto
  qed
  have two: "card {(i, b), (i, c)} = 2" using assms(3) by simp
  show ?thesis
  proof
    assume "2 \<le> length (filter (\<lambda>a. fst a = i) as)"
    then have "?F = {(i, b), (i, c)}"
      using len two sub card_mono [OF _ sub] by (intro card_subset_eq) auto
    then show "(i, b) \<in> set as \<and> (i, c) \<in> set as" by auto
  next
    assume "(i, b) \<in> set as \<and> (i, c) \<in> set as"
    then have "{(i, b), (i, c)} \<subseteq> ?F" by auto
    with two show "2 \<le> length (filter (\<lambda>a. fst a = i) as)"
      using len card_mono [of ?F "{(i, b), (i, c)}"] by simp
  qed
qed

section \<open>Properties\<close>

text \<open>
  The breaker trips exactly at its threshold and for its own escrow only. After conflicts
  on a fresh escrow inside one window, at most as many as the threshold, every operation on
  that escrow is refused exactly if the threshold is reached, and only until the cooldown after the
  last conflict is over; what the breaker says of any other escrow is what it said before.
\<close>

theorem breaker_trips_at_threshold:
  assumes "failures s i = None" and "openCircuits s i = None" and "ts \<noteq> []"
    and "\<forall>t\<in>set ts. t < hd ts + s_windowMs env" and "length ts \<le> s_failureThreshold env"
  shows "(assertCircuitClosed i ((conflicts env i ts s)\<lparr>clock := now\<rparr>)
            = (Inr (), (conflicts env i ts s)\<lparr>clock := now\<rparr>)
          \<longleftrightarrow> \<not> (length ts = s_failureThreshold env \<and> now < last ts + s_cooldownMs env))
       \<and> (j = i \<or> fst (assertCircuitClosed j ((conflicts env i ts s)\<lparr>clock := now\<rparr>))
                 = fst (assertCircuitClosed j (s\<lparr>clock := now\<rparr>)))"
proof -
  note st = conflicts_state [OF assms(1-3) _ assms(5)]
  have "circuit_open i ((conflicts env i ts s)\<lparr>clock := now\<rparr>)
          \<longleftrightarrow> length ts = s_failureThreshold env \<and> now < last ts + s_cooldownMs env"
    using st assms(4) by (simp add: circuit_open_def window_peek_def)
  moreover have "circuit_open j ((conflicts env i ts s)\<lparr>clock := now\<rparr>) = circuit_open j (s\<lparr>clock := now\<rparr>)" if "j \<noteq> i"
    using that by (simp add: circuit_open_def window_peek_def conflicts_others)
  ultimately show ?thesis
    by (auto simp: assertCircuitClosed_run)
qed

theorem breaker_trips_at_threshold_witness:
  "let s = demo_settlement None; env = demo_senv\<lparr>s_failureThreshold := 2, s_windowMs := 60, s_cooldownMs := 30\<rparr>
   in assertCircuitClosed ''e'' ((conflicts env ''e'' [10, 20] s)\<lparr>clock := 40\<rparr>)
       \<noteq> (Inr (), (conflicts env ''e'' [10, 20] s)\<lparr>clock := 40\<rparr>)"
  using breaker_trips_at_threshold [of "demo_settlement None" "''e''" "[10, 20]"
      "demo_senv\<lparr>s_failureThreshold := 2, s_windowMs := 60, s_cooldownMs := 30\<rparr>" 40 "''e''"]
  by (simp add: demo_settlement_def Let_def)

text \<open>
  Two-person control. Starting with no approval of an escrow and two different
  counterparties, after any sequence of approval requests by anyone for any escrow, the
  approval is dual exactly if the buyer and the seller of that trade each asked for it; and
  where the deployment requires it, until then a release of the paid escrow by whomever is
  refused with nothing changed.
\<close>

theorem dual_approval_needs_both:
  assumes "escrows s i = Some r" and "trades s (er_tradeId r) = Some t" and "t_buyerId t \<noteq> t_sellerId t"
    and "distinct (release_approvals s)" and "\<forall>a\<in>set (release_approvals s). fst a \<noteq> i"
  shows "hasDualApproval i (approve_all calls s)
           = (Inr ((i, t_buyerId t) \<in> set calls \<and> (i, t_sellerId t) \<in> set calls), approve_all calls s)
       \<and> (s_requireDualApproval env \<and> er_status r = PAYMENT_PENDING
          \<longrightarrow> \<not> ((i, t_buyerId t) \<in> set calls \<and> (i, t_sellerId t) \<in> set calls)
          \<longrightarrow> (\<exists>e. releaseFunds env i addr who (approve_all calls s) = (Inl e, approve_all calls s)))"
proof -
  let ?s = "approve_all calls s" and ?both = "(i, t_buyerId t) \<in> set calls \<and> (i, t_sellerId t) \<in> set calls"
  note ap = approve_all_approvals [OF assms(4), of calls]
  have two: "2 \<le> length (filter (\<lambda>a. fst a = i) (release_approvals ?s)) \<longleftrightarrow> ?both"
  proof -
    have "snd a = t_buyerId t \<or> snd a = t_sellerId t" if "a \<in> set (release_approvals ?s)" "fst a = i" for a
      using that ap assms by (auto simp: may_approve_def)
    then have "2 \<le> length (filter (\<lambda>a. fst a = i) (release_approvals ?s))
        \<longleftrightarrow> (i, t_buyerId t) \<in> set (release_approvals ?s) \<and> (i, t_sellerId t) \<in> set (release_approvals ?s)"
      using ap assms(3) by (intro approvals_of_trade) auto
    also have "\<dots> \<longleftrightarrow> ?both"
      using ap assms by (auto simp: may_approve_def)
    finally show ?thesis .
  qed
  moreover have "escrows ?s = escrows s"
    using approve_all_frame [of calls s] by auto
  ultimately have "\<not> releasable env i addr who ?s"
    if "s_requireDualApproval env" "er_status r = PAYMENT_PENDING" "\<not> ?both"
    using that assms(1) by (auto simp: releasable_def approved_by_both_def)
  with two release_refused show ?thesis
    by (auto simp: hasDualApproval_def getReleaseApprovals_def seqH_def readH_def ret_def)
qed

theorem dual_approval_needs_both_witness:
  "fst (hasDualApproval ''e'' (approve_all [(''e'', ''bob''), (''e'', ''mallory''), (''e'', ''bob'')]
      (demo_settlement (Some (demo_escrow PAYMENT_PENDING))))) = Inr False"
  using dual_approval_needs_both [of "demo_settlement (Some (demo_escrow PAYMENT_PENDING))" "''e''"
      "demo_escrow PAYMENT_PENDING" "\<lparr>t_buyerId = ''bob'', t_sellerId = ''alice'', t_escrowId = Some ''e''\<rparr>"
      "[(''e'', ''bob''), (''e'', ''mallory''), (''e'', ''bob'')]" demo_senv None "''bob''"]
  by (simp add: demo_settlement_def demo_escrow_def)

end
