(* ===== verification/Escrow_Sweep.thy ===== *)
theory Escrow_Sweep
  imports Escrow_Payout
begin

text \<open>
  The expiry sweep of \<^verbatim>\<open>escrow.service.ts\<close>: which escrows it may touch, and that an
  expiry is never stored without the record that justifies it.
\<close>

section \<open>What a sweep may do to a row\<close>

definition expiry_recorded :: "string \<Rightarrow> int \<Rightarrow> int \<Rightarrow> semantic_record_row list \<Rightarrow> bool" where
  "expiry_recorded i deadline now recs \<longleftrightarrow>
     list_ex (\<lambda>x. sr_interactionId x = i \<and> sr_transitionType x = ''escrow.timelock.expire'' \<and> sr_toState x = EXPIRED
                \<and> sr_deadlineMs x = deadline \<and> sr_evaluationTimeMs x = now \<and> sr_conditionResult x = SATISFIED) recs"

definition swept_status :: "int \<Rightarrow> string \<Rightarrow> semantic_record_row list \<Rightarrow> escrow_row \<Rightarrow> EscrowStatus \<Rightarrow> bool" where
  "swept_status now i recs r st \<longleftrightarrow>
     st = er_status r
     \<or> er_status r = FUNDS_LOCKED
       \<and> (case er_expiresAt r of
            None \<Rightarrow> False
          | Some e \<Rightarrow> if isSignatureCollectionType (er_type r)
                      then st = EXPIRED \<and> e \<le> now \<and> expiry_recorded i e now recs
                      else st = REFUNDED \<and> e < now)"

definition swept_row :: "int \<Rightarrow> string \<Rightarrow> semantic_record_row list \<Rightarrow> escrow_row \<Rightarrow> escrow_row \<Rightarrow> bool" where
  "swept_row now i recs r r' \<longleftrightarrow>
     r'\<lparr>er_status := er_status r, er_txReleaseId := er_txReleaseId r\<rparr> = r \<and> swept_status now i recs r (er_status r')"

fun swept_at :: "int \<Rightarrow> string \<Rightarrow> semantic_record_row list \<Rightarrow> escrow_row option \<Rightarrow> escrow_row option \<Rightarrow> bool" where
  "swept_at now i recs (Some r) (Some r') = swept_row now i recs r r'"
| "swept_at now i recs None None = True"
| "swept_at now i recs _ _ = False"

definition swept :: "int \<Rightarrow> settlement_state \<Rightarrow> settlement_state \<Rightarrow> bool" where
  "swept now s s' \<longleftrightarrow> (\<forall>i. swept_at now i (semantic_records s') (escrows s i) (escrows s' i))"

lemma swept_row_fields:
  assumes "swept_row now i recs r r'"
  shows "er_type r' = er_type r" and "er_expiresAt r' = er_expiresAt r"
  using arg_cong [OF conjunct1 [OF assms [unfolded swept_row_def]], of er_type]
    arg_cong [OF conjunct1 [OF assms [unfolded swept_row_def]], of er_expiresAt] by simp_all

lemma swept_refl: "swept now s s"
proof -
  have "swept_at now i recs x x" for i recs x
    by (cases x) (simp_all add: swept_row_def swept_status_def)
  then show ?thesis by (simp add: swept_def)
qed

lemma swept_frame:
  "swept now s0 s \<Longrightarrow> escrows s' = escrows s \<Longrightarrow> semantic_records s' = semantic_records s \<Longrightarrow> swept now s0 s'"
  by (simp add: swept_def)

lemma swept_lookup:
  assumes "swept now s0 s" and "escrows s i = Some r'"
  obtains r where "escrows s0 i = Some r" and "swept_row now i (semantic_records s) r r'"
proof -
  have "swept_at now i (semantic_records s) (escrows s0 i) (Some r')"
    using assms unfolding swept_def by metis
  with that show thesis by (cases "escrows s0 i") auto
qed

lemma swept_update:
  assumes "swept now s0 s" and "escrows s i = Some r'" and "escrows s0 i = Some r"
    and "swept_status now i (semantic_records s) r st"
  shows "swept now s0 (s\<lparr>escrows := (escrows s)(i \<mapsto> r'\<lparr>er_status := st, er_txReleaseId := tx\<rparr>)\<rparr>)"
proof -
  obtain r0 where "escrows s0 i = Some r0" "swept_row now i (semantic_records s) r0 r'"
    using swept_lookup [OF assms(1,2)] by blast
  then have "swept_row now i (semantic_records s) r (r'\<lparr>er_status := st, er_txReleaseId := tx\<rparr>)"
    using assms(3,4) by (simp add: swept_row_def)
  with assms(1,3) show ?thesis by (simp add: swept_def)
qed

lemma swept_at_more_records: "swept_at now i recs x y \<Longrightarrow> swept_at now i (recs @ recs') x y"
  by (induction now i recs x y rule: swept_at.induct)
    (auto simp: swept_row_def swept_status_def expiry_recorded_def split: option.splits if_splits)

lemma swept_more_records: "swept now s0 s \<Longrightarrow> swept now s0 (s\<lparr>semantic_records := semantic_records s @ recs\<rparr>)"
  by (simp add: swept_def swept_at_more_records)

interpretation sweep: mover_client "swept now s0" env for now s0 env
proof unfold_locales
  fix s s' assume "swept now s0 s" "obligation_frame s s'"
  then show "swept now s0 s'"
    using obligation_frame_fields [of s s'] by (metis swept_frame)
qed (erule swept_frame; simp add: log_event_def)+

section \<open>The refund loop\<close>

text \<open>An escrow the refund loop may pick: refundable without signatures, strictly past its deadline.\<close>

definition due :: "int \<Rightarrow> bool \<Rightarrow> string \<Rightarrow> settlement_state \<Rightarrow> bool" where
  "due now sig i s \<longleftrightarrow>
     (\<exists>r e. escrows s i = Some r \<and> er_status r = FUNDS_LOCKED \<and> er_expiresAt r = Some e
        \<and> isSignatureCollectionType (er_type r) = sig \<and> (if sig then e \<le> now else e < now))"

lemma due_refund_status:
  assumes "due now False i s0" and "swept now s0 s" and "escrows s i = Some r'"
  shows "er_status r' \<in> {FUNDS_LOCKED, REFUNDED}"
    and "st \<in> {FUNDS_LOCKED, REFUNDED} \<Longrightarrow>
         swept now s0 (s\<lparr>escrows := (escrows s)(i \<mapsto> r'\<lparr>er_status := st, er_txReleaseId := tx\<rparr>)\<rparr>)"
proof -
  obtain r where r: "escrows s0 i = Some r" "swept_row now i (semantic_records s) r r'"
    using swept_lookup [OF assms(2,3)] by blast
  then obtain e where e: "er_status r = FUNDS_LOCKED" "er_expiresAt r = Some e"
    "\<not> isSignatureCollectionType (er_type r)" "e < now"
    using assms(1) by (auto simp: due_def)
  show "er_status r' \<in> {FUNDS_LOCKED, REFUNDED}"
    using r(2) e by (auto simp: swept_row_def swept_status_def)
  assume "st \<in> {FUNDS_LOCKED, REFUNDED}"
  then have "swept_status now i (semantic_records s) r st"
    using e by (auto simp: swept_status_def)
  from swept_update [OF assms(2,3) r(1) this]
  show "swept now s0 (s\<lparr>escrows := (escrows s)(i \<mapsto> r'\<lparr>er_status := st, er_txReleaseId := tx\<rparr>)\<rparr>)" .
qed

lemma refund_claim_kept:
  assumes "due now False i s0" and "to \<in> {FUNDS_LOCKED, REFUNDED}" and "swept now s0 s"
  shows "swept now s0 (snd (claimEscrowStatus i from to s))"
proof (cases "escrows s i")
  case (Some r')
  from due_refund_status(2) [OF assms(1,3) Some assms(2), of "er_txReleaseId r'"] assms(3) Some show ?thesis
    by (simp add: claimEscrowStatus_def)
qed (simp add: claimEscrowStatus_def assms(3))

lemma refund_row_kept:
  assumes "due now False i s0" and "swept now s0 s"
  shows "swept now s0 (set_escrow i (\<lambda>r. r\<lparr>er_txReleaseId := tx\<rparr>) s)"
proof (cases "escrows s i")
  case (Some r')
  have "er_status r' \<in> {FUNDS_LOCKED, REFUNDED}" by (rule due_refund_status(1) [OF assms Some])
  from due_refund_status(2) [OF assms Some this, of tx] show ?thesis
    by (simp add: set_escrow_def Some)
qed (simp add: set_escrow_def assms(2))

lemma refund_keeps:
  assumes "due now False i s0"
  shows "preserves (swept now s0) (refundFunds env i who)"
proof -
  let ?I = "swept now s0"
  have body: "preserves ?I (tryOrRevert i REFUNDED FUNDS_LOCKED m)" if "preserves ?I m" for m :: "'a settle"
    unfolding tryOrRevert_def revertEscrowStatus_def revertStatus_def
    by (intro sweep.mover_rules that refund_claim_kept [OF assms]) simp_all
  have upd: "preserves ?I (updateRefundResult i tx)" for tx
    unfolding updateRefundResult_def by (intro sweep.mover_rules refund_row_kept [OF assms])
  have "wpH (refundFunds env i who) (\<lambda>_. ?I) (\<lambda>_. ?I) s" if "?I s" for s
  proof -
    have tail: "wpH (tryOrRevert i REFUNDED (er_status r) m) (\<lambda>_. ?I) (\<lambda>_. ?I) (set_status i r REFUNDED s)"
      if "escrows s i = Some r" "REFUNDED \<in> set (VALID_TRANSITIONS (er_status r))" "preserves ?I m" for r and m :: "escrow_row option settle"
    proof -
      have "er_status r = FUNDS_LOCKED"
        using due_refund_status(1) [OF assms \<open>?I s\<close> that(1)] that(2) by auto
      moreover have "?I (set_status i r REFUNDED s)"
        using refund_claim_kept [OF assms, of REFUNDED s "er_status r"] \<open>?I s\<close> claim_stored [OF that(1), of REFUNDED] by simp
      ultimately show ?thesis using preserves_wp [OF body [OF that(3)]] by simp
    qed
    show ?thesis
      unfolding refundFunds_def
      using \<open>?I s\<close> by (auto simp: guard_wps intro!: tail sweep.mover_rules upd split: option.split)
  qed
  then show ?thesis by (simp add: preserves_def wpH_snd)
qed

lemma refund_one_keeps:
  assumes "\<not> isSignatureCollectionType (er_type (snd c)) \<Longrightarrow> due now False (fst c) s0"
  shows "preserves (swept now s0) (refund_one env c rep)"
  unfolding refund_one_def Let_def
  by (intro sweep.mover_rules refund_keeps assms)

section \<open>The expiry loop\<close>

lemma expiry_commit_keeps:
  assumes "due now True i s0" and "escrows s0 i = Some r" and "er_expiresAt r = Some e"
    and "expiry_verdict i e now = Inr (AUTHORIZED rec)"
  shows "preserves (swept now s0) (commitAuthoritativeEscrowTimelockExpiry env i FUNDS_LOCKED EXPIRED rec)"
proof -
  have row: "\<exists>row. toSemanticTransitionRecordRow (s_stringify env) rec = Inr row \<and> expiry_recorded i e now [row]"
    using assms(4)
    by (auto simp: expiry_verdict_def evaluateExpiryAuthority_def toSemanticTransitionRecordRow_def expiry_recorded_def
        createInteractionId_def createBrandedString_def Let_def split: RulesetBindingCheck.splits if_splits)
  then obtain row where row: "toSemanticTransitionRecordRow (s_stringify env) rec = Inr row" "expiry_recorded i e now [row]"
    by blast
  have kept: "swept now s0 (s\<lparr>escrows := (escrows s)(i \<mapsto> r'\<lparr>er_status := EXPIRED\<rparr>),
      faults := fs, semantic_records := semantic_records s @ [row]\<rparr>)"
    if I: "swept now s0 s" and r': "escrows s i = Some r'" and "er_status r' = FUNDS_LOCKED" for s r' fs
  proof -
    have "swept_status now i (semantic_records s @ [row]) r EXPIRED"
      using row(2) assms(1-3) by (auto simp: swept_status_def due_def expiry_recorded_def)
    from swept_update [OF swept_more_records [OF I, of "[row]"] _ assms(2), of r' EXPIRED "er_txReleaseId r'"] this r'
    show ?thesis by (auto elim: swept_frame)
  qed
  have "wpH (commitAuthoritativeEscrowTimelockExpiry env i FUNDS_LOCKED EXPIRED rec) (\<lambda>_. swept now s0) (\<lambda>_. swept now s0) s"
    if I: "swept now s0 s" for s
    using I kept [OF I, where fs = "faults s"] kept [OF I] sweep.inv_faults [OF I]
    by (auto simp: commitAuthoritativeEscrowTimelockExpiry_def row(1) wp_eqs createSemanticRecord_def
        claimEscrowStatus_def split: option.split list.split bool.split)
  then show ?thesis by (simp add: preserves_def wpH_snd)
qed

lemma preserves_lift_bind:
  "(\<And>x. r = Inr x \<Longrightarrow> preserves I (k x)) \<Longrightarrow> preserves I (seqH (liftH r) k)"
  by (cases r) (auto simp: preserves_def seqH_def liftH_def)

lemma expire_one_keeps:
  assumes "escrows s0 (fst c) = Some (snd c)" and "isSignatureCollectionType (er_type (snd c)) \<Longrightarrow> due now True (fst c) s0"
  shows "preserves (swept now s0) (expire_one env now c rep)"
proof -
  have commit: "preserves (swept now s0) (commitAuthoritativeEscrowTimelockExpiry env (fst c) FUNDS_LOCKED EXPIRED rec)"
    if "isSignatureCollectionType (er_type (snd c))" "er_expiresAt (snd c) = Some e"
       "expiry_verdict (fst c) e now = Inr (AUTHORIZED rec)" for e rec
    using expiry_commit_keeps [OF assms(2) [OF that(1)] assms(1) that(2,3)] .
  have verdict: "preserves (swept now s0) (case v of NOT_ELIGIBLE x \<Rightarrow> g x | BINDING_MISMATCH x \<Rightarrow> h x | EVALUATION_FAILED \<Rightarrow> k | AUTHORIZED rec \<Rightarrow> f rec)"
    if "\<And>rec. v = AUTHORIZED rec \<Longrightarrow> preserves (swept now s0) (f rec)" "\<And>x. preserves (swept now s0) (g x)"
       "\<And>x. preserves (swept now s0) (h x)" "preserves (swept now s0) k" for v f g h and k :: "sweep_report settle"
    using that by (cases v) auto
  show ?thesis
    unfolding expire_one_def Let_def
    by (rule preserves_lift_bind verdict commit sweep.preserves_guards sweep.mover_rules | assumption | simp)+
qed

section \<open>Property\<close>

lemma preserves_loop:
  "(\<And>x rep. x \<in> set xs \<Longrightarrow> preserves I (f x rep)) \<Longrightarrow> preserves I (loopH f xs rep)"
  by (induction xs arbitrary: rep) (auto intro!: preserves_ret preserves_seqH)

lemma select_escrows_sound: "c \<in> set (select_escrows P s) \<Longrightarrow> escrows s (fst c) = Some (snd c) \<and> P (snd c)"
  by (auto simp: select_escrows_def split: option.splits if_splits)

text \<open>
  C8: the expiry sweep touches nothing but expired locks. Whatever the database and the
  providers do during a sweep, every escrow keeps all its columns except the status and the
  payout transaction, and its status changes only if it was FUNDS_LOCKED with its deadline
  reached: to EXPIRED, never to a payout, if its funds need signatures to move, and then the
  record with that deadline, the sweep's time and the satisfied condition is stored; to REFUNDED
  otherwise. No escrow appears or disappears.
\<close>

theorem sweep_touches_only_expired_locks:
  "swept_at (clock s) i (semantic_records (snd (sweepExpiredEscrows env s)))
     (escrows s i) (escrows (snd (sweepExpiredEscrows env s)) i)"
proof -
  let ?I = "swept (clock s) s"
  have expire: "preserves ?I (loopH (expire_one env (clock s))
      (select_escrows (\<lambda>r. er_status r = FUNDS_LOCKED \<and> er_type r \<in> set SIGNATURE_COLLECTION_PROVIDERS
         \<and> (case er_expiresAt r of None \<Rightarrow> False | Some e \<Rightarrow> e \<le> clock s)) s) rep)" for rep
    by (intro preserves_loop expire_one_keeps)
      (auto dest!: select_escrows_sound simp: due_def split: option.splits)
  have refund: "preserves ?I (loopH (refund_one env)
      (select_escrows (\<lambda>r. er_status r = FUNDS_LOCKED
         \<and> (case er_expiresAt r of None \<Rightarrow> False | Some e \<Rightarrow> e < clock s)) s1) rep)" if I: "?I s1" for rep s1
  proof (intro preserves_loop refund_one_keeps)
    fix c assume c: "c \<in> set (select_escrows (\<lambda>r. er_status r = FUNDS_LOCKED
         \<and> (case er_expiresAt r of None \<Rightarrow> False | Some e \<Rightarrow> e < clock s)) s1)"
      and ns: "\<not> isSignatureCollectionType (er_type (snd c))"
    note sel = select_escrows_sound [OF c]
    obtain r where r: "escrows s (fst c) = Some r" "swept_row (clock s) (fst c) (semantic_records s1) r (snd c)"
      using swept_lookup [OF I] sel by blast
    moreover have "er_status r = FUNDS_LOCKED"
      using r(2) sel by (auto simp: swept_row_def swept_status_def)
    ultimately show "due (clock s) False (fst c) s"
      using sel ns swept_row_fields [OF r(2)] by (auto simp: due_def split: option.splits)
  qed
  have "wpH (sweepExpiredEscrows env) (\<lambda>_. ?I) (\<lambda>_. ?I) s"
    using preserves_wp [OF expire swept_refl, unfolded wpH_def] refund
    by (auto simp: sweepExpiredEscrows_def findFundsLockedExpiryCandidates_def findExpiredFundsLocked_def wp_seqH wp_readH
        intro!: wpH_mono [OF preserves_wp [OF expire swept_refl]] preserves_wp)
  then have "?I (snd (sweepExpiredEscrows env s))" by (rule wpH_snd)
  then show ?thesis by (simp add: swept_def)
qed

end
