(* ===== verification/Escrow_Concurrency.thy ===== *)
theory Escrow_Concurrency
  imports Escrow_Payout
begin

text \<open>
  Concurrent requests on the escrow table. A fund-moving request is not atomic: it reads the
  row and passes its guards, claims the transition, calls the provider, and then either
  finishes its bookkeeping or gives the claim back; other requests run in between. The step
  relation below interleaves any number of such requests. Each step is one of the handlers of
  \<^verbatim>\<open>escrow-lifecycle.ts\<close> or of the repository, run on the shared state; what a provider returns
  besides success or failure plays no part here.
\<close>

section \<open>Requests in progress\<close>

datatype mover = LockOp | ReleaseOp string | RefundOp | SplitOp string string rat

fun target :: "mover \<Rightarrow> EscrowStatus" where
  "target LockOp = FUNDS_LOCKED"
| "target (ReleaseOp _) = COMPLETED"
| "target RefundOp = REFUNDED"
| "target (SplitOp _ _ _) = SPLIT"

fun action :: "mover \<Rightarrow> provider_action" where
  "action LockOp = LockCall"
| "action (ReleaseOp a) = ReleaseCall a"
| "action RefundOp = RefundCall"
| "action (SplitOp a b x) = SplitCall a b x"

definition pays :: "mover \<Rightarrow> bool" where
  "pays op \<longleftrightarrow> op \<noteq> LockOp"

text \<open>
  Where a request is: its guards have passed, it holds the claim and the provider has not
  answered, the provider has succeeded, or an error is about to give the claim back. The error
  may come from the provider, from what precedes its call, or from the bookkeeping after it.
\<close>

datatype stage = Checked | InFlight | Paid | Failing

type_synonym request = "stage \<times> string \<times> mover \<times> EscrowStatus"

text \<open>\<open>late i\<close> counts the requests on an escrow whose bookkeeping threw after the provider had succeeded.\<close>

record system =
  shared :: settlement_state
  requests :: "nat \<rightharpoonup> request"
  late :: "string \<Rightarrow> nat"

abbreviation status_in :: "settlement_state \<Rightarrow> string \<Rightarrow> EscrowStatus option" where
  "status_in s i \<equiv> map_option er_status (escrows s i)"

definition payouts :: "string \<Rightarrow> settlement_state \<Rightarrow> nat" where
  "payouts i s = length (filter (\<lambda>(j, act, ok). j = i \<and> ok \<and> act \<noteq> LockCall) (provider_calls s))"

inductive system_step :: "settle_env \<Rightarrow> system \<Rightarrow> system \<Rightarrow> bool" for env where
  check: "requests c k = None \<Longrightarrow> escrows (shared c) i = Some r \<Longrightarrow>
    assertEscrowTransition (er_status r) (target op) = Inr () \<Longrightarrow>
    system_step env c (c\<lparr>requests := (requests c)(k \<mapsto> (Checked, i, op, er_status r))\<rparr>)"
| win: "requests c k = Some (Checked, i, op, from) \<Longrightarrow>
    claimEscrowTransition env i from (target op) (shared c) = (Inr (), s') \<Longrightarrow>
    system_step env c (c\<lparr>shared := s', requests := (requests c)(k \<mapsto> (InFlight, i, op, from))\<rparr>)"
| lose: "requests c k = Some (Checked, i, op, from) \<Longrightarrow>
    claimEscrowTransition env i from (target op) (shared c) = (Inl e, s') \<Longrightarrow>
    system_step env c (c\<lparr>shared := s', requests := (requests c)(k := None)\<rparr>)"
| answer: "requests c k = Some (InFlight, i, op, from) \<Longrightarrow>
    callProvider i (action op) (f :: nat \<Rightarrow> unit result) (shared c) = (ans, s') \<Longrightarrow>
    system_step env c (c\<lparr>shared := s',
      requests := (requests c)(k \<mapsto> (case ans of Inl _ \<Rightarrow> Failing | Inr _ \<Rightarrow> Paid, i, op, from))\<rparr>)"
| unavailable: "requests c k = Some (InFlight, i, op, from) \<Longrightarrow>
    system_step env c (c\<lparr>requests := (requests c)(k \<mapsto> (Failing, i, op, from))\<rparr>)"
| finish: "requests c k = Some (Paid, i, op, from) \<Longrightarrow>
    system_step env c (c\<lparr>requests := (requests c)(k := None)\<rparr>)"
| abort: "requests c k = Some (Paid, i, op, from) \<Longrightarrow>
    system_step env c (c\<lparr>requests := (requests c)(k \<mapsto> (Failing, i, op, from)), late := (late c)(i := Suc (late c i))\<rparr>)"
| give_back: "requests c k = Some (Failing, i, op, from) \<Longrightarrow>
    revertEscrowStatus i (target op) from (shared c) = (Inr (), s') \<Longrightarrow>
    system_step env c (c\<lparr>shared := s', requests := (requests c)(k := None)\<rparr>)"
| single: "to \<in> {PAYMENT_PENDING, DISPUTED, EXPIRED} \<Longrightarrow> to \<in> set (VALID_TRANSITIONS from) \<Longrightarrow>
    claimTransitionE i from to (shared c) = (Inr n, s') \<Longrightarrow>
    system_step env c (c\<lparr>shared := s'\<rparr>)"
| elsewhere: "provider_calls s' = provider_calls (shared c) \<Longrightarrow>
    (\<And>i. status_in s' i = status_in (shared c) i \<or> status_in (shared c) i = None \<and> status_in s' i = Some CREATED) \<Longrightarrow>
    system_step env c (c\<lparr>shared := s'\<rparr>)"



section \<open>What the shared steps do\<close>

lemma claim_effect:
  "wpH (claimEscrowTransition env i from to)
     (\<lambda>_ s'. to \<in> set (VALID_TRANSITIONS from) \<and> status_in s i = Some from
        \<and> (\<forall>j. status_in s' j = (if j = i then Some to else status_in s j)) \<and> provider_calls s' = provider_calls s)
     (\<lambda>_ s'. (\<forall>j. status_in s' j = status_in s j) \<and> provider_calls s' = provider_calls s) s"
  by (auto simp: claimEscrowTransition_def wp_eqs claimEscrowStatus_def conflict_recorded_def case_prod_beta Let_def
      split: option.splits)

lemma revert_effect:
  "wpH (revertEscrowStatus i claimed from)
     (\<lambda>_ s'. (\<forall>j. status_in s' j = status_in s j \<or> j = i \<and> status_in s i = Some claimed \<and> status_in s' i = Some from)
            \<and> provider_calls s' = provider_calls s)
     (\<lambda>_ _. False) s"
  by (auto simp: wp_revertEscrowStatus claimEscrowStatus_def split: option.splits list.splits bool.splits)

lemma wpH_run: "wpH m Q E s \<Longrightarrow> m s = (r, s') \<Longrightarrow> (case r of Inl e \<Rightarrow> E e s' | Inr a \<Rightarrow> Q a s')"
  by (simp add: wpH_def split: sum.split)

lemma target_terminal: "pays op \<Longrightarrow> VALID_TRANSITIONS (target op) = []"
  by (cases op) (simp_all add: pays_def)

lemma answer_effect:
  assumes "callProvider i (action op) f s = (ans, s')"
  shows "escrows s' = escrows s"
    and "payouts j s' = payouts j s + (if j = i \<and> pays op \<and> (\<exists>x. ans = Inr x) then 1 else 0)"
proof -
  have eq: "ans = f (length (provider_calls s))"
    "s' = s\<lparr>provider_calls := provider_calls s @ [(i, action op, case ans of Inl _ \<Rightarrow> False | Inr _ \<Rightarrow> True)]\<rparr>"
    using assms by (auto simp: callProvider_def Let_def)
  have "action op = LockCall \<longleftrightarrow> \<not> pays op" by (cases op) (simp_all add: pays_def)
  then show "escrows s' = escrows s"
    and "payouts j s' = payouts j s + (if j = i \<and> pays op \<and> (\<exists>x. ans = Inr x) then 1 else 0)"
    using eq by (auto simp: payouts_def split: sum.splits)
qed

section \<open>The invariant\<close>

definition paid_out :: "EscrowStatus option \<Rightarrow> bool" where
  "paid_out st \<longleftrightarrow> st \<in> {Some COMPLETED, Some REFUNDED, Some SPLIT}"

definition holds :: "system \<Rightarrow> nat \<Rightarrow> string \<Rightarrow> mover \<Rightarrow> bool" where
  "holds c k i op \<longleftrightarrow>
     (case requests c k of None \<Rightarrow> False | Some (sg, j, op', _) \<Rightarrow> pays op \<and> sg \<noteq> Checked \<and> j = i \<and> op' = op)"

lemma holds_updates [simp]:
  "holds (c\<lparr>requests := (requests c)(k \<mapsto> (sg, i, op, from))\<rparr>) k' j op'
     = (if k' = k then pays op' \<and> sg \<noteq> Checked \<and> j = i \<and> op' = op else holds c k' j op')"
  "holds (c\<lparr>requests := (requests c)(k := None)\<rparr>) k' j op' = (k' \<noteq> k \<and> holds c k' j op')"
  "holds (c\<lparr>shared := s, requests := (requests c)(k \<mapsto> (sg, i, op, from))\<rparr>) k' j op'
     = (if k' = k then pays op' \<and> sg \<noteq> Checked \<and> j = i \<and> op' = op else holds c k' j op')"
  "holds (c\<lparr>shared := s, requests := (requests c)(k := None)\<rparr>) k' j op' = (k' \<noteq> k \<and> holds c k' j op')"
  "holds (c\<lparr>requests := (requests c)(k \<mapsto> (sg, i, op, from)), late := l\<rparr>) k' j op'
     = (if k' = k then pays op' \<and> sg \<noteq> Checked \<and> j = i \<and> op' = op else holds c k' j op')"
  "holds (c\<lparr>shared := s\<rparr>) k' j op' = holds c k' j op'"
  by (auto simp: holds_def)

lemma holdsI: "requests c k = Some (sg, i, op, from) \<Longrightarrow> sg \<noteq> Checked \<Longrightarrow> pays op \<Longrightarrow> holds c k i op"
  by (simp add: holds_def)

lemma holds_pays: "holds c k i op \<Longrightarrow> pays op"
  by (auto simp: holds_def split: option.splits)

definition legal_moves :: "system \<Rightarrow> bool" where
  "legal_moves c \<longleftrightarrow> (\<forall>k sg i op from. requests c k = Some (sg, i, op, from) \<longrightarrow> target op \<in> set (VALID_TRANSITIONS from))"

definition claims_stored :: "system \<Rightarrow> bool" where
  "claims_stored c \<longleftrightarrow> (\<forall>k i op. holds c k i op \<longrightarrow> status_in (shared c) i = Some (target op))"

definition exclusive :: "system \<Rightarrow> bool" where
  "exclusive c \<longleftrightarrow> (\<forall>k k' i op op'. holds c k i op \<longrightarrow> holds c k' i op' \<longrightarrow> k = k')"

definition counted :: "system \<Rightarrow> bool" where
  "counted c \<longleftrightarrow> (\<forall>i. payouts i (shared c) \<le> late c i + (if paid_out (status_in (shared c) i) then 1 else 0)
     \<and> (\<forall>k op from sg. requests c k = Some (sg, i, op, from) \<longrightarrow> pays op \<longrightarrow> sg \<in> {InFlight, Failing}
           \<longrightarrow> payouts i (shared c) \<le> late c i))"

definition system_ok :: "system \<Rightarrow> bool" where
  "system_ok c \<longleftrightarrow> legal_moves c \<and> claims_stored c \<and> exclusive c \<and> counted c"

lemma claims_storedD: "claims_stored c \<Longrightarrow> holds c k i op \<Longrightarrow> status_in (shared c) i = Some (target op)"
  unfolding claims_stored_def by blast

lemma exclusiveD: "exclusive c \<Longrightarrow> holds c k i op \<Longrightarrow> holds c k' i op' \<Longrightarrow> k = k'"
  unfolding exclusive_def by blast

lemma legal_step: "system_step env c c' \<Longrightarrow> legal_moves c \<Longrightarrow> legal_moves c'"
  by (induction rule: system_step.induct) (auto simp: legal_moves_def assertEscrowTransition_def split: if_splits)

text \<open>
  A status reached by a payout has no successor, so no claim can start from it, and only the
  request that stored it can take it back.
\<close>

lemma stays_stored:
  assumes "pays op" and "status_in s i = Some (target op)"
  shows "claimEscrowTransition env j from to s = (Inr (), s') \<Longrightarrow> status_in s' i = Some (target op) \<and> j \<noteq> i"
    and "claimEscrowTransition env j from to s = (Inl e, s') \<Longrightarrow> status_in s' i = Some (target op)"
    and "to \<in> set (VALID_TRANSITIONS from) \<Longrightarrow> claimTransitionE j from to s = (Inr n, s')
           \<Longrightarrow> status_in s' i = Some (target op)"
  using assms target_terminal [OF assms(1)] wpH_run [OF claim_effect, of env j "from" to s]
  by (auto simp: claimTransitionE_def claimEscrowStatus_def split: option.splits if_splits)


lemma stored_step:
  assumes "system_step env c c'" and "claims_stored c" and "exclusive c"
  shows "claims_stored c'"
  using assms
proof (induction rule: system_step.induct)
  case (check c k i r op)
  then show ?case by (auto simp: claims_stored_def)
next
  case (win c k i op "from" s')
  have "status_in s' j = Some (target op')" if "holds c k' j op'" for k' j op'
    using stays_stored(1) [OF holds_pays [OF that] claims_storedD [OF win.prems(1) that] win.hyps(2)] by blast
  moreover have "status_in s' i = Some (target op)" using wpH_run [OF claim_effect win.hyps(2)] by auto
  ultimately show ?case by (simp add: claims_stored_def)
next
  case (lose c k i op "from" e s')
  have "status_in s' j = Some (target op')" if "holds c k' j op'" for k' j op'
    using stays_stored(2) [OF holds_pays [OF that] claims_storedD [OF lose.prems(1) that] lose.hyps(2)] .
  then show ?case by (auto simp: claims_stored_def)
next
  case (answer c k i op "from" f ans s')
  have "status_in s' j = Some (target op')" if "holds c k' j op'" for k' j op'
    using claims_storedD [OF answer.prems(1) that] answer_effect(1) [OF answer.hyps(2)] by simp
  moreover have "holds c k i op'" if "pays op'" "op' = op" for op'
    using holdsI [OF answer.hyps(1)] that by simp
  ultimately show ?case by (auto simp: claims_stored_def)
next
  case (finish c k i op "from")
  then show ?case by (auto simp: claims_stored_def)
next
  case (unavailable c k i op "from")
  then have "pays op \<Longrightarrow> status_in (shared c) i = Some (target op)"
    using holdsI [OF unavailable.hyps(1)] claims_storedD by blast
  with unavailable.prems(1) show ?case by (auto simp: claims_stored_def)
next
  case (abort c k i op "from")
  then have "pays op \<Longrightarrow> status_in (shared c) i = Some (target op)"
    using holdsI [OF abort.hyps(1)] claims_storedD by blast
  with abort.prems(1) show ?case by (auto simp: claims_stored_def)
next
  case (give_back c k i op "from" s')
  have "status_in s' j = Some (target op')" if ne: "k' \<noteq> k" and h: "holds c k' j op'" for k' j op'
  proof -
    have st: "status_in (shared c) j = Some (target op')" by (rule claims_storedD [OF give_back.prems(1) h])
    have "\<not> (j = i \<and> target op = target op')"
    proof
      assume eq: "j = i \<and> target op = target op'"
      then have "pays op" using holds_pays [OF h] by (cases op; cases op') (auto simp: pays_def)
      then have "holds c k i op" using holdsI [OF give_back.hyps(1)] by simp
      with h eq ne exclusiveD [OF give_back.prems(2)] show False by blast
    qed
    moreover have "status_in s' j = status_in (shared c) j \<or> j = i \<and> status_in (shared c) i = Some (target op)"
      using wpH_run [OF revert_effect give_back.hyps(2)] by auto
    ultimately show ?thesis using st by auto
  qed
  then show ?case by (auto simp: claims_stored_def)
next
  case (single to "from" i c n s')
  have "status_in s' j = Some (target op')" if "holds c k' j op'" for k' j op'
    using stays_stored(3) [OF holds_pays [OF that] claims_storedD [OF single.prems(1) that] single.hyps(2,3)] .
  then show ?case by (auto simp: claims_stored_def)
next
  case (elsewhere s' c)
  have "status_in s' j = Some (target op')" if "holds c k' j op'" for k' j op'
    using claims_storedD [OF elsewhere.prems(1) that] elsewhere.hyps(2) [of j] by auto
  then show ?case by (auto simp: claims_stored_def)
qed

lemma exclusive_step:
  assumes "system_step env c c'" and "claims_stored c" and "exclusive c"
  shows "exclusive c'"
  using assms
proof (induction rule: system_step.induct)
  case (win c k i op "from" s')
  have "\<not> holds c k' i op'" for k' op'
  proof
    assume h: "holds c k' i op'"
    from stays_stored(1) [OF holds_pays [OF h] claims_storedD [OF win.prems(1) h] win.hyps(2)] show False by simp
  qed
  with win.prems(2) show ?case by (auto simp: exclusive_def)
next
  case (answer c k i op "from" f ans s')
  then have "holds c k i op'" if "pays op'" "op' = op" for op' using holdsI [OF answer.hyps(1)] that by simp
  with answer.prems(2) show ?case unfolding exclusive_def holds_updates by metis
next
  case (unavailable c k i op "from")
  then have "holds c k i op'" if "pays op'" "op' = op" for op' using holdsI [OF unavailable.hyps(1)] that by simp
  with unavailable.prems(2) show ?case unfolding exclusive_def holds_updates by metis
next
  case (abort c k i op "from")
  then have "holds c k i op'" if "pays op'" "op' = op" for op' using holdsI [OF abort.hyps(1)] that by simp
  with abort.prems(2) show ?case unfolding exclusive_def holds_updates by metis
qed (auto simp: exclusive_def)

lemma pays_paid_out: "pays op \<Longrightarrow> paid_out (Some (target op))"
  by (cases op) (simp_all add: pays_def paid_out_def)

lemma no_successor_of_paid_out: "paid_out (Some st) \<Longrightarrow> VALID_TRANSITIONS st = []"
  by (auto simp: paid_out_def)

lemma countedD:
  assumes "counted c"
  shows "payouts i (shared c) \<le> late c i + (if paid_out (status_in (shared c) i) then 1 else 0)"
    and "requests c k = Some (sg, i, op, from) \<Longrightarrow> pays op \<Longrightarrow> sg \<in> {InFlight, Failing} \<Longrightarrow> payouts i (shared c) \<le> late c i"
  using assms unfolding counted_def by blast+

lemma countedI:
  assumes "\<And>i. payouts i (shared c) \<le> late c i + (if paid_out (status_in (shared c) i) then 1 else 0)"
    and "\<And>k i op from sg. requests c k = Some (sg, i, op, from) \<Longrightarrow> pays op \<Longrightarrow> sg \<in> {InFlight, Failing}
           \<Longrightarrow> payouts i (shared c) \<le> late c i"
  shows "counted c"
  using assms unfolding counted_def by blast

text \<open>Steps that neither call a provider nor leave a status reached by a payout.\<close>

lemma counted_quiet:
  assumes c: "counted c" and calls: "provider_calls s' = provider_calls (shared c)"
    and kept: "\<And>i. paid_out (status_in (shared c) i) \<Longrightarrow> paid_out (status_in s' i)"
    and rq: "\<And>k i op from sg. rq k = Some (sg, i, op, from) \<Longrightarrow> sg \<in> {InFlight, Failing} \<Longrightarrow>
       requests c k = Some (sg, i, op, from) \<or> \<not> pays op \<or> payouts i (shared c) \<le> late c i"
  shows "counted (c\<lparr>shared := s', requests := rq\<rparr>)"
proof (rule countedI)
  have p: "payouts i s' = payouts i (shared c)" for i using calls by (simp add: payouts_def)
  fix i
  show "payouts i (shared (c\<lparr>shared := s', requests := rq\<rparr>)) \<le> late (c\<lparr>shared := s', requests := rq\<rparr>) i
      + (if paid_out (status_in (shared (c\<lparr>shared := s', requests := rq\<rparr>)) i) then 1 else 0)"
    using countedD(1) [OF c, of i] kept [of i] by (auto simp: p split: if_splits)
next
  have p: "payouts i s' = payouts i (shared c)" for i using calls by (simp add: payouts_def)
  fix k i op "from" sg
  assume "requests (c\<lparr>shared := s', requests := rq\<rparr>) k = Some (sg, i, op, from)" "pays op" "sg \<in> {InFlight, Failing}"
  then show "payouts i (shared (c\<lparr>shared := s', requests := rq\<rparr>)) \<le> late (c\<lparr>shared := s', requests := rq\<rparr>) i"
    using rq [of k sg i op "from"] countedD(2) [OF c, of k sg i op "from"] by (auto simp: p)
qed

lemma counted_requests:
  assumes "counted c"
    and "\<And>k i op from sg. rq k = Some (sg, i, op, from) \<Longrightarrow> sg \<in> {InFlight, Failing} \<Longrightarrow>
       requests c k = Some (sg, i, op, from) \<or> \<not> pays op \<or> payouts i (shared c) \<le> late c i"
  shows "counted (c\<lparr>requests := rq\<rparr>)"
  using counted_quiet [OF assms(1), of "shared c" rq] assms(2) by simp

lemma counted_shared:
  assumes "counted c" and "provider_calls s' = provider_calls (shared c)"
    and "\<And>i. paid_out (status_in (shared c) i) \<Longrightarrow> paid_out (status_in s' i)"
  shows "counted (c\<lparr>shared := s'\<rparr>)"
  using counted_quiet [OF assms(1,2), of "requests c"] assms(3) by simp

lemma paid_out_kept:
  assumes "status_in s i = Some st" and "paid_out (Some st)"
  shows "claimEscrowTransition env j from to s = (Inr (), s') \<Longrightarrow> status_in s' i = Some st"
    and "to \<in> set (VALID_TRANSITIONS from) \<Longrightarrow> claimTransitionE j from to s = (Inr n, s') \<Longrightarrow> status_in s' i = Some st"
  using assms no_successor_of_paid_out [OF assms(2)] wpH_run [OF claim_effect, of env j "from" to s]
  by (auto simp: claimTransitionE_def claimEscrowStatus_def split: option.splits if_splits)

lemma counted_step:
  assumes "system_step env c c'" and "claims_stored c" and "exclusive c" and "legal_moves c" and "counted c"
  shows "counted c'"
  using assms
proof (induction rule: system_step.induct)
  case (check c k i r op)
  show ?case
    by (rule counted_requests [OF check.prems(4)]) (auto split: if_splits)
next
  case (win c k i op "from" s')
  note eff = wpH_run [OF claim_effect win.hyps(2)]
  have "payouts i (shared c) \<le> late c i"
    using countedD(1) [OF win.prems(4), of i] eff no_successor_of_paid_out [of "from"] by (auto split: if_splits)
  moreover have "paid_out (status_in s' j)" if "paid_out (status_in (shared c) j)" for j
    using that paid_out_kept(1) [OF _ _ win.hyps(2), of j] by (cases "status_in (shared c) j") (auto simp: paid_out_def)
  ultimately show ?case
    using eff by (intro counted_quiet [OF win.prems(4)]) (auto split: if_splits)
next
  case (lose c k i op "from" e s')
  with wpH_run [OF claim_effect lose.hyps(2)] show ?case
    by (intro counted_quiet [OF lose.prems(4)]) (auto split: if_splits)
next
  case (finish c k i op "from")
  show ?case
    by (rule counted_requests [OF finish.prems(4)]) (auto split: if_splits)
next
  case (unavailable c k i op "from")
  have "pays op \<Longrightarrow> payouts i (shared c) \<le> late c i"
    using countedD(2) [OF unavailable.prems(4) unavailable.hyps(1)] by simp
  then show ?case
    by (intro counted_requests [OF unavailable.prems(4)]) (auto split: if_splits)
next
  case (single to "from" i c n s')
  have "paid_out (status_in s' j)" if "paid_out (status_in (shared c) j)" for j
    using that paid_out_kept(2) [OF _ _ single.hyps(2,3), of j] by (cases "status_in (shared c) j") (auto simp: paid_out_def)
  moreover have "provider_calls s' = provider_calls (shared c)"
    using single.hyps(3) by (auto simp: claimTransitionE_def claimEscrowStatus_def split: option.splits if_splits)
  ultimately show ?case
    by (intro counted_shared [OF single.prems(4)]) auto
next
  case (elsewhere s' c)
  have "paid_out (status_in s' j)" if "paid_out (status_in (shared c) j)" for j
    using that elsewhere.hyps(2) [of j] by (auto simp: paid_out_def)
  with elsewhere.hyps(1) show ?case
    by (intro counted_shared [OF elsewhere.prems(4)]) auto
next
  case (answer c k i op "from" f ans s')
  note c = answer.prems(4) and eff = answer_effect [OF answer.hyps(2)]
  have fresh: "pays op \<Longrightarrow> payouts i (shared c) \<le> late c i" and st: "pays op \<Longrightarrow> paid_out (status_in (shared c) i)"
    using countedD(2) [OF c answer.hyps(1)] claims_storedD [OF answer.prems(1) holdsI [OF answer.hyps(1)]] pays_paid_out
    by auto
  have others: "k' = k" if "requests c k' = Some (sg, i, op', fr)" "pays op'" "sg \<in> {InFlight, Failing}" "pays op" for k' sg op' fr
    using exclusiveD [OF answer.prems(2) holdsI [OF that(1)] holdsI [OF answer.hyps(1)]] that by auto
  show ?case
  proof (rule countedI)
    fix j
    show "payouts j (shared (c\<lparr>shared := s', requests := (requests c)(k \<mapsto> (case ans of Inl _ \<Rightarrow> Failing | Inr _ \<Rightarrow> Paid, i, op, from))\<rparr>))
        \<le> late (c\<lparr>shared := s', requests := (requests c)(k \<mapsto> (case ans of Inl _ \<Rightarrow> Failing | Inr _ \<Rightarrow> Paid, i, op, from))\<rparr>) j
          + (if paid_out (status_in (shared (c\<lparr>shared := s', requests := (requests c)(k \<mapsto> (case ans of Inl _ \<Rightarrow> Failing | Inr _ \<Rightarrow> Paid, i, op, from))\<rparr>)) j) then 1 else 0)"
      using countedD(1) [OF c, of j] fresh st eff(2) [of j] by (auto simp: eff(1) split: if_splits)
  next
    fix k' j op' fr sg
    assume r: "requests (c\<lparr>shared := s', requests := (requests c)(k \<mapsto> (case ans of Inl _ \<Rightarrow> Failing | Inr _ \<Rightarrow> Paid, i, op, from))\<rparr>) k'
        = Some (sg, j, op', fr)" "pays op'" "sg \<in> {InFlight, Failing}"
    then show "payouts j (shared (c\<lparr>shared := s', requests := (requests c)(k \<mapsto> (case ans of Inl _ \<Rightarrow> Failing | Inr _ \<Rightarrow> Paid, i, op, from))\<rparr>))
        \<le> late (c\<lparr>shared := s', requests := (requests c)(k \<mapsto> (case ans of Inl _ \<Rightarrow> Failing | Inr _ \<Rightarrow> Paid, i, op, from))\<rparr>) j"
      using countedD(2) [OF c, of k' sg j op' fr] fresh eff(2) [of j] others [of k' sg op' fr]
      by (auto split: if_splits sum.splits)
  qed
next
  case (abort c k i op "from")
  show ?case
  proof (rule countedI, goal_cases)
    case (1 j)
    then show ?case using countedD(1) [OF abort.prems(4), of j] by (auto split: if_splits)
  next
    case (2 k' j op' fr sg)
    then show ?case
      using countedD(1) [OF abort.prems(4), of j] countedD(2) [OF abort.prems(4), of k' sg j op' fr]
      by (auto split: if_splits)
  qed
next
  case (give_back c k i op "from" s')
  note eff = wpH_run [OF revert_effect give_back.hyps(2)]
  have p: "payouts j s' = payouts j (shared c)" for j using eff by (simp add: payouts_def)
  show ?case
  proof (rule countedI, goal_cases)
    case (1 j)
    show ?case
    proof (cases "j = i \<and> pays op")
      case True
      then show ?thesis using countedD(2) [OF give_back.prems(4) give_back.hyps(1)] by (simp add: p)
    next
      case False
      then have "paid_out (status_in s' j)" if "paid_out (status_in (shared c) j)"
      proof -
        have "status_in s' j = status_in (shared c) j \<or> j = i \<and> status_in (shared c) i = Some (target op)"
          using eff by auto
        with False that show ?thesis by (cases op) (auto simp: pays_def paid_out_def)
      qed
      then show ?thesis using countedD(1) [OF give_back.prems(4), of j] by (auto simp: p split: if_splits)
    qed
  next
    case (2 k' j op' fr sg)
    then show ?case using countedD(2) [OF give_back.prems(4), of k' sg j op' fr] by (auto simp: p split: if_splits)
  qed
qed

definition idle :: "system \<Rightarrow> bool" where
  "idle c \<longleftrightarrow> requests c = Map.empty \<and> (\<forall>i. payouts i (shared c) = 0)"

lemma reachable_ok:
  assumes "(system_step env)\<^sup>*\<^sup>* c c'" and "idle c"
  shows "system_ok c'"
  using assms
proof (induction rule: rtranclp_induct)
  case base
  then show ?case
    by (simp add: system_ok_def idle_def legal_moves_def claims_stored_def exclusive_def counted_def holds_def)
next
  case (step d d')
  then have "system_ok d" by simp
  then show ?case
    using legal_step [OF step.hyps(2)] stored_step [OF step.hyps(2)] exclusive_step [OF step.hyps(2)]
      counted_step [OF step.hyps(2)]
    by (simp add: system_ok_def)
qed

section \<open>The service's operations are runs of the system\<close>

text \<open>
  Each fund-moving operation, run alone, is a sequence of the steps above. The bookkeeping
  after the provider's answer changes neither a status nor the record of provider calls.
\<close>

definition same :: "settlement_state \<Rightarrow> settlement_state \<Rightarrow> bool" where
  "same s s' \<longleftrightarrow> provider_calls s' = provider_calls s \<and> (\<forall>i. status_in s' i = status_in s i)"

lemma same_refl: "same s s"
  by (simp add: same_def)

interpretation same: bookkeeping_client "same s" env for s env
proof unfold_locales
  fix s' s'' assume "same s s'" "obligation_frame s' s''"
  then show "same s s''" using obligation_frame_fields [of s' s''] by (simp add: same_def)
qed (simp_all add: same_def log_event_def)

lemma same_row:
  assumes "same s s'" and "\<And>r. er_status (f r) = er_status r"
  shows "same s (set_escrow i f s')"
proof -
  have "status_in (set_escrow i f s') j = status_in s' j" for j
    using assms(2) by (auto simp: set_escrow_def split: option.split)
  with assms(1) show ?thesis by (simp add: same_def set_escrow_def)
qed

lemma same_updates:
  "preserves (same s) (updateLockResult i res now e)" "preserves (same s) (updateReleaseResult i tx now)"
  "preserves (same s) (updateRefundResult i tx)" "preserves (same s) (updateSplitResult i txs now)"
  "preserves (same s) (recordFundingEvidence ev)"
  unfolding updateLockResult_def updateReleaseResult_def updateRefundResult_def updateSplitResult_def
    recordFundingEvidence_def
  by (intro same.book_rules same_row; simp add: same_def)+

abbreviation steps :: "settle_env \<Rightarrow> system \<Rightarrow> system \<Rightarrow> bool" where
  "steps env \<equiv> (system_step env)\<^sup>*\<^sup>*"

lemma same_steps: "same (shared c) s' \<Longrightarrow> steps env c (c\<lparr>shared := s'\<rparr>)"
  by (rule r_into_rtranclp, rule elsewhere) (simp_all add: same_def)

text \<open>From the failing stage the claim is given back, whatever the database does.\<close>

lemma failing_steps:
  assumes "requests c k = Some (Failing, i, op, from)"
  shows "steps env c (c\<lparr>shared := snd (revertEscrowStatus i (target op) from (shared c)), requests := (requests c)(k := None)\<rparr>)"
proof -
  have "revertEscrowStatus i (target op) from (shared c) = (Inr (), snd (revertEscrowStatus i (target op) from (shared c)))"
    using wpH_run [OF revert_effect, of i "target op" "from" "shared c"]
    by (cases "revertEscrowStatus i (target op) from (shared c)") (auto split: sum.splits)
  from system_step.give_back [OF assms this] show ?thesis by (rule r_into_rtranclp)
qed

lemma late_last: "c\<lparr>late := l, shared := s, requests := rq\<rparr> = c\<lparr>shared := s, requests := rq, late := l\<rparr>"
  by (cases c) simp

lemma snd_tryOrRevert:
  "snd (tryOrRevert i claimed from m s) =
     (case m s of (Inl _, s') \<Rightarrow> snd (revertEscrowStatus i claimed from s') | (Inr _, s') \<Rightarrow> s')"
  by (auto simp: tryOrRevert_def catchH_def seqH_def throw_def split: prod.splits sum.splits)

text \<open>The part of an operation between its claim and its end, for any provider and bookkeeping.\<close>

lemma bookkeeping_steps:
  assumes k: "requests c k = Some (Paid, i, op, from)" and rest: "preserves (same (shared c)) m"
  shows "\<exists>n. steps env c (c\<lparr>shared := snd (tryOrRevert i (target op) from m (shared c)), requests := (requests c)(k := None), late := n\<rparr>)"
proof -
  obtain r s' where m: "m (shared c) = (r, s')" by fastforce
  let ?d = "c\<lparr>shared := s'\<rparr>"
  have d: "steps env c ?d" using same_steps preserves_run [OF rest same_refl m] .
  have kd: "requests ?d k = Some (Paid, i, op, from)" using k by simp
  show ?thesis
  proof (cases r)
    case (Inr a)
    have "steps env c (?d\<lparr>requests := (requests ?d)(k := None)\<rparr>)"
      using d system_step.finish [OF kd] by (rule rtranclp.rtrancl_into_rtrancl)
    then show ?thesis
      using m Inr by (intro exI [of _ "late c"]) (simp add: snd_tryOrRevert)
  next
    case (Inl e)
    let ?e = "?d\<lparr>requests := (requests ?d)(k \<mapsto> (Failing, i, op, from)), late := (late ?d)(i := Suc (late ?d i))\<rparr>"
    have "steps env c ?e"
      using d system_step.abort [OF kd] by (rule rtranclp.rtrancl_into_rtrancl)
    from rtranclp_trans [OF this failing_steps [of ?e k i op "from"]] show ?thesis
      using m Inl by (intro exI [of _ "late ?e"]) (simp add: snd_tryOrRevert late_last)
  qed
qed

lemma mover_steps:
  assumes k: "requests c k = Some (InFlight, i, op, from)" and pre: "preserves (same (shared c)) pre"
    and rest: "\<And>p x s. preserves (same s) (rest p x)"
  shows "\<exists>n. steps env c (c\<lparr>shared := snd (tryOrRevert i (target op) from
      (seqH pre (\<lambda>p. seqH (callProvider i (action op) (f p)) (rest p))) (shared c)), requests := (requests c)(k := None), late := n\<rparr>)"
proof -
  obtain r s' where m: "pre (shared c) = (r, s')" by fastforce
  let ?d = "c\<lparr>shared := s'\<rparr>"
  have d: "steps env c ?d" using same_steps preserves_run [OF pre same_refl m] .
  have kd: "requests ?d k = Some (InFlight, i, op, from)" using k by simp
  show ?thesis
  proof (cases r)
    case (Inl e)
    let ?e = "?d\<lparr>requests := (requests ?d)(k \<mapsto> (Failing, i, op, from))\<rparr>"
    have "steps env c ?e"
      using d system_step.unavailable [OF kd] by (rule rtranclp.rtrancl_into_rtrancl)
    from rtranclp_trans [OF this failing_steps [of ?e k i op "from"]] show ?thesis
      using m Inl by (intro exI [of _ "late c"]) (simp add: snd_tryOrRevert seqH_def)
  next
    case (Inr p)
    let ?u = "\<lambda>n. map_sum id (\<lambda>_. ()) (f p n)"
    obtain ans s'' where u: "callProvider i (action op) ?u s' = (ans, s'')" by fastforce
    have call: "callProvider i (action op) (f p) s' = (f p (length (provider_calls s')), s'')"
      and ans: "ans = ?u (length (provider_calls s'))"
      using u by (auto simp: callProvider_def Let_def split: sum.splits)
    let ?e = "?d\<lparr>shared := s'', requests := (requests ?d)(k \<mapsto> (case ans of Inl _ \<Rightarrow> Failing | Inr _ \<Rightarrow> Paid, i, op, from))\<rparr>"
    have u': "callProvider i (action op) ?u (shared ?d) = (ans, s'')" using u by simp
    have e: "steps env c ?e"
      using d system_step.answer [OF kd u'] by (rule rtranclp.rtrancl_into_rtrancl)
    show ?thesis
    proof (cases "f p (length (provider_calls s'))")
      case (Inl er)
      then have "requests ?e k = Some (Failing, i, op, from)" using ans by simp
      from rtranclp_trans [OF e failing_steps [OF this]] show ?thesis
        using m \<open>r = Inr p\<close> Inl call by (intro exI [of _ "late c"]) (simp add: snd_tryOrRevert seqH_def)
    next
      case (Inr x)
      then have "requests ?e k = Some (Paid, i, op, from)" using ans by simp
      from bookkeeping_steps [OF this rest, of env p x] obtain n where
        "steps env ?e (?e\<lparr>shared := snd (tryOrRevert i (target op) from (rest p x) (shared ?e)), requests := (requests ?e)(k := None), late := n\<rparr>)" ..
      from rtranclp_trans [OF e this] show ?thesis
        using m \<open>r = Inr p\<close> Inr call by (intro exI [of _ n]) (simp add: snd_tryOrRevert seqH_def)
    qed
  qed
qed

text \<open>The part before: the guards read only, and the claim is won.\<close>

lemma claim_steps:
  assumes "requests c k = None" and "escrows (shared c) i = Some r"
    and "claimEscrowTransition env i (er_status r) (target op) (shared c) = (Inr (), s')"
  shows "steps env c (c\<lparr>shared := s', requests := (requests c)(k \<mapsto> (InFlight, i, op, er_status r))\<rparr>)"
proof -
  let ?d = "c\<lparr>requests := (requests c)(k \<mapsto> (Checked, i, op, er_status r))\<rparr>"
  have "target op \<in> set (VALID_TRANSITIONS (er_status r))"
    using wpH_run [OF claim_effect assms(3)] by simp
  then have "system_step env c ?d"
    by (intro system_step.check [OF assms(1,2)]) (simp add: assertEscrowTransition_def)
  then have d: "steps env c ?d" by (rule r_into_rtranclp)
  have "system_step env ?d (?d\<lparr>shared := s', requests := (requests ?d)(k \<mapsto> (InFlight, i, op, er_status r))\<rparr>)"
    using assms(3) by (intro system_step.win) auto
  with d have "steps env c (?d\<lparr>shared := s', requests := (requests ?d)(k \<mapsto> (InFlight, i, op, er_status r))\<rparr>)"
    by (rule rtranclp.rtrancl_into_rtrancl)
  moreover have "?d\<lparr>shared := s', requests := (requests ?d)(k \<mapsto> (InFlight, i, op, er_status r))\<rparr>
      = c\<lparr>shared := s', requests := (requests c)(k \<mapsto> (InFlight, i, op, er_status r))\<rparr>"
    by (cases c) simp
  ultimately show ?thesis by simp
qed

lemma operation_steps:
  assumes k: "requests c k = None" and r: "escrows (shared c) i = Some r" and shut: "\<not> circuit_open i (shared c)"
    and ok: "target op \<in> set (VALID_TRANSITIONS (er_status r))"
    and pre: "\<And>s. preserves (same s) pre" and rest: "\<And>p x s. preserves (same s) (rest p x)"
  shows "\<exists>n. steps env c (c\<lparr>shared := snd (tryOrRevert i (target op) (er_status r)
      (seqH pre (\<lambda>p. seqH (callProvider i (action op) (f p)) (rest p))) (set_status i r (target op) (shared c))), late := n\<rparr>)"
proof -
  let ?s = "set_status i r (target op) (shared c)"
  let ?d = "c\<lparr>shared := ?s, requests := (requests c)(k \<mapsto> (InFlight, i, op, er_status r))\<rparr>"
  have "claimEscrowTransition env i (er_status r) (target op) (shared c) = (Inr (), ?s)"
    using shut ok by (intro run_wp) (simp add: wp_claimEscrowTransition [OF r])
  from claim_steps [OF k r this] have d: "steps env c ?d" .
  have kd: "requests ?d k = Some (InFlight, i, op, er_status r)" by simp
  obtain n where "steps env ?d (?d\<lparr>shared := snd (tryOrRevert i (target op) (er_status r)
      (seqH pre (\<lambda>p. seqH (callProvider i (action op) (f p)) (rest p))) (shared ?d)), requests := (requests ?d)(k := None), late := n\<rparr>)"
    using mover_steps [OF kd pre, where rest = rest and env = env and f = f, OF rest] by blast
  from rtranclp_trans [OF d this] show ?thesis
    using k by (intro exI [of _ n]) (simp add: fun_upd_idem)
qed

lemma seqH_assoc: "seqH (seqH a b) f = seqH a (\<lambda>x. seqH (b x) f)"
  by (rule ext) (simp add: seqH_def split: prod.split sum.split)

lemma seqH_ret: "seqH (ret x) f = f x"
  by (rule ext) (simp add: seqH_def ret_def)

text \<open>\<open>runs_to env c s\<close>: steps lead from \<open>c\<close>, with no request left open, to the shared state \<open>s\<close>.\<close>

definition runs_to :: "settle_env \<Rightarrow> system \<Rightarrow> settlement_state \<Rightarrow> bool" where
  "runs_to env c s \<longleftrightarrow> (\<exists>n. steps env c (c\<lparr>shared := s, late := n\<rparr>))"

lemma runs_to_same: "runs_to env c (shared c)"
  unfolding runs_to_def by (rule exI [of _ "late c"]) simp

lemma runs_to_wp: "runs_to env c (snd (m s)) \<Longrightarrow> wpH m (\<lambda>_. runs_to env c) (\<lambda>_. runs_to env c) s"
  by (simp add: wpH_snd_iff [symmetric])

lemmas same_rules = same.book_rules same.preserves_guards same_updates

lemmas op_steps = operation_steps [folded runs_to_def]

lemma release_runs_to:
  assumes "requests c k = None"
  shows "runs_to env c (snd (releaseFunds env i addr who (shared c)))"
proof (rule wpH_snd)
  note op = op_steps [OF assms, of i _ "ReleaseOp a" for a, simplified]
  show "wpH (releaseFunds env i addr who) (\<lambda>_. runs_to env c) (\<lambda>_. runs_to env c) (shared c)"
    unfolding releaseFunds_def
    by (auto simp: guard_wps intro!: runs_to_wp runs_to_same op same_rules split: option.split)
qed

lemma refund_runs_to:
  assumes "requests c k = None"
  shows "runs_to env c (snd (refundFunds env i who (shared c)))"
proof (rule wpH_snd)
  note op = op_steps [OF assms, of i _ RefundOp, simplified]
  show "wpH (refundFunds env i who) (\<lambda>_. runs_to env c) (\<lambda>_. runs_to env c) (shared c)"
    unfolding refundFunds_def
    by (auto simp: guard_wps intro!: runs_to_wp runs_to_same op same_rules split: option.split)
qed

lemma split_runs_to:
  assumes "requests c k = None"
  shows "runs_to env c (snd (splitFunds env i ba sa bps who (shared c)))"
proof (rule wpH_snd)
  note op = op_steps [OF assms, of i _ "SplitOp a b x" "ret ()" for a b x, unfolded seqH_ret, simplified]
  show "wpH (splitFunds env i ba sa bps who) (\<lambda>_. runs_to env c) (\<lambda>_. runs_to env c) (shared c)"
    unfolding splitFunds_def
    by (auto simp: guard_wps wp_liftH intro!: runs_to_wp runs_to_same op same_rules split: option.split sum.split)
qed

lemma lock_runs_to:
  assumes "requests c k = None"
  shows "runs_to env c (snd (lockFunds env i who (shared c)))"
proof (rule wpH_snd)
  note op = op_steps [OF assms, of i _ LockOp "seqH a (\<lambda>p. seqH b (\<lambda>_. ret p))" for a b,
      unfolded seqH_assoc seqH_ret, simplified]
  show "wpH (lockFunds env i who) (\<lambda>_. runs_to env c) (\<lambda>_. runs_to env c) (shared c)"
    unfolding lockFunds_def
    by (auto simp: guard_wps wp_requireEscrow wp_requireTrade intro!: runs_to_wp runs_to_same op same_rules split: option.split)
qed

definition demo_system :: system where
  "demo_system = \<lparr>shared = demo_settlement (Some (demo_escrow PAYMENT_PENDING)), requests = Map.empty, late = (\<lambda>_. 0)\<rparr>"

lemma demo_idle: "idle demo_system"
  by (simp add: idle_def demo_system_def payouts_def demo_settlement_def)

definition demo_claimed :: system where
  "demo_claimed = demo_system\<lparr>shared := set_status ''e'' (demo_escrow PAYMENT_PENDING) COMPLETED (shared demo_system),
     requests := [0 \<mapsto> (InFlight, ''e'', ReleaseOp ''addr'', PAYMENT_PENDING)]\<rparr>"

lemma demo_claimed_reachable: "(system_step demo_senv)\<^sup>*\<^sup>* demo_system demo_claimed"
proof -
  have r: "escrows (shared demo_system) ''e'' = Some (demo_escrow PAYMENT_PENDING)"
    by (simp add: demo_system_def demo_settlement_def)
  have "claimEscrowTransition demo_senv ''e'' (er_status (demo_escrow PAYMENT_PENDING)) (target (ReleaseOp ''addr'')) (shared demo_system)
      = (Inr (), set_status ''e'' (demo_escrow PAYMENT_PENDING) COMPLETED (shared demo_system))"
    by (rule run_wp, subst wp_claimEscrowTransition [OF r])
      (simp_all add: circuit_open_def window_peek_def demo_system_def demo_settlement_def demo_escrow_def)
  from claim_steps [OF _ r this, of 0] show ?thesis
    by (simp add: demo_claimed_def demo_system_def demo_escrow_def)
qed

section \<open>Properties\<close>

text \<open>
  C6: payouts exclude each other. However many release, refund and split requests run
  concurrently, with locks, payments, disputes, sweeps and failures of the database and the
  providers in between, at most one of them holds the claim of an escrow at a time, and while it
  does the stored status is its own, so the revert of any other request leaves it alone.
\<close>

theorem payouts_exclude_each_other:
  assumes "idle c" and "(system_step env)\<^sup>*\<^sup>* c c'" and "holds c' k i op" and "holds c' k' i op'"
  shows "k = k' \<and> map_option er_status (escrows (shared c') i) = Some (target op)"
proof -
  have "system_ok c'" using assms(2,1) by (rule reachable_ok)
  then show ?thesis
    using exclusiveD claims_storedD assms(3,4) by (auto simp: system_ok_def)
qed

theorem payouts_exclude_each_other_witness:
  "holds demo_claimed 0 ''e'' (ReleaseOp ''addr'')
   \<and> map_option er_status (escrows (shared demo_claimed) ''e'') = Some (target (ReleaseOp ''addr''))"
proof -
  have h: "holds demo_claimed 0 ''e'' (ReleaseOp ''addr'')"
    by (simp add: holds_def demo_claimed_def pays_def)
  with payouts_exclude_each_other [OF demo_idle demo_claimed_reachable h h] show ?thesis by simp
qed

text \<open>
  C5: an escrow is paid out at most once. Under the same interleavings the successful release,
  refund and split calls for one escrow number at most one more than the requests whose
  bookkeeping failed after the provider had succeeded.
\<close>

theorem at_most_one_payout:
  assumes "idle c" and "(system_step env)\<^sup>*\<^sup>* c c'"
  shows "payouts i (shared c') \<le> Suc (late c' i)"
proof -
  have "system_ok c'" using assms(2,1) by (rule reachable_ok)
  then show ?thesis
    using countedD(1) [of c' i] by (auto simp: system_ok_def split: if_splits)
qed

theorem at_most_one_payout_witness:
  "payouts ''e'' (shared demo_claimed) \<le> Suc (late demo_claimed ''e'')"
  by (rule at_most_one_payout [OF demo_idle demo_claimed_reachable])



text \<open>
  A payment can be acknowledged on funds that were never locked. The lock claims
  FUNDS_LOCKED before it calls the provider. If the buyer marks the payment as sent in
  between, and the provider's lock then fails, the revert finds another status and does nothing:
  the escrow stays PAYMENT_PENDING although no lock ever succeeded.
\<close>

theorem payment_pending_without_lock:
  assumes "escrows s i = Some r" and "er_status r = CREATED" and "trades s (er_tradeId r) = Some t"
    and "\<not> circuit_open i s" and "\<not> funding_uncertain i s" and "faults s = []"
    and "isPartyOrAgent who (t_buyerId t)"
  shows "\<exists>s1 s2 s3 s4 u. claimEscrowTransition env i CREATED FUNDS_LOCKED s = (Inr (), s1)
       \<and> markPaymentSent env i who s1 = (Inr u, s2)
       \<and> callProvider i LockCall (\<lambda>_. Inl e :: lock_result result) s2 = (Inl e, s3)
       \<and> revertEscrowStatus i FUNDS_LOCKED CREATED s3 = (Inr (), s4)
       \<and> map_option er_status (escrows s4 i) = Some PAYMENT_PENDING
       \<and> provider_calls s4 = provider_calls s @ [(i, LockCall, False)]"
proof -
  let ?s1 = "set_status i r FUNDS_LOCKED s"
  have claim: "claimEscrowTransition env i CREATED FUNDS_LOCKED s = (Inr (), ?s1)"
    using assms(1,2,4) by (intro run_wp) (simp add: wp_claimEscrowTransition)
  have fields: "escrows ?s1 i = Some (r\<lparr>er_status := FUNDS_LOCKED\<rparr>)" "trades ?s1 = trades s" "faults ?s1 = []"
    "provider_calls ?s1 = provider_calls s" "\<not> funding_uncertain i ?s1"
    using assms(5,6) by (simp_all add: set_status_def funding_uncertain_def listFundingEvidence_def)
  have "wpH (markPaymentSent env i who) (\<lambda>_ s2. map_option er_status (escrows s2 i) = Some PAYMENT_PENDING
      \<and> faults s2 = [] \<and> provider_calls s2 = provider_calls s) (\<lambda>_ _. False) ?s1"
    using fields assms(3,7)
    by (simp add: markPaymentSent_def withEscrowFundingLock_def wp_eqs assertEscrowTransition_def claimEscrowStatus_def
        emit_no_faults publish_event_def log_event_def)
  then obtain u s2 where paid: "markPaymentSent env i who ?s1 = (Inr u, s2)"
    and s2: "map_option er_status (escrows s2 i) = Some PAYMENT_PENDING" "faults s2 = []" "provider_calls s2 = provider_calls s"
    unfolding wpH_eq_iff [symmetric] by blast
  let ?s3 = "s2\<lparr>provider_calls := provider_calls s2 @ [(i, LockCall, False)]\<rparr>"
  have "callProvider i LockCall (\<lambda>_. Inl e :: lock_result result) s2 = (Inl e, ?s3)"
    by (simp add: callProvider_def)
  moreover have "revertEscrowStatus i FUNDS_LOCKED CREATED ?s3 = (Inr (), ?s3)"
    using s2 by (intro run_wp) (auto simp: wp_revertEscrowStatus claimEscrowStatus_def split: option.split)
  ultimately show ?thesis using claim paid s2 by auto
qed

theorem payment_pending_without_lock_witness:
  "\<exists>s1 s2 s3 s4 u. claimEscrowTransition demo_senv ''e'' CREATED FUNDS_LOCKED (demo_settlement (Some (demo_escrow CREATED))) = (Inr (), s1)
     \<and> markPaymentSent demo_senv ''e'' ''bob'' s1 = (Inr u, s2)
     \<and> callProvider ''e'' LockCall (\<lambda>_. Inl (EscrowError ''down'') :: lock_result result) s2 = (Inl (EscrowError ''down''), s3)
     \<and> revertEscrowStatus ''e'' FUNDS_LOCKED CREATED s3 = (Inr (), s4)
     \<and> map_option er_status (escrows s4 ''e'') = Some PAYMENT_PENDING
     \<and> provider_calls s4 = provider_calls (demo_settlement (Some (demo_escrow CREATED))) @ [(''e'', LockCall, False)]"
  by (rule payment_pending_without_lock [of _ _ "demo_escrow CREATED" "\<lparr>t_buyerId = ''bob'', t_sellerId = ''alice'', t_escrowId = Some ''e''\<rparr>"])
    (simp_all add: demo_settlement_def demo_escrow_def circuit_open_def window_peek_def funding_uncertain_def
      listFundingEvidence_def isPartyOrAgent_def)

end
