(* ===== verification/Revenue_Ledger.thy ===== *)
theory Revenue_Ledger
  imports Escrow_Lifecycle
begin

text \<open>
  What happens to a fee after it is owed: the evidence of its collection
  (\<^verbatim>\<open>fee-collection-recognition.service.ts\<close> and its repository), the policies that say who is
  entitled to it (\<^verbatim>\<open>distribution-policy.service.ts\<close>, \<^verbatim>\<open>distribution-recipient-repository.ts\<close>)
  and the append-only ledger of entitlements (\<^verbatim>\<open>entitlement-allocation.service.ts\<close>,
  \<^verbatim>\<open>entitlement-ledger-repository.ts\<close>). The constraints and triggers of these tables are part of
  the writes: a foreign key, a unique index or a check that is violated throws.
\<close>

section \<open>Amounts in native units\<close>

text \<open>\<^verbatim>\<open>toFixed(d)\<close> of a decimal: digits, a point and \<open>d\<close> digits, halves rounded away from zero.\<close>

definition pad_left :: "nat \<Rightarrow> string \<Rightarrow> string" where
  "pad_left d s = replicate (d - length s) (CHR ''0'') @ s"

definition toFixed :: "nat \<Rightarrow> rat \<Rightarrow> string" where
  "toFixed d x =
     (let n = to_fixed_0 (x * 10 ^ d); m = nat \<bar>n\<bar> in
      (if n < 0 then ''-'' else []) @ show_nat (m div 10 ^ d)
        @ (if d = 0 then [] else CHR ''.'' # pad_left d (show_nat (m mod 10 ^ d))))"

definition toNativeUnits :: "string \<Rightarrow> nat \<Rightarrow> int result" where
  "toNativeUnits decimalAmount decimals =
     (let whole = takeWhile (\<lambda>c. c \<noteq> CHR ''.'') decimalAmount;
          fraction = takeWhile (\<lambda>c. c \<noteq> CHR ''.'') (drop (Suc (length whole)) decimalAmount);
          cut = take decimals fraction;
          truncatedFraction = cut @ replicate (decimals - length cut) (CHR ''0'')
      in case parse_bigint (if whole = [] then ''0'' else whole) of
           Inl e \<Rightarrow> Inl e
         | Inr w \<Rightarrow> (case parse_bigint (if truncatedFraction = [] then ''0'' else truncatedFraction) of
                       Inl e \<Rightarrow> Inl e
                     | Inr f \<Rightarrow> Inr (w * 10 ^ decimals + f)))"

fun nativeUnitDecimalsFor :: "AssetType \<Rightarrow> nat result" where
  "nativeUnitDecimalsFor A_BTC = Inr 8"
| "nativeUnitDecimalsFor LN_BTC = Inr 8"
| "nativeUnitDecimalsFor LIQUID_BTC = Inr 8"
| "nativeUnitDecimalsFor RSK_BTC = Inr 8"
| "nativeUnitDecimalsFor USDT_ERC20 = Inr 6"
| "nativeUnitDecimalsFor USDT_TRC20 = Inr 6"
| "nativeUnitDecimalsFor USDT_LIQUID = Inr 6"
| "nativeUnitDecimalsFor USDT_LIGHTNING = Inr 6"
| "nativeUnitDecimalsFor _ = Inl (EscrowError ''no native-unit decimals mapping defined'')"

text \<open>A column of type \<^verbatim>\<open>numeric(p, 8)\<close> stores eight decimals, halves rounded away from zero.\<close>

definition numeric_8 :: "rat \<Rightarrow> rat" where
  "numeric_8 x = of_int (to_fixed_0 (x * 100000000)) / 100000000"

section \<open>Rows and state\<close>

datatype FeeCollectionEvidenceKind = BROADCAST | CONFIRMED | REPLACED | DROPPED | REORGED_OUT | ALTERNATE_SPEND

record evidence_row =
  fe_id :: string
  fe_feeObligationId :: string
  fe_kind :: FeeCollectionEvidenceKind
  fe_txid :: "string option"
  fe_vout :: "nat option"
  fe_scriptPubKey :: "string option"
  fe_amount :: "rat option"
  fe_confirmedAtHeight :: "int option"
  fe_note :: "string option"
  fe_distributionPolicyVersionId :: "string option"

datatype DistributionPolicyStatus = DP_DRAFT | DP_PUBLISHED | DP_RETIRED

record distribution_policy_row =
  dp_id :: string
  dp_label :: string
  dp_status :: DistributionPolicyStatus
  dp_createdBy :: string

record policy_recipient_row =
  dr_policyVersionId :: string
  dr_recipientId :: string
  dr_weightPct :: rat

record recipient_row =
  rc_id :: string
  rc_class :: string
  rc_identityKey :: "string option"
  rc_label :: string

datatype EntitlementLedgerEntryKind = ALLOCATION | REVERSAL

record ledger_row =
  le_id :: string
  le_feeObligationId :: string
  le_confirmationEvidenceId :: string
  le_distributionPolicyVersionId :: string
  le_recipientId :: string
  le_asset :: AssetType
  le_rail :: EscrowType
  le_kind :: EntitlementLedgerEntryKind
  le_amount :: rat
  le_reversalOfId :: "string option"

text \<open>The tables of this module beside those of the settlement module; lists are in the order of insertion.\<close>

record revenue_state =
  base :: settlement_state
  evidence :: "evidence_row list"
  recipients :: "recipient_row list"
  dist_policies :: "distribution_policy_row list"
  policy_recipients :: "policy_recipient_row list"
  ledger :: "ledger_row list"

type_synonym 'a revenue = "(revenue_state, 'a) handler"

definition onBase :: "'a settle \<Rightarrow> 'a revenue" where
  "onBase m s = (case m (base s) of (r, b) \<Rightarrow> (r, s\<lparr>base := b\<rparr>))"

text \<open>
  An insert draws an identifier; it fails when the database does, and inside a transaction an
  error takes back every write.
\<close>

definition insertRow :: "settle_env \<Rightarrow> string \<Rightarrow> (string \<Rightarrow> revenue_state \<Rightarrow> revenue_state) \<Rightarrow> string revenue" where
  "insertRow env tag f =
     seqH (readH (\<lambda>s. s_uuid env (draws (base s)))) (\<lambda>i.
     seqH (onBase (dbWrite tag (\<lambda>b. b\<lparr>draws := Suc (draws b)\<rparr>))) (\<lambda>_.
     seqH (writeH (f i)) (\<lambda>_. ret i)))"

definition transactionR :: "'a revenue \<Rightarrow> 'a revenue" where
  "transactionR m s =
     (case m s of
        (Inl e, s') \<Rightarrow> (Inl e, s\<lparr>base := (base s)\<lparr>faults := faults (base s')\<rparr>\<rparr>)
      | (Inr a, s') \<Rightarrow> (Inr a, s'))"

section \<open>Recipients and distribution policies\<close>

text \<open>A class without an identity key has at most one recipient.\<close>

definition createRecipient :: "settle_env \<Rightarrow> string \<Rightarrow> string option \<Rightarrow> string \<Rightarrow> string revenue" where
  "createRecipient env cls key label =
     seqH (readH (\<lambda>s. key = None \<and> list_ex (\<lambda>r. rc_class r = cls \<and> rc_identityKey r = None) (recipients s))) (\<lambda>dup.
     seqH (guardH (\<not> dup) (DatabaseError ''P2002'')) (\<lambda>_.
       insertRow env ''distributionRecipient'' (\<lambda>i s. s\<lparr>recipients := recipients s @
         [\<lparr>rc_id = i, rc_class = cls, rc_identityKey = key, rc_label = label\<rparr>]\<rparr>)))"

definition findSingletonByClass :: "string \<Rightarrow> recipient_row option revenue" where
  "findSingletonByClass cls =
     readH (\<lambda>s. find (\<lambda>r. rc_class r = cls \<and> rc_identityKey r = None) (recipients s))"

definition recipients_of :: "string \<Rightarrow> revenue_state \<Rightarrow> policy_recipient_row list" where
  "recipients_of pid s = filter (\<lambda>r. dr_policyVersionId r = pid) (policy_recipients s)"

definition findDistributionPolicy :: "string \<Rightarrow> (distribution_policy_row \<times> policy_recipient_row list) option revenue" where
  "findDistributionPolicy pid =
     readH (\<lambda>s. map_option (\<lambda>p. (p, recipients_of pid s)) (find (\<lambda>p. dp_id p = pid) (dist_policies s)))"

definition findPublishedPolicies :: "distribution_policy_row list revenue" where
  "findPublishedPolicies = readH (\<lambda>s. filter (\<lambda>p. dp_status p = DP_PUBLISHED) (dist_policies s))"

definition createDistributionDraft :: "settle_env \<Rightarrow> string \<Rightarrow> string \<Rightarrow> string revenue" where
  "createDistributionDraft env label createdBy =
     insertRow env ''distributionPolicyVersion'' (\<lambda>i s. s\<lparr>dist_policies := dist_policies s @
       [\<lparr>dp_id = i, dp_label = label, dp_status = DP_DRAFT, dp_createdBy = createdBy\<rparr>]\<rparr>)"

text \<open>
  A recipient may be added to a draft only (trigger), once per policy (unique index), and must
  exist (foreign key).
\<close>

definition addRecipient :: "settle_env \<Rightarrow> string \<Rightarrow> string \<Rightarrow> rat \<Rightarrow> unit revenue" where
  "addRecipient env pid rid weight =
     seqH (readH (\<lambda>s. list_ex (\<lambda>p. dp_id p = pid \<and> dp_status p = DP_DRAFT) (dist_policies s))) (\<lambda>draft.
     seqH (guardH draft (DatabaseError ''immutability_guard'')) (\<lambda>_.
     seqH (readH (\<lambda>s. list_ex (\<lambda>r. dr_recipientId r = rid) (recipients_of pid s))) (\<lambda>dup.
     seqH (guardH (\<not> dup) (DatabaseError ''P2002'')) (\<lambda>_.
     seqH (readH (\<lambda>s. list_ex (\<lambda>r. rc_id r = rid) (recipients s))) (\<lambda>known.
     seqH (guardH known (DatabaseError ''P2003'')) (\<lambda>_.
     seqH (insertRow env ''distributionPolicyRecipient'' (\<lambda>_ s. s\<lparr>policy_recipients := policy_recipients s @
             [\<lparr>dr_policyVersionId = pid, dr_recipientId = rid, dr_weightPct = numeric_8 weight\<rparr>]\<rparr>)) (\<lambda>_. ret ())))))))"

definition setDistributionStatus :: "string \<Rightarrow> DistributionPolicyStatus \<Rightarrow> unit revenue" where
  "setDistributionStatus pid st =
     writeH (\<lambda>s. s\<lparr>dist_policies := map (\<lambda>p. if dp_id p = pid then p\<lparr>dp_status := st\<rparr> else p) (dist_policies s)\<rparr>)"

fun total_weight :: "(rat \<Rightarrow> rat) \<Rightarrow> rat \<Rightarrow> policy_recipient_row list \<Rightarrow> rat result" where
  "total_weight rnd acc [] = Inr acc"
| "total_weight rnd acc (r # rs) =
     (if dr_weightPct r < 0 \<or> dr_weightPct r = 0
      then Inl (ValidationError ''every recipient weight must be strictly greater than 0'')
      else total_weight rnd (rnd (acc + dr_weightPct r)) rs)"

text \<open>At most one policy is published (unique index over the published rows).\<close>

definition publishDistribution :: "settle_env \<Rightarrow> string \<Rightarrow> unit revenue" where
  "publishDistribution env pid =
     seqH (findDistributionPolicy pid) (\<lambda>r.
     seqH (requireH r (ValidationError ''DistributionPolicyVersion not found'')) (\<lambda>(policy, recs).
     seqH (guardH (dp_status policy = DP_DRAFT) (ValidationError ''only a DRAFT policy may be published'')) (\<lambda>_.
     seqH (guardH (recs \<noteq> []) (ValidationError ''cannot publish an empty policy'')) (\<lambda>_.
     seqH (liftH (total_weight (s_round env) 0 recs)) (\<lambda>weights.
     seqH (guardH (weights = 100) (ValidationError ''recipient weights do not sum to exactly 100'')) (\<lambda>_.
     seqH (readH (\<lambda>s. list_ex (\<lambda>p. dp_id p \<noteq> pid \<and> dp_status p = DP_PUBLISHED) (dist_policies s))) (\<lambda>taken.
     seqH (guardH (\<not> taken) (DatabaseError ''P2002'')) (\<lambda>_.
       setDistributionStatus pid DP_PUBLISHED))))))))"

definition retireDistribution :: "string \<Rightarrow> unit revenue" where
  "retireDistribution pid =
     seqH (findDistributionPolicy pid) (\<lambda>r.
     seqH (requireH r (ValidationError ''DistributionPolicyVersion not found'')) (\<lambda>(policy, _).
     seqH (guardH (dp_status policy = DP_PUBLISHED) (ValidationError ''only a PUBLISHED policy may be retired'')) (\<lambda>_.
       setDistributionStatus pid DP_RETIRED)))"

definition findLivePolicy :: "distribution_policy_row option revenue" where
  "findLivePolicy =
     seqH findPublishedPolicies (\<lambda>published.
       case published of
         [] \<Rightarrow> ret None
       | [p] \<Rightarrow> ret (Some p)
       | _ \<Rightarrow> throw (EconomicAuthorityAmbiguityError ''several DistributionPolicyVersion rows are PUBLISHED''))"

section \<open>Evidence of collection\<close>

definition recordEvidence :: "settle_env \<Rightarrow> evidence_row \<Rightarrow> string revenue" where
  "recordEvidence env row =
     seqH (readH (\<lambda>s. obligations (base s) (fe_feeObligationId row))) (\<lambda>known.
     seqH (guardH (known \<noteq> None) (DatabaseError ''P2003'')) (\<lambda>_.
       insertRow env ''feeCollectionEvidence'' (\<lambda>i s. s\<lparr>evidence := evidence s @
         [row\<lparr>fe_id := i, fe_amount := map_option numeric_8 (fe_amount row)\<rparr>]\<rparr>)))"

definition evidence_of :: "string \<Rightarrow> revenue_state \<Rightarrow> evidence_row list" where
  "evidence_of oid s = filter (\<lambda>e. fe_feeObligationId e = oid) (evidence s)"

definition listEvidence :: "string \<Rightarrow> evidence_row list revenue" where
  "listEvidence oid = readH (evidence_of oid)"

definition new_evidence :: "string \<Rightarrow> FeeCollectionEvidenceKind \<Rightarrow> string \<Rightarrow> evidence_row" where
  "new_evidence oid kind txid =
     \<lparr>fe_id = [], fe_feeObligationId = oid, fe_kind = kind, fe_txid = Some txid, fe_vout = None, fe_scriptPubKey = None,
      fe_amount = None, fe_confirmedAtHeight = None, fe_note = None, fe_distributionPolicyVersionId = None\<rparr>"

record BroadcastEvidenceInput =
  be_txid :: string
  be_vout :: nat
  be_scriptPubKey :: string
  be_amountSats :: int

definition recordBroadcastAndAdvance :: "settle_env \<Rightarrow> string \<Rightarrow> BroadcastEvidenceInput \<Rightarrow> unit revenue" where
  "recordBroadcastAndAdvance env oid ev =
     seqH (recordEvidence env ((new_evidence oid BROADCAST (be_txid ev))\<lparr>fe_vout := Some (be_vout ev),
             fe_scriptPubKey := Some (be_scriptPubKey ev),
             fe_amount := Some (s_round env (of_int (be_amountSats ev) / 100000000))\<rparr>)) (\<lambda>_.
       onBase (transitionCollectionStatus oid PENDING_COLLECTION IN_PROGRESS))"

definition last_of_kind :: "FeeCollectionEvidenceKind \<Rightarrow> evidence_row list \<Rightarrow> evidence_row option" where
  "last_of_kind kind rows = find (\<lambda>e. fe_kind e = kind) (rev rows)"

definition findObligation :: "string \<Rightarrow> fee_obligation_row option revenue" where
  "findObligation oid = readH (\<lambda>s. obligations (base s) oid)"

definition recognizeConfirmation :: "settle_env \<Rightarrow> string \<Rightarrow> string \<Rightarrow> int \<Rightarrow> unit revenue" where
  "recognizeConfirmation env oid txid confirmedAtHeight =
     seqH (findObligation oid) (\<lambda>r.
     seqH (requireH r (EscrowError ''FeeObligation not found'')) (\<lambda>obligation.
     seqH (guardH (fo_collectionStatus obligation = Some IN_PROGRESS) (EscrowError ''not IN_PROGRESS'')) (\<lambda>_.
     seqH (listEvidence oid) (\<lambda>rows.
     seqH (requireH (last_of_kind BROADCAST rows) (EscrowError ''does not match the recorded BROADCAST evidence'')) (\<lambda>lastBroadcast.
     seqH (guardH (fe_txid lastBroadcast = Some txid) (EscrowError ''does not match the recorded BROADCAST evidence'')) (\<lambda>_.
     seqH findLivePolicy (\<lambda>livePolicy.
       transactionR
         (seqH (recordEvidence env ((new_evidence oid CONFIRMED txid)\<lparr>fe_vout := fe_vout lastBroadcast,
                  fe_scriptPubKey := fe_scriptPubKey lastBroadcast, fe_amount := fe_amount lastBroadcast,
                  fe_confirmedAtHeight := Some confirmedAtHeight,
                  fe_distributionPolicyVersionId := map_option dp_id livePolicy\<rparr>)) (\<lambda>_.
            onBase (transitionCollectionStatus oid IN_PROGRESS COLLECTED))))))))))"

definition recordReplacement :: "settle_env \<Rightarrow> string \<Rightarrow> string \<Rightarrow> string \<Rightarrow> unit revenue" where
  "recordReplacement env oid oldTxid newTxid =
     seqH (recordEvidence env ((new_evidence oid REPLACED oldTxid)\<lparr>fe_note := Some (''Replaced by '' @ newTxid)\<rparr>)) (\<lambda>_. ret ())"

definition recordDropped :: "settle_env \<Rightarrow> string \<Rightarrow> string \<Rightarrow> string option \<Rightarrow> unit revenue" where
  "recordDropped env oid txid note =
     seqH (recordEvidence env ((new_evidence oid DROPPED txid)\<lparr>fe_note := note\<rparr>)) (\<lambda>_. ret ())"

definition recordReorgAndRevert :: "settle_env \<Rightarrow> string \<Rightarrow> string \<Rightarrow> bool revenue" where
  "recordReorgAndRevert env oid txid =
     seqH (findObligation oid) (\<lambda>r.
     seqH (requireH r (EscrowError ''FeeObligation not found'')) (\<lambda>obligation.
     seqH (recordEvidence env (new_evidence oid REORGED_OUT txid)) (\<lambda>_.
       if fo_collectionStatus obligation = Some DISTRIBUTED then ret False
       else if fo_collectionStatus obligation = Some COLLECTED
       then seqH (onBase (transitionCollectionStatus oid COLLECTED IN_PROGRESS)) (\<lambda>_. ret True)
       else ret False)))"

section \<open>The ledger of entitlements\<close>

text \<open>
  The constraints of an insert: the evidence is a confirmation of the same obligation
  (trigger), an allocation is positive and a reversal negative (check on the stored amount),
  and a recipient has one row of each kind per confirmation (unique index).
\<close>

definition insertLedger :: "settle_env \<Rightarrow> ledger_row \<Rightarrow> ledger_row revenue" where
  "insertLedger env row =
     seqH (readH (\<lambda>s. list_ex (\<lambda>e. fe_id e = le_confirmationEvidenceId row \<and> fe_kind e = CONFIRMED
                                    \<and> fe_feeObligationId e = le_feeObligationId row) (evidence s))) (\<lambda>confirmed.
     seqH (guardH confirmed (DatabaseError ''confirmed_evidence_guard'')) (\<lambda>_.
     seqH (guardH (if le_kind row = ALLOCATION then 0 < numeric_8 (le_amount row) else numeric_8 (le_amount row) < 0)
             (DatabaseError ''amount_sign_check'')) (\<lambda>_.
     seqH (readH (\<lambda>s. list_ex (\<lambda>l. le_confirmationEvidenceId l = le_confirmationEvidenceId row
                                    \<and> le_recipientId l = le_recipientId row \<and> le_kind l = le_kind row) (ledger s))) (\<lambda>dup.
     seqH (guardH (\<not> dup) (DatabaseError ''P2002'')) (\<lambda>_.
     seqH (insertRow env ''entitlementLedgerEntry'' (\<lambda>i s. s\<lparr>ledger := ledger s @
             [row\<lparr>le_id := i, le_amount := numeric_8 (le_amount row)\<rparr>]\<rparr>)) (\<lambda>i.
       ret (row\<lparr>le_id := i, le_amount := numeric_8 (le_amount row)\<rparr>)))))))"

text \<open>The error of a violated unique index is replaced by one that says what happened.\<close>

definition onConflict :: "string \<Rightarrow> 'a revenue \<Rightarrow> 'a revenue" where
  "onConflict msg m = catchH m (\<lambda>e. if e = DatabaseError ''P2002'' then throw (EscrowError msg) else throw e)"

fun allocate_entries :: "settle_env \<Rightarrow> ledger_row \<Rightarrow> (string \<times> rat) list \<Rightarrow> ledger_row list revenue" where
  "allocate_entries env proto [] = ret []"
| "allocate_entries env proto ((rid, amount) # es) =
     seqH (onConflict ''has already been allocated'' (insertLedger env (proto\<lparr>le_recipientId := rid, le_amount := amount\<rparr>))) (\<lambda>row.
     seqH (allocate_entries env proto es) (\<lambda>rows. ret (row # rows)))"

definition entitlements :: "(rat \<Rightarrow> rat) \<Rightarrow> int \<Rightarrow> policy_recipient_row list \<Rightarrow> (string \<times> rat) list" where
  "entitlements rnd c recs = map (\<lambda>r. (dr_recipientId r, rnd (rnd (of_int c * dr_weightPct r) / 100))) recs"

definition sum_rounded :: "(rat \<Rightarrow> rat) \<Rightarrow> rat list \<Rightarrow> rat" where
  "sum_rounded rnd xs = foldl (\<lambda>acc x. rnd (acc + x)) 0 xs"

definition collected_native :: "AssetType \<Rightarrow> rat \<Rightarrow> int result" where
  "collected_native asset fee =
     (case nativeUnitDecimalsFor asset of Inl e \<Rightarrow> Inl e | Inr d \<Rightarrow> toNativeUnits (toFixed d fee) d)"

definition allocate :: "settle_env \<Rightarrow> string \<Rightarrow> ledger_row list revenue" where
  "allocate env oid = transactionR
     (seqH (findObligation oid) (\<lambda>r.
      seqH (requireH r (NotFoundError ''FeeObligation'' oid)) (\<lambda>obligation.
      seqH (guardH (fo_collectionStatus obligation = Some COLLECTED) (EscrowError ''not COLLECTED'')) (\<lambda>_.
      seqH (requireH (fo_computedFee obligation) (EscrowError ''no computedFee/asset recorded'')) (\<lambda>fee.
      seqH (requireH (fo_asset obligation) (EscrowError ''no computedFee/asset recorded'')) (\<lambda>asset.
      seqH (onBase (findPolicy (fo_feePolicyVersionId obligation))) (\<lambda>pv.
      seqH (requireH pv (EscrowError ''references a nonexistent FeePolicyVersion'')) (\<lambda>policyVersion.
      seqH (listEvidence oid) (\<lambda>rows.
      seqH (requireH (last_of_kind CONFIRMED rows) (EscrowError ''no CONFIRMED FeeCollectionEvidence row'')) (\<lambda>confirmation.
      seqH (requireH (fe_distributionPolicyVersionId confirmation) (EscrowError ''no frozen distribution policy'')) (\<lambda>pid.
      seqH (findDistributionPolicy pid) (\<lambda>dp.
      seqH (requireH dp (EscrowError ''references a nonexistent DistributionPolicyVersion'')) (\<lambda>(policy, recs).
      seqH (guardH (recs \<noteq> []) (EscrowError ''has no recipients'')) (\<lambda>_.
      seqH (liftH (collected_native asset fee)) (\<lambda>c.
      seqH (guardH (sum_rounded (s_round env) (map dr_weightPct recs) = 100) (EscrowError ''weights do not sum to exactly 100'')) (\<lambda>_.
      seqH (guardH (sum_rounded (s_round env) (map snd (entitlements (s_round env) c recs)) = of_int c)
              (EscrowError ''computed entitlements do not sum to the collected amount'')) (\<lambda>_.
        allocate_entries env \<lparr>le_id = [], le_feeObligationId = oid, le_confirmationEvidenceId = fe_id confirmation,
            le_distributionPolicyVersionId = dp_id policy, le_recipientId = [], le_asset = asset,
            le_rail = fp_railScope policyVersion, le_kind = ALLOCATION, le_amount = 0, le_reversalOfId = None\<rparr>
          (entitlements (s_round env) c recs))))))))))))))))))"

definition reverseEntry :: "settle_env \<Rightarrow> string \<Rightarrow> ledger_row revenue" where
  "reverseEntry env originalId = transactionR
     (seqH (readH (\<lambda>s. find (\<lambda>l. le_id l = originalId) (ledger s))) (\<lambda>r.
      seqH (requireH r (NotFoundError ''EntitlementLedgerEntry'' originalId)) (\<lambda>original.
      seqH (guardH (le_kind original = ALLOCATION) (EscrowError ''only an ALLOCATION may be reversed'')) (\<lambda>_.
        onConflict ''has already been reversed''
          (insertLedger env (original\<lparr>le_kind := REVERSAL, le_amount := - le_amount original,
             le_reversalOfId := Some (le_id original)\<rparr>))))))"

fun reverse_all :: "settle_env \<Rightarrow> string list \<Rightarrow> ledger_row list revenue" where
  "reverse_all env [] = ret []"
| "reverse_all env (i # is) =
     seqH (reverseEntry env i) (\<lambda>row. seqH (reverse_all env is) (\<lambda>rows. ret (row # rows)))"

definition allocations_of :: "string \<Rightarrow> revenue_state \<Rightarrow> ledger_row list" where
  "allocations_of evId s = filter (\<lambda>l. le_confirmationEvidenceId l = evId \<and> le_kind l = ALLOCATION) (ledger s)"

definition reverseGeneration :: "settle_env \<Rightarrow> string \<Rightarrow> ledger_row list revenue" where
  "reverseGeneration env evId =
     seqH (readH (\<lambda>s. map le_id (allocations_of evId s))) (reverse_all env)"

definition sumBalance :: "string \<Rightarrow> AssetType \<Rightarrow> EscrowType \<Rightarrow> rat revenue" where
  "sumBalance rid asset rail =
     readH (\<lambda>s. sum_list (map le_amount
       (filter (\<lambda>l. le_recipientId l = rid \<and> le_asset l = asset \<and> le_rail l = rail) (ledger s))))"

definition listForObligation :: "string \<Rightarrow> ledger_row list revenue" where
  "listForObligation oid = readH (\<lambda>s. filter (\<lambda>l. le_feeObligationId l = oid) (ledger s))"

definition listForGeneration :: "string \<Rightarrow> ledger_row list revenue" where
  "listForGeneration evId = readH (\<lambda>s. filter (\<lambda>l. le_confirmationEvidenceId l = evId) (ledger s))"

section \<open>Strings of amounts\<close>

lemma show_nat_length: "n < 10 ^ d \<Longrightarrow> 0 < d \<Longrightarrow> length (show_nat n) \<le> d"
proof (induction n arbitrary: d rule: show_nat.induct)
  case (1 n)
  show ?case
  proof (cases "n < 10")
    case True
    then show ?thesis using "1.prems" by (subst show_nat.simps) simp
  next
    case False
    then have "10 ^ 1 < (10::nat) ^ d" using "1.prems"(1) by simp
    then have "1 < d" by (rule power_less_imp_less_exp [rotated]) simp
    moreover have "n div 10 < 10 ^ (d - 1)"
      using "1.prems" \<open>1 < d\<close> by (cases d) (auto simp: less_mult_imp_div_less mult.commute)
    ultimately have "length (show_nat (n div 10)) \<le> d - 1" using "1.IH" [OF False, of "d - 1"] by simp
    with \<open>1 < d\<close> False show ?thesis by (subst show_nat.simps) simp
  qed
qed

lemma parse_digits_zeros: "parse_digits (replicate k (CHR ''0'') @ s) = parse_digits s"
  by (induction k) (simp_all add: parse_digits_def)

lemma zeros_are_digits: "list_all is_digit_char (replicate k (CHR ''0''))"
  by (induction k) (simp_all add: is_digit_char_def)

lemma pad_left_show:
  assumes "n < 10 ^ d" and "0 < d"
  shows "length (pad_left d (show_nat n)) = d" and "parse_digits (pad_left d (show_nat n)) = n"
    and "is_digit_string (pad_left d (show_nat n))" and "CHR ''.'' \<notin> set (pad_left d (show_nat n))"
proof -
  show ds: "is_digit_string (pad_left d (show_nat n))"
    using digit_string_show_nat [of n] by (simp add: pad_left_def is_digit_string_def zeros_are_digits)
  show "CHR ''.'' \<notin> set (pad_left d (show_nat n))"
    by (rule digit_string_no_sep [OF ds]) (simp add: is_digit_char_def)
qed (simp_all add: pad_left_def parse_digits_zeros show_nat_length [OF assms])

lemma takeWhile_dot: "CHR ''.'' \<notin> set xs \<Longrightarrow> takeWhile (\<lambda>c. c \<noteq> CHR ''.'') (xs @ CHR ''.'' # ys) = xs"
  by (induction xs) auto

lemma native_round_trip:
  assumes "0 \<le> x"
  shows "toNativeUnits (toFixed d x) d = Inr (to_fixed_0 (x * 10 ^ d))"
proof -
  have nn: "0 \<le> to_fixed_0 (x * 10 ^ d)"
    using assms by (simp add: to_fixed_0_def le_floor_iff)
  then obtain m where m: "to_fixed_0 (x * 10 ^ d) = int m" using nonneg_int_cases by blast
  have ne: "show_nat k \<noteq> []" for k using digit_string_show_nat [of k] by (simp add: is_digit_string_def)
  have nd: "CHR ''.'' \<notin> set (show_nat k)" for k by (simp add: is_digit_char_def)
  show ?thesis
  proof (cases "d = 0")
    case True
    then show ?thesis
      using m ne nd [of m]
      by (simp add: toFixed_def Let_def toNativeUnits_def takeWhile_no_dot parse_bigint_digits)
        (simp add: parse_bigint_def is_digit_string_def is_digit_char_def parse_digits_def)
  next
    case False
    have lt: "m mod 10 ^ d < 10 ^ d" by simp
    note pad = pad_left_show [OF lt]
    have shown: "toFixed d x = show_nat (m div 10 ^ d) @ CHR ''.'' # pad_left d (show_nat (m mod 10 ^ d))"
      using m False by (simp add: toFixed_def Let_def)
    have "pad_left d (show_nat (m mod 10 ^ d)) \<noteq> []" using pad(1) False by auto
    then have "toNativeUnits (toFixed d x) d = Inr (int (m div 10 ^ d) * 10 ^ d + int (m mod 10 ^ d))"
      using False pad ne by (simp add: toNativeUnits_def shown takeWhile_dot [OF nd] takeWhile_no_dot parse_bigint_digits Let_def)
    moreover have "int (m div 10 ^ d) * 10 ^ d + int (m mod 10 ^ d) = int m"
    proof -
      have "int (m div 10 ^ d * 10 ^ d + m mod 10 ^ d) = int m" by (simp only: div_mult_mod_eq)
      then show ?thesis by simp
    qed
    ultimately show ?thesis using m by simp
  qed
qed

section \<open>Weakest preconditions and invariants of the handlers\<close>

lemma wp_onBase [wp_eqs]: "wpH (onBase m) Q E s = wpH m (\<lambda>a b. Q a (s\<lparr>base := b\<rparr>)) (\<lambda>e b. E e (s\<lparr>base := b\<rparr>)) (base s)"
  by (simp add: wpH_def onBase_def split: prod.split sum.split)

lemma wp_transactionR [wp_eqs]:
  "wpH (transactionR m) Q E s = wpH m Q (\<lambda>e s'. E e (s\<lparr>base := (base s)\<lparr>faults := faults (base s')\<rparr>\<rparr>)) s"
  by (simp add: wpH_def transactionR_def split: prod.split sum.split)

text \<open>The state after an insert that the database accepts.\<close>

definition inserted :: "settle_env \<Rightarrow> (string \<Rightarrow> revenue_state \<Rightarrow> revenue_state) \<Rightarrow> bool list \<Rightarrow> revenue_state \<Rightarrow> revenue_state" where
  "inserted env f fs s =
     f (s_uuid env (draws (base s))) (s\<lparr>base := (base s)\<lparr>faults := fs, draws := Suc (draws (base s))\<rparr>\<rparr>)"

lemma faults_same: "faults b = fs \<Longrightarrow> b\<lparr>faults := fs\<rparr> = b"
  by auto

lemma wp_insertRow [wp_eqs]:
  "wpH (insertRow env tag f) Q E s =
     (case faults (base s) of
        True # fs \<Rightarrow> E (DatabaseError tag) (s\<lparr>base := (base s)\<lparr>faults := fs\<rparr>\<rparr>)
      | False # fs \<Rightarrow> Q (s_uuid env (draws (base s))) (inserted env f fs s)
      | [] \<Rightarrow> Q (s_uuid env (draws (base s))) (inserted env f (faults (base s)) s))"
  by (auto simp: insertRow_def wp_eqs inserted_def faults_same split: list.split bool.split)

text \<open>
  What an invariant of this module has to tolerate: a fault, and the identifiers drawn by
  inserts into the tables it does not mention.
\<close>

locale revenue_invariant =
  fixes I :: "revenue_state \<Rightarrow> bool" and env :: settle_env
  assumes inv_fault: "I s \<Longrightarrow> I (s\<lparr>base := (base s)\<lparr>faults := fs\<rparr>\<rparr>)"
    and inv_draw: "I s \<Longrightarrow> I (s\<lparr>base := (base s)\<lparr>faults := fs, draws := Suc (draws (base s))\<rparr>\<rparr>)"
    and inv_recipients: "I s \<Longrightarrow> I (s\<lparr>recipients := rs\<rparr>)"
    and inv_policies: "I s \<Longrightarrow> I (s\<lparr>dist_policies := ps\<rparr>)"
    and inv_weights: "I s \<Longrightarrow> I (s\<lparr>policy_recipients := ws\<rparr>)"
    and inv_evidence: "I s \<Longrightarrow> I (s\<lparr>evidence := evidence s @ es\<rparr>)"
begin

lemma preserves_transactionR: "preserves I m \<Longrightarrow> preserves I (transactionR m)"
  by (fastforce simp: preserves_def transactionR_def inv_fault split: prod.splits sum.splits)

lemma preserves_insertRow:
  assumes "\<And>i s. I s \<Longrightarrow> I (f i s)"
  shows "preserves I (insertRow env tag f)"
proof -
  have "wpH (insertRow env tag f) (\<lambda>_. I) (\<lambda>_. I) s" if "I s" for s
    using that by (auto simp: wp_insertRow inserted_def inv_fault inv_draw assms split: list.split bool.split)
  then show ?thesis by (simp add: preserves_def wpH_snd)
qed

lemma preserves_rev_reads:
  "preserves I (findObligation oid)" "preserves I (listEvidence oid)" "preserves I (findDistributionPolicy pid)"
  "preserves I findPublishedPolicies" "preserves I (onBase (findPolicy p))"
  by (simp_all add: findObligation_def listEvidence_def findDistributionPolicy_def findPublishedPolicies_def
      preserves_readH) (simp add: preserves_def onBase_def findPolicy_def readH_def)

lemmas rev_rules = preserves_intros preserves_transactionR preserves_insertRow preserves_rev_reads

lemma preserves_recordEvidence: "preserves I (recordEvidence env row)"
  unfolding recordEvidence_def by (intro rev_rules inv_evidence)

lemma preserves_policies:
  "preserves I (createRecipient env cls key label)" "preserves I (createDistributionDraft env label who)"
  "preserves I (addRecipient env pid rid w)" "preserves I (publishDistribution env pid)" "preserves I (retireDistribution pid)"
  unfolding createRecipient_def createDistributionDraft_def addRecipient_def publishDistribution_def
    retireDistribution_def setDistributionStatus_def
  by (intro rev_rules inv_recipients inv_policies inv_weights; assumption)+

lemma preserves_findLivePolicy: "preserves I findLivePolicy"
  unfolding findLivePolicy_def by (auto intro!: rev_rules split: list.split)

lemma preserves_recordings:
  "preserves I (recordReplacement env oid a b)" "preserves I (recordDropped env oid a note)"
  unfolding recordReplacement_def recordDropped_def by (intro rev_rules preserves_recordEvidence)+

end

section \<open>The invariant of the ledger\<close>

abbreviation slot :: "ledger_row \<Rightarrow> string \<times> string \<times> EntitlementLedgerEntryKind" where
  "slot l \<equiv> (le_confirmationEvidenceId l, le_recipientId l, le_kind l)"

definition reverses :: "ledger_row \<Rightarrow> ledger_row \<Rightarrow> bool" where
  "reverses l l' \<longleftrightarrow> l = l'\<lparr>le_id := le_id l, le_kind := REVERSAL, le_amount := - le_amount l', le_reversalOfId := Some (le_id l')\<rparr>"

definition row_ok :: "ledger_row list \<Rightarrow> ledger_row \<Rightarrow> bool" where
  "row_ok ls l \<longleftrightarrow>
     (case le_kind l of
        ALLOCATION \<Rightarrow> 0 < le_amount l \<and> le_amount l = numeric_8 (le_amount l)
      | REVERSAL \<Rightarrow> list_ex (\<lambda>l'. le_kind l' = ALLOCATION \<and> reverses l l') ls)"

definition ledger_ok :: "(nat \<Rightarrow> string) \<Rightarrow> revenue_state \<Rightarrow> bool" where
  "ledger_ok gen s \<longleftrightarrow>
     distinct (map slot (ledger s)) \<and> distinct (map le_id (ledger s))
     \<and> list_all (\<lambda>l. le_id l \<in> gen ` {..<draws (base s)}) (ledger s)
     \<and> list_all (row_ok (ledger s)) (ledger s)"

lemma to_fixed_0_of_int [simp]: "to_fixed_0 (of_int n) = n"
  by (auto simp: to_fixed_0_def floor_unique ceiling_unique)

lemma to_fixed_0_minus: "to_fixed_0 (- x) = - to_fixed_0 x"
proof (cases "x = 0")
  case False
  have "\<lceil>- x - 1 / 2\<rceil> = - \<lfloor>x + 1 / 2\<rfloor>" "\<lfloor>- x + 1 / 2\<rfloor> = - \<lceil>x - 1 / 2\<rceil>"
    by (simp_all add: ceiling_def floor_minus algebra_simps)
  with False show ?thesis by (auto simp: to_fixed_0_def)
qed (simp add: to_fixed_0_of_int [of 0, simplified])

lemma numeric_8_minus: "numeric_8 (- x) = - numeric_8 x"
  by (simp add: numeric_8_def to_fixed_0_minus)

lemma numeric_8_idem [simp]: "numeric_8 (numeric_8 x) = numeric_8 x"
  by (simp add: numeric_8_def)

lemma row_ok_append: "row_ok ls l \<Longrightarrow> row_ok (ls @ ls') l"
  by (auto simp: row_ok_def split: EntitlementLedgerEntryKind.splits)

lemma ledger_ok_insert:
  assumes ok: "ledger_ok gen s" and inj: "inj gen" and gen: "s_uuid env = gen"
    and new: "slot row \<notin> slot ` set (ledger s)"
    and row: "row_ok (ledger s) (row\<lparr>le_id := gen (draws (base s)), le_amount := numeric_8 (le_amount row)\<rparr>)"
  shows "ledger_ok gen (inserted env (\<lambda>i s. s\<lparr>ledger := ledger s @ [row\<lparr>le_id := i, le_amount := numeric_8 (le_amount row)\<rparr>]\<rparr>) fs s)"
proof -
  have "gen (draws (base s)) \<notin> le_id ` set (ledger s)"
  proof
    assume "gen (draws (base s)) \<in> le_id ` set (ledger s)"
    then have "gen (draws (base s)) \<in> gen ` {..<draws (base s)}"
      using ok by (auto simp: ledger_ok_def list_all_iff)
    with inj show False by (auto dest: injD)
  qed
  moreover have "le_id l \<in> gen ` {..<Suc (draws (base s))}" if "l \<in> set (ledger s)" for l
    using ok that by (auto simp: ledger_ok_def list_all_iff)
  ultimately show ?thesis
    using ok gen new row row_ok_append
    by (auto simp: ledger_ok_def inserted_def list_all_iff)
qed

lemma wp_insertLedger:
  "wpH (insertLedger env row) Q E s =
     (if \<not> list_ex (\<lambda>e. fe_id e = le_confirmationEvidenceId row \<and> fe_kind e = CONFIRMED
                         \<and> fe_feeObligationId e = le_feeObligationId row) (evidence s)
      then E (DatabaseError ''confirmed_evidence_guard'') s
      else if \<not> (if le_kind row = ALLOCATION then 0 < numeric_8 (le_amount row) else numeric_8 (le_amount row) < 0)
      then E (DatabaseError ''amount_sign_check'') s
      else if slot row \<in> slot ` set (ledger s) then E (DatabaseError ''P2002'') s
      else wpH (insertRow env ''entitlementLedgerEntry''
                  (\<lambda>i s. s\<lparr>ledger := ledger s @ [row\<lparr>le_id := i, le_amount := numeric_8 (le_amount row)\<rparr>]\<rparr>))
             (\<lambda>i. Q (row\<lparr>le_id := i, le_amount := numeric_8 (le_amount row)\<rparr>)) E s)"
proof -
  have "list_ex (\<lambda>l. le_confirmationEvidenceId l = le_confirmationEvidenceId row
          \<and> le_recipientId l = le_recipientId row \<and> le_kind l = le_kind row) ls \<longleftrightarrow> slot row \<in> slot ` set ls" for ls
    by (induction ls) auto
  then show ?thesis
    by (simp add: insertLedger_def wp_seqH wp_readH wp_guardH wp_ret)
qed

lemma wp_onConflict:
  "wpH (onConflict msg m) Q E s =
     wpH m Q (\<lambda>e. E (if e = DatabaseError ''P2002'' then EscrowError msg else e)) s"
proof -
  have "(\<lambda>e. wpH (if e = DatabaseError ''P2002'' then throw (EscrowError msg) else throw e) Q E)
      = (\<lambda>e. E (if e = DatabaseError ''P2002'' then EscrowError msg else e))"
    by (rule ext) (simp add: wp_throw)
  then show ?thesis by (simp add: onConflict_def wp_catchH)
qed

lemma insertLedger_keeps:
  assumes "ledger_ok gen s" and "inj gen" and "s_uuid env = gen"
    and "row_ok (ledger s) (row\<lparr>le_id := gen (draws (base s)), le_amount := numeric_8 (le_amount row)\<rparr>)
         \<or> le_kind row = ALLOCATION"
  shows "wpH (insertLedger env row) (\<lambda>_. ledger_ok gen) (\<lambda>_. ledger_ok gen) s"
proof -
  have "row_ok (ledger s) (row\<lparr>le_id := gen (draws (base s)), le_amount := numeric_8 (le_amount row)\<rparr>)"
    if "if le_kind row = ALLOCATION then 0 < numeric_8 (le_amount row) else numeric_8 (le_amount row) < 0"
    using assms(4) that by (auto simp: row_ok_def)
  then show ?thesis
    using ledger_ok_insert [OF assms(1-3)] assms(1)
    by (auto simp: wp_insertLedger wp_insertRow ledger_ok_def split: list.split bool.split)
qed

interpretation ledger_inv: revenue_invariant "ledger_ok (s_uuid env)" env for env
  by unfold_locales (auto simp: ledger_ok_def list_all_iff)

lemma onConflict_keeps:
  "wpH m (\<lambda>_. I) (\<lambda>_. I) s \<Longrightarrow> wpH (onConflict msg m) (\<lambda>_. I) (\<lambda>_. I) s"
  by (simp add: wp_onConflict)

lemma allocate_entries_keeps:
  assumes "inj (s_uuid env)" and "le_kind proto = ALLOCATION"
  shows "preserves (ledger_ok (s_uuid env)) (allocate_entries env proto es)"
proof (induction es)
  case (Cons e es)
  have "preserves (ledger_ok (s_uuid env))
      (onConflict msg (insertLedger env (proto\<lparr>le_recipientId := rid, le_amount := x\<rparr>)))" for msg rid x
    unfolding preserves_def
    using onConflict_keeps [OF insertLedger_keeps [OF _ assms(1) refl]] assms(2) by (auto intro: wpH_snd)
  with Cons show ?case
    by (cases e) (auto intro!: preserves_intros)
qed (simp add: preserves_ret)

lemma allocate_keeps: "inj (s_uuid env) \<Longrightarrow> preserves (ledger_ok (s_uuid env)) (allocate env oid)"
  unfolding allocate_def by (intro ledger_inv.rev_rules allocate_entries_keeps) simp_all

lemma reverseEntry_keeps:
  assumes "inj (s_uuid env)"
  shows "preserves (ledger_ok (s_uuid env)) (reverseEntry env i)"
proof -
  have "wpH (reverseEntry env i) (\<lambda>_. ledger_ok (s_uuid env)) (\<lambda>_. ledger_ok (s_uuid env)) s"
    if ok: "ledger_ok (s_uuid env) s" for s
  proof -
    let ?rev = "\<lambda>l. l\<lparr>le_kind := REVERSAL, le_amount := - le_amount l, le_reversalOfId := Some (le_id l)\<rparr>"
    have row: "row_ok (ledger s) ((?rev l)\<lparr>le_id := s_uuid env (draws (base s)), le_amount := numeric_8 (le_amount (?rev l))\<rparr>)"
      if "l \<in> set (ledger s)" "le_kind l = ALLOCATION" for l
    proof -
      have "numeric_8 (le_amount l) = le_amount l"
        using ok that by (auto simp: ledger_ok_def list_all_iff row_ok_def)
      then show ?thesis
        using that by (auto simp: row_ok_def list_ex_iff reverses_def numeric_8_minus intro!: bexI [of _ l])
    qed
    have "wpH (onConflict msg (insertLedger env (?rev l))) (\<lambda>_. ledger_ok (s_uuid env))
        (\<lambda>_ s'. ledger_ok (s_uuid env) (s\<lparr>base := (base s)\<lparr>faults := faults (base s')\<rparr>\<rparr>)) s"
      if "l \<in> set (ledger s)" "le_kind l = ALLOCATION" for l msg
    proof (rule wpH_mono)
      show "wpH (onConflict msg (insertLedger env (?rev l))) (\<lambda>_. ledger_ok (s_uuid env)) (\<lambda>_. ledger_ok (s_uuid env)) s"
        using row [OF that] by (intro onConflict_keeps insertLedger_keeps [OF ok assms refl]) simp
    qed (simp_all add: ledger_inv.inv_fault [OF ok])
    then show ?thesis
      using ok ledger_inv.inv_fault [OF ok]
      by (auto simp: reverseEntry_def wp_transactionR wp_seqH wp_readH wp_requireH wp_guardH faults_same
          dest: find_SomeD split: option.split)
  qed
  then show ?thesis by (simp add: preserves_def wpH_snd)
qed

lemma reverseGeneration_keeps:
  assumes "inj (s_uuid env)"
  shows "preserves (ledger_ok (s_uuid env)) (reverseGeneration env ev)"
proof -
  have "preserves (ledger_ok (s_uuid env)) (reverse_all env is)" for "is"
    by (induction "is") (auto intro!: preserves_intros reverseEntry_keeps [OF assms])
  then show ?thesis unfolding reverseGeneration_def by (intro preserves_intros)
qed

section \<open>Requests\<close>

datatype revenue_op =
    RRecipient string "string option" string
  | RDraft string string
  | RAddRecipient string string rat
  | RPublish string
  | RRetire string
  | RBroadcast string BroadcastEvidenceInput
  | RConfirm string string int
  | RReplace string string string
  | RDrop string string "string option"
  | RReorg string string
  | RAllocate string
  | RReverse string
  | RReverseGeneration string

definition run_revenue_op :: "settle_env \<Rightarrow> revenue_state \<Rightarrow> bool list \<times> revenue_op \<Rightarrow> revenue_state" where
  "run_revenue_op env s req =
     (let s' = s\<lparr>base := (base s)\<lparr>faults := fst req\<rparr>\<rparr> in
      case snd req of
        RRecipient c k l \<Rightarrow> snd (createRecipient env c k l s')
      | RDraft l w \<Rightarrow> snd (createDistributionDraft env l w s')
      | RAddRecipient p r w \<Rightarrow> snd (addRecipient env p r w s')
      | RPublish p \<Rightarrow> snd (publishDistribution env p s')
      | RRetire p \<Rightarrow> snd (retireDistribution p s')
      | RBroadcast oid ev \<Rightarrow> snd (recordBroadcastAndAdvance env oid ev s')
      | RConfirm oid tx h \<Rightarrow> snd (recognizeConfirmation env oid tx h s')
      | RReplace oid a b \<Rightarrow> snd (recordReplacement env oid a b s')
      | RDrop oid tx n \<Rightarrow> snd (recordDropped env oid tx n s')
      | RReorg oid tx \<Rightarrow> snd (recordReorgAndRevert env oid tx s')
      | RAllocate oid \<Rightarrow> snd (allocate env oid s')
      | RReverse i \<Rightarrow> snd (reverseEntry env i s')
      | RReverseGeneration ev \<Rightarrow> snd (reverseGeneration env ev s'))"

lemma transition_keeps_ledger: "preserves (ledger_ok gen) (onBase (transitionCollectionStatus oid f t))"
proof -
  have "draws (snd (transitionCollectionStatus oid f t b)) = draws b" for b
    by (rule wpH_snd) (auto simp: transitionCollectionStatus_def claimCollectionStatusTransition_def wpH_def seqH_def
        guardH_def ret_def throw_def claimCollectionStatus_def split: option.split)
  then show ?thesis
    by (auto simp: preserves_def onBase_def ledger_ok_def split: prod.splits) (metis snd_conv)+
qed

lemma run_revenue_op_keeps:
  assumes "inj (s_uuid env)" and "ledger_ok (s_uuid env) s"
  shows "ledger_ok (s_uuid env) (run_revenue_op env s req)"
proof -
  note rules = ledger_inv.rev_rules transition_keeps_ledger ledger_inv.preserves_recordEvidence ledger_inv.preserves_findLivePolicy
  have "preserves (ledger_ok (s_uuid env)) (recordBroadcastAndAdvance env oid ev)"
    "preserves (ledger_ok (s_uuid env)) (recognizeConfirmation env oid tx h)"
    "preserves (ledger_ok (s_uuid env)) (recordReorgAndRevert env oid tx)" for oid ev tx h
    unfolding recordBroadcastAndAdvance_def recognizeConfirmation_def recordReorgAndRevert_def by (intro rules)+
  then show ?thesis
    using ledger_inv.inv_fault [OF assms(2)]
    by (simp add: run_revenue_op_def Let_def preservesD ledger_inv.preserves_policies ledger_inv.preserves_recordings
        allocate_keeps [OF assms(1)] reverseEntry_keeps [OF assms(1)] reverseGeneration_keeps [OF assms(1)]
        split: revenue_op.split)
qed

lemma run_revenue_ops_keep:
  assumes "inj (s_uuid env)" and "ledger_ok (s_uuid env) s"
  shows "ledger_ok (s_uuid env) (foldl (run_revenue_op env) s reqs)"
  using assms(2) by (induction reqs arbitrary: s) (simp_all add: run_revenue_op_keeps [OF assms(1)])

section \<open>Balances\<close>

definition held_by :: "string \<Rightarrow> AssetType \<Rightarrow> EscrowType \<Rightarrow> ledger_row \<Rightarrow> bool" where
  "held_by rid asset rail l \<longleftrightarrow> le_recipientId l = rid \<and> le_asset l = asset \<and> le_rail l = rail"

lemma reversesD:
  assumes "reverses l l'"
  shows "le_amount l = - le_amount l'" "le_recipientId l = le_recipientId l'" "le_asset l = le_asset l'"
    "le_rail l = le_rail l'" "le_confirmationEvidenceId l = le_confirmationEvidenceId l'" "le_kind l = REVERSAL"
    "le_reversalOfId l = Some (le_id l')"
  by (subst assms [unfolded reverses_def], simp)+

lemma ledger_ok_allocation: "ledger_ok gen s \<Longrightarrow> l \<in> set (ledger s) \<Longrightarrow> le_kind l = ALLOCATION \<Longrightarrow> 0 < le_amount l"
  by (auto simp: ledger_ok_def list_all_iff row_ok_def)

lemma ledger_ok_reversal:
  assumes "ledger_ok gen s" and "l \<in> set (ledger s)" and "le_kind l = REVERSAL"
  obtains l' where "l' \<in> set (ledger s)" and "le_kind l' = ALLOCATION" and "reverses l l'"
proof -
  have "row_ok (ledger s) l" using assms(1,2) by (simp add: ledger_ok_def list_all_iff)
  with assms(3) have "list_ex (\<lambda>l'. le_kind l' = ALLOCATION \<and> reverses l l') (ledger s)" by (simp add: row_ok_def)
  with that show thesis by (auto simp: list_ex_iff)
qed

lemma ledger_ok_slot: "ledger_ok gen s \<Longrightarrow> l \<in> set (ledger s) \<Longrightarrow> l' \<in> set (ledger s) \<Longrightarrow> slot l = slot l' \<Longrightarrow> l = l'"
  unfolding ledger_ok_def by (metis (mono_tags, lifting) distinct_map inj_on_def)

lemma balance_nonneg:
  assumes ok: "ledger_ok gen s"
  shows "0 \<le> sum_list (map le_amount (filter (held_by rid asset rail) (ledger s)))"
proof -
  let ?S = "{l \<in> set (ledger s). held_by rid asset rail l}"
  let ?A = "{l \<in> ?S. le_kind l = ALLOCATION}" and ?R = "{l \<in> ?S. le_kind l = REVERSAL}"
  have "distinct (ledger s)" using ok by (auto simp: ledger_ok_def distinct_map)
  then have sum: "sum_list (map le_amount (filter (held_by rid asset rail) (ledger s))) = sum le_amount ?S"
    by (simp add: sum_list_distinct_conv_sum_set Int_def conj_commute)
  have "\<forall>l \<in> ?R. \<exists>y. y \<in> ?A \<and> reverses l y"
  proof
    fix l assume l: "l \<in> ?R"
    then obtain l' where l': "l' \<in> set (ledger s)" "le_kind l' = ALLOCATION" "reverses l l'"
      using ledger_ok_reversal [OF ok, of l] by auto
    with l show "\<exists>y. y \<in> ?A \<and> reverses l y"
      using reversesD [OF l'(3)] by (auto simp: held_by_def)
  qed
  from bchoice [OF this] obtain f where f: "\<And>l. l \<in> ?R \<Longrightarrow> f l \<in> ?A \<and> reverses l (f l)" by blast
  have inj: "inj_on f ?R"
  proof (rule inj_onI)
    fix l k assume l: "l \<in> ?R" and k: "k \<in> ?R" and eq: "f l = f k"
    have "slot l = slot k"
      using reversesD [OF conjunct2 [OF f [OF l]]] reversesD [OF conjunct2 [OF f [OF k]]] eq by simp
    with l k show "l = k" using ledger_ok_slot [OF ok] by auto
  qed
  have "sum le_amount ?R = sum (\<lambda>l. - le_amount (f l)) ?R"
    using f reversesD(1) by (intro sum.cong) auto
  also have "\<dots> = - sum le_amount (f ` ?R)"
    using sum.reindex [OF inj, of le_amount] by (simp only: sum_negf o_def)
  finally have R: "sum le_amount ?R = - sum le_amount (f ` ?R)" .
  have "sum le_amount (f ` ?R) \<le> sum le_amount ?A"
    using f ledger_ok_allocation [OF ok] by (intro sum_mono2) (auto intro: less_imp_le)
  moreover have "sum le_amount ?S = sum le_amount ?A + sum le_amount ?R"
  proof -
    have split: "?S = ?A \<union> ?R" using EntitlementLedgerEntryKind.exhaust by blast
    have "sum le_amount (?A \<union> ?R) = sum le_amount ?A + sum le_amount ?R"
      by (rule sum.union_disjoint) auto
    then show ?thesis by (rule trans [OF arg_cong [OF split, of "sum le_amount"]])
  qed
  ultimately show ?thesis using sum R by linarith
qed

end
