(* ===== verification/Revenue_Accounting.thy ===== *)
theory Revenue_Accounting
  imports Revenue_Ledger
begin

text \<open>
  What the entitlement ledger guarantees: amounts survive the conversion to native units,
  balances are never negative, an allocation hands out exactly what was collected as long as
  the weights have at most six decimals, and reversing a generation takes it back.
\<close>

section \<open>Rows written by an allocation\<close>

fun stored_rows :: "(nat \<Rightarrow> string) \<Rightarrow> ledger_row \<Rightarrow> nat \<Rightarrow> (string \<times> rat) list \<Rightarrow> ledger_row list" where
  "stored_rows gen proto n [] = []"
| "stored_rows gen proto n ((rid, x) # es) =
     proto\<lparr>le_id := gen n, le_recipientId := rid, le_amount := numeric_8 x\<rparr> # stored_rows gen proto (Suc n) es"

definition extended :: "nat \<Rightarrow> ledger_row list \<Rightarrow> revenue_state \<Rightarrow> revenue_state" where
  "extended k rows s = s\<lparr>base := (base s)\<lparr>draws := draws (base s) + k\<rparr>, ledger := ledger s @ rows\<rparr>"

lemma extended_sel [simp]:
  "ledger (extended k rows s) = ledger s @ rows" "evidence (extended k rows s) = evidence s"
  "draws (base (extended k rows s)) = draws (base s) + k" "faults (base (extended k rows s)) = faults (base s)"
  by (simp_all add: extended_def)

lemma extended_extended [simp]: "extended k rows (extended j rows' s) = extended (j + k) (rows' @ rows) s"
  by (simp add: extended_def add.assoc)

lemma extended_0 [simp]: "extended 0 [] s = s"
  by (simp add: extended_def)

definition confirmed_in :: "revenue_state \<Rightarrow> ledger_row \<Rightarrow> bool" where
  "confirmed_in s row \<longleftrightarrow> list_ex (\<lambda>e. fe_id e = le_confirmationEvidenceId row \<and> fe_kind e = CONFIRMED
                                    \<and> fe_feeObligationId e = le_feeObligationId row) (evidence s)"

lemma ledger_row_update_order:
  "row\<lparr>le_recipientId := r, le_amount := x, le_id := i, le_amount := y\<rparr> = row\<lparr>le_id := i, le_recipientId := r, le_amount := y\<rparr>"
  by (cases row) simp

lemma insertLedger_runs:
  assumes "faults (base s) = []" and "confirmed_in s row"
    and "if le_kind row = ALLOCATION then 0 < numeric_8 (le_amount row) else numeric_8 (le_amount row) < 0"
    and "slot row \<notin> slot ` set (ledger s)"
  shows "insertLedger env row s =
    (let row' = row\<lparr>le_id := s_uuid env (draws (base s)), le_amount := numeric_8 (le_amount row)\<rparr> in
     (Inr row', extended 1 [row'] s))"
proof -
  have "wpH (insertLedger env row) (\<lambda>a t. (Inr a, t) = (let row' = row\<lparr>le_id := s_uuid env (draws (base s)),
      le_amount := numeric_8 (le_amount row)\<rparr> in (Inr row', extended 1 [row'] s))) (\<lambda>_ _. False) s"
    using assms by (simp add: wp_insertLedger wp_insertRow confirmed_in_def inserted_def extended_def Let_def)
  then show ?thesis by (auto simp: wpH_def split: prod.splits sum.splits)
qed

lemma onConflict_returns: "m s = (Inr a, t) \<Longrightarrow> onConflict msg m s = (Inr a, t)"
  by (simp add: onConflict_def catchH_def)

lemma allocate_entries_runs:
  assumes "faults (base s) = []" and "confirmed_in s proto" and "le_kind proto = ALLOCATION"
    and "\<forall>(rid, x) \<in> set es. 0 < numeric_8 x" and "distinct (map fst es)"
    and "\<forall>l \<in> set (ledger s). le_kind l = ALLOCATION \<longrightarrow> le_confirmationEvidenceId l = le_confirmationEvidenceId proto
           \<longrightarrow> le_recipientId l \<notin> fst ` set es"
  shows "allocate_entries env proto es s =
    (let rows = stored_rows (s_uuid env) proto (draws (base s)) es in (Inr rows, extended (length es) rows s))"
  using assms
proof (induction es arbitrary: s)
  case Nil
  then show ?case by (simp add: ret_def)
next
  case (Cons e es)
  obtain rid x where e: "e = (rid, x)" by (cases e)
  let ?row = "proto\<lparr>le_id := s_uuid env (draws (base s)), le_recipientId := rid, le_amount := numeric_8 x\<rparr>"
  have "insertLedger env (proto\<lparr>le_recipientId := rid, le_amount := x\<rparr>) s = (Inr ?row, extended 1 [?row] s)"
    using Cons.prems e
    by (subst insertLedger_runs) (force simp: confirmed_in_def Let_def ledger_row_update_order)+
  moreover have "allocate_entries env proto es (extended 1 [?row] s) =
      (let rows = stored_rows (s_uuid env) proto (Suc (draws (base s))) es
       in (Inr rows, extended (Suc (length es)) (?row # rows) s))"
    using Cons.prems e by (subst Cons.IH) (auto simp: confirmed_in_def Let_def)
  ultimately show ?case
    by (simp add: e seqH_def onConflict_returns ret_def Let_def)
qed

lemma stored_rows_amounts:
  "map (\<lambda>l. (le_recipientId l, le_amount l)) (stored_rows gen proto n es) = map (\<lambda>(rid, x). (rid, numeric_8 x)) es"
  by (induction es arbitrary: n) auto

lemma stored_rows_proto:
  "l \<in> set (stored_rows gen proto n es) \<Longrightarrow> le_confirmationEvidenceId l = le_confirmationEvidenceId proto
     \<and> le_kind l = le_kind proto \<and> le_feeObligationId l = le_feeObligationId proto \<and> le_asset l = le_asset proto
     \<and> le_rail l = le_rail proto \<and> le_distributionPolicyVersionId l = le_distributionPolicyVersionId proto"
  by (induction es arbitrary: n) auto

section \<open>What an allocation reads\<close>

record allocation_basis =
  ab_confirmation :: string
  ab_policy :: string
  ab_asset :: AssetType
  ab_rail :: EscrowType
  ab_recipients :: "policy_recipient_row list"
  ab_collected :: int

definition allocation_basis_of :: "string \<Rightarrow> revenue_state \<Rightarrow> allocation_basis option" where
  "allocation_basis_of oid s =
     (case obligations (base s) oid of None \<Rightarrow> None | Some ob \<Rightarrow>
        if fo_collectionStatus ob \<noteq> Some COLLECTED then None else
        case (fo_computedFee ob, fo_asset ob, find (\<lambda>p. fp_id p = fo_feePolicyVersionId ob) (fee_policies (base s)),
              last_of_kind CONFIRMED (evidence_of oid s)) of
          (Some fee, Some asset, Some fp, Some conf) \<Rightarrow>
            (case fe_distributionPolicyVersionId conf of None \<Rightarrow> None | Some pid \<Rightarrow>
             (case (find (\<lambda>p. dp_id p = pid) (dist_policies s), collected_native asset fee) of
                (Some p, Inr c) \<Rightarrow>
                  if recipients_of pid s = [] then None
                  else Some \<lparr>ab_confirmation = fe_id conf, ab_policy = dp_id p, ab_asset = asset,
                         ab_rail = fp_railScope fp, ab_recipients = recipients_of pid s, ab_collected = c\<rparr>
              | _ \<Rightarrow> None))
        | _ \<Rightarrow> None)"

definition allocation_proto :: "string \<Rightarrow> allocation_basis \<Rightarrow> ledger_row" where
  "allocation_proto oid ab = \<lparr>le_id = [], le_feeObligationId = oid, le_confirmationEvidenceId = ab_confirmation ab,
     le_distributionPolicyVersionId = ab_policy ab, le_recipientId = [], le_asset = ab_asset ab, le_rail = ab_rail ab,
     le_kind = ALLOCATION, le_amount = 0, le_reversalOfId = None\<rparr>"

lemma last_of_kindD: "last_of_kind k rows = Some e \<Longrightarrow> e \<in> set rows \<and> fe_kind e = k"
  by (auto simp: last_of_kind_def dest: find_SomeD)

lemma allocation_basis_confirmed:
  "allocation_basis_of oid s = Some ab \<Longrightarrow> confirmed_in s (allocation_proto oid ab)"
  by (auto simp: allocation_basis_of_def allocation_proto_def confirmed_in_def list_ex_iff evidence_of_def
      split: option.splits if_splits sum.splits dest!: last_of_kindD)

text \<open>
  The whole operation: after the reads, the two checks of the sums and the inserts, which a
  failure takes back.
\<close>

lemma allocate_eq:
  assumes "allocation_basis_of oid s = Some ab"
  shows "allocate env oid s = transactionR
    (seqH (guardH (sum_rounded (s_round env) (map dr_weightPct (ab_recipients ab)) = 100)
             (EscrowError ''weights do not sum to exactly 100'')) (\<lambda>_.
     seqH (guardH (sum_rounded (s_round env) (map snd (entitlements (s_round env) (ab_collected ab) (ab_recipients ab)))
                     = of_int (ab_collected ab))
             (EscrowError ''computed entitlements do not sum to the collected amount'')) (\<lambda>_.
       allocate_entries env (allocation_proto oid ab) (entitlements (s_round env) (ab_collected ab) (ab_recipients ab))))) s"
proof -
  obtain ob fee asset fp conf pid p c where
    "obligations (base s) oid = Some ob" "fo_collectionStatus ob = Some COLLECTED" "fo_computedFee ob = Some fee"
    "fo_asset ob = Some asset" "find (\<lambda>p. fp_id p = fo_feePolicyVersionId ob) (fee_policies (base s)) = Some fp"
    "last_of_kind CONFIRMED (evidence_of oid s) = Some conf" "fe_distributionPolicyVersionId conf = Some pid"
    "find (\<lambda>p. dp_id p = pid) (dist_policies s) = Some p" "collected_native asset fee = Inr c" "recipients_of pid s \<noteq> []"
    "ab = \<lparr>ab_confirmation = fe_id conf, ab_policy = dp_id p, ab_asset = asset,
           ab_rail = fp_railScope fp, ab_recipients = recipients_of pid s, ab_collected = c\<rparr>"
    using assms by (auto simp: allocation_basis_of_def split: option.splits if_splits sum.splits)
  then show ?thesis
    by (simp add: allocate_def transactionR_def seqH_def findObligation_def readH_def requireH_def ret_def guardH_def
        onBase_def findPolicy_def listEvidence_def findDistributionPolicy_def liftH_def allocation_proto_def)
qed

lemma allocate_runs:
  assumes ab: "allocation_basis_of oid s = Some ab"
    and sums: "sum_rounded (s_round env) (map dr_weightPct (ab_recipients ab)) = 100"
      "sum_rounded (s_round env) (map snd (entitlements (s_round env) (ab_collected ab) (ab_recipients ab))) = of_int (ab_collected ab)"
    and "faults (base s) = []"
    and "\<forall>(rid, x) \<in> set (entitlements (s_round env) (ab_collected ab) (ab_recipients ab)). 0 < numeric_8 x"
    and "distinct (map dr_recipientId (ab_recipients ab))"
    and new: "allocations_of (ab_confirmation ab) s = []"
  shows "allocate env oid s =
    (let es = entitlements (s_round env) (ab_collected ab) (ab_recipients ab);
         rows = stored_rows (s_uuid env) (allocation_proto oid ab) (draws (base s)) es
     in (Inr rows, extended (length es) rows s))"
proof -
  have "allocate_entries env (allocation_proto oid ab) (entitlements (s_round env) (ab_collected ab) (ab_recipients ab)) s =
    (let es = entitlements (s_round env) (ab_collected ab) (ab_recipients ab);
         rows = stored_rows (s_uuid env) (allocation_proto oid ab) (draws (base s)) es
     in (Inr rows, extended (length es) rows s))"
    unfolding Let_def
  proof (rule allocate_entries_runs [unfolded Let_def])
    show "distinct (map fst (entitlements (s_round env) (ab_collected ab) (ab_recipients ab)))"
      using assms(6) by (simp add: entitlements_def o_def)
    show "\<forall>l \<in> set (ledger s). le_kind l = ALLOCATION \<longrightarrow>
        le_confirmationEvidenceId l = le_confirmationEvidenceId (allocation_proto oid ab) \<longrightarrow>
        le_recipientId l \<notin> fst ` set (entitlements (s_round env) (ab_collected ab) (ab_recipients ab))"
      using new by (auto simp: allocations_of_def filter_empty_conv allocation_proto_def)
  qed (use assms allocation_basis_confirmed [OF ab] in \<open>simp_all add: allocation_proto_def\<close>)
  then show ?thesis
    by (simp add: allocate_eq [OF ab] transactionR_def seqH_def guardH_def ret_def sums Let_def)
qed

section \<open>Decimal arithmetic\<close>

text \<open>
  The documented behaviour of the decimal library at its default precision: a number of at
  most twenty significant digits is not rounded.
\<close>

definition exact_to_20_digits :: "(rat \<Rightarrow> rat) \<Rightarrow> bool" where
  "exact_to_20_digits rnd \<longleftrightarrow> (\<forall>n k. \<bar>n\<bar> < 10 ^ 20 \<longrightarrow> rnd (of_int n / 10 ^ k) = of_int n / 10 ^ k)"

lemma exact_id: "exact_to_20_digits id"
  by (simp add: exact_to_20_digits_def)

lemma exactD: "exact_to_20_digits rnd \<Longrightarrow> 0 \<le> n \<Longrightarrow> n < 10 ^ 20 \<Longrightarrow> rnd (of_int n / 10 ^ k) = of_int n / 10 ^ k"
  by (simp add: exact_to_20_digits_def)

lemma sum_rounded_exact:
  assumes "exact_to_20_digits rnd" and "\<forall>k \<in> set ks. 0 \<le> k" and "sum_list ks < 10 ^ 20"
  shows "sum_rounded rnd (map (\<lambda>k. of_int k / 10 ^ j) ks) = of_int (sum_list ks) / 10 ^ j"
proof -
  have "foldl (\<lambda>acc x. rnd (acc + x)) (of_int a / 10 ^ j) (map (\<lambda>k. of_int k / 10 ^ j) ks) = of_int (a + sum_list ks) / 10 ^ j"
    if "0 \<le> a" "a + sum_list ks < 10 ^ 20" for a
    using assms(2) that
  proof (induction ks arbitrary: a)
    case (Cons k ks)
    then have "0 \<le> sum_list ks" by (simp add: sum_list_nonneg)
    with Cons.prems have "rnd (of_int (a + k) / 10 ^ j) = of_int (a + k) / 10 ^ j"
      by (intro exactD [OF assms(1)]) auto
    then have "rnd (of_int a / 10 ^ j + of_int k / 10 ^ j) = of_int (a + k) / 10 ^ j"
      by (simp add: add_divide_distrib)
    with Cons.IH [of "a + k"] Cons.prems show ?case by (simp add: add.assoc)
  qed simp
  from this [of 0] assms(3) show ?thesis by (simp add: sum_rounded_def)
qed

lemma numeric_8_exact [simp]: "numeric_8 (of_int n / 100000000) = of_int n / 100000000"
  by (simp add: numeric_8_def)

section \<open>Allocations that returned\<close>

lemma allocate_entries_returned:
  assumes "faults (base s) = []" and "allocate_entries env proto es s = (Inr rows, s')"
  shows "rows = stored_rows (s_uuid env) proto (draws (base s)) es \<and> s' = extended (length rows) rows s"
  using assms
proof (induction es arbitrary: s rows s')
  case Nil
  then show ?case by (simp add: ret_def)
next
  case (Cons e es)
  obtain rid x where e: "e = (rid, x)" by (cases e)
  let ?row = "proto\<lparr>le_id := s_uuid env (draws (base s)), le_recipientId := rid, le_amount := numeric_8 x\<rparr>"
  obtain a t where first: "onConflict ''has already been allocated'' (insertLedger env (proto\<lparr>le_recipientId := rid, le_amount := x\<rparr>)) s = (Inr a, t)"
    and rest: "\<exists>rs. allocate_entries env proto es t = (Inr rs, s') \<and> rows = a # rs"
    using Cons.prems(2) by (auto simp: e seqH_def ret_def split: prod.splits sum.splits)
  have "wpH (onConflict ''has already been allocated'' (insertLedger env (proto\<lparr>le_recipientId := rid, le_amount := x\<rparr>)))
      (\<lambda>a t. a = ?row \<and> t = extended 1 [?row] s) (\<lambda>_ _. True) s"
    using Cons.prems(1) by (simp add: wp_onConflict wp_insertLedger wp_insertRow inserted_def extended_def ledger_row_update_order)
  from wpH_I [OF this first] have a: "a = ?row" and t: "t = extended 1 [?row] s" by auto
  from rest obtain rs where rs: "allocate_entries env proto es t = (Inr rs, s')" "rows = a # rs" by blast
  with Cons.IH [OF _ rs(1)] Cons.prems(1) show ?case by (simp add: e a t)
qed

lemma allocation_basis_None:
  assumes "allocation_basis_of oid s = None"
  shows "\<exists>e. allocate env oid s = (Inl e, s)"
  using assms
  by (auto simp: allocation_basis_of_def allocate_def transactionR_def seqH_def findObligation_def readH_def requireH_def
      ret_def throw_def guardH_def onBase_def findPolicy_def listEvidence_def findDistributionPolicy_def liftH_def
      split: option.splits if_splits sum.splits)

lemma allocate_returned:
  assumes "faults (base s) = []" and "allocate env oid s = (Inr rows, s')"
  obtains ab where "allocation_basis_of oid s = Some ab"
    and "rows = stored_rows (s_uuid env) (allocation_proto oid ab) (draws (base s))
           (entitlements (s_round env) (ab_collected ab) (ab_recipients ab))"
    and "s' = extended (length rows) rows s"
proof -
  obtain ab where ab: "allocation_basis_of oid s = Some ab"
    using assms(2) allocation_basis_None [of oid s env] by (cases "allocation_basis_of oid s") auto
  with assms(2) have "allocate_entries env (allocation_proto oid ab)
      (entitlements (s_round env) (ab_collected ab) (ab_recipients ab)) s = (Inr rows, s')"
    by (simp add: allocate_eq transactionR_def seqH_def guardH_def ret_def throw_def split: prod.splits sum.splits if_splits)
  with ab that show thesis using allocate_entries_returned [OF assms(1)] by blast
qed

section \<open>Reversals\<close>

definition reversal_of :: "string \<Rightarrow> ledger_row \<Rightarrow> ledger_row" where
  "reversal_of i l = l\<lparr>le_id := i, le_kind := REVERSAL, le_amount := - le_amount l, le_reversalOfId := Some (le_id l)\<rparr>"

definition reversed_in :: "revenue_state \<Rightarrow> ledger_row \<Rightarrow> bool" where
  "reversed_in s l \<longleftrightarrow> (le_confirmationEvidenceId l, le_recipientId l, REVERSAL) \<in> slot ` set (ledger s)"

lemma find_by_id:
  assumes "ledger_ok gen s" and "l \<in> set (ledger s)"
  shows "find (\<lambda>k. le_id k = le_id l) (ledger s) = Some l"
proof -
  obtain k where k: "find (\<lambda>k. le_id k = le_id l) (ledger s) = Some k"
    using assms(2) by (cases "find (\<lambda>k. le_id k = le_id l) (ledger s)") (auto simp: find_None_iff)
  have "inj_on le_id (set (ledger s))" using assms(1) by (simp add: ledger_ok_def distinct_map)
  with assms(2) find_SomeD [OF k] have "k = l" by (auto dest: inj_onD)
  with k show ?thesis by simp
qed

lemma reversal_of_alt:
  "reversal_of i l = l\<lparr>le_kind := REVERSAL, le_reversalOfId := Some (le_id l), le_id := i, le_amount := - le_amount l\<rparr>"
  by (cases l) (simp add: reversal_of_def)

lemma reverseEntry_runs:
  assumes ok: "ledger_ok gen s" and "faults (base s) = []" and l: "l \<in> set (ledger s)" "le_kind l = ALLOCATION"
    and "confirmed_in s l" and "\<not> reversed_in s l"
  shows "reverseEntry env (le_id l) s =
    (let r = reversal_of (s_uuid env (draws (base s))) l in (Inr r, extended 1 [r] s))"
proof -
  let ?row = "l\<lparr>le_kind := REVERSAL, le_amount := - le_amount l, le_reversalOfId := Some (le_id l)\<rparr>"
  have amount: "numeric_8 (le_amount l) = le_amount l" "0 < le_amount l"
    using ok l by (auto simp: ledger_ok_def list_all_iff row_ok_def)
  have "insertLedger env ?row s = (let r = reversal_of (s_uuid env (draws (base s))) l in (Inr r, extended 1 [r] s))"
    using assms(2,5,6) amount
    by (subst insertLedger_runs)
      (simp_all add: confirmed_in_def reversed_in_def numeric_8_minus reversal_of_alt Let_def)
  then have "onConflict ''has already been reversed'' (insertLedger env ?row) s
      = (let r = reversal_of (s_uuid env (draws (base s))) l in (Inr r, extended 1 [r] s))"
    by (simp add: onConflict_returns Let_def)
  then show ?thesis
    using l(2) by (simp add: reverseEntry_def transactionR_def seqH_def readH_def requireH_def guardH_def ret_def
        find_by_id [OF ok l(1)] Let_def)
qed

lemma reverse_all_runs:
  assumes "ledger_ok (s_uuid env) s" and "inj (s_uuid env)" and "faults (base s) = []"
    and "\<forall>l \<in> set ls. l \<in> set (ledger s) \<and> le_kind l = ALLOCATION \<and> confirmed_in s l \<and> \<not> reversed_in s l"
    and "distinct (map slot ls)"
  shows "\<exists>revs. reverse_all env (map le_id ls) s = (Inr revs, extended (length ls) revs s)
           \<and> list_all2 (\<lambda>l r. r = reversal_of (le_id r) l) ls revs"
  using assms
proof (induction ls arbitrary: s)
  case Nil
  then show ?case by (simp add: ret_def)
next
  case (Cons l ls)
  let ?r = "reversal_of (s_uuid env (draws (base s))) l"
  have run: "reverseEntry env (le_id l) s = (Inr ?r, extended 1 [?r] s)"
    using reverseEntry_runs [OF Cons.prems(1,3)] Cons.prems(4) by (simp add: Let_def)
  have ok: "ledger_ok (s_uuid env) (extended 1 [?r] s)"
    using preservesD [OF reverseEntry_keeps [OF Cons.prems(2)] Cons.prems(1), of "le_id l"] run by simp
  have "\<forall>k \<in> set ls. k \<in> set (ledger (extended 1 [?r] s)) \<and> le_kind k = ALLOCATION
      \<and> confirmed_in (extended 1 [?r] s) k \<and> \<not> reversed_in (extended 1 [?r] s) k"
  proof
    fix k assume k: "k \<in> set ls"
    then have "slot k \<in> slot ` set ls" by (rule imageI)
    with Cons.prems(5) have "slot k \<noteq> slot l" by auto
    with k Cons.prems(4) show "k \<in> set (ledger (extended 1 [?r] s)) \<and> le_kind k = ALLOCATION
      \<and> confirmed_in (extended 1 [?r] s) k \<and> \<not> reversed_in (extended 1 [?r] s) k"
      by (simp add: confirmed_in_def reversed_in_def reversal_of_def)
  qed
  from Cons.IH [OF ok Cons.prems(2) _ this] Cons.prems(3,5) obtain revs where
    "reverse_all env (map le_id ls) (extended 1 [?r] s) = (Inr revs, extended (Suc (length ls)) (?r # revs) s)"
    "list_all2 (\<lambda>l r. r = reversal_of (le_id r) l) ls revs" by auto
  then show ?case
    by (auto simp: seqH_def run ret_def reversal_of_def intro!: exI [of _ "?r # revs"])
qed

lemma reversals_cancel:
  assumes "list_all2 (\<lambda>l r. r = reversal_of (le_id r) l) ls revs"
  shows "sum_list (map le_amount (filter (held_by rid asset rail) revs)) = - sum_list (map le_amount (filter (held_by rid asset rail) ls))"
  using assms
proof (induction rule: list_all2_induct)
  case (Cons l ls r revs)
  have "held_by rid asset rail r = held_by rid asset rail l" "le_amount r = - le_amount l"
    by (subst Cons.hyps(1), simp add: held_by_def reversal_of_def)+
  with Cons.IH show ?case by simp
qed simp

lemma no_reversal_without_allocation:
  assumes "ledger_ok gen s" and "allocations_of c s = []" and "r \<in> set (ledger s)" and "le_kind r = REVERSAL"
  shows "le_confirmationEvidenceId r \<noteq> c"
proof
  assume c: "le_confirmationEvidenceId r = c"
  obtain k where k: "k \<in> set (ledger s)" "le_kind k = ALLOCATION" "reverses r k"
    using ledger_ok_reversal [OF assms(1,3,4)] by blast
  then have "k \<in> set (allocations_of c s)" using reversesD(5) [OF k(3)] c by (simp add: allocations_of_def)
  with assms(2) show False by simp
qed

lemma sumBalance_eq:
  "sumBalance rid asset rail s = (Inr (sum_list (map le_amount (filter (held_by rid asset rail) (ledger s)))), s)"
proof -
  have "held_by rid asset rail = (\<lambda>l. le_recipientId l = rid \<and> le_asset l = asset \<and> le_rail l = rail)"
    by (rule ext) (simp add: held_by_def)
  then show ?thesis by (simp add: sumBalance_def readH_def)
qed

section \<open>Weights in millionths of a percent\<close>

definition weights_in_millionths :: "int list \<Rightarrow> policy_recipient_row list \<Rightarrow> bool" where
  "weights_in_millionths ks recs \<longleftrightarrow> map dr_weightPct recs = map (\<lambda>k. of_int k / 1000000) ks
     \<and> (\<forall>k \<in> set ks. 0 < k) \<and> sum_list ks = 100000000"

lemma member_le_sum: "\<forall>k \<in> set ks. 0 < k \<Longrightarrow> k \<in> set ks \<Longrightarrow> k \<le> sum_list (ks :: int list)"
proof (induction ks)
  case (Cons a ks)
  have "0 \<le> sum_list ks" using Cons.prems(1) by (intro sum_list_nonneg) auto
  with Cons show ?case by auto
qed simp

lemma weight_member:
  assumes "weights_in_millionths ks recs" and "r \<in> set recs"
  obtains k where "dr_weightPct r = of_int k / 1000000" and "0 < k" and "k \<le> 100000000"
proof -
  have eq: "map dr_weightPct recs = map (\<lambda>k. of_int k / 1000000) ks" using assms(1) by (simp add: weights_in_millionths_def)
  have "dr_weightPct r \<in> set (map (\<lambda>k. of_int k / 1000000) ks)" unfolding eq [symmetric] using assms(2) by simp
  then obtain k where "k \<in> set ks" "dr_weightPct r = of_int k / 1000000" by auto
  with that member_le_sum [of ks k] assms(1) show thesis by (auto simp: weights_in_millionths_def)
qed

lemma entitlements_shares:
  assumes rnd: "exact_to_20_digits rnd" and w: "weights_in_millionths ks recs" and c: "0 < c" "c < 10 ^ 12"
  shows "entitlements rnd c recs = map (\<lambda>r. (dr_recipientId r, of_int c * dr_weightPct r / 100)) recs"
proof -
  have "rnd (rnd (of_int c * dr_weightPct r) / 100) = of_int c * dr_weightPct r / 100" if r: "r \<in> set recs" for r
  proof -
    obtain k where k: "dr_weightPct r = of_int k / 1000000" "0 < k" "k \<le> 100000000" by (rule weight_member [OF w r])
    have "c * k \<le> c * 100000000" using c k by simp
    moreover have "c * 100000000 < 10 ^ 20" using c by simp
    ultimately have ck: "0 \<le> c * k" "c * k < 10 ^ 20" using c k by (simp, linarith)
    have "of_int c * dr_weightPct r = of_int (c * k) / 10 ^ 6" "of_int (c * k) / 10 ^ 6 / 100 = (of_int (c * k) / 10 ^ 8 :: rat)"
      by (simp_all add: k)
    then show ?thesis by (simp only: exactD [OF rnd ck])
  qed
  then show ?thesis by (simp add: entitlements_def)
qed

lemma entitlements_exact:
  assumes "exact_to_20_digits rnd" and "weights_in_millionths ks recs" and "0 < c" "c < 10 ^ 12"
  shows "map snd (entitlements rnd c recs) = map (\<lambda>k. of_int (c * k) / 100000000) ks"
proof -
  have "map (\<lambda>w. of_int c * w / 100) (map dr_weightPct recs) = map (\<lambda>k. of_int (c * k) / (100000000 :: rat)) ks"
    using assms(2) by (simp add: weights_in_millionths_def)
  then show ?thesis by (simp add: entitlements_shares [OF assms] o_def)
qed

lemma shares_add_up:
  assumes "weights_in_millionths ks recs"
  shows "sum_list (map (\<lambda>r. of_int c * dr_weightPct r / 100) recs) = of_int c"
proof -
  have "sum_list (map (\<lambda>k. of_int k / 1000000) ks) = (of_int (sum_list ks) / 1000000 :: rat)"
    by (induction ks) (simp_all add: add_divide_distrib)
  then have "sum_list (map dr_weightPct recs) = 100" using assms by (simp add: weights_in_millionths_def)
  moreover have "sum_list (map (\<lambda>r. of_int c * dr_weightPct r / 100) recs) = of_int c * sum_list (map dr_weightPct recs) / 100"
    by (induction recs) (simp_all add: algebra_simps add_divide_distrib)
  ultimately show ?thesis by simp
qed

lemma weights_and_entitlements_add_up:
  assumes rnd: "exact_to_20_digits rnd" and w: "weights_in_millionths ks recs" and c: "0 < c" "c < 10 ^ 12"
  shows "sum_rounded rnd (map dr_weightPct recs) = 100"
    and "sum_rounded rnd (map snd (entitlements rnd c recs)) = of_int c"
proof -
  have pos: "\<forall>k \<in> set ks. 0 \<le> k" and tot: "sum_list ks = 100000000" using w by (auto simp: weights_in_millionths_def)
  show "sum_rounded rnd (map dr_weightPct recs) = 100"
    using sum_rounded_exact [OF rnd pos, of 6] tot w by (simp add: weights_in_millionths_def)
  have "sum_list (map (\<lambda>k. c * k) ks) = c * 100000000" by (simp add: sum_list_const_mult tot)
  moreover from this c have "sum_list (map (\<lambda>k. c * k) ks) < 10 ^ 20" by simp
  ultimately have "sum_rounded rnd (map (\<lambda>k. of_int k / 10 ^ 8) (map (\<lambda>k. c * k) ks)) = of_int (c * 100000000) / 10 ^ 8"
    using sum_rounded_exact [OF rnd, of "map (\<lambda>k. c * k) ks" 8] pos c by simp
  then show "sum_rounded rnd (map snd (entitlements rnd c recs)) = of_int c"
    by (simp add: entitlements_exact [OF assms] o_def)
qed

lemma numeric_8_entitlements:
  assumes "exact_to_20_digits rnd" and w: "weights_in_millionths ks recs" and c: "0 < c" "c < 10 ^ 12"
    and e: "(rid, x) \<in> set (entitlements rnd c recs)"
  shows "numeric_8 x = x" and "0 < numeric_8 x"
proof -
  have "x \<in> set (map snd (entitlements rnd c recs))" using e by force
  then obtain k where "k \<in> set ks" "x = of_int (c * k) / 100000000"
    unfolding entitlements_exact [OF assms(1-4)] by auto
  then show "numeric_8 x = x" "0 < numeric_8 x"
    using w c by (simp_all only: numeric_8_exact) (simp_all add: weights_in_millionths_def)
qed

lemma allocate_exact_runs:
  assumes "exact_to_20_digits (s_round env)" and "faults (base s) = []"
    and ab: "allocation_basis_of oid s = Some ab" and c: "0 < ab_collected ab" "ab_collected ab < 10 ^ 12"
    and w: "weights_in_millionths ks (ab_recipients ab)" and "distinct (map dr_recipientId (ab_recipients ab))"
    and "allocations_of (ab_confirmation ab) s = []"
  shows "allocate env oid s =
    (let es = entitlements (s_round env) (ab_collected ab) (ab_recipients ab);
         rows = stored_rows (s_uuid env) (allocation_proto oid ab) (draws (base s)) es
     in (Inr rows, extended (length es) rows s))"
proof -
  have "\<forall>(rid, x) \<in> set (entitlements (s_round env) (ab_collected ab) (ab_recipients ab)). 0 < numeric_8 x"
    using numeric_8_entitlements(2) [OF assms(1) w c] by auto
  then show ?thesis by (rule allocate_runs [OF ab weights_and_entitlements_add_up [OF assms(1) w c] assms(2) _ assms(7,8)])
qed

section \<open>Properties\<close>

text \<open>
  Converting an amount to native units loses nothing that the asset can represent: the
  decimal string with the decimals of the asset, read back, gives the same number of native
  units.
\<close>

theorem native_units_round_trip:
  assumes "0 \<le> n"
  shows "toNativeUnits (toFixed d (of_int n / 10 ^ d)) d = Inr n"
  using assms by (simp add: native_round_trip)

theorem native_units_round_trip_witness:
  "(0::int) \<le> 305 \<and> toNativeUnits (toFixed 8 (of_int 305 / 10 ^ 8)) 8 = Inr 305"
  using native_units_round_trip [of 305 8] by simp

text \<open>
  C21: an allocation hands out exactly what was collected. When the weights of the frozen policy
  are whole millionths of a percent that add up to 100, the generation has not been allocated
  and the database works, every recipient gets one row with its share of the collected native
  units, the stored shares add up to the collected amount, and nothing else changes but the
  identifiers drawn.
\<close>

theorem allocation_is_exact:
  assumes "exact_to_20_digits (s_round env)" and "faults (base s) = []"
    and ab: "allocation_basis_of oid s = Some ab" and "0 < ab_collected ab" and "ab_collected ab < 10 ^ 12"
    and w: "weights_in_millionths ks (ab_recipients ab)" and "distinct (map dr_recipientId (ab_recipients ab))"
    and "allocations_of (ab_confirmation ab) s = []"
  shows "\<exists>rows. allocate env oid s = (Inr rows, extended (length rows) rows s)
           \<and> map (\<lambda>l. (le_recipientId l, le_amount l)) rows
               = map (\<lambda>r. (dr_recipientId r, of_int (ab_collected ab) * dr_weightPct r / 100)) (ab_recipients ab)
           \<and> sum_list (map le_amount rows) = of_int (ab_collected ab)"
proof -
  let ?c = "ab_collected ab" and ?recs = "ab_recipients ab"
  let ?es = "entitlements (s_round env) ?c ?recs"
  let ?rows = "stored_rows (s_uuid env) (allocation_proto oid ab) (draws (base s)) ?es"
  note stored = numeric_8_entitlements [OF assms(1) w assms(4,5)]
  have run: "allocate env oid s = (Inr ?rows, extended (length ?es) ?rows s)"
    by (simp only: allocate_exact_runs [OF assms] Let_def)
  have len: "length ?rows = length ?es" using arg_cong [OF stored_rows_amounts, of length] by (simp only: length_map)
  have pairs: "map (\<lambda>l. (le_recipientId l, le_amount l)) ?rows = ?es"
    unfolding stored_rows_amounts using stored(1) by (intro map_idI) (auto simp: split_beta)
  have shares: "?es = map (\<lambda>r. (dr_recipientId r, of_int ?c * dr_weightPct r / 100)) ?recs"
    by (rule entitlements_shares [OF assms(1) w assms(4,5)])
  have "sum_list (map le_amount ?rows) = sum_list (map snd ?es)"
    using arg_cong [OF pairs, of "\<lambda>xs. sum_list (map snd xs)"] by (simp add: o_def)
  also have "\<dots> = of_int ?c" using shares_add_up [OF w] by (simp add: shares o_def)
  finally have "sum_list (map le_amount ?rows) = of_int ?c" .
  with run len pairs shares show ?thesis by (intro exI [of _ ?rows]) simp
qed

text \<open>A collected fee of \<open>n\<close> satoshi under a published policy with the given weights.\<close>

definition demo_revenue :: "int \<Rightarrow> rat list \<Rightarrow> revenue_state" where
  "demo_revenue n ws =
     \<lparr>base = (demo_settlement None)\<lparr>draws := 100,
        fee_policies := [\<lparr>fp_id = ''p'', fp_railScope = MULTISIG, fp_status = PUBLISHED, fp_protocolFeeRate = 1 / 100,
                          fp_requiredConfirmations = Some 3, fp_fixtureOnlyMinimum = None\<rparr>],
        obligations := [''o'' \<mapsto> \<lparr>fo_escrowId = ''e'', fo_feePolicyVersionId = ''p'', fo_determination = OWED,
           fo_collectionStatus = Some COLLECTED, fo_basisAmount = Some 1, fo_computedFee = Some (of_int n / 10 ^ 8),
           fo_asset = Some A_BTC\<rparr>]\<rparr>,
      evidence = [(new_evidence ''o'' CONFIRMED ''tx'')\<lparr>fe_id := ''c'', fe_distributionPolicyVersionId := Some ''d''\<rparr>],
      recipients = [], dist_policies = [\<lparr>dp_id = ''d'', dp_label = ''d'', dp_status = DP_PUBLISHED, dp_createdBy = ''x''\<rparr>],
      policy_recipients = map (\<lambda>(i, w). \<lparr>dr_policyVersionId = ''d'', dr_recipientId = show_nat i, dr_weightPct = w\<rparr>) (enumerate 0 ws),
      ledger = []\<rparr>"

definition demo_basis :: "int \<Rightarrow> rat list \<Rightarrow> allocation_basis" where
  "demo_basis n ws = \<lparr>ab_confirmation = ''c'', ab_policy = ''d'', ab_asset = A_BTC, ab_rail = MULTISIG,
     ab_recipients = policy_recipients (demo_revenue n ws), ab_collected = n\<rparr>"

lemma demo_basis:
  assumes "0 \<le> n" and "ws \<noteq> []"
  shows "allocation_basis_of ''o'' (demo_revenue n ws) = Some (demo_basis n ws)"
proof -
  have "collected_native A_BTC (of_int n / 100000000) = Inr n"
    using native_round_trip [of "of_int n / 10 ^ 8" 8] assms(1) by (simp add: collected_native_def)
  moreover have "recipients_of ''d'' (demo_revenue n ws) = policy_recipients (demo_revenue n ws)"
    by (auto simp: recipients_of_def demo_revenue_def filter_id_conv)
  moreover have "policy_recipients (demo_revenue n ws) \<noteq> []" using assms(2) by (simp add: demo_revenue_def enumerate_eq_zip)
  ultimately show ?thesis
    by (simp add: allocation_basis_of_def demo_basis_def)
      (simp add: demo_revenue_def demo_settlement_def last_of_kind_def evidence_of_def new_evidence_def)
qed

lemma demo_weights: "weights_in_millionths [60000000, 40000000] (ab_recipients (demo_basis n [60, 40]))"
  by (simp add: demo_basis_def demo_revenue_def weights_in_millionths_def)

lemma demo_exact: "exact_to_20_digits (s_round demo_senv)"
  by (simp add: demo_senv_def exact_id)

lemma demo_allocation_facts:
  "faults (base (demo_revenue 1000 [60, 40])) = []" "0 < ab_collected (demo_basis 1000 [60, 40])"
  "ab_collected (demo_basis 1000 [60, 40]) < 10 ^ 12" "distinct (map dr_recipientId (ab_recipients (demo_basis 1000 [60, 40])))"
  "allocations_of (ab_confirmation (demo_basis 1000 [60, 40])) (demo_revenue 1000 [60, 40]) = []"
  by (simp_all add: demo_basis_def demo_revenue_def demo_settlement_def allocations_of_def)

lemmas demo_allocation = demo_exact demo_allocation_facts(1) demo_basis [of 1000 "[60, 40]", simplified]
  demo_allocation_facts(2,3) demo_weights demo_allocation_facts(4,5)

theorem allocation_is_exact_witness:
  "\<exists>rows. fst (allocate demo_senv ''o'' (demo_revenue 1000 [60, 40])) = Inr rows \<and> sum_list (map le_amount rows) = 1000"
proof -
  have "ab_collected (demo_basis 1000 [60, 40]) = 1000" by (simp add: demo_basis_def)
  with allocation_is_exact [OF demo_allocation] show ?thesis by auto
qed

text \<open>
  With weights of eight decimals, which the policy table allows, an allocation can store
  less than was collected. One satoshi shared by weights 33.33333333, 33.33333333 and
  33.33333334, which add up to 100, passes every check; the shares have ten decimals, the
  column keeps eight, and the three stored rows add up to 0.99999999.
\<close>

theorem allocation_can_lose_fractions:
  "\<exists>rows s'. allocate demo_senv ''o'' (demo_revenue 1 [33.33333333, 33.33333333, 33.33333334]) = (Inr rows, s')
       \<and> ledger s' = rows \<and> sum_list (map le_amount rows) = 0.99999999"
proof -
  let ?ws = "[33.33333333, 33.33333333, 33.33333334] :: rat list"
  let ?s = "demo_revenue 1 ?ws" and ?ab = "demo_basis 1 ?ws"
  let ?es = "entitlements id 1 (ab_recipients ?ab)"
  have recs: "map dr_weightPct (ab_recipients ?ab) = ?ws" "map dr_recipientId (ab_recipients ?ab) = map show_nat [0, 1, 2]"
    by (simp_all add: demo_basis_def demo_revenue_def numeral_2_eq_2)
  have es: "map snd ?es = [0.3333333333, 0.3333333333, 0.3333333334]"
    by (simp add: entitlements_def demo_basis_def demo_revenue_def)
  have stored: "map numeric_8 (map snd ?es) = [0.33333333, 0.33333333, 0.33333333]"
    unfolding es by (simp add: numeric_8_def to_fixed_0_def floor_unique)
  let ?rows = "stored_rows (s_uuid demo_senv) (allocation_proto ''o'' ?ab) (draws (base ?s)) ?es"
  have pos: "\<forall>(rid, x) \<in> set ?es. 0 < numeric_8 x"
  proof clarify
    fix rid x assume "(rid, x) \<in> set ?es"
    then have "numeric_8 x \<in> set (map numeric_8 (map snd ?es))" by force
    then show "0 < numeric_8 x" unfolding stored by auto
  qed
  have "allocate demo_senv ''o'' ?s = (Inr ?rows, extended (length ?es) ?rows ?s)"
    using allocate_runs [OF demo_basis [of 1 ?ws], of demo_senv] recs es pos
    by (simp add: demo_senv_def demo_basis_def sum_rounded_def allocations_of_def Let_def)
      (simp add: demo_revenue_def demo_settlement_def)
  moreover have "sum_list (map le_amount ?rows) = 0.99999999"
    using arg_cong [OF stored_rows_amounts [of "s_uuid demo_senv" "allocation_proto ''o'' ?ab" "draws (base ?s)" ?es],
        of "\<lambda>xs. sum_list (map snd xs)"] arg_cong [OF stored, of sum_list]
    by (simp add: o_def split_beta)
  ultimately show ?thesis by (simp add: demo_revenue_def)
qed

text \<open>
  C22: whatever sequence of requests is made and whichever writes fail, no recipient ever has a
  negative balance in any asset on any rail.
\<close>

theorem balances_never_negative:
  assumes "inj (s_uuid env)" and "ledger s = []"
  shows "\<exists>x \<ge> 0. sumBalance rid asset rail (foldl (run_revenue_op env) s reqs) = (Inr x, foldl (run_revenue_op env) s reqs)"
proof -
  have "ledger_ok (s_uuid env) (foldl (run_revenue_op env) s reqs)"
    by (rule run_revenue_ops_keep) (simp_all add: assms ledger_ok_def)
  from balance_nonneg [OF this] show ?thesis by (simp add: sumBalance_eq)
qed

theorem balances_never_negative_witness:
  "\<exists>x \<ge> 0. sumBalance ''r'' A_BTC MULTISIG (foldl (run_revenue_op demo_senv) (demo_revenue 1000 [60, 40]) [([], RAllocate ''o''), ([], RReverse ''c'')])
     = (Inr x, foldl (run_revenue_op demo_senv) (demo_revenue 1000 [60, 40]) [([], RAllocate ''o''), ([], RReverse ''c'')])"
  by (rule balances_never_negative) (simp_all add: demo_senv_def demo_revenue_def inj_def)

text \<open>
  C27: reversing a generation undoes its allocation. After an allocation of a generation that had
  none, reversing the generation succeeds, writes one reversal per allocated row, and gives
  every recipient the balance it had before.
\<close>

theorem reversal_restores_balances:
  assumes ok: "ledger_ok (s_uuid env) s" and inj: "inj (s_uuid env)" and f: "faults (base s) = []"
    and ab: "allocation_basis_of oid s = Some ab" and new: "allocations_of (ab_confirmation ab) s = []"
    and run: "allocate env oid s = (Inr rows, s1)"
  shows "\<exists>revs s2. reverseGeneration env (ab_confirmation ab) s1 = (Inr revs, s2) \<and> length revs = length rows
           \<and> fst (sumBalance rid asset rail s2) = fst (sumBalance rid asset rail s)"
proof -
  have rows: "rows = stored_rows (s_uuid env) (allocation_proto oid ab) (draws (base s))
      (entitlements (s_round env) (ab_collected ab) (ab_recipients ab))" and s1: "s1 = extended (length rows) rows s"
    using allocate_returned [OF f run] ab by auto
  have ok1: "ledger_ok (s_uuid env) s1"
    using preservesD [OF allocate_keeps [OF inj] ok, of oid] run by simp
  have f1: "faults (base s1) = []" by (simp add: s1 f)
  have row: "le_confirmationEvidenceId l = ab_confirmation ab \<and> le_kind l = ALLOCATION \<and> le_feeObligationId l = oid"
    if "l \<in> set rows" for l
    using stored_rows_proto that unfolding rows by (fastforce simp: allocation_proto_def)
  have gen: "allocations_of (ab_confirmation ab) s1 = rows"
    using new row by (simp add: allocations_of_def s1 filter_id_conv)
  have fresh: "\<not> reversed_in s1 l" if l: "l \<in> set rows" for l
  proof
    assume "reversed_in s1 l"
    then obtain r where r: "r \<in> set (ledger s1)" "le_kind r = REVERSAL" "le_confirmationEvidenceId r = ab_confirmation ab"
      using row [OF l] by (auto simp: reversed_in_def)
    with row have "r \<in> set (ledger s)" by (auto simp: s1)
    with no_reversal_without_allocation [OF ok new] r show False by blast
  qed
  have "\<forall>l \<in> set rows. l \<in> set (ledger s1) \<and> le_kind l = ALLOCATION \<and> confirmed_in s1 l \<and> \<not> reversed_in s1 l"
    using row fresh allocation_basis_confirmed [OF ab] by (auto simp: s1 confirmed_in_def allocation_proto_def)
  moreover have "distinct (map slot rows)" using ok1 by (simp add: ledger_ok_def s1)
  ultimately obtain revs where revs: "reverse_all env (map le_id rows) s1 = (Inr revs, extended (length rows) revs s1)"
    "list_all2 (\<lambda>l r. r = reversal_of (le_id r) l) rows revs"
    using reverse_all_runs [OF ok1 inj f1] by blast
  have "reverseGeneration env (ab_confirmation ab) s1 = (Inr revs, extended (length rows) revs s1)"
    by (simp add: reverseGeneration_def seqH_def readH_def gen revs(1))
  then show ?thesis
    using reversals_cancel [OF revs(2), of rid asset rail] list_all2_lengthD [OF revs(2)] by (simp add: sumBalance_eq s1)
qed

text \<open>
  A generation whose first entry is reversed cannot be reversed as a whole any more. When a
  reversal stopped after that entry, every later attempt throws and changes nothing, so the
  other recipients keep their balances of a fee that was taken back.
\<close>

theorem partly_reversed_generation_is_stuck:
  assumes ok: "ledger_ok gen s" and all: "allocations_of ev s = l # ls" and rev: "reversed_in s l"
  shows "\<exists>e. reverseGeneration env ev s = (Inl e, s)"
proof -
  have l: "l \<in> set (ledger s)" "le_kind l = ALLOCATION"
    using all [unfolded allocations_of_def, THEN arg_cong [of _ _ set]] by auto
  let ?row = "l\<lparr>le_kind := REVERSAL, le_amount := - le_amount l, le_reversalOfId := Some (le_id l)\<rparr>"
  have "wpH (onConflict ''has already been reversed'' (insertLedger env ?row)) (\<lambda>_ _. False) (\<lambda>_ t. t = s) s"
    using rev by (simp add: wp_onConflict wp_insertLedger reversed_in_def)
  then obtain e where "onConflict ''has already been reversed'' (insertLedger env ?row) s = (Inl e, s)"
    by (auto simp: wpH_def split: prod.splits sum.splits)
  then have "reverseEntry env (le_id l) s = (Inl e, s)"
    using l(2) by (simp add: reverseEntry_def transactionR_def seqH_def readH_def requireH_def guardH_def ret_def
        find_by_id [OF ok l(1)])
  then show ?thesis by (simp add: reverseGeneration_def seqH_def readH_def all)
qed

text \<open>Two shares of a generation, of which the first is reversed.\<close>

definition demo_half_reversed :: revenue_state where
  "demo_half_reversed =
     (let a = (allocation_proto ''o'' (demo_basis 1000 [60, 40]))\<lparr>le_id := show_nat 0, le_recipientId := ''x'', le_amount := 600\<rparr>;
          b = (allocation_proto ''o'' (demo_basis 1000 [60, 40]))\<lparr>le_id := show_nat 1, le_recipientId := ''y'', le_amount := 400\<rparr>
      in (demo_revenue 1000 [60, 40])\<lparr>ledger := [a, b, reversal_of (show_nat 2) a]\<rparr>)"

lemma demo_half_reversed_ok: "ledger_ok show_nat demo_half_reversed"
  by (auto simp: ledger_ok_def demo_half_reversed_def Let_def row_ok_def reverses_def reversal_of_def allocation_proto_def
      demo_revenue_def numeric_8_def to_fixed_0_def floor_unique)

theorem partly_reversed_generation_is_stuck_witness:
  "(\<exists>e. reverseGeneration demo_senv ''c'' demo_half_reversed = (Inl e, demo_half_reversed))
     \<and> fst (sumBalance ''y'' A_BTC MULTISIG demo_half_reversed) = Inr 400"
proof
  show "\<exists>e. reverseGeneration demo_senv ''c'' demo_half_reversed = (Inl e, demo_half_reversed)"
    by (rule partly_reversed_generation_is_stuck [OF demo_half_reversed_ok])
      (auto simp: demo_half_reversed_def Let_def allocations_of_def reversed_in_def reversal_of_def allocation_proto_def demo_basis_def)
  show "fst (sumBalance ''y'' A_BTC MULTISIG demo_half_reversed) = Inr 400"
    by (simp add: sumBalance_eq held_by_def demo_half_reversed_def Let_def reversal_of_def allocation_proto_def demo_basis_def)
qed

theorem reversal_restores_balances_witness:
  "\<exists>rows s1 revs s2. allocate demo_senv ''o'' (demo_revenue 1000 [60, 40]) = (Inr rows, s1)
     \<and> reverseGeneration demo_senv ''c'' s1 = (Inr revs, s2)
     \<and> fst (sumBalance ''0'' A_BTC MULTISIG s2) = fst (sumBalance ''0'' A_BTC MULTISIG (demo_revenue 1000 [60, 40]))"
proof -
  obtain rows s1 where run: "allocate demo_senv ''o'' (demo_revenue 1000 [60, 40]) = (Inr rows, s1)"
    using allocate_exact_runs [OF demo_allocation] by (auto simp: Let_def)
  have "ledger_ok (s_uuid demo_senv) (demo_revenue 1000 [60, 40])" by (simp add: ledger_ok_def demo_revenue_def)
  moreover have "inj (s_uuid demo_senv)" by (simp add: demo_senv_def inj_def)
  ultimately show ?thesis
    using reversal_restores_balances [OF _ _ demo_allocation(2,3,8) run] run by (fastforce simp: demo_basis_def)
qed

end
