(* ===== verification/Economic_Outcome.thy ===== *)
theory Economic_Outcome
  imports Fee_Obligation "HOL-Library.Multiset"
begin

text \<open>
  The economic content of an arbitration ruling (\<^verbatim>\<open>economic-outcome.ts\<close>): who gets which share
  in basis points, the exact division of a total into units, the canonical form that is hashed,
  the comparison of the authorized outcome with what was executed
  (\<^verbatim>\<open>destination-correspondence.ts\<close>), and the guard that compares a built transaction with the
  outcome before anyone signs it (\<^verbatim>\<open>dispatch-translation-guard.ts\<close>). The locale's string
  comparison and the decoder of the transaction format are parameters.
\<close>

section \<open>Outcome content\<close>

datatype ArbitrationRuling = RELEASE | REFUND | SPLIT_RULING

fun ruling_name :: "ArbitrationRuling \<Rightarrow> string" where
  "ruling_name RELEASE = ''RELEASE''"
| "ruling_name REFUND = ''REFUND''"
| "ruling_name SPLIT_RULING = ''SPLIT''"

record AllocationInput =
  al_beneficiary :: string
  al_basisPoints :: js_number

record ArbitrationOutcomeContent =
  oc_ruling :: ArbitrationRuling
  oc_totalUnits :: string
  oc_asset :: string
  oc_allocations :: "AllocationInput list"
  oc_remainderBeneficiary :: string

record BeneficiaryDestination =
  bd_beneficiary :: string
  bd_destination :: string

type_synonym arbitration_outcome = "(ArbitrationOutcomeContent, BeneficiaryDestination list) Outcome"

text \<open>\<^verbatim>\<open>Number.isInteger\<close>, with the integer.\<close>

fun js_integer :: "js_number \<Rightarrow> int option" where
  "js_integer (Num x) = (if of_int \<lfloor>x\<rfloor> = x then Some \<lfloor>x\<rfloor> else None)"
| "js_integer _ = None"

definition bps_in :: "int \<Rightarrow> int \<Rightarrow> js_number \<Rightarrow> bool" where
  "bps_in lo hi n \<longleftrightarrow> (case js_integer n of None \<Rightarrow> False | Some k \<Rightarrow> lo \<le> k \<and> k \<le> hi)"

definition bps_of :: "AllocationInput \<Rightarrow> int" where
  "bps_of a = (case js_integer (al_basisPoints a) of None \<Rightarrow> 0 | Some k \<Rightarrow> k)"

definition assertWellFormedOutcomeContent :: "ArbitrationOutcomeContent \<Rightarrow> unit result" where
  "assertWellFormedOutcomeContent content =
     (let allocs = oc_allocations content; beneficiaries = map al_beneficiary allocs in
      bindR (guardR (is_digit_string (oc_totalUnits content)) (GenericError ''totalUnits must be a non-negative integer string'')) (\<lambda>_.
      bindR (guardR (allocs \<noteq> []) (GenericError ''requires at least one allocation'')) (\<lambda>_.
      bindR (guardR (distinct beneficiaries) (GenericError ''allocations must have distinct beneficiaries'')) (\<lambda>_.
      bindR (guardR (list_all (\<lambda>a. bps_in 1 10000 (al_basisPoints a)) allocs)
               (GenericError ''allocation basisPoints must be an integer in [1, 10000]'')) (\<lambda>_.
      bindR (guardR (sum_list (map bps_of allocs) = 10000)
               (GenericError ''allocations must sum to exactly 10000 basis points'')) (\<lambda>_.
        guardR (oc_remainderBeneficiary content \<in> set beneficiaries)
          (GenericError ''remainderBeneficiary must be one of the allocation beneficiaries'')))))))"

section \<open>Exact division into units\<close>

fun allocate_units :: "int \<Rightarrow> string \<Rightarrow> int \<Rightarrow> AllocationInput list \<Rightarrow> (string \<times> string) list" where
  "allocate_units tot remainder allocated [] = [(remainder, show_int (tot - allocated))]"
| "allocate_units tot remainder allocated (a # as) =
     (if al_beneficiary a = remainder then allocate_units tot remainder allocated as
      else let units = bigint_div (tot * bps_of a) 10000
           in (al_beneficiary a, show_int units) # allocate_units tot remainder (allocated + units) as)"

definition allocateExactUnitsOverTotal :: "ArbitrationOutcomeContent \<Rightarrow> int \<Rightarrow> (string \<times> string) list result" where
  "allocateExactUnitsOverTotal content tot =
     bindR (assertWellFormedOutcomeContent content) (\<lambda>_.
       Inr (allocate_units tot (oc_remainderBeneficiary content) 0 (oc_allocations content)))"

definition allocateExactUnits :: "ArbitrationOutcomeContent \<Rightarrow> (string \<times> string) list result" where
  "allocateExactUnits content =
     bindR (parse_bigint (oc_totalUnits content)) (allocateExactUnitsOverTotal content)"

section \<open>Canonical form\<close>

text \<open>
  \<^verbatim>\<open>sort\<close> is stable: for a consistent comparison its result is that of insertion sort. The
  comparison \<^verbatim>\<open>localeCompare\<close> depends on the locale data of the runtime.
\<close>

fun insert_by :: "('a \<Rightarrow> 'a \<Rightarrow> int) \<Rightarrow> 'a \<Rightarrow> 'a list \<Rightarrow> 'a list" where
  "insert_by cmp x [] = [x]"
| "insert_by cmp x (y # ys) = (if cmp x y \<le> 0 then x # y # ys else y # insert_by cmp x ys)"

definition sort_by :: "('a \<Rightarrow> 'a \<Rightarrow> int) \<Rightarrow> 'a list \<Rightarrow> 'a list" where
  "sort_by cmp xs = foldr (insert_by cmp) xs []"

definition canonicalAllocations :: "(string \<Rightarrow> string \<Rightarrow> int) \<Rightarrow> ArbitrationOutcomeContent \<Rightarrow> AllocationInput list" where
  "canonicalAllocations lc content = sort_by (\<lambda>a b. lc (al_beneficiary a) (al_beneficiary b)) (oc_allocations content)"

definition allocation_part :: "AllocationInput \<Rightarrow> string" where
  "allocation_part a = al_beneficiary a @ CHR '':'' # show_int (bps_of a)"

definition canonicalizeOutcomeContent :: "(string \<Rightarrow> string \<Rightarrow> int) \<Rightarrow> ArbitrationOutcomeContent \<Rightarrow> string result" where
  "canonicalizeOutcomeContent lc content =
     bindR (assertWellFormedOutcomeContent content) (\<lambda>_.
       Inr (join_with (CHR ''|'') [''SAILS_ECONOMIC_OUTCOME_V1'', ''1'', ruling_name (oc_ruling content), oc_asset content,
              oc_totalUnits content, join_with (CHR '','') (map allocation_part (canonicalAllocations lc content)),
              oc_remainderBeneficiary content]))"

definition hashOutcomeContent :: "(string \<Rightarrow> string) \<Rightarrow> (string \<Rightarrow> string \<Rightarrow> int) \<Rightarrow> ArbitrationOutcomeContent \<Rightarrow> string result" where
  "hashOutcomeContent sha lc content = bindR (canonicalizeOutcomeContent lc content) (\<lambda>c. Inr (sha c))"

definition buildOutcomeDestinationBinding ::
    "(string \<Rightarrow> string \<Rightarrow> int) \<Rightarrow> BeneficiaryDestination list \<Rightarrow> BeneficiaryDestination list DestinationBinding" where
  "buildOutcomeDestinationBinding lc destinations =
     DestinationBinding (sort_by (\<lambda>a b. lc (bd_beneficiary a) (bd_beneficiary b)) destinations)"

definition buildArbitrationOutcome ::
    "ArbitrationOutcomeContent \<Rightarrow> BeneficiaryDestination list DestinationBinding \<Rightarrow> arbitration_outcome result" where
  "buildArbitrationOutcome content binding =
     bindR (assertWellFormedOutcomeContent content) (\<lambda>_.
     bindR (guardR (list_all (\<lambda>a. al_beneficiary a \<in> bd_beneficiary ` set (binding_reference binding)) (oc_allocations content))
              (GenericError ''beneficiary has an allocation but no bound destination'')) (\<lambda>_.
       Inr \<lparr>out_content = content, destinationBinding = Some binding\<rparr>))"

section \<open>Correspondence\<close>

record provider_report =
  hasReachedRail :: bool
  reportedDestination :: "string option"
  reportedAmount :: "string option"
  reportedAsset :: "string option"

definition buildAuthorizedDestinationBinding :: "string \<Rightarrow> string DestinationBinding" where
  "buildAuthorizedDestinationBinding resolvedAddress = DestinationBinding resolvedAddress"

definition normalizeProviderReport :: "provider_report \<Rightarrow> string ExecutionObservation" where
  "normalizeProviderReport report =
     (if \<not> hasReachedRail report
      then \<lparr>ob_status = AWAITED, ob_destinationReference = None, ob_amount = None, ob_asset = None\<rparr>
      else \<lparr>ob_status = OBSERVED, ob_destinationReference = reportedDestination report,
            ob_amount = reportedAmount report, ob_asset = reportedAsset report\<rparr>)"

definition evaluateSettlementCorrespondence ::
    "string DestinationBinding option \<Rightarrow> string option \<Rightarrow> string option \<Rightarrow> string ExecutionObservation \<Rightarrow> CorrespondenceResult" where
  "evaluateSettlementCorrespondence dest amount asset observation =
     evaluateCorrespondence \<lparr>authorizedDestination = dest, authorizedAmount = amount, authorizedAsset = asset,
                             ci_observation = observation\<rparr>"

definition bound_destinations :: "arbitration_outcome \<Rightarrow> BeneficiaryDestination list" where
  "bound_destinations outcome = (case destinationBinding outcome of None \<Rightarrow> [] | Some b \<Rightarrow> binding_reference b)"

definition destination_of :: "BeneficiaryDestination list \<Rightarrow> string \<Rightarrow> string option" where
  "destination_of ds b = map_option bd_destination (find (\<lambda>d. bd_beneficiary d = b) ds)"

definition irresolvable :: "string ExecutionObservation" where
  "irresolvable = \<lparr>ob_status = IRRESOLVABLE, ob_destinationReference = None, ob_amount = None, ob_asset = None\<rparr>"

definition verdict_for :: "arbitration_outcome \<Rightarrow> (string \<rightharpoonup> string ExecutionObservation) \<Rightarrow> string \<times> string \<Rightarrow> string \<times> CorrespondenceResult" where
  "verdict_for outcome observations share =
     (fst share,
      evaluateSettlementCorrespondence (map_option DestinationBinding (destination_of (bound_destinations outcome) (fst share)))
        (Some (snd share)) (Some (oc_asset (out_content outcome)))
        (case observations (fst share) of None \<Rightarrow> irresolvable | Some obs \<Rightarrow> obs))"

definition evaluateOutcomeCorrespondence ::
    "arbitration_outcome \<Rightarrow> (string \<rightharpoonup> string ExecutionObservation) \<Rightarrow> (string \<times> CorrespondenceResult) list result" where
  "evaluateOutcomeCorrespondence outcome observations =
     bindR (allocateExactUnits (out_content outcome)) (\<lambda>units. Inr (map (verdict_for outcome observations) units))"

fun sum_delivered :: "(string \<rightharpoonup> string ExecutionObservation) \<Rightarrow> int \<Rightarrow> AllocationInput list \<Rightarrow> int result" where
  "sum_delivered observations acc [] = Inr acc"
| "sum_delivered observations acc (a # as) =
     (case observations (al_beneficiary a) of
        None \<Rightarrow> Inl (GenericError ''TypeError'')
      | Some obs \<Rightarrow> (case ob_amount obs of
                        None \<Rightarrow> Inl (GenericError ''TypeError'')
                      | Some amount \<Rightarrow> bindR (parse_bigint amount) (\<lambda>n. sum_delivered observations (acc + n) as)))"

definition evaluateOutcomeCorrespondenceWithExecutionCost ::
    "cost_config \<Rightarrow> arbitration_outcome \<Rightarrow> (string \<rightharpoonup> string ExecutionObservation) \<Rightarrow> (string \<times> CorrespondenceResult) list result" where
  "evaluateOutcomeCorrespondenceWithExecutionCost cfg outcome observations =
     (let content = out_content outcome; allocs = oc_allocations content in
      if \<not> list_all (\<lambda>a. case observations (al_beneficiary a) of
                            None \<Rightarrow> False | Some obs \<Rightarrow> ob_status obs = OBSERVED \<and> ob_amount obs \<noteq> None) allocs
      then evaluateOutcomeCorrespondence outcome observations
      else bindR (sum_delivered observations 0 allocs) (\<lambda>deliveredTotal.
           bindR (parse_bigint (oc_totalUnits content)) (\<lambda>gross.
             case deriveDistributableTotal cfg gross deliveredTotal (int (length allocs)) of
               Inl _ \<Rightarrow> Inr (map (\<lambda>a. (al_beneficiary a, DIVERGENT)) allocs)
             | Inr (distributable, _) \<Rightarrow>
                 bindR (allocateExactUnitsOverTotal content distributable) (\<lambda>expected.
                   Inr (map (verdict_for outcome observations) expected)))))"

section \<open>The guard on a built transaction\<close>

text \<open>
  A decoded transaction: the value of its first input, if the witness data has one, and its
  outputs with the address of the script, if it has one.
\<close>

record decoded_psbt =
  dp_inputValue :: "int option"
  dp_outputs :: "(string option \<times> int) list"

definition share_mismatch :: "BeneficiaryDestination list \<Rightarrow> (string option \<times> int) list \<Rightarrow> string \<times> string \<Rightarrow> string list result" where
  "share_mismatch destinations outputs share =
     (case destination_of destinations (fst share) of
        None \<Rightarrow> Inr [''no destination binding exists for allocated beneficiary'']
      | Some address \<Rightarrow>
          bindR (parse_bigint (snd share)) (\<lambda>units.
            if list_ex (\<lambda>out. fst out = Some address \<and> snd out = units) outputs then Inr []
            else if list_ex (\<lambda>out. fst out = Some address) outputs
            then Inr [''translated PSBT pays another amount there instead'']
            else Inr [''no such output exists in the translated PSBT'']))"

fun share_mismatches :: "BeneficiaryDestination list \<Rightarrow> (string option \<times> int) list \<Rightarrow> (string \<times> string) list \<Rightarrow> string list result" where
  "share_mismatches destinations outputs [] = Inr []"
| "share_mismatches destinations outputs (s # ss) =
     bindR (share_mismatch destinations outputs s) (\<lambda>m.
     bindR (share_mismatches destinations outputs ss) (\<lambda>ms. Inr (m @ ms)))"

definition validateTranslatedOutputsAgainstOutcome ::
    "cost_config \<Rightarrow> (string \<Rightarrow> decoded_psbt option) \<Rightarrow> string \<Rightarrow> arbitration_outcome \<Rightarrow> int option \<Rightarrow> (bool \<times> string list) result" where
  "validateTranslatedOutputsAgainstOutcome cfg decode psbtBase64 outcome declaredMinerFeeSats =
     (case decode psbtBase64 of
        None \<Rightarrow> Inr (False, [''failed to decode translated PSBT''])
      | Some psbt \<Rightarrow>
     (case dp_inputValue psbt of
        None \<Rightarrow> Inr (False, [''translated PSBT input has no witnessUtxo''])
      | Some inputValue \<Rightarrow>
        let outputs = dp_outputs psbt; outputTotal = sum_list (map snd outputs) in
        if outputTotal > inputValue then Inr (False, [''outputs exceed its own declared input''])
        else
        let actualFee = inputValue - outputTotal;
            feeMismatch = (case declaredMinerFeeSats of
                             None \<Rightarrow> []
                           | Some f \<Rightarrow> if actualFee \<noteq> f then [''internally inconsistent miner fee''] else []);
            destinations = bound_destinations outcome
        in if destinations = [] then Inr (False, [''authoritative Outcome has no destination binding''])
        else bindR (parse_bigint (oc_totalUnits (out_content outcome))) (\<lambda>gross.
             case deriveDistributableTotal cfg gross outputTotal (int (length (oc_allocations (out_content outcome)))) of
               Inl reason \<Rightarrow> Inr (False, feeMismatch @ [reason])
             | Inr (distributable, _) \<Rightarrow>
                 bindR (allocateExactUnitsOverTotal (out_content outcome) distributable) (\<lambda>expected.
                 bindR (share_mismatches destinations outputs expected) (\<lambda>wrong.
                   let mismatches = feeMismatch @ wrong
                         @ (if length outputs \<noteq> length expected then [''wrong number of outputs''] else [])
                   in Inr (mismatches = [], mismatches))))))"

definition assertTranslationMatchesOutcome ::
    "cost_config \<Rightarrow> (string \<Rightarrow> decoded_psbt option) \<Rightarrow> string \<Rightarrow> arbitration_outcome \<Rightarrow> int option \<Rightarrow> unit result" where
  "assertTranslationMatchesOutcome cfg decode psbtBase64 outcome declaredMinerFeeSats =
     bindR (validateTranslatedOutputsAgainstOutcome cfg decode psbtBase64 outcome declaredMinerFeeSats) (\<lambda>(ok, _).
       guardR ok (GenericError ''Translated settlement transaction does not correspond to the authoritative Outcome''))"

section \<open>Well-formed contents\<close>

definition outcome_wf :: "ArbitrationOutcomeContent \<Rightarrow> bool" where
  "outcome_wf content \<longleftrightarrow>
     is_digit_string (oc_totalUnits content) \<and> oc_allocations content \<noteq> [] \<and> distinct (map al_beneficiary (oc_allocations content))
     \<and> (\<forall>a \<in> set (oc_allocations content). bps_in 1 10000 (al_basisPoints a))
     \<and> sum_list (map bps_of (oc_allocations content)) = 10000
     \<and> oc_remainderBeneficiary content \<in> al_beneficiary ` set (oc_allocations content)"

lemma well_formed_iff: "assertWellFormedOutcomeContent content = Inr u \<longleftrightarrow> outcome_wf content"
  by (auto simp: assertWellFormedOutcomeContent_def outcome_wf_def Let_def bindR_eq_Inr list_all_iff)

lemma bps_in_of: "bps_in lo hi (al_basisPoints a) \<Longrightarrow> lo \<le> bps_of a \<and> bps_of a \<le> hi"
  by (auto simp: bps_in_def bps_of_def split: option.splits)

lemma allocateOverTotal_iff:
  "allocateExactUnitsOverTotal content tot = Inr shares \<longleftrightarrow>
     outcome_wf content \<and> shares = allocate_units tot (oc_remainderBeneficiary content) 0 (oc_allocations content)"
  by (auto simp: allocateExactUnitsOverTotal_def bindR_eq_Inr well_formed_iff)

section \<open>Shares\<close>

abbreviation share_floor :: "int \<Rightarrow> AllocationInput \<Rightarrow> int" where
  "share_floor tot a \<equiv> tot * bps_of a div 10000"

definition exact_shares :: "ArbitrationOutcomeContent \<Rightarrow> int \<Rightarrow> (string \<times> int) list" where
  "exact_shares content tot =
     (let others = filter (\<lambda>a. al_beneficiary a \<noteq> oc_remainderBeneficiary content) (oc_allocations content)
      in map (\<lambda>a. (al_beneficiary a, share_floor tot a)) others
           @ [(oc_remainderBeneficiary content, tot - sum_list (map (share_floor tot) others))])"

lemma allocate_units_eq:
  assumes "0 \<le> tot" and "\<forall>a \<in> set as. 0 \<le> bps_of a"
  shows "allocate_units tot rem acc as =
    map (\<lambda>a. (al_beneficiary a, show_int (share_floor tot a))) (filter (\<lambda>a. al_beneficiary a \<noteq> rem) as)
      @ [(rem, show_int (tot - (acc + sum_list (map (share_floor tot) (filter (\<lambda>a. al_beneficiary a \<noteq> rem) as)))))]"
  using assms(2)
proof (induction "as" arbitrary: acc)
  case (Cons a as)
  then have "bigint_div (tot * bps_of a) 10000 = share_floor tot a" using assms(1) by (simp add: bigint_div_def)
  with Cons show ?case by (simp add: Let_def add.assoc)
qed simp

lemma outcome_wf_bps: "outcome_wf content \<Longrightarrow> a \<in> set (oc_allocations content) \<Longrightarrow> 1 \<le> bps_of a \<and> bps_of a \<le> 10000"
  using bps_in_of by (auto simp: outcome_wf_def)

lemma allocateOverTotal_shares:
  assumes "allocateExactUnitsOverTotal content tot = Inr shares" and "0 \<le> tot"
  shows "shares = map (\<lambda>(b, u). (b, show_int u)) (exact_shares content tot)"
proof -
  have wf: "outcome_wf content" using assms(1) by (simp add: allocateOverTotal_iff)
  then have "\<forall>a \<in> set (oc_allocations content). 0 \<le> bps_of a" using outcome_wf_bps by fastforce
  from allocate_units_eq [OF assms(2) this, of "oc_remainderBeneficiary content" 0] assms(1) show ?thesis
    by (simp add: allocateOverTotal_iff exact_shares_def Let_def)
qed

lemma sum_filter_split:
  fixes f :: "'a \<Rightarrow> int"
  shows "sum_list (map f xs) = sum_list (map f (filter P xs)) + sum_list (map f (filter (\<lambda>x. \<not> P x) xs))"
  by (induction xs) auto

lemma mset_map_filter_split:
  "mset (map f xs) = mset (map f (filter P xs)) + mset (map f (filter (\<lambda>x. \<not> P x) xs))"
  by (induction xs) auto

lemma filter_by_key: "distinct (map f xs) \<Longrightarrow> x \<in> set xs \<Longrightarrow> filter (\<lambda>y. f y = f x) xs = [x]"
proof (induction xs)
  case (Cons y ys)
  show ?case
  proof (cases "y = x")
    case True
    have "f y \<notin> f ` set ys" using Cons.prems(1) by simp
    then have "\<forall>z \<in> set ys. f z \<noteq> f y" by (metis imageI)
    with True show ?thesis by (simp add: filter_empty_conv)
  next
    case False
    with Cons.prems have "x \<in> set ys" "f y \<noteq> f x" by force+
    with Cons show ?thesis by simp
  qed
qed simp

lemma remainder_member:
  assumes "outcome_wf content"
  obtains r where "r \<in> set (oc_allocations content)" and "al_beneficiary r = oc_remainderBeneficiary content"
    and "filter (\<lambda>a. al_beneficiary a = oc_remainderBeneficiary content) (oc_allocations content) = [r]"
proof -
  obtain r where r: "r \<in> set (oc_allocations content)" "oc_remainderBeneficiary content = al_beneficiary r"
    using assms by (auto simp: outcome_wf_def)
  have "distinct (map al_beneficiary (oc_allocations content))" using assms by (simp add: outcome_wf_def)
  from filter_by_key [OF this r(1)] r that show thesis by simp
qed

lemma floor_gap:
  fixes t s n q f :: int
  assumes "t * 10000 \<le> s * 10000 + n * (10000 - 1)" and "1 \<le> n" and "s = q + f"
  shows "t - q \<le> f + (n - 1)"
proof (rule ccontr)
  assume "\<not> t - q \<le> f + (n - 1)"
  then have "s + n \<le> t" using assms(3) by simp
  then have "s * 10000 + n * 10000 \<le> t * 10000" by simp
  moreover have "t * 10000 \<le> s * 10000 + n * 9999" using assms(1) by simp
  ultimately have "n * 10000 \<le> n * 9999" by simp
  with assms(2) show False by simp
qed

lemma remainder_share:
  assumes wf: "outcome_wf content" and r: "r \<in> set (oc_allocations content)" "al_beneficiary r = oc_remainderBeneficiary content"
    and tot: "0 \<le> tot"
  shows "share_floor tot r \<le> tot - sum_list (map (share_floor tot)
             (filter (\<lambda>a. al_beneficiary a \<noteq> oc_remainderBeneficiary content) (oc_allocations content)))"
    and "tot - sum_list (map (share_floor tot)
             (filter (\<lambda>a. al_beneficiary a \<noteq> oc_remainderBeneficiary content) (oc_allocations content)))
           \<le> share_floor tot r + (int (length (oc_allocations content)) - 1)"
proof -
  let ?as = "oc_allocations content" and ?f = "\<lambda>a. tot * bps_of a"
  have dist: "distinct (map al_beneficiary ?as)" using wf by (simp add: outcome_wf_def)
  have only: "filter (\<lambda>a. al_beneficiary a = oc_remainderBeneficiary content) ?as = [r]"
    using filter_by_key [OF dist r(1)] r(2) by simp
  have split: "sum_list (map (share_floor tot) ?as) = sum_list (map (share_floor tot)
      (filter (\<lambda>a. al_beneficiary a \<noteq> oc_remainderBeneficiary content) ?as)) + share_floor tot r"
    using sum_filter_split [of "share_floor tot" ?as "\<lambda>a. al_beneficiary a = oc_remainderBeneficiary content"] only by simp
  have whole: "sum_list (map ?f ?as) = tot * 10000"
    using wf by (simp add: sum_list_const_mult outcome_wf_def)
  have "sum_list (map (\<lambda>a. ?f a div 10000) ?as) * 10000 \<le> tot * 10000"
    using sum_list_floor_le [of 10000 ?f ?as] whole by simp
  then show "share_floor tot r \<le> tot - sum_list (map (share_floor tot)
             (filter (\<lambda>a. al_beneficiary a \<noteq> oc_remainderBeneficiary content) ?as))"
    using split by simp
  have "tot * 10000 \<le> sum_list (map (\<lambda>a. ?f a div 10000) ?as) * 10000 + int (length ?as) * (10000 - 1)"
    using sum_list_floor_gt [of 10000 ?f ?as] whole by simp
  moreover have "1 \<le> int (length ?as)" using r(1) by (cases ?as) auto
  ultimately show "tot - sum_list (map (share_floor tot)
             (filter (\<lambda>a. al_beneficiary a \<noteq> oc_remainderBeneficiary content) ?as))
           \<le> share_floor tot r + (int (length ?as) - 1)"
    using split by (rule floor_gap)
qed

lemma beneficiaries_of_shares:
  assumes "outcome_wf content"
  shows "mset (map fst (exact_shares content tot)) = mset (map al_beneficiary (oc_allocations content))"
proof -
  let ?as = "oc_allocations content" and ?r = "oc_remainderBeneficiary content"
  obtain r where "al_beneficiary r = ?r" "filter (\<lambda>a. al_beneficiary a = ?r) ?as = [r]"
    by (rule remainder_member [OF assms])
  moreover have "mset (map al_beneficiary ?as) = mset (map al_beneficiary (filter (\<lambda>a. al_beneficiary a = ?r) ?as))
      + mset (map al_beneficiary (filter (\<lambda>a. al_beneficiary a \<noteq> ?r) ?as))"
    by (rule mset_map_filter_split)
  ultimately show ?thesis by (simp add: exact_shares_def Let_def o_def del: mset_filter)
qed

section \<open>Canonical strings\<close>

lemma mset_sort_by [simp]: "mset (sort_by cmp xs) = mset xs"
proof -
  have "mset (insert_by cmp x ys) = add_mset x (mset ys)" for x ys by (induction ys) auto
  then show ?thesis by (induction xs) (simp_all add: sort_by_def)
qed

lemma set_sort_by [simp]: "set (sort_by cmp xs) = set xs"
  by (metis mset_sort_by set_mset_mset)

lemma join_with_inj_lengths:
  assumes "xs \<noteq> []" and "ys \<noteq> []" and "\<forall>x \<in> set xs. c \<notin> set x" and "\<forall>y \<in> set ys. c \<notin> set y"
    and "join_with c xs = join_with c ys"
  shows "xs = ys"
  using assms
proof (induction xs arbitrary: ys)
  case (Cons x xs)
  then obtain y zs where ys: "ys = y # zs" by (cases ys) auto
  show ?case
  proof (cases "xs = [] \<or> zs = []")
    case True
    have "xs = [] \<longleftrightarrow> zs = []"
    proof -
      have "xs = []" if "zs = []" using Cons.prems that ys by (cases "xs = []") (auto simp: join_with_Cons)
      moreover have "zs = []" if "xs = []" using Cons.prems that ys by (cases "zs = []") (auto simp: join_with_Cons)
      ultimately show ?thesis by blast
    qed
    with True Cons.prems ys show ?thesis by auto
  next
    case False
    with Cons.prems ys have "x @ c # join_with c xs = y @ c # join_with c zs" by (simp add: join_with_Cons)
    then have "x = y" and "join_with c xs = join_with c zs"
      using split_first_sep [of x c "join_with c xs" y "join_with c zs"] Cons.prems ys by auto
    with Cons False ys show ?thesis by auto
  qed
qed simp

lemma join_with_chars: "d \<in> set (join_with c xs) \<Longrightarrow> d = c \<or> (\<exists>x \<in> set xs. d \<in> set x)"
  by (induction c xs rule: join_with.induct) auto

text \<open>Participants and assets are named without the separators of the canonical form.\<close>

definition separator_free :: "ArbitrationOutcomeContent \<Rightarrow> bool" where
  "separator_free content \<longleftrightarrow> CHR ''|'' \<notin> set (oc_asset content)
     \<and> (\<forall>a \<in> set (oc_allocations content). {CHR ''|'', CHR '','', CHR '':''} \<inter> set (al_beneficiary a) = {})"

definition named_shares :: "ArbitrationOutcomeContent \<Rightarrow> (string \<times> int) multiset" where
  "named_shares content = mset (map (\<lambda>a. (al_beneficiary a, bps_of a)) (oc_allocations content))"

lemma allocation_part_inj:
  assumes "CHR '':'' \<notin> set (al_beneficiary a)" and "CHR '':'' \<notin> set (al_beneficiary b)" and "allocation_part a = allocation_part b"
  shows "al_beneficiary a = al_beneficiary b \<and> bps_of a = bps_of b"
  using split_first_sep [OF assms(3) [unfolded allocation_part_def] assms(1,2)] by simp

lemma allocation_parts_inj:
  assumes "\<forall>a \<in> set as \<union> set bs. CHR '':'' \<notin> set (al_beneficiary a)" and "map allocation_part as = map allocation_part bs"
  shows "map (\<lambda>a. (al_beneficiary a, bps_of a)) as = map (\<lambda>a. (al_beneficiary a, bps_of a)) bs"
  using assms
proof (induction "as" arbitrary: bs)
  case (Cons a as)
  then obtain b cs where bs: "bs = b # cs" "allocation_part a = allocation_part b" by (cases bs) auto
  with Cons.prems allocation_part_inj [of a b] Cons.IH [of cs] show ?case by auto
qed simp

definition allocations_part :: "(string \<Rightarrow> string \<Rightarrow> int) \<Rightarrow> ArbitrationOutcomeContent \<Rightarrow> string" where
  "allocations_part lc content = join_with (CHR '','') (map allocation_part (canonicalAllocations lc content))"

lemma allocations_part_chars:
  assumes "separator_free content"
  shows "CHR ''|'' \<notin> set (allocations_part lc content)"
    and "\<forall>x \<in> set (map allocation_part (canonicalAllocations lc content)). CHR '','' \<notin> set x"
proof -
  have part: "CHR ''|'' \<notin> set (allocation_part a) \<and> CHR '','' \<notin> set (allocation_part a)"
    if "a \<in> set (canonicalAllocations lc content)" for a
    using assms that by (auto simp: separator_free_def allocation_part_def canonicalAllocations_def is_digit_char_def)
  then show "\<forall>x \<in> set (map allocation_part (canonicalAllocations lc content)). CHR '','' \<notin> set x" by auto
  show "CHR ''|'' \<notin> set (allocations_part lc content)"
    unfolding allocations_part_def using part by (auto dest!: join_with_chars)
qed

lemma allocations_part_inj:
  assumes "separator_free c" and "separator_free d" and "outcome_wf c" and "outcome_wf d"
    and "allocations_part lc c = allocations_part lc d"
  shows "named_shares c = named_shares d"
proof -
  have ne: "canonicalAllocations lc x \<noteq> []" if "outcome_wf x" for x
    using that by (metis canonicalAllocations_def outcome_wf_def set_empty set_sort_by)
  have "map allocation_part (canonicalAllocations lc c) = map allocation_part (canonicalAllocations lc d)"
    using join_with_inj_lengths [OF _ _ allocations_part_chars(2) [OF assms(1)] allocations_part_chars(2) [OF assms(2)]]
      assms(3-5) ne by (simp add: allocations_part_def)
  then have "map (\<lambda>a. (al_beneficiary a, bps_of a)) (canonicalAllocations lc c)
      = map (\<lambda>a. (al_beneficiary a, bps_of a)) (canonicalAllocations lc d)"
    using assms(1,2) by (intro allocation_parts_inj) (auto simp: separator_free_def canonicalAllocations_def)
  from arg_cong [OF this, of mset] show ?thesis by (simp add: named_shares_def canonicalAllocations_def)
qed

definition outcome_fields :: "(string \<Rightarrow> string \<Rightarrow> int) \<Rightarrow> ArbitrationOutcomeContent \<Rightarrow> string list" where
  "outcome_fields lc c = [''SAILS_ECONOMIC_OUTCOME_V1'', ''1'', ruling_name (oc_ruling c), oc_asset c, oc_totalUnits c,
     allocations_part lc c, oc_remainderBeneficiary c]"

lemma hashOutcomeContent_iff:
  "hashOutcomeContent sha lc c = Inr h \<longleftrightarrow> outcome_wf c \<and> h = sha (join_with (CHR ''|'') (outcome_fields lc c))"
  unfolding hashOutcomeContent_def canonicalizeOutcomeContent_def outcome_fields_def allocations_part_def bindR_eq_Inr well_formed_iff
  by blast

lemma outcome_fields_free:
  assumes "outcome_wf c" and "separator_free c"
  shows "\<forall>x \<in> set (outcome_fields lc c). CHR ''|'' \<notin> set x"
proof -
  have "CHR ''|'' \<notin> set (oc_totalUnits c)"
    using assms(1) by (intro digit_string_no_sep) (auto simp: outcome_wf_def is_digit_char_def)
  moreover have "CHR ''|'' \<notin> set (oc_remainderBeneficiary c)"
    using assms by (auto simp: outcome_wf_def separator_free_def)
  moreover have "CHR ''|'' \<notin> set (ruling_name (oc_ruling c))" by (cases "oc_ruling c") simp_all
  ultimately show ?thesis
    using assms(2) allocations_part_chars(1) [OF assms(2), of lc] by (simp add: outcome_fields_def separator_free_def)
qed

lemma ruling_name_inject [simp]: "ruling_name r = ruling_name q \<longleftrightarrow> r = q"
  by (cases r; cases q) simp_all

section \<open>Outputs and shares\<close>

lemma mset_eq_if_covered:
  assumes "distinct xs" and "set xs \<subseteq> set ys" and "length ys = length xs"
  shows "mset ys = mset xs"
proof -
  have "mset xs = mset_set (set xs)" using assms(1) by (simp add: mset_set_set)
  also have "\<dots> \<subseteq># mset_set (set ys)" using assms(2) by (simp add: subset_imp_msubset_mset_set)
  also have "\<dots> \<subseteq># mset ys" by (simp add: mset_set_set_mset_msubset flip: set_mset_mset)
  finally have "mset xs \<subseteq># mset ys" .
  moreover have "\<not> mset xs \<subset># mset ys" using assms(3) mset_subset_size [of "mset xs" "mset ys"] by auto
  ultimately show ?thesis by (auto simp: subset_mset.le_less)
qed

lemma pays_iff: "list_ex (\<lambda>out. fst out = a \<and> snd out = u) outs \<longleftrightarrow> (a, u) \<in> set outs"
  by (induction outs) auto

lemma share_mismatches_empty:
  assumes "share_mismatches ds outs (map (\<lambda>(b, u). (b, show_int u)) us) = Inr []" and "(b, u) \<in> set us"
  shows "\<exists>address. destination_of ds b = Some address \<and> (Some address, u) \<in> set outs"
  using assms
proof (induction us)
  case (Cons s us)
  have "share_mismatch ds outs ((\<lambda>(b, u). (b, show_int u)) s) = Inr []"
    and "share_mismatches ds outs (map (\<lambda>(b, u). (b, show_int u)) us) = Inr []"
    using Cons.prems(1) by (auto simp: bindR_eq_Inr)
  with Cons show ?case
    by (cases s) (auto simp: share_mismatch_def list_ex_iff split: option.splits if_splits)
qed simp

lemma guard_passes:
  assumes "assertTranslationMatchesOutcome cfg decode p outcome declared = Inr ()" and "decode p = Some psbt"
  obtains inputValue gross expected where "dp_inputValue psbt = Some inputValue"
    and "\<forall>f. declared = Some f \<longrightarrow> inputValue - sum_list (map snd (dp_outputs psbt)) = f"
    and "parse_bigint (oc_totalUnits (out_content outcome)) = Inr gross"
    and "sum_list (map snd (dp_outputs psbt)) \<le> gross"
    and "gross - sum_list (map snd (dp_outputs psbt)) \<le> maxExecutionCostSats cfg (int (length (oc_allocations (out_content outcome)))) gross"
    and "allocateExactUnitsOverTotal (out_content outcome) (sum_list (map snd (dp_outputs psbt))) = Inr expected"
    and "share_mismatches (bound_destinations outcome) (dp_outputs psbt) expected = Inr []"
    and "length (dp_outputs psbt) = length expected"
proof -
  have "\<exists>m. validateTranslatedOutputsAgainstOutcome cfg decode p outcome declared = Inr (True, m)"
    using assms(1) by (auto simp: assertTranslationMatchesOutcome_def bindR_eq_Inr)
  then show thesis
    using assms(2) that
    by (auto simp: validateTranslatedOutputsAgainstOutcome_def Let_def bindR_eq_Inr deriveDistributableTotal_def
        split: option.splits if_splits sum.splits)
qed

section \<open>Properties\<close>

text \<open>
  A ruling divides the escrowed total exactly. For a total that is not negative every
  beneficiary of the ruling gets one share, the shares are not negative and add up to the total,
  every beneficiary but one gets its basis points rounded down, and the beneficiary of the
  remainder gets its own rounded share and at most one unit more for each other beneficiary.
\<close>

theorem ruling_divides_exactly:
  assumes alloc: "allocateExactUnitsOverTotal content tot = Inr shares" and tot: "0 \<le> tot"
  shows "\<exists>us. shares = map (\<lambda>(b, u). (b, show_int u)) us
     \<and> mset (map fst us) = mset (map al_beneficiary (oc_allocations content))
     \<and> sum_list (map snd us) = tot \<and> (\<forall>(b, u) \<in> set us. 0 \<le> u)
     \<and> (\<forall>a \<in> set (oc_allocations content).
          \<exists>u. (al_beneficiary a, u) \<in> set us \<and> share_floor tot a \<le> u
            \<and> u \<le> share_floor tot a + (if al_beneficiary a = oc_remainderBeneficiary content
                                        then int (length (oc_allocations content)) - 1 else 0))"
proof (intro exI conjI)
  let ?as = "oc_allocations content" and ?us = "exact_shares content tot"
  let ?others = "filter (\<lambda>a. al_beneficiary a \<noteq> oc_remainderBeneficiary content) ?as"
  have wf: "outcome_wf content" using alloc by (simp add: allocateOverTotal_iff)
  obtain r where r: "r \<in> set ?as" "al_beneficiary r = oc_remainderBeneficiary content"
      "filter (\<lambda>a. al_beneficiary a = oc_remainderBeneficiary content) ?as = [r]"
    by (rule remainder_member [OF wf])
  note rem = remainder_share [OF wf r(1,2) tot]
  have floor: "0 \<le> share_floor tot a" if "a \<in> set ?as" for a
    using outcome_wf_bps [OF wf that] tot by (simp add: pos_imp_zdiv_nonneg_iff)
  show "shares = map (\<lambda>(b, u). (b, show_int u)) ?us" by (rule allocateOverTotal_shares [OF alloc tot])
  show "mset (map fst ?us) = mset (map al_beneficiary ?as)" by (rule beneficiaries_of_shares [OF wf])
  show "sum_list (map snd ?us) = tot" by (simp add: exact_shares_def Let_def o_def)
  show "\<forall>(b, u) \<in> set ?us. 0 \<le> u"
    using floor rem(1) floor [OF r(1)] by (auto simp: exact_shares_def Let_def)
  show "\<forall>a \<in> set ?as. \<exists>u. (al_beneficiary a, u) \<in> set ?us \<and> share_floor tot a \<le> u
      \<and> u \<le> share_floor tot a + (if al_beneficiary a = oc_remainderBeneficiary content then int (length ?as) - 1 else 0)"
  proof
    fix a assume a: "a \<in> set ?as"
    show "\<exists>u. (al_beneficiary a, u) \<in> set ?us \<and> share_floor tot a \<le> u
      \<and> u \<le> share_floor tot a + (if al_beneficiary a = oc_remainderBeneficiary content then int (length ?as) - 1 else 0)"
    proof (cases "al_beneficiary a = oc_remainderBeneficiary content")
      case True
      with a have "a \<in> set (filter (\<lambda>a. al_beneficiary a = oc_remainderBeneficiary content) ?as)" by simp
      then have "a = r" unfolding r(3) by simp
      with rem True show ?thesis by (auto simp: exact_shares_def Let_def)
    next
      case False
      with a show ?thesis by (force simp: exact_shares_def Let_def)
    qed
  qed
qed

definition demo_split :: "int \<Rightarrow> ArbitrationOutcomeContent" where
  "demo_split bps = \<lparr>oc_ruling = SPLIT_RULING, oc_totalUnits = ''100001'', oc_asset = ''BTC'',
     oc_allocations = [\<lparr>al_beneficiary = ''bob'', al_basisPoints = Num (of_int bps)\<rparr>,
                       \<lparr>al_beneficiary = ''alice'', al_basisPoints = Num (of_int (10000 - bps))\<rparr>],
     oc_remainderBeneficiary = ''alice''\<rparr>"

lemma demo_split_wf: "1 \<le> bps \<Longrightarrow> bps \<le> 9999 \<Longrightarrow> outcome_wf (demo_split bps)"
  by (auto simp: outcome_wf_def demo_split_def is_digit_string_def is_digit_char_def bps_in_def bps_of_def)

theorem ruling_divides_exactly_witness:
  "\<exists>us. allocateExactUnitsOverTotal (demo_split 3333) 100001 = Inr (map (\<lambda>(b, u). (b, show_int u)) us)
     \<and> sum_list (map snd us) = 100001"
proof -
  have "allocateExactUnitsOverTotal (demo_split 3333) 100001 = Inr (allocate_units 100001
      (oc_remainderBeneficiary (demo_split 3333)) 0 (oc_allocations (demo_split 3333)))"
    by (simp add: allocateOverTotal_iff demo_split_wf)
  from ruling_divides_exactly [OF this] this show ?thesis by auto
qed

text \<open>
  The hash of a ruling's content binds it. When two well-formed contents whose names are free
  of the separators have the same hash, either they are the same ruling on the same asset and
  total with the same shares and the same beneficiary of the remainder, in whatever order the
  shares were listed, or two different strings with the same hash have been found.
\<close>

theorem outcome_hash_binds_content:
  assumes "hashOutcomeContent sha lc c = Inr h" and "hashOutcomeContent sha lc d = Inr h"
    and "separator_free c" and "separator_free d"
  shows "(oc_ruling c = oc_ruling d \<and> oc_asset c = oc_asset d \<and> oc_totalUnits c = oc_totalUnits d
            \<and> named_shares c = named_shares d \<and> oc_remainderBeneficiary c = oc_remainderBeneficiary d)
       \<or> (\<exists>x y. x \<noteq> y \<and> sha x = sha y)"
proof (rule disjCI)
  assume "\<not> (\<exists>x y. x \<noteq> y \<and> sha x = sha y)"
  then have inj: "\<And>x y. sha x = sha y \<Longrightarrow> x = y" by blast
  have wf: "outcome_wf c" "outcome_wf d"
    and "sha (join_with (CHR ''|'') (outcome_fields lc c)) = sha (join_with (CHR ''|'') (outcome_fields lc d))"
    using assms(1,2) unfolding hashOutcomeContent_iff by auto
  from inj [OF this(3)] have "outcome_fields lc c = outcome_fields lc d"
    by (rule join_with_inj [OF _ outcome_fields_free [OF wf(1) assms(3)] outcome_fields_free [OF wf(2) assms(4)], rotated])
      (simp add: outcome_fields_def)
  then show "oc_ruling c = oc_ruling d \<and> oc_asset c = oc_asset d \<and> oc_totalUnits c = oc_totalUnits d
      \<and> named_shares c = named_shares d \<and> oc_remainderBeneficiary c = oc_remainderBeneficiary d"
    using allocations_part_inj [OF assms(3,4) wf, of lc] by (simp add: outcome_fields_def)
qed

theorem outcome_hash_binds_content_witness:
  "separator_free (demo_split 3333) \<and> (\<exists>h. hashOutcomeContent id (\<lambda>_ _. 0) (demo_split 3333) = Inr h)
     \<and> (named_shares (demo_split 3333) = named_shares (demo_split 3333) \<or> (\<exists>x y. x \<noteq> y \<and> id x = id (y :: string)))"
proof -
  have sep: "separator_free (demo_split 3333)" by (simp add: separator_free_def demo_split_def)
  moreover obtain h where h: "hashOutcomeContent id (\<lambda>_ _. 0) (demo_split 3333) = Inr h"
    using demo_split_wf [of 3333] unfolding hashOutcomeContent_iff by auto
  ultimately show ?thesis using outcome_hash_binds_content [OF h h sep sep] by blast
qed


definition demo_cost :: cost_config where
  "demo_cost = \<lparr>maxFeeRateSatsPerVByte = 10, maxFeeProportionOfGrossBasisPoints = 500, minFeeFloorSats = 1000\<rparr>"

definition demo_outcome :: "int \<Rightarrow> string \<Rightarrow> string \<Rightarrow> arbitration_outcome" where
  "demo_outcome bps a b = \<lparr>out_content = demo_split bps,
     destinationBinding = Some (DestinationBinding [\<lparr>bd_beneficiary = ''alice'', bd_destination = a\<rparr>, \<lparr>bd_beneficiary = ''bob'', bd_destination = b\<rparr>])\<rparr>"

lemma demo_guard_allocation:
  "1 \<le> bps \<Longrightarrow> bps \<le> 9999 \<Longrightarrow> allocateExactUnitsOverTotal (demo_split bps) tot =
     Inr (allocate_units tot ''alice'' 0 (oc_allocations (demo_split bps)))"
  using demo_split_wf by (simp add: allocateOverTotal_iff) (simp add: demo_split_def)

definition demo_psbt :: "(string option \<times> int) list \<Rightarrow> string \<Rightarrow> decoded_psbt option" where
  "demo_psbt outs _ = Some \<lparr>dp_inputValue = Some 100001, dp_outputs = outs\<rparr>"

lemma demo_gross: "parse_bigint (oc_totalUnits (demo_split bps)) = Inr 100001"
  by (simp add: demo_split_def parse_bigint_digits is_digit_string_def is_digit_char_def parse_digits_def)

lemma demo_guard_runs:
  assumes "1 \<le> bps" and "bps \<le> 9999" and "sum_list (map snd outs) = 100000" and "length outs = 2"
    and "{(Some b, 10 * bps), (Some a, 100000 - 10 * bps)} \<subseteq> set outs"
  shows "assertTranslationMatchesOutcome demo_cost (demo_psbt outs) p (demo_outcome bps a b) (Some 1) = Inr ()"
proof -
  have alloc: "allocateExactUnitsOverTotal (demo_split bps) 100000 = Inr [(''bob'', show_int (10 * bps)), (''alice'', show_int (100000 - 10 * bps))]"
    using assms(1,2) by (simp add: demo_guard_allocation) (simp add: demo_split_def bps_of_def bigint_div_def Let_def)
  have cost: "deriveDistributableTotal demo_cost 100001 100000 2 = Inr (100000, 1)"
    by (simp add: deriveDistributableTotal_def maxExecutionCostSats_def estimatedVBytesForOutputCount_def demo_cost_def
        bigint_div_def Let_def)
  have "length (oc_allocations (demo_split bps)) = 2" by (simp add: demo_split_def)
  moreover have "bound_destinations (demo_outcome bps a b) \<noteq> []" "out_content (demo_outcome bps a b) = demo_split bps"
    by (simp_all add: demo_outcome_def bound_destinations_def)
  moreover have "share_mismatches (bound_destinations (demo_outcome bps a b)) outs
      [(''bob'', show_int (10 * bps)), (''alice'', show_int (100000 - 10 * bps))] = Inr []"
    using assms(5) by (simp add: share_mismatch_def destination_of_def demo_outcome_def bound_destinations_def pays_iff)
  ultimately show ?thesis
    using assms(3,4) alloc cost demo_gross
    by (simp add: assertTranslationMatchesOutcome_def validateTranslatedOutputsAgainstOutcome_def demo_psbt_def Let_def)
qed



end
