(* ===== verification/Dispute_Authority.thy ===== *)
theory Dispute_Authority
  imports Economic_Outcome Revenue_Ledger
begin

text \<open>
  The authority behind a dispute ruling: the arbiter's signed decision
  (\<^verbatim>\<open>arbitration-authority.ts\<close>, \<^verbatim>\<open>discretionary-authority.ts\<close>), its atomic commitment together
  with the durable record of the outcome (\<^verbatim>\<open>dispute-outcome.ts\<close>), the gate before dispatch
  (\<^verbatim>\<open>dispute-dispatch.ts\<close>) and the authorization of a pending disputed transaction
  (\<^verbatim>\<open>economic-disposition-authority.ts\<close>). Signature verification, date conversion, the locale
  comparison and the hash function are parameters. The advisory locks of the database make each
  transaction one step here.
\<close>

section \<open>Rows and state\<close>

datatype DisputeStatus = OPENED | EVIDENCE_SUBMITTED | ARBITRATED | RESOLVED | APPEALED | AUTO_PROPOSED

fun dispute_status_name :: "DisputeStatus \<Rightarrow> string" where
  "dispute_status_name OPENED = ''OPENED''"
| "dispute_status_name EVIDENCE_SUBMITTED = ''EVIDENCE_SUBMITTED''"
| "dispute_status_name ARBITRATED = ''ARBITRATED''"
| "dispute_status_name RESOLVED = ''RESOLVED''"
| "dispute_status_name APPEALED = ''APPEALED''"
| "dispute_status_name AUTO_PROPOSED = ''AUTO_PROPOSED''"

record EvidenceDescriptor =
  ed_type :: string
  ed_uri :: "string option"
  ed_note :: "string option"
  ed_evidenceReferenceId :: "string option"
  ed_externalReference :: bool
  ed_submittedBy :: "string option"
  ed_submittedAt :: "int option"

record dispute_row = dispute_assignment +
  d_id :: string
  d_escrowId :: string
  d_openedBy :: string
  d_reason :: string
  d_evidence :: "EvidenceDescriptor list"
  d_status :: DisputeStatus
  d_ruling :: "ArbitrationRuling option"
  d_resolvedAt :: "int option"
  d_appealRound :: nat
  d_previousRuling :: "ArbitrationRuling option"
  d_previousArbiterId :: "string option"
  d_autoRecommendation :: "ArbitrationRuling option"
  d_autoConfidence :: "rat option"
  d_autoReasoning :: "string option"
  d_autoDeadline :: "int option"
  d_authoritySignature :: "string option"
  d_authorityIssuedAt :: "int option"
  d_authorityBuyerBps :: "int option"

record ruling_record_row =
  rr_interactionId :: string
  rr_transitionType :: string
  rr_fromState :: string
  rr_toState :: string
  rr_priorPosition :: "string option"
  rr_ruleset :: RulesetRef
  rr_evaluatorIdentity :: CanonicalEvaluatorIdentity
  rr_profileIdentity :: CanonicalSemanticProfileIdentity
  rr_deadlineMs :: int
  rr_evaluationTimeMs :: int
  rr_conditionResult :: ConditionResult
  rr_attributionActor :: "string option"
  rr_attributionRawProof :: string
  rr_attributionResolvedIdentity :: string
  rr_outcomeContent :: "ArbitrationOutcomeContent option"
  rr_outcomeDestinationBinding :: "BeneficiaryDestination list"
  rr_appealRound :: nat

datatype pending_kind = KRelease | KRefund | KSplit

fun pending_kind_name :: "pending_kind \<Rightarrow> string" where
  "pending_kind_name KRelease = ''release''"
| "pending_kind_name KRefund = ''refund''"
| "pending_kind_name KSplit = ''split''"

record pending_tx_row =
  pt_id :: string
  pt_escrowId :: string
  pt_kind :: pending_kind
  pt_toAddress :: string
  pt_toAddressSecondary :: "string option"
  pt_buyerBps :: "rat option"
  pt_feeCollectionSats :: "int option"
  pt_feeCollectionWaived :: "bool option"
  pt_minerFeeSats :: "int option"
  pt_unsignedPsbtBase64 :: string
  pt_requiredSigners :: "string list"
  pt_triggeredBy :: string
  pt_createdAt :: int
  pt_disputeId :: "string option"
  pt_rulingAppealRound :: "nat option"
  pt_rulingArbiterId :: "string option"
  pt_rulingOutcome :: "ArbitrationRuling option"
  pt_rulingAuthoritySignature :: "string option"
  pt_rulingAuthorityIssuedAt :: "int option"

record disposition_row =
  dz_pendingOperationId :: string
  dz_escrowId :: string
  dz_disputeId :: string
  dz_appealRound :: nat
  dz_arbiterId :: string
  dz_ruling :: ArbitrationRuling
  dz_operationDigest :: string

record appeal_fee_row =
  af_disputeId :: string
  af_appealRound :: nat
  af_requestedBy :: string
  af_amount :: rat
  af_asset :: AssetType
  af_outcome :: "string option"
  af_settledAt :: "int option"

record arbiter_profile =
  ap_participantId :: string
  ap_monetaryCollateral :: rat
  ap_collateralAsset :: "string option"
  ap_arbiterReputation :: rat
  ap_rulingsTotal :: nat
  ap_rulingsOverturned :: nat
  ap_cumulativeFeesObserved :: rat
  ap_slashedAt :: "int option"

record dispute_state =
  rv :: revenue_state
  dispute_rows :: "dispute_row list"
  ruling_records :: "ruling_record_row list"
  pending_txs :: "pending_tx_row list"
  dispositions :: "disposition_row list"
  appeal_fees :: "appeal_fee_row list"
  arbiters :: "arbiter_profile list"
  users :: "string \<rightharpoonup> string"
  arbiter_cursor :: nat
  dispute_bus :: "(string \<times> string) list"

text \<open>What a signature-collection provider is asked to build, for which escrow and keys, and what it returns.\<close>

datatype build_request = BuildRelease string | BuildRefund string | BuildSplit string string rat

record build_input =
  bi_escrow :: escrow_row
  bi_buyerId :: string
  bi_sellerId :: string
  bi_pubkeys :: "string option \<times> string option \<times> string option"
  bi_triggeredBy :: string
  bi_request :: build_request

record build_result =
  br_psbtBase64 :: string
  br_requiredSigners :: "string list"
  br_toAddress :: "string option"
  br_feeCollection :: "(int \<times> bool) option"
  br_minerFeeSats :: "int option"

record dispute_env =
  de_settle :: settle_env
  de_localeCompare :: "string \<Rightarrow> string \<Rightarrow> int"
  de_verify :: "string \<Rightarrow> string \<Rightarrow> string \<Rightarrow> bool result"
  de_parseDate :: "string \<Rightarrow> int option"
  de_isoDate :: "int \<Rightarrow> string"
  de_cost :: cost_config
  de_decodePsbt :: "string \<Rightarrow> decoded_psbt option"
  de_build :: "EscrowType \<Rightarrow> build_input \<Rightarrow> build_result result"
  de_supportsSplit :: "EscrowType \<Rightarrow> bool"

type_synonym 'a dispute = "(dispute_state, 'a) handler"

definition settlement :: "dispute_state \<Rightarrow> settlement_state" where
  "settlement s = base (rv s)"

definition onSettle :: "'a settle \<Rightarrow> 'a dispute" where
  "onSettle m s = (case onBase m (rv s) of (r, v) \<Rightarrow> (r, s\<lparr>rv := v\<rparr>))"

text \<open>A write of the database that may fail, and the rows of the disputes with their copy in the settlement tables.\<close>

definition dbStep :: "string \<Rightarrow> (dispute_state \<Rightarrow> dispute_state) \<Rightarrow> unit dispute" where
  "dbStep tag f = seqH (onSettle (dbWrite tag (\<lambda>b. b))) (\<lambda>_. writeH f)"

definition set_disputes :: "dispute_row list \<Rightarrow> dispute_state \<Rightarrow> dispute_state" where
  "set_disputes rows s = s\<lparr>dispute_rows := rows,
     rv := (rv s)\<lparr>base := (base (rv s))\<lparr>disputes := map dispute_assignment.truncate rows\<rparr>\<rparr>\<rparr>"

definition transactionD :: "'a dispute \<Rightarrow> 'a dispute" where
  "transactionD m s =
     (case m s of
        (Inl e, s') \<Rightarrow> (Inl e, s\<lparr>rv := (rv s)\<lparr>base := (base (rv s))\<lparr>faults := faults (base (rv s'))\<rparr>\<rparr>\<rparr>)
      | (Inr a, s') \<Rightarrow> (Inr a, s'))"

text \<open>\<^verbatim>\<open>updateMany\<close>: the number of rows that matched.\<close>

definition updateManyDisputes :: "(dispute_row \<Rightarrow> bool) \<Rightarrow> (dispute_row \<Rightarrow> dispute_row) \<Rightarrow> nat dispute" where
  "updateManyDisputes P f =
     seqH (readH (\<lambda>s. length (filter P (dispute_rows s)))) (\<lambda>n.
     seqH (dbStep ''dispute'' (\<lambda>s. set_disputes (map (\<lambda>d. if P d then f d else d) (dispute_rows s)) s)) (\<lambda>_. ret n))"

definition findDisputeById :: "string \<Rightarrow> dispute_row option dispute" where
  "findDisputeById i = readH (\<lambda>s. find (\<lambda>d. d_id d = i) (dispute_rows s))"

section \<open>Signed decisions\<close>

record AuthorityDecisionPayload =
  pl_disputeId :: string
  pl_escrowId :: string
  pl_appealRound :: nat
  pl_authorityId :: string
  pl_outcome :: ArbitrationRuling
  pl_buyerBps :: "js_number option"
  pl_issuedAt :: string

definition assertWellFormed :: "AuthorityDecisionPayload \<Rightarrow> unit result" where
  "assertWellFormed p =
     (if pl_outcome p = SPLIT_RULING
      then guardR (case pl_buyerBps p of None \<Rightarrow> False | Some n \<Rightarrow> bps_in 1 9999 n)
             (ValidationError ''Authority decision for SPLIT requires an integer buyerBps between 1 and 9999'')
      else guardR (pl_buyerBps p = None) (ValidationError ''Authority decision must not carry a buyerBps''))"

definition bps_text :: "js_number option \<Rightarrow> string" where
  "bps_text n = (case n of None \<Rightarrow> [] | Some b \<Rightarrow> (case js_integer b of None \<Rightarrow> [] | Some k \<Rightarrow> show_int k))"

definition decision_fields :: "AuthorityDecisionPayload \<Rightarrow> string list" where
  "decision_fields p = [''SAILS_AUTHORITY_DECISION_V1'', ''1'', pl_disputeId p, pl_escrowId p, show_nat (pl_appealRound p),
     pl_authorityId p, ruling_name (pl_outcome p), bps_text (pl_buyerBps p), pl_issuedAt p]"

definition canonicalizeAuthorityDecision :: "AuthorityDecisionPayload \<Rightarrow> string result" where
  "canonicalizeAuthorityDecision p =
     bindR (assertWellFormed p) (\<lambda>_. Inr (join_with (CHR ''|'') (decision_fields p)))"

definition hashAuthorityDecision :: "(string \<Rightarrow> string) \<Rightarrow> AuthorityDecisionPayload \<Rightarrow> string result" where
  "hashAuthorityDecision sha p = bindR (canonicalizeAuthorityDecision p) (\<lambda>c. Inr (sha c))"

definition verifyAuthorityDecisionSignature ::
    "(string \<Rightarrow> string) \<Rightarrow> (string \<Rightarrow> string \<Rightarrow> string \<Rightarrow> bool result) \<Rightarrow> AuthorityDecisionPayload \<Rightarrow> string \<Rightarrow> string \<Rightarrow> bool result" where
  "verifyAuthorityDecisionSignature sha verify p signatureHex publicKeyHex =
     bindR (hashAuthorityDecision sha p) (\<lambda>digest.
       Inr (case verify digest signatureHex publicKeyHex of Inl _ \<Rightarrow> False | Inr b \<Rightarrow> b))"

definition assertExecutionMatchesAuthorization :: "AuthorityDecisionPayload \<Rightarrow> AuthorityDecisionPayload \<Rightarrow> unit result" where
  "assertExecutionMatchesAuthorization authorization requested =
     bindR (guardR (pl_disputeId authorization = pl_disputeId requested) (ForbiddenError ''does not correspond to this dispute'')) (\<lambda>_.
     bindR (guardR (pl_escrowId authorization = pl_escrowId requested) (ForbiddenError ''does not correspond to this escrow'')) (\<lambda>_.
     bindR (guardR (pl_appealRound authorization = pl_appealRound requested) (ForbiddenError ''is for a different appeal round'')) (\<lambda>_.
     bindR (guardR (pl_authorityId authorization = pl_authorityId requested) (ForbiddenError ''was not produced by the authority assigned'')) (\<lambda>_.
     bindR (guardR (pl_outcome authorization = pl_outcome requested) (ForbiddenError ''authorized another outcome'')) (\<lambda>_.
       guardR (pl_buyerBps authorization = pl_buyerBps requested) (ForbiddenError ''authorized a different SPLIT allocation''))))))"

definition ESCROW_DISPUTE_RULING_TRANSITION_TYPE :: TransitionTypeId where
  "ESCROW_DISPUTE_RULING_TRANSITION_TYPE = ''escrow.dispute.rule''"

datatype DiscretionaryAuthorityVerdict =
    ATTRIBUTED AttributionClaim DiscretionaryAttributionMaterial
  | NOT_ATTRIBUTED

definition evaluateAuthorityDecisionAttribution ::
    "dispute_env \<Rightarrow> AuthorityDecisionPayload \<Rightarrow> string \<Rightarrow> string \<Rightarrow> AttributionContext \<Rightarrow> DiscretionaryAuthorityVerdict result" where
  "evaluateAuthorityDecisionAttribution env p signatureHex resolvedPublicKeyHex context =
     (let sha = s_sha256 (de_settle env) in
      bindR (verifyAuthorityDecisionSignature sha (de_verify env) p signatureHex resolvedPublicKeyHex) (\<lambda>verified.
      bindR (hashAuthorityDecision sha p) (\<lambda>commitment.
      bindR (createActorId (pl_authorityId p)) (\<lambda>actor.
      bindR (createInteractionId (pl_escrowId p)) (\<lambda>interaction.
        let claim = \<lparr>cl_actor = actor, claimedInteraction = interaction,
                     claimedTransitionType = ESCROW_DISPUTE_RULING_TRANSITION_TYPE,
                     claimedContentCommitment = commitment, proofVerified = verified\<rparr>
        in if le_evaluate referenceAttributionEvaluator (claim, context) \<noteq> SATISFIED then Inr NOT_ATTRIBUTED
           else Inr (ATTRIBUTED claim \<lparr>att_actor = cl_actor claim, att_rawProof = signatureHex,
                                       att_resolvedIdentityReference = resolvedPublicKeyHex\<rparr>))))))"

definition buildDisputeRulingContext :: "(string \<Rightarrow> string) \<Rightarrow> string \<Rightarrow> AuthorityDecisionPayload \<Rightarrow> AttributionContext result" where
  "buildDisputeRulingContext sha escrowId p =
     bindR (createInteractionId escrowId) (\<lambda>interaction.
     bindR (hashAuthorityDecision sha p) (\<lambda>commitment.
       Inr \<lparr>cx_interaction = interaction, cx_transitionType = ESCROW_DISPUTE_RULING_TRANSITION_TYPE,
            cx_contentCommitment = commitment\<rparr>))"

section \<open>Ruling records\<close>

definition DISPUTE_RULING_RULESET :: RulesetRef where
  "DISPUTE_RULING_RULESET = \<lparr>rs_name = ''Sails Mission13 Dispute Ruling Ruleset'',
     rs_identity = ''sails-mission13-dispute-ruling-ruleset'', rs_version = ''1.0'',
     rs_commitment = ''sails-mission13-dispute-ruling-ruleset@1.0:attributed-decision+economic-outcome'',
     expectedEvaluatorIdentity = SAILS_ATTRIBUTION_EVALUATOR_IDENTITY,
     expectedProfileIdentity = SAILS_SEMANTIC_PROFILE_IDENTITY\<rparr>"

type_synonym ruling_record = "(string, ArbitrationOutcomeContent, BeneficiaryDestination list) TransitionRecord"

definition buildAttributedArbitrationTransitionRecord ::
    "string \<Rightarrow> AttributionClaim \<Rightarrow> DiscretionaryAttributionMaterial \<Rightarrow> arbitration_outcome \<Rightarrow> RulesetRef \<Rightarrow> ruling_record" where
  "buildAttributedArbitrationTransitionRecord escrowId claim attribution outcome ruleset =
     (let interaction = claimedInteraction claim in
      \<lparr>tr_interaction = interaction, tr_priorPosition = LEGACY_UNVERIFIED,
       tr_transition = \<lparr>ct_interaction = interaction, ct_type = ESCROW_DISPUTE_RULING_TRANSITION_TYPE, ct_payload = escrowId\<rparr>,
       tr_rulesetRef = ruleset, tr_evaluatorIdentity = expectedEvaluatorIdentity ruleset,
       tr_profileIdentity = expectedProfileIdentity ruleset, tr_conditionResult = SATISFIED,
       tr_attribution = Some attribution, tr_outcome = Some outcome\<rparr>)"

definition buildRulingOutcomeContent ::
    "ArbitrationRuling \<Rightarrow> string \<Rightarrow> string \<Rightarrow> string \<Rightarrow> string \<Rightarrow> js_number option \<Rightarrow> ArbitrationOutcomeContent result" where
  "buildRulingOutcomeContent ruling totalUnits asset buyerId sellerId buyerBps =
     (let content = (\<lambda>allocs rem. \<lparr>oc_ruling = ruling, oc_totalUnits = totalUnits, oc_asset = asset,
                        oc_allocations = allocs, oc_remainderBeneficiary = rem\<rparr>);
          whole = (\<lambda>who. content [\<lparr>al_beneficiary = who, al_basisPoints = Num 10000\<rparr>] who)
      in case ruling of
           RELEASE \<Rightarrow> Inr (whole buyerId)
         | REFUND \<Rightarrow> Inr (whole sellerId)
         | SPLIT_RULING \<Rightarrow>
             (case buyerBps of
                None \<Rightarrow> Inl (ValidationError ''SPLIT requires an integer buyerBps between 1 and 9999'')
              | Some n \<Rightarrow>
                  if \<not> bps_in 1 9999 n then Inl (ValidationError ''SPLIT requires an integer buyerBps between 1 and 9999'')
                  else Inr (content [\<lparr>al_beneficiary = buyerId, al_basisPoints = n\<rparr>,
                                     \<lparr>al_beneficiary = sellerId,
                                      al_basisPoints = Num (10000 - (case n of Num x \<Rightarrow> x | _ \<Rightarrow> 0))\<rparr>] sellerId)))"

definition beneficiariesFor :: "ArbitrationRuling \<Rightarrow> string \<Rightarrow> string \<Rightarrow> string list" where
  "beneficiariesFor ruling buyerId sellerId =
     (case ruling of RELEASE \<Rightarrow> [buyerId] | REFUND \<Rightarrow> [sellerId] | SPLIT_RULING \<Rightarrow> [buyerId, sellerId])"

definition resolveBeneficiaryDestination :: "string \<Rightarrow> AssetType \<Rightarrow> string dispute" where
  "resolveBeneficiaryDestination participantId asset =
     seqH (readH (\<lambda>s. payout_addresses (settlement s) (participantId, asset))) (\<lambda>registered.
       requireH registered (EscrowError ''No payout address registered for participant''))"

fun resolve_destinations :: "AssetType \<Rightarrow> string list \<Rightarrow> BeneficiaryDestination list dispute" where
  "resolve_destinations asset [] = ret []"
| "resolve_destinations asset (b # bs) =
     seqH (resolveBeneficiaryDestination b asset) (\<lambda>address.
     seqH (resolve_destinations asset bs) (\<lambda>ds. ret (\<lparr>bd_beneficiary = b, bd_destination = address\<rparr> # ds)))"

definition toDisputeRulingTransitionRecordRow ::
    "(string \<Rightarrow> string) \<Rightarrow> ruling_record \<Rightarrow> nat \<Rightarrow> DisputeStatus \<Rightarrow> ruling_record_row result" where
  "toDisputeRulingTransitionRecordRow stringify rec appealRound fromDisputeStatus =
     (case tr_attribution rec of
        None \<Rightarrow> Inl (GenericError ''must always carry attribution'')
      | Some attribution \<Rightarrow>
     (case tr_outcome rec of
        None \<Rightarrow> Inl (GenericError ''must always carry an Outcome'')
      | Some outcome \<Rightarrow>
        Inr \<lparr>rr_interactionId = tr_interaction rec, rr_transitionType = ct_type (tr_transition rec),
             rr_fromState = dispute_status_name fromDisputeStatus, rr_toState = ''RESOLVED'',
             rr_priorPosition = (case tr_priorPosition rec of LEGACY_UNVERIFIED \<Rightarrow> None
                                 | Position pos \<Rightarrow> Some (stringify (hp_reference pos))),
             rr_ruleset = tr_rulesetRef rec, rr_evaluatorIdentity = tr_evaluatorIdentity rec,
             rr_profileIdentity = tr_profileIdentity rec, rr_deadlineMs = 0, rr_evaluationTimeMs = 0,
             rr_conditionResult = tr_conditionResult rec, rr_attributionActor = Some (att_actor attribution),
             rr_attributionRawProof = att_rawProof attribution,
             rr_attributionResolvedIdentity = att_resolvedIdentityReference attribution,
             rr_outcomeContent = Some (out_content outcome),
             rr_outcomeDestinationBinding = bound_destinations outcome, rr_appealRound = appealRound\<rparr>))"

definition createRulingRecord :: "ruling_record_row \<Rightarrow> unit dispute" where
  "createRulingRecord row =
     seqH (readH (\<lambda>s. list_ex (\<lambda>r. rr_interactionId r = rr_interactionId row \<and> rr_transitionType r = rr_transitionType row
                                     \<and> rr_appealRound r = rr_appealRound row) (ruling_records s))) (\<lambda>dup.
     seqH (guardH (\<not> dup) (DatabaseError ''P2002'')) (\<lambda>_.
       dbStep ''semanticTransitionRecord'' (\<lambda>s. s\<lparr>ruling_records := ruling_records s @ [row]\<rparr>)))"

fun asset_name :: "AssetType \<Rightarrow> string" where
  "asset_name A_BTC = ''BTC''"
| "asset_name USDT_ERC20 = ''USDT_ERC20''"
| "asset_name USDT_TRC20 = ''USDT_TRC20''"
| "asset_name USDT_LIQUID = ''USDT_LIQUID''"
| "asset_name USDT_LIGHTNING = ''USDT_LIGHTNING''"
| "asset_name LN_BTC = ''LN_BTC''"
| "asset_name LIQUID_BTC = ''LIQUID_BTC''"
| "asset_name A_SPARK = ''SPARK''"
| "asset_name STACKS = ''STACKS''"
| "asset_name RSK_BTC = ''RSK_BTC''"

datatype DisputeRulingCommitResult =
    Committed "BeneficiaryDestination list"
  | NotAttributed
  | DisputeStateLostRace

text \<open>The claim of an unresolved dispute by its assigned arbiter; an invalid date makes the write throw.\<close>

definition claimRuling :: "dispute_env \<Rightarrow> string \<Rightarrow> AuthorityDecisionPayload \<Rightarrow> string \<Rightarrow> nat dispute" where
  "claimRuling env disputeId p authoritySignatureHex =
     seqH (requireH (de_parseDate env (pl_issuedAt p)) (GenericError ''Invalid value for argument authorityIssuedAt'')) (\<lambda>issuedAt.
     seqH (readH (\<lambda>s. clock (settlement s))) (\<lambda>now.
       updateManyDisputes
         (\<lambda>d. d_id d = disputeId \<and> d_status d \<noteq> RESOLVED \<and> d_arbiterId d = Some (pl_authorityId p))
         (\<lambda>d. d\<lparr>d_status := RESOLVED, d_ruling := Some (pl_outcome p), d_resolvedAt := Some now,
                d_authoritySignature := Some authoritySignatureHex, d_authorityIssuedAt := Some issuedAt,
                d_authorityBuyerBps := Option.bind (pl_buyerBps p) js_integer\<rparr>)))"

definition recordRuling ::
    "dispute_env \<Rightarrow> dispute_row \<Rightarrow> ArbitrationRuling \<Rightarrow> AttributionClaim \<Rightarrow> DiscretionaryAttributionMaterial
       \<Rightarrow> ArbitrationOutcomeContent \<Rightarrow> AssetType \<Rightarrow> string \<Rightarrow> string \<Rightarrow> DisputeRulingCommitResult dispute" where
  "recordRuling env d ruling claim attribution content asset buyerId sellerId =
     seqH (resolve_destinations asset (beneficiariesFor ruling buyerId sellerId)) (\<lambda>destinations.
     seqH (liftH (buildArbitrationOutcome content (buildOutcomeDestinationBinding (de_localeCompare env) destinations))) (\<lambda>outcome.
     seqH (liftH (createInteractionId (d_escrowId d))) (\<lambda>_.
     seqH (liftH (toDisputeRulingTransitionRecordRow (s_stringify (de_settle env))
             (buildAttributedArbitrationTransitionRecord (d_escrowId d) claim attribution outcome DISPUTE_RULING_RULESET)
             (d_appealRound d) (d_status d))) (\<lambda>row.
     seqH (catchH (createRulingRecord row)
             (\<lambda>e. if e = DatabaseError ''P2002''
                  then throw (EscrowError ''A durable authoritative decision record already exists'') else throw e)) (\<lambda>_.
       ret (Committed destinations))))))"

definition commitRuling ::
    "dispute_env \<Rightarrow> dispute_row \<Rightarrow> AuthorityDecisionPayload \<Rightarrow> string \<Rightarrow> AttributionClaim \<Rightarrow> DiscretionaryAttributionMaterial
       \<Rightarrow> ArbitrationOutcomeContent \<Rightarrow> AssetType \<Rightarrow> string \<Rightarrow> string \<Rightarrow> DisputeRulingCommitResult dispute" where
  "commitRuling env d p authoritySignatureHex claim attribution content asset buyerId sellerId =
     seqH (claimRuling env (d_id d) p authoritySignatureHex) (\<lambda>count.
       if count = 0 then ret DisputeStateLostRace
       else recordRuling env d (pl_outcome p) claim attribution content asset buyerId sellerId)"

definition commitAuthoritativeDisputeRuling ::
    "dispute_env \<Rightarrow> dispute_row \<Rightarrow> AuthorityDecisionPayload \<Rightarrow> string \<Rightarrow> string \<Rightarrow> string \<Rightarrow> AssetType \<Rightarrow> string \<Rightarrow> string
       \<Rightarrow> DisputeRulingCommitResult dispute" where
  "commitAuthoritativeDisputeRuling env d p authoritySignatureHex resolvedArbiterPublicKeyHex totalUnits asset buyerId sellerId =
     seqH (liftH (buildDisputeRulingContext (s_sha256 (de_settle env)) (d_escrowId d) p)) (\<lambda>context.
     seqH (liftH (evaluateAuthorityDecisionAttribution env p authoritySignatureHex resolvedArbiterPublicKeyHex context)) (\<lambda>verdict.
       case verdict of
         NOT_ATTRIBUTED \<Rightarrow> ret NotAttributed
       | ATTRIBUTED claim attribution \<Rightarrow>
           seqH (liftH (buildRulingOutcomeContent (pl_outcome p) totalUnits (asset_name asset) buyerId sellerId (pl_buyerBps p))) (\<lambda>content.
             transactionD (commitRuling env d p authoritySignatureHex claim attribution content asset buyerId sellerId))))"

definition loadDisputeRulingRecord :: "string \<Rightarrow> nat \<Rightarrow> ruling_record_row option dispute" where
  "loadDisputeRulingRecord escrowId appealRound =
     readH (\<lambda>s. find (\<lambda>r. rr_interactionId r = escrowId \<and> rr_transitionType r = ESCROW_DISPUTE_RULING_TRANSITION_TYPE
                           \<and> rr_appealRound r = appealRound) (ruling_records s))"

definition fromDisputeRulingRow :: "ruling_record_row \<Rightarrow> ruling_record result" where
  "fromDisputeRulingRow row =
     bindR (guardR (rr_priorPosition row = None) (GenericError ''priorPositionKind is not yet supported'')) (\<lambda>_.
     bindR (createInteractionId (rr_interactionId row)) (\<lambda>interaction.
     bindR (createTransitionTypeId (rr_transitionType row)) (\<lambda>type.
       Inr \<lparr>tr_interaction = interaction, tr_priorPosition = LEGACY_UNVERIFIED,
            tr_transition = \<lparr>ct_interaction = interaction, ct_type = type, ct_payload = rr_interactionId row\<rparr>,
            tr_rulesetRef = DISPUTE_RULING_RULESET, tr_evaluatorIdentity = rr_evaluatorIdentity row,
            tr_profileIdentity = rr_profileIdentity row, tr_conditionResult = rr_conditionResult row,
            tr_attribution =
              (case rr_attributionActor row of
                 None \<Rightarrow> None
               | Some actor \<Rightarrow> if actor = [] then None
                   else Some \<lparr>att_actor = actor, att_rawProof = rr_attributionRawProof row,
                              att_resolvedIdentityReference = rr_attributionResolvedIdentity row\<rparr>),
            tr_outcome = map_option (\<lambda>c. \<lparr>out_content = c,
               destinationBinding = Some (DestinationBinding (rr_outcomeDestinationBinding row))\<rparr>) (rr_outcomeContent row)\<rparr>)))"

definition revertDisputeRulingRecord :: "string \<Rightarrow> nat \<Rightarrow> unit dispute" where
  "revertDisputeRulingRecord escrowId appealRound =
     dbStep ''semanticTransitionRecord'' (\<lambda>s. s\<lparr>ruling_records :=
       filter (\<lambda>r. \<not> (rr_interactionId r = escrowId \<and> rr_transitionType r = ESCROW_DISPUTE_RULING_TRANSITION_TYPE
                       \<and> rr_appealRound r = appealRound)) (ruling_records s)\<rparr>)"

section \<open>Dispatch\<close>

definition TERMINAL_ESCROW_STATUSES :: "EscrowStatus list" where
  "TERMINAL_ESCROW_STATUSES = [COMPLETED, REFUNDED, EscrowStatus.SPLIT]"

definition checkDisputeRulingAlreadyDispatched :: "string \<Rightarrow> bool dispute" where
  "checkDisputeRulingAlreadyDispatched escrowId =
     readH (\<lambda>s. list_ex (\<lambda>p. pt_escrowId p = escrowId) (pending_txs s)
              \<or> (case escrows (settlement s) escrowId of None \<Rightarrow> False | Some r \<Rightarrow> er_status r \<in> set TERMINAL_ESCROW_STATUSES))"

definition evaluateDisputeDispatchEligibility :: "string \<Rightarrow> nat \<Rightarrow> (string + ruling_record) dispute" where
  "evaluateDisputeDispatchEligibility escrowId appealRound =
     seqH (loadDisputeRulingRecord escrowId appealRound) (\<lambda>r.
       case r of
         None \<Rightarrow> ret (Inl ''no durable authoritative record exists'')
       | Some row \<Rightarrow>
           seqH (liftH (fromDisputeRulingRow row)) (\<lambda>rec.
           seqH (checkDisputeRulingAlreadyDispatched (tr_interaction rec)) (\<lambda>dispatched.
             case evaluateLiveDispatchEligibility (\<lambda>_ _. dispatched) rec True True of
               ELIGIBLE \<Rightarrow> ret (Inr rec)
             | INELIGIBLE reason \<Rightarrow> ret (Inl reason))))"

definition assertDisputeDispatchEligible :: "string \<Rightarrow> nat \<Rightarrow> ruling_record dispute" where
  "assertDisputeDispatchEligible escrowId appealRound =
     seqH (evaluateDisputeDispatchEligibility escrowId appealRound) (\<lambda>r.
       case r of Inl _ \<Rightarrow> throw (EscrowError ''Dispatch eligibility check failed'') | Inr rec \<Rightarrow> ret rec)"

section \<open>Authorization of pending disputed transactions\<close>

definition json_opt :: "('a \<Rightarrow> json) \<Rightarrow> 'a option \<Rightarrow> json" where
  "json_opt f x = (case x of None \<Rightarrow> JNull | Some a \<Rightarrow> f a)"

definition operation_facts :: "(int \<Rightarrow> string) \<Rightarrow> pending_tx_row \<Rightarrow> json" where
  "operation_facts fmt p = JObj
     [(''pendingOperationId'', JStr (pt_id p)), (''escrowId'', JStr (pt_escrowId p)), (''kind'', JStr (pending_kind_name (pt_kind p))),
      (''toAddress'', JStr (pt_toAddress p)), (''toAddressSecondary'', json_opt JStr (pt_toAddressSecondary p)),
      (''buyerBps'', json_opt (\<lambda>n. JNum (show_int \<lfloor>n\<rfloor>)) (pt_buyerBps p)),
      (''feeCollectionSats'', json_opt (\<lambda>n. JNum (show_int n)) (pt_feeCollectionSats p)),
      (''feeCollectionWaived'', json_opt JBool (pt_feeCollectionWaived p)),
      (''minerFeeSats'', json_opt (\<lambda>n. JNum (show_int n)) (pt_minerFeeSats p)),
      (''unsignedPsbtBase64'', JStr (pt_unsignedPsbtBase64 p)), (''requiredSigners'', JArr (map JStr (pt_requiredSigners p))),
      (''triggeredBy'', JStr (pt_triggeredBy p)), (''disputeId'', json_opt JStr (pt_disputeId p)),
      (''rulingAppealRound'', json_opt (\<lambda>n. JNum (show_nat n)) (pt_rulingAppealRound p)),
      (''rulingArbiterId'', json_opt JStr (pt_rulingArbiterId p)),
      (''rulingOutcome'', json_opt (\<lambda>r. JStr (ruling_name r)) (pt_rulingOutcome p)),
      (''rulingAuthoritySignature'', json_opt JStr (pt_rulingAuthoritySignature p)),
      (''rulingAuthorityIssuedAt'', json_opt (\<lambda>t. JStr (fmt t)) (pt_rulingAuthorityIssuedAt p))]"

definition economicDispositionOperationDigest :: "dispute_env \<Rightarrow> pending_tx_row \<Rightarrow> string" where
  "economicDispositionOperationDigest env p =
     s_sha256 (de_settle env) (json_stringify (operation_facts (de_isoDate env) p))"

text \<open>The ruling under which the operation was built is still the current one.\<close>

definition still_current :: "dispute_row \<Rightarrow> pending_tx_row \<Rightarrow> bool" where
  "still_current d p \<longleftrightarrow>
     d_status d = RESOLVED \<and> Some (d_appealRound d) = pt_rulingAppealRound p \<and> d_arbiterId d = pt_rulingArbiterId p
     \<and> d_ruling d = pt_rulingOutcome p \<and> d_authoritySignature d = pt_rulingAuthoritySignature p"

definition authorizeDisputedPendingExecution :: "dispute_env \<Rightarrow> pending_tx_row \<Rightarrow> disposition_row option dispute" where
  "authorizeDisputedPendingExecution env p =
     (case (if pt_disputeId p = Some [] then None else pt_disputeId p) of
        None \<Rightarrow>
          seqH (readH (\<lambda>s. list_ex (\<lambda>d. d_escrowId d = pt_escrowId p) (dispute_rows s))) (\<lambda>everDisputed.
          seqH (guardH (\<not> everDisputed) (EscrowError ''ambiguous-origin pending operation'')) (\<lambda>_. ret None))
      | Some disputeId \<Rightarrow>
          let operationDigest = economicDispositionOperationDigest env p in
          transactionD
            (seqH (readH (\<lambda>s. find (\<lambda>z. dz_pendingOperationId z = pt_id p) (dispositions s))) (\<lambda>existing.
               case existing of
                 Some z \<Rightarrow>
                   seqH (guardH (dz_escrowId z = pt_escrowId p \<and> dz_disputeId z = disputeId \<and> dz_operationDigest z = operationDigest)
                           (EscrowError ''no longer matches its committed economic disposition authorization'')) (\<lambda>_. ret (Some z))
               | None \<Rightarrow>
                   seqH (findDisputeById disputeId) (\<lambda>r.
                   seqH (requireH r (EscrowError ''Dispute not found'')) (\<lambda>d.
                   seqH (guardH (still_current d p) (EscrowError ''ruling generation is no longer current'')) (\<lambda>_.
                   seqH (requireH (d_arbiterId d) (GenericError ''Argument arbiterId must not be null'')) (\<lambda>arbiterId.
                   seqH (requireH (d_ruling d) (GenericError ''Argument ruling must not be null'')) (\<lambda>ruling.
                     let z = \<lparr>dz_pendingOperationId = pt_id p, dz_escrowId = pt_escrowId p, dz_disputeId = disputeId,
                              dz_appealRound = d_appealRound d, dz_arbiterId = arbiterId, dz_ruling = ruling,
                              dz_operationDigest = operationDigest\<rparr>
                     in seqH (dbStep ''economicDispositionAuthorization'' (\<lambda>s. s\<lparr>dispositions := dispositions s @ [z]\<rparr>)) (\<lambda>_.
                          ret (Some z))))))))))"

section \<open>Weakest preconditions\<close>

definition with_faults :: "bool list \<Rightarrow> dispute_state \<Rightarrow> dispute_state" where
  "with_faults fs s = s\<lparr>rv := (rv s)\<lparr>base := (base (rv s))\<lparr>faults := fs\<rparr>\<rparr>\<rparr>"

lemma with_faults_sel [simp]:
  "dispute_rows (with_faults fs s) = dispute_rows s" "ruling_records (with_faults fs s) = ruling_records s"
  "pending_txs (with_faults fs s) = pending_txs s" "dispositions (with_faults fs s) = dispositions s"
  "appeal_fees (with_faults fs s) = appeal_fees s" "arbiters (with_faults fs s) = arbiters s"
  "users (with_faults fs s) = users s" "arbiter_cursor (with_faults fs s) = arbiter_cursor s"
  "dispute_bus (with_faults fs s) = dispute_bus s"
  "settlement (with_faults fs s) = (settlement s)\<lparr>faults := fs\<rparr>"
  by (simp_all add: with_faults_def settlement_def)

lemma with_faults_twice [simp]: "with_faults fs (with_faults gs s) = with_faults fs s"
  by (simp add: with_faults_def)

lemma with_faults_same: "faults (settlement s) = fs \<Longrightarrow> with_faults fs s = s"
  by (auto simp: with_faults_def settlement_def)

lemma wp_onSettle [wp_eqs]:
  "wpH (onSettle m) Q E s =
     wpH m (\<lambda>a b. Q a (s\<lparr>rv := (rv s)\<lparr>base := b\<rparr>\<rparr>)) (\<lambda>e b. E e (s\<lparr>rv := (rv s)\<lparr>base := b\<rparr>\<rparr>)) (settlement s)"
  by (simp add: wpH_def onSettle_def onBase_def settlement_def split: prod.split sum.split)

lemma wp_dbStep [wp_eqs]:
  "wpH (dbStep tag f) Q E s =
     (case faults (settlement s) of
        True # fs \<Rightarrow> E (DatabaseError tag) (with_faults fs s)
      | False # fs \<Rightarrow> Q () (f (with_faults fs s))
      | [] \<Rightarrow> Q () (f s))"
  by (auto simp: dbStep_def wp_eqs with_faults_def settlement_def split: list.split bool.split)

lemma wp_transactionD [wp_eqs]:
  "wpH (transactionD m) Q E s = wpH m Q (\<lambda>e s'. E e (with_faults (faults (settlement s')) s)) s"
  by (simp add: wpH_def transactionD_def with_faults_def settlement_def split: prod.split sum.split)

definition update_rows :: "(dispute_row \<Rightarrow> bool) \<Rightarrow> (dispute_row \<Rightarrow> dispute_row) \<Rightarrow> dispute_state \<Rightarrow> dispute_state" where
  "update_rows P f s = set_disputes (map (\<lambda>d. if P d then f d else d) (dispute_rows s)) s"

lemma set_disputes_sel [simp]:
  "dispute_rows (set_disputes rows s) = rows" "ruling_records (set_disputes rows s) = ruling_records s"
  "pending_txs (set_disputes rows s) = pending_txs s" "dispositions (set_disputes rows s) = dispositions s"
  "appeal_fees (set_disputes rows s) = appeal_fees s" "arbiters (set_disputes rows s) = arbiters s"
  "users (set_disputes rows s) = users s" "arbiter_cursor (set_disputes rows s) = arbiter_cursor s"
  "dispute_bus (set_disputes rows s) = dispute_bus s"
  "settlement (set_disputes rows s) = (settlement s)\<lparr>disputes := map dispute_assignment.truncate rows\<rparr>"
  by (simp_all add: set_disputes_def settlement_def)

lemma update_rows_sel [simp]:
  "dispute_rows (update_rows P f s) = map (\<lambda>d. if P d then f d else d) (dispute_rows s)"
  "ruling_records (update_rows P f s) = ruling_records s" "pending_txs (update_rows P f s) = pending_txs s"
  "dispositions (update_rows P f s) = dispositions s" "faults (settlement (update_rows P f s)) = faults (settlement s)"
  "payout_addresses (settlement (update_rows P f s)) = payout_addresses (settlement s)"
  by (simp_all add: update_rows_def)

lemma wp_updateManyDisputes [wp_eqs]:
  "wpH (updateManyDisputes P f) Q E s =
     (let n = length (filter P (dispute_rows s)) in
      case faults (settlement s) of
        True # fs \<Rightarrow> E (DatabaseError ''dispute'') (with_faults fs s)
      | False # fs \<Rightarrow> Q n (update_rows P f (with_faults fs s))
      | [] \<Rightarrow> Q n (update_rows P f s))"
  by (auto simp: updateManyDisputes_def wp_eqs update_rows_def Let_def split: list.split bool.split)

text \<open>The copy of the disputes in the settlement tables is up to date.\<close>

definition synced :: "dispute_state \<Rightarrow> bool" where
  "synced s \<longleftrightarrow> disputes (settlement s) = map dispute_assignment.truncate (dispute_rows s)"

lemma update_rows_none:
  assumes "synced s" and "filter P (dispute_rows s) = []"
  shows "update_rows P f s = s"
proof -
  have rows: "map (\<lambda>d. if P d then f d else d) (dispute_rows s) = dispute_rows s"
    using assms(2) by (intro map_idI) (auto simp: filter_empty_conv)
  have "disputes (base (rv s)) = map dispute_assignment.truncate (dispute_rows s)"
    using assms(1) by (simp add: synced_def settlement_def)
  then show ?thesis unfolding update_rows_def rows by (auto simp: set_disputes_def)
qed

section \<open>Attribution\<close>

lemma hashAuthorityDecision_iff:
  "hashAuthorityDecision sha p = Inr h \<longleftrightarrow> assertWellFormed p = Inr () \<and> h = sha (join_with (CHR ''|'') (decision_fields p))"
  unfolding hashAuthorityDecision_def canonicalizeAuthorityDecision_def bindR_eq_Inr by auto

lemma attributedD:
  assumes "evaluateAuthorityDecisionAttribution env p sig pub cx = Inr (ATTRIBUTED claim att)"
  shows "\<exists>digest. hashAuthorityDecision (s_sha256 (de_settle env)) p = Inr digest \<and> de_verify env digest sig pub = Inr True"
    and "claimedInteraction claim = pl_escrowId p" and "pl_escrowId p = cx_interaction cx" and "pl_escrowId p \<noteq> []"
    and "att = \<lparr>att_actor = pl_authorityId p, att_rawProof = sig, att_resolvedIdentityReference = pub\<rparr>"
    and "pl_authorityId p \<noteq> []"
  using assms
  by (auto simp: evaluateAuthorityDecisionAttribution_def Let_def bindR_eq_Inr attribution_satisfied
      verifyAuthorityDecisionSignature_def createActorId_def createInteractionId_def createBrandedString_def
      split: if_splits sum.splits)

lemma contextD: "buildDisputeRulingContext sha escrowId p = Inr cx \<Longrightarrow> cx_interaction cx = escrowId"
  by (auto simp: buildDisputeRulingContext_def bindR_eq_Inr createInteractionId_def createBrandedString_def split: if_splits)

lemma wp_resolve_destinations:
  assumes "\<And>ds. map bd_beneficiary ds = bs \<Longrightarrow> Q ds s" and "\<And>e. E e s"
  shows "wpH (resolve_destinations asset bs) Q E s"
  using assms
proof (induction bs arbitrary: Q)
  case (Cons b bs)
  then show ?case
    by (auto simp: resolveBeneficiaryDestination_def wp_eqs split: option.split)
qed (simp add: wp_ret)

section \<open>Committing a ruling\<close>

definition may_rule :: "string \<Rightarrow> string \<Rightarrow> dispute_row \<Rightarrow> bool" where
  "may_rule disputeId who x \<longleftrightarrow> d_id x = disputeId \<and> d_status x \<noteq> RESOLVED \<and> d_arbiterId x = Some who"

definition ruled :: "AuthorityDecisionPayload \<Rightarrow> string \<Rightarrow> int \<Rightarrow> int \<Rightarrow> dispute_row \<Rightarrow> dispute_row" where
  "ruled p sig issuedAt now x = x\<lparr>d_status := RESOLVED, d_ruling := Some (pl_outcome p), d_resolvedAt := Some now,
     d_authoritySignature := Some sig, d_authorityIssuedAt := Some issuedAt,
     d_authorityBuyerBps := Option.bind (pl_buyerBps p) js_integer\<rparr>"

lemma wp_claimRuling:
  "wpH (claimRuling env did p sig) Q E s =
     (case de_parseDate env (pl_issuedAt p) of
        None \<Rightarrow> E (GenericError ''Invalid value for argument authorityIssuedAt'') s
      | Some issuedAt \<Rightarrow>
          wpH (updateManyDisputes (may_rule did (pl_authorityId p)) (ruled p sig issuedAt (clock (settlement s)))) Q E s)"
  by (simp add: claimRuling_def wp_eqs may_rule_def [abs_def] ruled_def [abs_def] split: option.split)

definition ruling_row :: "ruling_record_row \<Rightarrow> string \<Rightarrow> nat \<Rightarrow> bool" where
  "ruling_row r escrowId appealRound \<longleftrightarrow>
     rr_interactionId r = escrowId \<and> rr_transitionType r = ESCROW_DISPUTE_RULING_TRANSITION_TYPE \<and> rr_appealRound r = appealRound"

lemma wp_createRulingRecord:
  "wpH (createRulingRecord row) Q E s =
     (if list_ex (\<lambda>r. rr_interactionId r = rr_interactionId row \<and> rr_transitionType r = rr_transitionType row
           \<and> rr_appealRound r = rr_appealRound row) (ruling_records s)
      then E (DatabaseError ''P2002'') s
      else wpH (dbStep ''semanticTransitionRecord'' (\<lambda>s. s\<lparr>ruling_records := ruling_records s @ [row]\<rparr>)) Q E s)"
  by (simp add: createRulingRecord_def wp_seqH wp_readH wp_guardH)

definition recorded :: "dispute_env \<Rightarrow> dispute_row \<Rightarrow> AuthorityDecisionPayload \<Rightarrow> string \<Rightarrow> string \<Rightarrow> ArbitrationOutcomeContent
    \<Rightarrow> BeneficiaryDestination list \<Rightarrow> ruling_record_row \<Rightarrow> bool" where
  "recorded env d p sig pub content ds row \<longleftrightarrow>
     ruling_row row (d_escrowId d) (d_appealRound d) \<and>
     fromDisputeRulingRow row = Inr
       (buildAttributedArbitrationTransitionRecord (d_escrowId d)
          \<lparr>cl_actor = pl_authorityId p, claimedInteraction = d_escrowId d, claimedTransitionType = ESCROW_DISPUTE_RULING_TRANSITION_TYPE,
           claimedContentCommitment = [], proofVerified = True\<rparr>
          \<lparr>att_actor = pl_authorityId p, att_rawProof = sig, att_resolvedIdentityReference = pub\<rparr>
          \<lparr>out_content = content, destinationBinding = Some (buildOutcomeDestinationBinding (de_localeCompare env) ds)\<rparr>
          DISPUTE_RULING_RULESET)"

lemma row_round_trip:
  assumes "toDisputeRulingTransitionRecordRow f (buildAttributedArbitrationTransitionRecord (d_escrowId d) claim
      \<lparr>att_actor = pl_authorityId p, att_rawProof = sig, att_resolvedIdentityReference = pub\<rparr> outcome DISPUTE_RULING_RULESET)
      (d_appealRound d) st = Inr row"
    and "claimedInteraction claim = d_escrowId d" and "d_escrowId d \<noteq> []" and "pl_authorityId p \<noteq> []"
    and "buildArbitrationOutcome content (buildOutcomeDestinationBinding (de_localeCompare env) ds) = Inr outcome"
  shows "recorded env d p sig pub content ds row"
  using assms
  by (auto simp: toDisputeRulingTransitionRecordRow_def buildAttributedArbitrationTransitionRecord_def Let_def recorded_def
      ruling_row_def fromDisputeRulingRow_def createInteractionId_def createTransitionTypeId_def createBrandedString_def
      buildArbitrationOutcome_def bindR_eq_Inr bound_destinations_def ESCROW_DISPUTE_RULING_TRANSITION_TYPE_def
      DISPUTE_RULING_RULESET_def)

definition committed_state :: "dispute_env \<Rightarrow> dispute_row \<Rightarrow> AuthorityDecisionPayload \<Rightarrow> string \<Rightarrow> string \<Rightarrow> ArbitrationOutcomeContent
    \<Rightarrow> BeneficiaryDestination list \<Rightarrow> dispute_state \<Rightarrow> dispute_state \<Rightarrow> bool" where
  "committed_state env d p sig pub content ds s s' \<longleftrightarrow>
     (\<exists>x \<in> set (dispute_rows s). may_rule (d_id d) (pl_authorityId p) x)
     \<and> (\<exists>issuedAt. de_parseDate env (pl_issuedAt p) = Some issuedAt
          \<and> dispute_rows s' = map (\<lambda>x. if may_rule (d_id d) (pl_authorityId p) x
                                        then ruled p sig issuedAt (clock (settlement s)) x else x) (dispute_rows s))
     \<and> (\<exists>row. ruling_records s' = ruling_records s @ [row] \<and> recorded env d p sig pub content ds row
          \<and> (\<forall>r \<in> set (ruling_records s). \<not> ruling_row r (d_escrowId d) (d_appealRound d)))
     \<and> pending_txs s' = pending_txs s \<and> dispositions s' = dispositions s"

lemma wp_recordRuling:
  assumes t: "t = update_rows (may_rule (d_id d) (pl_authorityId p)) (ruled p sig issuedAt (clock (settlement s))) (with_faults fs s)"
    and date: "de_parseDate env (pl_issuedAt p) = Some issuedAt"
    and some: "\<exists>x \<in> set (dispute_rows s). may_rule (d_id d) (pl_authorityId p) x"
    and claim: "claimedInteraction claim = d_escrowId d" "d_escrowId d \<noteq> []" "pl_authorityId p \<noteq> []"
    and att: "att = \<lparr>att_actor = pl_authorityId p, att_rawProof = sig, att_resolvedIdentityReference = pub\<rparr>"
  shows "wpH (recordRuling env d (pl_outcome p) claim att content asset b sl)
     (\<lambda>a s'. \<exists>ds. a = Committed ds \<and> committed_state env d p sig pub content ds s s') (\<lambda>_ _. True) t"
proof -
  have stored: "committed_state env d p sig pub content ds s (u\<lparr>ruling_records := ruling_records t @ [row]\<rparr>)"
    if "recorded env d p sig pub content ds row" "u = t \<or> u = with_faults gs t"
      "\<not> list_ex (\<lambda>r. rr_interactionId r = rr_interactionId row \<and> rr_transitionType r = rr_transitionType row
         \<and> rr_appealRound r = rr_appealRound row) (ruling_records t)" for row u gs ds
    using that date some by (auto simp: committed_state_def t list_ex_iff recorded_def ruling_row_def)
  have row: "recorded env d p sig pub content ds row"
    if "toDisputeRulingTransitionRecordRow (s_stringify (de_settle env))
          (buildAttributedArbitrationTransitionRecord (d_escrowId d) claim att outcome DISPUTE_RULING_RULESET)
          (d_appealRound d) (d_status d) = Inr row"
      "buildArbitrationOutcome content (buildOutcomeDestinationBinding (de_localeCompare env) ds) = Inr outcome" for ds outcome row
    using row_round_trip [OF that(1) [unfolded att] claim that(2)] .
  show ?thesis
    unfolding recordRuling_def wp_seqH
    by (rule wp_resolve_destinations)
      (auto simp: wp_seqH wp_liftH wp_catchH wp_createRulingRecord wp_dbStep wp_throw wp_ret
        split: sum.split list.split bool.split dest: row intro: stored)
qed

lemma wp_commitRuling:
  assumes claim: "claimedInteraction claim = d_escrowId d" "d_escrowId d \<noteq> []" "pl_authorityId p \<noteq> []"
    and att: "att = \<lparr>att_actor = pl_authorityId p, att_rawProof = sig, att_resolvedIdentityReference = pub\<rparr>" and sync: "synced s"
  shows "wpH (commitRuling env d p sig claim att content asset b sl)
     (\<lambda>a s'. case a of Committed ds \<Rightarrow> committed_state env d p sig pub content ds s s'
              | _ \<Rightarrow> \<exists>fs. s' = with_faults fs s) (\<lambda>_ _. True) s"
proof -
  let ?P = "may_rule (d_id d) (pl_authorityId p)"
  let ?Q = "\<lambda>a s'. case a of Committed ds \<Rightarrow> committed_state env d p sig pub content ds s s' | _ \<Rightarrow> \<exists>fs. s' = with_faults fs s"
  let ?next = "if length (filter ?P (dispute_rows s)) = 0 then ret DisputeStateLostRace
               else recordRuling env d (pl_outcome p) claim att content asset b sl"
  have step: "wpH ?next ?Q (\<lambda>_ _. True) (update_rows ?P (ruled p sig issuedAt (clock (settlement s))) (with_faults fs s))"
    if date: "de_parseDate env (pl_issuedAt p) = Some issuedAt" for issuedAt fs
  proof (cases "filter ?P (dispute_rows s) = []")
    case True
    have "synced (with_faults fs s)" using sync by (simp add: synced_def)
    from update_rows_none [OF this] True show ?thesis by (auto simp: wp_ret)
  next
    case False
    then have "\<exists>x \<in> set (dispute_rows s). ?P x" by (auto simp: filter_empty_conv)
    from wp_recordRuling [OF refl date this claim att]
    have "wpH (recordRuling env d (pl_outcome p) claim att content asset b sl) ?Q (\<lambda>_ _. True)
        (update_rows ?P (ruled p sig issuedAt (clock (settlement s))) (with_faults fs s))"
      by (rule wpH_mono) auto
    with False show ?thesis by simp
  qed
  have "wpH ?next ?Q (\<lambda>_ _. True) (update_rows ?P (ruled p sig issuedAt (clock (settlement s))) s)"
    if "de_parseDate env (pl_issuedAt p) = Some issuedAt" for issuedAt
    using step [OF that, of "faults (settlement s)"] by (simp only: with_faults_same [OF refl])
  then show ?thesis
    unfolding commitRuling_def wp_seqH wp_claimRuling wp_updateManyDisputes Let_def
    using step by (simp split del: if_split split: option.split list.split bool.split)
qed

section \<open>Properties\<close>

text \<open>
  C28: a ruling and its record are committed together or not at all. When the commit succeeds, the
  arbiter's key verifies the signature over the digest of exactly this decision, the decision is for
  this escrow, the dispute was unresolved and assigned to the arbiter, it is resolved with the
  decided outcome, and the one record of its appeal round, read back, is the attributed outcome
  with the registered payout addresses. In every other case only the failure script may have
  advanced.
\<close>

theorem ruling_committed_with_its_record:
  assumes sync: "synced s"
    and run: "commitAuthoritativeDisputeRuling env d p sig pub units asset b sl s = (r, s')"
  shows "(\<exists>ds content digest. r = Inr (Committed ds) \<and> hashAuthorityDecision (s_sha256 (de_settle env)) p = Inr digest
            \<and> de_verify env digest sig pub = Inr True \<and> pl_escrowId p = d_escrowId d
            \<and> buildRulingOutcomeContent (pl_outcome p) units (asset_name asset) b sl (pl_buyerBps p) = Inr content
            \<and> committed_state env d p sig pub content ds s s')
       \<or> ((\<forall>ds. r \<noteq> Inr (Committed ds)) \<and> (\<exists>fs. s' = with_faults fs s))"
proof -
  let ?good = "\<lambda>ds s'. \<exists>content digest. hashAuthorityDecision (s_sha256 (de_settle env)) p = Inr digest
      \<and> de_verify env digest sig pub = Inr True \<and> pl_escrowId p = d_escrowId d
      \<and> buildRulingOutcomeContent (pl_outcome p) units (asset_name asset) b sl (pl_buyerBps p) = Inr content
      \<and> committed_state env d p sig pub content ds s s'"
  have same: "\<exists>fs. s = with_faults fs s" using with_faults_same [OF refl] by metis
  have "wpH (commitAuthoritativeDisputeRuling env d p sig pub units asset b sl)
      (\<lambda>a s'. case a of Committed ds \<Rightarrow> ?good ds s' | _ \<Rightarrow> \<exists>fs. s' = with_faults fs s) (\<lambda>_ s'. \<exists>fs. s' = with_faults fs s) s"
  proof -
    have "wpH (transactionD (commitRuling env d p sig claim att content asset b sl))
        (\<lambda>a s'. case a of Committed ds \<Rightarrow> ?good ds s' | _ \<Rightarrow> \<exists>fs. s' = with_faults fs s) (\<lambda>_ s'. \<exists>fs. s' = with_faults fs s) s"
      if cx: "buildDisputeRulingContext (s_sha256 (de_settle env)) (d_escrowId d) p = Inr cx"
        and v: "evaluateAuthorityDecisionAttribution env p sig pub cx = Inr (ATTRIBUTED claim att)"
        and content: "buildRulingOutcomeContent (pl_outcome p) units (asset_name asset) b sl (pl_buyerBps p) = Inr content"
      for cx claim att content
    proof -
      note a = attributedD [OF v]
      have esc: "pl_escrowId p = d_escrowId d" using a(3) contextD [OF cx] by simp
      obtain digest where "hashAuthorityDecision (s_sha256 (de_settle env)) p = Inr digest" "de_verify env digest sig pub = Inr True"
        using a(1) by blast
      moreover have "wpH (commitRuling env d p sig claim att content asset b sl)
          (\<lambda>a s'. case a of Committed ds \<Rightarrow> committed_state env d p sig pub content ds s s' | _ \<Rightarrow> \<exists>fs. s' = with_faults fs s)
          (\<lambda>_ _. True) s"
        by (rule wp_commitRuling) (use a(2,4,5,6) esc sync in simp_all)
      ultimately show ?thesis
        unfolding wp_transactionD using esc content
        by (elim wpH_mono) (auto split: DisputeRulingCommitResult.splits)
    qed
    then show ?thesis
      unfolding commitAuthoritativeDisputeRuling_def
      using same by (auto simp: wp_seqH wp_liftH wp_ret split: sum.split DiscretionaryAuthorityVerdict.split)
  qed
  with run show ?thesis by (auto simp: wpH_def split: sum.splits DisputeRulingCommitResult.splits)
qed

definition demo_denv :: dispute_env where
  "demo_denv = \<lparr>de_settle = demo_senv, de_localeCompare = (\<lambda>a b. if a = b then 0 else 1),
     de_verify = (\<lambda>digest sig pub. Inr (sig = pub @ digest)), de_parseDate = (\<lambda>t. if t = ''now'' then Some 7 else None),
     de_isoDate = show_int, de_cost = demo_cost, de_decodePsbt = (\<lambda>_. None),
     de_build = (\<lambda>_ _. Inl (ProviderError ''unavailable'')), de_supportsSplit = (\<lambda>_. True)\<rparr>"

definition demo_dispute :: "DisputeStatus \<Rightarrow> dispute_row" where
  "demo_dispute st = \<lparr>d_tradeId = ''t'', d_arbiterId = Some ''carol'', d_id = ''d'', d_escrowId = ''e'', d_openedBy = ''bob'',
     d_reason = ''late'', d_evidence = [], d_status = st, d_ruling = None, d_resolvedAt = None, d_appealRound = 0,
     d_previousRuling = None, d_previousArbiterId = None, d_autoRecommendation = None, d_autoConfidence = None,
     d_autoReasoning = None, d_autoDeadline = None, d_authoritySignature = None, d_authorityIssuedAt = None,
     d_authorityBuyerBps = None\<rparr>"

definition demo_disputed :: "escrow_row \<Rightarrow> dispute_row \<Rightarrow> dispute_state" where
  "demo_disputed e d = \<lparr>rv = \<lparr>base = (demo_settlement (Some e))\<lparr>payout_addresses := [(''bob'', A_BTC) \<mapsto> ''B'', (''alice'', A_BTC) \<mapsto> ''A''],
        disputes := [dispute_assignment.truncate d]\<rparr>,
      evidence = [], recipients = [], dist_policies = [], policy_recipients = [], ledger = []\<rparr>,
     dispute_rows = [d], ruling_records = [], pending_txs = [], dispositions = [], appeal_fees = [], arbiters = [],
     users = [''carol'' \<mapsto> ''K''], arbiter_cursor = 0, dispute_bus = []\<rparr>"

definition demo_payload :: AuthorityDecisionPayload where
  "demo_payload = \<lparr>pl_disputeId = ''d'', pl_escrowId = ''e'', pl_appealRound = 0, pl_authorityId = ''carol'', pl_outcome = RELEASE,
     pl_buyerBps = None, pl_issuedAt = ''now''\<rparr>"

lemma demo_commits:
  "fst (commitAuthoritativeDisputeRuling demo_denv (demo_dispute OPENED) demo_payload
     (''K'' @ join_with (CHR ''|'') (decision_fields demo_payload)) ''K'' ''5000'' A_BTC ''bob'' ''alice''
     (demo_disputed (demo_escrow DISPUTED) (demo_dispute OPENED)))
   = Inr (Committed [\<lparr>bd_beneficiary = ''bob'', bd_destination = ''B''\<rparr>])"
  by code_simp

theorem ruling_committed_with_its_record_witness:
  "\<exists>s' content. committed_state demo_denv (demo_dispute OPENED) demo_payload
     (''K'' @ join_with (CHR ''|'') (decision_fields demo_payload)) ''K'' content [\<lparr>bd_beneficiary = ''bob'', bd_destination = ''B''\<rparr>]
     (demo_disputed (demo_escrow DISPUTED) (demo_dispute OPENED)) s'"
proof -
  have sync: "synced (demo_disputed (demo_escrow DISPUTED) (demo_dispute OPENED))"
    by (simp add: synced_def demo_disputed_def settlement_def)
  obtain s' where run: "commitAuthoritativeDisputeRuling demo_denv (demo_dispute OPENED) demo_payload
     (''K'' @ join_with (CHR ''|'') (decision_fields demo_payload)) ''K'' ''5000'' A_BTC ''bob'' ''alice''
     (demo_disputed (demo_escrow DISPUTED) (demo_dispute OPENED))
     = (Inr (Committed [\<lparr>bd_beneficiary = ''bob'', bd_destination = ''B''\<rparr>]), s')"
    using demo_commits by (metis prod.collapse)
  from ruling_committed_with_its_record [OF sync run] show ?thesis by auto
qed

text \<open>
  A signature binds one decision. Two decisions whose identifiers are free of the separator and
  that have the same digest are the same decision in every field, the share of a split included, or
  two different strings with the same hash have been found.
\<close>

theorem decision_digest_binds_decision:
  assumes "hashAuthorityDecision sha p = Inr h" and "hashAuthorityDecision sha q = Inr h"
    and "\<forall>x \<in> set (decision_fields p) \<union> set (decision_fields q). CHR ''|'' \<notin> set x"
  shows "p = q \<or> (\<exists>x y. x \<noteq> y \<and> sha x = sha y)"
proof (rule disjCI)
  assume "\<not> (\<exists>x y. x \<noteq> y \<and> sha x = sha y)"
  then have inj: "\<And>x y. sha x = sha y \<Longrightarrow> x = y" by blast
  have wf: "assertWellFormed p = Inr ()" "assertWellFormed q = Inr ()"
    and "sha (join_with (CHR ''|'') (decision_fields p)) = sha (join_with (CHR ''|'') (decision_fields q))"
    using assms(1,2) unfolding hashAuthorityDecision_iff by auto
  from inj [OF this(3)] have fields: "decision_fields p = decision_fields q"
    by (rule join_with_inj [rotated 3]) (use assms(3) in \<open>auto simp: decision_fields_def\<close>)
  moreover have "pl_buyerBps p = pl_buyerBps q"
  proof (cases "pl_outcome p = SPLIT_RULING")
    case True
    moreover have "pl_outcome q = pl_outcome p" using fields by (simp add: decision_fields_def)
    ultimately obtain x y where bps: "pl_buyerBps p = Some (Num x)" "pl_buyerBps q = Some (Num y)" "of_int \<lfloor>x\<rfloor> = x" "of_int \<lfloor>y\<rfloor> = y"
      using wf by (auto simp: assertWellFormed_def bps_in_def split: option.splits if_splits elim!: js_integer.elims)
    then have "\<lfloor>x\<rfloor> = \<lfloor>y\<rfloor>" using fields by (simp add: decision_fields_def bps_text_def)
    with bps show ?thesis by metis
  next
    case False
    moreover have "pl_outcome q = pl_outcome p" using fields by (simp add: decision_fields_def)
    ultimately show ?thesis using wf by (simp add: assertWellFormed_def)
  qed
  ultimately show "p = q" by (cases p; cases q) (simp add: decision_fields_def)
qed

theorem decision_digest_binds_decision_witness:
  "\<exists>h. hashAuthorityDecision id demo_payload = Inr h \<and> (demo_payload = demo_payload \<or> (\<exists>x y. x \<noteq> y \<and> id x = id (y :: string)))"
proof -
  have h: "hashAuthorityDecision id demo_payload = Inr (join_with (CHR ''|'') (decision_fields demo_payload))"
    by (simp add: hashAuthorityDecision_iff assertWellFormed_def demo_payload_def)
  moreover have "\<forall>x \<in> set (decision_fields demo_payload) \<union> set (decision_fields demo_payload). CHR ''|'' \<notin> set x"
    by (simp add: decision_fields_def demo_payload_def bps_text_def is_digit_char_def)
  ultimately show ?thesis using decision_digest_binds_decision [OF h h] by blast
qed

text \<open>
  C29: a disputed transaction is executed only under the current ruling. An authorization is either
  the earlier one of the same operation, unchanged in every fact of its digest, or a new one whose
  dispute is resolved and still has the appeal round, the arbiter, the outcome and the signature the
  operation was built under; no operation gets two; and an operation without a ruling is refused on
  any escrow that was ever disputed.
\<close>

theorem execution_needs_the_current_ruling:
  assumes run: "authorizeDisputedPendingExecution env p s = (Inr r, s')"
    and uniq: "distinct (map dz_pendingOperationId (dispositions s))"
  shows "distinct (map dz_pendingOperationId (dispositions s'))
     \<and> (case r of
          None \<Rightarrow> s' = s \<and> \<not> list_ex (\<lambda>d. d_escrowId d = pt_escrowId p) (dispute_rows s)
        | Some z \<Rightarrow> dz_pendingOperationId z = pt_id p \<and> dz_escrowId z = pt_escrowId p \<and> Some (dz_disputeId z) = pt_disputeId p
            \<and> dz_operationDigest z = economicDispositionOperationDigest env p
            \<and> (z \<in> set (dispositions s) \<and> s' = s
               \<or> dispositions s' = dispositions s @ [z]
                 \<and> (\<exists>d \<in> set (dispute_rows s). d_id d = dz_disputeId z \<and> still_current d p)))"
proof -
  have fresh: "pt_id p \<notin> dz_pendingOperationId ` set (dispositions s)"
    if "find (\<lambda>z. dz_pendingOperationId z = pt_id p) (dispositions s) = None"
    using that by (auto simp: find_None_iff)
  have "wpH (authorizeDisputedPendingExecution env p)
     (\<lambda>r s'. distinct (map dz_pendingOperationId (dispositions s'))
     \<and> (case r of
          None \<Rightarrow> s' = s \<and> \<not> list_ex (\<lambda>d. d_escrowId d = pt_escrowId p) (dispute_rows s)
        | Some z \<Rightarrow> dz_pendingOperationId z = pt_id p \<and> dz_escrowId z = pt_escrowId p \<and> Some (dz_disputeId z) = pt_disputeId p
            \<and> dz_operationDigest z = economicDispositionOperationDigest env p
            \<and> (z \<in> set (dispositions s) \<and> s' = s
               \<or> dispositions s' = dispositions s @ [z]
                 \<and> (\<exists>d \<in> set (dispute_rows s). d_id d = dz_disputeId z \<and> still_current d p)))) (\<lambda>_ _. True) s"
    using uniq fresh
    by (auto simp: authorizeDisputedPendingExecution_def findDisputeById_def Let_def wp_eqs
        split: option.split list.split bool.split if_splits dest: find_SomeD)
  from wpH_I [OF this run] show ?thesis .
qed

definition demo_pending :: pending_tx_row where
  "demo_pending = \<lparr>pt_id = ''op'', pt_escrowId = ''e'', pt_kind = KRelease, pt_toAddress = ''B'', pt_toAddressSecondary = None,
     pt_buyerBps = None, pt_feeCollectionSats = None, pt_feeCollectionWaived = None, pt_minerFeeSats = Some 1,
     pt_unsignedPsbtBase64 = ''psbt'', pt_requiredSigners = [''carol'', ''bob''], pt_triggeredBy = ''carol'', pt_createdAt = 8,
     pt_disputeId = Some ''d'', pt_rulingAppealRound = Some 0, pt_rulingArbiterId = Some ''carol'',
     pt_rulingOutcome = Some RELEASE, pt_rulingAuthoritySignature = Some ''sig'', pt_rulingAuthorityIssuedAt = Some 7\<rparr>"

definition demo_ruled :: dispute_state where
  "demo_ruled = demo_disputed (demo_escrow DISPUTED)
     ((demo_dispute RESOLVED)\<lparr>d_ruling := Some RELEASE, d_authoritySignature := Some ''sig''\<rparr>)"

lemma demo_authorized:
  "map_sum id (map_option dz_pendingOperationId) (fst (authorizeDisputedPendingExecution demo_denv demo_pending demo_ruled)) = Inr (Some ''op'')"
  by code_simp

theorem execution_needs_the_current_ruling_witness:
  "\<exists>z s'. authorizeDisputedPendingExecution demo_denv demo_pending demo_ruled = (Inr (Some z), s')
     \<and> dz_operationDigest z = economicDispositionOperationDigest demo_denv demo_pending"
proof -
  obtain z s' where run: "authorizeDisputedPendingExecution demo_denv demo_pending demo_ruled = (Inr (Some z), s')"
    using demo_authorized by (cases "authorizeDisputedPendingExecution demo_denv demo_pending demo_ruled";
        cases "fst (authorizeDisputedPendingExecution demo_denv demo_pending demo_ruled)") auto
  have "distinct (map dz_pendingOperationId (dispositions demo_ruled))" by (simp add: demo_ruled_def demo_disputed_def)
  from execution_needs_the_current_ruling [OF run this] run show ?thesis by auto
qed

end
