(* ===== verification/Signature_Collection.thy ===== *)
theory Signature_Collection
  imports Dispute_Authority Escrow_Payout
begin

text \<open>
  The first half of the signature-collection flow (\<^verbatim>\<open>escrow-pending-tx.ts\<close>): building the
  unsigned transaction of a release, refund or split and storing it until the signers have signed.
  The provider that builds the transaction is a parameter.
\<close>

section \<open>Initiating a payout\<close>

definition target_status :: "pending_kind \<Rightarrow> EscrowStatus" where
  "target_status kind = (case kind of KRelease \<Rightarrow> COMPLETED | KRefund \<Rightarrow> REFUNDED | KSplit \<Rightarrow> EscrowStatus.SPLIT)"

definition fund_scope :: "pending_kind \<Rightarrow> FundScope" where
  "fund_scope kind = (case kind of KRelease \<Rightarrow> Released | KRefund \<Rightarrow> Refunded | KSplit \<Rightarrow> SplitScope)"

text \<open>The dispute row of the assignment that the authority check found, or none.\<close>

definition assigned_dispute :: "string \<Rightarrow> string \<Rightarrow> dispute_row option dispute" where
  "assigned_dispute tradeId who =
     readH (\<lambda>s. find (\<lambda>d. d_tradeId d = tradeId \<and> d_arbiterId d = Some who) (dispute_rows s))"

definition checkDisposition :: "string \<Rightarrow> escrow_row \<Rightarrow> trade_row \<Rightarrow> string \<Rightarrow> dispute_row option dispute" where
  "checkDisposition tradeId escrow trade triggeredBy =
     (if er_status escrow = DISPUTED
      then seqH (onSettle (assertDisputedDispositionAuthority tradeId (er_status escrow) triggeredBy)) (\<lambda>_.
             assigned_dispute tradeId triggeredBy)
      else seqH (onSettle (isSellerOrAssignedArbiter tradeId (t_sellerId trade) triggeredBy)) (\<lambda>ok.
           seqH (guardH ok (ForbiddenError ''neither the seller nor the assigned dispute arbiter'')) (\<lambda>_. ret None)))"

definition new_pending ::
    "string \<Rightarrow> string \<Rightarrow> pending_kind \<Rightarrow> string \<Rightarrow> string option \<Rightarrow> rat option \<Rightarrow> build_result \<Rightarrow> string \<Rightarrow> int \<Rightarrow> dispute_row option \<Rightarrow> pending_tx_row" where
  "new_pending pid escrowId kind toAddress toAddressSecondary buyerBps result triggeredBy now provenance =
     \<lparr>pt_id = pid, pt_escrowId = escrowId, pt_kind = kind, pt_toAddress = toAddress,
      pt_toAddressSecondary = (if toAddressSecondary = Some [] then None else toAddressSecondary),
      pt_buyerBps = buyerBps, pt_feeCollectionSats = map_option fst (br_feeCollection result),
      pt_feeCollectionWaived = map_option snd (br_feeCollection result), pt_minerFeeSats = br_minerFeeSats result,
      pt_unsignedPsbtBase64 = br_psbtBase64 result, pt_requiredSigners = br_requiredSigners result,
      pt_triggeredBy = triggeredBy, pt_createdAt = now, pt_disputeId = map_option d_id provenance,
      pt_rulingAppealRound = map_option d_appealRound provenance,
      pt_rulingArbiterId = Option.bind provenance d_arbiterId, pt_rulingOutcome = Option.bind provenance d_ruling,
      pt_rulingAuthoritySignature = Option.bind provenance d_authoritySignature,
      pt_rulingAuthorityIssuedAt = Option.bind provenance d_authorityIssuedAt\<rparr>"

definition createPending :: "dispute_env \<Rightarrow> (string \<Rightarrow> int \<Rightarrow> pending_tx_row) \<Rightarrow> pending_tx_row dispute" where
  "createPending env mk =
     seqH (readH (\<lambda>s. mk (s_uuid (de_settle env) (draws (settlement s))) (clock (settlement s)))) (\<lambda>row.
     seqH (readH (\<lambda>s. list_ex (\<lambda>p. pt_escrowId p = pt_escrowId row) (pending_txs s))) (\<lambda>dup.
     seqH (guardH (\<not> dup) (DatabaseError ''P2002'')) (\<lambda>_.
     seqH (onSettle (dbWrite ''escrowPendingTransaction'' (\<lambda>b. b\<lparr>draws := Suc (draws b)\<rparr>))) (\<lambda>_.
     seqH (writeH (\<lambda>s. s\<lparr>pending_txs := pending_txs s @ [row]\<rparr>)) (\<lambda>_. ret row)))))"

definition initiateSignatureCollectionCore ::
    "dispute_env \<Rightarrow> string \<Rightarrow> pending_kind \<Rightarrow> string \<Rightarrow> build_request \<Rightarrow> string option \<Rightarrow> string option \<Rightarrow> rat option \<Rightarrow> pending_tx_row dispute" where
  "initiateSignatureCollectionCore env escrowId kind triggeredBy request toAddress toAddressSecondary buyerBps =
     (let senv = de_settle env in
      seqH (onSettle (requireEscrow escrowId)) (\<lambda>escrow.
      seqH (liftH (getSignatureCollectionProvider (s_isProduction senv) (er_type escrow))) (\<lambda>pr.
      seqH (requireH pr (EscrowError ''does not use the client-signature-collection flow'')) (\<lambda>provider.
      seqH (liftH (assertEscrowTransition (er_status escrow) (target_status kind))) (\<lambda>_.
      seqH (if kind = KRefund then ret () else onSettle (assertFundingNotUncertain escrowId (er_type escrow))) (\<lambda>_.
      seqH (onSettle (requireTrade (er_tradeId escrow))) (\<lambda>trade.
      seqH (checkDisposition (er_tradeId escrow) escrow trade triggeredBy) (\<lambda>provenance.
      seqH (onSettle (checkFundMovementCapability senv triggeredBy (fund_scope kind))) (\<lambda>_.
      seqH (readH (\<lambda>s. list_ex (\<lambda>p. pt_escrowId p = escrowId) (pending_txs s))) (\<lambda>existing.
      seqH (guardH (\<not> existing) (EscrowError ''already has a pending transaction awaiting signatures'')) (\<lambda>_.
      seqH (onSettle (loadParticipantPubkeys escrowId)) (\<lambda>keys.
      seqH (guardH (kind = KSplit \<longrightarrow> de_supportsSplit env provider) (EscrowError ''does not support a SPLIT settlement action'')) (\<lambda>_.
      seqH (liftH (de_build env provider \<lparr>bi_escrow = escrow, bi_buyerId = t_buyerId trade, bi_sellerId = t_sellerId trade,
              bi_pubkeys = keys, bi_triggeredBy = triggeredBy, bi_request = request\<rparr>)) (\<lambda>result.
        catchH
          (transactionD
             (seqH (if kind = KRefund then ret False else onSettle (isFundingUncertain escrowId)) (\<lambda>uncertain.
              seqH (guardH (\<not> uncertain) (EscrowError ''funding evidence became uncertain while this request was in flight'')) (\<lambda>_.
              seqH (requireH (case toAddress of None \<Rightarrow> br_toAddress result | Some a \<Rightarrow> Some a)
                      (GenericError ''Argument toAddress is missing'')) (\<lambda>address.
              seqH (guardH (case buyerBps of None \<Rightarrow> True | Some x \<Rightarrow> of_int \<lfloor>x\<rfloor> = x)
                      (GenericError ''Argument buyerBps is not an integer'')) (\<lambda>_.
                createPending env (\<lambda>pid now.
                  new_pending pid escrowId kind address toAddressSecondary buyerBps result triggeredBy now provenance)))))))
          (\<lambda>e. if e = DatabaseError ''P2002''
               then throw (EscrowError ''already has a pending transaction awaiting signatures (concurrent initiate)'')
               else throw e)))))))))))))))"

definition initiateRelease :: "dispute_env \<Rightarrow> string \<Rightarrow> string option \<Rightarrow> string \<Rightarrow> pending_tx_row dispute" where
  "initiateRelease env escrowId toAddress triggeredBy =
     seqH (onSettle (requireEscrow escrowId)) (\<lambda>escrow.
     seqH (onSettle (checkDualApproval (de_settle env) escrowId escrow)) (\<lambda>_.
     seqH (onSettle (requireTrade (er_tradeId escrow))) (\<lambda>trade.
     seqH (onSettle (resolvePayoutAddress toAddress (t_buyerId trade) (er_asset escrow))) (\<lambda>address.
       initiateSignatureCollectionCore env escrowId KRelease triggeredBy (BuildRelease address) (Some address) None None))))"

definition initiateRefund :: "dispute_env \<Rightarrow> string \<Rightarrow> string \<Rightarrow> string option \<Rightarrow> pending_tx_row dispute" where
  "initiateRefund env escrowId triggeredBy toAddress =
     seqH (onSettle (requireEscrow escrowId)) (\<lambda>escrow.
     seqH (onSettle (requireTrade (er_tradeId escrow))) (\<lambda>trade.
     seqH (onSettle (resolvePayoutAddress toAddress (t_sellerId trade) (er_asset escrow))) (\<lambda>address.
       initiateSignatureCollectionCore env escrowId KRefund triggeredBy (BuildRefund address) None None None)))"

definition initiateSplit ::
    "dispute_env \<Rightarrow> string \<Rightarrow> string option \<Rightarrow> string option \<Rightarrow> rat \<Rightarrow> string \<Rightarrow> pending_tx_row dispute" where
  "initiateSplit env escrowId buyerAddress sellerAddress buyerBps triggeredBy =
     seqH (guardH (buyerBps > 0 \<and> buyerBps < 10000) (ValidationError ''buyerBps must be strictly between 0 and 10000'')) (\<lambda>_.
     seqH (onSettle (requireEscrow escrowId)) (\<lambda>escrow.
     seqH (onSettle (requireTrade (er_tradeId escrow))) (\<lambda>trade.
     seqH (onSettle (resolvePayoutAddress buyerAddress (t_buyerId trade) (er_asset escrow))) (\<lambda>buyerAddr.
     seqH (onSettle (resolvePayoutAddress sellerAddress (t_sellerId trade) (er_asset escrow))) (\<lambda>sellerAddr.
       initiateSignatureCollectionCore env escrowId KSplit triggeredBy (BuildSplit buyerAddr sellerAddr buyerBps)
         (Some buyerAddr) (Some sellerAddr) (Some buyerBps))))))"

section \<open>What an initiated payout guarantees\<close>

lemma truncate_sel [simp]:
  "d_tradeId (dispute_assignment.truncate d) = d_tradeId d" "d_arbiterId (dispute_assignment.truncate d) = d_arbiterId d"
  by (simp_all add: dispute_assignment.truncate_def)

lemma assigned_in_rows:
  assumes "synced s"
  shows "list_ex (\<lambda>d. d_tradeId d = t \<and> d_arbiterId d = Some who) (disputes (settlement s))
     \<longleftrightarrow> list_ex (\<lambda>d. d_tradeId d = t \<and> d_arbiterId d = Some who) (dispute_rows s)"
  using assms by (simp add: synced_def list_ex_iff)

lemma rv_same [simp]: "s\<lparr>rv := (rv s)\<lparr>base := settlement s\<rparr>\<rparr> = s"
  by (simp add: settlement_def)

lemma wp_checkDisposition:
  assumes "synced s"
  shows "wpH (checkDisposition (er_tradeId r) r t who) Q E s =
    (if may_dispose r t who (settlement s)
     then Q (if er_status r = DISPUTED then find (\<lambda>d. d_tradeId d = er_tradeId r \<and> d_arbiterId d = Some who) (dispute_rows s) else None) s
     else if er_status r = DISPUTED then E (ForbiddenError ''not the current assigned arbiter'') s
     else E (ForbiddenError ''neither the seller nor the assigned dispute arbiter'') s)"
  using assigned_in_rows [OF assms]
  by (auto simp: checkDisposition_def assigned_dispute_def assertDisputedDispositionAuthority_def isSellerOrAssignedArbiter_def
      wp_eqs find_exists may_dispose_def Let_def split: option.split)

definition pending_stored :: "dispute_env \<Rightarrow> (string \<Rightarrow> int \<Rightarrow> pending_tx_row) \<Rightarrow> dispute_state \<Rightarrow> pending_tx_row \<Rightarrow> dispute_state \<Rightarrow> bool" where
  "pending_stored env mk s row s' \<longleftrightarrow>
     row = mk (s_uuid (de_settle env) (draws (settlement s))) (clock (settlement s))
     \<and> (\<forall>p \<in> set (pending_txs s). pt_escrowId p \<noteq> pt_escrowId row)
     \<and> (\<exists>fs. s' = s\<lparr>rv := (rv s)\<lparr>base := (settlement s)\<lparr>faults := fs, draws := Suc (draws (settlement s))\<rparr>\<rparr>,
            pending_txs := pending_txs s @ [row]\<rparr>)"

lemma wp_createPending:
  assumes "\<And>row s'. pending_stored env mk s row s' \<Longrightarrow> Q row s'" and "\<And>e s'. E e s'"
  shows "wpH (createPending env mk) Q E s"
proof -
  have "\<exists>fs. s\<lparr>rv := (rv s)\<lparr>base := (settlement s)\<lparr>draws := n\<rparr>\<rparr>, pending_txs := ps\<rparr>
      = s\<lparr>rv := (rv s)\<lparr>base := (settlement s)\<lparr>faults := fs, draws := n\<rparr>\<rparr>, pending_txs := ps\<rparr>" for ps n
    by (intro exI [of _ "faults (settlement s)"]) simp
  then show ?thesis
    by (auto simp: createPending_def wp_eqs assms(2) list_ex_iff pending_stored_def intro!: assms(1)
        split: list.split bool.split)
qed

definition payout_initiated :: "string \<Rightarrow> pending_kind \<Rightarrow> string \<Rightarrow> dispute_state \<Rightarrow> pending_tx_row \<Rightarrow> dispute_state \<Rightarrow> bool" where
  "payout_initiated i kind who s row s' \<longleftrightarrow>
     (\<exists>r t. escrows (settlement s) i = Some r \<and> trades (settlement s) (er_tradeId r) = Some t
        \<and> er_type r \<in> set SIGNATURE_COLLECTION_PROVIDERS \<and> target_status kind \<in> set (VALID_TRANSITIONS (er_status r))
        \<and> may_dispose r t who (settlement s)
        \<and> (kind \<noteq> KRefund \<longrightarrow> \<not> funding_uncertain i (settlement s))
        \<and> (if er_status r = DISPUTED
           then \<exists>d \<in> set (dispute_rows s). d_tradeId d = er_tradeId r \<and> d_arbiterId d = Some who \<and> pt_disputeId row = Some (d_id d)
                  \<and> pt_rulingAppealRound row = Some (d_appealRound d) \<and> pt_rulingArbiterId row = Some who
                  \<and> pt_rulingOutcome row = d_ruling d \<and> pt_rulingAuthoritySignature row = d_authoritySignature d
           else pt_disputeId row = None))
     \<and> pt_escrowId row = i \<and> pt_kind row = kind \<and> pt_triggeredBy row = who
     \<and> (\<forall>p \<in> set (pending_txs s). pt_escrowId p \<noteq> i)
     \<and> (\<exists>fs. s' = s\<lparr>rv := (rv s)\<lparr>base := (settlement s)\<lparr>faults := fs, draws := Suc (draws (settlement s))\<rparr>\<rparr>,
            pending_txs := pending_txs s @ [row]\<rparr>)"

lemma new_pending_sel [simp]:
  "pt_escrowId (new_pending pid i kind a b bps res who now pr) = i" "pt_kind (new_pending pid i kind a b bps res who now pr) = kind"
  "pt_triggeredBy (new_pending pid i kind a b bps res who now pr) = who"
  "pt_disputeId (new_pending pid i kind a b bps res who now pr) = map_option d_id pr"
  "pt_rulingAppealRound (new_pending pid i kind a b bps res who now pr) = map_option d_appealRound pr"
  "pt_rulingArbiterId (new_pending pid i kind a b bps res who now pr) = Option.bind pr d_arbiterId"
  "pt_rulingOutcome (new_pending pid i kind a b bps res who now pr) = Option.bind pr d_ruling"
  "pt_rulingAuthoritySignature (new_pending pid i kind a b bps res who now pr) = Option.bind pr d_authoritySignature"
  by (simp_all add: new_pending_def)

lemma initiated:
  assumes "pending_stored env (\<lambda>pid now. new_pending pid i kind a b bps res who now
      (if er_status r = DISPUTED then find (\<lambda>d. d_tradeId d = er_tradeId r \<and> d_arbiterId d = Some who) (dispute_rows s) else None)) s row s'"
    and "escrows (settlement s) i = Some r" and "trades (settlement s) (er_tradeId r) = Some t"
    and "er_type r \<in> set SIGNATURE_COLLECTION_PROVIDERS" and "target_status kind \<in> set (VALID_TRANSITIONS (er_status r))"
    and "may_dispose r t who (settlement s)" and "kind \<noteq> KRefund \<longrightarrow> \<not> funding_uncertain i (settlement s)" and "synced s"
  shows "payout_initiated i kind who s row s'"
proof -
  have "\<exists>d \<in> set (dispute_rows s). d_tradeId d = er_tradeId r \<and> d_arbiterId d = Some who \<and> pt_disputeId row = Some (d_id d)
      \<and> pt_rulingAppealRound row = Some (d_appealRound d) \<and> pt_rulingArbiterId row = Some who
      \<and> pt_rulingOutcome row = d_ruling d \<and> pt_rulingAuthoritySignature row = d_authoritySignature d"
    if st: "er_status r = DISPUTED"
  proof -
    have "list_ex (\<lambda>d. d_tradeId d = er_tradeId r \<and> d_arbiterId d = Some who) (dispute_rows s)"
      using assms(6) st assigned_in_rows [OF assms(8)] by (simp add: may_dispose_def Let_def)
    then obtain d where d: "find (\<lambda>d. d_tradeId d = er_tradeId r \<and> d_arbiterId d = Some who) (dispute_rows s) = Some d"
      using find_exists by metis
    with find_SomeD [OF d] assms(1) st show ?thesis by (auto simp: pending_stored_def)
  qed
  moreover have "pt_disputeId row = None" if "er_status r \<noteq> DISPUTED" using assms(1) that by (simp add: pending_stored_def)
  moreover have "pt_escrowId row = i" "pt_kind row = kind" "pt_triggeredBy row = who"
    using assms(1) by (simp_all add: pending_stored_def)
  moreover have "\<forall>p \<in> set (pending_txs s). pt_escrowId p \<noteq> pt_escrowId row"
    and "\<exists>fs. s' = s\<lparr>rv := (rv s)\<lparr>base := (settlement s)\<lparr>faults := fs, draws := Suc (draws (settlement s))\<rparr>\<rparr>,
            pending_txs := pending_txs s @ [row]\<rparr>"
    using assms(1) by (auto simp: pending_stored_def)
  ultimately show ?thesis
    unfolding payout_initiated_def using assms(2-7) by simp
qed

lemma with_faults_ex: "\<exists>fs. s = with_faults fs s"
  using with_faults_same [OF refl] by metis

lemma getSignatureCollectionProviderD:
  "getSignatureCollectionProvider production ty = Inr (Some p) \<Longrightarrow> ty \<in> set SIGNATURE_COLLECTION_PROVIDERS"
  by (simp add: getSignatureCollectionProvider_def split: sum.splits if_splits)

lemma assertEscrowTransition_iff: "assertEscrowTransition from to = Inr u \<longleftrightarrow> to \<in> set (VALID_TRANSITIONS from)"
  by (simp add: assertEscrowTransition_def)

text \<open>The weakest preconditions as introduction rules: one goal per branch of the code.\<close>

lemma wpI_seqH: "wpH m (\<lambda>a. wpH (f a) Q E) E s \<Longrightarrow> wpH (seqH m f) Q E s"
  by (simp add: wp_seqH)

lemma wpI_liftH: "\<lbrakk>\<And>e. r = Inl e \<Longrightarrow> E e s; \<And>a. r = Inr a \<Longrightarrow> Q a s\<rbrakk> \<Longrightarrow> wpH (liftH r) Q E s"
  by (simp add: wp_liftH split: sum.split)

lemma wpI_requireH: "\<lbrakk>x = None \<Longrightarrow> E e s; \<And>a. x = Some a \<Longrightarrow> Q a s\<rbrakk> \<Longrightarrow> wpH (requireH x e) Q E s"
  by (simp add: wp_requireH split: option.split)

lemma wpI_guardH: "\<lbrakk>b \<Longrightarrow> Q () s; \<not> b \<Longrightarrow> E e s\<rbrakk> \<Longrightarrow> wpH (guardH b e) Q E s"
  by (simp add: wp_guardH)

lemma wpI_readH: "Q (f s) s \<Longrightarrow> wpH (readH f) Q E s"
  by (simp add: wp_readH)

lemma wpI_ret: "Q a s \<Longrightarrow> wpH (ret a) Q E s"
  by (simp add: wp_ret)

lemma wpI_throw: "E e s \<Longrightarrow> wpH (throw e) Q E s"
  by (simp add: wp_throw)

lemma wpI_if: "\<lbrakk>b \<Longrightarrow> wpH m Q E s; \<not> b \<Longrightarrow> wpH n Q E s\<rbrakk> \<Longrightarrow> wpH (if b then m else n) Q E s"
  by simp

lemma wpI_catchH: "wpH m Q (\<lambda>e. wpH (h e) Q E) s \<Longrightarrow> wpH (catchH m h) Q E s"
  by (simp add: wp_catchH)

lemma wpI_transactionD: "wpH m Q (\<lambda>e s'. E e (with_faults (faults (settlement s')) s)) s \<Longrightarrow> wpH (transactionD m) Q E s"
  by (simp add: wp_transactionD)

lemma wpI_requireEscrowD:
  "\<lbrakk>E (NotFoundError ''Escrow'' i) s; \<And>r. escrows (settlement s) i = Some r \<Longrightarrow> Q r s\<rbrakk> \<Longrightarrow> wpH (onSettle (requireEscrow i)) Q E s"
  by (simp add: wp_onSettle wp_requireEscrow split: option.split)

lemma wpI_requireTradeD:
  "\<lbrakk>E (NotFoundError ''Trade'' i) s; \<And>t. trades (settlement s) i = Some t \<Longrightarrow> Q t s\<rbrakk> \<Longrightarrow> wpH (onSettle (requireTrade i)) Q E s"
  by (simp add: wp_onSettle wp_requireTrade split: option.split)

lemma wpI_uncertainD:
  "\<lbrakk>\<And>e. E e s; ty = MULTISIG \<longrightarrow> \<not> funding_uncertain i (settlement s) \<Longrightarrow> Q () s\<rbrakk>
   \<Longrightarrow> wpH (onSettle (assertFundingNotUncertain i ty)) Q E s"
  by (auto simp: wp_onSettle wp_assertFundingNotUncertain)

lemma wpI_isUncertainD: "Q (funding_uncertain i (settlement s)) s \<Longrightarrow> wpH (onSettle (isFundingUncertain i)) Q E s"
  by (simp add: wp_onSettle wp_isFundingUncertain)

lemma wpI_capabilityD:
  "\<lbrakk>\<And>e. E e s; Q () s\<rbrakk> \<Longrightarrow> wpH (onSettle (checkFundMovementCapability senv who sc)) Q E s"
  by (auto simp: wp_onSettle wp_checkFundMovementCapability)

lemma wpI_pubkeysD: "(\<And>ks. Q ks s) \<Longrightarrow> (\<And>e. E e s) \<Longrightarrow> wpH (onSettle (loadParticipantPubkeys i)) Q E s"
  by (simp add: wp_onSettle loadParticipantPubkeys_def wp_eqs)

lemma wpI_disposition:
  assumes "synced s" and "\<And>e. E e s"
    and "may_dispose r t who (settlement s) \<Longrightarrow>
      Q (if er_status r = DISPUTED then find (\<lambda>d. d_tradeId d = er_tradeId r \<and> d_arbiterId d = Some who) (dispute_rows s) else None) s"
  shows "wpH (checkDisposition (er_tradeId r) r t who) Q E s"
  using assms by (simp add: wp_checkDisposition)

lemmas wpI_base = wpI_seqH wpI_liftH wpI_requireH wpI_guardH wpI_readH wpI_ret wpI_throw wpI_if wpI_catchH wpI_transactionD
lemmas wpI_settle = wpI_requireEscrowD wpI_requireTradeD wpI_uncertainD wpI_isUncertainD wpI_capabilityD wpI_pubkeysD

lemma wp_initiateCore:
  assumes "synced s"
  shows "wpH (initiateSignatureCollectionCore env i kind who req a b bps) (payout_initiated i kind who s) (\<lambda>_ s'. \<exists>fs. s' = with_faults fs s) s"
  unfolding initiateSignatureCollectionCore_def Let_def
  by (intro wpI_base wpI_settle wpI_disposition [OF assms] wp_createPending with_faults_ex;
      (erule initiated [OF _ _ _ _ _ _ _ assms])?; (auto simp: assertEscrowTransition_iff dest: getSignatureCollectionProviderD)?)

lemma wpI_addressD:
  "\<lbrakk>\<And>e. E e s; \<And>x. Q x s\<rbrakk> \<Longrightarrow> wpH (onSettle (resolvePayoutAddress a who asset)) Q E s"
  by (simp add: wp_onSettle wp_payout_address split: option.split)

lemma wpI_dualD:
  "\<lbrakk>\<And>e. E e s; approved_by_both senv i r (settlement s) \<Longrightarrow> Q () s\<rbrakk> \<Longrightarrow> wpH (onSettle (checkDualApproval senv i r)) Q E s"
  by (simp add: wp_onSettle wp_dual)

lemmas wpI_initiate = wpI_seqH wpI_guardH wpI_requireEscrowD wpI_requireTradeD wpI_addressD wpI_dualD with_faults_ex

lemma wp_initiates:
  assumes "synced s"
  shows "wpH (initiateRelease env i a who) (payout_initiated i KRelease who s) (\<lambda>_ s'. \<exists>fs. s' = with_faults fs s) s"
    "wpH (initiateRefund env i who a) (payout_initiated i KRefund who s) (\<lambda>_ s'. \<exists>fs. s' = with_faults fs s) s"
    "wpH (initiateSplit env i a b bps who) (payout_initiated i KSplit who s) (\<lambda>_ s'. \<exists>fs. s' = with_faults fs s) s"
  unfolding initiateRelease_def initiateRefund_def initiateSplit_def
  by (intro wpI_initiate wp_initiateCore [OF assms])+

text \<open>
  C32: starting a payout. A release, refund or split that is initiated stores exactly one pending
  transaction and changes nothing else (no escrow status moves, no event is sent); the escrow uses
  the signature-collection flow, had no pending transaction, may make the transition, and the caller
  may dispose of it; release and split are refused while the funding is uncertain; and on a disputed
  escrow the row carries the identity, round, outcome and signature of the assigned arbiter's
  dispute. A refused start stores nothing.
\<close>

theorem initiated_payout_is_authorized:
  assumes sync: "synced s"
    and op: "m = initiateRelease env i a who \<and> kind = KRelease \<or> m = initiateRefund env i who a \<and> kind = KRefund
        \<or> m = initiateSplit env i a b bps who \<and> kind = KSplit"
    and run: "m s = (res, s')"
  shows "case res of Inl e \<Rightarrow> \<exists>fs. s' = with_faults fs s | Inr row \<Rightarrow> payout_initiated i kind who s row s'"
proof -
  have "wpH m (payout_initiated i kind who s) (\<lambda>_ s'. \<exists>fs. s' = with_faults fs s) s"
    using op wp_initiates [OF sync] by blast
  with run show ?thesis by (simp add: wpH_def split: sum.splits)
qed

definition demo_builder :: dispute_env where
  "demo_builder = demo_denv\<lparr>de_build := (\<lambda>_ _. Inr \<lparr>br_psbtBase64 = ''psbt'', br_requiredSigners = [''carol'', ''bob''],
     br_toAddress = Some ''A'', br_feeCollection = None, br_minerFeeSats = Some 1\<rparr>)\<rparr>"

definition demo_multisig :: dispute_state where
  "demo_multisig = demo_disputed ((demo_escrow DISPUTED)\<lparr>er_type := MULTISIG\<rparr>)
     ((demo_dispute RESOLVED)\<lparr>d_ruling := Some RELEASE, d_authoritySignature := Some ''sig''\<rparr>)"

lemma demo_initiates:
  "map_sum id pt_disputeId (fst (initiateRefund demo_builder ''e'' ''carol'' (Some ''A'') demo_multisig)) = Inr (Some ''d'')"
  by code_simp

theorem initiated_payout_is_authorized_witness:
  "\<exists>row s'. initiateRefund demo_builder ''e'' ''carol'' (Some ''A'') demo_multisig = (Inr row, s')
     \<and> payout_initiated ''e'' KRefund ''carol'' demo_multisig row s'"
proof -
  obtain row s' where run: "initiateRefund demo_builder ''e'' ''carol'' (Some ''A'') demo_multisig = (Inr row, s')"
    using demo_initiates by (cases "initiateRefund demo_builder ''e'' ''carol'' (Some ''A'') demo_multisig";
        cases "fst (initiateRefund demo_builder ''e'' ''carol'' (Some ''A'') demo_multisig)") auto
  have "synced demo_multisig" by (simp add: synced_def demo_multisig_def demo_disputed_def settlement_def)
  from initiated_payout_is_authorized [where m = "initiateRefund demo_builder ''e'' ''carol'' (Some ''A'')" and kind = KRefund
      and env = demo_builder and i = "''e''" and who = "''carol''" and a = "Some ''A''" and res = "Inr row" and s' = s',
      OF this _ run] run show ?thesis by auto
qed

end
