(* ===== verification/Arbitration_Market.thy ===== *)
theory Arbitration_Market
  imports Signature_Collection
begin

text \<open>
  Who decides a dispute: the round-robin list of trusted arbitrators
  (\<^verbatim>\<open>arbitration-provider.ts\<close>), the market of registered arbiters with its eligibility threshold,
  weighted draw, appeal panels and slashing (\<^verbatim>\<open>market-arbitration.provider.ts\<close>), and the choice
  between the two (\<^verbatim>\<open>arbitration-provider-resolver.ts\<close>). The random source is a parameter;
  double-precision numbers are read as exact rationals.
\<close>

section \<open>Environment\<close>

record service_env =
  sv_dispute :: dispute_env
  sv_arbitrationMode :: ArbitrationMode
  sv_arbitrationOverrides :: "EscrowType \<rightharpoonup> ArbitrationMode"
  sv_trustedArbitrators :: "string list"
  sv_random :: "nat \<Rightarrow> rat"
  sv_evidenceTrade :: "string \<Rightarrow> string option option"
  sv_autoWindowHours :: rat

abbreviation "sv_settle env \<equiv> de_settle (sv_dispute env)"

definition drawRandom :: "service_env \<Rightarrow> rat dispute" where
  "drawRandom env =
     seqH (readH (\<lambda>s. sv_random env (draws (settlement s)))) (\<lambda>r.
     seqH (onSettle (writeH (\<lambda>b. b\<lparr>draws := Suc (draws b)\<rparr>))) (\<lambda>_. ret r))"

section \<open>Market of arbiters\<close>

definition REPUTATION_STAKE_FACTOR :: rat where "REPUTATION_STAKE_FACTOR = 1 / 100"
definition K_ELIGIBILITY :: rat where "K_ELIGIBILITY = 3 / 2"
definition OVERTURNED_PENALTY :: rat where "OVERTURNED_PENALTY = -10"
definition SLASH_COLLATERAL_FRACTION :: rat where "SLASH_COLLATERAL_FRACTION = 1 / 2"
definition PANEL_SIZE_BASE :: nat where "PANEL_SIZE_BASE = 3"
definition COST_FLOOR_FACTOR :: rat where "COST_FLOOR_FACTOR = 1"

record ArbiterCandidate =
  ac_participantId :: string
  ac_monetaryCollateral :: rat
  ac_collateralAsset :: "string option"
  ac_arbiterReputation :: rat
  ac_effectiveStake :: rat
  ac_cumulativeFeesObserved :: rat

definition toCandidate :: "arbiter_profile \<Rightarrow> ArbiterCandidate" where
  "toCandidate p = \<lparr>ac_participantId = ap_participantId p, ac_monetaryCollateral = ap_monetaryCollateral p,
     ac_collateralAsset = ap_collateralAsset p, ac_arbiterReputation = ap_arbiterReputation p,
     ac_effectiveStake = ap_monetaryCollateral p + ap_arbiterReputation p * REPUTATION_STAKE_FACTOR,
     ac_cumulativeFeesObserved = ap_cumulativeFeesObserved p\<rparr>"

definition findProfile :: "string \<Rightarrow> arbiter_profile option dispute" where
  "findProfile who = readH (\<lambda>s. find (\<lambda>p. ap_participantId p = who) (arbiters s))"

text \<open>\<^verbatim>\<open>update\<close> by the unique participant: a missing row is an error.\<close>

definition updateProfile :: "string \<Rightarrow> (arbiter_profile \<Rightarrow> arbiter_profile) \<Rightarrow> arbiter_profile dispute" where
  "updateProfile who f =
     seqH (findProfile who) (\<lambda>row.
     seqH (requireH row (DatabaseError ''P2025'')) (\<lambda>p.
     seqH (dbStep ''arbiterProfile'' (\<lambda>s. s\<lparr>arbiters := map (\<lambda>q. if ap_participantId q = who then f q else q) (arbiters s)\<rparr>)) (\<lambda>_.
       ret (f p))))"

text \<open>Registering again adds collateral; \<^verbatim>\<open>monetaryCollateral\<close> is a decimal column of eight places.\<close>

definition register :: "string \<Rightarrow> rat \<Rightarrow> string option \<Rightarrow> ArbiterCandidate dispute" where
  "register who monetaryCollateral collateralAsset =
     seqH (findProfile who) (\<lambda>existing.
       case existing of
         Some p \<Rightarrow>
           seqH (updateProfile who (\<lambda>q. q\<lparr>ap_monetaryCollateral := numeric_8 (ap_monetaryCollateral q + monetaryCollateral),
                   ap_collateralAsset := (case collateralAsset of None \<Rightarrow> ap_collateralAsset p | Some a \<Rightarrow> Some a)\<rparr>)) (\<lambda>q.
             ret (toCandidate q))
       | None \<Rightarrow>
           let p = \<lparr>ap_participantId = who, ap_monetaryCollateral = numeric_8 monetaryCollateral, ap_collateralAsset = collateralAsset,
                    ap_arbiterReputation = 0, ap_rulingsTotal = 0, ap_rulingsOverturned = 0, ap_cumulativeFeesObserved = 0,
                    ap_slashedAt = None\<rparr>
           in seqH (dbStep ''arbiterProfile'' (\<lambda>s. s\<lparr>arbiters := arbiters s @ [p]\<rparr>)) (\<lambda>_. ret (toCandidate p)))"

definition getProfile :: "string \<Rightarrow> ArbiterCandidate option dispute" where
  "getProfile who = seqH (findProfile who) (\<lambda>p. ret (map_option toCandidate p))"

definition eligibleFor :: "rat \<Rightarrow> string list \<Rightarrow> ArbiterCandidate list dispute" where
  "eligibleFor disputeValue excluded =
     readH (\<lambda>s. filter (\<lambda>c. disputeValue * K_ELIGIBILITY \<le> ac_effectiveStake c \<and> ac_participantId c \<notin> set excluded)
                  (map toCandidate (filter (\<lambda>p. ap_slashedAt p = None) (arbiters s))))"

text \<open>The walk along the weights; the last candidate catches what rounding leaves over.\<close>

fun pick_at :: "rat \<Rightarrow> ('a \<times> rat) list \<Rightarrow> 'a option" where
  "pick_at roll [] = None"
| "pick_at roll ((x, w) # rest) = (if roll - w \<le> 0 \<or> rest = [] then Some x else pick_at (roll - w) rest)"

definition weightedPick :: "service_env \<Rightarrow> (string \<times> rat) list \<Rightarrow> string dispute" where
  "weightedPick env weighted =
     seqH (drawRandom env) (\<lambda>r.
       requireH (pick_at (r * sum_list (map snd weighted)) weighted) (GenericError ''Cannot read properties of undefined''))"

definition weightedRandomPick :: "service_env \<Rightarrow> ArbiterCandidate list \<Rightarrow> string dispute" where
  "weightedRandomPick env candidates = weightedPick env (map (\<lambda>c. (ac_participantId c, ac_effectiveStake c)) candidates)"

text \<open>The escrow and the trade of a dispute, as every draw reads them.\<close>

definition dispute_parties :: "string \<Rightarrow> (escrow_row \<times> trade_row) dispute" where
  "dispute_parties disputeId =
     seqH (findDisputeById disputeId) (\<lambda>row.
     seqH (requireH row (EscrowError ''MarketArbitrationProvider: no dispute found'')) (\<lambda>d.
     seqH (onSettle (findEscrow (d_escrowId d))) (\<lambda>e.
     seqH (requireH e (EscrowError ''MarketArbitrationProvider: no escrow found'')) (\<lambda>escrow.
     seqH (readH (\<lambda>s. trades (settlement s) (d_tradeId d))) (\<lambda>t.
     seqH (requireH t (EscrowError ''MarketArbitrationProvider: no trade found'')) (\<lambda>trade.
       ret (escrow, trade)))))))"

definition assignMarket :: "service_env \<Rightarrow> string \<Rightarrow> string dispute" where
  "assignMarket env disputeId =
     seqH (dispute_parties disputeId) (\<lambda>(escrow, trade).
     seqH (eligibleFor (er_lockedAmount escrow) [t_buyerId trade, t_sellerId trade]) (\<lambda>eligible.
     seqH (guardH (eligible \<noteq> []) (EscrowError ''MarketArbitrationProvider: no registered arbiter clears the eligibility threshold'')) (\<lambda>_.
       weightedRandomPick env eligible)))"

definition max_of :: "rat list \<Rightarrow> rat \<Rightarrow> rat" where
  "max_of xs m = foldl max m xs"

definition appeal_weight :: "rat \<Rightarrow> rat \<Rightarrow> rat \<Rightarrow> ArbiterCandidate \<Rightarrow> rat" where
  "appeal_weight disputeValue maxReputation maxCollateral c =
     (let reputationTerm = (if COST_FLOOR_FACTOR * disputeValue \<le> ac_cumulativeFeesObserved c
                            then ac_arbiterReputation c / maxReputation else 0)
      in 7 / 10 * reputationTerm + 3 / 10 * (ac_monetaryCollateral c / maxCollateral))"

definition appealPanel :: "rat \<Rightarrow> nat \<Rightarrow> ArbiterCandidate list \<Rightarrow> (string \<times> rat) list" where
  "appealPanel disputeValue rnd eligible =
     (let maxReputation = max_of (map ac_arbiterReputation eligible) 1;
          maxCollateral = max_of (map ac_monetaryCollateral eligible) 1;
          weighted = map (\<lambda>c. (ac_participantId c, appeal_weight disputeValue maxReputation maxCollateral c)) eligible
      in take (PANEL_SIZE_BASE * 2 ^ rnd)
           (sort_by (\<lambda>a b. if snd a < snd b then 1 else if snd b < snd a then -1 else 0) weighted))"

definition assignAppealPanel :: "service_env \<Rightarrow> string \<Rightarrow> nat \<Rightarrow> string option \<Rightarrow> string dispute" where
  "assignAppealPanel env disputeId rnd excludeParticipantId =
     seqH (dispute_parties disputeId) (\<lambda>(escrow, trade).
     seqH (eligibleFor (er_lockedAmount escrow)
             ([t_buyerId trade, t_sellerId trade]
              @ (case excludeParticipantId of None \<Rightarrow> [] | Some x \<Rightarrow> if x = [] then [] else [x]))) (\<lambda>eligible.
     seqH (guardH (eligible \<noteq> []) (EscrowError ''MarketArbitrationProvider: no eligible arbiter available for appeal round'')) (\<lambda>_.
       weightedPick env (appealPanel (er_lockedAmount escrow) rnd eligible))))"

definition publishD :: "string \<Rightarrow> string \<Rightarrow> unit dispute" where
  "publishD event key = dbStep ''eventBus'' (\<lambda>s. s\<lparr>dispute_bus := dispute_bus s @ [(event, key)]\<rparr>)"

definition slash :: "string \<Rightarrow> ArbiterCandidate dispute" where
  "slash who =
     seqH (findProfile who) (\<lambda>row.
     seqH (requireH row (EscrowError ''MarketArbitrationProvider.slash: no ArbiterProfile'')) (\<lambda>existing.
       let currentCollateral = ap_monetaryCollateral existing;
           forfeited = currentCollateral * SLASH_COLLATERAL_FRACTION;
           newCollateral = numeric_8 (currentCollateral - forfeited);
           newReputation = max 0 (ap_arbiterReputation existing + OVERTURNED_PENALTY)
       in seqH (updateProfile who (\<lambda>p. p\<lparr>ap_monetaryCollateral := newCollateral, ap_arbiterReputation := newReputation,
                  ap_rulingsOverturned := Suc (ap_rulingsOverturned p)\<rparr>)) (\<lambda>updated.
          seqH (publishD ''arbiter.slashed'' who) (\<lambda>_.
            ret (toCandidate updated)))))"

definition recordArbiterRuling :: "string \<Rightarrow> rat option \<Rightarrow> unit dispute" where
  "recordArbiterRuling who feeObserved =
     seqH (updateProfile who (\<lambda>p. p\<lparr>ap_rulingsTotal := Suc (ap_rulingsTotal p),
        ap_cumulativeFeesObserved := (case feeObserved of None \<Rightarrow> ap_cumulativeFeesObserved p
                                      | Some f \<Rightarrow> numeric_8 (ap_cumulativeFeesObserved p + f))\<rparr>)) (\<lambda>_. ret ())"

section \<open>Trusted list and resolver\<close>

datatype arbitration_provider = Trusted "string list" | Market

text \<open>The instance for the trusted list is made once, so its cursor is part of the state.\<close>

definition assignTrusted :: "string list \<Rightarrow> string dispute" where
  "assignTrusted arbitrators =
     seqH (readH (\<lambda>s. arbitrators ! (arbiter_cursor s mod length arbitrators))) (\<lambda>arbiterId.
     seqH (writeH (\<lambda>s. s\<lparr>arbiter_cursor := Suc (arbiter_cursor s)\<rparr>)) (\<lambda>_.
       ret arbiterId))"

definition resolveArbitrationProvider :: "service_env \<Rightarrow> EscrowType \<Rightarrow> arbitration_provider result" where
  "resolveArbitrationProvider env impl =
     (let mode = resolveArbitrationModeForImplementation impl (sv_arbitrationMode env) (sv_arbitrationOverrides env) in
      bindR (assertArbitrationPolicyCompatible impl mode) (\<lambda>_.
        if mode = market then Inr Market
        else if sv_trustedArbitrators env = [] then Inl (ValidationError ''No trusted arbitrators configured'')
        else Inr (Trusted (sv_trustedArbitrators env))))"

definition assignArbiter :: "service_env \<Rightarrow> arbitration_provider \<Rightarrow> string \<Rightarrow> string dispute" where
  "assignArbiter env provider disputeId =
     (case provider of Trusted arbitrators \<Rightarrow> assignTrusted arbitrators | Market \<Rightarrow> assignMarket env disputeId)"

definition providerForEscrow :: "service_env \<Rightarrow> string \<Rightarrow> (arbitration_provider \<times> escrow_row) dispute" where
  "providerForEscrow env escrowId =
     seqH (onSettle (requireEscrow escrowId)) (\<lambda>escrow.
     seqH (liftH (resolveArbitrationProvider env (er_type escrow))) (\<lambda>provider.
       ret (provider, escrow)))"

end
