(* ===== verification/Dispute_Service.thy ===== *)
theory Dispute_Service
  imports Arbitration_Market
begin

text \<open>
  The operations of \<^verbatim>\<open>dispute.service.ts\<close>: raising a dispute and assigning its arbiter, evidence,
  the signed ruling and its execution on the two kinds of escrow, appeals, and the advisory
  automatic resolution with its sweep. The idempotency wrapper of evidence submission and the
  read-only listing are left out; which trade an evidence reference belongs to is a parameter.
\<close>

section \<open>Raising a dispute\<close>

definition truthy_string :: "string option \<Rightarrow> bool" where
  "truthy_string x \<longleftrightarrow> x \<noteq> None \<and> x \<noteq> Some []"

definition assertEvidenceReferenceBelongsToTrade :: "service_env \<Rightarrow> string \<Rightarrow> string \<Rightarrow> unit result" where
  "assertEvidenceReferenceBelongsToTrade env evidenceReferenceId tradeId =
     (case sv_evidenceTrade env evidenceReferenceId of
        None \<Rightarrow> Inl (NotFoundError ''EvidenceReference'' evidenceReferenceId)
      | Some t \<Rightarrow> guardR (t = Some tradeId) (ForbiddenError ''EvidenceReference does not belong to trade''))"

definition resolveEvidenceDescriptor :: "service_env \<Rightarrow> EvidenceDescriptor \<Rightarrow> string \<Rightarrow> EvidenceDescriptor result" where
  "resolveEvidenceDescriptor env descriptor tradeId =
     (let plain = descriptor\<lparr>ed_submittedBy := None, ed_submittedAt := None\<rparr> in
      if truthy_string (ed_evidenceReferenceId descriptor)
      then bindR (guardR (\<not> truthy_string (ed_uri descriptor))
                    (ValidationError ''Evidence descriptor cannot include both uri and evidenceReferenceId'')) (\<lambda>_.
           bindR (guardR (\<not> ed_externalReference descriptor)
                    (ValidationError ''Evidence descriptor cannot include both evidenceReferenceId and externalReference'')) (\<lambda>_.
           bindR (assertEvidenceReferenceBelongsToTrade env (the (ed_evidenceReferenceId descriptor)) tradeId) (\<lambda>_.
             Inr (plain\<lparr>ed_uri := None\<rparr>))))
      else bindR (guardR (truthy_string (ed_uri descriptor) \<longrightarrow> ed_externalReference descriptor)
                    (ValidationError ''a raw uri alone is not production-eligible'')) (\<lambda>_.
           bindR (guardR (ed_externalReference descriptor \<longrightarrow> truthy_string (ed_uri descriptor))
                    (ValidationError ''externalReference: true requires a uri'')) (\<lambda>_.
             Inr (plain\<lparr>ed_evidenceReferenceId := None\<rparr>))))"

fun resolve_evidence :: "service_env \<Rightarrow> string \<Rightarrow> EvidenceDescriptor list \<Rightarrow> EvidenceDescriptor list result" where
  "resolve_evidence env tradeId [] = Inr []"
| "resolve_evidence env tradeId (x # xs) =
     bindR (resolveEvidenceDescriptor env x tradeId) (\<lambda>y. bindR (resolve_evidence env tradeId xs) (\<lambda>ys. Inr (y # ys)))"

definition findCommittedArbiterId :: "string \<Rightarrow> string option dispute" where
  "findCommittedArbiterId escrowId =
     readH (\<lambda>s. map_option (\<lambda>k. k_participantId (snd k))
       (find (\<lambda>k. fst k = escrowId \<and> k_role (snd k) = key_role.arbiter) (participant_keys (settlement s))))"

text \<open>\<^verbatim>\<open>create\<close> with the unique index on the trade, and \<^verbatim>\<open>update\<close> by id.\<close>

definition createDispute :: "service_env \<Rightarrow> string \<Rightarrow> string \<Rightarrow> string \<Rightarrow> string \<Rightarrow> EvidenceDescriptor list \<Rightarrow> dispute_row dispute" where
  "createDispute env tradeId escrowId openedBy reason ev =
     seqH (readH (\<lambda>s. list_ex (\<lambda>d. d_tradeId d = tradeId) (dispute_rows s))) (\<lambda>dup.
     seqH (guardH (\<not> dup) (DatabaseError ''P2002'')) (\<lambda>_.
     seqH (readH (\<lambda>s. s_uuid (sv_settle env) (draws (settlement s)))) (\<lambda>i.
       let d = \<lparr>d_tradeId = tradeId, d_arbiterId = None, d_id = i, d_escrowId = escrowId, d_openedBy = openedBy,
                d_reason = reason, d_evidence = ev, d_status = OPENED, d_ruling = None, d_resolvedAt = None, d_appealRound = 0,
                d_previousRuling = None, d_previousArbiterId = None, d_autoRecommendation = None, d_autoConfidence = None,
                d_autoReasoning = None, d_autoDeadline = None, d_authoritySignature = None, d_authorityIssuedAt = None,
                d_authorityBuyerBps = None\<rparr>
       in seqH (dbStep ''dispute'' (\<lambda>s. set_disputes (dispute_rows s @ [d]) s)) (\<lambda>_.
          seqH (onSettle (writeH (\<lambda>b. b\<lparr>draws := Suc (draws b)\<rparr>))) (\<lambda>_. ret d)))))"

definition updateDispute :: "string \<Rightarrow> (dispute_row \<Rightarrow> dispute_row) \<Rightarrow> dispute_row dispute" where
  "updateDispute i f =
     seqH (updateManyDisputes (\<lambda>d. d_id d = i) f) (\<lambda>n.
     seqH (guardH (n \<noteq> 0) (DatabaseError ''P2025'')) (\<lambda>_.
     seqH (findDisputeById i) (\<lambda>row. requireH row (DatabaseError ''P2025''))))"

definition isParty :: "string \<Rightarrow> trade_row \<Rightarrow> bool" where
  "isParty who trade \<longleftrightarrow> who = t_buyerId trade \<or> who = t_sellerId trade"

definition raiseDispute ::
    "service_env \<Rightarrow> string \<Rightarrow> string \<Rightarrow> string \<Rightarrow> EvidenceDescriptor list \<Rightarrow> dispute_row dispute" where
  "raiseDispute env tradeId raisedBy reason ev =
     seqH (onSettle (requireTrade tradeId)) (\<lambda>trade.
     seqH (requireH (if truthy_string (t_escrowId trade) then t_escrowId trade else None)
             (ValidationError ''Trade has no escrow to dispute'')) (\<lambda>escrowId.
     seqH (guardH (isParty raisedBy trade) (ForbiddenError ''not a party to trade'')) (\<lambda>_.
     seqH (liftH (resolve_evidence env tradeId ev)) (\<lambda>resolvedEvidence.
     seqH (onSettle (openDispute (sv_settle env) escrowId raisedBy reason)) (\<lambda>_.
     seqH (catchH (createDispute env tradeId escrowId raisedBy reason resolvedEvidence)
             (\<lambda>e. if e = DatabaseError ''P2002''
                  then throw (ValidationError ''A dispute has already been raised for trade'') else throw e)) (\<lambda>d.
     seqH (providerForEscrow env escrowId) (\<lambda>(provider, _).
     seqH (findCommittedArbiterId escrowId) (\<lambda>committed.
     seqH (case committed of Some a \<Rightarrow> ret a | None \<Rightarrow> assignArbiter env provider (d_id d)) (\<lambda>arbiterId.
     seqH (updateDispute (d_id d) (\<lambda>x. x\<lparr>d_arbiterId := Some arbiterId\<rparr>)) (\<lambda>updated.
     seqH (publishD ''dispute.opened'' tradeId) (\<lambda>_.
       ret updated)))))))))))"

definition initiateExpiryRecovery :: "service_env \<Rightarrow> string \<Rightarrow> string \<Rightarrow> dispute_row dispute" where
  "initiateExpiryRecovery env escrowId raisedBy =
     seqH (onSettle (requireEscrow escrowId)) (\<lambda>escrow.
     seqH (guardH (er_status escrow = EXPIRED) (ValidationError ''Escrow is not in EXPIRED status'')) (\<lambda>_.
     seqH (onSettle (requireTrade (er_tradeId escrow))) (\<lambda>trade.
     seqH (guardH (isPartyOrAgent raisedBy (t_sellerId trade)) (ForbiddenError ''not the seller of trade'')) (\<lambda>_.
       raiseDispute env (er_tradeId escrow) raisedBy ''Escrow timelock expired with no cooperative resolution'' []))))"

definition requireDispute :: "string \<Rightarrow> dispute_row dispute" where
  "requireDispute disputeId =
     seqH (findDisputeById disputeId) (\<lambda>row. requireH row (NotFoundError ''Dispute'' disputeId))"

section \<open>Rulings\<close>

text \<open>Undoing a claimed ruling: only the generation that was claimed is touched.\<close>

definition revertRuling :: "dispute_row \<Rightarrow> AuthorityDecisionPayload \<Rightarrow> string \<Rightarrow> nat \<Rightarrow> unit dispute" where
  "revertRuling d p authoritySignature appealRound =
     seqH (transactionD (updateManyDisputes
       (\<lambda>x. d_id x = d_id d \<and> d_status x = RESOLVED \<and> d_ruling x = Some (pl_outcome p)
            \<and> d_arbiterId x = Some (pl_authorityId p) \<and> d_appealRound x = appealRound
            \<and> d_authoritySignature x = Some authoritySignature)
       (\<lambda>x. x\<lparr>d_status := d_status d, d_ruling := None, d_resolvedAt := None, d_authoritySignature := None,
              d_authorityIssuedAt := None, d_authorityBuyerBps := None\<rparr>))) (\<lambda>_. ret ())"

definition claimedRow :: "service_env \<Rightarrow> dispute_row \<Rightarrow> AuthorityDecisionPayload \<Rightarrow> string \<Rightarrow> dispute_row dispute" where
  "claimedRow env d p authoritySignature =
     transactionD
       (seqH (claimRuling (sv_dispute env) (d_id d) p authoritySignature) (\<lambda>count.
        seqH (guardH (count \<noteq> 0) (ValidationError ''Dispute is no longer authorized for a ruling'')) (\<lambda>_.
          requireDispute (d_id d))))"

definition executeRuling :: "service_env \<Rightarrow> dispute_row \<Rightarrow> AuthorityDecisionPayload \<Rightarrow> rat option \<Rightarrow> unit dispute" where
  "executeRuling env d p splitBuyerBps =
     (let who = pl_authorityId p; i = d_escrowId d; senv = sv_settle env; denv = sv_dispute env in
      seqH (onSettle (requireEscrow i)) (\<lambda>escrow.
        let needsSignatureCollection = isSignatureCollectionType (er_type escrow) in
        case pl_outcome p of
          RELEASE \<Rightarrow>
            if needsSignatureCollection then seqH (initiateRelease denv i None who) (\<lambda>_. ret ())
            else seqH (onSettle (releaseFunds senv i None who)) (\<lambda>_. ret ())
        | REFUND \<Rightarrow>
            if needsSignatureCollection then seqH (initiateRefund denv i who None) (\<lambda>_. ret ())
            else seqH (onSettle (refundFunds senv i who)) (\<lambda>_. ret ())
        | SPLIT_RULING \<Rightarrow>
            seqH (requireH splitBuyerBps (ValidationError ''SPLIT requires splitBuyerBps'')) (\<lambda>bps.
            if needsSignatureCollection then seqH (initiateSplit denv i None None bps who) (\<lambda>_. ret ())
            else seqH (onSettle (splitFunds senv i None None bps who)) (\<lambda>_. ret ()))))"

definition applyRuling ::
    "service_env \<Rightarrow> dispute_row \<Rightarrow> AuthorityDecisionPayload \<Rightarrow> rat option \<Rightarrow> string \<Rightarrow> dispute_row dispute" where
  "applyRuling env d p splitBuyerBps authoritySignature =
     seqH (claimedRow env d p authoritySignature) (\<lambda>updated.
     seqH (catchH (executeRuling env d p splitBuyerBps)
             (\<lambda>err. seqH (revertRuling d p authoritySignature (d_appealRound updated)) (\<lambda>_. throw err))) (\<lambda>_.
     seqH (publishD ''dispute.resolved'' (d_tradeId d)) (\<lambda>_.
       ret updated)))"

definition dispatchRuling ::
    "service_env \<Rightarrow> dispute_row \<Rightarrow> AuthorityDecisionPayload \<Rightarrow> BeneficiaryDestination list \<Rightarrow> string \<Rightarrow> string \<Rightarrow> unit dispute" where
  "dispatchRuling env d p destinations buyerId sellerId =
     (let denv = sv_dispute env; i = d_escrowId d; who = pl_authorityId p;
          buyerDestination = destination_of destinations buyerId; sellerDestination = destination_of destinations sellerId in
      seqH (assertDisputeDispatchEligible i (d_appealRound d)) (\<lambda>rec.
      seqH (case pl_outcome p of
              RELEASE \<Rightarrow> initiateRelease denv i buyerDestination who
            | REFUND \<Rightarrow> initiateRefund denv i who sellerDestination
            | SPLIT_RULING \<Rightarrow> initiateSplit denv i buyerDestination sellerDestination
                (case pl_buyerBps p of Some (Num x) \<Rightarrow> x | _ \<Rightarrow> 0) who) (\<lambda>pending.
        catchH (seqH (requireH (tr_outcome rec) (GenericError ''Cannot read properties of undefined'')) (\<lambda>outcome.
                  liftH (assertTranslationMatchesOutcome (de_cost denv) (de_decodePsbt denv) (pt_unsignedPsbtBase64 pending) outcome
                           (pt_minerFeeSats pending))))
          (\<lambda>guardErr. seqH (dbStep ''escrowPendingTransaction''
               (\<lambda>s. s\<lparr>pending_txs := filter (\<lambda>q. pt_escrowId q \<noteq> i) (pending_txs s)\<rparr>)) (\<lambda>_. throw guardErr)))))"

definition applyRulingCoreAuthoritative ::
    "service_env \<Rightarrow> dispute_row \<Rightarrow> AuthorityDecisionPayload \<Rightarrow> string \<Rightarrow> string \<Rightarrow> string \<Rightarrow> string \<Rightarrow> rat \<Rightarrow> AssetType \<Rightarrow> dispute_row option dispute" where
  "applyRulingCoreAuthoritative env d p authoritySignature publicKey buyerId sellerId lockedAmount asset =
     (let totalUnits = show_int (to_fixed_0 (s_round (sv_settle env) (lockedAmount * 100000000))) in
      seqH (commitAuthoritativeDisputeRuling (sv_dispute env) d p authoritySignature publicKey totalUnits asset buyerId sellerId) (\<lambda>res.
        case res of
          NotAttributed \<Rightarrow> throw (ForbiddenError ''Authority decision signature does not verify'')
        | DisputeStateLostRace \<Rightarrow> throw (ValidationError ''Dispute is already resolved'')
        | Committed destinations \<Rightarrow>
            seqH (catchH (dispatchRuling env d p destinations buyerId sellerId)
                    (\<lambda>err. seqH (revertRuling d p authoritySignature (d_appealRound d)) (\<lambda>_.
                           seqH (revertDisputeRulingRecord (d_escrowId d) (d_appealRound d)) (\<lambda>_. throw err)))) (\<lambda>_.
            seqH (publishD ''dispute.resolved'' (d_tradeId d)) (\<lambda>_.
              findDisputeById (d_id d)))))"

definition settleAppealFees :: "string \<Rightarrow> nat \<Rightarrow> string \<Rightarrow> unit dispute" where
  "settleAppealFees disputeId appealRound outcome =
     seqH (readH (\<lambda>s. clock (settlement s))) (\<lambda>now.
       dbStep ''disputeAppealFee'' (\<lambda>s. s\<lparr>appeal_fees :=
         map (\<lambda>f. if af_disputeId f = disputeId \<and> af_appealRound f = appealRound \<and> af_outcome f = None
                  then f\<lparr>af_outcome := Some outcome, af_settledAt := Some now\<rparr> else f) (appeal_fees s)\<rparr>))"

definition finalizeResolveDispute :: "service_env \<Rightarrow> dispute_row \<Rightarrow> string \<Rightarrow> ArbitrationRuling \<Rightarrow> unit dispute" where
  "finalizeResolveDispute env d arbiterId ruling =
     (let overturned = d_previousRuling d \<noteq> None \<and> d_previousRuling d \<noteq> Some ruling in
      seqH (providerForEscrow env (d_escrowId d)) (\<lambda>(provider, escrow).
      seqH (if provider = Market then recordArbiterRuling arbiterId (er_feeCharged escrow) else ret ()) (\<lambda>_.
      seqH (case d_previousArbiterId d of
              None \<Rightarrow> ret ()
            | Some previous \<Rightarrow>
                if overturned \<and> previous \<noteq> [] \<and> provider = Market then seqH (slash previous) (\<lambda>_. ret ()) else ret ()) (\<lambda>_.
        if d_appealRound d > 0
        then settleAppealFees (d_id d) (d_appealRound d) (if overturned then ''REFUNDED'' else ''FORFEITED'')
        else ret ()))))"

definition decision_payload :: "dispute_row \<Rightarrow> string \<Rightarrow> ArbitrationRuling \<Rightarrow> rat option \<Rightarrow> string \<Rightarrow> AuthorityDecisionPayload" where
  "decision_payload d arbiterId ruling splitBuyerBps issuedAt =
     \<lparr>pl_disputeId = d_id d, pl_escrowId = d_escrowId d, pl_appealRound = d_appealRound d, pl_authorityId = arbiterId,
      pl_outcome = ruling, pl_buyerBps = (if ruling = SPLIT_RULING then map_option Num splitBuyerBps else None),
      pl_issuedAt = issuedAt\<rparr>"

definition resolveDispute ::
    "service_env \<Rightarrow> string \<Rightarrow> string \<Rightarrow> ArbitrationRuling \<Rightarrow> rat option \<Rightarrow> string \<Rightarrow> string \<Rightarrow> dispute_row option dispute" where
  "resolveDispute env disputeId arbiterId ruling splitBuyerBps authoritySignature authorityIssuedAt =
     seqH (requireDispute disputeId) (\<lambda>d.
     seqH (guardH (d_status d \<noteq> RESOLVED) (ValidationError ''Dispute is already resolved'')) (\<lambda>_.
     seqH (guardH (d_arbiterId d = Some arbiterId) (ForbiddenError ''not the arbiter assigned to dispute'')) (\<lambda>_.
     seqH (guardH (ruling = SPLIT_RULING \<longrightarrow> splitBuyerBps \<noteq> None)
             (ValidationError ''splitBuyerBps is required when ruling is SPLIT'')) (\<lambda>_.
     seqH (readH (\<lambda>s. users s arbiterId)) (\<lambda>user.
     seqH (requireH user (NotFoundError ''User'' arbiterId)) (\<lambda>publicKey.
       let p = decision_payload d arbiterId ruling splitBuyerBps authorityIssuedAt in
     seqH (liftH (verifyAuthorityDecisionSignature (s_sha256 (sv_settle env)) (de_verify (sv_dispute env)) p
                    authoritySignature publicKey)) (\<lambda>sigValid.
     seqH (guardH sigValid (ForbiddenError ''Authority decision signature does not verify'')) (\<lambda>_.
     seqH (liftH (assertExecutionMatchesAuthorization p p)) (\<lambda>_.
     seqH (onSettle (requireEscrow (d_escrowId d))) (\<lambda>escrow.
     seqH (if er_type escrow = MULTISIG
           then seqH (onSettle (requireTrade (d_tradeId d))) (\<lambda>trade.
                  applyRulingCoreAuthoritative env d p authoritySignature publicKey (t_buyerId trade) (t_sellerId trade)
                    (er_lockedAmount escrow) (er_asset escrow))
           else seqH (applyRuling env d p splitBuyerBps authoritySignature) (\<lambda>row. ret (Some row))) (\<lambda>updated.
     seqH (finalizeResolveDispute env d arbiterId ruling) (\<lambda>_.
       ret updated))))))))))))"

section \<open>Appeals\<close>

definition APPEAL_FEE_MULTIPLIER :: rat where "APPEAL_FEE_MULTIPLIER = 2"

definition claimAppeal :: "dispute_row \<Rightarrow> string \<Rightarrow> string \<Rightarrow> rat \<Rightarrow> AssetType \<Rightarrow> dispute_row dispute" where
  "claimAppeal d newArbiterId requestedBy fee asset =
     transactionD
       (seqH (updateManyDisputes (\<lambda>x. d_id x = d_id d \<and> d_status x = RESOLVED \<and> d_appealRound x = d_appealRound d)
                (\<lambda>x. x\<lparr>d_status := APPEALED, d_appealRound := Suc (d_appealRound d), d_previousRuling := d_ruling d,
                       d_previousArbiterId := d_arbiterId d, d_arbiterId := Some newArbiterId, d_ruling := None,
                       d_resolvedAt := None\<rparr>)) (\<lambda>count.
        seqH (guardH (count \<noteq> 0) (ValidationError ''Dispute can no longer be appealed'')) (\<lambda>_.
        seqH (readH (\<lambda>s. list_ex (\<lambda>f. af_disputeId f = d_id d \<and> af_appealRound f = Suc (d_appealRound d)) (appeal_fees s))) (\<lambda>dup.
        seqH (guardH (\<not> dup) (DatabaseError ''P2002'')) (\<lambda>_.
        seqH (dbStep ''disputeAppealFee'' (\<lambda>s. s\<lparr>appeal_fees := appeal_fees s @
                [\<lparr>af_disputeId = d_id d, af_appealRound = Suc (d_appealRound d), af_requestedBy = requestedBy,
                  af_amount = fee, af_asset = asset, af_outcome = None, af_settledAt = None\<rparr>]\<rparr>)) (\<lambda>_.
          requireDispute (d_id d)))))))"

definition appeal :: "service_env \<Rightarrow> string \<Rightarrow> string \<Rightarrow> (dispute_row \<times> rat) dispute" where
  "appeal env disputeId requestedBy =
     seqH (requireDispute disputeId) (\<lambda>d.
     seqH (guardH (d_status d = RESOLVED) (ValidationError ''only a RESOLVED dispute can be appealed'')) (\<lambda>_.
     seqH (onSettle (requireTrade (d_tradeId d))) (\<lambda>trade.
     seqH (guardH (isParty requestedBy trade) (ForbiddenError ''not a party to trade'')) (\<lambda>_.
     seqH (findCommittedArbiterId (d_escrowId d)) (\<lambda>committed.
     seqH (guardH (\<not> truthy_string committed) (ValidationError ''escrow has an immutable, script-committed arbiter identity'')) (\<lambda>_.
     seqH (providerForEscrow env (d_escrowId d)) (\<lambda>(provider, escrow).
     seqH (guardH (provider = Market) (ValidationError ''Appeals require ARBITRATION_MODE=market'')) (\<lambda>_.
     seqH (assignAppealPanel env disputeId (Suc (d_appealRound d)) (d_arbiterId d)) (\<lambda>newArbiterId.
       let baseFee = (case er_feeCharged escrow of None \<Rightarrow> 0 | Some f \<Rightarrow> f);
           appealFeeRequired = numeric_8 (baseFee * APPEAL_FEE_MULTIPLIER) in
     seqH (claimAppeal d newArbiterId requestedBy appealFeeRequired (er_asset escrow)) (\<lambda>updated.
     seqH (publishD ''dispute.appealed'' (d_tradeId d)) (\<lambda>_.
       ret (updated, appealFeeRequired))))))))))))"

section \<open>Evidence and automatic resolution\<close>

text \<open>The checks and the data of the update, and the update itself, which names the row by its id only.\<close>

definition checkEvidence :: "service_env \<Rightarrow> string \<Rightarrow> string \<Rightarrow> EvidenceDescriptor \<Rightarrow> EvidenceDescriptor list dispute" where
  "checkEvidence env disputeId submittedBy descriptor =
     seqH (requireDispute disputeId) (\<lambda>d.
     seqH (onSettle (requireTrade (d_tradeId d))) (\<lambda>trade.
     seqH (guardH (isParty submittedBy trade) (ForbiddenError ''not a party to trade'')) (\<lambda>_.
     seqH (guardH (d_status d = OPENED \<or> d_status d = EVIDENCE_SUBMITTED) (ValidationError ''Dispute cannot accept new evidence'')) (\<lambda>_.
     seqH (liftH (resolveEvidenceDescriptor env descriptor (d_tradeId d))) (\<lambda>resolved.
     seqH (readH (\<lambda>s. clock (settlement s))) (\<lambda>now.
       ret (d_evidence d @ [resolved\<lparr>ed_submittedBy := Some submittedBy, ed_submittedAt := Some now\<rparr>])))))))"

definition storeEvidence :: "string \<Rightarrow> EvidenceDescriptor list \<Rightarrow> dispute_row dispute" where
  "storeEvidence disputeId ev = updateDispute disputeId (\<lambda>x. x\<lparr>d_evidence := ev, d_status := EVIDENCE_SUBMITTED\<rparr>)"

definition persistEvidence :: "service_env \<Rightarrow> string \<Rightarrow> string \<Rightarrow> EvidenceDescriptor \<Rightarrow> dispute_row dispute" where
  "persistEvidence env disputeId submittedBy descriptor =
     seqH (checkEvidence env disputeId submittedBy descriptor) (storeEvidence disputeId)"

definition postPersistEvidence :: "dispute_row \<Rightarrow> unit dispute" where
  "postPersistEvidence d = publishD ''dispute.evidence_submitted'' (d_tradeId d)"

definition time_clip :: "rat \<Rightarrow> int" where
  "time_clip x = (if 0 \<le> x then \<lfloor>x\<rfloor> else \<lceil>x\<rceil>)"

definition proposeAutoResolution :: "service_env \<Rightarrow> string \<Rightarrow> ArbitrationRuling \<Rightarrow> rat \<Rightarrow> string \<Rightarrow> dispute_row option dispute" where
  "proposeAutoResolution env disputeId recommendation confidence reasoning =
     seqH (requireDispute disputeId) (\<lambda>d.
     seqH (readH (\<lambda>s. time_clip (of_int (clock (settlement s)) + sv_autoWindowHours env * 3600 * 1000))) (\<lambda>deadline.
     seqH (updateManyDisputes (\<lambda>x. d_id x = disputeId \<and> d_status x \<in> {OPENED, EVIDENCE_SUBMITTED} \<and> d_ruling x = None)
             (\<lambda>x. x\<lparr>d_status := AUTO_PROPOSED, d_autoRecommendation := Some recommendation, d_autoConfidence := Some confidence,
                    d_autoReasoning := Some reasoning, d_autoDeadline := Some deadline\<rparr>)) (\<lambda>count.
       if count = 0 then ret None
       else seqH (publishD ''dispute.auto_resolution_proposed'' (d_tradeId d)) (\<lambda>_.
              findDisputeById disputeId))))"

definition contestAutoResolution :: "service_env \<Rightarrow> string \<Rightarrow> string \<Rightarrow> dispute_row dispute" where
  "contestAutoResolution env disputeId contestedBy =
     seqH (requireDispute disputeId) (\<lambda>d.
     seqH (onSettle (requireTrade (d_tradeId d))) (\<lambda>trade.
     seqH (guardH (isParty contestedBy trade) (ForbiddenError ''not a party to trade'')) (\<lambda>_.
     seqH (guardH (d_status d = AUTO_PROPOSED) (ValidationError ''no pending automated resolution to contest'')) (\<lambda>_.
     seqH (readH (\<lambda>s. clock (settlement s))) (\<lambda>now.
     seqH (guardH (case d_autoDeadline d of None \<Rightarrow> True | Some t \<Rightarrow> now \<le> t) (ValidationError ''contest window has already closed'')) (\<lambda>_.
     seqH (updateDispute disputeId (\<lambda>x. x\<lparr>d_status := EVIDENCE_SUBMITTED, d_autoRecommendation := None, d_autoConfidence := None,
             d_autoReasoning := None, d_autoDeadline := None\<rparr>)) (\<lambda>updated.
     seqH (publishD ''dispute.auto_resolution_contested'' (d_tradeId d)) (\<lambda>_.
       ret updated))))))))"

definition revert_one :: "dispute_row \<Rightarrow> string list \<times> (string \<times> sails_error) list \<Rightarrow> (string list \<times> (string \<times> sails_error) list) dispute" where
  "revert_one d rep =
     catchH
       (seqH (updateDispute (d_id d) (\<lambda>x. x\<lparr>d_status := EVIDENCE_SUBMITTED, d_autoDeadline := None\<rparr>)) (\<lambda>_.
        seqH (publishD ''dispute.auto_resolution_contested'' (d_tradeId d)) (\<lambda>_.
          ret (fst rep @ [d_id d], snd rep))))
       (\<lambda>err. ret (fst rep, snd rep @ [(d_id d, err)]))"

fun revert_all :: "dispute_row list \<Rightarrow> string list \<times> (string \<times> sails_error) list \<Rightarrow> (string list \<times> (string \<times> sails_error) list) dispute" where
  "revert_all [] rep = ret rep"
| "revert_all (d # ds) rep = seqH (revert_one d rep) (revert_all ds)"

definition sweepExpiredAutoResolutions :: "(string list \<times> (string \<times> sails_error) list) dispute" where
  "sweepExpiredAutoResolutions =
     seqH (readH (\<lambda>s. filter (\<lambda>d. d_status d = AUTO_PROPOSED
             \<and> (case d_autoDeadline d of None \<Rightarrow> False | Some t \<Rightarrow> t < clock (settlement s))) (dispute_rows s))) (\<lambda>expired.
       revert_all expired ([], []))"

end
