(* ===== verification/Dispute_Outcomes.thy ===== *)
theory Dispute_Outcomes
  imports Dispute_Service
begin

text \<open>
  What the dispute service guarantees: who may rule and when, which arbiters the market draws, and
  two defects, an appeal that no ruling can ever decide and an evidence submission that takes a
  ruling back.
\<close>

section \<open>Rows by id\<close>

definition row :: "string \<Rightarrow> dispute_state \<Rightarrow> dispute_row option" where
  "row i s = find (\<lambda>d. d_id d = i) (dispute_rows s)"

lemma find_map_if:
  assumes "\<And>x. d_id (f x) = d_id x"
  shows "find (\<lambda>d. d_id d = i) (map (\<lambda>d. if P d then f d else d) xs)
     = map_option (\<lambda>d. if P d then f d else d) (find (\<lambda>d. d_id d = i) xs)"
  using assms by (induction xs) auto

lemma row_update_rows:
  "(\<And>x. d_id (f x) = d_id x) \<Longrightarrow> row i (update_rows P f s) = map_option (\<lambda>d. if P d then f d else d) (row i s)"
  by (simp add: row_def find_map_if)

lemma row_SomeD: "row i s = Some d \<Longrightarrow> d \<in> set (dispute_rows s) \<and> d_id d = i"
  by (auto simp: row_def dest: find_SomeD)

lemma filter_row: "row i s = Some d \<Longrightarrow> P d \<Longrightarrow> filter P (dispute_rows s) \<noteq> []"
  by (auto simp: filter_empty_conv dest: row_SomeD)

lemma wpI_requireDispute:
  "\<lbrakk>E (NotFoundError ''Dispute'' i) s; \<And>d. row i s = Some d \<Longrightarrow> Q d s\<rbrakk> \<Longrightarrow> wpH (requireDispute i) Q E s"
  by (simp add: requireDispute_def findDisputeById_def wp_eqs row_def split: option.split)

text \<open>With a working database an update of rows always happens.\<close>

lemma wpI_updateMany:
  assumes "faults (settlement s) = []" and "Q (length (filter P (dispute_rows s))) (update_rows P f s)"
  shows "wpH (updateManyDisputes P f) Q E s"
  using assms by (simp add: wp_updateManyDisputes Let_def)

lemma wpI_dbStep: "faults (settlement s) = [] \<Longrightarrow> Q () (f s) \<Longrightarrow> wpH (dbStep tag f) Q E s"
  by (simp add: wp_dbStep)

section \<open>Appeals after a direct payout\<close>

definition settled_escrow :: "string \<Rightarrow> dispute_state \<Rightarrow> bool" where
  "settled_escrow i s \<longleftrightarrow> (\<exists>r. escrows (settlement s) i = Some r \<and> er_status r \<in> set TERMINAL_ESCROW_STATUSES
     \<and> \<not> isSignatureCollectionType (er_type r))"

lemma settled_escrow_update [simp]: "settled_escrow i (update_rows P f s) = settled_escrow i s"
  by (simp add: settled_escrow_def update_rows_def)

lemma appeal_fees_update [simp]: "appeal_fees (update_rows P f s) = appeal_fees s"
  by (simp add: update_rows_def)

lemma ruled_sel [simp]:
  "d_id (ruled p sig x now d) = d_id d" "d_status (ruled p sig x now d) = RESOLVED" "d_ruling (ruled p sig x now d) = Some (pl_outcome p)"
  "d_arbiterId (ruled p sig x now d) = d_arbiterId d" "d_appealRound (ruled p sig x now d) = d_appealRound d"
  "d_authoritySignature (ruled p sig x now d) = Some sig" "d_escrowId (ruled p sig x now d) = d_escrowId d"
  by (simp_all add: ruled_def)

lemma settled_not_ready:
  "settled_escrow i s \<Longrightarrow> to \<in> {COMPLETED, REFUNDED, EscrowStatus.SPLIT} \<Longrightarrow> \<not> payout_ready senv i sc to who (settlement s)"
  by (auto simp: settled_escrow_def payout_ready_def TERMINAL_ESCROW_STATUSES_def)

lemma onSettle_refused: "m (settlement s) = (Inl e, settlement s) \<Longrightarrow> wpH (onSettle m) Q (\<lambda>_ s'. s' = s) s"
  by (subst wp_onSettle) (simp add: wpH_def settlement_def)

lemma executeRuling_refused:
  assumes "settled_escrow (d_escrowId d) s"
  shows "wpH (executeRuling env d p bps) (\<lambda>_ _. False) (\<lambda>_ s'. s' = s) s"
proof -
  obtain r where r: "escrows (settlement s) (d_escrowId d) = Some r" "\<not> isSignatureCollectionType (er_type r)"
    using assms by (auto simp: settled_escrow_def)
  note never = settled_not_ready [OF assms]
  have "\<not> releasable (sv_settle env) (d_escrowId d) None who (settlement s)" for who
    using never by (simp add: releasable_def)
  from release_refused [OF this] have 1: "wpH (onSettle (releaseFunds (sv_settle env) (d_escrowId d) None who)) Q (\<lambda>_ s'. s' = s) s" for who Q
    using onSettle_refused by blast
  have 2: "wpH (onSettle (refundFunds (sv_settle env) (d_escrowId d) who)) Q (\<lambda>_ s'. s' = s) s" for who Q
    using refund_refused [OF never] onSettle_refused by blast
  have "\<not> splittable (sv_settle env) (d_escrowId d) None None x who (settlement s)" for who x
    using never by (simp add: splittable_def)
  from split_refused [OF this] have 3: "wpH (onSettle (splitFunds (sv_settle env) (d_escrowId d) None None x who)) Q (\<lambda>_ s'. s' = s) s" for who x Q
    using onSettle_refused by blast
  show ?thesis
    unfolding executeRuling_def Let_def wp_seqH
    by (rule wpI_requireEscrowD) (use r 1 2 3 in \<open>auto simp: wp_seqH wp_requireH split: ArbitrationRuling.split option.split\<close>)
qed

text \<open>An appealed dispute whose escrow has already been paid out.\<close>

definition appeal_pending :: "string \<Rightarrow> nat \<Rightarrow> dispute_state \<Rightarrow> bool" where
  "appeal_pending i n s \<longleftrightarrow> faults (settlement s) = []
     \<and> (\<exists>d. row i s = Some d \<and> d_status d = APPEALED \<and> d_ruling d = None \<and> d_appealRound d = n \<and> settled_escrow (d_escrowId d) s)
     \<and> (\<exists>f \<in> set (appeal_fees s). af_disputeId f = i \<and> af_appealRound f = n \<and> af_outcome f = None)"

lemma appeal_pending_bus [simp]: "appeal_pending i n (s\<lparr>dispute_bus := b\<rparr>) = appeal_pending i n s"
  by (simp add: appeal_pending_def row_def settled_escrow_def settlement_def)

lemma appeal_pending_update:
  assumes "appeal_pending i n s" and "\<And>x. d_id (f x) = d_id x" and "\<And>x. d_status x = APPEALED \<Longrightarrow> \<not> P x"
  shows "appeal_pending i n (update_rows P f s)"
  using assms by (auto simp: appeal_pending_def row_update_rows)

lemma wp_applyRuling_settled:
  assumes "appeal_pending i n s" and "row i s = Some d" and "d_arbiterId d = Some (pl_authorityId p)"
  shows "wpH (applyRuling env d p bps sig) (\<lambda>_ _. False) (\<lambda>_. appeal_pending i n) s"
proof -
  have d: "d_id d = i" "d_status d = APPEALED" "d_ruling d = None" "d_appealRound d = n" "settled_escrow (d_escrowId d) s"
    and ok: "faults (settlement s) = []"
    using assms row_SomeD by (auto simp: appeal_pending_def)
  define t where "t issuedAt = update_rows (may_rule i (pl_authorityId p)) (ruled p sig issuedAt (clock (settlement s))) s" for issuedAt
  have t: "faults (settlement (t x)) = []" "row i (t x) = Some (ruled p sig x (clock (settlement s)) d)"
    "settled_escrow (d_escrowId d) (t x)" "appeal_fees (t x) = appeal_fees s" for x
    using d ok assms(2,3) by (simp_all add: t_def row_update_rows may_rule_def)
  have some: "filter (may_rule i (pl_authorityId p)) (dispute_rows s) \<noteq> []"
    using filter_row [OF assms(2)] d(1,2) assms(3) by (simp add: may_rule_def)
  have revert: "wpH (revertRuling d p sig n) (\<lambda>_. appeal_pending i n) (\<lambda>_. appeal_pending i n) (t x)" for x
    unfolding revertRuling_def
    by (intro wpI_seqH wpI_transactionD wpI_updateMany wpI_ret)
      (use t d assms(1,3) in \<open>auto simp: appeal_pending_def row_update_rows\<close>)
  have "wpH (catchH (executeRuling env d p bps) (\<lambda>err. seqH (revertRuling d p sig n) (\<lambda>_. throw err)))
      Q (\<lambda>_. appeal_pending i n) (t x)" for x Q
    unfolding wp_catchH
    by (rule wpH_mono [OF executeRuling_refused [OF t(3)]]) (simp_all add: wp_seqH wp_throw revert)
  then show ?thesis
    unfolding applyRuling_def claimedRow_def wp_seqH wp_transactionD wp_claimRuling
    using assms(1) ok some t d
    by (auto simp: wp_updateManyDisputes wp_seqH wp_guardH requireDispute_def findDisputeById_def wp_requireH wp_readH
        t_def [symmetric] row_def [symmetric] with_faults_same split: option.split)
qed

lemma wp_resolveDispute_settled:
  assumes "appeal_pending i n s"
  shows "wpH (resolveDispute env i a ruling bps sig issuedAt) (\<lambda>_ _. False) (\<lambda>_. appeal_pending i n) s"
proof -
  have ms: "isSignatureCollectionType MULTISIG" by (simp add: isSignatureCollectionType_def SIGNATURE_COLLECTION_PROVIDERS_def)
  have applied: "wpH (applyRuling env d (decision_payload d a ruling bps issuedAt) bps sig) Q (\<lambda>_. appeal_pending i n) s"
    if "row i s = Some d" "d_arbiterId d = Some a" for d Q
    by (rule wpH_mono [OF wp_applyRuling_settled [OF assms that(1)]]) (simp_all add: decision_payload_def that(2))
  have direct: "er_type r \<noteq> MULTISIG" if "row i s = Some d" "escrows (settlement s) (d_escrowId d) = Some r" for d r
    using assms that ms by (auto simp: appeal_pending_def settled_escrow_def)
  show ?thesis
    unfolding resolveDispute_def Let_def
    by (intro wpI_seqH wpI_requireDispute wpI_guardH wpI_readH wpI_requireH wpI_liftH wpI_requireEscrowD wpI_if applied assms)
      (auto dest: direct)
qed

text \<open>Every request that the service accepts for one dispute.\<close>

datatype dispute_request =
    ReqResolve string ArbitrationRuling "rat option" string string
  | ReqAppeal string
  | ReqEvidence string EvidenceDescriptor
  | ReqPropose ArbitrationRuling rat string
  | ReqContest string

definition run_dispute_request :: "service_env \<Rightarrow> string \<Rightarrow> dispute_request \<Rightarrow> dispute_state \<Rightarrow> dispute_state" where
  "run_dispute_request env i req s =
     (case req of
        ReqResolve a ruling bps sig issuedAt \<Rightarrow> snd (resolveDispute env i a ruling bps sig issuedAt s)
      | ReqAppeal who \<Rightarrow> snd (appeal env i who s)
      | ReqEvidence who e \<Rightarrow> snd (persistEvidence env i who e s)
      | ReqPropose ruling confidence reasoning \<Rightarrow> snd (proposeAutoResolution env i ruling confidence reasoning s)
      | ReqContest who \<Rightarrow> snd (contestAutoResolution env i who s))"

lemma appeal_pending_request:
  assumes "appeal_pending i n s"
  shows "appeal_pending i n (run_dispute_request env i req s)"
proof (cases req)
  case ReqResolve
  then show ?thesis using wpH_snd [OF wpH_mono [OF wp_resolveDispute_settled [OF assms]]]
    by (simp add: run_dispute_request_def)
next
  case (ReqAppeal who)
  have "wpH (appeal env i who) (\<lambda>_. appeal_pending i n) (\<lambda>_. appeal_pending i n) s"
    unfolding appeal_def
    by (intro wpI_seqH wpI_requireDispute wpI_guardH assms) (use assms in \<open>auto simp: appeal_pending_def\<close>)
  with ReqAppeal show ?thesis using wpH_snd by (simp add: run_dispute_request_def)
next
  case (ReqEvidence who e)
  have "wpH (persistEvidence env i who e) (\<lambda>_. appeal_pending i n) (\<lambda>_. appeal_pending i n) s"
    unfolding persistEvidence_def checkEvidence_def
    by (intro wpI_seqH wpI_requireDispute wpI_guardH wpI_requireTradeD assms) (use assms in \<open>auto simp: appeal_pending_def\<close>)
  with ReqEvidence show ?thesis using wpH_snd by (simp add: run_dispute_request_def)
next
  case (ReqPropose ruling confidence reasoning)
  have ok: "faults (settlement s) = []" using assms by (simp add: appeal_pending_def)
  have "wpH (proposeAutoResolution env i ruling confidence reasoning) (\<lambda>_. appeal_pending i n) (\<lambda>_. appeal_pending i n) s"
    unfolding proposeAutoResolution_def publishD_def findDisputeById_def
    by (intro wpI_seqH wpI_requireDispute wpI_readH wpI_updateMany wpI_if wpI_ret wpI_dbStep assms ok)
      (auto intro: appeal_pending_update assms ok)
  with ReqPropose show ?thesis using wpH_snd by (simp add: run_dispute_request_def)
next
  case (ReqContest who)
  have "wpH (contestAutoResolution env i who) (\<lambda>_. appeal_pending i n) (\<lambda>_. appeal_pending i n) s"
    unfolding contestAutoResolution_def
    by (intro wpI_seqH wpI_requireDispute wpI_guardH wpI_requireTradeD assms) (use assms in \<open>auto simp: appeal_pending_def\<close>)
  with ReqContest show ?thesis using wpH_snd by (simp add: run_dispute_request_def)
qed

section \<open>The market's draw\<close>

definition redrawn :: "dispute_state \<Rightarrow> dispute_state" where
  "redrawn s = s\<lparr>rv := (rv s)\<lparr>base := (settlement s)\<lparr>draws := Suc (draws (settlement s))\<rparr>\<rparr>\<rparr>"

lemma pick_at_member: "ws \<noteq> [] \<Longrightarrow> \<exists>x. pick_at roll ws = Some x \<and> x \<in> fst ` set ws"
  by (induction roll ws rule: pick_at.induct) auto

lemma wpI_weightedPick:
  assumes "ws \<noteq> []" and "\<And>x. x \<in> fst ` set ws \<Longrightarrow> Q x (redrawn s)"
  shows "wpH (weightedPick env ws) Q E s"
proof -
  obtain x where "pick_at (sv_random env (draws (settlement s)) * sum_list (map snd ws)) ws = Some x" "x \<in> fst ` set ws"
    using pick_at_member [OF assms(1)] by blast
  then show ?thesis
    using assms(2) by (simp add: weightedPick_def drawRandom_def wp_eqs redrawn_def)
qed

text \<open>The arbiters that may decide a dispute: registered, not slashed, with stake enough, and no party.\<close>

definition may_arbitrate :: "rat \<Rightarrow> string list \<Rightarrow> arbiter_profile \<Rightarrow> bool" where
  "may_arbitrate disputeValue excluded p \<longleftrightarrow> ap_slashedAt p = None \<and> ap_participantId p \<notin> set excluded
     \<and> disputeValue * (3 / 2) \<le> ap_monetaryCollateral p + ap_arbiterReputation p / 100"

lemma eligibleFor_run:
  "eligibleFor v ex s = (Inr (map toCandidate (filter (may_arbitrate v ex) (arbiters s))), s)"
proof -
  have "filter (\<lambda>c. v * K_ELIGIBILITY \<le> ac_effectiveStake c \<and> ac_participantId c \<notin> set ex)
      (map toCandidate (filter (\<lambda>p. ap_slashedAt p = None) xs)) = map toCandidate (filter (may_arbitrate v ex) xs)" for xs
    by (induction xs)
      (auto simp: may_arbitrate_def toCandidate_def K_ELIGIBILITY_def REPUTATION_STAKE_FACTOR_def)
  then show ?thesis by (simp add: eligibleFor_def readH_def)
qed

lemma wp_eligibleFor: "wpH (eligibleFor v ex) Q E s = Q (map toCandidate (filter (may_arbitrate v ex) (arbiters s))) s"
  by (simp add: wpH_def eligibleFor_run)

lemma appealPanel_members: "fst ` set (appealPanel v n cs) \<subseteq> ac_participantId ` set cs"
  by (auto simp: appealPanel_def Let_def dest!: in_set_takeD)

lemma sort_by_Nil [simp]: "sort_by cmp xs = [] \<longleftrightarrow> xs = []"
  by (metis mset_sort_by mset_zero_iff)

lemma appealPanel_nonempty: "cs \<noteq> [] \<Longrightarrow> appealPanel v n cs \<noteq> []"
  by (simp add: appealPanel_def Let_def PANEL_SIZE_BASE_def)

definition dispute_facts :: "string \<Rightarrow> dispute_state \<Rightarrow> dispute_row \<Rightarrow> escrow_row \<Rightarrow> trade_row \<Rightarrow> bool" where
  "dispute_facts i s d r t \<longleftrightarrow> row i s = Some d \<and> escrows (settlement s) (d_escrowId d) = Some r
     \<and> trades (settlement s) (d_tradeId d) = Some t"

lemma wpI_dispute_parties:
  assumes "\<And>e. E e s" and "\<And>d r t. dispute_facts i s d r t \<Longrightarrow> Q (r, t) s"
  shows "wpH (dispute_parties i) Q E s"
  using assms
  by (auto simp: dispute_parties_def findDisputeById_def wp_eqs row_def dispute_facts_def split: option.split)

lemma wp_dispute_parties: "dispute_facts i s d r t \<Longrightarrow> wpH (dispute_parties i) Q E s = Q (r, t) s"
  by (simp add: dispute_parties_def findDisputeById_def wp_eqs row_def dispute_facts_def)

lemma wpI_marketPick:
  assumes "filter (may_arbitrate v ex) (arbiters s) \<noteq> []"
    and "\<And>p. p \<in> set (arbiters s) \<Longrightarrow> may_arbitrate v ex p \<Longrightarrow> Q (ap_participantId p) (redrawn s)"
  shows "wpH (weightedRandomPick env (map toCandidate (filter (may_arbitrate v ex) (arbiters s)))) Q E s"
  unfolding weightedRandomPick_def using assms(1) by (intro wpI_weightedPick) (auto simp: toCandidate_def intro!: assms(2))

lemma wpI_panelPick:
  assumes "filter (may_arbitrate v ex) (arbiters s) \<noteq> []"
    and "\<And>p. p \<in> set (arbiters s) \<Longrightarrow> may_arbitrate v ex p \<Longrightarrow> Q (ap_participantId p) (redrawn s)"
  shows "wpH (weightedPick env (appealPanel v n (map toCandidate (filter (may_arbitrate v ex) (arbiters s))))) Q E s"
  using appealPanel_nonempty assms(1)
  by (intro wpI_weightedPick)
    (auto dest!: subsetD [OF appealPanel_members, rotated] simp: toCandidate_def intro!: assms(2))

lemma wpI_assignAppealPanel:
  assumes "\<And>e. E e s"
    and "\<And>d r t p. dispute_facts i s d r t \<Longrightarrow> p \<in> set (arbiters s)
      \<Longrightarrow> may_arbitrate (er_lockedAmount r)
           ([t_buyerId t, t_sellerId t] @ (case prev of None \<Rightarrow> [] | Some x \<Rightarrow> if x = [] then [] else [x])) p
      \<Longrightarrow> Q (ap_participantId p) (redrawn s)"
  shows "wpH (assignAppealPanel env i n prev) Q E s"
  unfolding assignAppealPanel_def wp_seqH split_beta
  by (intro wpI_dispute_parties)
    (auto simp: wp_seqH wp_eligibleFor wp_guardH assms(1) intro!: wpI_panelPick assms(2) [simplified])

text \<open>The base case: an appeal is accepted only where the ruling was paid out directly.\<close>

lemma market_is_mock: "resolveArbitrationProvider env ty = Inr Market \<Longrightarrow> ty = MOCK"
  by (cases ty) (auto simp: resolveArbitrationProvider_def Let_def assertArbitrationPolicyCompatible_def split: if_splits)

lemma redrawn_sel [simp]:
  "row i (redrawn s) = row i s" "appeal_fees (redrawn s) = appeal_fees s" "faults (settlement (redrawn s)) = faults (settlement s)"
  "settled_escrow j (redrawn s) = settled_escrow j s"
  by (simp_all add: redrawn_def row_def settled_escrow_def settlement_def)

definition zero_fee :: "string \<Rightarrow> nat \<Rightarrow> dispute_state \<Rightarrow> bool" where
  "zero_fee i n s \<longleftrightarrow> (\<exists>f \<in> set (appeal_fees s). af_disputeId f = i \<and> af_appealRound f = n \<and> af_amount f = 0)"

lemma appeal_pending_faults: "appeal_pending i n s \<Longrightarrow> faults (settlement s) = []"
  by (simp add: appeal_pending_def)

lemma numeric_8_0 [simp]: "numeric_8 0 = 0"
  by (simp add: numeric_8_def to_fixed_0_def floor_eq_iff)

lemma wpI_prod: "wpH (f a b) Q E s \<Longrightarrow> wpH (case (a, b) of (x, y) \<Rightarrow> f x y) Q E s"
  by simp

lemma wpI_providerForEscrow:
  "\<lbrakk>\<And>e. E e s; \<And>r p. escrows (settlement s) i = Some r \<Longrightarrow> resolveArbitrationProvider env (er_type r) = Inr p \<Longrightarrow> Q (p, r) s\<rbrakk>
   \<Longrightarrow> wpH (providerForEscrow env i) Q E s"
  unfolding providerForEscrow_def by (intro wpI_seqH wpI_requireEscrowD wpI_liftH wpI_ret) auto

lemma fees_sel [simp]:
  "row i (s\<lparr>appeal_fees := fs\<rparr>) = row i s" "settlement (s\<lparr>appeal_fees := fs\<rparr>) = settlement s"
  "settled_escrow j (s\<lparr>appeal_fees := fs\<rparr>) = settled_escrow j s"
  by (simp_all add: row_def settled_escrow_def settlement_def)

lemma wp_claimAppeal:
  assumes "row i s = Some d" and "d_status d = RESOLVED" and "faults (settlement s) = []" and "settled_escrow (d_escrowId d) s"
  shows "wpH (claimAppeal d a who fee asset) (\<lambda>_. appeal_pending i (Suc (d_appealRound d))) (\<lambda>_ _. True) s"
  unfolding claimAppeal_def
  by (intro wpI_transactionD wpI_seqH wpI_updateMany wpI_guardH wpI_readH wpI_dbStep wpI_requireDispute)
    (use assms row_SomeD [OF assms(1)] in \<open>auto simp: appeal_pending_def row_update_rows\<close>)

lemma wp_appeal_settled:
  assumes "row i s = Some d" and "escrows (settlement s) (d_escrowId d) = Some r" and "er_status r \<in> set TERMINAL_ESCROW_STATUSES"
    and "faults (settlement s) = []"
  shows "wpH (appeal env i who) (\<lambda>res s'. appeal_pending i (Suc (d_appealRound d)) s' \<and> (er_feeCharged r = None \<longrightarrow> snd res = 0))
     (\<lambda>_ _. True) s"
proof -
  have settled: "settled_escrow (d_escrowId d) s" if "resolveArbitrationProvider env (er_type r) = Inr Market"
    using market_is_mock [OF that] assms(2,3)
    by (simp add: settled_escrow_def isSignatureCollectionType_def SIGNATURE_COLLECTION_PROVIDERS_def)
  let ?Q = "\<lambda>res s'. appeal_pending i (Suc (d_appealRound d)) s' \<and> (er_feeCharged r = None \<longrightarrow> snd res = 0)"
  have claim: "wpH (claimAppeal d a who fee (er_asset r))
      (\<lambda>u. wpH (seqH (publishD ''dispute.appealed'' (d_tradeId d)) (\<lambda>_. ret (u, fee))) ?Q (\<lambda>_ _. True)) (\<lambda>_ _. True) (redrawn s)"
    if "resolveArbitrationProvider env (er_type r) = Inr Market" "d_status d = RESOLVED" "er_feeCharged r = None \<longrightarrow> fee = 0" for a fee
    by (rule wpH_mono [OF wp_claimAppeal])
      (use assms that settled in \<open>auto simp: publishD_def wp_seqH wp_dbStep wp_ret dest: appeal_pending_faults split: list.split bool.split\<close>)
  show ?thesis
    unfolding appeal_def Let_def findCommittedArbiterId_def
    by (intro wpI_seqH wpI_requireDispute wpI_guardH wpI_requireTradeD wpI_readH wpI_providerForEscrow wpI_prod wpI_assignAppealPanel TrueI)
      (use assms in \<open>auto intro!: claim\<close>)
qed

section \<open>Properties\<close>

text \<open>
  C34: an appeal is never decided. Appeals are accepted only under market arbitration, which is
  compatible with no rail but the one that pays a ruling out at once. So when the appealed ruling
  has been executed, the dispute stays APPEALED without a ruling, and its appeal fee unsettled,
  whatever rulings, appeals, evidence, proposals and contests follow; and the fee is zero on every
  escrow without a recorded charge.
\<close>

theorem appeal_is_never_decided:
  assumes run: "appeal env i who s = (Inr (d', fee), s1)" and d: "row i s = Some d"
    and r: "escrows (settlement s) (d_escrowId d) = Some r" "er_status r \<in> set TERMINAL_ESCROW_STATUSES"
    and ok: "faults (settlement s) = []"
  shows "appeal_pending i (Suc (d_appealRound d)) (fold (run_dispute_request env i) reqs s1)
     \<and> (er_feeCharged r = None \<longrightarrow> fee = 0)"
proof -
  from wpH_I [OF wp_appeal_settled [OF d r ok] run]
  have base: "appeal_pending i (Suc (d_appealRound d)) s1" and "er_feeCharged r = None \<longrightarrow> fee = 0" by simp_all
  moreover have "appeal_pending i n t \<Longrightarrow> appeal_pending i n (fold (run_dispute_request env i) reqs t)" for n t
    by (induction reqs arbitrary: t) (simp_all add: appeal_pending_request)
  ultimately show ?thesis by blast
qed

definition demo_service :: service_env where
  "demo_service = \<lparr>sv_dispute = demo_denv\<lparr>de_settle := demo_senv\<lparr>s_isProduction := False\<rparr>\<rparr>, sv_arbitrationMode = trusted_list,
     sv_arbitrationOverrides = [MOCK \<mapsto> market], sv_trustedArbitrators = [''carol''], sv_random = (\<lambda>_. 1 / 2),
     sv_evidenceTrade = (\<lambda>_. None), sv_autoWindowHours = 24\<rparr>"

definition demo_arbiter :: "string \<Rightarrow> arbiter_profile" where
  "demo_arbiter who = \<lparr>ap_participantId = who, ap_monetaryCollateral = 1000, ap_collateralAsset = Some ''BTC'',
     ap_arbiterReputation = 5, ap_rulingsTotal = 0, ap_rulingsOverturned = 0, ap_cumulativeFeesObserved = 0, ap_slashedAt = None\<rparr>"

definition demo_market :: dispute_state where
  "demo_market = (demo_disputed ((demo_escrow DISPUTED)\<lparr>er_type := MOCK, er_asset := A_BTC\<rparr>) (demo_dispute OPENED))
     \<lparr>arbiters := [demo_arbiter ''carol'', demo_arbiter ''dave'']\<rparr>"

definition demo_signature :: string where
  "demo_signature = ''K'' @ join_with (CHR ''|'') (decision_fields demo_payload)"

definition demo_resolved :: dispute_state where
  "demo_resolved = snd (resolveDispute demo_service ''d'' ''carol'' RELEASE None demo_signature ''now'' demo_market)"

lemma demo_market_run:
  "(case resolveDispute demo_service ''d'' ''carol'' RELEASE None demo_signature ''now'' demo_market of
      (r, s) \<Rightarrow> (isl r, map_option er_status (escrows (settlement s) ''e''), map_option (\<lambda>d. (d_escrowId d, d_appealRound d)) (row ''d'' s),
         faults (settlement s), map_sum id snd (fst (appeal demo_service ''d'' ''alice'' s))))
     = (False, Some COMPLETED, Some (''e'', 0), [], Inr 0)"
  by code_simp

lemma demo_resolved_facts:
  "\<not> isl (fst (resolveDispute demo_service ''d'' ''carol'' RELEASE None demo_signature ''now'' demo_market))"
  "map_option er_status (escrows (settlement demo_resolved) ''e'') = Some COMPLETED"
  "map_option (\<lambda>d. (d_escrowId d, d_appealRound d)) (row ''d'' demo_resolved) = Some (''e'', 0)"
  "faults (settlement demo_resolved) = []"
  "map_sum id snd (fst (appeal demo_service ''d'' ''alice'' demo_resolved)) = Inr 0"
  using demo_market_run unfolding demo_resolved_def by (simp_all add: case_prod_beta)

theorem appeal_is_never_decided_witness:
  "\<exists>d' s1. appeal demo_service ''d'' ''alice'' demo_resolved = (Inr (d', 0), s1)
     \<and> appeal_pending ''d'' 1 (fold (run_dispute_request demo_service ''d'') [ReqResolve ''dave'' REFUND None ''sig'' ''now''] s1)"
proof -
  obtain d' s1 where run: "appeal demo_service ''d'' ''alice'' demo_resolved = (Inr (d', 0), s1)"
    using demo_resolved_facts(5) by (cases "appeal demo_service ''d'' ''alice'' demo_resolved";
        cases "fst (appeal demo_service ''d'' ''alice'' demo_resolved)") auto
  obtain r where r: "escrows (settlement demo_resolved) ''e'' = Some r" "er_status r \<in> set TERMINAL_ESCROW_STATUSES"
    using demo_resolved_facts(2) by (auto simp: TERMINAL_ESCROW_STATUSES_def)
  obtain d where d: "row ''d'' demo_resolved = Some d" "d_escrowId d = ''e''" "d_appealRound d = 0"
    using demo_resolved_facts(3) by auto
  from appeal_is_never_decided [OF run d(1) _ r(2) demo_resolved_facts(4),
      where reqs = "[ReqResolve ''dave'' REFUND None ''sig'' ''now'']"] run r(1) d show ?thesis by auto
qed

text \<open>
  The market draws only arbiters who may decide. A draw, for the first ruling or for an appeal,
  returns a registered and unslashed arbiter whose stake is at least one and a half times the
  disputed amount and who is neither party nor the arbiter appealed against; it fails exactly when
  there is no such arbiter, whatever number the random source yields.
\<close>

theorem market_draws_eligible_arbiters:
  assumes "dispute_facts i s d r t" and "prev \<noteq> []"
  shows "(case assignMarket env i s of
      (Inl e, s') \<Rightarrow> s' = s \<and> (\<forall>p \<in> set (arbiters s). \<not> may_arbitrate (er_lockedAmount r) [t_buyerId t, t_sellerId t] p)
    | (Inr who, s') \<Rightarrow> \<exists>p \<in> set (arbiters s). ap_participantId p = who \<and> may_arbitrate (er_lockedAmount r) [t_buyerId t, t_sellerId t] p)
    \<and> (case assignAppealPanel env i n (Some prev) s of
      (Inl e, s') \<Rightarrow> s' = s \<and> (\<forall>p \<in> set (arbiters s). \<not> may_arbitrate (er_lockedAmount r) [t_buyerId t, t_sellerId t, prev] p)
    | (Inr who, s') \<Rightarrow> \<exists>p \<in> set (arbiters s). ap_participantId p = who
        \<and> may_arbitrate (er_lockedAmount r) [t_buyerId t, t_sellerId t, prev] p)"
proof -
  let ?good = "\<lambda>ex who (s' :: dispute_state). \<exists>p \<in> set (arbiters s). ap_participantId p = who \<and> may_arbitrate (er_lockedAmount r) ex p"
  let ?none = "\<lambda>ex (e :: sails_error) s'. s' = s \<and> (\<forall>p \<in> set (arbiters s). \<not> may_arbitrate (er_lockedAmount r) ex p)"
  have "wpH (assignMarket env i) (?good [t_buyerId t, t_sellerId t]) (?none [t_buyerId t, t_sellerId t]) s"
    unfolding assignMarket_def
    by (auto simp: wp_seqH wp_dispute_parties [OF assms(1)] wp_eligibleFor wp_guardH filter_empty_conv intro!: wpI_marketPick)
  moreover have "wpH (assignAppealPanel env i n (Some prev)) (?good [t_buyerId t, t_sellerId t, prev]) (?none [t_buyerId t, t_sellerId t, prev]) s"
    unfolding assignAppealPanel_def using assms(2)
    by (auto simp: wp_seqH wp_dispute_parties [OF assms(1)] wp_eligibleFor wp_guardH filter_empty_conv intro!: wpI_panelPick)
  ultimately show ?thesis by (simp add: wpH_def)
qed

lemma demo_facts: "dispute_facts ''d'' demo_market (demo_dispute OPENED) ((demo_escrow DISPUTED)\<lparr>er_type := MOCK, er_asset := A_BTC\<rparr>)
    \<lparr>t_buyerId = ''bob'', t_sellerId = ''alice'', t_escrowId = Some ''e''\<rparr>"
  by (simp add: dispute_facts_def demo_market_def demo_disputed_def row_def demo_dispute_def settlement_def demo_settlement_def)

theorem market_draws_eligible_arbiters_witness:
  "\<exists>who s'. assignAppealPanel demo_service ''d'' 1 (Some ''carol'') demo_market = (Inr who, s') \<and> who = ''dave''"
proof -
  note draw = conjunct2 [OF market_draws_eligible_arbiters [OF demo_facts, where prev = "''carol''" and n = 1 and env = demo_service]]
  have "\<not> isl (fst (assignAppealPanel demo_service ''d'' 1 (Some ''carol'') demo_market))" by code_simp
  then obtain who s' where run: "assignAppealPanel demo_service ''d'' 1 (Some ''carol'') demo_market = (Inr who, s')"
    by (cases "assignAppealPanel demo_service ''d'' 1 (Some ''carol'') demo_market";
        cases "fst (assignAppealPanel demo_service ''d'' 1 (Some ''carol'') demo_market)") auto
  with draw show ?thesis by (auto simp: demo_market_def demo_arbiter_def may_arbitrate_def)
qed

section \<open>Rulings\<close>

definition rows_are :: "dispute_row list \<Rightarrow> dispute_state \<Rightarrow> bool" where
  "rows_are rows s \<longleftrightarrow> dispute_rows s = rows"

lemma rows_onSettle: "preserves (rows_are rows) (onSettle m)"
  by (simp add: preserves_def rows_are_def onSettle_def split: prod.split)

lemma rows_dbStep: "(\<And>s. dispute_rows (f s) = dispute_rows s) \<Longrightarrow> preserves (rows_are rows) (dbStep tag f)"
  unfolding dbStep_def by (intro preserves_seqH rows_onSettle preserves_writeH) (simp add: rows_are_def)

lemma rows_transactionD: "preserves (rows_are rows) m \<Longrightarrow> preserves (rows_are rows) (transactionD m)"
  by (auto simp: preserves_def transactionD_def rows_are_def split: prod.splits sum.splits)

lemmas rows_rules = preserves_intros rows_onSettle rows_dbStep rows_transactionD

lemma rows_initiate:
  "preserves (rows_are rows) (initiateRelease denv i ad who)" "preserves (rows_are rows) (initiateRefund denv i who ad)"
  "preserves (rows_are rows) (initiateSplit denv i ad ad' bps who)"
  unfolding initiateRelease_def initiateRefund_def initiateSplit_def initiateSignatureCollectionCore_def checkDisposition_def
    assigned_dispute_def createPending_def Let_def
  by (intro rows_rules; simp add: rows_are_def)+

lemma preserves_ruling:
  "\<lbrakk>preserves I a; preserves I b; preserves I c\<rbrakk>
   \<Longrightarrow> preserves I (case x of RELEASE \<Rightarrow> a | REFUND \<Rightarrow> b | SPLIT_RULING \<Rightarrow> c)"
  by (cases x) simp_all

lemma rows_publish: "preserves (rows_are rows) (publishD ev key)"
  unfolding publishD_def by (intro rows_rules) simp

lemma rows_execute: "preserves (rows_are rows) (executeRuling env d p bps)"
  unfolding executeRuling_def Let_def by (intro rows_rules rows_initiate preserves_ruling)

lemma rows_dispatch: "preserves (rows_are rows) (dispatchRuling env d p ds b sl)"
  unfolding dispatchRuling_def Let_def assertDisputeDispatchEligible_def evaluateDisputeDispatchEligibility_def
    loadDisputeRulingRecord_def checkDisputeRulingAlreadyDispatched_def
  by (auto intro!: rows_rules rows_initiate preserves_ruling split: sum.split DispatchGateVerdict.split)

lemma rows_destinations: "preserves (rows_are rows) (resolve_destinations asset bs)"
  by (induction bs) (auto simp: resolveBeneficiaryDestination_def intro!: rows_rules)

lemma rows_record: "preserves (rows_are rows) (recordRuling env d ruling claim att content asset b sl)"
  unfolding recordRuling_def createRulingRecord_def by (intro rows_rules rows_destinations) simp_all

lemma rows_profile: "preserves (rows_are rows) (updateProfile who f)"
  unfolding updateProfile_def findProfile_def by (intro rows_rules) simp_all

lemma rows_finalize: "preserves (rows_are rows) (finalizeResolveDispute env d a ruling)"
  unfolding finalizeResolveDispute_def providerForEscrow_def recordArbiterRuling_def slash_def findProfile_def settleAppealFees_def Let_def
  by (intro rows_rules rows_profile rows_publish) simp_all

text \<open>What a successful ruling leaves of the dispute.\<close>

definition decided :: "string \<Rightarrow> AuthorityDecisionPayload \<Rightarrow> string \<Rightarrow> dispute_state \<Rightarrow> bool" where
  "decided i p sig s \<longleftrightarrow> (\<exists>d. row i s = Some d \<and> d_status d = RESOLVED \<and> d_ruling d = Some (pl_outcome p)
     \<and> d_arbiterId d = Some (pl_authorityId p) \<and> d_authoritySignature d = Some sig)"

lemma decided_rows: "dispute_rows s = dispute_rows s' \<Longrightarrow> decided i p sig s = decided i p sig s'"
  by (simp add: decided_def row_def)

lemma preserves_decided: "(\<And>rows. preserves (rows_are rows) m) \<Longrightarrow> preserves (decided i p sig) m"
  unfolding preserves_def rows_are_def using decided_rows by metis

lemma wp_claimRuling_decided:
  assumes "row i s = Some d" and "d_status d \<noteq> RESOLVED" and "d_arbiterId d = Some (pl_authorityId p)"
  shows "wpH (claimRuling env i p sig) (\<lambda>_. decided i p sig) (\<lambda>_ _. True) s"
proof -
  have "decided i p sig (update_rows (may_rule i (pl_authorityId p)) (ruled p sig x now) t)" if "row i t = row i s" for x now t
    using assms row_SomeD [OF assms(1)] that by (simp add: decided_def row_update_rows may_rule_def)
  moreover have "row i (with_faults fs s) = row i s" for fs by (simp add: row_def)
  ultimately show ?thesis
    by (simp add: wp_claimRuling wp_updateManyDisputes Let_def split: option.split list.split bool.split)
qed

lemma wp_True: "wpH m (\<lambda>_ _. True) (\<lambda>_ _. True) s"
  by (simp add: wpH_def split: prod.split sum.split)

lemma wp_decided:
  assumes "\<And>rows. preserves (rows_are rows) m" and "decided i p sig s"
  shows "wpH m (\<lambda>_. decided i p sig) (\<lambda>_ _. True) s"
  by (rule wpH_mono [OF preserves_wp [OF preserves_decided [OF assms(1)] assms(2)]]) auto

lemma wp_seq_decided:
  assumes "wpH m (\<lambda>_. decided i p sig) (\<lambda>_ _. True) s"
    and "\<And>a s'. decided i p sig s' \<Longrightarrow> wpH (f a) (\<lambda>_. decided i p sig) (\<lambda>_ _. True) s'"
  shows "wpH (seqH m f) (\<lambda>_. decided i p sig) (\<lambda>_ _. True) s"
  unfolding wp_seqH by (rule wpH_mono [OF assms(1)]) (use assms(2) in auto)

lemma wp_try_decided:
  assumes "\<And>rows. preserves (rows_are rows) m" and "decided i p sig s" and "\<And>e s. wpH (h e) (\<lambda>_ _. False) (\<lambda>_ _. True) s"
  shows "wpH (catchH m h) (\<lambda>_. decided i p sig) (\<lambda>_ _. True) s"
  unfolding wp_catchH
  by (rule wpH_mono [OF wp_decided [OF assms(1,2)]]) (auto intro: wpH_mono [OF assms(3)])

lemma wp_rethrow: "wpH (seqH m (\<lambda>_. throw e)) (\<lambda>_ _. False) (\<lambda>_ _. True) s"
  by (simp add: wp_seqH wp_throw wp_True)

lemma wp_applyRuling_decided:
  assumes "row (d_id d) s = Some d" and "d_status d \<noteq> RESOLVED" and "d_arbiterId d = Some (pl_authorityId p)"
  shows "wpH (applyRuling env d p bps sig) (\<lambda>_. decided (d_id d) p sig) (\<lambda>_ _. True) s"
proof -
  have "wpH (claimedRow env d p sig) (\<lambda>_. decided (d_id d) p sig) (\<lambda>_ _. True) s"
    unfolding claimedRow_def requireDispute_def findDisputeById_def wp_transactionD
    by (rule wp_seq_decided [OF wp_claimRuling_decided [OF assms]]) (intro wp_decided rows_rules)
  then show ?thesis
    unfolding applyRuling_def
    by (rule wp_seq_decided) (intro wp_seq_decided wp_try_decided wp_rethrow rows_execute wp_decided rows_publish rows_rules; assumption)
qed

lemma wp_commit_decided:
  assumes "row (d_id d) s = Some d" and "d_status d \<noteq> RESOLVED" and "d_arbiterId d = Some (pl_authorityId p)"
  shows "wpH (commitAuthoritativeDisputeRuling denv d p sig pk units asset b sl)
     (\<lambda>res s'. case res of Committed _ \<Rightarrow> decided (d_id d) p sig s' | _ \<Rightarrow> True) (\<lambda>_ _. True) s"
proof -
  have commit: "wpH (commitRuling denv d p sig claim att content asset b sl)
     (\<lambda>res s'. case res of Committed _ \<Rightarrow> decided (d_id d) p sig s' | _ \<Rightarrow> True) (\<lambda>_ _. True) s" for claim att content
    unfolding commitRuling_def wp_seqH
  proof (rule wpH_mono [OF wp_claimRuling_decided [OF assms]])
    fix n s' assume "decided (d_id d) p sig s'"
    from wp_decided [OF rows_record this]
    have "wpH (recordRuling denv d (pl_outcome p) claim att content asset b sl)
       (\<lambda>res s'. case res of Committed _ \<Rightarrow> decided (d_id d) p sig s' | _ \<Rightarrow> True) (\<lambda>_ _. True) s'"
      by (rule wpH_mono) (auto split: DisputeRulingCommitResult.split)
    then show "wpH (if n = 0 then ret DisputeStateLostRace else recordRuling denv d (pl_outcome p) claim att content asset b sl)
       (\<lambda>res s'. case res of Committed _ \<Rightarrow> decided (d_id d) p sig s' | _ \<Rightarrow> True) (\<lambda>_ _. True) s'"
      by (simp add: wp_ret)
  qed simp
  show ?thesis
    unfolding commitAuthoritativeDisputeRuling_def
    by (auto simp: wp_seqH wp_liftH wp_ret wp_transactionD commit split: sum.split DiscretionaryAuthorityVerdict.split)
qed

lemma wp_core_decided:
  assumes "row (d_id d) s = Some d" and "d_status d \<noteq> RESOLVED" and "d_arbiterId d = Some (pl_authorityId p)"
  shows "wpH (applyRulingCoreAuthoritative env d p sig pk b sl amount asset) (\<lambda>_. decided (d_id d) p sig) (\<lambda>_ _. True) s"
  unfolding applyRulingCoreAuthoritative_def Let_def wp_seqH [of "commitAuthoritativeDisputeRuling _ _ _ _ _ _ _ _ _"]
proof (rule wpH_mono [OF wp_commit_decided [OF assms]], goal_cases)
  case (1 res s')
  have handler: "wpH (seqH (revertRuling d p sig n) (\<lambda>_. seqH (revertDisputeRulingRecord e m) (\<lambda>_. throw err))) (\<lambda>_ _. False) (\<lambda>_ _. True) s"
    for n e m err s
    using wp_rethrow by (subst wp_seqH) (rule wpH_mono [OF wp_True], auto)
  show ?case
  proof (cases res)
    case (Committed ds)
    with 1 have dec: "decided (d_id d) p sig s'" by simp
    show ?thesis unfolding Committed DisputeRulingCommitResult.case findDisputeById_def
      by (intro wp_seq_decided wp_try_decided handler rows_dispatch wp_decided rows_publish rows_rules; (fact dec | assumption))
  qed (simp_all add: wp_throw)
qed simp

definition signed_by_assigned ::
    "service_env \<Rightarrow> string \<Rightarrow> string \<Rightarrow> ArbitrationRuling \<Rightarrow> rat option \<Rightarrow> string \<Rightarrow> string \<Rightarrow> dispute_state \<Rightarrow> dispute_row \<Rightarrow> bool" where
  "signed_by_assigned env i a ruling bps sig issuedAt s d \<longleftrightarrow>
     row i s = Some d \<and> d_status d \<noteq> RESOLVED \<and> d_arbiterId d = Some a
     \<and> (\<exists>pk h. users s a = Some pk \<and> de_verify (sv_dispute env) h sig pk = Inr True
          \<and> hashAuthorityDecision (s_sha256 (sv_settle env)) (decision_payload d a ruling bps issuedAt) = Inr h)"

lemma verified: "verifyAuthorityDecisionSignature sha verify p sig pk = Inr True
    \<Longrightarrow> \<exists>h. hashAuthorityDecision sha p = Inr h \<and> verify h sig pk = Inr True"
proof -
  assume "verifyAuthorityDecisionSignature sha verify p sig pk = Inr True"
  then obtain h where "hashAuthorityDecision sha p = Inr h" "(case verify h sig pk of Inl _ \<Rightarrow> False | Inr b \<Rightarrow> b)"
    by (auto simp: verifyAuthorityDecisionSignature_def bindR_eq_Inr)
  then show ?thesis by (cases "verify h sig pk") auto
qed

lemma wp_resolveDispute:
  "wpH (resolveDispute env i a ruling bps sig issuedAt)
     (\<lambda>_ s'. \<exists>d. signed_by_assigned env i a ruling bps sig issuedAt s d \<and> decided i (decision_payload d a ruling bps issuedAt) sig s')
     (\<lambda>_ s'. s' = s \<or> (\<exists>d. signed_by_assigned env i a ruling bps sig issuedAt s d)) s"
proof -
  let ?E = "\<lambda>(e :: sails_error) s'. s' = s \<or> (\<exists>d. signed_by_assigned env i a ruling bps sig issuedAt s d)"
  have run: "wpH (seqH (if er_type r = MULTISIG
           then seqH (onSettle (requireTrade (d_tradeId d))) (\<lambda>trade.
                  applyRulingCoreAuthoritative env d p sig pk (t_buyerId trade) (t_sellerId trade) (er_lockedAmount r) (er_asset r))
           else seqH (applyRuling env d p bps sig) (\<lambda>row. ret (Some row))) (\<lambda>updated.
        seqH (finalizeResolveDispute env d a ruling) (\<lambda>_. ret updated)))
      (\<lambda>_ s'. \<exists>d. signed_by_assigned env i a ruling bps sig issuedAt s d \<and> decided i (decision_payload d a ruling bps issuedAt) sig s') ?E s"
    if ok: "signed_by_assigned env i a ruling bps sig issuedAt s d" and p: "p = decision_payload d a ruling bps issuedAt" for d r pk p
  proof -
    have d: "d_id d = i" "row (d_id d) s = Some d" "d_status d \<noteq> RESOLVED" "d_arbiterId d = Some (pl_authorityId p)"
      using ok row_SomeD by (auto simp: signed_by_assigned_def p decision_payload_def)
    note applied = wp_applyRuling_decided [OF d(2-4)] and core = wp_core_decided [OF d(2-4)]
    have "wpH (if er_type r = MULTISIG
           then seqH (onSettle (requireTrade (d_tradeId d))) (\<lambda>trade.
                  applyRulingCoreAuthoritative env d p sig pk (t_buyerId trade) (t_sellerId trade) (er_lockedAmount r) (er_asset r))
           else seqH (applyRuling env d p bps sig) (\<lambda>row. ret (Some row))) (\<lambda>_. decided (d_id d) p sig) (\<lambda>_ _. True) s"
      by (intro wpI_if wp_seq_decided [OF applied] wpI_seqH [of "onSettle _"] wpI_requireTradeD core TrueI) (simp add: wp_ret)
    then have "wpH (seqH (if er_type r = MULTISIG
           then seqH (onSettle (requireTrade (d_tradeId d))) (\<lambda>trade.
                  applyRulingCoreAuthoritative env d p sig pk (t_buyerId trade) (t_sellerId trade) (er_lockedAmount r) (er_asset r))
           else seqH (applyRuling env d p bps sig) (\<lambda>row. ret (Some row))) (\<lambda>updated.
        seqH (finalizeResolveDispute env d a ruling) (\<lambda>_. ret updated))) (\<lambda>_. decided (d_id d) p sig) (\<lambda>_ _. True) s"
      by (rule wp_seq_decided) (intro wp_decided rows_rules rows_finalize; assumption)
    then show ?thesis by (rule wpH_mono) (use ok d(1) p in auto)
  qed
  show ?thesis
    unfolding resolveDispute_def Let_def
    by (intro wpI_seqH [of "requireDispute _"] wpI_seqH [of "guardH _ _"] wpI_seqH [of "readH _"] wpI_seqH [of "requireH _ _"]
        wpI_seqH [of "liftH _"] wpI_seqH [of "onSettle _"] wpI_requireDispute wpI_guardH wpI_readH wpI_requireH wpI_liftH
        wpI_requireEscrowD run disjI1 refl)
      (auto simp: signed_by_assigned_def dest: verified)
qed

text \<open>
  C33: only the assigned arbiter rules, once, and by signature. A ruling that succeeds, or that fails
  after it has changed anything at all, was requested for an unresolved dispute by its assigned
  arbiter, whose registered key verifies the signature over exactly this decision; when it succeeds
  the dispute is resolved with that outcome and carries that signature.
\<close>

theorem ruling_needs_the_assigned_arbiter:
  assumes "resolveDispute env i a ruling bps sig issuedAt s = (res, s')"
  shows "case res of
      Inl e \<Rightarrow> s' = s \<or> (\<exists>d. signed_by_assigned env i a ruling bps sig issuedAt s d)
    | Inr x \<Rightarrow> \<exists>d. signed_by_assigned env i a ruling bps sig issuedAt s d \<and> decided i (decision_payload d a ruling bps issuedAt) sig s'"
  using wp_resolveDispute [of env i a ruling bps sig issuedAt s] assms by (simp add: wpH_def split: sum.splits)

theorem ruling_needs_the_assigned_arbiter_witness:
  "\<exists>d. signed_by_assigned demo_service ''d'' ''carol'' RELEASE None demo_signature ''now'' demo_market d
     \<and> decided ''d'' (decision_payload d ''carol'' RELEASE None ''now'') demo_signature demo_resolved"
proof -
  obtain x where "resolveDispute demo_service ''d'' ''carol'' RELEASE None demo_signature ''now'' demo_market = (Inr x, demo_resolved)"
    using demo_resolved_facts(1) unfolding demo_resolved_def
    by (cases "resolveDispute demo_service ''d'' ''carol'' RELEASE None demo_signature ''now'' demo_market";
        cases "fst (resolveDispute demo_service ''d'' ''carol'' RELEASE None demo_signature ''now'' demo_market)") auto
  from ruling_needs_the_assigned_arbiter [OF this] show ?thesis by simp
qed

lemma storeEvidence_run:
  assumes "row i s = Some d" and "faults (settlement s) = []"
  shows "row i (snd (storeEvidence i ev s)) = Some (d\<lparr>d_evidence := ev, d_status := EVIDENCE_SUBMITTED\<rparr>)"
    and "faults (settlement (snd (storeEvidence i ev s))) = []"
    and "dispositions (snd (storeEvidence i ev s)) = dispositions s"
proof -
  have "wpH (storeEvidence i ev) (\<lambda>_ s'. P s') (\<lambda>_ s'. P s') s"
    if "P (update_rows (\<lambda>d. d_id d = i) (\<lambda>x. x\<lparr>d_evidence := ev, d_status := EVIDENCE_SUBMITTED\<rparr>) s)" for P
    unfolding storeEvidence_def updateDispute_def findDisputeById_def
    by (intro wpI_seqH wpI_updateMany wpI_guardH wpI_readH wpI_requireH assms that)
  note stored = wpH_snd [OF this]
  show "row i (snd (storeEvidence i ev s)) = Some (d\<lparr>d_evidence := ev, d_status := EVIDENCE_SUBMITTED\<rparr>)"
    by (rule stored) (use assms(1) row_SomeD [OF assms(1)] in \<open>simp add: row_update_rows\<close>)
  show "faults (settlement (snd (storeEvidence i ev s))) = []" by (rule stored) (simp add: assms(2))
  show "dispositions (snd (storeEvidence i ev s)) = dispositions s" by (rule stored) simp
qed

lemma authorize_refused:
  assumes "row i s = Some d" and "d_status d \<noteq> RESOLVED" and "faults (settlement s) = []"
    and "pt_disputeId p = Some i" and "i \<noteq> []" and "\<forall>z \<in> set (dispositions s). dz_pendingOperationId z \<noteq> pt_id p"
  shows "\<exists>err. authorizeDisputedPendingExecution denv p s = (Inl err, s)"
proof -
  have "find (\<lambda>z. dz_pendingOperationId z = pt_id p) (dispositions s) = None" using assms(6) by (auto simp: find_None_iff)
  then have "wpH (authorizeDisputedPendingExecution denv p) (\<lambda>_ _. False) (\<lambda>_ s'. s' = s) s"
    using assms(1-5) by (simp add: authorizeDisputedPendingExecution_def Let_def wp_transactionD wp_seqH wp_readH wp_requireH wp_guardH
        findDisputeById_def row_def [symmetric] still_current_def with_faults_same)
  then show ?thesis by (auto simp: wpH_def split: prod.splits sum.splits)
qed

text \<open>
  C35: evidence submitted while a ruling is being made takes the ruling back. The check of the
  dispute's status and the update are two steps, and the update names the row by its id only: when
  a ruling succeeds in between, the dispute leaves RESOLVED, and no transaction of that ruling can
  be authorized any more.
\<close>

theorem evidence_race_blocks_the_payout:
  assumes check: "checkEvidence env i who e s = (Inr ev, s)"
    and rule: "resolveDispute env i a ruling bps sig issuedAt s = (Inr x, s1)"
    and ok: "faults (settlement s1) = []" and op: "pt_disputeId p = Some i" "i \<noteq> []"
    and new: "\<forall>z \<in> set (dispositions s1). dz_pendingOperationId z \<noteq> pt_id p"
  shows "let s2 = snd (storeEvidence i ev s1) in
     (\<exists>d. row i s1 = Some d \<and> d_status d = RESOLVED \<and> row i s2 = Some (d\<lparr>d_evidence := ev, d_status := EVIDENCE_SUBMITTED\<rparr>))
     \<and> (\<exists>err. authorizeDisputedPendingExecution (sv_dispute env) p s2 = (Inl err, s2))"
proof -
  from wp_resolveDispute [of env i a ruling bps sig issuedAt s] rule
  obtain d where d: "row i s1 = Some d" "d_status d = RESOLVED" by (auto simp: wpH_def decided_def)
  note stored = storeEvidence_run [OF d(1) ok, of ev]
  have "\<exists>err. authorizeDisputedPendingExecution (sv_dispute env) p (snd (storeEvidence i ev s1)) = (Inl err, snd (storeEvidence i ev s1))"
    by (rule authorize_refused [OF stored(1)]) (use stored op new in simp_all)
  with d stored(1) show ?thesis by (simp add: Let_def)
qed

definition demo_onchain :: service_env where
  "demo_onchain = demo_service\<lparr>sv_dispute := demo_builder\<lparr>de_decodePsbt :=
     (\<lambda>_. Some \<lparr>dp_inputValue = Some 100, dp_outputs = [(Some ''B'', 99)]\<rparr>)\<rparr>\<rparr>"

definition demo_multisig_open :: dispute_state where
  "demo_multisig_open = demo_disputed ((demo_escrow DISPUTED)\<lparr>er_type := MULTISIG, er_asset := A_BTC, er_lockedAmount := 1 / 1000000\<rparr>)
     (demo_dispute OPENED)"

definition demo_note :: EvidenceDescriptor where
  "demo_note = \<lparr>ed_type = ''text'', ed_uri = None, ed_note = Some ''late'', ed_evidenceReferenceId = None, ed_externalReference = False,
     ed_submittedBy = None, ed_submittedAt = None\<rparr>"

lemma checkEvidence_reads: "snd (checkEvidence env i who e s) = s"
proof -
  have "wpH (checkEvidence env i who e) (\<lambda>_ s'. s' = s) (\<lambda>_ s'. s' = s) s"
    unfolding checkEvidence_def
    by (intro wpI_seqH wpI_requireDispute wpI_requireTradeD wpI_guardH wpI_liftH wpI_readH wpI_ret refl)
  from wpH_snd [OF this] show ?thesis .
qed

lemma demo_race:
  "\<not> isl (fst (checkEvidence demo_onchain ''d'' ''alice'' demo_note demo_multisig_open))"
  "(case resolveDispute demo_onchain ''d'' ''carol'' RELEASE None demo_signature ''now'' demo_multisig_open of
      (r, s1) \<Rightarrow> (isl r, faults (settlement s1), length (dispositions s1), map pt_disputeId (pending_txs s1)))
     = (False, [], 0, [Some ''d''])"
  by (code_simp, code_simp)

theorem evidence_race_blocks_the_payout_witness:
  "\<exists>ev x s1 p. checkEvidence demo_onchain ''d'' ''alice'' demo_note demo_multisig_open = (Inr ev, demo_multisig_open)
     \<and> resolveDispute demo_onchain ''d'' ''carol'' RELEASE None demo_signature ''now'' demo_multisig_open = (Inr x, s1)
     \<and> p \<in> set (pending_txs s1)
     \<and> (\<exists>err. authorizeDisputedPendingExecution (sv_dispute demo_onchain) p (snd (storeEvidence ''d'' ev s1))
          = (Inl err, snd (storeEvidence ''d'' ev s1)))"
proof -
  obtain ev where ev: "checkEvidence demo_onchain ''d'' ''alice'' demo_note demo_multisig_open = (Inr ev, demo_multisig_open)"
    using demo_race(1) checkEvidence_reads [of demo_onchain "''d''" "''alice''" demo_note demo_multisig_open]
    by (cases "checkEvidence demo_onchain ''d'' ''alice'' demo_note demo_multisig_open";
        cases "fst (checkEvidence demo_onchain ''d'' ''alice'' demo_note demo_multisig_open)") auto
  obtain r s1 where out: "resolveDispute demo_onchain ''d'' ''carol'' RELEASE None demo_signature ''now'' demo_multisig_open = (r, s1)"
    by (cases "resolveDispute demo_onchain ''d'' ''carol'' RELEASE None demo_signature ''now'' demo_multisig_open")
  with demo_race(2) have r: "\<not> isl r"
    and s1: "faults (settlement s1) = []" "dispositions s1 = []" "map pt_disputeId (pending_txs s1) = [Some ''d'']" by simp_all
  from r out obtain x where run: "resolveDispute demo_onchain ''d'' ''carol'' RELEASE None demo_signature ''now'' demo_multisig_open = (Inr x, s1)"
    by (cases r) auto
  from s1(3) obtain p where p: "p \<in> set (pending_txs s1)" "pt_disputeId p = Some ''d''" by (cases "pending_txs s1") auto
  from evidence_race_blocks_the_payout [OF ev run s1(1) p(2)] s1(2) ev run p(1) show ?thesis
    by (auto simp: Let_def)
qed

end
