(* ===== verification/Idempotency.thy ===== *)
theory Idempotency
  imports Interfaces Capability_Registry
begin

text \<open>
  \<^verbatim>\<open>src/common/idempotency.ts\<close>: a request that carries a key takes effect at most once. The
  table of keys is unique in scope, participant and key; its row is claimed by the insert,
  settled after the durable write, and claimed again by a conditional update when the
  first attempt failed. The theory has the store, \<open>withIdempotency\<close> with its callbacks, any number
  of such requests interleaved at their awaits, and the proof that the durable write of a key
  succeeds at most once whatever fails or crashes in between.
\<close>

section \<open>The key store\<close>

datatype IdempotencyKeyStatus = KeyInProgress | KeyCompleted | KeyUnknown | KeyFailed

type_synonym key_name = "string \<times> string \<times> string"

text \<open>A row of the table, with the scope, participant and key in \<open>ik_name\<close>.\<close>

record IdempotencyRecord =
  ik_name :: key_name
  ik_requestHash :: string
  ik_status :: IdempotencyKeyStatus
  ik_resultRef :: "string option"

text \<open>
  A statement sent to the database may be answered, be rejected without effect, or take effect
  while its answer is lost. \<open>faultyOp\<close> runs a statement under a script of such faults.
\<close>

datatype store_fault = Answered | Rejected | Unacknowledged

definition faultyOp ::
    "('s \<Rightarrow> store_fault list) \<Rightarrow> (store_fault list \<Rightarrow> 's \<Rightarrow> 's) \<Rightarrow> ('s, 'a) handler \<Rightarrow> ('s, 'a) handler" where
  "faultyOp faults set_faults m = (\<lambda>s. case faults s of
       [] \<Rightarrow> m s
     | f # fs \<Rightarrow> (let s' = set_faults fs s in
         case f of Answered \<Rightarrow> m s'
         | Rejected \<Rightarrow> (Inl (DatabaseError ''P1001''), s')
         | Unacknowledged \<Rightarrow> (Inl (DatabaseError ''P1001''), snd (m s'))))"

text \<open>The rows by id, the unique index on the name, and how many ids have been drawn.\<close>

record key_store =
  key_rows :: "string \<rightharpoonup> IdempotencyRecord"
  key_index :: "key_name \<rightharpoonup> string"
  key_draws :: nat
  store_faults :: "store_fault list"

definition storeOp :: "(key_store, 'a) handler \<Rightarrow> (key_store, 'a) handler" where
  "storeOp = faultyOp store_faults (\<lambda>fs s. s\<lparr>store_faults := fs\<rparr>)"

definition isUniqueConstraintError :: "sails_error \<Rightarrow> bool" where
  "isUniqueConstraintError e \<longleftrightarrow> e = DatabaseError ''P2002''"

definition claim :: "(nat \<Rightarrow> string) \<Rightarrow> key_name \<Rightarrow> string \<Rightarrow> (key_store, string) handler" where
  "claim cuid q h = storeOp (\<lambda>s0. let i = cuid (key_draws s0); s = s0\<lparr>key_draws := Suc (key_draws s0)\<rparr> in
     if key_index s q \<noteq> None \<or> key_rows s i \<noteq> None then (Inl (DatabaseError ''P2002''), s)
     else (Inr i, s\<lparr>key_rows := (key_rows s)(i \<mapsto> \<lparr>ik_name = q, ik_requestHash = h, ik_status = KeyInProgress, ik_resultRef = None\<rparr>),
                    key_index := (key_index s)(q \<mapsto> i)\<rparr>))"

text \<open>\<^verbatim>\<open>findUnique\<close> by the name: the id and the row.\<close>

definition keyed :: "key_store \<Rightarrow> key_name \<Rightarrow> (string \<times> IdempotencyRecord) option" where
  "keyed s q = (case key_index s q of None \<Rightarrow> None | Some i \<Rightarrow> map_option (Pair i) (key_rows s i))"

definition findKey :: "key_name \<Rightarrow> (key_store, (string \<times> IdempotencyRecord) option) handler" where
  "findKey q = storeOp (readH (\<lambda>s. keyed s q))"

text \<open>\<^verbatim>\<open>update\<close> by id fails on a missing row, \<^verbatim>\<open>updateMany\<close> counts.\<close>

definition updateKey :: "string \<Rightarrow> (IdempotencyRecord \<Rightarrow> IdempotencyRecord) \<Rightarrow> (key_store, unit) handler" where
  "updateKey i f = storeOp (\<lambda>s. case key_rows s i of
       None \<Rightarrow> (Inl (DatabaseError ''P2025''), s)
     | Some r \<Rightarrow> (Inr (), s\<lparr>key_rows := (key_rows s)(i \<mapsto> f r)\<rparr>))"

definition markCompleted :: "string \<Rightarrow> string \<Rightarrow> (key_store, unit) handler" where
  "markCompleted i ref = updateKey i (\<lambda>r. r\<lparr>ik_status := KeyCompleted, ik_resultRef := Some ref\<rparr>)"

definition markUnknown :: "string \<Rightarrow> string \<Rightarrow> (key_store, unit) handler" where
  "markUnknown i ref = updateKey i (\<lambda>r. r\<lparr>ik_status := KeyUnknown, ik_resultRef := Some ref\<rparr>)"

definition markFailed :: "string \<Rightarrow> (key_store, unit) handler" where
  "markFailed i = updateKey i (\<lambda>r. r\<lparr>ik_status := KeyFailed\<rparr>)"

definition setStatusWhere ::
    "string \<Rightarrow> IdempotencyKeyStatus \<Rightarrow> IdempotencyKeyStatus \<Rightarrow> key_store \<Rightarrow> nat \<times> key_store" where
  "setStatusWhere i from to s =
     (case key_rows s i of
        None \<Rightarrow> (0, s)
      | Some r \<Rightarrow> if ik_status r = from then (1, s\<lparr>key_rows := (key_rows s)(i \<mapsto> r\<lparr>ik_status := to\<rparr>)\<rparr>) else (0, s))"

definition reclaimFailed :: "string \<Rightarrow> (key_store, bool) handler" where
  "reclaimFailed i = storeOp (\<lambda>s. let (n, s') = setStatusWhere i KeyFailed KeyInProgress s in (Inr (n = 1), s'))"

section \<open>Running a request under its key\<close>

text \<open>
  The callbacks act on the state \<open>world\<close> of their module; \<open>json\<close> payloads leave out the members
  whose value is undefined, as \<^verbatim>\<open>JSON.stringify\<close> does.
\<close>

record 'w idempotent_state =
  keys :: key_store
  world :: 'w

definition onKeys :: "(key_store, 'a) handler \<Rightarrow> ('w idempotent_state, 'a) handler" where
  "onKeys m = (\<lambda>s. let (r, k) = m (keys s) in (r, s\<lparr>keys := k\<rparr>))"

definition onWorld :: "('w, 'a) handler \<Rightarrow> ('w idempotent_state, 'a) handler" where
  "onWorld m = (\<lambda>s. let (r, w) = m (world s) in (r, s\<lparr>world := w\<rparr>))"

definition hashIdempotentPayload :: "(string \<Rightarrow> string) \<Rightarrow> json \<Rightarrow> string" where
  "hashIdempotentPayload sha payload = sha (json_stringify payload)"

record WithIdempotencyParams =
  wi_scope :: string
  wi_participantId :: string
  wi_key :: "string option"
  wi_requestPayload :: json

record ('w, 'a) idempotent_call =
  persist :: "string option \<Rightarrow> ('w, 'a) handler"
  postPersist :: "'a \<Rightarrow> ('w, unit) handler"
  recover :: "string option \<Rightarrow> ('w, 'a) handler"
  resultId :: "'a \<Rightarrow> string"

definition settleClaim :: "string \<Rightarrow> string \<Rightarrow> (key_store, unit) handler" where
  "settleClaim i ref = catchH (markCompleted i ref) (\<lambda>_. catchH (markUnknown i ref) (\<lambda>_. ret ()))"

definition runAndSettle :: "('w, 'a) idempotent_call \<Rightarrow> string \<Rightarrow> ('w idempotent_state, 'a) handler" where
  "runAndSettle c claimId =
     seqH (catchH (onWorld (persist c (Some claimId)))
             (\<lambda>err. seqH (onKeys (markFailed claimId)) (\<lambda>_. throw err))) (\<lambda>result.
     seqH (onKeys (settleClaim claimId (resultId c result))) (\<lambda>_.
     seqH (onWorld (postPersist c result)) (\<lambda>_. ret result)))"

definition settled :: "IdempotencyRecord \<Rightarrow> bool" where
  "settled r \<longleftrightarrow> ik_status r = KeyCompleted \<or> ik_status r = KeyUnknown"

definition retryFailed :: "('w, 'a) idempotent_call \<Rightarrow> key_name \<Rightarrow> string \<Rightarrow> ('w idempotent_state, 'a) handler" where
  "retryFailed c q i =
     seqH (onKeys (reclaimFailed i)) (\<lambda>reclaimed.
       if reclaimed then runAndSettle c i
       else seqH (onKeys (findKey q)) (\<lambda>afterReclaim.
         case afterReclaim of
           Some (_, r) \<Rightarrow> if settled r then onWorld (recover c (ik_resultRef r))
                          else throw (IdempotencyKeyConflictError ''already being retried'')
         | None \<Rightarrow> throw (IdempotencyKeyConflictError ''already being retried'')))"

definition afterConflict ::
    "('w, 'a) idempotent_call \<Rightarrow> key_name \<Rightarrow> string \<Rightarrow> sails_error \<Rightarrow> ('w idempotent_state, 'a) handler" where
  "afterConflict c q h err =
     seqH (onKeys (findKey q)) (\<lambda>found.
     seqH (requireH found err) (\<lambda>(i, existing).
     seqH (guardH (ik_requestHash existing = h) (ValidationError ''key was already used for a different request'')) (\<lambda>_.
     seqH (guardH (ik_status existing \<noteq> KeyInProgress) (IdempotencyKeyConflictError ''already being processed'')) (\<lambda>_.
     if settled existing then onWorld (recover c (ik_resultRef existing))
     else retryFailed c q i))))"

definition attemptH :: "('s, 'a) handler \<Rightarrow> ('s, 'a result) handler" where
  "attemptH m = (\<lambda>s. let (r, s') = m s in (Inr r, s'))"

definition withIdempotency ::
    "(string \<Rightarrow> string) \<Rightarrow> (nat \<Rightarrow> string) \<Rightarrow> WithIdempotencyParams \<Rightarrow> ('w, 'a) idempotent_call \<Rightarrow> ('w idempotent_state, 'a) handler" where
  "withIdempotency sha cuid params c =
     (case wi_key params of
        None \<Rightarrow> seqH (onWorld (persist c None)) (\<lambda>result. seqH (onWorld (postPersist c result)) (\<lambda>_. ret result))
      | Some key \<Rightarrow>
          if key = [] then seqH (onWorld (persist c None)) (\<lambda>result. seqH (onWorld (postPersist c result)) (\<lambda>_. ret result))
          else (let q = (wi_scope params, wi_participantId params, key);
                    h = hashIdempotentPayload sha (wi_requestPayload params) in
            seqH (attemptH (onKeys (claim cuid q h))) (\<lambda>claimed.
              case claimed of
                Inl err \<Rightarrow> if isUniqueConstraintError err then afterConflict c q h err else throw err
              | Inr claimId \<Rightarrow> runAndSettle c claimId)))"

section \<open>Interleaved requests\<close>

text \<open>
  Where a request is between two awaits: it is about to claim its key, to look up the row that was
  there, to reclaim a failed one, to look again, to run the durable write as the owner of the row,
  to give up after that write failed, to settle after it succeeded, or to settle as unknown.
  A request may also disappear at any point (\<open>crash\<close>), with the process that ran it.
\<close>

datatype phase =
    Claiming | Looking | Reclaiming string | Relooking
  | Persisting string | GivingUp string | Settling string string | Marking string string

type_synonym key_request = "phase \<times> key_name \<times> string"

text \<open>\<open>persisted\<close> records every success of a durable write, under the name of its key.\<close>

record key_system =
  kstore :: key_store
  active :: "nat \<rightharpoonup> key_request"
  persisted :: "(key_name \<times> string) list"

inductive key_step :: "(nat \<Rightarrow> string) \<Rightarrow> key_system \<Rightarrow> key_system \<Rightarrow> bool" for cuid where
  arrive: "active c k = None \<Longrightarrow> key_step cuid c (c\<lparr>active := (active c)(k \<mapsto> (Claiming, q, h))\<rparr>)"
| claimed: "active c k = Some (Claiming, q, h) \<Longrightarrow> claim cuid q h (kstore c) = (Inr i, s) \<Longrightarrow>
    key_step cuid c (c\<lparr>kstore := s, active := (active c)(k \<mapsto> (Persisting i, q, h))\<rparr>)"
| claim_lost: "active c k = Some (Claiming, q, h) \<Longrightarrow> claim cuid q h (kstore c) = (Inl e, s) \<Longrightarrow>
    key_step cuid c (c\<lparr>kstore := s,
      active := (active c)(k := if isUniqueConstraintError e then Some (Looking, q, h) else None)\<rparr>)"
| look: "active c k = Some (Looking, q, h) \<Longrightarrow> findKey q (kstore c) = (r, s) \<Longrightarrow>
    key_step cuid c (c\<lparr>kstore := s, active := (active c)(k :=
      (case r of Inr (Some (i, row)) \<Rightarrow> if ik_requestHash row = h \<and> ik_status row = KeyFailed then Some (Reclaiming i, q, h) else None
       | _ \<Rightarrow> None))\<rparr>)"
| reclaim: "active c k = Some (Reclaiming i, q, h) \<Longrightarrow> reclaimFailed i (kstore c) = (r, s) \<Longrightarrow>
    key_step cuid c (c\<lparr>kstore := s, active := (active c)(k :=
      (case r of Inl _ \<Rightarrow> None | Inr won \<Rightarrow> Some (if won then Persisting i else Relooking, q, h)))\<rparr>)"
| relook: "active c k = Some (Relooking, q, h) \<Longrightarrow> findKey q (kstore c) = (r, s) \<Longrightarrow>
    key_step cuid c (c\<lparr>kstore := s, active := (active c)(k := None)\<rparr>)"
| persist_ok: "active c k = Some (Persisting i, q, h) \<Longrightarrow>
    key_step cuid c (c\<lparr>active := (active c)(k \<mapsto> (Settling i ref, q, h)), persisted := persisted c @ [(q, ref)]\<rparr>)"
| persist_throws: "active c k = Some (Persisting i, q, h) \<Longrightarrow>
    key_step cuid c (c\<lparr>active := (active c)(k \<mapsto> (GivingUp i, q, h))\<rparr>)"
| give_up: "active c k = Some (GivingUp i, q, h) \<Longrightarrow> markFailed i (kstore c) = (r, s) \<Longrightarrow>
    key_step cuid c (c\<lparr>kstore := s, active := (active c)(k := None)\<rparr>)"
| settle: "active c k = Some (Settling i ref, q, h) \<Longrightarrow> markCompleted i ref (kstore c) = (r, s) \<Longrightarrow>
    key_step cuid c (c\<lparr>kstore := s, active := (active c)(k :=
      (case r of Inr _ \<Rightarrow> None | Inl _ \<Rightarrow> Some (Marking i ref, q, h)))\<rparr>)"
| mark: "active c k = Some (Marking i ref, q, h) \<Longrightarrow> markUnknown i ref (kstore c) = (r, s) \<Longrightarrow>
    key_step cuid c (c\<lparr>kstore := s, active := (active c)(k := None)\<rparr>)"
| crash: "key_step cuid c (c\<lparr>active := (active c)(k := None)\<rparr>)"

abbreviation key_steps :: "(nat \<Rightarrow> string) \<Rightarrow> key_system \<Rightarrow> key_system \<Rightarrow> bool" where
  "key_steps cuid \<equiv> (key_step cuid)\<^sup>*\<^sup>*"

definition idle_system :: "store_fault list \<Rightarrow> key_system" where
  "idle_system fs = \<lparr>kstore = \<lparr>key_rows = Map.empty, key_index = Map.empty, key_draws = 0, store_faults = fs\<rparr>,
     active = Map.empty, persisted = []\<rparr>"

section \<open>What the store operations do\<close>

text \<open>An answer that is lost leaves the effect, so an error tells nothing about the row.\<close>

lemma storeOp_run:
  assumes "storeOp m s = (r, s')"
  shows "\<exists>fs. (r, s') = m (s\<lparr>store_faults := fs\<rparr>) \<or> (\<exists>e. r = Inl e \<and> \<not> isUniqueConstraintError e
           \<and> (s' = s\<lparr>store_faults := fs\<rparr> \<or> s' = snd (m (s\<lparr>store_faults := fs\<rparr>))))"
proof (cases "store_faults s")
  case Nil
  then have same: "s\<lparr>store_faults := []\<rparr> = s" by simp
  have "m s = (r, s')" using Nil assms by (simp add: storeOp_def faultyOp_def)
  then show ?thesis by (intro exI [of _ "[]"]) (subst (1) same, simp)
next
  case (Cons f fs)
  with assms show ?thesis
    by (intro exI [of _ fs]) (cases f; auto simp: storeOp_def faultyOp_def Let_def isUniqueConstraintError_def)
qed

definition same_rows :: "key_store \<Rightarrow> key_store \<Rightarrow> bool" where
  "same_rows s s' \<longleftrightarrow> key_rows s' = key_rows s \<and> key_index s' = key_index s"

lemma findKey_run: "findKey q s = (r, s') \<Longrightarrow> same_rows s s' \<and> (\<forall>x. r = Inr x \<longrightarrow> x = keyed s q)"
  by (auto dest!: storeOp_run simp: findKey_def readH_def same_rows_def keyed_def split: option.splits)

lemma updateKey_run:
  assumes "updateKey i f s = (r, s')" and "key_rows s i = Some row"
  shows "key_index s' = key_index s"
    and "key_rows s' = (key_rows s)(i \<mapsto> f row) \<or> key_rows s' = key_rows s \<and> (\<exists>e. r = Inl e)"
  using assms by (auto dest!: storeOp_run simp: updateKey_def)

lemma reclaim_run:
  assumes "reclaimFailed i s = (r, s')" and "key_rows s i = Some row"
  shows "same_rows s s' \<and> r \<noteq> Inr True
    \<or> ik_status row = KeyFailed \<and> key_index s' = key_index s \<and> r \<noteq> Inr False
      \<and> key_rows s' = (key_rows s)(i \<mapsto> row\<lparr>ik_status := KeyInProgress\<rparr>)"
  using assms
  by (auto dest!: storeOp_run simp: reclaimFailed_def setStatusWhere_def Let_def same_rows_def split: if_splits)

lemma claim_run:
  assumes "claim cuid q h s = (r, s')"
  shows "same_rows s s' \<and> (\<exists>e. r = Inl e)
    \<or> (\<exists>i. key_index s q = None \<and> key_rows s i = None \<and> (r = Inr i \<or> (\<exists>e. r = Inl e \<and> \<not> isUniqueConstraintError e))
       \<and> key_index s' = (key_index s)(q \<mapsto> i)
       \<and> key_rows s' = (key_rows s)(i \<mapsto> \<lparr>ik_name = q, ik_requestHash = h, ik_status = KeyInProgress, ik_resultRef = None\<rparr>))"
  using assms by (auto dest!: storeOp_run simp: claim_def Let_def same_rows_def split: if_splits)

text \<open>The conditional update is a claim in the sense of the shared interface.\<close>

definition key_status :: "key_store \<Rightarrow> string \<Rightarrow> IdempotencyKeyStatus option" where
  "key_status s i = map_option ik_status (key_rows s i)"

interpretation keyclaim: status_claim setStatusWhere key_status
  by unfold_locales (auto simp: setStatusWhere_def key_status_def fun_eq_iff split: option.splits)

section \<open>The invariant\<close>

text \<open>
  The index and the rows agree. A row has at most one owner, the request that is between winning
  the row and settling it. Until its durable write succeeds the row is in progress; from then on
  the row cannot fail, and when it is settled it refers to what was written.
\<close>

definition store_ok :: "key_store \<Rightarrow> bool" where
  "store_ok s \<longleftrightarrow> (\<forall>q i. key_index s q = Some i \<longleftrightarrow> map_option ik_name (key_rows s i) = Some q)"

definition row_ok :: "(key_name \<times> string) list \<Rightarrow> IdempotencyRecord \<Rightarrow> bool" where
  "row_ok log r \<longleftrightarrow>
     (if settled r then \<exists>ref. ik_resultRef r = Some ref \<and> (ik_name r, ref) \<in> set log
      else ik_status r = KeyFailed \<longrightarrow> ik_name r \<notin> fst ` set log)"

fun owned :: "phase \<Rightarrow> string option" where
  "owned (Persisting i) = Some i"
| "owned (GivingUp i) = Some i"
| "owned (Settling i _) = Some i"
| "owned (Marking i _) = Some i"
| "owned _ = None"

fun phase_ok :: "(key_name \<times> string) list \<Rightarrow> key_store \<Rightarrow> phase \<Rightarrow> key_name \<Rightarrow> bool" where
  "phase_ok log s (Persisting i) q = (\<exists>r. key_rows s i = Some r \<and> ik_name r = q \<and> ik_status r = KeyInProgress \<and> q \<notin> fst ` set log)"
| "phase_ok log s (GivingUp i) q = (\<exists>r. key_rows s i = Some r \<and> ik_name r = q \<and> ik_status r = KeyInProgress \<and> q \<notin> fst ` set log)"
| "phase_ok log s (Settling i ref) q = (\<exists>r. key_rows s i = Some r \<and> ik_name r = q \<and> ik_status r = KeyInProgress \<and> (q, ref) \<in> set log)"
| "phase_ok log s (Marking i ref) q = (\<exists>r. key_rows s i = Some r \<and> ik_name r = q \<and> ik_status r \<noteq> KeyFailed \<and> (q, ref) \<in> set log)"
| "phase_ok log s (Reclaiming i) q = (\<exists>r. key_rows s i = Some r \<and> ik_name r = q)"
| "phase_ok log s _ q = True"

definition owner :: "key_request option \<Rightarrow> string option" where
  "owner x = (case x of None \<Rightarrow> None | Some (p, _, _) \<Rightarrow> owned p)"

definition request_ok :: "(key_name \<times> string) list \<Rightarrow> key_store \<Rightarrow> key_request option \<Rightarrow> bool" where
  "request_ok log s x = (case x of None \<Rightarrow> True | Some (p, q, _) \<Rightarrow> phase_ok log s p q)"

lemma request_simps [simp]:
  "owner None = None" "owner (Some (p, q, h)) = owned p"
  "request_ok log s None" "request_ok log s (Some (p, q, h)) = phase_ok log s p q"
  by (simp_all add: owner_def request_ok_def)

definition unique_owner :: "(nat \<Rightarrow> string option) \<Rightarrow> bool" where
  "unique_owner f \<longleftrightarrow> (\<forall>k k' i. f k = Some i \<longrightarrow> f k' = Some i \<longrightarrow> k = k')"

lemma unique_owner_update:
  assumes "unique_owner f" and "\<And>i k'. y = Some i \<Longrightarrow> f k' = Some i \<Longrightarrow> k' = k"
  shows "unique_owner (f(k := y))"
  using assms unfolding unique_owner_def by (metis fun_upd_apply)

lemma owner_update: "(\<lambda>j. owner (if j = k then x else a j)) = (\<lambda>j. owner (a j))(k := owner x)"
  by auto

definition key_inv :: "key_system \<Rightarrow> bool" where
  "key_inv c \<longleftrightarrow> store_ok (kstore c) \<and> distinct (map fst (persisted c))
     \<and> (\<forall>q \<in> fst ` set (persisted c). key_index (kstore c) q \<noteq> None)
     \<and> (\<forall>i r. key_rows (kstore c) i = Some r \<longrightarrow> row_ok (persisted c) r)
     \<and> (\<forall>k. request_ok (persisted c) (kstore c) (active c k))
     \<and> unique_owner (\<lambda>k. owner (active c k))"

lemma key_inv_request: "key_inv c \<Longrightarrow> active c k = Some (p, q, h) \<Longrightarrow> phase_ok (persisted c) (kstore c) p q"
  unfolding key_inv_def by (metis request_simps(4))

lemma key_inv_indexed: "key_inv c \<Longrightarrow> key_rows (kstore c) i = Some r \<Longrightarrow> key_index (kstore c) (ik_name r) = Some i"
  unfolding key_inv_def store_ok_def by (metis option.map(2))

lemma key_inv_found: "key_inv c \<Longrightarrow> keyed (kstore c) q = Some (i, r) \<Longrightarrow> key_rows (kstore c) i = Some r \<and> ik_name r = q"
proof -
  assume "key_inv c" and found: "keyed (kstore c) q = Some (i, r)"
  then have "key_index (kstore c) q = Some i" and r: "key_rows (kstore c) i = Some r"
    by (auto simp: keyed_def split: option.splits)
  then have "map_option ik_name (key_rows (kstore c) i) = Some q"
    using \<open>key_inv c\<close> unfolding key_inv_def store_ok_def by blast
  with r show ?thesis by simp
qed

lemma owner_alone:
  "key_inv c \<Longrightarrow> owner (active c k) = Some i \<Longrightarrow> owner (active c k') = Some i \<Longrightarrow> k' = k"
  unfolding key_inv_def unique_owner_def by blast

lemma owner_SomeD:
  assumes "owner x = Some i" and "request_ok log s x"
  shows "\<exists>p q h r. x = Some (p, q, h) \<and> key_rows s i = Some r \<and> ik_name r = q \<and> ik_status r \<noteq> KeyFailed"
proof (cases x)
  case (Some y)
  obtain p q h where "y = (p, q, h)" by (cases y)
  with Some assms show ?thesis by (cases p) auto
qed (use assms in simp)

lemma request_ok_same: "same_rows s s' \<Longrightarrow> request_ok log s' x = request_ok log s x"
proof -
  assume "same_rows s s'"
  then have "phase_ok log s' p q = phase_ok log s p q" for p q by (cases p) (simp_all add: same_rows_def)
  then show ?thesis by (auto simp: request_ok_def split: option.split)
qed

lemma request_ok_other:
  assumes "request_ok log s x" and "owner x \<noteq> Some i" and "key_rows s' = (key_rows s)(i \<mapsto> r')"
    and "\<And>r. key_rows s i = Some r \<Longrightarrow> ik_name r' = ik_name r"
  shows "request_ok log s' x"
proof (cases x)
  case (Some y)
  obtain p q h where "y = (p, q, h)" by (cases y)
  with Some assms show ?thesis by (cases p) auto
qed simp

lemma key_inv_same:
  assumes "key_inv c" and "same_rows (kstore c) s"
  shows "key_inv (c\<lparr>kstore := s\<rparr>)"
  using assms request_ok_same [OF assms(2)] by (simp add: key_inv_def store_ok_def same_rows_def)

text \<open>A request moves on without touching the store; it owns what it owned before, or nothing.\<close>

lemma key_inv_moves:
  assumes "key_inv c" and "request_ok (persisted c) (kstore c) x" and "owner x \<in> {None, owner (active c k)}"
  shows "key_inv (c\<lparr>active := (active c)(k := x)\<rparr>)"
proof -
  have "unique_owner ((\<lambda>j. owner (active c j))(k := owner x))"
  proof (rule unique_owner_update)
    show "k' = k" if "owner x = Some i" "owner (active c k') = Some i" for i k'
      using that assms(3) by (intro owner_alone [OF assms(1), of k i k']) auto
  qed (use assms(1) in \<open>simp add: key_inv_def\<close>)
  with assms(1,2) show ?thesis unfolding key_inv_def by (simp add: owner_update)
qed

text \<open>A row changes while nobody else owns it.\<close>

lemma key_inv_row:
  assumes inv: "key_inv c" and r: "key_rows (kstore c) i = Some r"
    and s': "key_index s' = key_index (kstore c)" "key_rows s' = (key_rows (kstore c))(i \<mapsto> r')"
    and r': "ik_name r' = ik_name r" "row_ok (persisted c) r'"
    and alone: "\<And>k'. owner (active c k') = Some i \<Longrightarrow> k' = k"
    and x: "request_ok (persisted c) s' x" "owner x \<in> {None, Some i}"
  shows "key_inv (c\<lparr>kstore := s', active := (active c)(k := x)\<rparr>)"
proof -
  have "request_ok (persisted c) s' (((active c)(k := x)) k')" for k'
    using inv r r' alone [of k'] x s' request_ok_other [OF _ _ s'(2), of "persisted c" "active c k'"]
    by (auto simp: key_inv_def)
  moreover have "unique_owner ((\<lambda>j. owner (active c j))(k := owner x))"
    using inv alone x by (intro unique_owner_update) (auto simp: key_inv_def)
  moreover have "map_option ik_name (key_rows s' j) = map_option ik_name (key_rows (kstore c) j)" for j
    using s' r r' by simp
  then have "store_ok s'" using inv unfolding key_inv_def store_ok_def s'(1) by metis
  moreover have "\<forall>j r0. key_rows s' j = Some r0 \<longrightarrow> row_ok (persisted c) r0"
    using inv s' r' by (auto simp: key_inv_def)
  ultimately show ?thesis using inv s'(1) unfolding key_inv_def by (simp add: owner_update)
qed

lemma failed_unowned:
  assumes "key_inv c" and "key_rows (kstore c) i = Some r" and "ik_status r = KeyFailed"
  shows "owner (active c k) \<noteq> Some i"
  using assms owner_SomeD [of "active c k" i "persisted c" "kstore c"] by (auto simp: key_inv_def)

lemma key_inv_claimed:
  assumes inv: "key_inv c" and new: "key_index (kstore c) q = None" "key_rows (kstore c) i = None"
    and s': "key_index s' = (key_index (kstore c))(q \<mapsto> i)"
      "key_rows s' = (key_rows (kstore c))(i \<mapsto> \<lparr>ik_name = q, ik_requestHash = h, ik_status = KeyInProgress, ik_resultRef = None\<rparr>)"
    and x: "x = None \<or> x = Some (Persisting i, q, h)"
  shows "key_inv (c\<lparr>kstore := s', active := (active c)(k := x)\<rparr>)"
proof -
  have unowned: "owner (active c k') \<noteq> Some i" for k'
    using inv new owner_SomeD [of "active c k'" i "persisted c" "kstore c"] by (auto simp: key_inv_def)
  have q: "q \<notin> fst ` set (persisted c)" using inv new(1) unfolding key_inv_def by blast
  have "request_ok (persisted c) s' (((active c)(k := x)) k')" for k'
    using inv new unowned [of k'] x s' q request_ok_other [OF _ _ s'(2), of "persisted c" "active c k'"]
    by (auto simp: key_inv_def)
  moreover have "unique_owner ((\<lambda>j. owner (active c j))(k := owner x))"
    using inv unowned x by (intro unique_owner_update) (auto simp: key_inv_def)
  moreover have "store_ok s'" using inv new s' by (simp add: key_inv_def store_ok_def) (metis option.distinct(1))
  moreover have "\<forall>j r0. key_rows s' j = Some r0 \<longrightarrow> row_ok (persisted c) r0"
    using inv s' by (auto simp: key_inv_def row_ok_def settled_def)
  moreover have "\<forall>q' \<in> fst ` set (persisted c). key_index s' q' \<noteq> None"
    using inv s' unfolding key_inv_def by auto
  ultimately show ?thesis using inv unfolding key_inv_def by (simp add: owner_update)
qed

lemma key_inv_persisted:
  assumes inv: "key_inv c" and k: "active c k = Some (Persisting i, q, h)"
  shows "key_inv (c\<lparr>active := (active c)(k \<mapsto> (Settling i ref, q, h)), persisted := persisted c @ [(q, ref)]\<rparr>)"
proof -
  let ?log = "persisted c @ [(q, ref)]"
  obtain r where r: "key_rows (kstore c) i = Some r" "ik_name r = q" "ik_status r = KeyInProgress" "q \<notin> fst ` set (persisted c)"
    using key_inv_request [OF inv k] by auto
  have named: "j = i" if "key_rows (kstore c) j = Some r'" "ik_name r' = q" for j r'
  proof -
    have "key_index (kstore c) q = Some j" "key_index (kstore c) q = Some i"
      using key_inv_indexed [OF inv that(1)] key_inv_indexed [OF inv r(1)] that(2) r(2) by simp_all
    then show ?thesis by simp
  qed
  have rows: "row_ok ?log r'" if "key_rows (kstore c) j = Some r'" for j r'
  proof (cases "j = i")
    case True
    with that r show ?thesis by (simp add: row_ok_def settled_def)
  next
    case False
    with that named have "ik_name r' \<noteq> q" by blast
    moreover have "row_ok (persisted c) r'" using inv that by (auto simp: key_inv_def)
    ultimately show ?thesis by (auto simp: row_ok_def split: if_splits)
  qed
  have others: "request_ok ?log (kstore c) (active c k')" if "k' \<noteq> k" for k'
  proof (cases "active c k'")
    case (Some y)
    obtain p q' h' where y: "y = (p, q', h')" by (cases y)
    with Some inv have ok: "phase_ok (persisted c) (kstore c) p q'" using key_inv_request by blast
    have "owned p \<noteq> Some i" using owner_alone [OF inv, of k i k'] that k Some y by auto
    with ok named have "q' \<noteq> q \<or> owned p = None" by (cases p) auto
    with ok Some y show ?thesis by (cases p) auto
  qed simp
  have "unique_owner ((\<lambda>j. owner (active c j))(k := owner (Some (Settling i ref, q, h))))"
  proof (rule unique_owner_update)
    show "k' = k" if "owner (Some (Settling i ref, q, h)) = Some j" "owner (active c k') = Some j" for j k'
      using that k by (intro owner_alone [OF inv, of k j k']) auto
  qed (use inv in \<open>simp add: key_inv_def\<close>)
  moreover have "key_index (kstore c) q \<noteq> None" using key_inv_indexed [OF inv r(1)] r(2) by simp
  ultimately show ?thesis using inv r rows others unfolding key_inv_def by (auto simp: owner_update)
qed

lemma key_inv_settles:
  assumes inv: "key_inv c" and k: "active c k = Some (p, q, h)" and own: "owned p = Some i"
    and upd: "updateKey i f (kstore c) = (r, s)"
    and f: "\<And>row. key_rows (kstore c) i = Some row \<Longrightarrow> ik_name row = q \<Longrightarrow> ik_name (f row) = q \<and> row_ok (persisted c) (f row)"
    and x: "\<And>row. key_rows (kstore c) i = Some row \<Longrightarrow> ik_name row = q \<Longrightarrow>
      request_ok (persisted c) (kstore c) (x r) \<and> owner (x r) \<in> {None, Some i} \<and>
      (\<forall>s'. key_rows s' i = Some (f row) \<longrightarrow> request_ok (persisted c) s' (x r))"
  shows "key_inv (c\<lparr>kstore := s, active := (active c)(k := x r)\<rparr>)"
proof -
  obtain row where row: "key_rows (kstore c) i = Some row" "ik_name row = q"
    using owner_SomeD [of "active c k" i "persisted c" "kstore c"] k own key_inv_request [OF inv k] by auto
  show ?thesis
  proof (cases "key_rows s = (key_rows (kstore c))(i \<mapsto> f row)")
    case True
    then show ?thesis
      using key_inv_row [OF inv row(1) updateKey_run(1) [OF upd row(1)] True] f [OF row] x [OF row] row
        owner_alone [OF inv, of k i] k own by auto
  next
    case False
    with updateKey_run [OF upd row(1)] have "same_rows (kstore c) s" by (auto simp: same_rows_def)
    then have "key_inv (c\<lparr>kstore := s\<rparr>)" and same: "\<And>y. request_ok (persisted c) s y = request_ok (persisted c) (kstore c) y"
      using inv key_inv_same request_ok_same by blast+
    from key_inv_moves [OF this(1), of "x r" k] show ?thesis using x [OF row] k own same by simp
  qed
qed

lemma key_step_inv: "key_step cuid c c' \<Longrightarrow> key_inv c \<Longrightarrow> key_inv c'"
proof (induction rule: key_step.induct)
  case (claimed c k q h i s)
  then show ?case using claim_run [OF claimed(2)] by (auto intro!: key_inv_claimed)
next
  case (claim_lost c k q h e s)
  from claim_run [OF claim_lost(2)] show ?case
  proof (elim disjE exE conjE)
    assume "same_rows (kstore c) s"
    then have "key_inv (c\<lparr>kstore := s\<rparr>)" using claim_lost key_inv_same by blast
    from key_inv_moves [OF this, of "if isUniqueConstraintError e then Some (Looking, q, h) else None" k]
    show ?thesis by simp
  qed (use claim_lost in \<open>auto intro!: key_inv_claimed\<close>)
next
  case (look c k q h r s)
  let ?x = "case r of Inr (Some (i, row)) \<Rightarrow> if ik_requestHash row = h \<and> ik_status row = KeyFailed then Some (Reclaiming i, q, h) else None
       | _ \<Rightarrow> None"
  have s: "same_rows (kstore c) s" and r: "\<And>x. r = Inr x \<Longrightarrow> x = keyed (kstore c) q" using findKey_run [OF look(2)] by auto
  have "request_ok (persisted c) (kstore c) ?x" and "owner ?x = None"
    using key_inv_found [OF look(3), of q] r by (auto split: sum.split option.split)
  then show ?case using key_inv_moves [OF key_inv_same [OF look(3) s], of ?x k] by (simp add: request_ok_same [OF s])
next
  case (reclaim c k i q h r s)
  let ?x = "case r of Inl _ \<Rightarrow> None | Inr won \<Rightarrow> Some (if won then Persisting i else Relooking, q, h)"
  obtain row where row: "key_rows (kstore c) i = Some row" "ik_name row = q"
    using key_inv_request [OF reclaim(3,1)] by auto
  from reclaim_run [OF reclaim(2) row(1)] show ?case
  proof (elim disjE conjE)
    assume s: "same_rows (kstore c) s" and "r \<noteq> Inr True"
    then have "?x \<in> {None, Some (Relooking, q, h)}" by (auto split: sum.split)
    then show ?thesis using key_inv_moves [OF key_inv_same [OF reclaim(3) s], of ?x k] by auto
  next
    assume failed: "ik_status row = KeyFailed" and s: "key_index s = key_index (kstore c)"
      "key_rows s = (key_rows (kstore c))(i \<mapsto> row\<lparr>ik_status := KeyInProgress\<rparr>)" and "r \<noteq> Inr False"
    have "row_ok (persisted c) row" using reclaim(3) row by (auto simp: key_inv_def)
    then have "q \<notin> fst ` set (persisted c)" using failed row by (simp add: row_ok_def settled_def)
    with \<open>r \<noteq> Inr False\<close> show ?thesis
      using key_inv_row [OF reclaim(3) row(1) s, of k ?x] failed_unowned [OF reclaim(3) row(1) failed] row s
      by (auto simp: row_ok_def settled_def split: sum.split)
  qed
next
  case (relook c k q h r s)
  then show ?case using findKey_run [OF relook(2)] key_inv_moves [OF key_inv_same, of c s None k] by simp
next
  case (persist_ok c k i q h ref)
  then show ?case using key_inv_persisted by blast
next
  case (give_up c k i q h r s)
  then show ?case
    using key_inv_settles [OF give_up(3,1) _ give_up(2) [unfolded markFailed_def], of "\<lambda>_. None"] key_inv_request [OF give_up(3,1)]
    by (auto simp: row_ok_def settled_def)
next
  case (settle c k i ref q h r s)
  then show ?case
    using key_inv_settles [OF settle(3,1) _ settle(2) [unfolded markCompleted_def], of "\<lambda>r. case r of Inr _ \<Rightarrow> None | Inl _ \<Rightarrow> Some (Marking i ref, q, h)"]
      key_inv_request [OF settle(3,1)]
    by (auto simp: row_ok_def settled_def split: sum.splits)
next
  case (mark c k i ref q h r s)
  then show ?case
    using key_inv_settles [OF mark(3,1) _ mark(2) [unfolded markUnknown_def], of "\<lambda>_. None"] key_inv_request [OF mark(3,1)]
    by (auto simp: row_ok_def settled_def)
qed (auto intro!: key_inv_moves dest: key_inv_request)

lemma key_inv_reached: "key_steps cuid (idle_system fs) c \<Longrightarrow> key_inv c"
proof (induction rule: rtranclp_induct)
  case base
  show ?case by (simp add: idle_system_def key_inv_def store_ok_def unique_owner_def)
next
  case (step c c')
  then show ?case using key_step_inv by blast
qed

section \<open>At most once\<close>

definition written :: "key_name \<Rightarrow> key_system \<Rightarrow> string list" where
  "written q c = map snd (filter (\<lambda>x. fst x = q) (persisted c))"

lemma written_unique: "distinct (map fst log) \<Longrightarrow> (q, ref) \<in> set log \<Longrightarrow> filter (\<lambda>x. fst x = q) log = [(q, ref)]"
proof (induction log)
  case (Cons x log)
  show ?case
  proof (cases "fst x = q")
    case True
    then have "filter (\<lambda>x. fst x = q) log = []"
      using Cons.prems(1) by (auto simp: filter_empty_conv) (metis fst_conv image_eqI)
    moreover have "x = (q, ref)"
      using True Cons.prems by (metis distinct.simps(2) fst_conv image_eqI list.simps(9) list.set_map set_ConsD)
    ultimately show ?thesis using True by simp
  next
    case False
    with Cons show ?thesis by auto
  qed
qed simp

text \<open>
  C19: however the requests are interleaved, whatever the store rejects or fails to acknowledge, and
  wherever requests crash, the durable write of a key succeeds at most once; at most one request at a
  time owns the key; a settled row refers to exactly what was written, and a failed row, which may
  be retried, stands for a write that never happened.
\<close>

theorem persist_at_most_once:
  assumes "key_steps cuid (idle_system fs) c"
  shows "length (written q c) \<le> 1
    \<and> (\<forall>k k' i. owner (active c k) = Some i \<and> owner (active c k') = Some i \<longrightarrow> k = k')
    \<and> (\<forall>i r. keyed (kstore c) q = Some (i, r) \<longrightarrow>
         (settled r \<longrightarrow> (\<exists>ref. written q c = [ref] \<and> ik_resultRef r = Some ref))
         \<and> (ik_status r = KeyFailed \<longrightarrow> written q c = []))"
proof -
  have inv: "key_inv c" using assms by (rule key_inv_reached)
  then have d: "distinct (map fst (persisted c))" by (simp add: key_inv_def)
  have "written q c = [] \<or> (\<exists>ref. written q c = [ref])"
    using written_unique [OF d] by (cases "q \<in> fst ` set (persisted c)") (auto simp: written_def filter_empty_conv)
  moreover have "(settled r \<longrightarrow> (\<exists>ref. written q c = [ref] \<and> ik_resultRef r = Some ref)) \<and> (ik_status r = KeyFailed \<longrightarrow> written q c = [])"
    if "keyed (kstore c) q = Some (i, r)" for i r
  proof -
    have "ik_name r = q" and "row_ok (persisted c) r"
      using key_inv_found [OF inv that] inv by (auto simp: key_inv_def)
    then show ?thesis using written_unique [OF d, of q]
      by (auto simp: row_ok_def written_def settled_def filter_empty_conv image_iff split: if_splits)
  qed
  ultimately show ?thesis using owner_alone [OF inv] by (auto simp: written_def)
qed

section \<open>The sequential code is a run of the system\<close>

text \<open>What a request does to the state of its module, and what it writes under its key.\<close>

definition world_effect ::
    "('w, 'a) idempotent_call \<Rightarrow> key_name \<Rightarrow> 'w \<Rightarrow> 'w \<Rightarrow> (key_name \<times> string) list \<Rightarrow> bool" where
  "world_effect call q w w' ws \<longleftrightarrow>
     ws = [] \<and> (w' = w \<or> (\<exists>ref. w' = snd (recover call ref w)) \<or> (\<exists>i e. persist call (Some i) w = (Inl e, w')))
     \<or> (\<exists>i a w1. persist call (Some i) w = (Inr a, w1) \<and> ws = [(q, resultId call a)] \<and> w' = snd (postPersist call a w1))"

abbreviation snapshot :: "key_system \<Rightarrow> nat \<Rightarrow> key_store \<Rightarrow> key_request option \<Rightarrow> (key_name \<times> string) list \<Rightarrow> key_system" where
  "snapshot c k t x ws \<equiv> \<lparr>kstore = t, active = (active c)(k := x), persisted = persisted c @ ws\<rparr>"

definition runs_as ::
    "(nat \<Rightarrow> string) \<Rightarrow> key_system \<Rightarrow> nat \<Rightarrow> key_request option \<Rightarrow> ('w, 'a) idempotent_call \<Rightarrow> key_name \<Rightarrow> 'w idempotent_state \<Rightarrow> 'w idempotent_state \<Rightarrow> bool" where
  "runs_as cuid c k x call q s s' \<longleftrightarrow>
     (\<exists>ws. world_effect call q (world s) (world s') ws
       \<and> key_steps cuid (snapshot c k (keys s) x [])
           (snapshot c k (keys s') None ws))"

lemma runs_as_step:
  assumes "key_step cuid (snapshot c k (keys s) x []) (snapshot c k (keys s1) y [])"
    and "world s1 = world s" and "runs_as cuid c k y call q s1 s'"
  shows "runs_as cuid c k x call q s s'"
proof -
  obtain ws where "world_effect call q (world s1) (world s') ws"
    and "key_steps cuid (snapshot c k (keys s1) y [])
           (snapshot c k (keys s') None ws)"
    using assms(3) by (auto simp: runs_as_def)
  with assms(1,2) show ?thesis
    unfolding runs_as_def by (intro exI [of _ ws] conjI) (simp, rule converse_rtranclp_into_rtranclp)
qed

lemma runs_as_end:
  assumes "key_step cuid (snapshot c k (keys s) x []) (snapshot c k (keys s') None [])"
    and "world_effect call q (world s) (world s') []"
  shows "runs_as cuid c k x call q s s'"
  using assms unfolding runs_as_def by (intro exI [of _ "[]"]) (simp add: r_into_rtranclp)

lemma settle_steps:
  assumes "settleClaim i ref t = (r, t')"
  shows "key_steps cuid (snapshot c k t (Some (Settling i ref, q, h)) ws) (snapshot c k t' None ws)"
proof -
  let ?c = "\<lambda>t x. snapshot c k t x ws"
  obtain r1 t1 where m: "markCompleted i ref t = (r1, t1)" by fastforce
  have step: "key_step cuid (?c t (Some (Settling i ref, q, h))) (?c t1 (case r1 of Inr _ \<Rightarrow> None | Inl _ \<Rightarrow> Some (Marking i ref, q, h)))"
    using key_step.settle [of "?c t (Some (Settling i ref, q, h))" k i ref q h r1 t1 cuid] m by simp
  show ?thesis
  proof (cases r1)
    case (Inr u)
    with m assms step show ?thesis by (auto simp: settleClaim_def catchH_def)
  next
    case (Inl e)
    obtain r2 t2 where u: "markUnknown i ref t1 = (r2, t2)" by fastforce
    have "t2 = t'" using assms m u Inl by (auto simp: settleClaim_def catchH_def ret_def split: sum.splits)
    then have "key_step cuid (?c t1 (Some (Marking i ref, q, h))) (?c t' None)" (is "key_step _ ?m _")
      using key_step.mark [of "?c t1 (Some (Marking i ref, q, h))" k i ref q h r2 t2 cuid] u by simp
    moreover have "key_step cuid (?c t (Some (Settling i ref, q, h))) ?m" using step Inl by simp
    ultimately show ?thesis by (intro converse_rtranclp_into_rtranclp [OF _ r_into_rtranclp])
  qed
qed

lemma runAndSettle_runs:
  assumes run: "runAndSettle call i s = (r, s')"
  shows "runs_as cuid c k (Some (Persisting i, q, h)) call q s s'"
proof -
  let ?c = "snapshot c k"
  obtain r1 w1 where p: "persist call (Some i) (world s) = (r1, w1)" by fastforce
  show ?thesis
  proof (cases r1)
    case (Inl e)
    obtain r2 t2 where m: "markFailed i (keys s) = (r2, t2)" by fastforce
    have s': "keys s' = t2" "world s' = w1"
      using run p m Inl by (auto simp: runAndSettle_def seqH_def catchH_def onWorld_def onKeys_def throw_def split: sum.splits)
    have "key_step cuid (?c (keys s) (Some (Persisting i, q, h)) []) (?c (keys s) (Some (GivingUp i, q, h)) [])"
      using key_step.persist_throws [of "?c (keys s) (Some (Persisting i, q, h)) []" k i q h cuid] by simp
    moreover have "key_step cuid (?c (keys s) (Some (GivingUp i, q, h)) []) (?c t2 None [])"
      using key_step.give_up [of "?c (keys s) (Some (GivingUp i, q, h)) []" k i q h r2 t2 cuid] m by simp
    ultimately have "key_steps cuid (?c (keys s) (Some (Persisting i, q, h)) []) (?c t2 None [])"
      by (rule converse_rtranclp_into_rtranclp [OF _ r_into_rtranclp])
    moreover have "world_effect call q (world s) (world s') []" using p Inl s' by (auto simp: world_effect_def)
    ultimately show ?thesis unfolding runs_as_def s' by (intro exI [of _ "[]"]) simp
  next
    case (Inr a)
    let ?ref = "resultId call a"
    obtain r2 t2 where m: "settleClaim i ?ref (keys s) = (r2, t2)" by fastforce
    have "r2 = Inr ()"
      using m by (auto simp: settleClaim_def catchH_def ret_def split: prod.splits sum.splits)
    then have s': "keys s' = t2" "world s' = snd (postPersist call a w1)"
      using run p m Inr by (auto simp: runAndSettle_def seqH_def catchH_def onWorld_def onKeys_def ret_def split: prod.splits sum.splits)
    have "key_step cuid (?c (keys s) (Some (Persisting i, q, h)) []) (?c (keys s) (Some (Settling i ?ref, q, h)) [(q, ?ref)])"
      using key_step.persist_ok [of "?c (keys s) (Some (Persisting i, q, h)) []" k i q h cuid ?ref] by simp
    then have "key_steps cuid (?c (keys s) (Some (Persisting i, q, h)) []) (?c t2 None [(q, ?ref)])"
      using settle_steps [OF m] by (rule converse_rtranclp_into_rtranclp)
    moreover have "world_effect call q (world s) (world s') [(q, ?ref)]" using p Inr s' by (auto simp: world_effect_def)
    ultimately show ?thesis unfolding runs_as_def s' by (intro exI [of _ "[(q, ?ref)]"]) simp
  qed
qed

lemma world_effect_none: "world_effect call q w w []"
  by (simp add: world_effect_def)

lemma world_effect_recover: "recover call ref w = (res, w') \<Longrightarrow> world_effect call q w w' []"
  by (metis snd_conv world_effect_def)

lemma relook_runs:
  assumes "findKey q (keys s) = (r, t)" and "keys s' = t" and "world_effect call q (world s) (world s') []"
  shows "runs_as cuid c k (Some (Relooking, q, h)) call q s s'"
  using assms key_step.relook [of "snapshot c k (keys s) (Some (Relooking, q, h)) []" k q h r t cuid]
  by (intro runs_as_end) simp_all

lemma reclaim_runs:
  assumes run: "retryFailed call q i s = (res, s')"
  shows "runs_as cuid c k (Some (Reclaiming i, q, h)) call q s s'"
proof -
  obtain r1 t1 where m: "reclaimFailed i (keys s) = (r1, t1)" by fastforce
  let ?x = "case r1 of Inl _ \<Rightarrow> None | Inr won \<Rightarrow> Some (if won then Persisting i else Relooking, q, h)"
  let ?s = "s\<lparr>keys := t1\<rparr>"
  have step: "key_step cuid (snapshot c k (keys s) (Some (Reclaiming i, q, h)) []) (snapshot c k (keys ?s) ?x [])"
    using key_step.reclaim [of "snapshot c k (keys s) (Some (Reclaiming i, q, h)) []" k i q h r1 t1 cuid] m by simp
  consider (err) e where "r1 = Inl e" | (won) "r1 = Inr True" | (lost) "r1 = Inr False" by (cases r1) auto
  then show ?thesis
  proof cases
    case err
    with run m have "s' = ?s" by (simp add: retryFailed_def seqH_def onKeys_def)
    with step err show ?thesis by (intro runs_as_end) (simp_all add: world_effect_none)
  next
    case won
    with run m have "runAndSettle call i ?s = (res, s')" by (simp add: retryFailed_def seqH_def onKeys_def)
    then have "runs_as cuid c k ?x call q ?s s'" using won runAndSettle_runs by simp
    then show ?thesis by (intro runs_as_step [OF step]) simp_all
  next
    case lost
    obtain r2 t2 where f: "findKey q t1 = (r2, t2)" by fastforce
    then have "keys s' = t2 \<and> world_effect call q (world ?s) (world s') []"
      using lost run m
      by (auto simp: retryFailed_def seqH_def onKeys_def onWorld_def throw_def world_effect_none intro: world_effect_recover
          split: sum.splits option.splits if_splits prod.splits)
    then have "runs_as cuid c k ?x call q ?s s'" using f lost relook_runs [of q ?s r2 t2 s' call cuid c k h] by simp
    then show ?thesis by (intro runs_as_step [OF step]) simp_all
  qed
qed

lemma afterConflict_runs:
  assumes run: "afterConflict call q h err s = (res, s')"
  shows "runs_as cuid c k (Some (Looking, q, h)) call q s s'"
proof -
  obtain r1 t1 where f: "findKey q (keys s) = (r1, t1)" by fastforce
  let ?x = "case r1 of Inr (Some (i, row)) \<Rightarrow> if ik_requestHash row = h \<and> ik_status row = KeyFailed then Some (Reclaiming i, q, h) else None
       | _ \<Rightarrow> None"
  let ?s = "s\<lparr>keys := t1\<rparr>"
  have step: "key_step cuid (snapshot c k (keys s) (Some (Looking, q, h)) []) (snapshot c k (keys ?s) ?x [])"
    using key_step.look [of "snapshot c k (keys s) (Some (Looking, q, h)) []" k q h r1 t1 cuid] f by simp
  show ?thesis
  proof (cases "\<exists>i row. r1 = Inr (Some (i, row)) \<and> ik_requestHash row = h \<and> ik_status row = KeyFailed")
    case True
    then obtain i row where r1: "r1 = Inr (Some (i, row))" "ik_requestHash row = h" "ik_status row = KeyFailed" by blast
    with run f have "runs_as cuid c k (Some (Reclaiming i, q, h)) call q ?s s'"
      by (intro reclaim_runs) (simp add: afterConflict_def seqH_def onKeys_def requireH_def guardH_def ret_def settled_def)
    with r1 show ?thesis by (intro runs_as_step [OF step]) simp_all
  next
    case False
    then have "keys s' = t1 \<and> world_effect call q (world s) (world s') []"
      using run f
      by (auto simp: afterConflict_def seqH_def onKeys_def onWorld_def requireH_def guardH_def ret_def throw_def settled_def
          world_effect_none intro: world_effect_recover split: sum.splits option.splits if_splits prod.splits)
        (metis IdempotencyKeyStatus.exhaust)+
    moreover have "?x = None" using False by (auto split: sum.split option.split)
    ultimately show ?thesis using step by (intro runs_as_end) simp_all
  qed
qed

lemma withIdempotency_keyed:
  assumes "wi_key params = Some key" and "key \<noteq> []"
    and "claim cuid (wi_scope params, wi_participantId params, key) (hashIdempotentPayload sha (wi_requestPayload params)) (keys s) = (r1, t1)"
  shows "withIdempotency sha cuid params call s =
    (case r1 of
       Inl err \<Rightarrow> if isUniqueConstraintError err
         then afterConflict call (wi_scope params, wi_participantId params, key) (hashIdempotentPayload sha (wi_requestPayload params)) err
         else throw err
     | Inr claimId \<Rightarrow> runAndSettle call claimId) (s\<lparr>keys := t1\<rparr>)"
  using assms by (simp add: withIdempotency_def seqH_def attemptH_def onKeys_def Let_def)

text \<open>
  Run to its end on any input, with any callbacks and any faults of the store, a request under a key is a
  sequence of steps of the interleaved system; it changes the state of its module only by one run of the
  durable write with what follows it, or by the callback that reads the recorded result back.
\<close>

theorem withIdempotency_refines_system:
  assumes "wi_key params = Some key" and "key \<noteq> []" and "active c k = None"
    and "q = (wi_scope params, wi_participantId params, key)"
    and "withIdempotency sha cuid params call s = (res, s')"
  shows "\<exists>ws. world_effect call q (world s) (world s') ws
    \<and> key_steps cuid (c\<lparr>kstore := keys s\<rparr>) (c\<lparr>kstore := keys s', persisted := persisted c @ ws\<rparr>)"
proof -
  define h where "h = hashIdempotentPayload sha (wi_requestPayload params)"
  obtain r1 t1 where cl: "claim cuid q h (keys s) = (r1, t1)" by fastforce
  let ?s = "s\<lparr>keys := t1\<rparr>"
  let ?x = "case r1 of Inr i \<Rightarrow> Some (Persisting i, q, h) | Inl e \<Rightarrow> if isUniqueConstraintError e then Some (Looking, q, h) else None"
  have run: "(case r1 of Inl err \<Rightarrow> if isUniqueConstraintError err then afterConflict call q h err else throw err
              | Inr claimId \<Rightarrow> runAndSettle call claimId) ?s = (res, s')"
    using assms(5) withIdempotency_keyed [OF assms(1,2), of cuid sha s r1 t1 call] cl unfolding assms(4) h_def by simp
  have step: "key_step cuid (snapshot c k (keys s) (Some (Claiming, q, h)) []) (snapshot c k (keys ?s) ?x [])"
    using key_step.claimed [of "snapshot c k (keys s) (Some (Claiming, q, h)) []" k q h cuid _ t1]
      key_step.claim_lost [of "snapshot c k (keys s) (Some (Claiming, q, h)) []" k q h cuid _ t1] cl
    by (cases r1) simp_all
  have claiming: "runs_as cuid c k (Some (Claiming, q, h)) call q s s'"
  proof (cases "?x = None")
    case True
    then have "s' = ?s" using run by (auto simp: throw_def split: sum.splits if_splits)
    with True step show ?thesis by (intro runs_as_end) (simp_all add: world_effect_none)
  next
    case False
    then have "runs_as cuid c k ?x call q ?s s'"
      using run runAndSettle_runs afterConflict_runs by (auto split: sum.splits if_splits)
    then show ?thesis by (intro runs_as_step [OF step]) simp_all
  qed
  have arrive: "key_step cuid (snapshot c k (keys s) None []) (snapshot c k (keys s) (Some (Claiming, q, h)) [])"
    using key_step.arrive [of "snapshot c k (keys s) None []" k cuid q h] by simp
  have "runs_as cuid c k None call q s s'" by (rule runs_as_step [OF arrive _ claiming]) simp
  moreover have "snapshot c k (keys s) None [] = c\<lparr>kstore := keys s\<rparr>"
    and "snapshot c k (keys s') None ws = c\<lparr>kstore := keys s', persisted := persisted c @ ws\<rparr>" for ws
    using assms(3) by (cases c; simp add: fun_upd_idem)+
  ultimately show ?thesis unfolding runs_as_def by metis
qed

section \<open>Replays\<close>

lemma storeOp_working: "store_faults s = [] \<Longrightarrow> storeOp m s = m s"
  by (simp add: storeOp_def faultyOp_def)

lemma claim_taken_key:
  assumes "store_faults s = []" and "key_index s q \<noteq> None"
  shows "claim cuid q h s = (Inl (DatabaseError ''P2002''), s\<lparr>key_draws := Suc (key_draws s)\<rparr>)"
  using assms by (simp add: claim_def storeOp_working Let_def)

lemma find_working:
  "store_faults s = [] \<Longrightarrow> findKey q (s\<lparr>key_draws := n\<rparr>) = (Inr (keyed s q), s\<lparr>key_draws := n\<rparr>)"
  by (simp add: findKey_def storeOp_working readH_def keyed_def split: option.split)

text \<open>
  Once the durable write of a key has succeeded, a later request with that key never writes again.
  With another payload it is refused, while the row is still in progress it is told to wait, and
  otherwise it gets what the module reads back for the reference that was written. The key's row stays as it is.
\<close>

theorem replay_recovers_the_original:
  assumes "key_steps cuid (idle_system fs) c" and "written q c = [ref]"
    and s: "keys s = kstore c" "store_faults (kstore c) = []"
    and q: "wi_key params = Some key" "key \<noteq> []" "q = (wi_scope params, wi_participantId params, key)"
    and run: "withIdempotency sha cuid params call s = (res, s')"
  shows "\<exists>i r. keyed (kstore c) q = Some (i, r) \<and> key_rows (keys s') = key_rows (kstore c) \<and>
    (if ik_requestHash r \<noteq> hashIdempotentPayload sha (wi_requestPayload params)
     then res = Inl (ValidationError ''key was already used for a different request'') \<and> world s' = world s
     else if ik_status r = KeyInProgress
     then res = Inl (IdempotencyKeyConflictError ''already being processed'') \<and> world s' = world s
     else (res, world s') = recover call (Some ref) (world s))"
proof -
  have inv: "key_inv c" using assms(1) by (rule key_inv_reached)
  have log: "(q, ref) \<in> set (persisted c)" using assms(2) by (auto simp: written_def filter_eq_Cons_iff)
  then have "key_index (kstore c) q \<noteq> None" using inv by (force simp: key_inv_def)
  then obtain i where "key_index (kstore c) q = Some i" by blast
  moreover then obtain r where "key_rows (kstore c) i = Some r" "ik_name r = q"
    using inv unfolding key_inv_def store_ok_def by (metis map_option_eq_Some)
  ultimately have r: "keyed (kstore c) q = Some (i, r)" and idx: "key_index (kstore c) q \<noteq> None" by (simp_all add: keyed_def)
  have "row_ok (persisted c) r" using key_inv_found [OF inv r] inv by (auto simp: key_inv_def)
  moreover have "distinct (map fst (persisted c))" using inv by (simp add: key_inv_def)
  ultimately have refs: "settled r \<longrightarrow> ik_resultRef r = Some ref" and "ik_status r \<noteq> KeyFailed"
    using log key_inv_found [OF inv r] by (force simp: row_ok_def settled_def dest: eq_key_imp_eq_value)+
  then have "ik_status r = KeyInProgress \<or> settled r \<and> ik_status r \<noteq> KeyInProgress"
    by (cases "ik_status r") (auto simp: settled_def)
  moreover have "withIdempotency sha cuid params call s
      = afterConflict call q (hashIdempotentPayload sha (wi_requestPayload params)) (DatabaseError ''P2002'')
          (s\<lparr>keys := (kstore c)\<lparr>key_draws := Suc (key_draws (kstore c))\<rparr>\<rparr>)"
    using withIdempotency_keyed [OF q(1,2), of cuid sha s "Inl (DatabaseError ''P2002'')" _ call] claim_taken_key [OF s(2) idx] q(3) s(1)
    by (fastforce simp: isUniqueConstraintError_def)
  ultimately show ?thesis using run r refs s
    by (intro exI [of _ i] exI [of _ r])
      (auto simp: seqH_def onKeys_def onWorld_def find_working afterConflict_def requireH_def guardH_def ret_def throw_def split: prod.splits)
qed

section \<open>A worked example\<close>

text \<open>
  A store that fails the first of the two settling writes: the request is answered with its result, the row
  becomes unknown, and the retry reads the result back.
\<close>

definition demo_cuid :: "nat \<Rightarrow> string" where
  "demo_cuid n = replicate (Suc n) (CHR ''c'')"

definition demo_params :: WithIdempotencyParams where
  "demo_params = \<lparr>wi_scope = ''openp2p.trade.create'', wi_participantId = ''alice'', wi_key = Some ''k1'',
     wi_requestPayload = JObj [(''offerId'', JStr ''o1'')]\<rparr>"

definition demo_call :: "(string list, string) idempotent_call" where
  "demo_call = \<lparr>persist = (\<lambda>_ w. (Inr ''t1'', w @ [''t1''])), postPersist = (\<lambda>_. throw (GenericError ''bus down'')),
     recover = (\<lambda>ref. liftH (case ref of None \<Rightarrow> Inl (NotFoundError ''Trade'' ''null'') | Some r \<Rightarrow> Inr r)), resultId = id\<rparr>"

definition demo_name :: key_name where
  "demo_name = (''openp2p.trade.create'', ''alice'', ''k1'')"

definition demo_hash :: string where
  "demo_hash = hashIdempotentPayload id (wi_requestPayload demo_params)"

definition demo_store :: "IdempotencyKeyStatus \<Rightarrow> string option \<Rightarrow> store_fault list \<Rightarrow> key_store" where
  "demo_store st ref fs =
     \<lparr>key_rows = [''c'' \<mapsto> \<lparr>ik_name = demo_name, ik_requestHash = demo_hash, ik_status = st, ik_resultRef = ref\<rparr>],
      key_index = [demo_name \<mapsto> ''c''], key_draws = 1, store_faults = fs\<rparr>"

definition demo_reached :: key_system where
  "demo_reached = \<lparr>kstore = demo_store KeyUnknown (Some ''t1'') [], active = Map.empty, persisted = [(demo_name, ''t1'')]\<rparr>"

abbreviation demo_faults :: "store_fault list" where
  "demo_faults \<equiv> [Answered, Rejected]"

lemma demo_store_runs:
  "claim demo_cuid demo_name demo_hash (kstore (idle_system demo_faults)) = (Inr ''c'', demo_store KeyInProgress None [Rejected])"
  "markCompleted ''c'' ''t1'' (demo_store KeyInProgress None [Rejected]) = (Inl (DatabaseError ''P1001''), demo_store KeyInProgress None [])"
  "markUnknown ''c'' ''t1'' (demo_store KeyInProgress None []) = (Inr (), demo_store KeyUnknown (Some ''t1'') [])"
  by (simp_all add: claim_def markCompleted_def markUnknown_def updateKey_def storeOp_def faultyOp_def idle_system_def demo_store_def demo_cuid_def Let_def)

lemma demo_reached_steps: "key_steps demo_cuid (idle_system demo_faults) demo_reached"
proof -
  let ?c = "\<lambda>t x log. \<lparr>kstore = t, active = Map.empty(0 := x), persisted = log\<rparr>"
  let ?empty = "kstore (idle_system demo_faults)"
  let ?claimed = "demo_store KeyInProgress None [Rejected]"
  let ?failed = "demo_store KeyInProgress None []"
  have "key_step demo_cuid (idle_system demo_faults) (?c ?empty (Some (Claiming, demo_name, demo_hash)) [])"
    using key_step.arrive [of "idle_system demo_faults" 0 demo_cuid demo_name demo_hash] by (simp add: idle_system_def)
  moreover have "key_step demo_cuid (?c ?empty (Some (Claiming, demo_name, demo_hash)) []) (?c ?claimed (Some (Persisting ''c'', demo_name, demo_hash)) [])"
    using key_step.claimed [of "?c ?empty (Some (Claiming, demo_name, demo_hash)) []" 0] demo_store_runs(1) by simp
  moreover have "key_step demo_cuid (?c ?claimed (Some (Persisting ''c'', demo_name, demo_hash)) [])
      (?c ?claimed (Some (Settling ''c'' ''t1'', demo_name, demo_hash)) [(demo_name, ''t1'')])"
    using key_step.persist_ok [of "?c ?claimed (Some (Persisting ''c'', demo_name, demo_hash)) []" 0] by simp
  moreover have "key_step demo_cuid (?c ?claimed (Some (Settling ''c'' ''t1'', demo_name, demo_hash)) [(demo_name, ''t1'')])
      (?c ?failed (Some (Marking ''c'' ''t1'', demo_name, demo_hash)) [(demo_name, ''t1'')])"
    using key_step.settle [of "?c ?claimed (Some (Settling ''c'' ''t1'', demo_name, demo_hash)) [(demo_name, ''t1'')]" 0
        "''c''" "''t1''" demo_name demo_hash "Inl (DatabaseError ''P1001'')" ?failed demo_cuid] demo_store_runs(2) by simp
  moreover have "key_step demo_cuid (?c ?failed (Some (Marking ''c'' ''t1'', demo_name, demo_hash)) [(demo_name, ''t1'')]) demo_reached"
    using key_step.mark [of "?c ?failed (Some (Marking ''c'' ''t1'', demo_name, demo_hash)) [(demo_name, ''t1'')]" 0] demo_store_runs(3)
    by (simp add: demo_reached_def)
  ultimately show ?thesis by (meson converse_rtranclp_into_rtranclp r_into_rtranclp)
qed

lemma demo_written: "written demo_name demo_reached = [''t1'']"
  by (simp add: written_def demo_reached_def)

theorem persist_at_most_once_witness:
  "\<exists>ref. written demo_name demo_reached = [ref] \<and> ref = ''t1''"
proof -
  have "keyed (kstore demo_reached) demo_name
      = Some (''c'', \<lparr>ik_name = demo_name, ik_requestHash = demo_hash, ik_status = KeyUnknown, ik_resultRef = Some ''t1''\<rparr>)"
    by (simp add: keyed_def demo_reached_def demo_store_def)
  with persist_at_most_once [OF demo_reached_steps, of demo_name] show ?thesis
    by (auto simp: settled_def)
qed

theorem withIdempotency_refines_system_witness:
  "\<exists>ws. world_effect demo_call demo_name [] [''t1''] ws
    \<and> key_steps demo_cuid (idle_system demo_faults)
        ((idle_system demo_faults)\<lparr>kstore := demo_store KeyUnknown (Some ''t1'') [], persisted := ws\<rparr>)"
proof -
  have "withIdempotency id demo_cuid demo_params demo_call \<lparr>keys = kstore (idle_system demo_faults), world = []\<rparr>
      = (Inl (GenericError ''bus down''), \<lparr>keys = demo_store KeyUnknown (Some ''t1'') [], world = [''t1'']\<rparr>)"
    using demo_store_runs withIdempotency_keyed [of demo_params "''k1''" demo_cuid id "\<lparr>keys = kstore (idle_system demo_faults), world = []\<rparr>"
        "Inr ''c''" "demo_store KeyInProgress None [Rejected]" demo_call]
    by (simp add: demo_params_def demo_name_def demo_hash_def runAndSettle_def settleClaim_def seqH_def catchH_def onKeys_def onWorld_def
        demo_call_def throw_def ret_def)
  from withIdempotency_refines_system [OF _ _ _ _ this, of "''k1''" "idle_system demo_faults" 0 demo_name]
  show ?thesis by (simp add: idle_system_def demo_params_def demo_name_def)
qed

theorem replay_recovers_the_original_witness:
  "fst (withIdempotency id demo_cuid demo_params demo_call \<lparr>keys = kstore demo_reached, world = [''t1'']\<rparr>) = Inr ''t1''"
proof -
  obtain res s' where run: "withIdempotency id demo_cuid demo_params demo_call \<lparr>keys = kstore demo_reached, world = [''t1'']\<rparr> = (res, s')"
    by fastforce
  have "keyed (kstore demo_reached) demo_name
      = Some (''c'', \<lparr>ik_name = demo_name, ik_requestHash = demo_hash, ik_status = KeyUnknown, ik_resultRef = Some ''t1''\<rparr>)"
    by (simp add: keyed_def demo_reached_def demo_store_def)
  with replay_recovers_the_original [OF demo_reached_steps demo_written _ _ _ _ _ run, of "''k1''"] have "res = Inr ''t1''"
    by (simp add: demo_reached_def demo_store_def demo_params_def demo_name_def demo_hash_def demo_call_def liftH_def)
  with run show ?thesis by simp
qed

end
