(* ===== verification/Liquidity.thy ===== *)
theory Liquidity
  imports Intent_Engine Idempotency
begin

text \<open>
  \<^verbatim>\<open>src/modules/open-liquidity/liquidity.service.ts\<close>: offers and their intents, the internal order
  book, and the router that merges the books of its providers. Creating an offer makes two
  durable writes, the intent and the offer, and has to survive a failure between them. A page of the
  aggregated book is cut from the best offers of each provider only; the theory shows that this is
  the page of the whole book, and where it is not.
\<close>

section \<open>Decimals\<close>

text \<open>
  \<^verbatim>\<open>toFixed(8)\<close> and the rounding of a database column with eight decimals: to the nearest multiple, a
  tie away from zero. A product of decimals is read as exact.
\<close>

definition units8 :: "rat \<Rightarrow> int" where
  "units8 x = \<lfloor>\<bar>x\<bar> * 100000000 + 1 / 2\<rfloor>"

definition fixed8 :: "rat \<Rightarrow> rat" where
  "fixed8 x = (if x < 0 then - (of_int (units8 x) / 100000000) else of_int (units8 x) / 100000000)"

definition pad8 :: "int \<Rightarrow> string" where
  "pad8 n = (let d = show_int n in replicate (8 - length d) (CHR ''0'') @ d)"

fun toFixed8 :: "js_number \<Rightarrow> string" where
  "toFixed8 (Num x) = (if x < 0 then ''-'' else []) @ show_int (units8 x div 100000000) @ ''.'' @ pad8 (units8 x mod 100000000)"
| "toFixed8 NaN = ''NaN''"
| "toFixed8 PosInfinity = ''Infinity''"
| "toFixed8 NegInfinity = ''-Infinity''"

fun js_times :: "js_number \<Rightarrow> js_number \<Rightarrow> js_number" where
  "js_times (Num a) (Num b) = Num (a * b)"
| "js_times NaN _ = NaN"
| "js_times _ NaN = NaN"
| "js_times (Num a) y = (if a = 0 then NaN else if (a < 0) = (y = PosInfinity) then NegInfinity else PosInfinity)"
| "js_times x (Num b) = (if b = 0 then NaN else if (b < 0) = (x = PosInfinity) then NegInfinity else PosInfinity)"
| "js_times x y = (if x = y then PosInfinity else NegInfinity)"

text \<open>A comparison with a value that is not a number is false.\<close>

fun js_less :: "js_number \<Rightarrow> js_number \<Rightarrow> bool" where
  "js_less (Num a) (Num b) = (a < b)"
| "js_less NaN _ = False"
| "js_less _ NaN = False"
| "js_less NegInfinity y = (y \<noteq> NegInfinity)"
| "js_less x PosInfinity = (x \<noteq> PosInfinity)"
| "js_less _ _ = False"

definition js_leq :: "js_number \<Rightarrow> js_number \<Rightarrow> bool" where
  "js_leq x y \<longleftrightarrow> js_less x y \<or> x = y \<and> x \<noteq> NaN"

section \<open>Offers\<close>

datatype TradeSide = BUY | SELL

datatype OfferStatus = OfferActive | OfferPaused | OfferCompleted | OfferCancelled

record offer_row =
  of_id :: string
  of_userId :: string
  of_asset :: string
  of_side :: TradeSide
  of_priceUsd :: rat
  of_priceBrl :: "rat option"
  of_minAmount :: rat
  of_maxAmount :: rat
  of_paymentMethod :: string
  of_paymentDetails :: "string option"
  of_network :: "string option"
  of_description :: "string option"
  of_status :: OfferStatus
  of_intentId :: "string option"

record CreateOfferInput =
  co_userId :: string
  co_asset :: string
  co_side :: TradeSide
  co_priceUsd :: string
  co_priceBrl :: "string option"
  co_minAmount :: string
  co_maxAmount :: string
  co_paymentMethod :: string
  co_paymentDetails :: "string option"
  co_network :: "string option"
  co_description :: "string option"
  co_idempotencyKey :: "string option"

record user_row =
  us_reputationScore :: rat
  us_totalTrades :: int
  us_totalVolumeBtc :: rat
  us_disputeCount :: int
  us_cumulativeFeesObserved :: rat

text \<open>
  The tables of this module beside those of the intent engine, offers in insertion order, the users, and
  the faults of the statements of this and the trading modules.
\<close>

record market_state = engine_state +
  offers :: "offer_row list"
  users :: "string \<rightharpoonup> user_row"
  market_faults :: "store_fault list"

definition marketOp :: "('a market_state_scheme, 'b) handler \<Rightarrow> ('a market_state_scheme, 'b) handler" where
  "marketOp = faultyOp market_faults (\<lambda>fs s. s\<lparr>market_faults := fs\<rparr>)"

definition offer_with_id :: "string \<Rightarrow> 'a market_state_scheme \<Rightarrow> offer_row option" where
  "offer_with_id i s = find (\<lambda>r. of_id r = i) (offers s)"

definition offer_of_intent :: "string \<Rightarrow> 'a market_state_scheme \<Rightarrow> offer_row option" where
  "offer_of_intent i s = find (\<lambda>r. of_intentId r = Some i) (offers s)"

definition findOffer :: "string \<Rightarrow> ('a market_state_scheme, offer_row option) handler" where
  "findOffer i = marketOp (readH (offer_with_id i))"

definition findOfferByIntent :: "string \<Rightarrow> ('a market_state_scheme, offer_row option) handler" where
  "findOfferByIntent i = marketOp (readH (offer_of_intent i))"

text \<open>\<^verbatim>\<open>offer.create\<close>: the column of the intent is unique, the decimals are rounded to their column.\<close>

definition decimalArg :: "engine_env \<Rightarrow> string \<Rightarrow> rat result" where
  "decimalArg env s = (case toNumber env (JsString s) of Num x \<Rightarrow> Inr x | _ \<Rightarrow> Inl (GenericError ''not a decimal''))"

definition offer_data :: "engine_env \<Rightarrow> CreateOfferInput \<Rightarrow> string \<Rightarrow> string \<Rightarrow> offer_row result" where
  "offer_data env inp intentId i =
     bindR (decimalArg env (co_priceUsd inp)) (\<lambda>price.
     bindR (case co_priceBrl inp of None \<Rightarrow> Inr None | Some b \<Rightarrow> bindR (decimalArg env b) (\<lambda>x. Inr (Some (fixed8 x)))) (\<lambda>brl.
     bindR (decimalArg env (co_minAmount inp)) (\<lambda>lo.
     bindR (decimalArg env (co_maxAmount inp)) (\<lambda>hi.
     Inr \<lparr>of_id = i, of_userId = co_userId inp, of_asset = co_asset inp, of_side = co_side inp,
          of_priceUsd = fixed8 price, of_priceBrl = brl, of_minAmount = fixed8 lo, of_maxAmount = fixed8 hi,
          of_paymentMethod = co_paymentMethod inp, of_paymentDetails = co_paymentDetails inp, of_network = co_network inp,
          of_description = co_description inp, of_status = OfferActive, of_intentId = Some intentId\<rparr>))))"

definition createOfferRow :: "engine_env \<Rightarrow> CreateOfferInput \<Rightarrow> string \<Rightarrow> ('a market_state_scheme, offer_row) handler" where
  "createOfferRow env inp intentId = marketOp (
     seqH (readH (\<lambda>s. (uuid env (draws s), offer_of_intent intentId s))) (\<lambda>(i, existing).
     seqH (liftH (offer_data env inp intentId i)) (\<lambda>row.
     seqH (guardH (existing = None) (DatabaseError ''P2002'')) (\<lambda>_.
     seqH (writeH (\<lambda>s. s\<lparr>offers := offers s @ [row], draws := Suc (draws s)\<rparr>)) (\<lambda>_. ret row)))))"

fun side_name :: "TradeSide \<Rightarrow> string" where
  "side_name BUY = ''BUY''"
| "side_name SELL = ''SELL''"

definition buildTradeIntentPayload :: "engine_env \<Rightarrow> CreateOfferInput \<Rightarrow> TradeIntentPayload" where
  "buildTradeIntentPayload env inp =
     (let num = (\<lambda>x. toNumber env (JsString x)) in
      \<lparr>p_asset = JsString (co_asset inp), p_side = JsString (side_name (co_side inp)),
       p_minValue = JsString (toFixed8 (js_times (num (co_priceUsd inp)) (num (co_minAmount inp)))),
       p_maxValue = JsString (toFixed8 (js_times (num (co_priceUsd inp)) (num (co_maxAmount inp)))),
       p_minPriceUsd = JsUndefined, p_maxPriceUsd = JsUndefined, p_minReputationRating = JsUndefined\<rparr>)"

text \<open>
  \<^verbatim>\<open>intentEngine.create\<close> returns the row; its id is the first one the engine draws.
\<close>

definition newIntentId :: "engine_env \<Rightarrow> CreateOfferInput \<Rightarrow> string option \<Rightarrow> ('a market_state_scheme, string) handler" where
  "newIntentId env inp claimId =
     seqH (readH (\<lambda>s. uuid env (draws s))) (\<lambda>i.
     seqH (createIntent env TradeIntent (buildTradeIntentPayload env inp) (co_userId inp) None claimId) (\<lambda>_. ret i))"

definition claimed_intent :: "string \<Rightarrow> ('a market_state_scheme, string option) handler" where
  "claimed_intent c = readH (\<lambda>s. intent_claims s c)"

definition intentForClaim :: "engine_env \<Rightarrow> CreateOfferInput \<Rightarrow> string \<Rightarrow> ('a market_state_scheme, string) handler" where
  "intentForClaim env inp c =
     seqH (claimed_intent c) (\<lambda>existingIntent.
       case existingIntent of
         Some i \<Rightarrow> ret i
       | None \<Rightarrow> catchH (newIntentId env inp (Some c)) (\<lambda>err.
           if isUniqueConstraintError err then seqH (claimed_intent c) (\<lambda>winner. requireH winner err) else throw err))"

definition offerForIntent :: "engine_env \<Rightarrow> CreateOfferInput \<Rightarrow> string \<Rightarrow> ('a market_state_scheme, offer_row) handler" where
  "offerForIntent env inp intentId =
     seqH (findOfferByIntent intentId) (\<lambda>existingOffer.
       case existingOffer of
         Some o' \<Rightarrow> ret o'
       | None \<Rightarrow> catchH (createOfferRow env inp intentId) (\<lambda>err.
           if isUniqueConstraintError err then seqH (findOfferByIntent intentId) (\<lambda>winner. requireH winner err) else throw err))"

definition persistOffer :: "engine_env \<Rightarrow> CreateOfferInput \<Rightarrow> string option \<Rightarrow> ('a market_state_scheme, offer_row) handler" where
  "persistOffer env inp claimId =
     (if claimId = None \<or> claimId = Some []
      then seqH (newIntentId env inp None) (createOfferRow env inp)
      else seqH (intentForClaim env inp (the claimId)) (offerForIntent env inp))"

definition emitMarketEvent :: "string \<Rightarrow> string \<Rightarrow> ('a market_state_scheme, unit) handler" where
  "emitMarketEvent name i = marketOp (emitEvent name i)"

definition postPersistOffer :: "offer_row \<Rightarrow> ('a market_state_scheme, unit) handler" where
  "postPersistOffer row = emitMarketEvent ''liquidity.offer.created'' (of_id row)"

definition recoverOffer :: "string option \<Rightarrow> ('a market_state_scheme, offer_row) handler" where
  "recoverOffer ref =
     (case ref of
        None \<Rightarrow> throw (GenericError ''where needs an id'')
      | Some i \<Rightarrow> seqH (findOffer i) (\<lambda>r. requireH r (NotFoundError ''Offer'' i)))"

definition optMember :: "string \<Rightarrow> string option \<Rightarrow> (string \<times> json) list" where
  "optMember k x = (case x of None \<Rightarrow> [] | Some v \<Rightarrow> [(k, JStr v)])"

definition createOffer ::
    "engine_env \<Rightarrow> (nat \<Rightarrow> string) \<Rightarrow> CreateOfferInput \<Rightarrow> (('a market_state_scheme) idempotent_state, offer_row) handler" where
  "createOffer env cuid inp =
     withIdempotency (sha256 env) cuid
       \<lparr>wi_scope = ''liquidity.offer.create'', wi_participantId = co_userId inp, wi_key = co_idempotencyKey inp,
        wi_requestPayload = JObj ([(''asset'', JStr (co_asset inp)), (''side'', JStr (side_name (co_side inp))),
          (''priceUsd'', JStr (co_priceUsd inp))] @ optMember ''priceBrl'' (co_priceBrl inp) @
          [(''minAmount'', JStr (co_minAmount inp)), (''maxAmount'', JStr (co_maxAmount inp)),
           (''paymentMethod'', JStr (co_paymentMethod inp))] @ optMember ''paymentDetails'' (co_paymentDetails inp) @
          optMember ''network'' (co_network inp) @ optMember ''description'' (co_description inp))\<rparr>
       \<lparr>persist = persistOffer env inp, postPersist = postPersistOffer, recover = recoverOffer, resultId = of_id\<rparr>"

definition updateOfferStatus :: "string \<Rightarrow> OfferStatus \<Rightarrow> string \<Rightarrow> ('a market_state_scheme, unit) handler" where
  "updateOfferStatus offerId status triggeredBy =
     seqH (findOffer offerId) (\<lambda>found.
     seqH (requireH found (NotFoundError ''Offer'' offerId)) (\<lambda>row.
     seqH (guardH (of_userId row = triggeredBy) (ForbiddenError ''does not own offer'')) (\<lambda>_.
     seqH (marketOp (writeH (\<lambda>s. s\<lparr>offers := map (\<lambda>r. if of_id r = offerId then r\<lparr>of_status := status\<rparr> else r) (offers s)\<rparr>))) (\<lambda>_.
       emitMarketEvent ''liquidity.offer.status_changed'' offerId))))"

section \<open>The order book\<close>

definition DEFAULT_PAGE_LIMIT :: int where "DEFAULT_PAGE_LIMIT = 10"
definition MAX_PAGE_LIMIT :: int where "MAX_PAGE_LIMIT = 50"
definition MAX_PROVIDER_FETCH :: int where "MAX_PROVIDER_FETCH = 500"

record OfferPagination =
  pg_limit :: "int option"
  pg_offset :: "int option"

definition normalizePagination :: "OfferPagination \<Rightarrow> int \<Rightarrow> nat \<times> nat" where
  "normalizePagination p maxLimit =
     (nat (min (max (case pg_limit p of None \<Rightarrow> DEFAULT_PAGE_LIMIT | Some l \<Rightarrow> l) 1) maxLimit),
      nat (max (case pg_offset p of None \<Rightarrow> 0 | Some x \<Rightarrow> x) 0))"

record OfferFilters =
  fl_paymentMethod :: "string option"
  fl_priceMin :: "rat option"
  fl_priceMax :: "rat option"

text \<open>What a provider shows of an offer; the prices are the values of its decimal strings.\<close>

record LiquidityOffer =
  lo_id :: string
  lo_source :: string
  lo_asset :: string
  lo_side :: TradeSide
  lo_priceUsd :: rat
  lo_minAmount :: rat
  lo_maxAmount :: rat
  lo_paymentMethods :: "string list"
  lo_traderReputation :: rat

definition mapOfferToLiquidityOffer :: "(string \<Rightarrow> rat) \<Rightarrow> offer_row \<Rightarrow> LiquidityOffer" where
  "mapOfferToLiquidityOffer rep r =
     \<lparr>lo_id = of_id r, lo_source = ''internal'', lo_asset = of_asset r, lo_side = of_side r, lo_priceUsd = of_priceUsd r,
      lo_minAmount = of_minAmount r, lo_maxAmount = of_maxAmount r, lo_paymentMethods = [of_paymentMethod r],
      lo_traderReputation = rep (of_userId r)\<rparr>"

definition buildOfferWhere :: "string \<Rightarrow> TradeSide \<Rightarrow> OfferFilters \<Rightarrow> offer_row \<Rightarrow> bool" where
  "buildOfferWhere asset side fl r \<longleftrightarrow>
     of_asset r = asset \<and> of_side r = side \<and> of_status r = OfferActive
     \<and> (case fl_paymentMethod fl of None \<Rightarrow> True | Some m \<Rightarrow> of_paymentMethod r = m)
     \<and> (case fl_priceMin fl of None \<Rightarrow> True | Some lo \<Rightarrow> lo \<le> of_priceUsd r)
     \<and> (case fl_priceMax fl of None \<Rightarrow> True | Some hi \<Rightarrow> of_priceUsd r \<le> hi)"

text \<open>
  The sort key of a side: the cheapest sell offer and the highest buy offer come first. The sort of the
  language is stable; of offers with one price the database may return any first, here the oldest.
\<close>

definition price_key :: "TradeSide \<Rightarrow> LiquidityOffer \<Rightarrow> rat" where
  "price_key side x = (if side = BUY then - lo_priceUsd x else lo_priceUsd x)"

definition reputation_of :: "'a market_state_scheme \<Rightarrow> string \<Rightarrow> rat" where
  "reputation_of s u = (case users s u of None \<Rightarrow> 0 | Some r \<Rightarrow> us_reputationScore r)"

definition book :: "string \<Rightarrow> TradeSide \<Rightarrow> OfferFilters \<Rightarrow> 'a market_state_scheme \<Rightarrow> LiquidityOffer list" where
  "book asset side fl s =
     sort_key (price_key side) (map (mapOfferToLiquidityOffer (reputation_of s)) (filter (buildOfferWhere asset side fl) (offers s)))"

text \<open>A provider of the router: what its four methods do to the state.\<close>

record 's LiquidityProvider =
  lp_name :: string
  lp_isAvailable :: "('s, bool) handler"
  lp_getOffers :: "string \<Rightarrow> TradeSide \<Rightarrow> OfferPagination \<Rightarrow> OfferFilters \<Rightarrow> ('s, LiquidityOffer list) handler"
  lp_countOffers :: "string \<Rightarrow> TradeSide \<Rightarrow> OfferFilters \<Rightarrow> ('s, nat) handler"
  lp_matchOrder :: "string \<Rightarrow> TradeSide \<Rightarrow> rat \<Rightarrow> ('s, LiquidityOffer option) handler"

definition getOffersInternal ::
    "string \<Rightarrow> TradeSide \<Rightarrow> OfferPagination \<Rightarrow> OfferFilters \<Rightarrow> ('a market_state_scheme, LiquidityOffer list) handler" where
  "getOffersInternal asset side p fl =
     (let (limit, offset) = normalizePagination p MAX_PROVIDER_FETCH in
      marketOp (readH (\<lambda>s. take limit (drop offset (book asset side fl s)))))"

definition counter_side :: "TradeSide \<Rightarrow> TradeSide" where
  "counter_side side = (if side = BUY then SELL else BUY)"

definition no_filters :: OfferFilters where
  "no_filters = \<lparr>fl_paymentMethod = None, fl_priceMin = None, fl_priceMax = None\<rparr>"

definition matchOrderInternal ::
    "string \<Rightarrow> TradeSide \<Rightarrow> rat \<Rightarrow> ('a market_state_scheme, LiquidityOffer option) handler" where
  "matchOrderInternal asset side amount =
     marketOp (readH (\<lambda>s. find (\<lambda>x. lo_minAmount x \<le> amount \<and> amount \<le> lo_maxAmount x) (book asset (counter_side side) no_filters s)))"

definition InternalOrderBook :: "('a market_state_scheme) LiquidityProvider" where
  "InternalOrderBook =
     \<lparr>lp_name = ''internal'', lp_isAvailable = ret True, lp_getOffers = getOffersInternal,
      lp_countOffers = (\<lambda>asset side fl. marketOp (readH (\<lambda>s. length (book asset side fl s)))),
      lp_matchOrder = matchOrderInternal\<rparr>"

section \<open>The router\<close>

text \<open>A provider that fails is skipped.\<close>

definition askProvider :: "'s LiquidityProvider \<Rightarrow> ('s, 'b) handler \<Rightarrow> ('s, 'b option) handler" where
  "askProvider p m =
     catchH (seqH (lp_isAvailable p) (\<lambda>up. if up then seqH m (\<lambda>x. ret (Some x)) else ret None)) (\<lambda>_. ret None)"

fun collectFromProviders ::
    "'s LiquidityProvider list \<Rightarrow> string \<Rightarrow> TradeSide \<Rightarrow> OfferFilters \<Rightarrow> nat \<Rightarrow> ('s, LiquidityOffer list \<times> string list) handler" where
  "collectFromProviders [] asset side fl n = ret ([], [])"
| "collectFromProviders (p # ps) asset side fl n =
     seqH (askProvider p (lp_getOffers p asset side \<lparr>pg_limit = Some (int n), pg_offset = Some 0\<rparr> fl)) (\<lambda>r.
     seqH (collectFromProviders ps asset side fl n) (\<lambda>(xs, names).
       ret (case r of None \<Rightarrow> (xs, names) | Some ys \<Rightarrow> (ys @ xs, lp_name p # names))))"

fun countAcrossProviders ::
    "'s LiquidityProvider list \<Rightarrow> string \<Rightarrow> TradeSide \<Rightarrow> OfferFilters \<Rightarrow> ('s, nat) handler" where
  "countAcrossProviders [] asset side fl = ret 0"
| "countAcrossProviders (p # ps) asset side fl =
     seqH (askProvider p (lp_countOffers p asset side fl)) (\<lambda>r.
     seqH (countAcrossProviders ps asset side fl) (\<lambda>n. ret (case r of None \<Rightarrow> n | Some k \<Rightarrow> k + n)))"

record offer_page =
  op_offers :: "LiquidityOffer list"
  op_sources :: "string list"
  op_total :: nat
  op_hasMore :: bool

definition getAggregatedOffers ::
    "'s LiquidityProvider list \<Rightarrow> string \<Rightarrow> TradeSide \<Rightarrow> OfferPagination \<Rightarrow> OfferFilters \<Rightarrow> ('s, offer_page) handler" where
  "getAggregatedOffers ps asset side p fl =
     (let (limit, offset) = normalizePagination p MAX_PAGE_LIMIT in
      seqH (collectFromProviders ps asset side fl (offset + limit)) (\<lambda>(xs, sources).
      seqH (countAcrossProviders ps asset side fl) (\<lambda>n.
        ret \<lparr>op_offers = take limit (drop offset (sort_key (price_key side) xs)), op_sources = sources,
             op_total = n, op_hasMore = (offset + limit < n)\<rparr>)))"

definition getOrderBook :: "'s LiquidityProvider list \<Rightarrow> string \<Rightarrow> ('s, LiquidityOffer list \<times> LiquidityOffer list \<times> rat option) handler" where
  "getOrderBook ps asset =
     seqH (getAggregatedOffers ps asset BUY \<lparr>pg_limit = None, pg_offset = None\<rparr> no_filters) (\<lambda>bids.
     seqH (getAggregatedOffers ps asset SELL \<lparr>pg_limit = None, pg_offset = None\<rparr> no_filters) (\<lambda>asks.
       ret (op_offers bids, op_offers asks,
         (case (op_offers bids, op_offers asks) of
            (b # _, a # _) \<Rightarrow> Some (fixed8 (lo_priceUsd a - lo_priceUsd b))
          | _ \<Rightarrow> None))))"

fun findBestMatch :: "'s LiquidityProvider list \<Rightarrow> string \<Rightarrow> TradeSide \<Rightarrow> rat \<Rightarrow> ('s, LiquidityOffer option) handler" where
  "findBestMatch [] asset side amount = ret None"
| "findBestMatch (p # ps) asset side amount =
     seqH (askProvider p (lp_matchOrder p asset side amount)) (\<lambda>r.
       case r of Some (Some m) \<Rightarrow> ret (Some m) | _ \<Rightarrow> findBestMatch ps asset side amount)"

section \<open>Proposals\<close>

record proposal_limits =
  pl_priceMin :: "js_number option"
  pl_priceMax :: "js_number option"
  pl_minReputation :: "rat option"

record CounterProposal =
  cp_referenceOfferId :: string
  cp_listedPriceUsd :: rat
  cp_suggestedPriceUsd :: js_number

definition passesAmountAndReputation :: "js_number \<Rightarrow> proposal_limits \<Rightarrow> LiquidityOffer \<Rightarrow> bool" where
  "passesAmountAndReputation amount bnd x \<longleftrightarrow>
     (case pl_minReputation bnd of None \<Rightarrow> 0 | Some m \<Rightarrow> m) \<le> lo_traderReputation x
     \<and> js_leq (Num (lo_minAmount x)) amount \<and> js_leq amount (Num (lo_maxAmount x))"

definition passesPrice :: "proposal_limits \<Rightarrow> LiquidityOffer \<Rightarrow> bool" where
  "passesPrice bnd x \<longleftrightarrow>
     \<not> (case pl_priceMin bnd of None \<Rightarrow> False | Some m \<Rightarrow> js_less (Num (lo_priceUsd x)) m)
     \<and> \<not> (case pl_priceMax bnd of None \<Rightarrow> False | Some m \<Rightarrow> js_less m (Num (lo_priceUsd x)))"

definition relevantBound :: "TradeSide \<Rightarrow> proposal_limits \<Rightarrow> js_number option" where
  "relevantBound side bnd = (if side = BUY then pl_priceMax bnd else pl_priceMin bnd)"

definition proposal ::
    "TradeSide \<Rightarrow> js_number \<Rightarrow> proposal_limits \<Rightarrow> LiquidityOffer list \<Rightarrow> LiquidityOffer option \<times> CounterProposal option" where
  "proposal side amount bnd ranked =
     (case find (\<lambda>x. passesAmountAndReputation amount bnd x \<and> passesPrice bnd x) ranked of
        Some m \<Rightarrow> (Some m, None)
      | None \<Rightarrow> (case relevantBound side bnd of
          None \<Rightarrow> (None, None)
        | Some bound \<Rightarrow> (case find (\<lambda>x. passesAmountAndReputation amount bnd x \<and>
              (if side = BUY then js_less bound (Num (lo_priceUsd x)) else js_less (Num (lo_priceUsd x)) bound)) ranked of
            None \<Rightarrow> (None, None)
          | Some x \<Rightarrow> (None, Some \<lparr>cp_referenceOfferId = lo_id x, cp_listedPriceUsd = lo_priceUsd x, cp_suggestedPriceUsd = bound\<rparr>))))"

definition proposeForIntent ::
    "'s LiquidityProvider list \<Rightarrow> string \<Rightarrow> TradeSide \<Rightarrow> js_number \<Rightarrow> proposal_limits
       \<Rightarrow> ('s, LiquidityOffer option \<times> CounterProposal option) handler" where
  "proposeForIntent ps asset side amount bnd =
     seqH (collectFromProviders ps asset (counter_side side) no_filters (nat MAX_PAGE_LIMIT)) (\<lambda>(xs, _).
       ret (proposal side amount bnd (sort_key (price_key (counter_side side)) xs)))"

section \<open>Merging sorted books\<close>

text \<open>
  The stable merge of two sorted lists, and why the best \<open>n\<close> of each source are enough for the best \<open>n\<close>
  of all of them.
\<close>

fun merge_by :: "('b \<Rightarrow> 'k::linorder) \<Rightarrow> 'b list \<Rightarrow> 'b list \<Rightarrow> 'b list" where
  "merge_by f [] ys = ys"
| "merge_by f xs [] = xs"
| "merge_by f (x # xs) (y # ys) = (if f x \<le> f y then x # merge_by f xs (y # ys) else y # merge_by f (x # xs) ys)"

lemma merge_by_Nil [simp]: "merge_by f xs [] = xs"
  by (cases xs) simp_all

lemma mset_merge_by [simp]: "mset (merge_by f xs ys) = mset xs + mset ys"
  by (induction f xs ys rule: merge_by.induct) auto

lemma set_merge_by [simp]: "set (merge_by f xs ys) = set xs \<union> set ys"
  by (metis mset_merge_by set_mset_mset set_mset_union)

lemma sorted_merge_by: "sorted (map f xs) \<Longrightarrow> sorted (map f ys) \<Longrightarrow> sorted (map f (merge_by f xs ys))"
  by (induction f xs ys rule: merge_by.induct) auto

lemma filter_merge_by:
  "sorted (map f xs) \<Longrightarrow> sorted (map f ys) \<Longrightarrow>
   filter (\<lambda>x. f x = k) (merge_by f xs ys) = filter (\<lambda>x. f x = k) xs @ filter (\<lambda>x. f x = k) ys"
proof (induction f xs ys rule: merge_by.induct)
  case (3 f x xs y ys)
  show ?case
  proof (cases "f x \<le> f y")
    case False
    then have "filter (\<lambda>z. f z = k) (x # xs) = []" if "f y = k"
      using 3(3) that by (auto simp: filter_empty_conv)
    with 3 False show ?thesis by auto
  qed (use 3 in auto)
qed auto

lemma sort_key_append:
  assumes "sorted (map f xs)" and "sorted (map f ys)"
  shows "sort_key f (xs @ ys) = merge_by f xs ys"
proof (rule properties_for_sort_key)
  show "filter (\<lambda>x. f k = f x) (merge_by f xs ys) = filter (\<lambda>x. f k = f x) (xs @ ys)" for k
    using filter_merge_by [OF assms, of "f k"] by (simp add: eq_commute)
qed (use assms in \<open>simp_all add: sorted_merge_by\<close>)

lemma sort_key_append_sort: "sort_key f (xs @ ys) = merge_by f (sort_key f xs) (sort_key f ys)"
proof (rule properties_for_sort_key)
  show "filter (\<lambda>x. f k = f x) (merge_by f (sort_key f xs) (sort_key f ys)) = filter (\<lambda>x. f k = f x) (xs @ ys)" for k
    using filter_merge_by [of f "sort_key f xs" "sort_key f ys" "f k"] by (simp add: eq_commute [of "f k"] sort_key_stable)
qed (simp_all add: sorted_merge_by)

lemma take_merge_by:
  "n \<le> m \<Longrightarrow> n \<le> k \<Longrightarrow> take n (merge_by f (take m xs) (take k ys)) = take n (merge_by f xs ys)"
proof (induction f xs ys arbitrary: n m k rule: merge_by.induct)
  case (3 f x xs y ys)
  show ?case
  proof (cases n)
    case (Suc n')
    with "3.prems" obtain m' k' where mk: "m = Suc m'" "k = Suc k'" "n' \<le> m'" "n' \<le> k'"
      by (metis Suc_le_D Suc_le_mono)
    have "take n' (merge_by f (take m' xs) (take k (y # ys))) = take n' (merge_by f xs (y # ys))" if "f x \<le> f y"
      using "3.IH"(1) [OF that, of n' m' k] mk by simp
    moreover have "take n' (merge_by f (take m (x # xs)) (take k' ys)) = take n' (merge_by f (x # xs) ys)" if "\<not> f x \<le> f y"
      using "3.IH"(2) [OF that, of n' m k'] mk by simp
    ultimately show ?thesis using Suc mk by simp
  qed simp
qed (auto simp: min_def)

text \<open>The best \<open>n\<close> of several sorted sources are among the best \<open>n\<close> of each.\<close>

lemma top_of_merged:
  assumes "\<And>xs. xs \<in> set xss \<Longrightarrow> sorted (map f xs)"
  shows "take n (sort_key f (concat (map (take n) xss))) = take n (sort_key f (concat xss))"
  using assms
proof (induction xss)
  case (Cons xs xss)
  have s: "sort_key f xs = xs" "sort_key f (take n xs) = take n xs"
    using Cons.prems [of xs] by (simp_all add: sort_key_id_if_sorted take_map [symmetric] sorted_wrt_take)
  have "take n (sort_key f (concat (map (take n) (xs # xss))))
      = take n (merge_by f (take n xs) (take n (sort_key f (concat (map (take n) xss)))))"
    using take_merge_by [of n n n f "take n xs" "sort_key f (concat (map (take n) xss))"]
    by (simp add: sort_key_append_sort s)
  also have "\<dots> = take n (merge_by f (take n xs) (take n (sort_key f (concat xss))))"
    using Cons by simp
  also have "\<dots> = take n (sort_key f (concat (xs # xss)))"
    by (simp add: take_merge_by sort_key_append_sort s)
  finally show ?case .
qed simp

section \<open>What a provider promises\<close>

text \<open>
  A provider that works returns the best of its sorted book, as many as asked for up to its bound, and
  counts the whole of it.
\<close>

locale liquidity_source =
  fixes prov :: "'s LiquidityProvider"
    and its_book :: "string \<Rightarrow> TradeSide \<Rightarrow> OfferFilters \<Rightarrow> 's \<Rightarrow> LiquidityOffer list"
    and works :: "'s \<Rightarrow> bool"
  assumes available: "works s \<Longrightarrow> lp_isAvailable prov s = (Inr True, s)"
    and best: "works s \<Longrightarrow> 0 < n \<Longrightarrow> int n \<le> MAX_PROVIDER_FETCH \<Longrightarrow>
      lp_getOffers prov asset side \<lparr>pg_limit = Some (int n), pg_offset = Some 0\<rparr> fl s = (Inr (take n (its_book asset side fl s)), s)"
    and counts: "works s \<Longrightarrow> lp_countOffers prov asset side fl s = (Inr (length (its_book asset side fl s)), s)"
    and ranked: "sorted (map (price_key side) (its_book asset side fl s))"
begin

lemma ask_offers:
  "works s \<Longrightarrow> 0 < n \<Longrightarrow> int n \<le> MAX_PROVIDER_FETCH \<Longrightarrow>
   askProvider prov (lp_getOffers prov asset side \<lparr>pg_limit = Some (int n), pg_offset = Some 0\<rparr> fl) s
     = (Inr (Some (take n (its_book asset side fl s))), s)"
  by (simp add: askProvider_def catchH_def seqH_def available best ret_def)

lemma ask_count:
  "works s \<Longrightarrow> askProvider prov (lp_countOffers prov asset side fl) s = (Inr (Some (length (its_book asset side fl s))), s)"
  by (simp add: askProvider_def catchH_def seqH_def available counts ret_def)

end

lemma collect_working:
  assumes "\<And>p. p \<in> set ps \<Longrightarrow> liquidity_source p (bk p) works" and "works s" and "0 < n" and "int n \<le> MAX_PROVIDER_FETCH"
  shows "collectFromProviders ps asset side fl n s
    = (Inr (concat (map (\<lambda>p. take n (bk p asset side fl s)) ps), map lp_name ps), s)"
  using assms(1)
proof (induction ps)
  case (Cons p ps)
  then show ?case using liquidity_source.ask_offers [of p "bk p" works s n] assms(2-)
    by (simp add: seqH_def ret_def)
qed (simp add: ret_def)

lemma count_working:
  assumes "\<And>p. p \<in> set ps \<Longrightarrow> liquidity_source p (bk p) works" and "works s"
  shows "countAcrossProviders ps asset side fl s = (Inr (\<Sum>p\<leftarrow>ps. length (bk p asset side fl s)), s)"
  using assms(1)
proof (induction ps)
  case (Cons p ps)
  then show ?case using liquidity_source.ask_count [of p "bk p" works s] assms(2) by (simp add: seqH_def ret_def)
qed (simp add: ret_def)

lemma page_cong: "take (m + n) xs = take (m + n) ys \<Longrightarrow> take n (drop m xs) = take n (drop m ys)"
  by (simp add: take_drop add.commute)

definition working :: "'a market_state_scheme \<Rightarrow> bool" where
  "working s \<longleftrightarrow> market_faults s = []"

lemma marketOp_working: "working s \<Longrightarrow> marketOp m s = m s"
  by (simp add: marketOp_def faultyOp_def working_def)

interpretation internal: liquidity_source InternalOrderBook book working
proof
  fix s :: "'a market_state_scheme" and n :: nat and asset side fl
  assume "working s" "0 < n" "int n \<le> MAX_PROVIDER_FETCH"
  then have "max (int n) 1 = int n" and "min (int n) MAX_PROVIDER_FETCH = int n" by simp_all
  with \<open>working s\<close> show "lp_getOffers InternalOrderBook asset side \<lparr>pg_limit = Some (int n), pg_offset = Some 0\<rparr> fl s
      = (Inr (take n (book asset side fl s)), s)"
    by (simp add: InternalOrderBook_def getOffersInternal_def normalizePagination_def marketOp_working readH_def)
qed (simp_all add: InternalOrderBook_def marketOp_working readH_def ret_def book_def)

text \<open>
  The page of the aggregated book is exact. Although each provider is asked only for its best
  \<open>offset + limit\<close> offers, the page is the one cut from all offers of all providers sorted by price, and
  the total and the flag count all of them, as long as the page ends within what a provider returns.
\<close>

theorem aggregated_page_is_exact:
  assumes "\<And>p. p \<in> set ps \<Longrightarrow> liquidity_source p (bk p) works" and "works s"
    and "normalizePagination pg MAX_PAGE_LIMIT = (limit, offset)" and "int (offset + limit) \<le> MAX_PROVIDER_FETCH"
  shows "getAggregatedOffers ps asset side pg fl s =
    (let all = concat (map (\<lambda>p. bk p asset side fl s) ps) in
     (Inr \<lparr>op_offers = take limit (drop offset (sort_key (price_key side) all)), op_sources = map lp_name ps,
           op_total = length all, op_hasMore = (offset + limit < length all)\<rparr>, s))"
proof -
  have "0 < limit" using assms(3) by (auto simp: normalizePagination_def MAX_PAGE_LIMIT_def)
  have "take (offset + limit) (sort_key (price_key side) (concat (map (take (offset + limit)) (map (\<lambda>p. bk p asset side fl s) ps))))
      = take (offset + limit) (sort_key (price_key side) (concat (map (\<lambda>p. bk p asset side fl s) ps)))"
    using assms(1) liquidity_source.ranked by (intro top_of_merged) fastforce
  then have "take limit (drop offset (sort_key (price_key side) (concat (map (\<lambda>p. take (offset + limit) (bk p asset side fl s)) ps))))
      = take limit (drop offset (sort_key (price_key side) (concat (map (\<lambda>p. bk p asset side fl s) ps))))"
    by (intro page_cong) (simp add: comp_def)
  then show ?thesis
    using collect_working [where ps = ps and bk = bk and asset = asset and side = side and fl = fl, OF assms(1,2) _ assms(4)]
      count_working [where ps = ps and bk = bk and asset = asset and side = side and fl = fl, OF assms(1,2)] \<open>0 < limit\<close> assms(3)
    by (simp add: getAggregatedOffers_def seqH_def ret_def Let_def length_concat comp_def)
qed

text \<open>
  Beyond what a provider returns the pages are empty although more offers are announced. From
  offset 500 on a page of the internal book holds nothing, and the flag still says that there is more.
\<close>

theorem deep_pages_are_empty:
  assumes "working s" and "normalizePagination pg MAX_PAGE_LIMIT = (limit, offset)" and "MAX_PROVIDER_FETCH \<le> int offset"
    and "offset + limit < length (book asset side fl s)"
  shows "getAggregatedOffers [InternalOrderBook] asset side pg fl s =
    (Inr \<lparr>op_offers = [], op_sources = [''internal''], op_total = length (book asset side fl s), op_hasMore = True\<rparr>, s)"
proof -
  have limit: "min (max (int (offset + limit)) 1) MAX_PROVIDER_FETCH = MAX_PROVIDER_FETCH" using assms(3) by simp
  have "collectFromProviders [InternalOrderBook] asset side fl (offset + limit) s
      = (Inr (take (nat MAX_PROVIDER_FETCH) (book asset side fl s), [''internal'']), s)"
    using assms(1) limit
    by (simp add: askProvider_def catchH_def seqH_def ret_def InternalOrderBook_def getOffersInternal_def normalizePagination_def
        marketOp_working readH_def)
  moreover have "countAcrossProviders [InternalOrderBook] asset side fl s = (Inr (length (book asset side fl s)), s)"
    using count_working [of "[InternalOrderBook]" "\<lambda>_. book" working s asset side fl] internal.liquidity_source_axioms assms(1) by simp
  moreover have "drop offset (sort_key (price_key side) (take (nat MAX_PROVIDER_FETCH) (book asset side fl s))) = []"
    using assms(3) by simp
  ultimately show ?thesis using assms(2,4)
    by (simp add: getAggregatedOffers_def seqH_def ret_def)
qed

section \<open>Proposals respect the intent\<close>

lemma find_least:
  assumes "find P (sort_key f xs) = Some x" and "y \<in> set xs" and "P y"
  shows "f x \<le> f (y :: 'b)"
proof -
  obtain i where i: "i < length xs" "sort_key f xs ! i = x" "\<forall>j<i. \<not> P (sort_key f xs ! j)"
    using assms(1) by (auto simp: find_Some_iff)
  obtain j where j: "j < length xs" "sort_key f xs ! j = y"
    using assms(2) by (metis in_set_conv_nth length_sort set_sort)
  with i assms(3) have "i \<le> j" by (metis not_le)
  then have "map f (sort_key f xs) ! i \<le> map f (sort_key f xs) ! j"
    using i j by (intro sorted_nth_mono) simp_all
  with i j show ?thesis by simp
qed

definition fits :: "js_number \<Rightarrow> proposal_limits \<Rightarrow> LiquidityOffer \<Rightarrow> bool" where
  "fits amount bnd x \<longleftrightarrow> passesAmountAndReputation amount bnd x \<and> passesPrice bnd x"

lemma proposal_match: "proposal side amount bnd xs = (Some x, cp) \<Longrightarrow> cp = None \<and> find (fits amount bnd) xs = Some x"
  unfolding proposal_def fits_def [abs_def] by (simp split: option.splits)

lemma proposal_counter:
  assumes "proposal side amount bnd xs = (m, Some c)"
  shows "m = None \<and> find (fits amount bnd) xs = None \<and> relevantBound side bnd = Some (cp_suggestedPriceUsd c)
    \<and> (\<exists>x \<in> set xs. lo_id x = cp_referenceOfferId c \<and> passesAmountAndReputation amount bnd x \<and> \<not> passesPrice bnd x)"
proof -
  obtain b x where b: "m = None" "find (fits amount bnd) xs = None" "relevantBound side bnd = Some b"
    and x: "find (\<lambda>x. passesAmountAndReputation amount bnd x \<and>
              (if side = BUY then js_less b (Num (lo_priceUsd x)) else js_less (Num (lo_priceUsd x)) b)) xs = Some x"
    and c: "c = \<lparr>cp_referenceOfferId = lo_id x, cp_listedPriceUsd = lo_priceUsd x, cp_suggestedPriceUsd = b\<rparr>"
    using assms unfolding proposal_def fits_def [abs_def] by (simp split: option.splits)
  from find_SomeD [OF x] b(3) have "x \<in> set xs" "passesAmountAndReputation amount bnd x" "\<not> passesPrice bnd x"
    by (auto simp: passesPrice_def relevantBound_def split: if_splits)
  with b c show ?thesis by auto
qed

text \<open>
  A proposal keeps to the limits of the intent. A match is an active offer of the other side that covers
  the amount, the reputation and both price limits, and none of the offers looked at that does so is better
  priced; a counterproposal comes only when none of them does, names an offer that misses nothing but the
  price limit of the side, and suggests exactly that limit.
\<close>

theorem proposal_respects_limits:
  assumes "working s" and "proposeForIntent [InternalOrderBook] asset side amount bnd s = (Inr (m, cp), s')"
  shows "s' = s \<and>
    (let other = counter_side side; seen = take (nat MAX_PAGE_LIMIT) (book asset other no_filters s) in
     (\<forall>x. m = Some x \<longrightarrow> cp = None \<and> x \<in> set seen \<and> fits amount bnd x \<and> (\<forall>y \<in> set seen. fits amount bnd y \<longrightarrow> price_key other x \<le> price_key other y))
     \<and> (\<forall>c. cp = Some c \<longrightarrow> m = None \<and> relevantBound side bnd = Some (cp_suggestedPriceUsd c) \<and> (\<forall>y \<in> set seen. \<not> fits amount bnd y)
          \<and> (\<exists>x \<in> set seen. lo_id x = cp_referenceOfferId c \<and> passesAmountAndReputation amount bnd x \<and> \<not> passesPrice bnd x)))"
proof -
  define seen where "seen = take (nat MAX_PAGE_LIMIT) (book asset (counter_side side) no_filters s)"
  have "collectFromProviders [InternalOrderBook] asset (counter_side side) no_filters (nat MAX_PAGE_LIMIT) s = (Inr (seen, [''internal'']), s)"
    using collect_working [of "[InternalOrderBook]" "\<lambda>_. book" working s "nat MAX_PAGE_LIMIT"] internal.liquidity_source_axioms assms(1)
    by (simp add: seen_def MAX_PAGE_LIMIT_def MAX_PROVIDER_FETCH_def InternalOrderBook_def)
  with assms(2) have p: "proposal side amount bnd (sort_key (price_key (counter_side side)) seen) = (m, cp)" and "s' = s"
    by (auto simp: proposeForIntent_def seqH_def ret_def)
  have "cp = None \<and> x \<in> set seen \<and> fits amount bnd x
      \<and> (\<forall>y \<in> set seen. fits amount bnd y \<longrightarrow> price_key (counter_side side) x \<le> price_key (counter_side side) y)" if "m = Some x" for x
    using proposal_match [OF p [unfolded that]] find_SomeD [of "fits amount bnd" _ x] find_least by fastforce
  moreover have "m = None \<and> relevantBound side bnd = Some (cp_suggestedPriceUsd c) \<and> (\<forall>y \<in> set seen. \<not> fits amount bnd y)
      \<and> (\<exists>x \<in> set seen. lo_id x = cp_referenceOfferId c \<and> passesAmountAndReputation amount bnd x \<and> \<not> passesPrice bnd x)"
    if "cp = Some c" for c
    using proposal_counter [OF p [unfolded that]] by (auto simp: find_None_iff)
  ultimately show ?thesis using \<open>s' = s\<close> unfolding Let_def seen_def [symmetric] by simp
qed

section \<open>One offer per claim\<close>

text \<open>
  What may happen between two attempts: other offers being created, a change of status, an announcement, a
  step or cancellation of an intent, the passing of time, and a new script of faults.
\<close>

datatype market_op =
    PersistOp CreateOfferInput "string option" | StatusOp string OfferStatus string | AnnounceOp offer_row
  | IntentOp string IntentStatus string string | CancelOp string string | ClockOp int | FaultOp "store_fault list"

fun run_market_op :: "engine_env \<Rightarrow> 'a market_state_scheme \<Rightarrow> market_op \<Rightarrow> 'a market_state_scheme" where
  "run_market_op env s (PersistOp inp c) = snd (persistOffer env inp c s)"
| "run_market_op env s (StatusOp i st who) = snd (updateOfferStatus i st who s)"
| "run_market_op env s (AnnounceOp row) = snd (postPersistOffer row s)"
| "run_market_op env s (IntentOp i st who ev) = snd (transition env i st who ev None s)"
| "run_market_op env s (CancelOp i who) = snd (cancel env i who s)"
| "run_market_op env s (ClockOp t) = s\<lparr>clock := t\<rparr>"
| "run_market_op env s (FaultOp fs) = s\<lparr>market_faults := fs\<rparr>"

text \<open>The claim keeps its intent and, once there is one, the intent keeps its offer.\<close>

definition bound_to :: "string \<Rightarrow> string \<Rightarrow> string option \<Rightarrow> 'a market_state_scheme \<Rightarrow> bool" where
  "bound_to c i x s \<longleftrightarrow> intent_claims s c = Some i \<and> (x = None \<or> map_option of_id (offer_of_intent i s) = x)"

lemma preserves_marketOp [preserves_intros]:
  assumes "preserves I m" and "\<And>s fs. I s \<Longrightarrow> I (s\<lparr>market_faults := fs\<rparr>)"
  shows "preserves I (marketOp m)"
  using assms unfolding preserves_def marketOp_def faultyOp_def
  by (auto simp: Let_def split: list.split store_fault.split)

lemma bound_to_frame:
  "intent_claims s' c = intent_claims s c \<Longrightarrow> offers s' = offers s \<Longrightarrow> bound_to c i x s \<Longrightarrow> bound_to c i x s'"
  by (simp add: bound_to_def offer_of_intent_def)

lemma preserves_frame:
  "(\<And>s. intent_claims (f s) c = intent_claims s c \<and> offers (f s) = offers s) \<Longrightarrow> preserves (bound_to c i x) (writeH f)"
  by (rule preserves_writeH) (metis bound_to_frame)

lemma claimIntentStatus_frame:
  "intent_claims (snd (claimIntentStatus j f t s)) = intent_claims s" "offers (snd (claimIntentStatus j f t s)) = offers s"
  by (simp_all add: claimIntentStatus_def split: option.split)

lemma preserves_claimTransition [preserves_intros]: "preserves (bound_to c i x) (claimTransition j f t)"
  unfolding preserves_def claimTransition_def
  by (simp add: case_prod_beta) (metis bound_to_frame claimIntentStatus_frame)

lemma bound_to_primitives [preserves_intros]:
  "preserves (bound_to c i x) (emitEvent n j)"
  "preserves (bound_to c i x) (createEvent j note row)"
  by (simp_all add: emitEvent_def createEvent_def preserves_frame)

lemma bound_to_createIntentRow [preserves_intros]: "preserves (bound_to c i x) (createIntentRow env row)"
  unfolding preserves_def
proof (intro allI impI)
  fix s assume s: "bound_to c i x s"
  show "bound_to c i x (snd (createIntentRow env row s))"
  proof (cases "claim_taken (ir_idempotencyClaimId row) s")
    case True
    then show ?thesis using s by (simp add: createIntentRow_def seqH_def readH_def guardH_def throw_def)
  next
    case False
    then have "ir_idempotencyClaimId row \<noteq> Some c" using s by (auto simp: claim_taken_def bound_to_def)
    with False s show ?thesis
      by (intro bound_to_frame [OF _ _ s])
        (auto simp: createIntentRow_def seqH_def readH_def guardH_def ret_def writeH_def split: option.split)
  qed
qed

lemma bound_to_transition [preserves_intros]: "preserves (bound_to c i x) (transition env j st who ev note)"
  unfolding transition_def expireIntent_def advanceIntent_def writeIntentEvent_def findLastEvent_def findIntentById_def Let_def
  by (intro preserves_intros)

lemma bound_to_createIntent [preserves_intros]: "preserves (bound_to c i x) (createIntent env ty p who ag cl)"
  unfolding createIntent_def writeIntentEvent_def findLastEvent_def decide_def onCreated_def findIntentById_def checkCapability_def
    resolveActiveGrant_def findActiveGrants_def Let_def
  by (intro preserves_intros)

lemma find_map_intent:
  assumes "\<And>r. of_intentId (g r) = of_intentId r" and "\<And>r. of_id (g r) = of_id r"
  shows "map_option of_id (find (\<lambda>r. of_intentId r = y) (map g rs)) = map_option of_id (find (\<lambda>r. of_intentId r = y) rs)"
  using assms by (induction rs) auto

lemma bound_to_offer_writes:
  "preserves (bound_to c i x) (writeH (\<lambda>s. s\<lparr>offers := offers s @ [row], draws := Suc (draws s)\<rparr>))"
  "preserves (bound_to c i x) (writeH (\<lambda>s. s\<lparr>offers := map (\<lambda>r. if of_id r = j then r\<lparr>of_status := st\<rparr> else r) (offers s)\<rparr>))"
  by (auto intro!: preserves_writeH simp: bound_to_def offer_of_intent_def find_append find_map_intent split: option.splits)

lemma bound_to_faults: "bound_to c i x s \<Longrightarrow> bound_to c i x (s\<lparr>market_faults := fs\<rparr>)"
  by (simp add: bound_to_def offer_of_intent_def)

lemmas bound_to_rules = preserves_intros bound_to_offer_writes bound_to_faults

lemma bound_to_persistOffer: "preserves (bound_to c i x) (persistOffer env inp cl)"
  unfolding persistOffer_def intentForClaim_def offerForIntent_def newIntentId_def claimed_intent_def createOfferRow_def findOfferByIntent_def
  by (intro bound_to_rules)

lemma bound_to_updateOfferStatus: "preserves (bound_to c i x) (updateOfferStatus j st who)"
  unfolding updateOfferStatus_def findOffer_def emitMarketEvent_def by (intro bound_to_rules)

lemma bound_to_cancel: "preserves (bound_to c i x) (cancel env j who)"
  unfolding cancel_def expireIntent_def advanceIntent_def writeIntentEvent_def findLastEvent_def findIntentById_def Let_def
  by (intro bound_to_rules)

lemma bound_to_postPersistOffer: "preserves (bound_to c i x) (postPersistOffer row)"
  unfolding postPersistOffer_def emitMarketEvent_def by (intro bound_to_rules)

lemma bound_to_op: "bound_to c i x s \<Longrightarrow> bound_to c i x (run_market_op env s op)"
  by (cases op) (simp_all add: preservesD [OF bound_to_persistOffer] preservesD [OF bound_to_updateOfferStatus] preservesD [OF bound_to_cancel]
      preservesD [OF bound_to_transition] preservesD [OF bound_to_postPersistOffer] bound_to_faults,
      simp add: bound_to_def offer_of_intent_def)

lemma bound_to_ops: "bound_to c i x s \<Longrightarrow> bound_to c i x (foldl (run_market_op env) s ops)"
  by (induction ops arbitrary: s) (simp_all add: bound_to_op)

text \<open>With its intent in place, an attempt creates none; with its offer in place, it returns that offer.\<close>

lemma wp_marketRead:
  "wpH (marketOp (readH f)) Q E s \<longleftrightarrow>
     (case market_faults s of [] \<Rightarrow> Q (f s) s
      | x # fs \<Rightarrow> (let s' = s\<lparr>market_faults := fs\<rparr> in if x = Answered then Q (f s') s' else E (DatabaseError ''P1001'') s'))"
  by (auto simp: wpH_def marketOp_def faultyOp_def readH_def Let_def split: list.split store_fault.split)

lemma persist_again:
  assumes "bound_to c i x s" and "c \<noteq> []"
  shows "persistOffer env inp (Some c) s = offerForIntent env inp i s"
  using assms by (simp add: persistOffer_def intentForClaim_def claimed_intent_def seqH_def readH_def ret_def bound_to_def)

lemma offerForIntent_intents: "preserves (\<lambda>s. intents s = m) (offerForIntent env inp i)"
  unfolding offerForIntent_def findOfferByIntent_def createOfferRow_def by (intro preserves_intros) simp_all

lemma offerForIntent_found:
  assumes "map_option of_id (offer_of_intent i s) = Some oid"
  shows "wpH (offerForIntent env inp i) (\<lambda>row s'. offers s' = offers s \<and> of_id row = oid) (\<lambda>_ s'. offers s' = offers s) s"
proof -
  have "offer_of_intent i (s\<lparr>market_faults := fs\<rparr>) = offer_of_intent i s" for fs by (simp add: offer_of_intent_def)
  with assms show ?thesis
    by (auto simp: offerForIntent_def findOfferByIntent_def wp_eqs wp_marketRead Let_def split: list.split)
qed

lemma intentForClaim_returns:
  "wpH (intentForClaim env inp c) (\<lambda>i s'. intent_claims s' c = Some i) (\<lambda>_ _. True) s"
proof -
  have "intent_claims (coordinated_state env i (new_intent ty p who ag (Some c)) s) c = Some i" for i ty p who ag
    by (simp add: coordinated_state_def advanced_def created_def new_intent_def)
  then show ?thesis
    by (auto simp: intentForClaim_def newIntentId_def claimed_intent_def wp_eqs createIntent_wp Let_def split: option.splits)
qed

lemma createOfferRow_returns:
  "wpH (createOfferRow env inp i) (\<lambda>row s'. offer_of_intent i s' = Some row) (\<lambda>_ _. True) s"
proof -
  have "of_intentId row = Some i" if "offer_data env inp i j = Inr row" for j row
    using that by (auto simp: offer_data_def bindR_eq_Inr)
  then show ?thesis
    by (auto simp: wpH_def createOfferRow_def marketOp_def faultyOp_def seqH_def readH_def liftH_def guardH_def writeH_def ret_def throw_def
        Let_def offer_of_intent_def find_append split: list.splits store_fault.splits sum.splits)
qed

lemma offerForIntent_returns:
  "wpH (offerForIntent env inp i) (\<lambda>row s'. offer_of_intent i s' = Some row) (\<lambda>_ _. True) s"
proof -
  have read: "wpH (findOfferByIntent i) Q (\<lambda>_ _. True) t" if "\<And>t'. Q (offer_of_intent i t') t'" for Q t
    using that by (simp add: findOfferByIntent_def wp_marketRead Let_def split: list.split)
  show ?thesis
    unfolding offerForIntent_def wp_seqH
    by (rule read) (auto simp: wp_eqs split: option.split intro!: wpH_mono [OF createOfferRow_returns] read)
qed

lemma persistOffer_returns:
  assumes "persistOffer env inp (Some c) s = (Inr row, s1)" and "c \<noteq> []" and "intent_claims s1 c = Some i"
  shows "offer_of_intent i s1 = Some row"
proof -
  have "wpH (persistOffer env inp (Some c)) (\<lambda>row s'. \<exists>j. intent_claims s' c = Some j \<and> offer_of_intent j s' = Some row) (\<lambda>_ _. True) s"
  proof -
    have claims: "preserves (\<lambda>s. intent_claims s c = Some j) (offerForIntent env inp j)" for j
      unfolding offerForIntent_def findOfferByIntent_def createOfferRow_def by (intro preserves_intros) simp_all
    have "wpH (offerForIntent env inp j) (\<lambda>row s'. \<exists>j. intent_claims s' c = Some j \<and> offer_of_intent j s' = Some row) (\<lambda>_ _. True) t"
      if "intent_claims t c = Some j" for j t
      using offerForIntent_returns [of env inp j t] preserves_wp [OF claims, of t j] that
      by (auto simp: wpH_def split: prod.splits sum.splits)
    then show ?thesis using assms(2)
      by (simp add: persistOffer_def wp_seqH) (rule wpH_mono [OF intentForClaim_returns], auto)
  qed
  then show ?thesis using assms by (auto simp: wpH_def)
qed

text \<open>
  An offer is created once per claim. After an attempt that got as far as its intent, whatever other requests
  and failures follow, a further attempt under the same claim creates no second intent; and if the
  attempt had returned an offer, no second offer is created and the same one is returned.
\<close>

theorem offer_created_once_per_claim:
  assumes "persistOffer env inp (Some c) s = (r1, s1)" and "c \<noteq> []" and "intent_claims s1 c = Some i"
    and "s2 = foldl (run_market_op env) s1 ops"
    and "persistOffer env inp' (Some c) s2 = (r2, s3)"
  shows "intents s3 = intents s2
    \<and> (\<forall>row. r1 = Inr row \<longrightarrow> offers s3 = offers s2 \<and> (\<forall>row'. r2 = Inr row' \<longrightarrow> of_id row' = of_id row))"
proof (intro conjI allI impI)
  have b: "bound_to c i None s2" using assms(3,4) bound_to_ops [of c i None s1 env ops] by (simp add: bound_to_def)
  show "intents s3 = intents s2"
    using preserves_run [OF offerForIntent_intents [of "intents s2"], of s2] assms(5) persist_again [OF b assms(2)] by simp
next
  fix row
  assume "r1 = Inr row"
  then have "offer_of_intent i s1 = Some row" using persistOffer_returns assms(1-3) by blast
  then have b: "bound_to c i (Some (of_id row)) s2"
    using assms(3,4) bound_to_ops [of c i "Some (of_id row)" s1 env ops] by (simp add: bound_to_def)
  then have "wpH (offerForIntent env inp' i) (\<lambda>row' s'. offers s' = offers s2 \<and> of_id row' = of_id row) (\<lambda>_ s'. offers s' = offers s2) s2"
    by (intro offerForIntent_found) (simp add: bound_to_def)
  then show "offers s3 = offers s2" and "\<And>row'. r2 = Inr row' \<Longrightarrow> of_id row' = of_id row"
    using assms(5) persist_again [OF b assms(2)] by (auto simp: wpH_def split: sum.splits)
qed

section \<open>A worked example\<close>

definition demo_offer :: "nat \<Rightarrow> offer_row" where
  "demo_offer n = \<lparr>of_id = show_nat n, of_userId = ''bob'', of_asset = ''BTC'', of_side = SELL, of_priceUsd = 100 - of_nat n,
     of_priceBrl = None, of_minAmount = 1, of_maxAmount = 5, of_paymentMethod = ''PIX'', of_paymentDetails = None,
     of_network = None, of_description = None, of_status = OfferActive, of_intentId = None\<rparr>"

definition demo_market :: "offer_row list \<Rightarrow> store_fault list \<Rightarrow> market_state" where
  "demo_market os fs =
     engine_state.extend (empty_engine []) \<lparr>offers = os, users = Map.empty, market_faults = fs\<rparr>"

fun demo_number :: "js_value \<Rightarrow> js_number" where
  "demo_number (JsString s) = Num (of_nat (parse_digits (takeWhile is_digit_char s)))"
| "demo_number _ = NaN"

definition market_env :: engine_env where
  "market_env = demo_env\<lparr>sha256 := take 4, toNumber := demo_number\<rparr>"

definition demo_input :: CreateOfferInput where
  "demo_input = \<lparr>co_userId = ''bob'', co_asset = ''BTC'', co_side = SELL, co_priceUsd = ''3'', co_priceBrl = None,
     co_minAmount = ''1'', co_maxAmount = ''2'', co_paymentMethod = ''PIX'', co_paymentDetails = None, co_network = None,
     co_description = None, co_idempotencyKey = Some ''k''\<rparr>"

lemma demo_book: "book ''BTC'' SELL no_filters (demo_market (map demo_offer ns) fs)
    = sort_key (price_key SELL) (map (mapOfferToLiquidityOffer (\<lambda>_. 0) \<circ> demo_offer) ns)"
  by (simp add: book_def demo_market_def engine_state.defs buildOfferWhere_def demo_offer_def no_filters_def filter_map comp_def
      reputation_of_def [abs_def])

lemma demo_market_working: "working (demo_market os [])"
  by (simp add: working_def demo_market_def engine_state.defs)

abbreviation demo_page :: "(market_state, offer_page) handler" where
  "demo_page \<equiv> getAggregatedOffers [InternalOrderBook] ''BTC'' SELL \<lparr>pg_limit = Some 2, pg_offset = Some 1\<rparr> no_filters"

theorem aggregated_page_is_exact_witness:
  "\<exists>page s'. demo_page (demo_market (map demo_offer [0, 1, 2, 3]) []) = (Inr page, s')
    \<and> map lo_id (op_offers page) = [''2'', ''1''] \<and> op_total page = 4 \<and> op_hasMore page"
proof -
  let ?s = "demo_market (map demo_offer [0, 1, 2, 3]) []"
  have "demo_page ?s
    = (let all = concat (map (\<lambda>p. book ''BTC'' SELL no_filters ?s) [InternalOrderBook :: market_state LiquidityProvider]) in
       (Inr \<lparr>op_offers = take 2 (drop 1 (sort_key (price_key SELL) all)), op_sources = map lp_name [InternalOrderBook :: market_state LiquidityProvider],
           op_total = length all, op_hasMore = (1 + 2 < length all)\<rparr>, ?s))"
    by (rule aggregated_page_is_exact [where works = working])
      (auto simp: internal.liquidity_source_axioms demo_market_working normalizePagination_def MAX_PAGE_LIMIT_def MAX_PROVIDER_FETCH_def)
  moreover have "map lo_id (take 2 (drop 1 (sort_key (price_key SELL) (book ''BTC'' SELL no_filters ?s)))) = [''2'', ''1'']"
    and "length (book ''BTC'' SELL no_filters ?s) = 4" by code_simp+
  ultimately show ?thesis by (simp add: Let_def)
qed

theorem deep_pages_are_empty_witness:
  "getAggregatedOffers [InternalOrderBook] ''BTC'' SELL \<lparr>pg_limit = Some 1, pg_offset = Some 500\<rparr> no_filters
      (demo_market (map demo_offer [0..<502]) [])
    = (Inr \<lparr>op_offers = [], op_sources = [''internal''], op_total = 502, op_hasMore = True\<rparr>, demo_market (map demo_offer [0..<502]) [])"
proof -
  have n: "length (book ''BTC'' SELL no_filters (demo_market (map demo_offer [0..<502]) [])) = 502"
    unfolding demo_book length_sort length_map length_upt by simp
  show ?thesis
    using deep_pages_are_empty [OF demo_market_working [of "map demo_offer [0..<502]"],
        of "\<lparr>pg_limit = Some 1, pg_offset = Some 500\<rparr>" 1 500 "''BTC''" SELL no_filters] unfolding n
    by (simp add: normalizePagination_def MAX_PAGE_LIMIT_def MAX_PROVIDER_FETCH_def del: upt_conv_Cons)
qed

abbreviation demo_limits :: proposal_limits where
  "demo_limits \<equiv> \<lparr>pl_priceMin = None, pl_priceMax = Some (Num 99), pl_minReputation = None\<rparr>"

theorem proposal_respects_limits_witness:
  "\<exists>m. proposeForIntent [InternalOrderBook] ''BTC'' BUY (Num 2) demo_limits (demo_market (map demo_offer [0, 1]) [])
        = (Inr (Some m, None), demo_market (map demo_offer [0, 1]) []) \<and> fits (Num 2) demo_limits m"
proof -
  let ?s = "demo_market (map demo_offer [0, 1]) []"
  have "(case fst (proposeForIntent [InternalOrderBook] ''BTC'' BUY (Num 2) demo_limits ?s) of
          Inr (Some m, None) \<Rightarrow> True | _ \<Rightarrow> False)" by code_simp
  then obtain m s' where run: "proposeForIntent [InternalOrderBook] ''BTC'' BUY (Num 2) demo_limits ?s = (Inr (Some m, None), s')"
    by (cases "proposeForIntent [InternalOrderBook] ''BTC'' BUY (Num 2) demo_limits ?s") (auto split: sum.splits option.splits)
  from proposal_respects_limits [OF demo_market_working run] run show ?thesis by (auto simp: Let_def)
qed

theorem offer_created_once_per_claim_witness:
  "(let s1 = snd (persistOffer market_env demo_input (Some ''c'') (demo_market [] [Answered, Rejected]));
        s2 = run_market_op market_env s1 (ClockOp 5);
        s3 = snd (persistOffer market_env demo_input (Some ''c'') s2) in
    offers s2 = [] \<and> length (offers s3) = 1 \<and> intents s3 = intents s2)"
proof -
  let ?s1 = "snd (persistOffer market_env demo_input (Some ''c'') (demo_market [] [Answered, Rejected]))"
  let ?s2 = "run_market_op market_env ?s1 (ClockOp 5)"
  let ?r3 = "persistOffer market_env demo_input (Some ''c'') ?s2"
  have c: "intent_claims ?s1 ''c'' = Some ''0''" by code_simp
  have o: "offers ?s2 = []" "length (offers (snd ?r3)) = 1" by code_simp+
  have "intents (snd ?r3) = intents ?s2"
    using offer_created_once_per_claim [OF surjective_pairing _ c, of ?s2 "[ClockOp 5]" demo_input "fst ?r3" "snd ?r3"] by simp
  with o show ?thesis by (simp add: Let_def)
qed

end
