(* ===== verification/Trade_Service.thy ===== *)
theory Trade_Service
  imports Liquidity
begin

text \<open>
  \<^verbatim>\<open>src/modules/open-p2p\<close>: trades (\<^verbatim>\<open>trade.service.ts\<close>, \<^verbatim>\<open>trade-repository.ts\<close>) and their negotiation
  channel (\<^verbatim>\<open>negotiation.service.ts\<close>). A trade accepts an offer, walks the intent of the offer to
  the negotiation and opens the channel; a party may later activate or cancel it.
\<close>

section \<open>Trades\<close>

datatype TradeStatus = TradePending | TradeActive | TradeCompleted | TradeDisputed | TradeCancelled

record p2p_trade =
  tr_id :: string
  tr_offerId :: string
  tr_buyerId :: string
  tr_sellerId :: string
  tr_asset :: string
  tr_amount :: rat
  tr_priceUsd :: rat
  tr_totalUsd :: rat
  tr_status :: TradeStatus
  tr_escrowId :: "string option"
  tr_network :: "string option"
  tr_intentId :: "string option"
  tr_completedAt :: "int option"
  tr_cancelledAt :: "int option"

datatype NegotiationStatus = NegCreated | NegNegotiating | NegTermsAgreed | NegAbandoned

text \<open>An event names its author, what it carries, and its time.\<close>

datatype NegotiationEvent =
    OFFER_PROPOSED string json string | COUNTER_OFFERED string json string | TERMS_ACCEPTED string string
  | TERMS_REJECTED string "string option" string | MESSAGE_EXCHANGED string string string

record message_row =
  ms_tradeId :: string
  ms_senderId :: string
  ms_content :: string
  ms_text :: bool

text \<open>
  The tables of the module, the status map of the negotiation service, the running peer nodes of the users
  by instance, and the trades for which a node instance has its listener.
\<close>

record trade_state = market_state +
  tradeRows :: "p2p_trade list"
  negotiations :: "string \<rightharpoonup> NegotiationStatus"
  messages :: "message_row list"
  peer_nodes :: "string \<rightharpoonup> nat"
  wired_trades :: "(nat \<times> string \<times> string) list"

definition trade_with_id :: "string \<Rightarrow> 'a trade_state_scheme \<Rightarrow> p2p_trade option" where
  "trade_with_id i s = find (\<lambda>t. tr_id t = i) (tradeRows s)"

definition findTradeById :: "string \<Rightarrow> ('a trade_state_scheme, p2p_trade option) handler" where
  "findTradeById i = marketOp (readH (trade_with_id i))"

definition createTradeRow :: "engine_env \<Rightarrow> (string \<Rightarrow> p2p_trade) \<Rightarrow> ('a trade_state_scheme, p2p_trade) handler" where
  "createTradeRow env mk = marketOp (
     seqH (readH (\<lambda>s. mk (uuid env (draws s)))) (\<lambda>t.
     seqH (writeH (\<lambda>s. s\<lparr>tradeRows := tradeRows s @ [t], draws := Suc (draws s)\<rparr>)) (\<lambda>_. ret t)))"

text \<open>\<^verbatim>\<open>trade.update\<close> by id returns the new row and fails on a missing one.\<close>

definition updateTrade :: "string \<Rightarrow> (p2p_trade \<Rightarrow> p2p_trade) \<Rightarrow> ('a trade_state_scheme, p2p_trade) handler" where
  "updateTrade i f = marketOp (
     seqH (readH (trade_with_id i)) (\<lambda>found.
     seqH (requireH found (DatabaseError ''P2025'')) (\<lambda>t.
     seqH (writeH (\<lambda>s. s\<lparr>tradeRows := map (\<lambda>u. if tr_id u = i then f u else u) (tradeRows s)\<rparr>)) (\<lambda>_. ret (f t)))))"

section \<open>Negotiation\<close>

fun event_json :: "NegotiationEvent \<Rightarrow> json" where
  "event_json (OFFER_PROPOSED b t tm) = JObj [(''type'', JStr ''OFFER_PROPOSED''), (''by'', JStr b), (''terms'', t), (''at'', JStr tm)]"
| "event_json (COUNTER_OFFERED b t tm) = JObj [(''type'', JStr ''COUNTER_OFFERED''), (''by'', JStr b), (''terms'', t), (''at'', JStr tm)]"
| "event_json (TERMS_ACCEPTED b tm) = JObj [(''type'', JStr ''TERMS_ACCEPTED''), (''by'', JStr b), (''at'', JStr tm)]"
| "event_json (TERMS_REJECTED b r tm) =
     JObj ([(''type'', JStr ''TERMS_REJECTED''), (''by'', JStr b)] @ optMember ''reason'' r @ [(''at'', JStr tm)])"
| "event_json (MESSAGE_EXCHANGED b c tm) =
     JObj [(''type'', JStr ''MESSAGE_EXCHANGED''), (''by'', JStr b), (''content'', JStr c), (''at'', JStr tm)]"

definition event_content :: "NegotiationEvent \<Rightarrow> string \<times> bool" where
  "event_content e = (case e of MESSAGE_EXCHANGED _ c _ \<Rightarrow> (c, True) | _ \<Rightarrow> (json_stringify (event_json e), False))"

definition persistNegotiationEvent ::
    "string \<Rightarrow> string \<Rightarrow> NegotiationEvent \<Rightarrow> ('a trade_state_scheme, unit) handler" where
  "persistNegotiationEvent tradeId senderId e =
     (let (content, isText) = event_content e in
      seqH (marketOp (writeH (\<lambda>s. s\<lparr>messages := messages s @
              [\<lparr>ms_tradeId = tradeId, ms_senderId = senderId, ms_content = content, ms_text = isText\<rparr>]\<rparr>))) (\<lambda>_.
      seqH (emitMarketEvent ''openp2p.message.sent'' tradeId) (\<lambda>_.
        emitMarketEvent ''negotiation.event_received'' tradeId)))"

definition sendEvent ::
    "string \<Rightarrow> string \<Rightarrow> NegotiationEvent \<Rightarrow> ('a trade_state_scheme, unit) handler" where
  "sendEvent localUserId tradeId e =
     seqH (readH (\<lambda>s. peer_nodes s localUserId)) (\<lambda>node.
     seqH (requireH node (NotFoundError ''P2P connection for this user'' localUserId)) (\<lambda>_.
       persistNegotiationEvent tradeId localUserId e))"

definition wireInboundNegotiationChannel :: "string \<Rightarrow> string \<Rightarrow> string \<Rightarrow> ('a trade_state_scheme, unit) handler" where
  "wireInboundNegotiationChannel participantId counterpartyId tradeId =
     seqH (readH (\<lambda>s. (peer_nodes s participantId, wired_trades s))) (\<lambda>(node, wired).
       case node of
         None \<Rightarrow> ret ()
       | Some n \<Rightarrow> if list_ex (\<lambda>(m, t, _). m = n \<and> t = tradeId) wired then ret ()
                   else writeH (\<lambda>s. s\<lparr>wired_trades := wired_trades s @ [(n, tradeId, counterpartyId)]\<rparr>))"

text \<open>
  A message of kind negotiation arrives at node instance \<open>n\<close>: each listener of that instance for the
  trade checks that the peer is the one its counterparty is connected as, ignores it when the
  counterparty runs in this process too, and otherwise stores it. A failure is logged only.
\<close>

definition inboundEvent ::
    "(nat \<Rightarrow> string \<Rightarrow> string option) \<Rightarrow> nat \<Rightarrow> string \<Rightarrow> string \<Rightarrow> NegotiationEvent
       \<Rightarrow> ('a trade_state_scheme, unit) handler" where
  "inboundEvent connectedPeer n peerId tradeId e =
     seqH (readH (\<lambda>s. find (\<lambda>(m, t, _). m = n \<and> t = tradeId) (wired_trades s))) (\<lambda>l.
       case l of
         None \<Rightarrow> ret ()
       | Some (_, _, counterpartyId) \<Rightarrow>
           if connectedPeer n counterpartyId \<noteq> Some peerId then ret ()
           else seqH (readH (\<lambda>s. peer_nodes s counterpartyId)) (\<lambda>here.
             if here \<noteq> None then ret ()
             else catchH (persistNegotiationEvent tradeId counterpartyId e) (\<lambda>_. ret ())))"

definition setNegotiation :: "string \<Rightarrow> NegotiationStatus \<Rightarrow> ('a trade_state_scheme, unit) handler" where
  "setNegotiation i st = writeH (\<lambda>s. s\<lparr>negotiations := (negotiations s)(i \<mapsto> st)\<rparr>)"

definition openNegotiation :: "string \<Rightarrow> ('a trade_state_scheme, unit) handler" where
  "openNegotiation tradeId =
     seqH (findTradeById tradeId) (\<lambda>found.
     seqH (requireH found (NotFoundError ''Trade'' tradeId)) (\<lambda>_.
     seqH (setNegotiation tradeId NegCreated) (\<lambda>_.
     seqH (emitMarketEvent ''negotiation.opened'' tradeId) (\<lambda>_.
     seqH (emitMarketEvent ''openp2p.trade.status_changed'' tradeId) (\<lambda>_.
       setNegotiation tradeId NegNegotiating)))))"

definition getStatus :: "string \<Rightarrow> 'a trade_state_scheme \<Rightarrow> NegotiationStatus" where
  "getStatus tradeId s = (case negotiations s tradeId of None \<Rightarrow> NegCreated | Some st \<Rightarrow> st)"

definition markAgreed :: "string \<Rightarrow> ('a trade_state_scheme, unit) handler" where
  "markAgreed tradeId =
     seqH (setNegotiation tradeId NegTermsAgreed) (\<lambda>_. emitMarketEvent ''negotiation.terms_agreed'' tradeId)"

section \<open>The trade service\<close>

record CreateTradeInput =
  ct_offerId :: string
  ct_counterpartyId :: string
  ct_amount :: string
  ct_idempotencyKey :: "string option"

definition new_trade :: "offer_row \<Rightarrow> string \<Rightarrow> rat \<Rightarrow> string \<Rightarrow> p2p_trade" where
  "new_trade offer who amount i =
     \<lparr>tr_id = i, tr_offerId = of_id offer,
      tr_buyerId = (if of_side offer = SELL then who else of_userId offer),
      tr_sellerId = (if of_side offer = SELL then of_userId offer else who),
      tr_asset = of_asset offer, tr_amount = fixed8 amount, tr_priceUsd = of_priceUsd offer,
      tr_totalUsd = fixed8 (of_priceUsd offer * amount), tr_status = TradePending, tr_escrowId = None,
      tr_network = of_network offer, tr_intentId = of_intentId offer, tr_completedAt = None, tr_cancelledAt = None\<rparr>"

definition persistTrade :: "engine_env \<Rightarrow> CreateTradeInput \<Rightarrow> ('a trade_state_scheme, p2p_trade) handler" where
  "persistTrade env inp =
     seqH (findOffer (ct_offerId inp)) (\<lambda>found.
     seqH (requireH found (NotFoundError ''Offer'' (ct_offerId inp))) (\<lambda>offer.
     seqH (guardH (of_status offer = OfferActive) (ValidationError ''Offer is not active'')) (\<lambda>_.
     seqH (guardH (of_userId offer \<noteq> ct_counterpartyId inp) (ValidationError ''Cannot start a trade against your own offer'')) (\<lambda>_.
       case toNumber env (JsString (ct_amount inp)) of
         Num amount \<Rightarrow>
           seqH (guardH (0 < amount) (ValidationError ''amount must be a positive decimal string'')) (\<lambda>_.
           seqH (guardH (of_minAmount offer \<le> amount \<and> amount \<le> of_maxAmount offer) (ValidationError ''amount is outside the limits'')) (\<lambda>_.
             createTradeRow env (new_trade offer (ct_counterpartyId inp) amount)))
       | _ \<Rightarrow> throw (ValidationError ''amount must be a positive decimal string'')))))"

definition LIFECYCLE_TRIGGER :: string where
  "LIFECYCLE_TRIGGER = ''system:trade-lifecycle''"

definition postPersistTrade :: "engine_env \<Rightarrow> p2p_trade \<Rightarrow> ('a trade_state_scheme, unit) handler" where
  "postPersistTrade env t =
     seqH (emitMarketEvent ''openp2p.trade.created'' (tr_id t)) (\<lambda>_.
     seqH (case tr_intentId t of
             None \<Rightarrow> ret ()
           | Some i \<Rightarrow>
               seqH (transition env i I_DISCOVERING LIFECYCLE_TRIGGER ''intent.discovering'' None) (\<lambda>_.
               seqH (transition env i I_MATCHED LIFECYCLE_TRIGGER ''intent.matched'' None) (\<lambda>_.
               seqH (transition env i I_NEGOTIATING LIFECYCLE_TRIGGER ''intent.negotiating'' None) (\<lambda>_. ret ())))) (\<lambda>_.
       openNegotiation (tr_id t)))"

definition recoverTrade :: "string option \<Rightarrow> ('a trade_state_scheme, p2p_trade) handler" where
  "recoverTrade ref =
     (case ref of
        None \<Rightarrow> throw (GenericError ''where needs an id'')
      | Some i \<Rightarrow> seqH (findTradeById i) (\<lambda>r. requireH r (NotFoundError ''Trade'' i)))"

definition createTrade ::
    "engine_env \<Rightarrow> (nat \<Rightarrow> string) \<Rightarrow> CreateTradeInput \<Rightarrow> (('a trade_state_scheme) idempotent_state, p2p_trade) handler" where
  "createTrade env cuid inp =
     withIdempotency (sha256 env) cuid
       \<lparr>wi_scope = ''openp2p.trade.create'', wi_participantId = ct_counterpartyId inp, wi_key = ct_idempotencyKey inp,
        wi_requestPayload = JObj [(''offerId'', JStr (ct_offerId inp)), (''amount'', JStr (ct_amount inp))]\<rparr>
       \<lparr>persist = (\<lambda>_. persistTrade env inp), postPersist = postPersistTrade env, recover = recoverTrade, resultId = tr_id\<rparr>"

definition assertParticipant :: "string \<Rightarrow> string \<Rightarrow> ('a trade_state_scheme, p2p_trade) handler" where
  "assertParticipant tradeId who =
     seqH (findTradeById tradeId) (\<lambda>found.
     seqH (requireH found (NotFoundError ''Trade'' tradeId)) (\<lambda>t.
     seqH (guardH (who = tr_buyerId t \<or> who = tr_sellerId t) (ForbiddenError ''is not a party to trade'')) (\<lambda>_. ret t)))"

text \<open>The newest trades come first.\<close>

definition getTrades :: "string \<Rightarrow> OfferPagination \<Rightarrow> ('a trade_state_scheme, p2p_trade list \<times> nat \<times> bool) handler" where
  "getTrades who pg =
     (let (limit, offset) = normalizePagination pg MAX_PAGE_LIMIT in
      seqH (marketOp (readH (\<lambda>s. take limit (drop offset (rev (filter (\<lambda>t. tr_buyerId t = who \<or> tr_sellerId t = who) (tradeRows s))))))) (\<lambda>ts.
      seqH (marketOp (readH (\<lambda>s. length (filter (\<lambda>t. tr_buyerId t = who \<or> tr_sellerId t = who) (tradeRows s))))) (\<lambda>n.
        ret (ts, n, offset + length ts < n))))"

fun MANUAL_TRADE_TRANSITIONS :: "TradeStatus \<Rightarrow> TradeStatus list" where
  "MANUAL_TRADE_TRANSITIONS TradePending = [TradeActive, TradeCancelled]"
| "MANUAL_TRADE_TRANSITIONS TradeActive = [TradeCancelled]"
| "MANUAL_TRADE_TRANSITIONS _ = []"

definition updateStatus :: "engine_env \<Rightarrow> string \<Rightarrow> TradeStatus \<Rightarrow> string \<Rightarrow> ('a trade_state_scheme, p2p_trade) handler" where
  "updateStatus env tradeId status triggeredBy =
     seqH (findTradeById tradeId) (\<lambda>found.
     seqH (requireH found (NotFoundError ''Trade'' tradeId)) (\<lambda>t.
     seqH (guardH (triggeredBy = tr_buyerId t \<or> triggeredBy = tr_sellerId t) (ForbiddenError ''is not a party to trade'')) (\<lambda>_.
     seqH (guardH (status \<in> set (MANUAL_TRADE_TRANSITIONS (tr_status t))) (ValidationError ''Trade cannot transition'')) (\<lambda>_.
     seqH (readH clock) (\<lambda>now.
     seqH (updateTrade tradeId (\<lambda>u. if status = TradeCancelled then u\<lparr>tr_status := status, tr_cancelledAt := Some now\<rparr>
                                    else u\<lparr>tr_status := status\<rparr>)) (\<lambda>updated.
     seqH (emitMarketEvent ''openp2p.trade.status_changed'' tradeId) (\<lambda>_.
     seqH (case tr_intentId t of
             Some i \<Rightarrow> if status = TradeCancelled
               then seqH (transition env i I_CANCELLED triggeredBy ''intent.cancelled'' None) (\<lambda>_. ret ()) else ret ()
           | None \<Rightarrow> ret ()) (\<lambda>_. ret updated))))))))"

end
