(* ===== verification/Event_Store.thy ===== *)
theory Event_Store
  imports Interfaces Idempotency
begin

text \<open>
  \<^verbatim>\<open>src/common/events/event-store.ts\<close>, \<^verbatim>\<open>event-bus.ts\<close> and \<^verbatim>\<open>src/core/timeline.ts\<close>: the durable event
  log with one hash chain per correlation id, the check of a chain, and the dispatch of an event
  to the handlers of this and of the other instances. The contract of a store is a locale; the stores
  in PostgreSQL and in memory both meet it.
\<close>

section \<open>Events\<close>

text \<open>
  A time is kept in milliseconds and printed by \<open>iso\<close> where it is hashed. (The ISO strings of the
  years 0 to 9999 are ordered like their instants.)
\<close>

record DurableEvent =
  ev_id :: string
  ev_name :: string
  ev_correlationId :: string
  ev_payload :: json
  ev_publishedAt :: int
  ev_entryHash :: string
  ev_prevHash :: string

record event_env =
  e_sha256 :: "string \<Rightarrow> string"
  e_iso :: "int \<Rightarrow> string"
  e_uuid :: "nat \<Rightarrow> string"

definition GENESIS_HASH :: string where
  "GENESIS_HASH = ''genesis''"

definition entry_text :: "event_env \<Rightarrow> string \<Rightarrow> int \<Rightarrow> json \<Rightarrow> string \<Rightarrow> string" where
  "entry_text env name t payload prev = name @ '':'' @ e_iso env t @ '':'' @ json_stringify payload @ '':'' @ prev"

definition computeEntryHash :: "event_env \<Rightarrow> string \<Rightarrow> int \<Rightarrow> json \<Rightarrow> string \<Rightarrow> string" where
  "computeEntryHash env name t payload prev = e_sha256 env (entry_text env name t payload prev)"

definition last_hash :: "DurableEvent option \<Rightarrow> string" where
  "last_hash x = (case x of None \<Rightarrow> GENESIS_HASH | Some e \<Rightarrow> ev_entryHash e)"

definition new_event :: "event_env \<Rightarrow> string \<Rightarrow> string \<Rightarrow> json \<Rightarrow> string \<Rightarrow> int \<Rightarrow> string \<Rightarrow> DurableEvent" where
  "new_event env i name payload c t prev =
     \<lparr>ev_id = i, ev_name = name, ev_correlationId = c, ev_payload = payload, ev_publishedAt = t,
      ev_entryHash = computeEntryHash env name t payload prev, ev_prevHash = prev\<rparr>"

section \<open>The store in PostgreSQL\<close>

text \<open>The rows are in no particular order; a transaction under the lock of the correlation id inserts one.\<close>

record pg_store =
  pg_rows :: "DurableEvent list"
  pg_draws :: nat
  pg_faults :: "store_fault list"

definition getEventsPg :: "string \<Rightarrow> pg_store \<Rightarrow> DurableEvent list" where
  "getEventsPg c s = sort_key ev_publishedAt (filter (\<lambda>e. ev_correlationId e = c) (pg_rows s))"

definition lastEventPg :: "string \<Rightarrow> pg_store \<Rightarrow> DurableEvent option" where
  "lastEventPg c s = (let es = getEventsPg c s in if es = [] then None else Some (last es))"

definition publish_time :: "int \<Rightarrow> DurableEvent option \<Rightarrow> int" where
  "publish_time now x = (case x of None \<Rightarrow> now | Some e \<Rightarrow> if now \<le> ev_publishedAt e then ev_publishedAt e + 1 else now)"

definition insertPg :: "event_env \<Rightarrow> int \<Rightarrow> string \<Rightarrow> json \<Rightarrow> string \<Rightarrow> pg_store \<Rightarrow> DurableEvent \<times> pg_store" where
  "insertPg env now name payload c s =
     (let prior = lastEventPg c s;
          e = new_event env (e_uuid env (pg_draws s)) name payload c (publish_time now prior) (last_hash prior)
      in (e, s\<lparr>pg_rows := e # pg_rows s, pg_draws := Suc (pg_draws s)\<rparr>))"

definition publishPg :: "event_env \<Rightarrow> int \<Rightarrow> string \<Rightarrow> json \<Rightarrow> string \<Rightarrow> (pg_store, DurableEvent) handler" where
  "publishPg env now name payload c =
     faultyOp pg_faults (\<lambda>fs s. s\<lparr>pg_faults := fs\<rparr>)
       (\<lambda>s. let (e, s') = insertPg env now name payload c s in (Inr e, s'))"

section \<open>The store in memory\<close>

record memory_store =
  mem_events :: "string \<Rightarrow> DurableEvent list"
  mem_draws :: nat

definition getEventsMem :: "string \<Rightarrow> memory_store \<Rightarrow> DurableEvent list" where
  "getEventsMem c s = mem_events s c"

definition insertMem :: "event_env \<Rightarrow> int \<Rightarrow> string \<Rightarrow> json \<Rightarrow> string \<Rightarrow> memory_store \<Rightarrow> DurableEvent \<times> memory_store" where
  "insertMem env now name payload c s =
     (let es = mem_events s c; prior = (if es = [] then None else Some (last es));
          e = new_event env (e_uuid env (mem_draws s)) name payload c now (last_hash prior)
      in (e, s\<lparr>mem_events := (mem_events s)(c := es @ [e]), mem_draws := Suc (mem_draws s)\<rparr>))"

definition publishMem :: "event_env \<Rightarrow> int \<Rightarrow> string \<Rightarrow> json \<Rightarrow> string \<Rightarrow> (memory_store, DurableEvent) handler" where
  "publishMem env now name payload c = (\<lambda>s. let (e, s') = insertMem env now name payload c s in (Inr e, s'))"

section \<open>The timeline\<close>

record TimelineEntry =
  te_eventId :: string
  te_eventType :: string
  te_occurredAt :: int
  te_payload :: json
  te_entryHash :: string
  te_prevHash :: string

definition toTimelineEntry :: "DurableEvent \<Rightarrow> TimelineEntry" where
  "toTimelineEntry e = \<lparr>te_eventId = ev_id e, te_eventType = ev_name e, te_occurredAt = ev_publishedAt e, te_payload = ev_payload e,
     te_entryHash = ev_entryHash e, te_prevHash = ev_prevHash e\<rparr>"

definition entry_ok :: "event_env \<Rightarrow> string \<Rightarrow> DurableEvent \<Rightarrow> bool" where
  "entry_ok env expected e \<longleftrightarrow>
     ev_prevHash e = expected \<and> ev_entryHash e = computeEntryHash env (ev_name e) (ev_publishedAt e) (ev_payload e) (ev_prevHash e)"

fun firstBroken :: "event_env \<Rightarrow> string \<Rightarrow> nat \<Rightarrow> DurableEvent list \<Rightarrow> nat option" where
  "firstBroken env expected i [] = None"
| "firstBroken env expected i (e # es) = (if entry_ok env expected e then firstBroken env (ev_entryHash e) (Suc i) es else Some i)"

definition verifyChain :: "event_env \<Rightarrow> DurableEvent list \<Rightarrow> bool \<times> nat option" where
  "verifyChain env es = (case firstBroken env GENESIS_HASH 0 es of None \<Rightarrow> (True, None) | Some i \<Rightarrow> (False, Some i))"

section \<open>Dispatch\<close>

text \<open>
  An event is handed to the handlers of the publishing instance, and, with the fan-out of the
  started server, to those of every other instance that gets the message; the echo of its own message
  is dropped by its origin. The error of a handler is logged.
\<close>

definition onMessage :: "nat \<Rightarrow> nat \<Rightarrow> bool" where
  "onMessage origin me \<longleftrightarrow> origin \<noteq> me"

definition dispatchedTo :: "bool \<Rightarrow> nat \<Rightarrow> nat list \<Rightarrow> nat list" where
  "dispatchedTo fanout origin subscribers = origin # (if fanout then filter (onMessage origin) subscribers else [])"

fun runHandlers :: "(nat \<Rightarrow> ('s, unit) handler) \<Rightarrow> nat list \<Rightarrow> ('s, unit) handler" where
  "runHandlers h [] = ret ()"
| "runHandlers h (k # ks) = seqH (catchH (h k) (\<lambda>_. ret ())) (\<lambda>_. runHandlers h ks)"

section \<open>The contract of a store\<close>

locale event_store =
  fixes env :: event_env
    and insert_event :: "int \<Rightarrow> string \<Rightarrow> json \<Rightarrow> string \<Rightarrow> 's \<Rightarrow> DurableEvent \<times> 's"
    and events_of :: "string \<Rightarrow> 's \<Rightarrow> DurableEvent list"
    and sound :: "'s \<Rightarrow> bool"
  assumes appends: "sound s \<Longrightarrow> insert_event now name payload c s = (e, s') \<Longrightarrow> events_of c s' = events_of c s @ [e]"
    and chained: "sound s \<Longrightarrow> insert_event now name payload c s = (e, s') \<Longrightarrow>
      ev_name e = name \<and> ev_payload e = payload \<and>
      entry_ok env (if events_of c s = [] then GENESIS_HASH else ev_entryHash (last (events_of c s))) e"
    and others: "sound s \<Longrightarrow> insert_event now name payload c s = (e, s') \<Longrightarrow> d \<noteq> c \<Longrightarrow> events_of d s' = events_of d s"
    and stays: "sound s \<Longrightarrow> insert_event now name payload c s = (e, s') \<Longrightarrow> sound s'"
begin

fun record_all :: "(int \<times> string \<times> json \<times> string) list \<Rightarrow> 's \<Rightarrow> 's" where
  "record_all [] s = s"
| "record_all ((now, name, payload, c) # ps) s = record_all ps (snd (insert_event now name payload c s))"

lemma firstBroken_snoc:
  "firstBroken env h i (es @ [e]) =
     (case firstBroken env h i es of
        Some j \<Rightarrow> Some j
      | None \<Rightarrow> if entry_ok env (if es = [] then h else ev_entryHash (last es)) e then None else Some (i + length es))"
  by (induction es arbitrary: h i) (auto split: option.split)

lemma insert_verifies:
  assumes "sound s" and "insert_event now name payload c s = (e, s')" and "firstBroken env GENESIS_HASH 0 (events_of d s) = None"
  shows "firstBroken env GENESIS_HASH 0 (events_of d s') = None"
  using assms appends [OF assms(1,2)] chained [OF assms(1,2)] others [OF assms(1,2)]
  by (cases "d = c") (simp_all add: firstBroken_snoc)

lemma record_all_spec:
  assumes "sound s" and "firstBroken env GENESIS_HASH 0 (events_of d s) = None"
  shows "sound (record_all ps s) \<and> firstBroken env GENESIS_HASH 0 (events_of d (record_all ps s)) = None
    \<and> map (\<lambda>e. (ev_name e, ev_payload e)) (events_of d (record_all ps s))
      = map (\<lambda>e. (ev_name e, ev_payload e)) (events_of d s) @ map (\<lambda>(_, n, p, _). (n, p)) (filter (\<lambda>(_, _, _, c). c = d) ps)"
  using assms
proof (induction ps arbitrary: s)
  case (Cons x ps)
  obtain now name payload c where x: "x = (now, name, payload, c)" by (cases x)
  obtain e s' where ins: "insert_event now name payload c s = (e, s')" by fastforce
  have "sound s'" and "firstBroken env GENESIS_HASH 0 (events_of d s') = None"
    using stays insert_verifies Cons.prems ins by blast+
  from Cons.IH [OF this] show ?case
    using appends [OF Cons.prems(1) ins] chained [OF Cons.prems(1) ins] others [OF Cons.prems(1) ins, of d] x ins
    by (cases "c = d") auto
qed simp

end

section \<open>Both stores meet it\<close>

text \<open>
  In the database the order of reading is that of the times, so the times of a correlation id have to
  grow: each event is stamped later than the last one, whatever the clock of its instance says.
\<close>

definition times_distinct :: "pg_store \<Rightarrow> bool" where
  "times_distinct s \<longleftrightarrow> (\<forall>c. distinct (map ev_publishedAt (filter (\<lambda>e. ev_correlationId e = c) (pg_rows s))))"

lemma insort_key_append: "(\<And>y. y \<in> set ys \<Longrightarrow> f y < f x) \<Longrightarrow> insort_key f x ys = ys @ [x]"
proof (induction ys)
  case (Cons y ys)
  have "\<not> f x \<le> f y" using Cons.prems [of y] by simp
  moreover have "insort_key f x ys = ys @ [x]" using Cons by simp
  ultimately show ?case by simp
qed simp

lemma sort_key_last: "y \<in> set xs \<Longrightarrow> f y \<le> f (last (sort_key f xs))"
proof -
  assume y: "y \<in> set xs"
  then have ne: "sort_key f xs \<noteq> []" by (metis length_pos_if_in_set length_sort list.size(3) less_nat_zero_code)
  obtain i where i: "i < length (sort_key f xs)" "sort_key f xs ! i = y"
    using y by (metis in_set_conv_nth set_sort)
  have "map f (sort_key f xs) ! i \<le> map f (sort_key f xs) ! (length (sort_key f xs) - 1)"
    using i by (intro sorted_nth_mono) auto
  with i ne show ?thesis by (simp add: last_conv_nth)
qed

lemma publish_time_later:
  assumes "e \<in> set (pg_rows s)" and "ev_correlationId e = c"
  shows "ev_publishedAt e < publish_time now (lastEventPg c s)"
proof -
  let ?es = "filter (\<lambda>e. ev_correlationId e = c) (pg_rows s)"
  have in_es: "e \<in> set ?es" using assms by simp
  then have "sort_key ev_publishedAt ?es \<noteq> []" by (metis length_pos_if_in_set length_sort list.size(3) less_nat_zero_code)
  with sort_key_last [OF in_es, of ev_publishedAt] show ?thesis
    by (auto simp: publish_time_def lastEventPg_def getEventsPg_def Let_def)
qed

lemma insertPg_appends:
  assumes "insertPg env now name payload c s = (e, s')"
  shows "getEventsPg c s' = getEventsPg c s @ [e]"
proof -
  have e: "ev_publishedAt e = publish_time now (lastEventPg c s)" "ev_correlationId e = c" "pg_rows s' = e # pg_rows s"
    using assms by (auto simp: insertPg_def Let_def new_event_def)
  have "insort_key ev_publishedAt e (getEventsPg c s) = getEventsPg c s @ [e]"
    using publish_time_later [of _ s c now] e by (intro insort_key_append) (auto simp: getEventsPg_def)
  with e show ?thesis by (simp add: getEventsPg_def)
qed

interpretation pg: event_store env "insertPg env" getEventsPg times_distinct for env
proof
  fix s now name payload c e s' d
  assume s: "times_distinct s" and ins: "insertPg env now name payload c s = (e, s')"
  show "getEventsPg c s' = getEventsPg c s @ [e]" using ins by (rule insertPg_appends)
  show "ev_name e = name \<and> ev_payload e = payload \<and>
      entry_ok env (if getEventsPg c s = [] then GENESIS_HASH else ev_entryHash (last (getEventsPg c s))) e"
    using ins by (auto simp: insertPg_def Let_def new_event_def entry_ok_def lastEventPg_def last_hash_def)
  show "getEventsPg d s' = getEventsPg d s" if "d \<noteq> c"
    using ins that by (auto simp: insertPg_def Let_def new_event_def getEventsPg_def)
  show "times_distinct s'"
    using s ins publish_time_later [of _ s c now]
    by (fastforce simp: times_distinct_def insertPg_def Let_def new_event_def)
qed

interpretation mem: event_store env "insertMem env" getEventsMem "\<lambda>_. True" for env
  by unfold_locales (auto simp: insertMem_def getEventsMem_def Let_def new_event_def entry_ok_def last_hash_def)

section \<open>The log verifies\<close>

text \<open>What reaches the table: publications, each answered, rejected, or stored without an answer.\<close>

definition publish_all :: "event_env \<Rightarrow> (int \<times> string \<times> json \<times> string) list \<Rightarrow> pg_store \<Rightarrow> pg_store" where
  "publish_all env ps s = foldl (\<lambda>s (now, name, payload, c). snd (publishPg env now name payload c s)) s ps"

definition empty_pg :: "store_fault list \<Rightarrow> pg_store" where
  "empty_pg fs = \<lparr>pg_rows = [], pg_draws = 0, pg_faults = fs\<rparr>"

lemma verifies_iff: "verifyChain env es = (True, None) \<longleftrightarrow> firstBroken env GENESIS_HASH 0 es = None"
  by (auto simp: verifyChain_def split: option.splits)

lemma publish_inv:
  assumes "times_distinct s" and "firstBroken env GENESIS_HASH 0 (getEventsPg d s) = None"
  shows "times_distinct (snd (publishPg env now name payload c s))
    \<and> firstBroken env GENESIS_HASH 0 (getEventsPg d (snd (publishPg env now name payload c s))) = None"
proof -
  have faults: "times_distinct (t\<lparr>pg_faults := fs\<rparr>) = times_distinct t" "getEventsPg d (t\<lparr>pg_faults := fs\<rparr>) = getEventsPg d t" for t fs
    by (simp_all add: times_distinct_def getEventsPg_def)
  have "times_distinct (snd (insertPg env now name payload c t)) \<and> firstBroken env GENESIS_HASH 0 (getEventsPg d (snd (insertPg env now name payload c t))) = None"
    if "times_distinct t" "firstBroken env GENESIS_HASH 0 (getEventsPg d t) = None" for t
    using pg.stays [OF that(1)] pg.insert_verifies [OF that(1) _ that(2)] by (metis prod.collapse)
  with assms faults show ?thesis
    by (auto simp: publishPg_def faultyOp_def Let_def case_prod_beta split: list.split store_fault.split)
qed

lemma publish_all_working: "pg_faults s = [] \<Longrightarrow> publish_all env ps s = pg.record_all env ps s"
proof (induction ps arbitrary: s)
  case (Cons p ps)
  obtain now name payload d where "p = (now, name, payload, d)" by (cases p)
  moreover have "snd (publishPg env now name payload d s) = snd (insertPg env now name payload d s)"
    using Cons.prems by (simp add: publishPg_def faultyOp_def case_prod_beta)
  moreover have "pg_faults (snd (insertPg env now name payload d s)) = []"
    using Cons.prems by (simp add: insertPg_def Let_def)
  ultimately show ?case using Cons.IH by (simp add: publish_all_def)
qed (simp add: publish_all_def)

text \<open>
  Whatever instances publish, with whatever clocks and failures of the database, the timeline of every
  correlation id verifies; and when the database works it lists the events in the order in which they were published.
\<close>

theorem timeline_verifies:
  "verifyChain env (getEventsPg c (publish_all env ps (empty_pg fs))) = (True, None)
   \<and> (fs = [] \<longrightarrow> map (\<lambda>e. (ev_name e, ev_payload e)) (getEventsPg c (publish_all env ps (empty_pg fs)))
                  = map (\<lambda>(_, n, p, _). (n, p)) (filter (\<lambda>(_, _, _, d). d = c) ps))"
proof (intro conjI impI)
  have start: "times_distinct (empty_pg fs)" "firstBroken env GENESIS_HASH 0 (getEventsPg c (empty_pg fs)) = None"
    by (simp_all add: empty_pg_def times_distinct_def getEventsPg_def)
  have "times_distinct (publish_all env ps s) \<and> firstBroken env GENESIS_HASH 0 (getEventsPg c (publish_all env ps s)) = None"
    if "times_distinct s" "firstBroken env GENESIS_HASH 0 (getEventsPg c s) = None" for s
    using that
  proof (induction ps arbitrary: s)
    case (Cons p ps)
    obtain now name payload d where "p = (now, name, payload, d)" by (cases p)
    with publish_inv [OF Cons.prems, of now name payload d] Cons.IH show ?case by (simp add: publish_all_def)
  qed (simp add: publish_all_def)
  from this [OF start] show "verifyChain env (getEventsPg c (publish_all env ps (empty_pg fs))) = (True, None)"
    by (simp add: verifies_iff)
  assume "fs = []"
  then show "map (\<lambda>e. (ev_name e, ev_payload e)) (getEventsPg c (publish_all env ps (empty_pg fs)))
      = map (\<lambda>(_, n, p, _). (n, p)) (filter (\<lambda>(_, _, _, d). d = c) ps)"
    using pg.record_all_spec [OF start, of ps] publish_all_working [of "empty_pg fs" env ps]
    by (simp add: empty_pg_def getEventsPg_def)
qed

section \<open>Tampering is located\<close>

lemma firstBroken_prefix: "firstBroken env h i (xs @ ys) =
   (case firstBroken env h i xs of Some j \<Rightarrow> Some j
    | None \<Rightarrow> firstBroken env (if xs = [] then h else ev_entryHash (last xs)) (i + length xs) ys)"
  by (induction xs arbitrary: h i) (auto split: option.split)

lemma entry_text_inject:
  assumes "entry_text env n t p h = entry_text env n' t' p' h" and "CHR '':'' \<notin> set n" and "CHR '':'' \<notin> set n'"
    and "length (e_iso env t) = length (e_iso env t')"
  shows "n = n' \<and> e_iso env t = e_iso env t' \<and> json_stringify p = json_stringify p'"
proof -
  have "n @ CHR '':'' # (e_iso env t @ '':'' @ json_stringify p) = n' @ CHR '':'' # (e_iso env t' @ '':'' @ json_stringify p')"
    using assms(1) by (simp add: entry_text_def)
  from split_first_sep [OF this assms(2,3)] assms(4) show ?thesis by simp
qed

text \<open>
  Rewriting history is located. Let the name, the time or the payload of one event of a timeline that verifies
  be changed, its stored hashes being kept. Then the check reports exactly that event, unless the
  old and the new entry are a collision of the hash function.
\<close>

theorem tampering_is_located:
  assumes "verifyChain env (xs @ e # ys) = (True, None)"
    and "ev_entryHash e' = ev_entryHash e" and "ev_prevHash e' = ev_prevHash e"
    and "(ev_name e', e_iso env (ev_publishedAt e'), json_stringify (ev_payload e'))
         \<noteq> (ev_name e, e_iso env (ev_publishedAt e), json_stringify (ev_payload e))"
    and "CHR '':'' \<notin> set (ev_name e)" and "CHR '':'' \<notin> set (ev_name e')"
    and "length (e_iso env (ev_publishedAt e')) = length (e_iso env (ev_publishedAt e))"
  shows "verifyChain env (xs @ e' # ys) = (False, Some (length xs))
    \<or> (\<exists>a b. a \<noteq> b \<and> e_sha256 env a = e_sha256 env b)"
proof -
  let ?text = "\<lambda>e. entry_text env (ev_name e) (ev_publishedAt e) (ev_payload e) (ev_prevHash e)"
  have xs: "firstBroken env GENESIS_HASH 0 xs = None"
    and e: "entry_ok env (if xs = [] then GENESIS_HASH else ev_entryHash (last xs)) e"
    using assms(1) by (auto simp: verifies_iff firstBroken_prefix split: option.splits if_splits)
  have "?text e' \<noteq> ?text e"
    using entry_text_inject [of env "ev_name e'" _ _ _ "ev_name e"] assms(3-7) by metis
  moreover have "verifyChain env (xs @ e' # ys) = (False, Some (length xs))" if "e_sha256 env (?text e') \<noteq> e_sha256 env (?text e)"
    using xs e that assms(2,3) by (auto simp: verifyChain_def firstBroken_prefix entry_ok_def computeEntryHash_def)
  ultimately show ?thesis by metis
qed

section \<open>A worked example\<close>

definition demo_event_env :: event_env where
  "demo_event_env = \<lparr>e_sha256 = id, e_iso = (\<lambda>t. take 3 (show_int t @ ''   '')), e_uuid = show_nat\<rparr>"

text \<open>Two instances, the clock of the second one running behind.\<close>

definition demo_publications :: "(int \<times> string \<times> json \<times> string) list" where
  "demo_publications = [(7, ''opened'', JNull, ''t''), (5, ''locked'', JBool True, ''t''), (6, ''other'', JNull, ''u'')]"

theorem timeline_verifies_witness:
  "map ev_name (getEventsPg ''t'' (publish_all demo_event_env demo_publications (empty_pg []))) = [''opened'', ''locked'']"
proof -
  have "map (\<lambda>e. (ev_name e, ev_payload e)) (getEventsPg ''t'' (publish_all demo_event_env demo_publications (empty_pg [])))
      = [(''opened'', JNull), (''locked'', JBool True)]"
    using timeline_verifies [of demo_event_env "''t''" demo_publications "[]"] by (simp add: demo_publications_def)
  then have "map fst (map (\<lambda>e. (ev_name e, ev_payload e)) (getEventsPg ''t'' (publish_all demo_event_env demo_publications (empty_pg []))))
      = [''opened'', ''locked'']" by simp
  then show ?thesis by (simp add: comp_def)
qed

definition demo_event :: "string \<Rightarrow> DurableEvent" where
  "demo_event name = \<lparr>ev_id = ''0'', ev_name = name, ev_correlationId = ''t'', ev_payload = JNull, ev_publishedAt = 7,
     ev_entryHash = computeEntryHash demo_event_env ''opened'' 7 JNull GENESIS_HASH, ev_prevHash = GENESIS_HASH\<rparr>"

theorem tampering_is_located_witness:
  "verifyChain demo_event_env [demo_event ''closed''] = (False, Some 0)"
proof -
  have "verifyChain demo_event_env ([] @ demo_event ''closed'' # []) = (False, Some (length ([] :: DurableEvent list)))
      \<or> (\<exists>a b. a \<noteq> b \<and> e_sha256 demo_event_env a = e_sha256 demo_event_env b)"
    by (rule tampering_is_located [where e = "demo_event ''opened''"])
      (simp_all add: demo_event_def verifyChain_def entry_ok_def)
  then show ?thesis by (simp add: demo_event_env_def)
qed

end
