(* ===== verification/Trade_Lifecycle.thy ===== *)
theory Trade_Lifecycle
  imports Trade_Service Event_Store
begin

text \<open>
  What follows from the events of an escrow: \<^verbatim>\<open>src/common/events/handlers.ts\<close> moves the trade and its
  intent, counts the trades of the parties and records the outcome with the reputation module
  (\<^verbatim>\<open>src/modules/open-reputation\<close>), which also keeps the ratings and the vouches that participants give
  for one another.
\<close>

section \<open>State\<close>

datatype DisputeVerdict = VerdictRelease | VerdictRefund | VerdictSplit

record vouch_row =
  vo_id :: string
  vo_voucherId :: string
  vo_voucheeId :: string
  vo_burnedAt :: "int option"

record rating_row =
  ra_tradeId :: string
  ra_raterId :: string
  ra_ratedId :: string
  ra_score :: int
  ra_comment :: "string option"

text \<open>Of the settlement module the reactions read the resolved disputes of a trade and the fee of an escrow.\<close>

record lifecycle_state = trade_state +
  vouches :: "vouch_row list"
  ratings :: "rating_row list"
  resolved_disputes :: "(string \<times> DisputeVerdict) list"
  escrow_fees :: "string \<Rightarrow> rat option"

section \<open>Reputation\<close>

datatype ReputationOutcome = POSITIVE | NEGATIVE | NEUTRAL

fun outcome_delta :: "ReputationOutcome \<Rightarrow> rat" where
  "outcome_delta POSITIVE = 2"
| "outcome_delta NEGATIVE = -5"
| "outcome_delta NEUTRAL = 0"

definition VOUCH_BURN_PENALTY :: rat where
  "VOUCH_BURN_PENALTY = -5"

text \<open>\<^verbatim>\<open>user.update\<close> by id with an increment fails on a missing row.\<close>

definition updateUser :: "string \<Rightarrow> (user_row \<Rightarrow> user_row) \<Rightarrow> ('a lifecycle_state_scheme, unit) handler" where
  "updateUser u f = marketOp (
     seqH (readH (\<lambda>s. users s u)) (\<lambda>found.
     seqH (requireH found (DatabaseError ''P2025'')) (\<lambda>r.
       writeH (\<lambda>s. s\<lparr>users := (users s)(u \<mapsto> f r)\<rparr>))))"

definition addScore :: "rat \<Rightarrow> user_row \<Rightarrow> user_row" where
  "addScore d r = r\<lparr>us_reputationScore := us_reputationScore r + d\<rparr>"

definition recordOutcome :: "string \<Rightarrow> string \<Rightarrow> ReputationOutcome \<Rightarrow> ('a lifecycle_state_scheme, unit) handler" where
  "recordOutcome tradeId who outcome =
     seqH (updateUser who (addScore (outcome_delta outcome))) (\<lambda>_. emitMarketEvent ''reputation.score.updated'' tradeId)"

definition penalizeForBurnedVouch :: "string \<Rightarrow> ('a lifecycle_state_scheme, unit) handler" where
  "penalizeForBurnedVouch voucherId =
     seqH (updateUser voucherId (addScore VOUCH_BURN_PENALTY)) (\<lambda>_. emitMarketEvent ''reputation.score.updated'' voucherId)"

definition rate :: "string \<Rightarrow> string \<Rightarrow> string \<Rightarrow> int \<Rightarrow> string option \<Rightarrow> ('a lifecycle_state_scheme, unit) handler" where
  "rate tradeId raterId ratedId score comment =
     seqH (guardH (1 \<le> score \<and> score \<le> 5) (ValidationError ''score must be between 1 and 5'')) (\<lambda>_.
     seqH (findTradeById tradeId) (\<lambda>found.
     seqH (requireH found (NotFoundError ''Trade'' tradeId)) (\<lambda>t.
     seqH (guardH (raterId = tr_buyerId t \<or> raterId = tr_sellerId t) (ForbiddenError ''is not a party to trade'')) (\<lambda>_.
     seqH (guardH (ratedId = (if raterId = tr_buyerId t then tr_sellerId t else tr_buyerId t))
             (ValidationError ''ratedId must be the other party'')) (\<lambda>_.
       catchH (marketOp (
           seqH (readH (\<lambda>s. list_ex (\<lambda>r. ra_tradeId r = tradeId \<and> ra_raterId r = raterId) (ratings s))) (\<lambda>dup.
           seqH (guardH (\<not> dup) (DatabaseError ''P2002'')) (\<lambda>_.
             writeH (\<lambda>s. s\<lparr>ratings := ratings s @ [\<lparr>ra_tradeId = tradeId, ra_raterId = raterId, ra_ratedId = ratedId,
               ra_score = score, ra_comment = comment\<rparr>]\<rparr>)))))
         (\<lambda>err. throw (if isUniqueConstraintError err then ValidationError ''has already rated trade'' else err)))))))"

definition getScore :: "string \<Rightarrow> ('a lifecycle_state_scheme, rat \<times> rat \<times> int) handler" where
  "getScore who =
     seqH (marketOp (readH (\<lambda>s. users s who))) (\<lambda>found.
     seqH (requireH found (NotFoundError ''Participant'' who)) (\<lambda>u.
       ret (us_reputationScore u,
            if 0 < us_totalTrades u then of_int (us_disputeCount u) / of_int (us_totalTrades u) else 0,
            us_totalTrades u)))"

section \<open>Vouches\<close>

definition MIN_VOUCHER_TRADES :: int where "MIN_VOUCHER_TRADES = 3"

definition requireUser :: "string \<Rightarrow> ('a lifecycle_state_scheme, user_row) handler" where
  "requireUser u = seqH (marketOp (readH (\<lambda>s. users s u))) (\<lambda>found. requireH found (NotFoundError ''User'' u))"

definition createVouch :: "engine_env \<Rightarrow> string \<Rightarrow> string \<Rightarrow> ('a lifecycle_state_scheme, vouch_row) handler" where
  "createVouch env voucherId voucheeId = marketOp (
     seqH (readH (\<lambda>s. (list_ex (\<lambda>v. vo_voucherId v = voucherId \<and> vo_voucheeId v = voucheeId) (vouches s), uuid env (draws s)))) (\<lambda>(dup, i).
     seqH (guardH (\<not> dup) (DatabaseError ''P2002'')) (\<lambda>_.
       let v = \<lparr>vo_id = i, vo_voucherId = voucherId, vo_voucheeId = voucheeId, vo_burnedAt = None\<rparr> in
       seqH (writeH (\<lambda>s. s\<lparr>vouches := vouches s @ [v], draws := Suc (draws s)\<rparr>)) (\<lambda>_. ret v))))"

definition vouchFor :: "engine_env \<Rightarrow> string \<Rightarrow> string \<Rightarrow> ('a lifecycle_state_scheme, vouch_row) handler" where
  "vouchFor env voucherId voucheeId =
     seqH (guardH (voucherId \<noteq> voucheeId) (ValidationError ''cannot vouch for yourself'')) (\<lambda>_.
     seqH (requireUser voucherId) (\<lambda>voucher.
     seqH (requireUser voucheeId) (\<lambda>_.
     seqH (guardH (MIN_VOUCHER_TRADES \<le> us_totalTrades voucher \<and> 0 < us_reputationScore voucher)
             (ValidationError ''does not meet the eligibility bar to vouch'')) (\<lambda>_.
       catchH (seqH (createVouch env voucherId voucheeId) (\<lambda>v.
               seqH (emitMarketEvent ''reputation.vouch.created'' voucheeId) (\<lambda>_. ret v)))
         (\<lambda>err. throw (if isUniqueConstraintError err then ValidationError ''has already vouched'' else err))))))"

definition active_vouch :: "string \<Rightarrow> vouch_row \<Rightarrow> bool" where
  "active_vouch who v \<longleftrightarrow> vo_voucheeId v = who \<and> vo_burnedAt v = None"

definition hasActiveVouch :: "string \<Rightarrow> ('a lifecycle_state_scheme, bool) handler" where
  "hasActiveVouch who = marketOp (readH (\<lambda>s. list_ex (active_vouch who) (vouches s)))"

definition burnVouch :: "vouch_row \<Rightarrow> ('a lifecycle_state_scheme, unit) handler" where
  "burnVouch v =
     seqH (readH clock) (\<lambda>now.
     seqH (marketOp (writeH (\<lambda>s. s\<lparr>vouches := map (\<lambda>u. if vo_id u = vo_id v then u\<lparr>vo_burnedAt := Some now\<rparr> else u) (vouches s)\<rparr>))) (\<lambda>_.
     seqH (penalizeForBurnedVouch (vo_voucherId v)) (\<lambda>_.
       emitMarketEvent ''reputation.vouch.burned'' (vo_voucheeId v))))"

fun forEach :: "('b \<Rightarrow> ('s, unit) handler) \<Rightarrow> 'b list \<Rightarrow> ('s, unit) handler" where
  "forEach f [] = ret ()"
| "forEach f (x # xs) = seqH (f x) (\<lambda>_. forEach f xs)"

definition burnVouchesFor :: "string \<Rightarrow> ('a lifecycle_state_scheme, unit) handler" where
  "burnVouchesFor who =
     seqH (marketOp (readH (\<lambda>s. filter (active_vouch who) (vouches s)))) (forEach burnVouch)"

section \<open>Reactions to escrow events\<close>

definition recordTradeCompletion :: "p2p_trade \<Rightarrow> ('a lifecycle_state_scheme, unit) handler" where
  "recordTradeCompletion t =
     (let f = (\<lambda>r. r\<lparr>us_totalTrades := us_totalTrades r + 1, us_totalVolumeBtc := us_totalVolumeBtc r + tr_amount t\<rparr>) in
      seqH (updateUser (tr_buyerId t) f) (\<lambda>_. updateUser (tr_sellerId t) f))"

definition fulfillIntent :: "engine_env \<Rightarrow> string \<Rightarrow> ('a lifecycle_state_scheme, unit) handler" where
  "fulfillIntent env i =
     seqH (transition env i I_SETTLING LIFECYCLE_TRIGGER ''intent.settling'' None) (\<lambda>_.
     seqH (transition env i I_FULFILLED LIFECYCLE_TRIGGER ''intent.fulfilled'' None) (\<lambda>_. ret ()))"

definition accrueFeeFloor :: "p2p_trade \<Rightarrow> rat option \<Rightarrow> ('a lifecycle_state_scheme, unit) handler" where
  "accrueFeeFloor t fee =
     (case fee of
        None \<Rightarrow> ret ()
      | Some x \<Rightarrow> (let f = (\<lambda>r. r\<lparr>us_cumulativeFeesObserved := us_cumulativeFeesObserved r + x\<rparr>) in
          seqH (updateUser (tr_buyerId t) f) (\<lambda>_. updateUser (tr_sellerId t) f)))"

definition ruled :: "string \<Rightarrow> DisputeVerdict \<Rightarrow> ('a lifecycle_state_scheme, bool) handler" where
  "ruled tradeId v = marketOp (readH (\<lambda>s. (tradeId, v) \<in> set (resolved_disputes s)))"

definition applyReleaseOutcomes :: "p2p_trade \<Rightarrow> ('a lifecycle_state_scheme, unit) handler" where
  "applyReleaseOutcomes t =
     seqH (ruled (tr_id t) VerdictRelease) (\<lambda>resolved.
       if resolved
       then seqH (recordOutcome (tr_id t) (tr_buyerId t) POSITIVE) (\<lambda>_.
            seqH (recordOutcome (tr_id t) (tr_sellerId t) NEGATIVE) (\<lambda>_. burnVouchesFor (tr_sellerId t)))
       else seqH (recordOutcome (tr_id t) (tr_buyerId t) POSITIVE) (\<lambda>_. recordOutcome (tr_id t) (tr_sellerId t) POSITIVE))"

definition applyRefundOutcomes :: "p2p_trade \<Rightarrow> ('a lifecycle_state_scheme, unit) handler" where
  "applyRefundOutcomes t =
     seqH (ruled (tr_id t) VerdictRefund) (\<lambda>resolved.
       if resolved
       then seqH (recordOutcome (tr_id t) (tr_sellerId t) POSITIVE) (\<lambda>_.
            seqH (recordOutcome (tr_id t) (tr_buyerId t) NEGATIVE) (\<lambda>_. burnVouchesFor (tr_buyerId t)))
       else seqH (recordOutcome (tr_id t) (tr_buyerId t) NEUTRAL) (\<lambda>_. recordOutcome (tr_id t) (tr_sellerId t) NEUTRAL))"

definition forIntent :: "p2p_trade \<Rightarrow> (string \<Rightarrow> ('s, unit) handler) \<Rightarrow> ('s, unit) handler" where
  "forIntent t f = (case tr_intentId t of None \<Rightarrow> ret () | Some i \<Rightarrow> f i)"

definition onEscrowCreated :: "string \<Rightarrow> string \<Rightarrow> ('a lifecycle_state_scheme, unit) handler" where
  "onEscrowCreated tradeId escrowId = seqH (updateTrade tradeId (\<lambda>u. u\<lparr>tr_escrowId := Some escrowId\<rparr>)) (\<lambda>_. ret ())"

definition onEscrowLocked :: "engine_env \<Rightarrow> string \<Rightarrow> ('a lifecycle_state_scheme, unit) handler" where
  "onEscrowLocked env tradeId =
     seqH (updateTrade tradeId (\<lambda>u. u\<lparr>tr_status := TradeActive\<rparr>)) (\<lambda>t.
       forIntent t (\<lambda>i. seqH (transition env i I_COMMITTED LIFECYCLE_TRIGGER ''intent.committed'' None) (\<lambda>_. ret ())))"

definition onEscrowReleased :: "engine_env \<Rightarrow> string \<Rightarrow> string \<Rightarrow> ('a lifecycle_state_scheme, unit) handler" where
  "onEscrowReleased env tradeId escrowId =
     seqH (readH clock) (\<lambda>now.
     seqH (updateTrade tradeId (\<lambda>u. u\<lparr>tr_status := TradeCompleted, tr_completedAt := Some now\<rparr>)) (\<lambda>t.
     seqH (recordTradeCompletion t) (\<lambda>_.
     seqH (marketOp (readH (\<lambda>s. escrow_fees s escrowId))) (\<lambda>fee.
     seqH (accrueFeeFloor t fee) (\<lambda>_.
     seqH (emitMarketEvent ''openp2p.trade.completed'' tradeId) (\<lambda>_.
     seqH (applyReleaseOutcomes t) (\<lambda>_.
       forIntent t (fulfillIntent env))))))))"

definition onEscrowDisputed :: "string \<Rightarrow> ('a lifecycle_state_scheme, unit) handler" where
  "onEscrowDisputed tradeId =
     seqH (updateTrade tradeId (\<lambda>u. u\<lparr>tr_status := TradeDisputed\<rparr>)) (\<lambda>_.
       emitMarketEvent ''openp2p.trade.disputed'' tradeId)"

definition onTradeDisputed :: "string \<Rightarrow> ('a lifecycle_state_scheme, unit) handler" where
  "onTradeDisputed tradeId =
     seqH (findTradeById tradeId) (\<lambda>found.
       case found of
         None \<Rightarrow> ret ()
       | Some t \<Rightarrow> (let f = (\<lambda>r. r\<lparr>us_disputeCount := us_disputeCount r + 1\<rparr>) in
           seqH (updateUser (tr_buyerId t) f) (\<lambda>_. updateUser (tr_sellerId t) f)))"

definition onEscrowRefunded :: "engine_env \<Rightarrow> string \<Rightarrow> ('a lifecycle_state_scheme, unit) handler" where
  "onEscrowRefunded env tradeId =
     seqH (readH clock) (\<lambda>now.
     seqH (updateTrade tradeId (\<lambda>u. u\<lparr>tr_status := TradeCancelled, tr_cancelledAt := Some now\<rparr>)) (\<lambda>t.
     seqH (applyRefundOutcomes t) (\<lambda>_.
       forIntent t (\<lambda>i. seqH (transition env i I_FAILED LIFECYCLE_TRIGGER ''intent.failed'' None) (\<lambda>_. ret ())))))"

definition onEscrowSplit :: "engine_env \<Rightarrow> string \<Rightarrow> ('a lifecycle_state_scheme, unit) handler" where
  "onEscrowSplit env tradeId =
     seqH (readH clock) (\<lambda>now.
     seqH (updateTrade tradeId (\<lambda>u. u\<lparr>tr_status := TradeCompleted, tr_completedAt := Some now\<rparr>)) (\<lambda>t.
     seqH (recordTradeCompletion t) (\<lambda>_.
     seqH (recordOutcome tradeId (tr_buyerId t) NEUTRAL) (\<lambda>_.
     seqH (recordOutcome tradeId (tr_sellerId t) NEUTRAL) (\<lambda>_.
     seqH (emitMarketEvent ''openp2p.trade.completed'' tradeId) (\<lambda>_.
       forIntent t (fulfillIntent env)))))))"

end
