(* ===== verification/Trade_Outcomes.thy ===== *)
theory Trade_Outcomes
  imports Trade_Lifecycle
begin

text \<open>
  Properties of trades across their modules: what accepting an offer does to the trade, its intent and
  its channel, what a second acceptance and a cancellation do, how far a trade gets when its
  escrow is funded and released, how often its outcome is counted when several instances run, and what
  moves the reputation of a participant.
\<close>

section \<open>With a working database\<close>

lemma wp_marketOp: "working s \<Longrightarrow> wpH (marketOp m) Q E s = wpH m Q E s"
  by (simp add: wpH_def marketOp_working)

lemma wp_emitMarket: "working s \<Longrightarrow> wpH (emitMarketEvent n i) Q E s = Q () (s\<lparr>bus := bus s @ [(n, i)]\<rparr>)"
  by (simp add: emitMarketEvent_def wp_marketOp wp_eqs)

lemma wp_findTrade: "working s \<Longrightarrow> wpH (findTradeById i) Q E s = Q (trade_with_id i s) s"
  by (simp add: findTradeById_def wp_marketOp wp_eqs)

lemma wp_findOffer: "working s \<Longrightarrow> wpH (findOffer i) Q E s = Q (offer_with_id i s) s"
  by (simp add: findOffer_def wp_marketOp wp_eqs)

lemma wp_updateTrade:
  "working s \<Longrightarrow> wpH (updateTrade i f) Q E s =
     (case trade_with_id i s of
        None \<Rightarrow> E (DatabaseError ''P2025'') s
      | Some t \<Rightarrow> Q (f t) (s\<lparr>tradeRows := map (\<lambda>u. if tr_id u = i then f u else u) (tradeRows s)\<rparr>))"
  by (simp add: updateTrade_def wp_marketOp wp_eqs split: option.split)

lemma wp_updateUser:
  "working s \<Longrightarrow> wpH (updateUser u f) Q E s =
     (case users s u of None \<Rightarrow> E (DatabaseError ''P2025'') s | Some r \<Rightarrow> Q () (s\<lparr>users := (users s)(u \<mapsto> f r)\<rparr>))"
  by (simp add: updateUser_def wp_marketOp wp_eqs split: option.split)

lemma wp_setNegotiation: "wpH (setNegotiation i st) Q E s = Q () (s\<lparr>negotiations := (negotiations s)(i \<mapsto> st)\<rparr>)"
  by (simp add: setNegotiation_def wp_eqs)

text \<open>Writes to other tables leave the script of faults alone.\<close>

lemma working_writes [simp]:
  "working (s\<lparr>bus := b\<rparr>) = working s" "working (t\<lparr>negotiations := n\<rparr>) = working t" "working (t\<lparr>tradeRows := ts\<rparr>) = working t"
  "working (t\<lparr>tradeRows := ts, draws := k\<rparr>) = working t" "working (s\<lparr>users := us\<rparr>) = working s" "working (l\<lparr>vouches := vs\<rparr>) = working l"
  "working (advanced env i r to by ev note s) = working s"
  by (simp_all add: working_def advanced_def)

lemmas wp_trade = wp_eqs wp_emitMarket wp_findTrade wp_findOffer wp_updateTrade wp_updateUser wp_setNegotiation transition_wp

lemma advanced_frame [simp]:
  "offers (advanced env i r to by ev note s) = offers s"
  "users (advanced env i r to by ev note s) = users s"
  "draws (advanced env i r to by ev note s) = draws s"
  "clock (advanced env i r to by ev note s) = clock s"
  "intents (advanced env i r to by ev note s) = (intents s)(i \<mapsto> r\<lparr>ir_status := to\<rparr>)"
  "tradeRows (advanced env i r to by ev note t) = tradeRows t"
  "negotiations (advanced env i r to by ev note t) = negotiations t"
  "vouches (advanced env i r to by ev note l) = vouches l"
  "resolved_disputes (advanced env i r to by ev note l) = resolved_disputes l"
  "escrow_fees (advanced env i r to by ev note l) = escrow_fees l"
  by (simp_all add: advanced_def)

section \<open>Accepting an offer\<close>

definition acceptable :: "engine_env \<Rightarrow> offer_row \<Rightarrow> CreateTradeInput \<Rightarrow> rat \<Rightarrow> bool" where
  "acceptable env offer inp amount \<longleftrightarrow>
     ct_offerId inp = of_id offer \<and> of_status offer = OfferActive \<and> of_userId offer \<noteq> ct_counterpartyId inp
     \<and> toNumber env (JsString (ct_amount inp)) = Num amount \<and> 0 < amount \<and> of_minAmount offer \<le> amount \<and> amount \<le> of_maxAmount offer"

lemma persistTrade_accepts:
  assumes "working s" and "offer_with_id (of_id offer) s = Some offer" and "acceptable env offer inp amount"
    and "t = new_trade offer (ct_counterpartyId inp) amount (uuid env (draws s))"
  shows "persistTrade env inp s = (Inr t, s\<lparr>tradeRows := tradeRows s @ [t], draws := Suc (draws s)\<rparr>)"
proof -
  have "wpH (persistTrade env inp) (\<lambda>a s'. a = t \<and> s' = s\<lparr>tradeRows := tradeRows s @ [t], draws := Suc (draws s)\<rparr>) (\<lambda>_ _. False) s"
    using assms by (simp add: persistTrade_def acceptable_def wp_trade createTradeRow_def wp_marketOp)
  then show ?thesis by (auto simp: wpH_def split: prod.splits sum.splits)
qed

text \<open>The rest of the request, for an intent that is still waiting, and for one that is not.\<close>

lemma postPersistTrade_first:
  assumes "working s" and "tr_intentId t = Some i" and "intents s i = Some r" and "ir_status r = I_COORDINATED" and "ir_expiresAt r = None"
    and "trade_with_id (tr_id t) s = Some t'"
  shows "wpH (postPersistTrade env t)
    (\<lambda>_ s'. working s' \<and> intents s' i = Some (r\<lparr>ir_status := I_NEGOTIATING\<rparr>) \<and> tradeRows s' = tradeRows s \<and> offers s' = offers s
       \<and> draws s' = draws s \<and> clock s' = clock s \<and> negotiations s' = (negotiations s)(tr_id t \<mapsto> NegNegotiating))
    (\<lambda>_ _. False) s"
  using assms
  by (simp add: postPersistTrade_def openNegotiation_def wp_trade isExpired_def trade_with_id_def)

lemma postPersistTrade_again:
  assumes "working s" and "tr_intentId t = Some i" and "intents s i = Some r" and "ir_status r = I_NEGOTIATING" and "ir_expiresAt r = None"
  shows "wpH (postPersistTrade env t) (\<lambda>_ _. False)
    (\<lambda>e s'. e = GenericError ''Invalid Intent transition'' \<and> tradeRows s' = tradeRows s \<and> negotiations s' = negotiations s) s"
  using assms by (simp add: postPersistTrade_def wp_trade isExpired_def)

text \<open>Without a key the request is the durable write and what follows it.\<close>

lemma createTrade_plain:
  assumes "ct_idempotencyKey inp = None" and "persistTrade env inp (world s) = (Inr t, w1)" and "postPersistTrade env t w1 = (r, w2)"
  shows "createTrade env cuid inp s = ((case r of Inl e \<Rightarrow> Inl e | Inr _ \<Rightarrow> Inr t), s\<lparr>world := w2\<rparr>)"
  using assms by (simp add: createTrade_def withIdempotency_def seqH_def onWorld_def ret_def split: sum.split)

definition fresh_trades :: "engine_env \<Rightarrow> 'a trade_state_scheme \<Rightarrow> bool" where
  "fresh_trades env s \<longleftrightarrow> (\<forall>n \<ge> draws s. trade_with_id (uuid env n) s = None \<and> negotiations s (uuid env n) = None)"

text \<open>
  A second trade on an offer is left without its channel. The offer stays active after it is
  accepted, so another participant may accept it too; the intent of the offer has moved on by then, and the second
  request fails after its trade has been stored and before its negotiation is opened.
\<close>

theorem second_trade_is_left_without_channel:
  assumes "working (world s)" and "offer_with_id (of_id offer) (world s) = Some offer" and "of_intentId offer = Some i"
    and "intents (world s) i = Some r" and "ir_status r = I_COORDINATED" and "ir_expiresAt r = None"
    and "acceptable env offer inp1 a1" and "acceptable env offer inp2 a2"
    and "ct_idempotencyKey inp1 = None" and "ct_idempotencyKey inp2 = None" and "inj (uuid env)" and "fresh_trades env (world s)"
  shows "\<exists>t1 t2 s1 s2. createTrade env cuid inp1 s = (Inr t1, s1)
    \<and> createTrade env cuid inp2 s1 = (Inl (GenericError ''Invalid Intent transition''), s2)
    \<and> tradeRows (world s2) = tradeRows (world s) @ [t1, t2] \<and> tr_status t2 = TradePending
    \<and> negotiations (world s2) (tr_id t1) = Some NegNegotiating \<and> negotiations (world s2) (tr_id t2) = None"
proof -
  let ?w = "world s"
  define t1 where "t1 = new_trade offer (ct_counterpartyId inp1) a1 (uuid env (draws ?w))"
  define w1 where "w1 = ?w\<lparr>tradeRows := tradeRows ?w @ [t1], draws := Suc (draws ?w)\<rparr>"
  have p1: "persistTrade env inp1 ?w = (Inr t1, w1)" unfolding w1_def by (rule persistTrade_accepts [OF assms(1,2,7)]) (simp add: t1_def)
  have t1: "tr_intentId t1 = Some i" "tr_id t1 = uuid env (draws ?w)" using assms(3) by (simp_all add: t1_def new_trade_def)
  have "trade_with_id (tr_id t1) w1 = Some t1"
    using assms(12) t1 by (simp add: fresh_trades_def w1_def trade_with_id_def find_append)
  then have post1: "wpH (postPersistTrade env t1)
    (\<lambda>_ s'. working s' \<and> intents s' i = Some (r\<lparr>ir_status := I_NEGOTIATING\<rparr>) \<and> tradeRows s' = tradeRows w1 \<and> offers s' = offers w1
       \<and> draws s' = draws w1 \<and> clock s' = clock w1 \<and> negotiations s' = (negotiations w1)(tr_id t1 \<mapsto> NegNegotiating)) (\<lambda>_ _. False) w1"
    using assms(1,4-6) t1 by (intro postPersistTrade_first) (simp_all add: w1_def)
  obtain w2 where w2: "postPersistTrade env t1 w1 = (Inr (), w2)"
      "working w2" "intents w2 i = Some (r\<lparr>ir_status := I_NEGOTIATING\<rparr>)" "tradeRows w2 = tradeRows ?w @ [t1]" "offers w2 = offers ?w"
      "draws w2 = Suc (draws ?w)" "negotiations w2 = (negotiations ?w)(tr_id t1 \<mapsto> NegNegotiating)"
    using post1 by (auto simp: wpH_def w1_def split: prod.splits sum.splits)
  define t2 where "t2 = new_trade offer (ct_counterpartyId inp2) a2 (uuid env (draws w2))"
  define w3 where "w3 = w2\<lparr>tradeRows := tradeRows w2 @ [t2], draws := Suc (draws w2)\<rparr>"
  have "offer_with_id (of_id offer) w2 = Some offer" using assms(2) w2(5) by (simp add: offer_with_id_def)
  then have p2: "persistTrade env inp2 w2 = (Inr t2, w3)"
    unfolding w3_def by (rule persistTrade_accepts [OF w2(2) _ assms(8)]) (simp add: t2_def)
  have t2: "tr_intentId t2 = Some i" "tr_id t2 = uuid env (Suc (draws ?w))" "tr_status t2 = TradePending"
    using assms(3) w2(6) by (simp_all add: t2_def new_trade_def)
  have "wpH (postPersistTrade env t2) (\<lambda>_ _. False)
    (\<lambda>e s'. e = GenericError ''Invalid Intent transition'' \<and> tradeRows s' = tradeRows w3 \<and> negotiations s' = negotiations w3) w3"
    using w2 t2 assms(6) by (intro postPersistTrade_again [where r = "r\<lparr>ir_status := I_NEGOTIATING\<rparr>"]) (simp_all add: w3_def)
  then obtain w4 where w4: "postPersistTrade env t2 w3 = (Inl (GenericError ''Invalid Intent transition''), w4)"
      "tradeRows w4 = tradeRows ?w @ [t1, t2]" "negotiations w4 = (negotiations ?w)(tr_id t1 \<mapsto> NegNegotiating)"
    using w2 by (auto simp: wpH_def w3_def split: prod.splits sum.splits)
  have "tr_id t2 \<noteq> tr_id t1" using assms(11) t1 t2 by (simp add: inj_eq)
  moreover have "negotiations ?w (tr_id t2) = None" using assms(12) t2 by (simp add: fresh_trades_def)
  ultimately show ?thesis
    using createTrade_plain [OF assms(9) p1 w2(1), of cuid] createTrade_plain [OF assms(10), of env "s\<lparr>world := w2\<rparr>" t2 w3 _ w4 cuid] p2 w4 t2
    by (intro exI [of _ t1] exI [of _ t2] exI [of _ "s\<lparr>world := w2\<rparr>"] exI [of _ "s\<lparr>world := w4\<rparr>"]) simp
qed

section \<open>Cancelling a funded trade\<close>

lemma trade_after_update:
  assumes "\<And>u. tr_id (f u) = tr_id u"
  shows "find (\<lambda>t. tr_id t = i) (map (\<lambda>u. if tr_id u = i then f u else u) ts) = map_option f (find (\<lambda>t. tr_id t = i) ts)"
  using assms by (induction ts) auto

text \<open>
  Cancelling a funded trade is applied by half. Once the escrow of a trade is locked, either party may still
  ask to cancel it; the request stores the trade as cancelled and announces it, then fails because the committed
  intent cannot be cancelled. The caller sees an error, and the records of the trade and of its intent disagree.
\<close>

theorem cancelling_a_funded_trade_is_half_applied:
  assumes "working s" and "trade_with_id tid s = Some t" and "tr_intentId t = Some i" and "intents s i = Some r"
    and "ir_status r = I_NEGOTIATING" and "ir_expiresAt r = None" and "who = tr_buyerId t \<or> who = tr_sellerId t"
  shows "\<exists>s1 s2. onEscrowLocked env tid s = (Inr (), s1)
    \<and> updateStatus env tid TradeCancelled who s1 = (Inl (GenericError ''Invalid Intent transition''), s2)
    \<and> map_option tr_status (trade_with_id tid s2) = Some TradeCancelled
    \<and> map_option ir_status (intents s2 i) = Some I_COMMITTED
    \<and> bus s2 = bus s1 @ [(''openp2p.trade.status_changed'', tid)]"
proof -
  have lock: "wpH (onEscrowLocked env tid)
    (\<lambda>_ s1. working s1 \<and> trade_with_id tid s1 = Some (t\<lparr>tr_status := TradeActive\<rparr>) \<and> intents s1 i = Some (r\<lparr>ir_status := I_COMMITTED\<rparr>))
    (\<lambda>_ _. False) s"
    using assms by (simp add: onEscrowLocked_def forIntent_def wp_trade isExpired_def) (simp add: trade_with_id_def trade_after_update)
  have cancel: "wpH (updateStatus env tid TradeCancelled who) (\<lambda>_ _. False)
      (\<lambda>e s2. e = GenericError ''Invalid Intent transition'' \<and> map_option tr_status (trade_with_id tid s2) = Some TradeCancelled
        \<and> intents s2 = intents s1 \<and> bus s2 = bus s1 @ [(''openp2p.trade.status_changed'', tid)]) s1"
    if "working s1" "trade_with_id tid s1 = Some (t\<lparr>tr_status := TradeActive\<rparr>)" "intents s1 i = Some (r\<lparr>ir_status := I_COMMITTED\<rparr>)" for s1
    using that assms(3,6,7)
    by (simp add: updateStatus_def wp_trade isExpired_def) (simp add: trade_with_id_def trade_after_update)
  obtain s1 where s1: "onEscrowLocked env tid s = (Inr (), s1)" "working s1" "trade_with_id tid s1 = Some (t\<lparr>tr_status := TradeActive\<rparr>)"
      "intents s1 i = Some (r\<lparr>ir_status := I_COMMITTED\<rparr>)"
    using lock by (auto simp: wpH_def split: prod.splits sum.splits)
  from cancel [OF s1(2-4)] obtain s2 where "updateStatus env tid TradeCancelled who s1 = (Inl (GenericError ''Invalid Intent transition''), s2)"
      "map_option tr_status (trade_with_id tid s2) = Some TradeCancelled" "intents s2 = intents s1"
      "bus s2 = bus s1 @ [(''openp2p.trade.status_changed'', tid)]"
    by (auto simp: wpH_def split: prod.splits sum.splits)
  with s1 show ?thesis by auto
qed

section \<open>Counting the outcome of a trade\<close>

definition credited :: "p2p_trade \<Rightarrow> user_row \<Rightarrow> user_row" where
  "credited t u = addScore (outcome_delta POSITIVE)
     (u\<lparr>us_totalTrades := us_totalTrades u + 1, us_totalVolumeBtc := us_totalVolumeBtc u + tr_amount t\<rparr>)"

text \<open>A trade of two known users, whose escrow has no fee, and in which no ruling releases the funds.\<close>

definition plain_trade :: "string \<Rightarrow> string \<Rightarrow> p2p_trade \<Rightarrow> 'a lifecycle_state_scheme \<Rightarrow> bool" where
  "plain_trade tid eid t s \<longleftrightarrow> working s \<and> trade_with_id tid s = Some t \<and> tr_buyerId t \<noteq> tr_sellerId t
     \<and> users s (tr_buyerId t) \<noteq> None \<and> users s (tr_sellerId t) \<noteq> None
     \<and> escrow_fees s eid = None \<and> (tid, VerdictRelease) \<notin> set (resolved_disputes s)"

lemma plain_trade_id: "plain_trade tid eid t s \<Longrightarrow> tr_id t = tid"
  by (auto simp: plain_trade_def trade_with_id_def dest: find_SomeD)

definition both_credited :: "p2p_trade \<Rightarrow> (string \<rightharpoonup> user_row) \<Rightarrow> (string \<rightharpoonup> user_row)" where
  "both_credited t us = us(tr_buyerId t := map_option (credited t) (us (tr_buyerId t)), tr_sellerId t := map_option (credited t) (us (tr_sellerId t)))"

definition completed :: "int \<Rightarrow> p2p_trade \<Rightarrow> p2p_trade" where
  "completed now t = t\<lparr>tr_status := TradeCompleted, tr_completedAt := Some now\<rparr>"

lemma completed_sel [simp]:
  "tr_id (completed n t) = tr_id t" "tr_buyerId (completed n t) = tr_buyerId t" "tr_sellerId (completed n t) = tr_sellerId t"
  "tr_amount (completed n t) = tr_amount t" "tr_intentId (completed n t) = tr_intentId t" "tr_status (completed n t) = TradeCompleted"
  by (simp_all add: completed_def)

lemma forIntent_completed [simp]: "forIntent (completed n t) f = forIntent t f"
  by (simp add: forIntent_def)

lemma fulfil_frame:
  "wpH (forIntent t (fulfillIntent env)) Q E s \<longleftrightarrow>
     (case tr_intentId t of None \<Rightarrow> Q () s | Some i \<Rightarrow> wpH (fulfillIntent env i) Q E s)"
  by (simp add: forIntent_def wp_eqs split: option.split)

lemma fulfil_keeps:
  assumes "\<And>j r to by ev note s'. P s' \<Longrightarrow> P (advanced env j r to by ev note s')" and "P s"
  shows "wpH (fulfillIntent env i) (\<lambda>_. P) (\<lambda>_. P) s"
  using assms by (auto simp: fulfillIntent_def wp_trade split: option.split)

lemma released_wp:
  assumes "plain_trade tid eid t s"
  shows "wpH (onEscrowReleased env tid eid) Q E s =
    wpH (forIntent t (fulfillIntent env)) Q E
      (s\<lparr>tradeRows := map (\<lambda>u. if tr_id u = tid then completed (clock s) u else u) (tradeRows s),
         users := both_credited t (users s),
         bus := bus s @ [(''openp2p.trade.completed'', tid), (''reputation.score.updated'', tid), (''reputation.score.updated'', tid)]\<rparr>)"
proof -
  obtain ub uc where u: "users s (tr_buyerId t) = Some ub" "users s (tr_sellerId t) = Some uc"
    using assms by (auto simp: plain_trade_def)
  moreover have "tr_sellerId t \<noteq> tr_buyerId t" using assms by (auto simp: plain_trade_def)
  ultimately show ?thesis
    using assms plain_trade_id [OF assms]
    by (simp add: onEscrowReleased_def recordTradeCompletion_def accrueFeeFloor_def applyReleaseOutcomes_def recordOutcome_def ruled_def
        wp_trade wp_marketOp plain_trade_def Let_def both_credited_def credited_def completed_def [symmetric] fun_upd_twist)
qed

lemma plain_trade_next:
  assumes "plain_trade tid eid t s"
  shows "plain_trade tid eid (completed (clock s) t)
      (s\<lparr>tradeRows := map (\<lambda>u. if tr_id u = tid then completed (clock s) u else u) (tradeRows s), users := both_credited t (users s), bus := b\<rparr>)"
  using assms by (auto simp: plain_trade_def both_credited_def trade_with_id_def trade_after_update working_def)

lemma plain_trade_advanced: "plain_trade tid eid t s \<Longrightarrow> plain_trade tid eid t (advanced env i r to by ev note s)"
  by (simp add: plain_trade_def trade_with_id_def)

text \<open>Whether it ends well or not, one run of the handler credits both parties.\<close>

lemma released_credits:
  assumes "plain_trade tid eid t s"
  shows "wpH (onEscrowReleased env tid eid)
    (\<lambda>_ s'. plain_trade tid eid (completed (clock s) t) s' \<and> users s' = both_credited t (users s))
    (\<lambda>_ s'. plain_trade tid eid (completed (clock s) t) s' \<and> users s' = both_credited t (users s)) s"
proof -
  let ?s = "s\<lparr>tradeRows := map (\<lambda>u. if tr_id u = tid then completed (clock s) u else u) (tradeRows s), users := both_credited t (users s),
      bus := bus s @ [(''openp2p.trade.completed'', tid), (''reputation.score.updated'', tid), (''reputation.score.updated'', tid)]\<rparr>"
  let ?P = "\<lambda>s'. plain_trade tid eid (completed (clock s) t) s' \<and> users s' = both_credited t (users s)"
  have "?P ?s" using plain_trade_next [OF assms] by simp
  then have "wpH (fulfillIntent env i) (\<lambda>_. ?P) (\<lambda>_. ?P) ?s" for i
    by (intro fulfil_keeps) (simp_all add: plain_trade_advanced)
  with \<open>?P ?s\<close> show ?thesis by (simp add: released_wp [OF assms] fulfil_frame split: option.split)
qed

lemma credited_completed: "both_credited (completed n t) = both_credited t"
  by (simp add: both_credited_def [abs_def] credited_def [abs_def])

lemma handlers_credit:
  assumes "plain_trade tid eid t s"
  shows "\<exists>s'. runHandlers (\<lambda>_. onEscrowReleased env tid eid) ks s = (Inr (), s') \<and> users s' = (both_credited t ^^ length ks) (users s)"
  using assms
proof (induction ks arbitrary: s t)
  case (Cons k ks)
  obtain r s1 where run: "onEscrowReleased env tid eid s = (r, s1)" by fastforce
  with released_credits [OF Cons.prems, of env] have s1: "plain_trade tid eid (completed (clock s) t) s1" "users s1 = both_credited t (users s)"
    by (auto simp: wpH_def split: sum.splits)
  from Cons.IH [OF s1(1)] obtain s' where "runHandlers (\<lambda>_. onEscrowReleased env tid eid) ks s1 = (Inr (), s')"
      "users s' = (both_credited t ^^ length ks) (both_credited t (users s))"
    by (auto simp: credited_completed s1(2))
  with run show ?case by (auto simp: seqH_def catchH_def ret_def funpow_swap1 split: sum.split)
qed (simp add: ret_def)

lemma credited_times:
  assumes "tr_buyerId t \<noteq> tr_sellerId t" and "us (tr_buyerId t) = Some ub" and "us (tr_sellerId t) = Some uc"
  shows "\<exists>vb vc. (both_credited t ^^ n) us (tr_buyerId t) = Some vb \<and> (both_credited t ^^ n) us (tr_sellerId t) = Some vc
    \<and> us_totalTrades vb = us_totalTrades ub + int n \<and> us_reputationScore vb = us_reputationScore ub + 2 * of_nat n
    \<and> us_totalTrades vc = us_totalTrades uc + int n \<and> us_reputationScore vc = us_reputationScore uc + 2 * of_nat n"
proof (induction n)
  case (Suc n)
  then show ?case using assms(1) by (auto simp: both_credited_def credited_def addScore_def)
qed (use assms in simp)

text \<open>
  The outcome of a trade is counted once per running instance. An event reaches the handlers of the
  instance that published it and, with the fan-out of a started server, those of every other instance, each of which
  applies the same increments to the shared tables: with one instance the parties have one more trade and two more
  points, with \<open>n\<close> instances \<open>n\<close> more trades and \<open>2 n\<close> more points for the one trade.
\<close>

theorem outcome_counted_per_instance:
  assumes "plain_trade tid eid t s" and "users s (tr_buyerId t) = Some ub" and "users s (tr_sellerId t) = Some uc"
    and "n = (if fanout then Suc (length (filter (\<lambda>k. k \<noteq> origin) subscribers)) else 1)"
  shows "\<exists>s' vb vc. runHandlers (\<lambda>_. onEscrowReleased env tid eid) (dispatchedTo fanout origin subscribers) s = (Inr (), s')
    \<and> users s' (tr_buyerId t) = Some vb \<and> users s' (tr_sellerId t) = Some vc
    \<and> us_totalTrades vb = us_totalTrades ub + int n \<and> us_reputationScore vb = us_reputationScore ub + 2 * of_nat n
    \<and> us_totalTrades vc = us_totalTrades uc + int n \<and> us_reputationScore vc = us_reputationScore uc + 2 * of_nat n"
proof -
  have "length (dispatchedTo fanout origin subscribers) = n"
    using assms(4) by (simp add: dispatchedTo_def onMessage_def [abs_def] eq_commute [of origin])
  moreover have "tr_buyerId t \<noteq> tr_sellerId t" using assms(1) by (simp add: plain_trade_def)
  ultimately show ?thesis
    using handlers_credit [OF assms(1), of env "dispatchedTo fanout origin subscribers"] credited_times [OF _ assms(2,3), of n] by auto
qed

section \<open>A trade from its offer to its end\<close>

lemma postPersistTrade_lifecycle:
  assumes "working s" and "tr_intentId t = Some i" and "intents s i = Some r" and "ir_status r = I_COORDINATED" and "ir_expiresAt r = None"
    and "trade_with_id (tr_id t) s = Some t'"
  shows "wpH (postPersistTrade env t)
    (\<lambda>_ s'. working s' \<and> intents s' i = Some (r\<lparr>ir_status := I_NEGOTIATING\<rparr>) \<and> tradeRows s' = tradeRows s \<and> users s' = users s
       \<and> escrow_fees s' = escrow_fees s \<and> resolved_disputes s' = resolved_disputes s)
    (\<lambda>_ _. False) s"
  using assms
  by (simp add: postPersistTrade_def openNegotiation_def wp_trade isExpired_def trade_with_id_def)

text \<open>The events of an undisputed escrow, in the order the escrow emits them.\<close>

definition escrow_events :: "engine_env \<Rightarrow> string \<Rightarrow> string \<Rightarrow> ('a lifecycle_state_scheme, unit) handler" where
  "escrow_events env tid eid =
     seqH (onEscrowCreated tid eid) (\<lambda>_. seqH (onEscrowLocked env tid) (\<lambda>_. onEscrowReleased env tid eid))"

lemma escrow_events_wp:
  assumes "plain_trade tid eid t s" and "tr_intentId t = Some i" and "intents s i = Some r" and "ir_status r = I_NEGOTIATING" and "ir_expiresAt r = None"
  shows "wpH (escrow_events env tid eid)
    (\<lambda>_ s'. map_option tr_status (trade_with_id tid s') = Some TradeCompleted \<and> map_option tr_escrowId (trade_with_id tid s') = Some (Some eid)
       \<and> map_option ir_status (intents s' i) = Some I_FULFILLED \<and> users s' = both_credited t (users s))
    (\<lambda>_ _. False) s"
proof -
  let ?e = "t\<lparr>tr_escrowId := Some eid\<rparr>"
  let ?l = "?e\<lparr>tr_status := TradeActive\<rparr>"
  have created: "wpH (onEscrowCreated tid eid)
      (\<lambda>_ s1. plain_trade tid eid ?e s1 \<and> intents s1 = intents s \<and> users s1 = users s) (\<lambda>_ _. False) s"
    using assms(1) by (simp add: plain_trade_def onEscrowCreated_def wp_trade) (simp add: trade_with_id_def trade_after_update)
  have locked: "wpH (onEscrowLocked env tid)
      (\<lambda>_ s2. plain_trade tid eid ?l s2 \<and> intents s2 i = Some (r\<lparr>ir_status := I_COMMITTED\<rparr>) \<and> users s2 = users s1) (\<lambda>_ _. False) s1"
    if "plain_trade tid eid ?e s1" "intents s1 = intents s" for s1
    using that assms(2-5)
    by (simp add: plain_trade_def onEscrowLocked_def forIntent_def wp_trade isExpired_def) (simp add: trade_with_id_def trade_after_update)
  have released: "wpH (onEscrowReleased env tid eid)
      (\<lambda>_ s3. map_option tr_status (trade_with_id tid s3) = Some TradeCompleted \<and> map_option tr_escrowId (trade_with_id tid s3) = Some (Some eid)
         \<and> map_option ir_status (intents s3 i) = Some I_FULFILLED \<and> users s3 = both_credited ?l (users s2)) (\<lambda>_ _. False) s2"
    if "plain_trade tid eid ?l s2" "intents s2 i = Some (r\<lparr>ir_status := I_COMMITTED\<rparr>)" for s2
    using that(2) plain_trade_next [OF that(1)] assms(2,5) that(1)
    by (simp add: released_wp [OF that(1)] fulfil_frame fulfillIntent_def wp_trade isExpired_def)
      (simp add: trade_with_id_def plain_trade_def completed_def)
  have same: "both_credited ?l = both_credited t" by (simp add: both_credited_def [abs_def] credited_def [abs_def])
  have "wpH (onEscrowLocked env tid) (\<lambda>_. wpH (onEscrowReleased env tid eid)
      (\<lambda>_ s'. map_option tr_status (trade_with_id tid s') = Some TradeCompleted \<and> map_option tr_escrowId (trade_with_id tid s') = Some (Some eid)
         \<and> map_option ir_status (intents s' i) = Some I_FULFILLED \<and> users s' = both_credited t (users s)) (\<lambda>_ _. False)) (\<lambda>_ _. False) s1"
    if "plain_trade tid eid ?e s1" "intents s1 = intents s" "users s1 = users s" for s1
    by (rule wpH_mono [OF locked [OF that(1,2)]]) (use that(3) in \<open>auto simp: same intro: wpH_mono [OF released]\<close>)
  then show ?thesis unfolding escrow_events_def wp_eqs by (rule wpH_mono [OF created]) auto
qed

text \<open>
  C20: a trade comes to its end. A participant who accepts an active offer within its limits gets a trade; when the
  escrow of that trade is then created, locked and released, no reaction fails, the trade is completed, the intent
  of the offer is fulfilled, and both parties have one more trade and two more points.
\<close>

theorem accepted_trade_completes:
  assumes "working (world s)" and "offer_with_id (of_id offer) (world s) = Some offer" and "of_intentId offer = Some i"
    and "intents (world s) i = Some r" and "ir_status r = I_COORDINATED" and "ir_expiresAt r = None"
    and "acceptable env offer inp amount" and "ct_idempotencyKey inp = None" and "fresh_trades env (world s)"
    and "users (world s) (of_userId offer) = Some um" and "users (world s) (ct_counterpartyId inp) = Some ut"
    and "escrow_fees (world s) eid = None" and "\<And>n v. (uuid env n, v) \<notin> set (resolved_disputes (world s))"
  shows "\<exists>t s1 s2 vm vt. createTrade env cuid inp s = (Inr t, s1) \<and> escrow_events env (tr_id t) eid (world s1) = (Inr (), s2)
    \<and> map_option tr_status (trade_with_id (tr_id t) s2) = Some TradeCompleted \<and> map_option ir_status (intents s2 i) = Some I_FULFILLED
    \<and> users s2 (of_userId offer) = Some vm \<and> us_totalTrades vm = us_totalTrades um + 1 \<and> us_reputationScore vm = us_reputationScore um + 2
    \<and> users s2 (ct_counterpartyId inp) = Some vt \<and> us_totalTrades vt = us_totalTrades ut + 1 \<and> us_reputationScore vt = us_reputationScore ut + 2"
proof -
  let ?w = "world s"
  define t where "t = new_trade offer (ct_counterpartyId inp) amount (uuid env (draws ?w))"
  define w1 where "w1 = ?w\<lparr>tradeRows := tradeRows ?w @ [t], draws := Suc (draws ?w)\<rparr>"
  have p1: "persistTrade env inp ?w = (Inr t, w1)" unfolding w1_def by (rule persistTrade_accepts [OF assms(1,2,7)]) (simp add: t_def)
  have t: "tr_intentId t = Some i" "tr_id t = uuid env (draws ?w)" using assms(3) by (simp_all add: t_def new_trade_def)
  have parties: "tr_buyerId t \<noteq> tr_sellerId t" "{tr_buyerId t, tr_sellerId t} = {of_userId offer, ct_counterpartyId inp}"
    using assms(7) by (auto simp: t_def new_trade_def acceptable_def)
  have stored: "trade_with_id (tr_id t) w1 = Some t"
    using assms(9) t by (simp add: fresh_trades_def w1_def trade_with_id_def find_append)
  have "wpH (postPersistTrade env t)
    (\<lambda>_ s'. working s' \<and> intents s' i = Some (r\<lparr>ir_status := I_NEGOTIATING\<rparr>) \<and> tradeRows s' = tradeRows w1 \<and> users s' = users w1
       \<and> escrow_fees s' = escrow_fees w1 \<and> resolved_disputes s' = resolved_disputes w1) (\<lambda>_ _. False) w1"
    using assms(1,4-6) t stored by (intro postPersistTrade_lifecycle) (simp_all add: w1_def)
  then obtain w2 where w2: "postPersistTrade env t w1 = (Inr (), w2)" "working w2" "intents w2 i = Some (r\<lparr>ir_status := I_NEGOTIATING\<rparr>)"
      "tradeRows w2 = tradeRows w1" "users w2 = users ?w" "escrow_fees w2 = escrow_fees ?w" "resolved_disputes w2 = resolved_disputes ?w"
    by (auto simp: wpH_def w1_def split: prod.splits sum.splits)
  have "plain_trade (tr_id t) eid t w2"
    using w2 stored t parties assms(10-13) by (auto simp: plain_trade_def trade_with_id_def doubleton_eq_iff)
  from escrow_events_wp [OF this t(1) w2(3), of env] assms(6)
  obtain s2 where s2: "escrow_events env (tr_id t) eid w2 = (Inr (), s2)" "map_option tr_status (trade_with_id (tr_id t) s2) = Some TradeCompleted"
      "map_option ir_status (intents s2 i) = Some I_FULFILLED" "users s2 = both_credited t (users ?w)"
    using w2(5) by (auto simp: wpH_def split: prod.splits sum.splits)
  obtain vm vt where "users s2 (of_userId offer) = Some vm" "us_totalTrades vm = us_totalTrades um + 1" "us_reputationScore vm = us_reputationScore um + 2"
      "users s2 (ct_counterpartyId inp) = Some vt" "us_totalTrades vt = us_totalTrades ut + 1" "us_reputationScore vt = us_reputationScore ut + 2"
    using s2(4) parties assms(10,11) by (auto simp: both_credited_def credited_def addScore_def doubleton_eq_iff)
  with s2 createTrade_plain [OF assms(8) p1 w2(1), of cuid] show ?thesis by auto
qed

section \<open>A worked example\<close>

definition demo_user :: user_row where
  "demo_user = \<lparr>us_reputationScore = 3, us_totalTrades = 4, us_totalVolumeBtc = 0, us_disputeCount = 0, us_cumulativeFeesObserved = 0\<rparr>"

definition demo_trading_offer :: offer_row where
  "demo_trading_offer = (demo_offer 7)\<lparr>of_intentId := Some ''i1''\<rparr>"

definition demo_trade :: p2p_trade where
  "demo_trade = new_trade demo_trading_offer ''carol'' 2 ''t1''"

definition demo_trading :: "IntentStatus \<Rightarrow> p2p_trade list \<Rightarrow> lifecycle_state" where
  "demo_trading st ts =
     trade_state.extend (market_state.extend
       ((demo_market [demo_trading_offer] [])\<lparr>intents := [''i1'' \<mapsto> demo_intent st None],
          users := [''bob'' \<mapsto> demo_user, ''carol'' \<mapsto> demo_user, ''dave'' \<mapsto> demo_user]\<rparr>)
       \<lparr>tradeRows = ts, negotiations = Map.empty, messages = [], peer_nodes = Map.empty, wired_trades = []\<rparr>)
     \<lparr>vouches = [], ratings = [], resolved_disputes = [], escrow_fees = (\<lambda>_. None)\<rparr>"

definition demo_accept :: "string \<Rightarrow> CreateTradeInput" where
  "demo_accept who = \<lparr>ct_offerId = ''7'', ct_counterpartyId = who, ct_amount = ''2'', ct_idempotencyKey = None\<rparr>"

definition demo_server :: "lifecycle_state idempotent_state" where
  "demo_server = \<lparr>keys = demo_store KeyUnknown None [], world = demo_trading I_COORDINATED []\<rparr>"

lemma seven: "show_nat 7 = ''7''"
  by code_simp

lemma demo_trading_facts:
  "working (demo_trading st ts)" "offer_with_id ''7'' (demo_trading st ts) = Some demo_trading_offer" "of_id demo_trading_offer = ''7''"
  "of_intentId demo_trading_offer = Some ''i1''" "of_userId demo_trading_offer = ''bob''"
  "intents (demo_trading st ts) ''i1'' = Some (demo_intent st None)"
  "ir_status (demo_intent st None) = st" "ir_expiresAt (demo_intent st None) = None"
  "users (demo_trading st ts) ''bob'' = Some demo_user" "users (demo_trading st ts) ''carol'' = Some demo_user"
  "escrow_fees (demo_trading st ts) e = None" "resolved_disputes (demo_trading st ts) = []" "tradeRows (demo_trading st ts) = ts"
  "negotiations (demo_trading st ts) = Map.empty" "trade_with_id i (demo_trading st ts) = find (\<lambda>t. tr_id t = i) ts"
  by (simp_all add: demo_trading_def demo_market_def engine_state.defs market_state.defs trade_state.defs working_def offer_with_id_def
      demo_trading_offer_def demo_offer_def seven demo_intent_def trade_with_id_def)

lemma demo_acceptable: "acceptable market_env demo_trading_offer (demo_accept ''carol'') 2" "acceptable market_env demo_trading_offer (demo_accept ''dave'') 2"
  by code_simp+

lemma demo_fresh: "fresh_trades market_env (demo_trading st [])"
  by (simp add: fresh_trades_def demo_trading_facts)

lemma inj_market_uuid: "inj (uuid market_env)"
  by (simp add: market_env_def demo_env_def inj_def)

theorem second_trade_is_left_without_channel_witness:
  "\<exists>t1 t2 s1 s2. createTrade market_env demo_cuid (demo_accept ''carol'') demo_server = (Inr t1, s1)
    \<and> createTrade market_env demo_cuid (demo_accept ''dave'') s1 = (Inl (GenericError ''Invalid Intent transition''), s2)
    \<and> tradeRows (world s2) = [t1, t2] \<and> negotiations (world s2) (tr_id t2) = None"
proof -
  have no_key: "ct_idempotencyKey (demo_accept who) = None" for who by (simp add: demo_accept_def)
  show ?thesis
    using second_trade_is_left_without_channel [of demo_server demo_trading_offer "''i1''" "demo_intent I_COORDINATED None" market_env
        "demo_accept ''carol''" 2 "demo_accept ''dave''" 2 demo_cuid] no_key demo_acceptable demo_fresh inj_market_uuid
    by (auto simp: demo_server_def demo_trading_facts)
qed

theorem cancelling_a_funded_trade_is_half_applied_witness:
  "\<exists>s1 s2. onEscrowLocked market_env ''t1'' (demo_trading I_NEGOTIATING [demo_trade]) = (Inr (), s1)
    \<and> updateStatus market_env ''t1'' TradeCancelled ''carol'' s1 = (Inl (GenericError ''Invalid Intent transition''), s2)
    \<and> map_option tr_status (trade_with_id ''t1'' s2) = Some TradeCancelled \<and> map_option ir_status (intents s2 ''i1'') = Some I_COMMITTED"
  using cancelling_a_funded_trade_is_half_applied [of "demo_trading I_NEGOTIATING [demo_trade]" "''t1''" demo_trade "''i1''"
      "demo_intent I_NEGOTIATING None" "''carol''" market_env]
  by (auto simp: demo_trading_facts demo_trade_def new_trade_def demo_trading_offer_def demo_offer_def)

theorem outcome_counted_per_instance_witness:
  "\<exists>s' vb. runHandlers (\<lambda>_. onEscrowReleased market_env ''t1'' ''e1'') (dispatchedTo True 0 [0, 1, 2]) (demo_trading I_COMMITTED [demo_trade])
      = (Inr (), s') \<and> users s' ''carol'' = Some vb \<and> us_totalTrades vb = 4 + 3 \<and> us_reputationScore vb = 3 + 6"
proof -
  have "plain_trade ''t1'' ''e1'' demo_trade (demo_trading I_COMMITTED [demo_trade])"
    by (simp add: plain_trade_def demo_trading_facts demo_trade_def new_trade_def demo_trading_offer_def demo_offer_def)
  from outcome_counted_per_instance [OF this, of demo_user demo_user 3 True 0 "[0, 1, 2]" market_env] show ?thesis
    by (auto simp: demo_trading_facts demo_trade_def new_trade_def demo_trading_offer_def demo_offer_def demo_user_def)
qed

theorem accepted_trade_completes_witness:
  "\<exists>t s1 s2. createTrade market_env demo_cuid (demo_accept ''carol'') demo_server = (Inr t, s1)
    \<and> escrow_events market_env (tr_id t) ''e1'' (world s1) = (Inr (), s2)
    \<and> map_option tr_status (trade_with_id (tr_id t) s2) = Some TradeCompleted \<and> map_option ir_status (intents s2 ''i1'') = Some I_FULFILLED"
proof -
  have inp: "ct_idempotencyKey (demo_accept ''carol'') = None" "ct_counterpartyId (demo_accept ''carol'') = ''carol''"
    by (simp_all add: demo_accept_def)
  show ?thesis
    using accepted_trade_completes [of demo_server demo_trading_offer "''i1''" "demo_intent I_COORDINATED None" market_env
        "demo_accept ''carol''" 2 demo_user demo_user "''e1''" demo_cuid] inp demo_acceptable(1) demo_fresh
    by (auto simp: demo_server_def demo_trading_facts)
qed

end
