(* ===== verification/Signature_Submission.thy ===== *)
theory Signature_Submission
  imports Dispute_Service
begin

text \<open>
  The second half of the signature-collection flow: \<^verbatim>\<open>submitTransactionSignature\<close> of
  \<^verbatim>\<open>escrow-pending-tx.ts\<close> collects the signatures of a pending transaction and, once every signer has
  signed, authorizes, claims, finalizes and records the settlement. With it the execution commit gate
  (\<^verbatim>\<open>capability-execution-authorization.ts\<close>), the recognition of the fee output
  (\<^verbatim>\<open>multisig.provider.ts\<close>), the live correspondence of a ruling (\<^verbatim>\<open>dispute-correspondence.ts\<close>)
  and the two jobs that repair interrupted dispatches (\<^verbatim>\<open>dispute-pending-reconciliation.ts\<close>,
  \<^verbatim>\<open>dispute-dispatch-recovery.ts\<close>).
\<close>

section \<open>State\<close>

record signature_row =
  sg_pendingTxId :: string
  sg_participantId :: string
  sg_signedPsbtBase64 :: string

record capability_auth_row =
  ca_pendingOperationId :: string
  ca_escrowId :: string
  ca_grantId :: string
  ca_grantedTo :: string
  ca_capabilityName :: string
  ca_requiredScope :: string
  ca_constraints :: json
  ca_operationDigest :: string

record correspondence_row =
  ce_escrowId :: string
  ce_appealRound :: nat
  ce_evaluatorName :: string
  ce_evaluatorVersion :: string
  ce_policyVersion :: string
  ce_results :: "(string \<times> CorrespondenceResult) list"

text \<open>
  The calls of \<^verbatim>\<open>finalizeRelease\<close>, \<^verbatim>\<open>finalizeRefund\<close> and \<^verbatim>\<open>finalizeSplit\<close>: the
  escrow, the kind, the unsigned transaction, the signed copies and whether the call succeeded.
\<close>

type_synonym finalize_call = "string \<times> pending_kind \<times> string \<times> string list \<times> bool"

record signing_state =
  sd :: dispute_state
  tx_signatures :: "signature_row list"
  capability_auths :: "capability_auth_row list"
  correspondences :: "correspondence_row list"
  finalize_calls :: "finalize_call list"

text \<open>
  What lies outside: the wallet libraries that finalize a transaction (by the number of the call), decode a
  raw transaction into its outputs with their addresses, list the scripts and values of an unsigned one
  and turn an address into a script, and the printing of a configured number.
\<close>

record signing_env =
  sn_dispute :: dispute_env
  sn_finalize :: "EscrowType \<Rightarrow> pending_kind \<Rightarrow> nat \<Rightarrow> escrow_row \<Rightarrow> string \<Rightarrow> string list \<Rightarrow> (string \<times> string option) result"
  sn_finalizesSplit :: "EscrowType \<Rightarrow> bool"
  sn_decodeTx :: "string \<Rightarrow> (string option \<times> int) list option"
  sn_psbtScripts :: "string \<Rightarrow> (string \<times> int) list result"
  sn_outputScript :: "string \<Rightarrow> string result"
  sn_showNumber :: "rat \<Rightarrow> string"

type_synonym 'a signing = "(signing_state, 'a) handler"

definition onDisputes :: "'a dispute \<Rightarrow> 'a signing" where
  "onDisputes m s = (case m (sd s) of (r, d) \<Rightarrow> (r, s\<lparr>sd := d\<rparr>))"

definition onRevenue :: "'a revenue \<Rightarrow> 'a dispute" where
  "onRevenue m s = (case m (rv s) of (r, v) \<Rightarrow> (r, s\<lparr>rv := v\<rparr>))"

definition dbStepS :: "string \<Rightarrow> (signing_state \<Rightarrow> signing_state) \<Rightarrow> unit signing" where
  "dbStepS tag f = seqH (onDisputes (onSettle (dbWrite tag (\<lambda>b. b)))) (\<lambda>_. writeH f)"

definition transactionS :: "'a signing \<Rightarrow> 'a signing" where
  "transactionS m s =
     (case m s of
        (Inl e, s') \<Rightarrow> (Inl e, s\<lparr>sd := with_faults (faults (settlement (sd s'))) (sd s)\<rparr>)
      | (Inr a, s') \<Rightarrow> (Inr a, s'))"

definition sn_settle :: "signing_env \<Rightarrow> settle_env" where
  "sn_settle env = de_settle (sn_dispute env)"

section \<open>The execution commit gate\<close>

definition requiredScope :: "pending_kind \<Rightarrow> string" where
  "requiredScope kind =
     (case kind of KRelease \<Rightarrow> ''settlement.escrow.released'' | KRefund \<Rightarrow> ''settlement.escrow.refunded'' | KSplit \<Rightarrow> ''settlement.escrow.split'')"

definition capability_facts :: "pending_tx_row \<Rightarrow> json" where
  "capability_facts p = JObj
     [(''pendingOperationId'', JStr (pt_id p)), (''escrowId'', JStr (pt_escrowId p)), (''kind'', JStr (pending_kind_name (pt_kind p))),
      (''toAddress'', JStr (pt_toAddress p)), (''toAddressSecondary'', json_opt JStr (pt_toAddressSecondary p)),
      (''buyerBps'', json_opt (\<lambda>n. JNum (show_int \<lfloor>n\<rfloor>)) (pt_buyerBps p)),
      (''feeCollectionSats'', json_opt (\<lambda>n. JNum (show_int n)) (pt_feeCollectionSats p)),
      (''feeCollectionWaived'', json_opt JBool (pt_feeCollectionWaived p)),
      (''minerFeeSats'', json_opt (\<lambda>n. JNum (show_int n)) (pt_minerFeeSats p)),
      (''unsignedPsbtBase64'', JStr (pt_unsignedPsbtBase64 p)), (''requiredSigners'', JArr (map JStr (pt_requiredSigners p))),
      (''triggeredBy'', JStr (pt_triggeredBy p))]"

definition capabilityOperationDigest :: "(string \<Rightarrow> string) \<Rightarrow> pending_tx_row \<Rightarrow> string" where
  "capabilityOperationDigest sha p = sha (json_stringify (capability_facts p))"

definition opensettlement :: string where
  "opensettlement = the (CAPABILITY_IMPLEMENTATIONS ''opensettlement'')"

definition auth_matches :: "signing_env \<Rightarrow> pending_tx_row \<Rightarrow> capability_auth_row \<Rightarrow> bool" where
  "auth_matches env p a \<longleftrightarrow>
     ca_escrowId a = pt_escrowId p \<and> ca_grantedTo a = pt_triggeredBy p \<and> ca_capabilityName a = opensettlement
     \<and> ca_requiredScope a = requiredScope (pt_kind p) \<and> ca_operationDigest a = capabilityOperationDigest (s_sha256 (sn_settle env)) p"

definition executable_grant :: "signing_env \<Rightarrow> string \<Rightarrow> int \<Rightarrow> CapabilityGrant \<Rightarrow> bool" where
  "executable_grant env sc now g \<longleftrightarrow> sc \<in> set (scope g) \<and> \<not> isPastExpiry (s_dateOf (sn_settle env)) (constraints g) now"

definition authorizePendingExecution :: "signing_env \<Rightarrow> pending_tx_row \<Rightarrow> capability_auth_row option signing" where
  "authorizePendingExecution env p =
     (if \<not> s_enforceCapabilities (sn_settle env) then ret None
      else transactionS
        (seqH (readH (\<lambda>s. find (\<lambda>a. ca_pendingOperationId a = pt_id p) (capability_auths s))) (\<lambda>existing.
           case existing of
             Some a \<Rightarrow>
               seqH (guardH (auth_matches env p a) (EscrowError ''no longer matches its committed capability authorization'')) (\<lambda>_. ret (Some a))
           | None \<Rightarrow>
               seqH (onDisputes (onSettle (findActiveGrants (pt_triggeredBy p) opensettlement))) (\<lambda>gs.
               seqH (readH (\<lambda>s. clock (settlement (sd s)))) (\<lambda>now.
               seqH (requireH (find (executable_grant env (requiredScope (pt_kind p)) now) gs)
                       (ForbiddenError ''has no active capability grant at execution commit'')) (\<lambda>g.
                 let a = \<lparr>ca_pendingOperationId = pt_id p, ca_escrowId = pt_escrowId p, ca_grantId = grantId g, ca_grantedTo = grantedTo g,
                          ca_capabilityName = capabilityName g, ca_requiredScope = requiredScope (pt_kind p), ca_constraints = constraints g,
                          ca_operationDigest = capabilityOperationDigest (s_sha256 (sn_settle env)) p\<rparr>
                 in seqH (dbStepS ''capabilityExecutionAuthorization'' (\<lambda>s. s\<lparr>capability_auths := capability_auths s @ [a]\<rparr>)) (\<lambda>_.
                      ret (Some a))))))))"

section \<open>The fee output\<close>

definition identifyFeeOutput :: "signing_env \<Rightarrow> string \<Rightarrow> string \<Rightarrow> int \<Rightarrow> (nat \<times> string \<times> int) result" where
  "identifyFeeOutput env psbtBase64 expectedAddress expectedAmountSats =
     bindR (sn_psbtScripts env psbtBase64) (\<lambda>outs.
     bindR (case sn_outputScript env expectedAddress of
              Inl _ \<Rightarrow> Inl (EscrowError ''expected collection address is invalid for the configured network'')
            | Inr script \<Rightarrow> Inr script) (\<lambda>expectedScript.
       let matches = filter (\<lambda>(vout, script, amount). script = expectedScript) (enumerate 0 outs) in
       case matches of
         [] \<Rightarrow> Inl (EscrowError ''no output pays the expected frozen collection destination'')
       | [(vout, script, amount)] \<Rightarrow>
           if amount \<noteq> expectedAmountSats then Inl (EscrowError ''mismatched amount of the fee output'')
           else Inr (vout, script, amount)
       | _ \<Rightarrow> Inl (EscrowError ''several outputs pay the expected frozen collection destination'')))"

section \<open>Live correspondence\<close>

text \<open>One observation per destination; a later destination of the same beneficiary replaces an earlier one.\<close>

definition observation_at :: "string \<Rightarrow> (string option \<times> int) list \<Rightarrow> BeneficiaryDestination \<Rightarrow> string ExecutionObservation" where
  "observation_at asset outs d =
     (case find (\<lambda>out. fst out = Some (bd_destination d)) outs of
        None \<Rightarrow> irresolvable
      | Some out \<Rightarrow> \<lparr>ob_status = OBSERVED, ob_destinationReference = Some (bd_destination d), ob_amount = Some (show_int (snd out)),
                     ob_asset = Some asset\<rparr>)"

definition buildExecutionObservationsFromFinalizedTransaction ::
    "signing_env \<Rightarrow> string \<Rightarrow> arbitration_outcome \<Rightarrow> (string \<rightharpoonup> string ExecutionObservation)" where
  "buildExecutionObservationsFromFinalizedTransaction env rawTxHex outcome =
     map_of (rev (map (\<lambda>d. (bd_beneficiary d,
       case sn_decodeTx env rawTxHex of
         None \<Rightarrow> irresolvable
       | Some outs \<Rightarrow> observation_at (oc_asset (out_content outcome)) outs d)) (bound_destinations outcome)))"

definition evaluateFinalizedTransactionCorrespondence ::
    "signing_env \<Rightarrow> string \<Rightarrow> arbitration_outcome \<Rightarrow> (string \<times> CorrespondenceResult) list result" where
  "evaluateFinalizedTransactionCorrespondence env rawTxHex outcome =
     evaluateOutcomeCorrespondenceWithExecutionCost (de_cost (sn_dispute env)) outcome
       (buildExecutionObservationsFromFinalizedTransaction env rawTxHex outcome)"

definition computeExecutionCostPolicyIdentity :: "signing_env \<Rightarrow> string" where
  "computeExecutionCostPolicyIdentity env =
     (let cfg = de_cost (sn_dispute env) in
      take 32 (s_sha256 (sn_settle env) (json_stringify (JObj
        [(''maxFeeRateSatsPerVByte'', JNum (sn_showNumber env (maxFeeRateSatsPerVByte cfg))),
         (''maxFeeProportionOfGrossBasisPoints'', JNum (show_int (maxFeeProportionOfGrossBasisPoints cfg))),
         (''minFeeFloorSats'', JNum (show_int (minFeeFloorSats cfg)))]))))"

datatype CorrespondenceClaimOutcome = CLAIMED | ALREADY_RECORDED_AGREEING | SEMANTIC_INCONSISTENCY

text \<open>Results have one entry per beneficiary, so equal size and inclusion are equality as maps.\<close>

definition correspondenceResultsAgree :: "(string \<times> CorrespondenceResult) list \<Rightarrow> (string \<times> CorrespondenceResult) list \<Rightarrow> bool" where
  "correspondenceResultsAgree a b \<longleftrightarrow> length a = length b \<and> list_all (\<lambda>(k, v). map_of b k = Some v) a"

definition same_evaluation :: "correspondence_row \<Rightarrow> correspondence_row \<Rightarrow> bool" where
  "same_evaluation a b \<longleftrightarrow>
     ce_escrowId a = ce_escrowId b \<and> ce_appealRound a = ce_appealRound b \<and> ce_evaluatorName a = ce_evaluatorName b
     \<and> ce_evaluatorVersion a = ce_evaluatorVersion b \<and> ce_policyVersion a = ce_policyVersion b"

definition claimCorrespondenceEvaluation :: "correspondence_row \<Rightarrow> CorrespondenceClaimOutcome signing" where
  "claimCorrespondenceEvaluation row =
     seqH (readH (\<lambda>s. find (same_evaluation row) (correspondences s))) (\<lambda>existing.
       case existing of
         Some e \<Rightarrow> ret (if correspondenceResultsAgree (ce_results e) (ce_results row) then ALREADY_RECORDED_AGREEING else SEMANTIC_INCONSISTENCY)
       | None \<Rightarrow> seqH (dbStepS ''correspondenceEvaluation'' (\<lambda>s. s\<lparr>correspondences := correspondences s @ [row]\<rparr>)) (\<lambda>_. ret CLAIMED))"

text \<open>\<^verbatim>\<open>findFirst\<close> of the resolved disputes of an escrow by descending appeal round.\<close>

definition latest_resolved :: "string \<Rightarrow> dispute_row list \<Rightarrow> dispute_row option" where
  "latest_resolved i ds =
     (let xs = filter (\<lambda>d. d_escrowId d = i \<and> d_status d = RESOLVED) ds
      in find (\<lambda>d. list_all (\<lambda>e. d_appealRound e \<le> d_appealRound d) xs) xs)"

definition recordLiveCorrespondence :: "signing_env \<Rightarrow> string \<Rightarrow> string \<Rightarrow> string \<Rightarrow> unit signing" where
  "recordLiveCorrespondence env i tradeId rawTxHex =
     seqH (readH (\<lambda>s. latest_resolved i (dispute_rows (sd s)))) (\<lambda>found.
       case found of
         None \<Rightarrow> ret ()
       | Some d \<Rightarrow>
         seqH (onDisputes (loadDisputeRulingRecord i (d_appealRound d))) (\<lambda>r.
           case r of
             None \<Rightarrow> ret ()
           | Some row \<Rightarrow>
             if rr_outcomeContent row = None then ret () else
             seqH (liftH (fromDisputeRulingRow row)) (\<lambda>rec.
               case tr_outcome rec of
                 None \<Rightarrow> ret ()
               | Some outcome \<Rightarrow>
                 seqH (liftH (evaluateFinalizedTransactionCorrespondence env rawTxHex outcome)) (\<lambda>results.
                 seqH (claimCorrespondenceEvaluation
                   \<lparr>ce_escrowId = i, ce_appealRound = d_appealRound d,
                    ce_evaluatorName = ev_name SAILS_DESTINATION_CORRESPONDENCE_EVALUATOR_IDENTITY,
                    ce_evaluatorVersion = ev_version SAILS_DESTINATION_CORRESPONDENCE_EVALUATOR_IDENTITY,
                    ce_policyVersion = computeExecutionCostPolicyIdentity env, ce_results = results\<rparr>) (\<lambda>claim.
                   if claim = CLAIMED then onDisputes (publishD ''dispute.settlement.correspondence_evaluated'' tradeId) else ret ())))))"

definition recordLiveCorrespondenceIfApplicable :: "signing_env \<Rightarrow> string \<Rightarrow> string \<Rightarrow> EscrowType \<Rightarrow> string option \<Rightarrow> unit signing" where
  "recordLiveCorrespondenceIfApplicable env i tradeId escrowType rawTxHex =
     (case rawTxHex of
        None \<Rightarrow> ret ()
      | Some raw \<Rightarrow> if escrowType \<noteq> MULTISIG \<or> raw = [] then ret ()
                   else catchH (recordLiveCorrespondence env i tradeId raw) (\<lambda>_. ret ()))"

section \<open>Submitting a signature\<close>

datatype submit_result = Waiting nat nat | Complete "escrow_row option"

text \<open>\<^verbatim>\<open>upsert\<close> on the pair of the pending transaction and the participant.\<close>

definition upsertSignature :: "string \<Rightarrow> string \<Rightarrow> string \<Rightarrow> signature_row list \<Rightarrow> signature_row list" where
  "upsertSignature pid who psbt rows =
     (if list_ex (\<lambda>g. sg_pendingTxId g = pid \<and> sg_participantId g = who) rows
      then map (\<lambda>g. if sg_pendingTxId g = pid \<and> sg_participantId g = who then g\<lparr>sg_signedPsbtBase64 := psbt\<rparr> else g) rows
      else rows @ [\<lparr>sg_pendingTxId = pid, sg_participantId = who, sg_signedPsbtBase64 = psbt\<rparr>])"

definition signatures_of :: "string \<Rightarrow> signing_state \<Rightarrow> (string \<times> string) list" where
  "signatures_of pid s = map (\<lambda>g. (sg_participantId g, sg_signedPsbtBase64 g)) (filter (\<lambda>g. sg_pendingTxId g = pid) (tx_signatures s))"

definition signedList :: "string list \<Rightarrow> (string \<times> string) list \<Rightarrow> string list" where
  "signedList signers sigs = map (\<lambda>who. case map_of sigs who of None \<Rightarrow> [] | Some psbt \<Rightarrow> psbt) signers"

definition pending_of :: "string \<Rightarrow> signing_state \<Rightarrow> pending_tx_row option" where
  "pending_of i s = find (\<lambda>p. pt_escrowId p = i) (pending_txs (sd s))"

text \<open>Deleting a pending transaction deletes its signatures; the row may be gone already.\<close>

definition deletePending :: "string \<Rightarrow> unit signing" where
  "deletePending pid =
     seqH (readH (\<lambda>s. list_ex (\<lambda>p. pt_id p = pid) (pending_txs (sd s)))) (\<lambda>there.
     seqH (guardH there (DatabaseError ''P2025'')) (\<lambda>_.
       dbStepS ''escrowPendingTransaction'' (\<lambda>s.
         s\<lparr>sd := (sd s)\<lparr>pending_txs := filter (\<lambda>p. pt_id p \<noteq> pid) (pending_txs (sd s))\<rparr>,
           tx_signatures := filter (\<lambda>g. sg_pendingTxId g \<noteq> pid) (tx_signatures s)\<rparr>)))"

definition callFinalize :: "signing_env \<Rightarrow> EscrowType \<Rightarrow> string \<Rightarrow> escrow_row \<Rightarrow> pending_tx_row \<Rightarrow> string list \<Rightarrow> (string \<times> string option) signing" where
  "callFinalize env provider i escrow p signed s =
     (let r = sn_finalize env provider (pt_kind p) (length (finalize_calls s)) escrow (pt_unsignedPsbtBase64 p) signed in
      (r, s\<lparr>finalize_calls := finalize_calls s @
            [(i, pt_kind p, pt_unsignedPsbtBase64 p, signed, case r of Inl _ \<Rightarrow> False | Inr _ \<Rightarrow> True)]\<rparr>))"

definition updateSignatureCollectionResult :: "string \<Rightarrow> string \<Rightarrow> int option \<Rightarrow> unit settle" where
  "updateSignatureCollectionResult i txId releasedAt =
     dbWrite ''updateSignatureCollectionResult'' (set_escrow i (\<lambda>r.
       r\<lparr>er_txReleaseId := Some txId, er_releasedAt := (case releasedAt of None \<Rightarrow> er_releasedAt r | Some t \<Rightarrow> Some t)\<rparr>))"

definition fee_outcome :: "pending_kind \<Rightarrow> SettlementOutcome" where
  "fee_outcome kind = (case kind of KRelease \<Rightarrow> O_RELEASE | KRefund \<Rightarrow> O_FULL_REFUND | KSplit \<Rightarrow> O_SPLIT)"

definition actual_collection :: "pending_tx_row \<Rightarrow> (int \<times> bool) option" where
  "actual_collection p =
     (case pt_feeCollectionSats p of
        None \<Rightarrow> None
      | Some sats \<Rightarrow> Some (sats, case pt_feeCollectionWaived p of None \<Rightarrow> False | Some w \<Rightarrow> w))"

definition recordFeeBroadcast :: "signing_env \<Rightarrow> string \<Rightarrow> escrow_row \<Rightarrow> pending_tx_row \<Rightarrow> int \<Rightarrow> string \<Rightarrow> unit signing" where
  "recordFeeBroadcast env i escrow p feeSats txId =
     catchH
       (seqH (onDisputes (onSettle (readH (\<lambda>b. obligation_of b i)))) (\<lambda>ob.
        seqH (requireH ob (GenericError ''no FeeObligation was found'')) (\<lambda>oid.
        seqH (requireH (case er_snapshotFeeCollectionAddress escrow of Some [] \<Rightarrow> None | x \<Rightarrow> x)
                (GenericError ''no frozen snapshotFeeCollectionAddress'')) (\<lambda>address.
        seqH (liftH (identifyFeeOutput env (pt_unsignedPsbtBase64 p) address feeSats)) (\<lambda>(vout, script, amount).
          onDisputes (onRevenue (recordBroadcastAndAdvance (sn_settle env) oid
            \<lparr>be_txid = txId, be_vout = vout, be_scriptPubKey = script, be_amountSats = amount\<rparr>)))))))
       (\<lambda>_. ret ())"

definition settled_event :: "pending_kind \<Rightarrow> string" where
  "settled_event kind =
     (case kind of KRelease \<Rightarrow> ''settlement.escrow.released'' | KRefund \<Rightarrow> ''settlement.escrow.refunded'' | KSplit \<Rightarrow> ''settlement.escrow.split'')"

text \<open>What follows a successful finalization.\<close>

definition recordSettlement ::
    "signing_env \<Rightarrow> string \<Rightarrow> escrow_row \<Rightarrow> pending_tx_row \<Rightarrow> string \<Rightarrow> string option \<Rightarrow> submit_result signing" where
  "recordSettlement env i escrow p txId rawTxHex =
     (let senv = sn_settle env; collected = actual_collection p in
      seqH (readH (\<lambda>s. clock (settlement (sd s)))) (\<lambda>now.
      seqH (onDisputes (onSettle (updateSignatureCollectionResult i txId (if pt_kind p = KRefund then None else Some now)))) (\<lambda>_.
      seqH (onDisputes (onSettle (findEscrow i))) (\<lambda>updated.
      seqH (onDisputes (onSettle (recordObligationForEscrowSettlement senv i escrow (fee_outcome (pt_kind p)) (pt_buyerBps p) collected))) (\<lambda>_.
      seqH (case collected of
              None \<Rightarrow> ret ()
            | Some (feeSats, waived) \<Rightarrow>
                if pt_kind p \<noteq> KRefund \<and> er_type escrow = MULTISIG \<and> \<not> waived then recordFeeBroadcast env i escrow p feeSats txId else ret ()) (\<lambda>_.
      seqH (recordLiveCorrespondenceIfApplicable env i (er_tradeId escrow) (er_type escrow) rawTxHex) (\<lambda>_.
      seqH (onDisputes (onSettle (emitEscrowTransition senv i (er_tradeId escrow) (er_status escrow) (target_status (pt_kind p))
              (pt_triggeredBy p) (settled_event (pt_kind p)) None))) (\<lambda>_.
      seqH (catchH (deletePending (pt_id p)) (\<lambda>_. ret ())) (\<lambda>_.
        ret (Complete updated))))))))))"

definition settleSigned ::
    "signing_env \<Rightarrow> string \<Rightarrow> escrow_row \<Rightarrow> EscrowType \<Rightarrow> pending_tx_row \<Rightarrow> string list \<Rightarrow> submit_result signing" where
  "settleSigned env i escrow provider p signed =
     seqH (callFinalize env provider i escrow p signed) (\<lambda>(txId, rawTxHex). recordSettlement env i escrow p txId rawTxHex)"

definition submitTransactionSignature :: "signing_env \<Rightarrow> string \<Rightarrow> string \<Rightarrow> string \<Rightarrow> submit_result signing" where
  "submitTransactionSignature env i participantId signedPsbtBase64 =
     seqH (onDisputes (onSettle (requireEscrow i))) (\<lambda>escrow.
     seqH (readH (pending_of i)) (\<lambda>found.
     seqH (requireH found (EscrowError ''has no pending transaction awaiting signatures'')) (\<lambda>p.
     seqH (guardH (participantId \<in> set (pt_requiredSigners p)) (ForbiddenError ''is not one of the required signers'')) (\<lambda>_.
     seqH (dbStepS ''escrowTransactionSignature'' (\<lambda>s. s\<lparr>tx_signatures := upsertSignature (pt_id p) participantId signedPsbtBase64 (tx_signatures s)\<rparr>)) (\<lambda>_.
     seqH (readH (signatures_of (pt_id p))) (\<lambda>sigs.
       if \<not> list_all (\<lambda>who. map_of sigs who \<noteq> None) (pt_requiredSigners p)
       then ret (Waiting (length sigs) (length (pt_requiredSigners p)))
       else
       seqH (liftH (getSignatureCollectionProvider (s_isProduction (sn_settle env)) (er_type escrow))) (\<lambda>pr.
       seqH (requireH pr (EscrowError ''no registered SignatureCollectionProvider'')) (\<lambda>provider.
       seqH (guardH (pt_kind p = KSplit \<longrightarrow> sn_finalizesSplit env provider) (EscrowError ''does not support split finalization'')) (\<lambda>_.
       seqH (onDisputes (authorizeDisputedPendingExecution (sn_dispute env) p)) (\<lambda>_.
       seqH (authorizePendingExecution env p) (\<lambda>_.
       seqH (onDisputes (onSettle (claimEscrowTransition (sn_settle env) i (er_status escrow) (target_status (pt_kind p))))) (\<lambda>_.
         catchH (settleSigned env i escrow provider p (signedList (pt_requiredSigners p) sigs))
           (\<lambda>err. seqH (onDisputes (onSettle (revertEscrowStatus i (target_status (pt_kind p)) (er_status escrow)))) (\<lambda>_. throw err))))))))))))))"

definition getPendingTransaction :: "string \<Rightarrow> (pending_tx_row \<times> (string \<times> string) list) signing" where
  "getPendingTransaction i =
     seqH (readH (pending_of i)) (\<lambda>found.
     seqH (requireH found (NotFoundError ''Pending transaction for this escrow'' i)) (\<lambda>p.
       readH (\<lambda>s. (p, signatures_of (pt_id p) s))))"

section \<open>Stale pending transactions\<close>

text \<open>
  The job of \<^verbatim>\<open>dispute-pending-reconciliation.ts\<close> reads the candidates with their signatures once and then
  treats one after the other; the report has one outcome per candidate.
\<close>

definition MIN_AGE_MS :: int where "MIN_AGE_MS = 5 * 60 * 1000"

datatype stale_outcome =
    DELETED_GUARD_FAILED | LEFT_GUARD_PASSED | DELETED_NO_OUTCOME | SkippedTooYoung | SkippedHasSignatures | StaleFailed sails_error

definition has_resolved :: "string \<Rightarrow> dispute_row list \<Rightarrow> bool" where
  "has_resolved i ds \<longleftrightarrow> list_ex (\<lambda>d. d_escrowId d = i \<and> d_status d = RESOLVED) ds"

definition stale_candidates :: "signing_state \<Rightarrow> (pending_tx_row \<times> nat) list" where
  "stale_candidates s =
     map (\<lambda>p. (p, length (signatures_of (pt_id p) s)))
       (filter (\<lambda>p. (case escrows (settlement (sd s)) (pt_escrowId p) of None \<Rightarrow> False | Some r \<Rightarrow> er_type r = MULTISIG)
                  \<and> has_resolved (pt_escrowId p) (dispute_rows (sd s))) (pending_txs (sd s)))"

definition dropPending :: "pending_tx_row \<Rightarrow> stale_outcome \<Rightarrow> stale_outcome signing" where
  "dropPending p verdict = seqH (catchH (deletePending (pt_id p)) (\<lambda>_. ret ())) (\<lambda>_. ret verdict)"

definition recheckPending :: "signing_env \<Rightarrow> pending_tx_row \<Rightarrow> stale_outcome signing" where
  "recheckPending env p =
     seqH (readH (\<lambda>s. latest_resolved (pt_escrowId p) (dispute_rows (sd s)))) (\<lambda>found.
       case found of
         None \<Rightarrow> ret (StaleFailed (GenericError ''no RESOLVED dispute found on re-check''))
       | Some d \<Rightarrow>
         seqH (onDisputes (loadDisputeRulingRecord (pt_escrowId p) (d_appealRound d))) (\<lambda>r.
           case r of
             None \<Rightarrow> dropPending p DELETED_NO_OUTCOME
           | Some row \<Rightarrow>
             if rr_outcomeContent row = None then dropPending p DELETED_NO_OUTCOME else
             seqH (liftH (fromDisputeRulingRow row)) (\<lambda>rec.
               case tr_outcome rec of
                 None \<Rightarrow> ret (StaleFailed (GenericError ''durable record has no Outcome''))
               | Some outcome \<Rightarrow>
                 seqH (liftH (validateTranslatedOutputsAgainstOutcome (de_cost (sn_dispute env)) (de_decodePsbt (sn_dispute env))
                         (pt_unsignedPsbtBase64 p) outcome None)) (\<lambda>(ok, _).
                   if ok then ret LEFT_GUARD_PASSED else dropPending p DELETED_GUARD_FAILED))))"

definition reconcilePending :: "signing_env \<Rightarrow> pending_tx_row \<times> nat \<Rightarrow> stale_outcome signing" where
  "reconcilePending env candidate =
     (case candidate of (p, signatureCount) \<Rightarrow>
      catchH
        (if signatureCount > 0 then ret SkippedHasSignatures
         else seqH (readH (\<lambda>s. clock (settlement (sd s)))) (\<lambda>now.
           if now - pt_createdAt p < MIN_AGE_MS then ret SkippedTooYoung else recheckPending env p))
        (\<lambda>err. ret (StaleFailed err)))"

fun mapH :: "('b \<Rightarrow> ('s, 'c) handler) \<Rightarrow> 'b list \<Rightarrow> ('s, 'c list) handler" where
  "mapH f [] = ret []"
| "mapH f (x # xs) = seqH (f x) (\<lambda>y. seqH (mapH f xs) (\<lambda>ys. ret (y # ys)))"

definition reconcileStalePendingDisputeTranslations :: "signing_env \<Rightarrow> stale_outcome list signing" where
  "reconcileStalePendingDisputeTranslations env = seqH (readH stale_candidates) (mapH (reconcilePending env))"

section \<open>Missing dispatches\<close>

text \<open>
  The job of \<^verbatim>\<open>dispute-dispatch-recovery.ts\<close>: a resolved dispute whose escrow has neither moved nor a pending
  transaction is dispatched again under the identity of its arbiter.
\<close>

datatype recovery_outcome =
    Resumed ArbitrationRuling | AlreadyResumedConcurrently | NotEligible string | GuardFailed | RecoveryFailed sails_error | OutOfScope

definition isConcurrentPendingConflict :: "sails_error \<Rightarrow> bool" where
  "isConcurrentPendingConflict err =
     (case err of EscrowError m \<Rightarrow> take 21 m = ''already has a pending'' | _ \<Rightarrow> False)"

definition recovery_candidates :: "signing_state \<Rightarrow> (dispute_row \<times> escrow_row) list" where
  "recovery_candidates s =
     List.map_filter (\<lambda>d. case escrows (settlement (sd s)) (d_escrowId d) of
         None \<Rightarrow> None
       | Some r \<Rightarrow> if d_status d = RESOLVED \<and> er_type r = MULTISIG \<and> er_status r \<notin> set TERMINAL_ESCROW_STATUSES then Some (d, r) else None)
       (dispute_rows (sd s))"

definition initiateRuling ::
    "signing_env \<Rightarrow> string \<Rightarrow> arbitration_outcome \<Rightarrow> trade_row \<Rightarrow> string \<Rightarrow> pending_tx_row option signing" where
  "initiateRuling env i outcome trade triggeredBy =
     (let denv = sn_dispute env; destinations = bound_destinations outcome;
          buyerDestination = destination_of destinations (t_buyerId trade); sellerDestination = destination_of destinations (t_sellerId trade) in
      case oc_ruling (out_content outcome) of
        RELEASE \<Rightarrow> seqH (onDisputes (initiateRelease denv i buyerDestination triggeredBy)) (\<lambda>p. ret (Some p))
      | REFUND \<Rightarrow> seqH (onDisputes (initiateRefund denv i triggeredBy sellerDestination)) (\<lambda>p. ret (Some p))
      | SPLIT_RULING \<Rightarrow>
          (case find (\<lambda>a. al_beneficiary a = t_buyerId trade) (oc_allocations (out_content outcome)) of
             None \<Rightarrow> ret None
           | Some a \<Rightarrow> seqH (onDisputes (initiateSplit denv i buyerDestination sellerDestination
               (case al_basisPoints a of Num x \<Rightarrow> x | _ \<Rightarrow> 0) triggeredBy)) (\<lambda>p. ret (Some p))))"

definition guardResumed :: "signing_env \<Rightarrow> string \<Rightarrow> arbitration_outcome \<Rightarrow> pending_tx_row \<Rightarrow> recovery_outcome signing" where
  "guardResumed env i outcome p =
     catchH
       (seqH (liftH (assertTranslationMatchesOutcome (de_cost (sn_dispute env)) (de_decodePsbt (sn_dispute env))
               (pt_unsignedPsbtBase64 p) outcome (pt_minerFeeSats p))) (\<lambda>_. ret (Resumed (oc_ruling (out_content outcome)))))
       (\<lambda>_. seqH (dbStepS ''escrowPendingTransaction'' (\<lambda>s.
               s\<lparr>sd := (sd s)\<lparr>pending_txs := filter (\<lambda>q. pt_escrowId q \<noteq> i) (pending_txs (sd s))\<rparr>,
                 tx_signatures := filter (\<lambda>g. \<not> list_ex (\<lambda>q. pt_escrowId q = i \<and> pt_id q = sg_pendingTxId g) (pending_txs (sd s)))
                   (tx_signatures s)\<rparr>)) (\<lambda>_. ret GuardFailed))"

definition resumeDispatch :: "signing_env \<Rightarrow> dispute_row \<Rightarrow> escrow_row \<Rightarrow> arbitration_outcome \<Rightarrow> recovery_outcome signing" where
  "resumeDispatch env d escrow outcome =
     (let i = d_escrowId d in
      seqH (onDisputes (onSettle (findTrade (er_tradeId escrow)))) (\<lambda>found.
        case found of
          None \<Rightarrow> ret (RecoveryFailed (NotFoundError ''Trade'' (er_tradeId escrow)))
        | Some trade \<Rightarrow>
          (case (if d_arbiterId d = Some [] then None else d_arbiterId d) of
             None \<Rightarrow> ret (RecoveryFailed (GenericError ''RESOLVED dispute has no recorded arbiterId''))
           | Some triggeredBy \<Rightarrow>
             seqH (catchH (seqH (initiateRuling env i outcome trade triggeredBy) (\<lambda>p. ret (Inr p)))
                     (\<lambda>err. if isConcurrentPendingConflict err then ret (Inl AlreadyResumedConcurrently) else throw err)) (\<lambda>r.
               case r of
                 Inl res \<Rightarrow> ret res
               | Inr None \<Rightarrow> ret (RecoveryFailed (GenericError ''SPLIT outcome has no buyer allocation''))
               | Inr (Some p) \<Rightarrow> guardResumed env i outcome p))))"

definition recoverDispatch :: "signing_env \<Rightarrow> dispute_row \<times> escrow_row \<Rightarrow> recovery_outcome signing" where
  "recoverDispatch env candidate =
     (case candidate of (d, escrow) \<Rightarrow>
      let i = d_escrowId d in
      catchH
        (seqH (readH (pending_of i)) (\<lambda>existing.
           if existing \<noteq> None then ret OutOfScope else
           seqH (onDisputes (loadDisputeRulingRecord i (d_appealRound d))) (\<lambda>r.
             case r of
               None \<Rightarrow> ret OutOfScope
             | Some row \<Rightarrow>
               if rr_outcomeContent row = None then ret OutOfScope else
               seqH (liftH (fromDisputeRulingRow row)) (\<lambda>rec.
                 case tr_outcome rec of
                   None \<Rightarrow> ret (RecoveryFailed (GenericError ''fromDisputeRulingRow() produced no Outcome''))
                 | Some outcome \<Rightarrow>
                   seqH (onDisputes (evaluateDisputeDispatchEligibility i (d_appealRound d))) (\<lambda>eligibility.
                     case eligibility of
                       Inl reason \<Rightarrow> ret (NotEligible reason)
                     | Inr _ \<Rightarrow> resumeDispatch env d escrow outcome)))))
        (\<lambda>err. ret (RecoveryFailed err)))"

definition reconcileMissingDispatch :: "signing_env \<Rightarrow> recovery_outcome list signing" where
  "reconcileMissingDispatch env = seqH (readH recovery_candidates) (mapH (recoverDispatch env))"

end
