(* ===== verification/Signature_Outcomes.thy ===== *)
theory Signature_Outcomes
  imports Signature_Submission
begin

text \<open>
  Properties of collected signatures: what has happened before a transaction is finalized, what a complete set of
  signatures leads to, and what the repair jobs leave behind.
\<close>

section \<open>Weakest preconditions\<close>

lemma wp_onDisputes [wp_eqs]:
  "wpH (onDisputes m) Q E s = wpH m (\<lambda>a d. Q a (s\<lparr>sd := d\<rparr>)) (\<lambda>e d. E e (s\<lparr>sd := d\<rparr>)) (sd s)"
  by (simp add: wpH_def onDisputes_def split: prod.split sum.split)

lemma wp_onRevenue [wp_eqs]:
  "wpH (onRevenue m) Q E s = wpH m (\<lambda>a v. Q a (s\<lparr>rv := v\<rparr>)) (\<lambda>e v. E e (s\<lparr>rv := v\<rparr>)) (rv s)"
  by (simp add: wpH_def onRevenue_def split: prod.split sum.split)

lemma wp_dbStepS [wp_eqs]:
  "wpH (dbStepS tag f) Q E s =
     (case faults (settlement (sd s)) of
        True # fs \<Rightarrow> E (DatabaseError tag) (s\<lparr>sd := with_faults fs (sd s)\<rparr>)
      | False # fs \<Rightarrow> Q () (f (s\<lparr>sd := with_faults fs (sd s)\<rparr>))
      | [] \<Rightarrow> Q () (f s))"
  by (simp add: dbStepS_def wp_eqs with_faults_def settlement_def split: list.split bool.split)

lemma wp_transactionS [wp_eqs]:
  "wpH (transactionS m) Q E s = wpH m Q (\<lambda>e s'. E e (s\<lparr>sd := with_faults (faults (settlement (sd s'))) (sd s)\<rparr>)) s"
  by (simp add: wpH_def transactionS_def split: prod.split sum.split)

lemma wp_callFinalize [wp_eqs]:
  "wpH (callFinalize env provider i r p signed) Q E s =
     (case sn_finalize env provider (pt_kind p) (length (finalize_calls s)) r (pt_unsignedPsbtBase64 p) signed of
        Inl e \<Rightarrow> E e (s\<lparr>finalize_calls := finalize_calls s @ [(i, pt_kind p, pt_unsignedPsbtBase64 p, signed, False)]\<rparr>)
      | Inr a \<Rightarrow> Q a (s\<lparr>finalize_calls := finalize_calls s @ [(i, pt_kind p, pt_unsignedPsbtBase64 p, signed, True)]\<rparr>))"
  by (simp add: wpH_def callFinalize_def Let_def split: sum.split)

section \<open>What the bookkeeping of a settlement keeps\<close>

text \<open>The calls made so far and both authorization tables.\<close>

definition authorized_as :: "finalize_call list \<Rightarrow> disposition_row list \<Rightarrow> capability_auth_row list \<Rightarrow> signing_state \<Rightarrow> bool" where
  "authorized_as calls zs cs s \<longleftrightarrow> finalize_calls s = calls \<and> dispositions (sd s) = zs \<and> capability_auths s = cs"

lemma keeps_settle [preserves_intros]: "preserves (authorized_as calls zs cs) (onDisputes (onSettle m))"
  by (auto simp: preserves_def onDisputes_def onSettle_def authorized_as_def split: prod.splits)

lemma keeps_revenue [preserves_intros]: "preserves (authorized_as calls zs cs) (onDisputes (onRevenue m))"
  by (auto simp: preserves_def onDisputes_def onRevenue_def authorized_as_def split: prod.splits)

lemma keeps_step [preserves_intros]:
  assumes "\<And>s. authorized_as calls zs cs s \<Longrightarrow> authorized_as calls zs cs (f s)"
  shows "preserves (authorized_as calls zs cs) (dbStepS tag f)"
  unfolding dbStepS_def using assms by (intro preserves_intros)

lemma keeps_delete [preserves_intros]: "preserves (authorized_as calls zs cs) (deletePending pid)"
  unfolding deletePending_def by (intro preserves_intros) (simp add: authorized_as_def)

lemma keeps_publish [preserves_intros]: "preserves (authorized_as calls zs cs) (onDisputes (publishD n k))"
  by (auto simp: preserves_def onDisputes_def publishD_def dbStep_def onSettle_def authorized_as_def seqH_def writeH_def split: prod.splits sum.splits)

lemma keeps_read [preserves_intros]: "preserves (authorized_as calls zs cs) (onDisputes (loadDisputeRulingRecord i n))"
  by (simp add: preserves_def onDisputes_def loadDisputeRulingRecord_def readH_def)

lemma keeps_claim [preserves_intros]: "preserves (authorized_as calls zs cs) (claimCorrespondenceEvaluation row)"
  unfolding claimCorrespondenceEvaluation_def by (intro preserves_intros) (simp add: authorized_as_def)

lemma keeps_correspondence [preserves_intros]:
  "preserves (authorized_as calls zs cs) (recordLiveCorrespondenceIfApplicable env i tid ty raw)"
  unfolding recordLiveCorrespondenceIfApplicable_def recordLiveCorrespondence_def by (intro preserves_intros)

lemma keeps_fee [preserves_intros]: "preserves (authorized_as calls zs cs) (recordFeeBroadcast env i r p fee txId)"
  unfolding recordFeeBroadcast_def by (intro preserves_intros)

lemma keeps_record: "preserves (authorized_as calls zs cs) (recordSettlement env i r p txId raw)"
  unfolding recordSettlement_def Let_def by (intro preserves_intros)

lemma wp_settleSigned:
  fixes s :: signing_state and i and p :: pending_tx_row and signed
  defines "calls ok \<equiv> finalize_calls s @ [(i, pt_kind p, pt_unsignedPsbtBase64 p, signed, ok)]"
  shows "wpH (settleSigned env i r provider p signed)
     (\<lambda>_ s'. \<exists>ok. authorized_as (calls ok) (dispositions (sd s)) (capability_auths s) s')
     (\<lambda>_ s'. \<exists>ok. authorized_as (calls ok) (dispositions (sd s)) (capability_auths s) s') s"
proof -
  let ?I = "\<lambda>ok. authorized_as (calls ok) (dispositions (sd s)) (capability_auths s)"
  have start: "?I ok (s\<lparr>finalize_calls := calls ok\<rparr>)" for ok by (simp add: authorized_as_def)
  have "wpH (recordSettlement env i r p txId raw) (\<lambda>_ s'. \<exists>ok. ?I ok s') (\<lambda>_ s'. \<exists>ok. ?I ok s') (s\<lparr>finalize_calls := calls True\<rparr>)" for txId raw
    by (rule wpH_mono [OF preserves_wp [OF keeps_record start]]) auto
  with start show ?thesis by (auto simp: settleSigned_def wp_eqs calls_def split: sum.split)
qed

section \<open>The gates before a finalization\<close>

lemma settlement_frame [simp]:
  "settlement (d\<lparr>dispositions := z\<rparr>) = settlement d" "settlement (d\<lparr>pending_txs := ps\<rparr>) = settlement d" "settlement (d\<lparr>dispute_bus := b\<rparr>) = settlement d"
  by (simp_all add: settlement_def)

definition disposition_committed :: "dispute_env \<Rightarrow> pending_tx_row \<Rightarrow> dispute_state \<Rightarrow> dispute_state \<Rightarrow> bool" where
  "disposition_committed env p s s' \<longleftrightarrow>
     (case (if pt_disputeId p = Some [] then None else pt_disputeId p) of
        None \<Rightarrow> \<forall>d \<in> set (dispute_rows s). d_escrowId d \<noteq> pt_escrowId p
      | Some disputeId \<Rightarrow> \<exists>z \<in> set (dispositions s'). dz_pendingOperationId z = pt_id p \<and> dz_escrowId z = pt_escrowId p
          \<and> dz_disputeId z = disputeId \<and> dz_operationDigest z = economicDispositionOperationDigest env p)"

lemma wp_disposition:
  "wpH (authorizeDisputedPendingExecution env p)
     (\<lambda>_ s'. disposition_committed env p s s' \<and> escrows (settlement s') = escrows (settlement s))
     (\<lambda>_ s'. escrows (settlement s') = escrows (settlement s)) s"
  by (auto simp: authorizeDisputedPendingExecution_def disposition_committed_def findDisputeById_def Let_def wp_eqs list_ex_iff
      dest: find_SomeD split: option.split list.split bool.split)

definition capability_committed :: "signing_env \<Rightarrow> pending_tx_row \<Rightarrow> capability_auth_row list \<Rightarrow> bool" where
  "capability_committed env p cs \<longleftrightarrow>
     (s_enforceCapabilities (sn_settle env) \<longrightarrow> (\<exists>a \<in> set cs. ca_pendingOperationId a = pt_id p \<and> auth_matches env p a))"

lemma wp_capability:
  "wpH (authorizePendingExecution env p)
     (\<lambda>_ s'. capability_committed env p (capability_auths s') \<and> finalize_calls s' = finalize_calls s \<and> dispositions (sd s') = dispositions (sd s)
        \<and> escrows (settlement (sd s')) = escrows (settlement (sd s)))
     (\<lambda>_ s'. finalize_calls s' = finalize_calls s \<and> escrows (settlement (sd s')) = escrows (settlement (sd s))) s"
  by (auto simp: authorizePendingExecution_def capability_committed_def findActiveGrants_def auth_matches_def Let_def wp_eqs
      dest!: find_SomeD split: option.split list.split bool.split)

lemma conflict_escrows: "escrows (conflict_recorded senv i b) = escrows b"
  by (simp add: conflict_recorded_def Let_def case_prod_beta)

lemma no_claim: "fst (claimEscrowStatus i from to b) = 0 \<Longrightarrow> snd (claimEscrowStatus i from to b) = b"
  by (auto simp: claimEscrowStatus_def split: option.splits if_splits)

lemma wp_claim_settle:
  "wpH (claimEscrowTransition senv i from to) (\<lambda>_ _. to \<in> set (VALID_TRANSITIONS from)) (\<lambda>_ b'. escrows b' = escrows b) b"
  by (auto simp: claimEscrowTransition_def wp_eqs conflict_escrows no_claim)

definition untouched :: "signing_state \<Rightarrow> signing_state \<Rightarrow> bool" where
  "untouched s s' \<longleftrightarrow> finalize_calls s' = finalize_calls s \<and> escrows (settlement (sd s')) = escrows (settlement (sd s))"

definition gated :: "signing_env \<Rightarrow> string \<Rightarrow> escrow_row \<Rightarrow> pending_tx_row \<Rightarrow> string list \<Rightarrow> signing_state \<Rightarrow> signing_state \<Rightarrow> bool" where
  "gated env i r p signed s s' \<longleftrightarrow>
     target_status (pt_kind p) \<in> set (VALID_TRANSITIONS (er_status r))
     \<and> disposition_committed (sn_dispute env) p (sd s) (sd s') \<and> capability_committed env p (capability_auths s')
     \<and> (\<exists>ok. finalize_calls s' = finalize_calls s @ [(i, pt_kind p, pt_unsignedPsbtBase64 p, signed, ok)])"

lemma disposition_cong: "dispositions d' = dispositions d \<Longrightarrow> disposition_committed denv p d0 d' = disposition_committed denv p d0 d"
  by (simp add: disposition_committed_def split: option.split)

text \<open>From the claim on, with both authorizations in place.\<close>

lemma wp_claimed:
  assumes "finalize_calls s1 = finalize_calls s" and "escrows (settlement (sd s1)) = escrows (settlement (sd s))"
    and "disposition_committed (sn_dispute env) p (sd s) (sd s1)" and "capability_committed env p (capability_auths s1)"
  shows "wpH (seqH (onDisputes (onSettle (claimEscrowTransition senv i (er_status r) (target_status (pt_kind p))))) (\<lambda>_.
           catchH (settleSigned env i r provider p signed)
             (\<lambda>err. seqH (onDisputes (onSettle (revertEscrowStatus i (target_status (pt_kind p)) (er_status r)))) (\<lambda>_. throw err))))
     (\<lambda>_. gated env i r p signed s) (\<lambda>_ s'. untouched s s' \<or> gated env i r p signed s s') s1"
proof -
  have g: "gated env i r p signed s s'"
    if "target_status (pt_kind p) \<in> set (VALID_TRANSITIONS (er_status r))" "finalize_calls s2 = finalize_calls s1"
      "dispositions (sd s2) = dispositions (sd s1)" "capability_auths s2 = capability_auths s1"
      "\<exists>ok. authorized_as (finalize_calls s2 @ [(i, pt_kind p, pt_unsignedPsbtBase64 p, signed, ok)]) (dispositions (sd s2)) (capability_auths s2) s'"
    for s2 s'
    using that assms disposition_cong [of "sd s'" "sd s1" "sn_dispute env" p "sd s"] by (auto simp: gated_def authorized_as_def)
  have settle: "wpH (catchH (settleSigned env i r provider p signed)
             (\<lambda>err. seqH (onDisputes (onSettle (revertEscrowStatus i (target_status (pt_kind p)) (er_status r)))) (\<lambda>_. throw err)))
     (\<lambda>_. gated env i r p signed s) (\<lambda>_. gated env i r p signed s) s2"
    if v: "target_status (pt_kind p) \<in> set (VALID_TRANSITIONS (er_status r))" and s2: "finalize_calls s2 = finalize_calls s1"
      "dispositions (sd s2) = dispositions (sd s1)" "capability_auths s2 = capability_auths s1" for s2
  proof -
    let ?J = "\<lambda>ok. authorized_as (finalize_calls s2 @ [(i, pt_kind p, pt_unsignedPsbtBase64 p, signed, ok)]) (dispositions (sd s2)) (capability_auths s2)"
    have "wpH (seqH (onDisputes (onSettle (revertEscrowStatus i (target_status (pt_kind p)) (er_status r)))) (\<lambda>_. throw e))
        (\<lambda>_ s'. \<exists>ok. ?J ok s') (\<lambda>_ s'. \<exists>ok. ?J ok s') t" if "?J ok t" for ok t e
      by (rule wpH_mono [OF preserves_wp [where I = "?J ok"]]) (intro preserves_intros, auto simp: that)
    then have "wpH (catchH (settleSigned env i r provider p signed)
             (\<lambda>err. seqH (onDisputes (onSettle (revertEscrowStatus i (target_status (pt_kind p)) (er_status r)))) (\<lambda>_. throw err)))
        (\<lambda>_ s'. \<exists>ok. ?J ok s') (\<lambda>_ s'. \<exists>ok. ?J ok s') s2"
      unfolding wp_catchH by (intro wpH_mono [OF wp_settleSigned]) auto
    then show ?thesis by (rule wpH_mono) (use g [OF v s2] in auto)
  qed
  show ?thesis
    unfolding wp_seqH wp_onDisputes wp_onSettle
    by (rule wpH_mono [OF wp_claim_settle]) (use assms(1,2) in \<open>auto simp: untouched_def settlement_def intro!: wpH_mono [OF settle]\<close>)
qed

lemma wp_gated:
  "wpH (seqH (onDisputes (authorizeDisputedPendingExecution (sn_dispute env) p)) (\<lambda>_.
        seqH (authorizePendingExecution env p) (\<lambda>_.
        seqH (onDisputes (onSettle (claimEscrowTransition senv i (er_status r) (target_status (pt_kind p))))) (\<lambda>_.
           catchH (settleSigned env i r provider p signed)
             (\<lambda>err. seqH (onDisputes (onSettle (revertEscrowStatus i (target_status (pt_kind p)) (er_status r)))) (\<lambda>_. throw err))))))
     (\<lambda>_. gated env i r p signed s) (\<lambda>_ s'. untouched s s' \<or> gated env i r p signed s s') s"
proof -
  have "wpH (seqH (authorizePendingExecution env p) (\<lambda>_.
        seqH (onDisputes (onSettle (claimEscrowTransition senv i (er_status r) (target_status (pt_kind p))))) (\<lambda>_.
           catchH (settleSigned env i r provider p signed)
             (\<lambda>err. seqH (onDisputes (onSettle (revertEscrowStatus i (target_status (pt_kind p)) (er_status r)))) (\<lambda>_. throw err)))))
     (\<lambda>_. gated env i r p signed s) (\<lambda>_ s'. untouched s s' \<or> gated env i r p signed s s') (s\<lparr>sd := d\<rparr>)"
    if d: "disposition_committed (sn_dispute env) p (sd s) d" "escrows (settlement d) = escrows (settlement (sd s))" for d
    unfolding wp_seqH [of "authorizePendingExecution env p"]
  proof (rule wpH_mono [OF wp_capability], goal_cases)
    case (1 a t)
    then show ?case using d disposition_cong [of "sd t" d "sn_dispute env" p "sd s"] by (intro wp_claimed) simp_all
  next
    case (2 e t)
    then show ?case using d by (simp add: untouched_def)
  qed
  then show ?thesis
    unfolding wp_seqH [of "onDisputes (authorizeDisputedPendingExecution (sn_dispute env) p)"] wp_onDisputes [of "authorizeDisputedPendingExecution (sn_dispute env) p"]
    by (intro wpH_mono [OF wp_disposition]) (auto simp: untouched_def)
qed

section \<open>Signatures\<close>

definition with_signature :: "pending_tx_row \<Rightarrow> string \<Rightarrow> string \<Rightarrow> signing_state \<Rightarrow> signing_state" where
  "with_signature p who psbt s = s\<lparr>tx_signatures := upsertSignature (pt_id p) who psbt (tx_signatures s)\<rparr>"

lemma stored_signature: "map_of (signatures_of (pt_id p) (with_signature p who psbt s)) who = Some psbt"
proof -
  let ?mine = "\<lambda>g. sg_pendingTxId g = pt_id p \<and> sg_participantId g = who"
  let ?view = "\<lambda>rows. map_of (map (\<lambda>g. (sg_participantId g, sg_signedPsbtBase64 g)) (filter (\<lambda>g. sg_pendingTxId g = pt_id p) rows))"
  have "?view (map (\<lambda>g. if ?mine g then g\<lparr>sg_signedPsbtBase64 := psbt\<rparr> else g) rows) who = Some psbt" if "list_ex ?mine rows" for rows
    using that by (induction rows) auto
  moreover have "?view (rows @ [\<lparr>sg_pendingTxId = pt_id p, sg_participantId = who, sg_signedPsbtBase64 = psbt\<rparr>]) who = Some psbt"
    if "\<not> list_ex ?mine rows" for rows
    using that by (induction rows) auto
  ultimately show ?thesis by (auto simp: signatures_of_def with_signature_def upsertSignature_def)
qed

lemma with_signature_frame [simp]:
  "sd (with_signature p who psbt s) = sd s" "finalize_calls (with_signature p who psbt s) = finalize_calls s"
  "capability_auths (with_signature p who psbt s) = capability_auths s"
  "signatures_of pid (with_signature p who psbt (s\<lparr>sd := d\<rparr>)) = signatures_of pid (with_signature p who psbt s)"
  by (simp_all add: with_signature_def signatures_of_def)

lemma gated_start:
  assumes "gated env i r p signed s1 s'" and "finalize_calls s1 = finalize_calls s" and "dispute_rows (sd s1) = dispute_rows (sd s)"
  shows "gated env i r p signed s s'"
  using assms by (auto simp: gated_def disposition_committed_def split: option.splits if_splits)

text \<open>What holds when a transaction of escrow \<open>i\<close> is finalized after \<open>who\<close> has submitted \<open>psbt\<close>.\<close>

definition settled_by_all :: "signing_env \<Rightarrow> string \<Rightarrow> string \<Rightarrow> string \<Rightarrow> signing_state \<Rightarrow> signing_state \<Rightarrow> bool" where
  "settled_by_all env i who psbt s s' \<longleftrightarrow>
     (\<exists>r p sigs. escrows (settlement (sd s)) i = Some r \<and> pending_of i s = Some p \<and> who \<in> set (pt_requiredSigners p)
        \<and> sigs = signatures_of (pt_id p) (with_signature p who psbt s) \<and> map_of sigs who = Some psbt
        \<and> (\<forall>x \<in> set (pt_requiredSigners p). map_of sigs x \<noteq> None)
        \<and> gated env i r p (signedList (pt_requiredSigners p) sigs) s s')"

lemma wpI_escrowS:
  "\<lbrakk>E (NotFoundError ''Escrow'' i) s; \<And>r. escrows (settlement (sd s)) i = Some r \<Longrightarrow> Q r s\<rbrakk>
   \<Longrightarrow> wpH (onDisputes (onSettle (requireEscrow i))) Q E s"
  by (simp add: wp_eqs split: option.split)

text \<open>The step that stores the signature, with the fault it may consume.\<close>

definition stepped :: "signing_state \<Rightarrow> signing_state \<Rightarrow> bool" where
  "stepped s s1 \<longleftrightarrow> s1 = s \<or> (\<exists>fs. s1 = s\<lparr>sd := with_faults fs (sd s)\<rparr>)"

lemma stepped_frame:
  assumes "stepped s s1"
  shows "finalize_calls s1 = finalize_calls s" "dispute_rows (sd s1) = dispute_rows (sd s)" "untouched s s1"
    "untouched s (with_signature p who psbt s1)" "untouched (with_signature p who psbt s1) t \<Longrightarrow> untouched s t"
    "signatures_of pid (with_signature p who psbt s1) = signatures_of pid (with_signature p who psbt s)"
  using assms by (auto simp: stepped_def untouched_def)

lemma wpI_signature:
  assumes "\<And>s1. stepped s s1 \<Longrightarrow> Q () (with_signature p who psbt s1)" and "\<And>e s1. stepped s s1 \<Longrightarrow> E e s1"
  shows "wpH (dbStepS tag (\<lambda>s. s\<lparr>tx_signatures := upsertSignature (pt_id p) who psbt (tx_signatures s)\<rparr>)) Q E s"
proof -
  have "stepped s s" "stepped s (s\<lparr>sd := with_faults fs (sd s)\<rparr>)" for fs by (auto simp: stepped_def)
  from assms(1) [OF this(1)] assms(1) [OF this(2)] assms(2) [OF this(2)] show ?thesis
    unfolding wp_dbStepS by (auto simp: with_signature_def split: list.split bool.split)
qed

lemma wp_gates:
  assumes "escrows (settlement (sd s)) i = Some r" and "pending_of i s = Some p" and "who \<in> set (pt_requiredSigners p)" and s1: "stepped s s1"
    and signed: "\<not> \<not> list_all (\<lambda>x. map_of (signatures_of (pt_id p) (with_signature p who psbt s1)) x \<noteq> None) (pt_requiredSigners p)"
  shows "wpH (seqH (onDisputes (authorizeDisputedPendingExecution (sn_dispute env) p)) (\<lambda>_.
        seqH (authorizePendingExecution env p) (\<lambda>_.
        seqH (onDisputes (onSettle (claimEscrowTransition (sn_settle env) i (er_status r) (target_status (pt_kind p))))) (\<lambda>_.
           catchH (settleSigned env i r provider p (signedList (pt_requiredSigners p) (signatures_of (pt_id p) (with_signature p who psbt s1))))
             (\<lambda>err. seqH (onDisputes (onSettle (revertEscrowStatus i (target_status (pt_kind p)) (er_status r)))) (\<lambda>_. throw err))))))
       (\<lambda>_ s'. untouched s s' \<or> settled_by_all env i who psbt s s') (\<lambda>_ s'. untouched s s' \<or> settled_by_all env i who psbt s s')
       (with_signature p who psbt s1)"
proof -
  have all: "settled_by_all env i who psbt s t"
    if "gated env i r p (signedList (pt_requiredSigners p) (signatures_of (pt_id p) (with_signature p who psbt s1))) (with_signature p who psbt s1) t" for t
  proof -
    have "gated env i r p (signedList (pt_requiredSigners p) (signatures_of (pt_id p) (with_signature p who psbt s1))) s t"
      using that by (rule gated_start) (simp_all add: stepped_frame [OF s1])
    then show ?thesis
      using assms(1-3) signed stored_signature by (auto simp: settled_by_all_def list_all_iff stepped_frame [OF s1])
  qed
  show ?thesis
    by (rule wpH_mono [OF wp_gated]) (auto intro: all stepped_frame(5) [OF s1])
qed

lemma wp_submit:
  "wpH (submitTransactionSignature env i who psbt)
     (\<lambda>_ s'. untouched s s' \<or> settled_by_all env i who psbt s s') (\<lambda>_ s'. untouched s s' \<or> settled_by_all env i who psbt s s') s"
proof -
  have idle: "untouched s s \<or> X" for X by (simp add: untouched_def)
  show ?thesis
    unfolding submitTransactionSignature_def
    by (intro wp_gates wpI_seqH wpI_escrowS wpI_readH wpI_requireH wpI_guardH wpI_signature wpI_if wpI_ret wpI_liftH idle; assumption?; rule disjI1;
      simp add: stepped_frame)
qed

text \<open>
  C10: no transaction is finalized before every signer has signed. A submitted signature leaves the escrows and the
  calls of the provider as they are, or it makes exactly one call: then the caller is a required signer, every required
  signer has a stored signature and the call gets them in their order with the stored transaction; the
  escrow may move to the status of the pending kind; a pending transaction of a dispute has its committed
  authorization for exactly this operation, and one without a dispute belongs to an escrow that was never disputed;
  and with enforced capabilities the initiator has a committed capability authorization of this operation. This holds
  whatever the provider answers and wherever the database fails.
\<close>

theorem finalized_only_when_all_signed:
  "untouched s (snd (submitTransactionSignature env i who psbt s))
   \<or> settled_by_all env i who psbt s (snd (submitTransactionSignature env i who psbt s))"
  by (rule wpH_snd [OF wp_submit])

section \<open>A complete set of signatures\<close>

text \<open>A pending transaction of an escrow that was never disputed and has no fee policy, under a working database.\<close>

definition cooperative :: "signing_env \<Rightarrow> string \<Rightarrow> escrow_row \<Rightarrow> pending_tx_row \<Rightarrow> signing_state \<Rightarrow> bool" where
  "cooperative env i r p s \<longleftrightarrow>
     faults (settlement (sd s)) = [] \<and> escrows (settlement (sd s)) i = Some r \<and> filter (\<lambda>q. pt_escrowId q = i) (pending_txs (sd s)) = [p]
     \<and> pt_disputeId p = None \<and> (\<forall>d \<in> set (dispute_rows (sd s)). d_escrowId d \<noteq> i) \<and> \<not> s_enforceCapabilities (sn_settle env)
     \<and> \<not> circuit_open i (settlement (sd s)) \<and> target_status (pt_kind p) \<in> set (VALID_TRANSITIONS (er_status r))
     \<and> er_feePolicyVersionId r = None \<and> pt_feeCollectionSats p = None
     \<and> \<not> already_emitted i (target_status (pt_kind p)) (settlement (sd s))"

lemma find_filter: "find P xs = (case filter P xs of [] \<Rightarrow> None | x # _ \<Rightarrow> Some x)"
  by (induction xs) auto

lemma only_pending:
  assumes "filter (\<lambda>q. pt_escrowId q = i) ps = [p]"
  shows "find (\<lambda>q. pt_escrowId q = i) ps = Some p" "list_ex (\<lambda>q. pt_id q = pt_id p) ps" "pt_escrowId p = i"
    "find (\<lambda>q. pt_escrowId q = i) (filter (\<lambda>q. pt_id q \<noteq> pt_id p) ps) = None"
proof -
  have "p \<in> set (filter (\<lambda>q. pt_escrowId q = i) ps)" using assms by simp
  then show "list_ex (\<lambda>q. pt_id q = pt_id p) ps" "pt_escrowId p = i" by (auto simp: list_ex_iff)
  show "find (\<lambda>q. pt_escrowId q = i) ps = Some p" using assms by (simp add: find_filter)
  have "q = p" if "q \<in> set ps" "pt_escrowId q = i" for q
  proof -
    have "q \<in> set (filter (\<lambda>q. pt_escrowId q = i) ps)" using that by simp
    with assms show ?thesis by simp
  qed
  then show "find (\<lambda>q. pt_escrowId q = i) (filter (\<lambda>q. pt_id q \<noteq> pt_id p) ps) = None" by (auto simp: find_None_iff)
qed

lemma no_policy: "er_feePolicyVersionId r = None \<Longrightarrow> recordObligationForEscrowSettlement senv i r out bps col = ret ()"
  by (simp add: recordObligationForEscrowSettlement_def)

lemma settlement_base [simp]: "settlement (d\<lparr>rv := v\<lparr>base := b\<rparr>\<rparr>) = b"
  by (simp add: settlement_def)

lemma emitted_frame [simp]: "already_emitted i st (b\<lparr>escrows := es\<rparr>) = already_emitted i st b"
  by (simp add: already_emitted_def escrow_rows_def)

lemma live_idle:
  assumes "\<forall>d \<in> set (dispute_rows (sd s)). d_escrowId d \<noteq> i"
  shows "wpH (recordLiveCorrespondenceIfApplicable env i tid ty raw) Q E s = Q () s"
proof -
  have "filter (\<lambda>d. d_escrowId d = i \<and> d_status d = RESOLVED) (dispute_rows (sd s)) = []" using assms by (auto simp: filter_empty_conv)
  then show ?thesis
    by (simp add: recordLiveCorrespondenceIfApplicable_def recordLiveCorrespondence_def latest_resolved_def wp_eqs split: option.split)
qed

lemma wp_record_cooperative:
  assumes "cooperative env i r p s" and "escrows (settlement (sd s1)) i = Some (r\<lparr>er_status := target_status (pt_kind p)\<rparr>)"
    and "settlement (sd s1) = set_status i r (target_status (pt_kind p)) (settlement (sd s))" and "pending_txs (sd s1) = pending_txs (sd s)"
    and "dispute_rows (sd s1) = dispute_rows (sd s)"
  shows "wpH (recordSettlement env i r p txId raw)
     (\<lambda>res s'. (\<exists>u. res = Complete u) \<and> finalize_calls s' = finalize_calls s1 \<and> pending_of i s' = None
        \<and> (\<exists>e. escrows (settlement (sd s')) i = Some e \<and> er_status e = target_status (pt_kind p) \<and> er_txReleaseId e = Some txId)
        \<and> settle_bus (settlement (sd s')) = settle_bus (settlement (sd s)) @ [(settled_event (pt_kind p), er_tradeId r)])
     (\<lambda>_ _. False) s1"
  using assms only_pending [of i "pending_txs (sd s)" p]
  by (simp add: recordSettlement_def updateSignatureCollectionResult_def deletePending_def Let_def actual_collection_def cooperative_def wp_eqs live_idle
      no_policy dbWrite_no_faults emit_no_faults set_status_def set_escrow_def publish_event_def log_event_def pending_of_def)


section \<open>The repair jobs\<close>

text \<open>The declared fee is one more condition of the guard.\<close>

lemma validate_declared:
  assumes "validateTranslatedOutputsAgainstOutcome cfg dec x outcome None = Inr (True, ms)"
    and "dec x = Some psbt" and "dp_inputValue psbt = Some v" and "v - sum_list (map snd (dp_outputs psbt)) \<noteq> fee"
  shows "\<exists>ms'. validateTranslatedOutputsAgainstOutcome cfg dec x outcome (Some fee) = Inr (False, ms')"
  using assms by (auto simp: validateTranslatedOutputsAgainstOutcome_def Let_def bindR_def split: if_splits sum.splits prod.splits)

text \<open>
  The job for stale transactions repeats a weaker check. At dispatch a transaction whose declared miner fee
  is not the fee it pays is refused and deleted; if that deletion is interrupted, the job that is to repeat the check does
  not pass the declared fee on, so it finds nothing wrong and leaves the refused transaction open for signatures.
\<close>

theorem stale_recheck_ignores_declared_fee:
  assumes "validateTranslatedOutputsAgainstOutcome (de_cost (sn_dispute env)) (de_decodePsbt (sn_dispute env)) (pt_unsignedPsbtBase64 p) outcome None
        = Inr (True, ms)"
    and "de_decodePsbt (sn_dispute env) (pt_unsignedPsbtBase64 p) = Some psbt" and "dp_inputValue psbt = Some v"
    and "pt_minerFeeSats p = Some fee" and "v - sum_list (map snd (dp_outputs psbt)) \<noteq> fee"
    and "MIN_AGE_MS \<le> clock (settlement (sd s)) - pt_createdAt p" and "latest_resolved (pt_escrowId p) (dispute_rows (sd s)) = Some d"
    and "fst (loadDisputeRulingRecord (pt_escrowId p) (d_appealRound d) (sd s)) = Inr (Some row)" and "rr_outcomeContent row \<noteq> None"
    and "fromDisputeRulingRow row = Inr rec" and "tr_outcome rec = Some outcome"
  shows "(\<exists>e. assertTranslationMatchesOutcome (de_cost (sn_dispute env)) (de_decodePsbt (sn_dispute env)) (pt_unsignedPsbtBase64 p) outcome
        (pt_minerFeeSats p) = Inl e)
     \<and> reconcilePending env (p, 0) s = (Inr LEFT_GUARD_PASSED, s)"
proof
  show "\<exists>e. assertTranslationMatchesOutcome (de_cost (sn_dispute env)) (de_decodePsbt (sn_dispute env)) (pt_unsignedPsbtBase64 p) outcome
        (pt_minerFeeSats p) = Inl e"
    using validate_declared [OF assms(1-3,5)] assms(4) by (auto simp: assertTranslationMatchesOutcome_def bindR_def guardR_def)
  have load: "loadDisputeRulingRecord (pt_escrowId p) (d_appealRound d) (sd s) = (Inr (Some row), sd s)"
    using assms(8) by (auto simp: loadDisputeRulingRecord_def readH_def)
  obtain c where "rr_outcomeContent row = Some c" using assms(9) by auto
  moreover have "\<not> clock (settlement (sd s)) - pt_createdAt p < MIN_AGE_MS" using assms(6) by simp
  ultimately show "reconcilePending env (p, 0) s = (Inr LEFT_GUARD_PASSED, s)"
    using assms(1,7,10,11) load
    by (simp add: reconcilePending_def recheckPending_def seqH_def catchH_def readH_def ret_def liftH_def onDisputes_def)
qed

definition kind_for :: "ArbitrationRuling \<Rightarrow> pending_kind" where
  "kind_for ruling = (case ruling of RELEASE \<Rightarrow> KRelease | REFUND \<Rightarrow> KRefund | SPLIT_RULING \<Rightarrow> KSplit)"

definition resumed_with :: "signing_env \<Rightarrow> dispute_row \<Rightarrow> arbitration_outcome \<Rightarrow> signing_state \<Rightarrow> signing_state \<Rightarrow> bool" where
  "resumed_with env d outcome s s' \<longleftrightarrow>
     (\<exists>who p. d_arbiterId d = Some who
        \<and> payout_initiated (d_escrowId d) (kind_for (oc_ruling (out_content outcome))) who (sd s) p (sd s')
        \<and> assertTranslationMatchesOutcome (de_cost (sn_dispute env)) (de_decodePsbt (sn_dispute env)) (pt_unsignedPsbtBase64 p) outcome
            (pt_minerFeeSats p) = Inr ())"

lemma wp_initiateRuling:
  assumes "synced (sd s)"
  shows "wpH (initiateRuling env i outcome trade who)
     (\<lambda>r s'. case r of None \<Rightarrow> True | Some p \<Rightarrow> payout_initiated i (kind_for (oc_ruling (out_content outcome))) who (sd s) p (sd s'))
     (\<lambda>_ _. True) s"
  by (auto simp: initiateRuling_def kind_for_def wp_eqs Let_def intro!: wpH_mono [OF wp_initiates(1) [OF assms]] wpH_mono [OF wp_initiates(2) [OF assms]]
      wpH_mono [OF wp_initiates(3) [OF assms]] split: ArbitrationRuling.split option.split)

lemma wp_guardResumed:
  "wpH (guardResumed env i outcome p)
     (\<lambda>res s'. (\<forall>x. res = Resumed x \<longrightarrow> x = oc_ruling (out_content outcome) \<and> s' = s
          \<and> assertTranslationMatchesOutcome (de_cost (sn_dispute env)) (de_decodePsbt (sn_dispute env)) (pt_unsignedPsbtBase64 p) outcome
              (pt_minerFeeSats p) = Inr ())
        \<and> (res = GuardFailed \<longrightarrow> pending_of i s' = None)) (\<lambda>_ _. True) s"
  by (auto simp: guardResumed_def wp_eqs pending_of_def find_None_iff split: sum.split list.split bool.split)

definition resume_result :: "signing_env \<Rightarrow> dispute_row \<Rightarrow> arbitration_outcome \<Rightarrow> signing_state \<Rightarrow> recovery_outcome \<Rightarrow> signing_state \<Rightarrow> bool" where
  "resume_result env d outcome s res s' \<longleftrightarrow>
     (\<forall>x. res = Resumed x \<longrightarrow> x = oc_ruling (out_content outcome) \<and> resumed_with env d outcome s s')
     \<and> (res = GuardFailed \<longrightarrow> pending_of (d_escrowId d) s' = None)"

lemma wp_resumeDispatch:
  assumes "synced (sd s)"
  shows "wpH (resumeDispatch env d r outcome) (resume_result env d outcome s) (\<lambda>_ _. True) s"
proof -
  have guard: "wpH (guardResumed env (d_escrowId d) outcome p) (resume_result env d outcome s) (\<lambda>_ _. True) s1"
    if "d_arbiterId d = Some who" "payout_initiated (d_escrowId d) (kind_for (oc_ruling (out_content outcome))) who (sd s) p (sd s1)" for who p s1
    by (rule wpH_mono [OF wp_guardResumed]) (use that in \<open>auto simp: resume_result_def resumed_with_def\<close>)
  have other: "resume_result env d outcome s res t" if "\<forall>x. res \<noteq> Resumed x" "res \<noteq> GuardFailed" for res t
    using that by (simp add: resume_result_def)
  have run: "wpH (initiateRuling env (d_escrowId d) outcome trade who)
      (\<lambda>p. wpH (case p of None \<Rightarrow> ret (RecoveryFailed (GenericError ''SPLIT outcome has no buyer allocation''))
                | Some q \<Rightarrow> guardResumed env (d_escrowId d) outcome q) (resume_result env d outcome s) (\<lambda>_ _. True))
      (\<lambda>_ _. True) s" if "d_arbiterId d = Some who" for trade who
    by (rule wpH_mono [OF wp_initiateRuling [OF assms]]) (auto simp: wp_ret other guard [OF that] split: option.splits)
  show ?thesis
    by (auto simp: resumeDispatch_def findTrade_def Let_def wp_eqs other split: option.split if_splits intro!: wpH_mono [OF run])
qed

lemma outcome_of_row:
  "fromDisputeRulingRow row = Inr rec \<Longrightarrow> tr_outcome rec = Some outcome \<Longrightarrow> rr_outcomeContent row = Some (out_content outcome)"
  by (auto simp: fromDisputeRulingRow_def bindR_eq_Inr)

definition recorded_outcome :: "string \<Rightarrow> nat \<Rightarrow> arbitration_outcome \<Rightarrow> signing_state \<Rightarrow> bool" where
  "recorded_outcome i n outcome s \<longleftrightarrow>
     (\<exists>row \<in> set (ruling_records (sd s)). rr_interactionId row = i \<and> rr_appealRound row = n \<and> rr_outcomeContent row = Some (out_content outcome))"

lemma wp_recoverDispatch:
  assumes "synced (sd s)"
  shows "wpH (recoverDispatch env (d, r))
     (\<lambda>res s'. (\<forall>x. res = Resumed x \<longrightarrow> pending_of (d_escrowId d) s = None \<and> (\<exists>outcome. recorded_outcome (d_escrowId d) (d_appealRound d) outcome s
          \<and> x = oc_ruling (out_content outcome) \<and> resumed_with env d outcome s s'))
        \<and> (res = GuardFailed \<longrightarrow> pending_of (d_escrowId d) s' = None)) (\<lambda>_ _. False) s"
proof -
  have found: "recorded_outcome (d_escrowId d) (d_appealRound d) outcome s"
    if "find (\<lambda>r. rr_interactionId r = d_escrowId d \<and> rr_transitionType r = ESCROW_DISPUTE_RULING_TRANSITION_TYPE \<and> rr_appealRound r = d_appealRound d)
          (ruling_records (sd s)) = Some row" "fromDisputeRulingRow row = Inr rec" "tr_outcome rec = Some outcome" for row rec outcome
    using find_SomeD [OF that(1)] outcome_of_row [OF that(2,3)] by (auto simp: recorded_outcome_def)
  have resume: "wpH (resumeDispatch env d r outcome)
     (\<lambda>res s'. (\<forall>x. res = Resumed x \<longrightarrow> pending_of (d_escrowId d) s = None \<and> (\<exists>outcome. recorded_outcome (d_escrowId d) (d_appealRound d) outcome s
          \<and> x = oc_ruling (out_content outcome) \<and> resumed_with env d outcome s s'))
        \<and> (res = GuardFailed \<longrightarrow> pending_of (d_escrowId d) s' = None)) (\<lambda>_ _. True) s"
    if "recorded_outcome (d_escrowId d) (d_appealRound d) outcome s" "pending_of (d_escrowId d) s = None" for outcome
    by (rule wpH_mono [OF wp_resumeDispatch [OF assms]]) (use that in \<open>auto simp: resume_result_def\<close>)
  have eligible: "wpH (evaluateDisputeDispatchEligibility (d_escrowId d) (d_appealRound d)) (\<lambda>_ t. t = sd s) (\<lambda>_ t. t = sd s) (sd s)"
    by (simp add: evaluateDisputeDispatchEligibility_def loadDisputeRulingRecord_def checkDisputeRulingAlreadyDispatched_def wp_eqs
        split: option.split sum.split DispatchGateVerdict.split)
  show ?thesis
    by (auto simp: recoverDispatch_def loadDisputeRulingRecord_def Let_def wp_eqs split: option.split sum.split
        intro!: wpH_mono [OF eligible] wpH_mono [OF resume] found)
qed

text \<open>
  A resumed dispatch pays the recorded ruling. When the recovery job reports a dispute as resumed, the escrow had no pending
  transaction, the reported ruling is the one of the durable record of that appeal round, one pending transaction has been
  stored for it under the identity of the arbiter, with everything the ordinary start of a payout checks, and it has passed the
  translation guard with its declared fee; when the guard refuses it, no pending transaction of the escrow is left.
\<close>

theorem resumed_dispatch_pays_the_ruling:
  assumes "synced (sd s)" and "recoverDispatch env (d, r) s = (Inr res, s')"
  shows "(\<forall>ruling. res = Resumed ruling \<longrightarrow> pending_of (d_escrowId d) s = None
          \<and> (\<exists>outcome. recorded_outcome (d_escrowId d) (d_appealRound d) outcome s \<and> ruling = oc_ruling (out_content outcome)
               \<and> resumed_with env d outcome s s'))
     \<and> (res = GuardFailed \<longrightarrow> pending_of (d_escrowId d) s' = None)"
  using wpH_I [OF wp_recoverDispatch [OF assms(1)] assms(2)] by blast

section \<open>A worked example\<close>

definition demo_signer :: signing_env where
  "demo_signer = \<lparr>sn_dispute = demo_builder\<lparr>de_decodePsbt := (\<lambda>_. Some \<lparr>dp_inputValue = Some 100, dp_outputs = [(Some ''B'', 99)]\<rparr>)\<rparr>,
     sn_finalize = (\<lambda>_ _ _ _ _ _. Inr (''tx'', None)), sn_finalizesSplit = (\<lambda>_. True), sn_decodeTx = (\<lambda>_. None),
     sn_psbtScripts = (\<lambda>_. Inr []), sn_outputScript = Inr, sn_showNumber = (\<lambda>_. ''1'')\<rparr>"

definition demo_signing :: "dispute_state \<Rightarrow> signature_row list \<Rightarrow> signing_state" where
  "demo_signing d sigs = \<lparr>sd = d, tx_signatures = sigs, capability_auths = [], correspondences = [], finalize_calls = []\<rparr>"

text \<open>A committed ruling whose dispatch was interrupted.\<close>

definition demo_interrupted :: dispute_state where
  "demo_interrupted = snd (commitAuthoritativeDisputeRuling (sn_dispute demo_signer) (demo_dispute OPENED) demo_payload
     (''K'' @ join_with (CHR ''|'') (decision_fields demo_payload)) ''K'' ''100'' A_BTC ''bob'' ''alice''
     (demo_disputed ((demo_escrow DISPUTED)\<lparr>er_type := MULTISIG, er_asset := A_BTC, er_lockedAmount := 1 / 1000000\<rparr>) (demo_dispute OPENED)))"

lemma demo_recovers:
  "map fst (recovery_candidates (demo_signing demo_interrupted [])) \<noteq> []"
  "fst (recoverDispatch demo_signer (hd (recovery_candidates (demo_signing demo_interrupted []))) (demo_signing demo_interrupted [])) = Inr (Resumed RELEASE)"
  "disputes (settlement demo_interrupted) = map dispute_assignment.truncate (dispute_rows demo_interrupted)"
  by (code_simp, code_simp, code_simp)

theorem resumed_dispatch_pays_the_ruling_witness:
  "\<exists>d r s' outcome. recoverDispatch demo_signer (d, r) (demo_signing demo_interrupted []) = (Inr (Resumed RELEASE), s')
     \<and> resumed_with demo_signer d outcome (demo_signing demo_interrupted []) s'"
proof -
  let ?s = "demo_signing demo_interrupted []"
  obtain d r where c: "hd (recovery_candidates ?s) = (d, r)" by fastforce
  obtain s' where run: "recoverDispatch demo_signer (d, r) ?s = (Inr (Resumed RELEASE), s')"
    using demo_recovers(2) unfolding c by (cases "recoverDispatch demo_signer (d, r) ?s") auto
  have "synced (sd ?s)" using demo_recovers(3) by (simp add: synced_def demo_signing_def)
  from resumed_dispatch_pays_the_ruling [OF this run] run show ?thesis by auto
qed

definition demo_coop :: dispute_state where
  "demo_coop = (demo_disputed ((demo_escrow PAYMENT_PENDING)\<lparr>er_type := MULTISIG, er_feePolicyVersionId := None\<rparr>) (demo_dispute OPENED))
     \<lparr>dispute_rows := [], pending_txs := [demo_pending\<lparr>pt_disputeId := None\<rparr>]\<rparr>"


definition demo_stale :: pending_tx_row where
  "demo_stale = demo_pending\<lparr>pt_minerFeeSats := Some 5, pt_createdAt := - 400000\<rparr>"

lemma demo_stale_facts:
  "validateTranslatedOutputsAgainstOutcome (de_cost (sn_dispute demo_signer)) (de_decodePsbt (sn_dispute demo_signer)) (pt_unsignedPsbtBase64 demo_stale)
     \<lparr>out_content = the (rr_outcomeContent (hd (ruling_records demo_interrupted))),
      destinationBinding = Some (DestinationBinding (rr_outcomeDestinationBinding (hd (ruling_records demo_interrupted))))\<rparr> None = Inr (True, [])"
  "latest_resolved ''e'' (dispute_rows demo_interrupted) \<noteq> None"
  "map_option d_appealRound (latest_resolved ''e'' (dispute_rows demo_interrupted)) = Some 0"
  "fst (loadDisputeRulingRecord ''e'' 0 demo_interrupted) = Inr (Some (hd (ruling_records demo_interrupted)))"
  "rr_outcomeContent (hd (ruling_records demo_interrupted)) \<noteq> None"
  "map_sum id tr_outcome (fromDisputeRulingRow (hd (ruling_records demo_interrupted)))
     = Inr (Some \<lparr>out_content = the (rr_outcomeContent (hd (ruling_records demo_interrupted))),
      destinationBinding = Some (DestinationBinding (rr_outcomeDestinationBinding (hd (ruling_records demo_interrupted))))\<rparr>)"
  "clock (settlement demo_interrupted) = 10"
  by (code_simp, code_simp, code_simp, code_simp, code_simp, code_simp, code_simp)

theorem stale_recheck_ignores_declared_fee_witness:
  "\<exists>outcome e. assertTranslationMatchesOutcome (de_cost (sn_dispute demo_signer)) (de_decodePsbt (sn_dispute demo_signer))
        (pt_unsignedPsbtBase64 demo_stale) outcome (pt_minerFeeSats demo_stale) = Inl e
     \<and> reconcilePending demo_signer (demo_stale, 0) (demo_signing demo_interrupted []) = (Inr LEFT_GUARD_PASSED, demo_signing demo_interrupted [])"
proof -
  let ?row = "hd (ruling_records demo_interrupted)"
  let ?out = "\<lparr>out_content = the (rr_outcomeContent ?row), destinationBinding = Some (DestinationBinding (rr_outcomeDestinationBinding ?row))\<rparr>"
  let ?s = "demo_signing demo_interrupted []"
  obtain rec where rec: "fromDisputeRulingRow ?row = Inr rec" "tr_outcome rec = Some ?out"
    using demo_stale_facts(6) by (cases "fromDisputeRulingRow ?row") auto
  obtain d where d: "latest_resolved ''e'' (dispute_rows demo_interrupted) = Some d" "d_appealRound d = 0"
    using demo_stale_facts(3) by (cases "latest_resolved ''e'' (dispute_rows demo_interrupted)") auto
  have "de_decodePsbt (sn_dispute demo_signer) (pt_unsignedPsbtBase64 demo_stale) = Some \<lparr>dp_inputValue = Some 100, dp_outputs = [(Some ''B'', 99)]\<rparr>"
    by (simp add: demo_signer_def)
  from stale_recheck_ignores_declared_fee [OF demo_stale_facts(1) this, of 100 5 ?s d ?row rec] d rec demo_stale_facts(4,5,7)
  show ?thesis by (auto simp: demo_stale_def demo_pending_def demo_signing_def MIN_AGE_MS_def)
qed

end
