(* ===== verification/Bounded_Rpc.thy ===== *)
theory Bounded_Rpc
  imports Sails_Prelude
begin

text \<open>
  \<^verbatim>\<open>bounded-rpc.ts\<close>: requests to a remote service with a time limit and a bounded number of
  attempts. What the service answers at each attempt is a parameter; the time limit is the service not
  answering, that is an aborted request. The functions return what the caller gets together with the
  delays between the attempts, in milliseconds.
\<close>

section \<open>Requests with retries\<close>

datatype 'a fetch_answer = Rejected bool string | Answer nat 'a

record BoundedRetryPolicy =
  rp_attempts :: nat
  rp_backoffMs :: nat

definition isRetryableStatus :: "nat \<Rightarrow> bool" where
  "isRetryableStatus status \<longleftrightarrow> status = 429 \<or> 500 \<le> status"

definition is_ok :: "nat \<Rightarrow> bool" where
  "is_ok status \<longleftrightarrow> 200 \<le> status \<and> status \<le> 299"

definition fetch_error :: "bool \<Rightarrow> string \<Rightarrow> sails_error" where
  "fetch_error aborted message = (if aborted then GenericError ''BoundedRpcTimeoutError'' else GenericError message)"

text \<open>
  The loop from a given attempt on. The last parameter is \<^verbatim>\<open>lastError\<close>, which is undefined before the
  first attempt.
\<close>

function boundedFetch_loop ::
    "(nat \<Rightarrow> 'a fetch_answer) \<Rightarrow> nat \<Rightarrow> nat \<Rightarrow> nat \<Rightarrow> sails_error \<Rightarrow> (nat \<times> 'a) result \<times> nat list" where
  "boundedFetch_loop fetch attempts backoffMs attempt lastError =
     (if attempts < attempt then (Inl lastError, [])
      else case fetch attempt of
        Answer status body \<Rightarrow>
          if \<not> is_ok status \<and> isRetryableStatus status \<and> attempt < attempts
          then (case boundedFetch_loop fetch attempts backoffMs (Suc attempt) (GenericError ''HTTP'') of
                  (r, waits) \<Rightarrow> (r, backoffMs * attempt # waits))
          else (Inr (status, body), [])
      | Rejected aborted message \<Rightarrow>
          let err = fetch_error aborted message in
          if attempt < attempts
          then (case boundedFetch_loop fetch attempts backoffMs (Suc attempt) err of
                  (r, waits) \<Rightarrow> (r, backoffMs * attempt # waits))
          else (Inl err, []))"
  by pat_completeness auto

termination
  by (relation "measure (\<lambda>(_, attempts, _, attempt, _). Suc attempts - attempt)") auto

declare boundedFetch_loop.simps [simp del]

definition boundedFetch ::
    "(nat \<Rightarrow> 'a fetch_answer) \<Rightarrow> BoundedRetryPolicy option \<Rightarrow> (nat \<times> 'a) result \<times> nat list" where
  "boundedFetch fetch retry =
     (let attempts = (case retry of None \<Rightarrow> 1 | Some p \<Rightarrow> rp_attempts p);
          backoffMs = (case retry of None \<Rightarrow> 0 | Some p \<Rightarrow> rp_backoffMs p)
      in boundedFetch_loop fetch attempts backoffMs 1 (GenericError ''undefined''))"

function withBoundedRetry_loop ::
    "(nat \<Rightarrow> 'a result) \<Rightarrow> nat \<Rightarrow> nat \<Rightarrow> nat \<Rightarrow> sails_error \<Rightarrow> 'a result \<times> nat list" where
  "withBoundedRetry_loop fn attempts backoffMs attempt lastError =
     (if attempts < attempt then (Inl lastError, [])
      else case fn attempt of
        Inr a \<Rightarrow> (Inr a, [])
      | Inl err \<Rightarrow>
          if attempt < attempts
          then (case withBoundedRetry_loop fn attempts backoffMs (Suc attempt) err of
                  (r, waits) \<Rightarrow> (r, backoffMs * attempt # waits))
          else (Inl err, []))"
  by pat_completeness auto

termination
  by (relation "measure (\<lambda>(_, attempts, _, attempt, _). Suc attempts - attempt)") auto

declare withBoundedRetry_loop.simps [simp del]

definition withBoundedRetry :: "(nat \<Rightarrow> 'a result) \<Rightarrow> BoundedRetryPolicy \<Rightarrow> 'a result \<times> nat list" where
  "withBoundedRetry fn options =
     withBoundedRetry_loop fn (rp_attempts options) (rp_backoffMs options) 1 (GenericError ''undefined'')"

section \<open>The first conclusive answer\<close>

text \<open>
  Both loops have the same shape: an attempt ends the loop unless it is to be tried again and attempts
  are left. The locale states that shape once; the number of attempts, the delays and the result follow.
\<close>

locale bounded_loop =
  fixes loop :: "nat \<Rightarrow> nat \<Rightarrow> nat \<Rightarrow> sails_error \<Rightarrow> 'r \<times> nat list"
    and again :: "nat \<Rightarrow> bool"
    and err :: "nat \<Rightarrow> sails_error"
    and outcome :: "nat \<Rightarrow> 'r"
  assumes loop_last: "attempt \<le> attempts \<Longrightarrow> \<not> (again attempt \<and> attempt < attempts) \<Longrightarrow>
      loop attempts backoffMs attempt e = (outcome attempt, [])"
    and loop_again: "again attempt \<Longrightarrow> attempt < attempts \<Longrightarrow>
      loop attempts backoffMs attempt e =
        (let (r, waits) = loop attempts backoffMs (Suc attempt) (err attempt) in (r, backoffMs * attempt # waits))"
begin

lemma loop_reaches:
  assumes "\<And>j. attempt \<le> j \<Longrightarrow> j < k \<Longrightarrow> again j" and "attempt \<le> k" and "k \<le> attempts" and "k = attempts \<or> \<not> again k"
  shows "loop attempts backoffMs attempt e = (outcome k, map (\<lambda>j. backoffMs * j) [attempt..<k])"
  using assms(2,1,3,4)
proof (induction attempt arbitrary: e rule: inc_induct)
  case base
  then show ?case by (subst loop_last) auto
next
  case (step n)
  have *: "loop attempts backoffMs (Suc n) (err n) = (outcome k, map (\<lambda>j. backoffMs * j) [Suc n..<k])"
    using step.IH step.prems by simp
  have "again n" "n < attempts" "[n..<k] = n # [Suc n..<k]"
    using step.prems step.hyps by (simp_all add: upt_conv_Cons)
  then show ?case by (simp add: loop_again *)
qed

end

definition conclusive_outcome :: "'a fetch_answer \<Rightarrow> (nat \<times> 'a) result" where
  "conclusive_outcome a = (case a of Answer status body \<Rightarrow> Inr (status, body) | Rejected aborted message \<Rightarrow> Inl (fetch_error aborted message))"

definition retryable_answer :: "'a fetch_answer \<Rightarrow> bool" where
  "retryable_answer a = (case a of Answer status _ \<Rightarrow> \<not> is_ok status \<and> isRetryableStatus status | Rejected _ _ \<Rightarrow> True)"

interpretation bf: bounded_loop "boundedFetch_loop fetch" "\<lambda>n. retryable_answer (fetch n)"
    "\<lambda>n. case fetch n of Answer _ _ \<Rightarrow> GenericError ''HTTP'' | Rejected aborted message \<Rightarrow> fetch_error aborted message"
    "\<lambda>n. conclusive_outcome (fetch n)" for fetch
  by unfold_locales
    (subst boundedFetch_loop.simps, auto simp: retryable_answer_def conclusive_outcome_def Let_def split: fetch_answer.splits prod.split)+

interpretation br: bounded_loop "withBoundedRetry_loop fn" "\<lambda>n. isl (fn n)" "\<lambda>n. projl (fn n)" fn for fn
  by unfold_locales (subst withBoundedRetry_loop.simps, auto simp: isl_def split: sum.splits prod.split)+

lemma first_end: "(1::nat) \<le> n \<Longrightarrow> \<exists>k. 1 \<le> k \<and> k \<le> n \<and> (\<forall>j. 1 \<le> j \<longrightarrow> j < k \<longrightarrow> again j) \<and> (k = n \<or> \<not> again k)"
proof (induction n rule: nat_induct_at_least)
  case base
  then show ?case by auto
next
  case (Suc n)
  then obtain k where k: "1 \<le> k" "k \<le> n" "\<forall>j. 1 \<le> j \<longrightarrow> j < k \<longrightarrow> again j" "k = n \<or> \<not> again k" by blast
  show ?case
  proof (cases "again k")
    case True
    with k have "k = n" by simp
    with True k Suc.hyps show ?thesis by (intro exI [of _ "Suc n"]) (auto simp: less_Suc_eq)
  next
    case False
    with k show ?thesis by (intro exI [of _ k]) auto
  qed
qed

lemma sum_delays: "1 \<le> k \<Longrightarrow> 2 * sum_list (map (\<lambda>j. b * j) [1..<k]) = b * (k * (k - 1))" for b k :: nat
proof (induction k rule: nat_induct_at_least)
  case (Suc n)
  then show ?case by (cases n) (auto simp: algebra_simps)
qed simp

text \<open>
  C37: a bounded request ends after at most the allowed number of attempts. It returns what the service answered at
  some attempt \<open>k\<close>: every attempt before was rejected or answered with a status that asks for a retry, and \<open>k\<close> is either
  conclusive or the last one. The delays grow linearly with the attempt, and their sum is at most the backoff
  times the number of pairs of attempts. The same holds of the generic retry.
\<close>

theorem bounded_request_ends:
  assumes "1 \<le> rp_attempts p"
  shows "(\<exists>k. 1 \<le> k \<and> k \<le> rp_attempts p
           \<and> (\<forall>j. 1 \<le> j \<longrightarrow> j < k \<longrightarrow> retryable_answer (fetch j))
           \<and> (k = rp_attempts p \<or> \<not> retryable_answer (fetch k))
           \<and> boundedFetch fetch (Some p) = (conclusive_outcome (fetch k), map (\<lambda>j. rp_backoffMs p * j) [1..<k]))
     \<and> 2 * sum_list (snd (boundedFetch fetch (Some p))) \<le> rp_backoffMs p * (rp_attempts p * (rp_attempts p - 1))
     \<and> (\<exists>k. 1 \<le> k \<and> k \<le> rp_attempts p \<and> (\<forall>j. 1 \<le> j \<longrightarrow> j < k \<longrightarrow> isl (fn j)) \<and> (k = rp_attempts p \<or> \<not> isl (fn k))
           \<and> withBoundedRetry fn p = (fn k, map (\<lambda>j. rp_backoffMs p * j) [1..<k]))"
proof -
  obtain k where k: "1 \<le> k" "k \<le> rp_attempts p" "\<forall>j. 1 \<le> j \<longrightarrow> j < k \<longrightarrow> retryable_answer (fetch j)"
      "k = rp_attempts p \<or> \<not> retryable_answer (fetch k)"
    using first_end [OF assms, of "\<lambda>j. retryable_answer (fetch j)"] by blast
  have eq: "boundedFetch fetch (Some p) = (conclusive_outcome (fetch k), map (\<lambda>j. rp_backoffMs p * j) [1..<k])"
    using k by (simp add: boundedFetch_def bf.loop_reaches [where k = k])
  have "k * (k - 1) \<le> rp_attempts p * (rp_attempts p - 1)"
    using k by (intro mult_le_mono) auto
  then have "2 * sum_list (snd (boundedFetch fetch (Some p))) \<le> rp_backoffMs p * (rp_attempts p * (rp_attempts p - 1))"
    using sum_delays [OF k(1), of "rp_backoffMs p"] by (simp add: eq)
  moreover obtain l where l: "1 \<le> l" "l \<le> rp_attempts p" "\<forall>j. 1 \<le> j \<longrightarrow> j < l \<longrightarrow> isl (fn j)" "l = rp_attempts p \<or> \<not> isl (fn l)"
    using first_end [OF assms, of "\<lambda>j. isl (fn j)"] by blast
  moreover from l have "withBoundedRetry fn p = (fn l, map (\<lambda>j. rp_backoffMs p * j) [1..<l])"
    by (simp add: withBoundedRetry_def br.loop_reaches [where k = l])
  ultimately show ?thesis using k eq by blast
qed

definition demo_service :: "nat \<Rightarrow> nat fetch_answer" where
  "demo_service attempt = (if attempt = 1 then Answer 503 0 else if attempt = 2 then Rejected True ''abort'' else Answer 200 7)"

text \<open>The retry policy of the explorer's reads against a service that fails twice.\<close>

theorem bounded_request_ends_witness:
  "(1::nat) \<le> 3 \<and> boundedFetch demo_service (Some \<lparr>rp_attempts = 3, rp_backoffMs = 250\<rparr>) = (Inr (200, 7), [250, 500])
   \<and> 2 * sum_list (snd (boundedFetch demo_service (Some \<lparr>rp_attempts = 3, rp_backoffMs = 250\<rparr>))) \<le> 250 * (3 * (3 - 1))"
proof -
  have "boundedFetch demo_service (Some \<lparr>rp_attempts = 3, rp_backoffMs = 250\<rparr>) = (Inr (200, 7), [250, 500])"
    by (simp add: boundedFetch_def boundedFetch_loop.simps demo_service_def is_ok_def isRetryableStatus_def fetch_error_def Let_def)
  then show ?thesis
    using bounded_request_ends [of "\<lparr>rp_attempts = 3, rp_backoffMs = 250\<rparr>" demo_service] by auto
qed

end
