(* ===== verification/Multisig_Provider.thy ===== *)
theory Multisig_Provider
  imports Bounded_Rpc Signature_Collection "HOL-Library.List_Lexorder"
begin

text \<open>
  The provider of two-of-three Bitcoin escrows, \<^verbatim>\<open>multisig.provider.ts\<close>: it watches the funding of an
  escrow through a block explorer and builds the transactions that spend it. Key derivation, script
  and address encoding and the transaction format belong to the wallet libraries and are parameters, as are the
  answers of the explorer at each attempt. Amounts are whole satoshi; JavaScript numbers are read as exact
  rationals, which they are for the amounts that exist.
\<close>

section \<open>The explorer\<close>

record explorer_utxo =
  ux_txid :: string
  ux_vout :: nat
  ux_value :: int
  ux_confirmed :: bool

record explorer =
  ex_utxos :: "string \<Rightarrow> nat \<Rightarrow> explorer_utxo list fetch_answer"
  ex_status :: "string \<Rightarrow> nat \<Rightarrow> (bool \<times> int option) fetch_answer"
  ex_outputs :: "string \<Rightarrow> nat \<Rightarrow> (string \<times> int) list fetch_answer"
  ex_outspend :: "string \<Rightarrow> nat \<Rightarrow> nat \<Rightarrow> (bool \<times> string option) fetch_answer"
  ex_tip :: "nat \<Rightarrow> int option fetch_answer"
  ex_fees :: "nat \<Rightarrow> (rat option \<times> rat option) fetch_answer"
  ex_broadcast :: "string \<Rightarrow> nat \<Rightarrow> string fetch_answer"

definition EXPLORER_READ_RETRY :: BoundedRetryPolicy where
  "EXPLORER_READ_RETRY = \<lparr>rp_attempts = 3, rp_backoffMs = 250\<rparr>"

definition explorer_read :: "(nat \<Rightarrow> 'a fetch_answer) \<Rightarrow> (nat \<times> 'a) result" where
  "explorer_read f = fst (boundedFetch f (Some EXPLORER_READ_RETRY))"

definition require_ok :: "nat \<times> 'a \<Rightarrow> 'a result" where
  "require_ok res = (if is_ok (fst res) then Inr (snd res) else Inl (EscrowError ''explorer API returned an error status''))"

definition fetchTransactionExistence :: "explorer \<Rightarrow> string \<Rightarrow> (bool \<times> bool) result" where
  "fetchTransactionExistence ex txid =
     bindR (explorer_read (ex_status ex txid)) (\<lambda>res.
       if fst res = 404 then Inr (False, False)
       else bindR (require_ok res) (\<lambda>body. Inr (True, fst body)))"

definition fetchTransactionConfirmationStatus :: "explorer \<Rightarrow> string \<Rightarrow> (bool \<times> int option) result" where
  "fetchTransactionConfirmationStatus ex txid =
     bindR (explorer_read (ex_status ex txid)) (\<lambda>res.
     bindR (require_ok res) (\<lambda>body. Inr (fst body, if fst body then snd body else None)))"

definition fetchTransactionOutputs :: "explorer \<Rightarrow> string \<Rightarrow> (string \<times> int) list result" where
  "fetchTransactionOutputs ex txid = bindR (explorer_read (ex_outputs ex txid)) require_ok"

definition fetchOutpointSpendStatus :: "explorer \<Rightarrow> string \<Rightarrow> nat \<Rightarrow> (bool \<times> string option) result" where
  "fetchOutpointSpendStatus ex txid vout =
     bindR (explorer_read (ex_outspend ex txid vout)) (\<lambda>res.
     bindR (require_ok res) (\<lambda>body. Inr (fst body, if fst body then snd body else None)))"

definition fetchChainTipHeight :: "explorer \<Rightarrow> int result" where
  "fetchChainTipHeight ex =
     bindR (explorer_read (ex_tip ex)) (\<lambda>res.
     bindR (require_ok res) (\<lambda>height.
       case height of None \<Rightarrow> Inl (EscrowError ''non-numeric chain tip height'') | Some h \<Rightarrow> Inr h))"

definition fetchUtxos :: "explorer \<Rightarrow> string \<Rightarrow> explorer_utxo list result" where
  "fetchUtxos ex address = bindR (explorer_read (ex_utxos ex address)) require_ok"

definition fetchFeeRateSatsPerVByte :: "explorer \<Rightarrow> rat result" where
  "fetchFeeRateSatsPerVByte ex =
     (case explorer_read (ex_fees ex) of
        Inl _ \<Rightarrow> Inl (EscrowError ''failed to reach the fee-estimate endpoint'')
      | Inr res \<Rightarrow>
          bindR (require_ok res) (\<lambda>fees.
            case (case fst fees of None \<Rightarrow> snd fees | Some r \<Rightarrow> Some r) of
              None \<Rightarrow> Inl (EscrowError ''fee-estimate endpoint returned no usable rate'')
            | Some rate \<Rightarrow> if rate \<le> 0 then Inl (EscrowError ''fee-estimate endpoint returned no usable rate'') else Inr rate))"

definition broadcast :: "explorer \<Rightarrow> string \<Rightarrow> string result" where
  "broadcast ex txHex =
     bindR (fst (boundedFetch (ex_broadcast ex txHex) None)) (\<lambda>res.
       if is_ok (fst res) then Inr (snd res) else Inl (EscrowError ''broadcast failed''))"

section \<open>Keys and scripts\<close>

definition hex_digit :: "char \<Rightarrow> nat option" where
  "hex_digit c =
     (let n = (of_char c :: nat) in
      if 48 \<le> n \<and> n \<le> 57 then Some (n - 48)
      else if 97 \<le> n \<and> n \<le> 102 then Some (n - 87)
      else if 65 \<le> n \<and> n \<le> 70 then Some (n - 55) else None)"

text \<open>\<^verbatim>\<open>Buffer.from(hex, 'hex')\<close> stops at the first pair that is not hexadecimal.\<close>

fun hex_bytes :: "string \<Rightarrow> nat list" where
  "hex_bytes (a # b # r) =
     (case (hex_digit a, hex_digit b) of
        (Some x, Some y) \<Rightarrow> (16 * x + y) # hex_bytes r
      | _ \<Rightarrow> [])"
| "hex_bytes _ = []"

text \<open>A transaction under construction: what it spends, its outputs and the keys that have signed it.\<close>

record psbt =
  px_txid :: string
  px_vout :: nat
  px_value :: int
  px_pubkeys :: "nat list list"
  px_outputs :: "(string \<times> int) list"
  px_signedBy :: "string list"

record bitcoin_env =
  bt_settle :: settle_env
  bt_cost :: cost_config
  bt_requiredConfirmations :: int
  bt_seed :: string
  bt_trustedArbitrators :: "string list"
  bt_derive :: "string \<Rightarrow> nat \<Rightarrow> string"
  bt_p2wsh :: "nat list list \<Rightarrow> string result"
  bt_toBase64 :: "psbt \<Rightarrow> string"
  bt_combine :: "string \<Rightarrow> string list \<Rightarrow> (string \<times> string) option"

record multisig_input =
  mi_row :: escrow_row
  mi_pubkeys :: "string option \<times> string option \<times> string option"
  mi_buyerId :: "string option"
  mi_sellerId :: "string option"
  mi_triggeredBy :: "string option"

definition truthy :: "string option \<Rightarrow> bool" where
  "truthy x \<longleftrightarrow> x \<noteq> None \<and> x \<noteq> Some []"

definition bytes_value :: "nat list \<Rightarrow> nat" where
  "bytes_value = foldl (\<lambda>a b. 256 * a + b) 0"

definition keyIndexFor :: "bitcoin_env \<Rightarrow> string \<Rightarrow> string \<Rightarrow> nat" where
  "keyIndexFor env role i =
     bytes_value (take 4 (hex_bytes (s_sha256 (bt_settle env) (role @ CHR '':'' # i)))) mod 2147483647"

definition getMaster :: "bitcoin_env \<Rightarrow> string result" where
  "getMaster env =
     (if bt_seed env = [] then Inl (EscrowError ''requires MULTISIG_SEED configured'')
      else Inr (s_sha256 (bt_settle env) (bt_seed env)))"

definition defaultArbiterId :: "bitcoin_env \<Rightarrow> string result" where
  "defaultArbiterId env =
     (case bt_trustedArbitrators env of
        a # _ \<Rightarrow> if a = [] then Inl (EscrowError ''requires at least one TRUSTED_ARBITRATORS entry'') else Inr a
      | [] \<Rightarrow> Inl (EscrowError ''requires at least one TRUSTED_ARBITRATORS entry''))"

definition resolveArbiterSigningId :: "bitcoin_env \<Rightarrow> multisig_input \<Rightarrow> string result" where
  "resolveArbiterSigningId env inp = (case mi_triggeredBy inp of Some t \<Rightarrow> Inr t | None \<Rightarrow> defaultArbiterId env)"

definition deriveArbiterKey :: "bitcoin_env \<Rightarrow> string \<Rightarrow> string result" where
  "deriveArbiterKey env i = bindR (getMaster env) (\<lambda>master. Inr (bt_derive env master (keyIndexFor env ''arbiter'' i)))"

definition getArbiterPubkeyHex :: "bitcoin_env \<Rightarrow> string \<Rightarrow> string result" where
  "getArbiterPubkeyHex env arbiterId = deriveArbiterKey env arbiterId"

definition parsePubkey :: "string option \<Rightarrow> nat list result" where
  "parsePubkey hex =
     (if \<not> truthy hex then Inl (EscrowError ''requires a submitted pubkey'')
      else let buf = hex_bytes (the hex) in
           if length buf \<noteq> 33 then Inl (EscrowError ''must be a 33-byte compressed secp256k1 key'') else Inr buf)"

definition partiesFor :: "multisig_input \<Rightarrow> (nat list \<times> nat list \<times> nat list) result" where
  "partiesFor inp =
     (case mi_pubkeys inp of (buyerPubkey, sellerPubkey, arbiterPubkey) \<Rightarrow>
      bindR (parsePubkey buyerPubkey) (\<lambda>b.
      bindR (parsePubkey sellerPubkey) (\<lambda>s.
        if \<not> truthy arbiterPubkey then Inl (EscrowError ''has no persisted arbiter public-key commitment'')
        else bindR (parsePubkey arbiterPubkey) (\<lambda>a. Inr (b, s, a)))))"

definition sorted_keys :: "nat list \<times> nat list \<times> nat list \<Rightarrow> nat list list" where
  "sorted_keys parties = (case parties of (b, s, a) \<Rightarrow> sort [b, s, a])"

definition buildScript :: "bitcoin_env \<Rightarrow> nat list \<times> nat list \<times> nat list \<Rightarrow> (nat list list \<times> string) result" where
  "buildScript env parties =
     (let keys = sorted_keys parties in bindR (bt_p2wsh env keys) (\<lambda>address. Inr (keys, address)))"

definition assertArbiterMatchesScript :: "bitcoin_env \<Rightarrow> multisig_input \<Rightarrow> unit result" where
  "assertArbiterMatchesScript env inp =
     (if er_status (mi_row inp) \<noteq> DISPUTED then Inr ()
      else bindR (defaultArbiterId env) (\<lambda>scriptArbiter.
           bindR (getArbiterPubkeyHex env (case mi_triggeredBy inp of Some t \<Rightarrow> t | None \<Rightarrow> scriptArbiter)) (\<lambda>live.
             guardR (Some live = snd (snd (mi_pubkeys inp)))
               (EscrowError ''does not match the arbiter public key committed into the escrow''))))"

definition getDepositAddress :: "bitcoin_env \<Rightarrow> string \<Rightarrow> string \<Rightarrow> (string \<times> string \<times> string) result" where
  "getDepositAddress env buyerPubkeyHex sellerPubkeyHex =
     bindR (defaultArbiterId env) (\<lambda>arbiterId.
     bindR (deriveArbiterKey env arbiterId) (\<lambda>arbiterHex.
     bindR (parsePubkey (Some buyerPubkeyHex)) (\<lambda>b.
     bindR (parsePubkey (Some sellerPubkeyHex)) (\<lambda>s.
     bindR (buildScript env (b, s, hex_bytes arbiterHex)) (\<lambda>(_, address).
       if address = [] then Inl (EscrowError ''Failed to derive a P2WSH address'')
       else Inr (address, arbiterHex, arbiterId))))))"

section \<open>Amounts\<close>

definition expectedSats :: "rat \<Rightarrow> int" where
  "expectedSats lockedAmount = round (lockedAmount * 100000000)"

definition isPolicyAware :: "multisig_input \<Rightarrow> bool" where
  "isPolicyAware inp \<longleftrightarrow> truthy (er_feePolicyVersionId (mi_row inp)) \<and> er_snapshotProtocolFeeRate (mi_row inp) \<noteq> None"

definition decimalBtcToSats :: "bitcoin_env \<Rightarrow> rat \<Rightarrow> int" where
  "decimalBtcToSats env amount = to_fixed_0 (s_round (bt_settle env) (amount * 100000000))"

definition maxFeeSats :: "bitcoin_env \<Rightarrow> multisig_input \<Rightarrow> int" where
  "maxFeeSats env inp =
     (if \<not> isPolicyAware inp then 0
      else if er_snapshotWaivedPreFunding (mi_row inp) = Some True then 0
      else decimalBtcToSats env (computeMaxProtocolFee (s_round (bt_settle env)) (er_lockedAmount (mi_row inp))
             (the (er_snapshotProtocolFeeRate (mi_row inp)))))"

definition requiredFundingSats :: "bitcoin_env \<Rightarrow> multisig_input \<Rightarrow> int" where
  "requiredFundingSats env inp = expectedSats (er_lockedAmount (mi_row inp)) + maxFeeSats env inp"

record fee_decision =
  fd_feeSats :: int
  fd_waived :: bool
  fd_collectionAddress :: "string option"

definition decideFeeCollection :: "bitcoin_env \<Rightarrow> multisig_input \<Rightarrow> rat \<Rightarrow> fee_decision result" where
  "decideFeeCollection env inp basisAmountBtc =
     (if \<not> isPolicyAware inp then Inr \<lparr>fd_feeSats = 0, fd_waived = False, fd_collectionAddress = None\<rparr>
      else let feeSats = decimalBtcToSats env (computeProtocolFee (s_round (bt_settle env)) basisAmountBtc
                           (the (er_snapshotProtocolFeeRate (mi_row inp)))) in
      if feeSats \<le> 0 then Inr \<lparr>fd_feeSats = 0, fd_waived = True, fd_collectionAddress = None\<rparr>
      else if \<not> truthy (er_snapshotFeeCollectionAddress (mi_row inp))
      then Inl (EscrowError ''has a collectible fee but no frozen snapshotFeeCollectionAddress'')
      else let collectionAddress = the (er_snapshotFeeCollectionAddress (mi_row inp)) in
           case s_outputScript (bt_settle env) collectionAddress of
             None \<Rightarrow> Inl (EscrowError ''frozen snapshotFeeCollectionAddress is invalid for the configured network'')
           | Some script \<Rightarrow>
               bindR (dustThresholdSats script) (\<lambda>threshold.
                 if feeSats < threshold then Inr \<lparr>fd_feeSats = feeSats, fd_waived = True, fd_collectionAddress = None\<rparr>
                 else Inr \<lparr>fd_feeSats = feeSats, fd_waived = False, fd_collectionAddress = Some collectionAddress\<rparr>))"

section \<open>Funding\<close>

definition confirmationDepth :: "explorer \<Rightarrow> string \<Rightarrow> (int \<times> int option \<times> int option) result" where
  "confirmationDepth ex txid =
     bindR (fetchTransactionConfirmationStatus ex txid) (\<lambda>status.
       case status of
         (True, Some blockHeight) \<Rightarrow>
           bindR (fetchChainTipHeight ex) (\<lambda>tipHeight. Inr (tipHeight - blockHeight + 1, Some blockHeight, Some tipHeight))
       | _ \<Rightarrow> Inr (0, None, None))"

definition findFundingCandidate :: "bitcoin_env \<Rightarrow> explorer \<Rightarrow> multisig_input \<Rightarrow> (string \<times> explorer_utxo) option result" where
  "findFundingCandidate env ex inp =
     bindR (partiesFor inp) (\<lambda>parties.
     bindR (buildScript env parties) (\<lambda>(_, address).
     bindR (fetchUtxos ex address) (\<lambda>utxos.
       Inr (map_option (Pair address)
         (if isPolicyAware inp
          then find (\<lambda>u. ux_value u = requiredFundingSats env inp \<and> ux_confirmed u) utxos
          else find (\<lambda>u. ux_value u \<ge> expectedSats (er_lockedAmount (mi_row inp)) \<and> ux_confirmed u) utxos)))))"

definition lockFundsM :: "bitcoin_env \<Rightarrow> explorer \<Rightarrow> multisig_input \<Rightarrow> lock_result result" where
  "lockFundsM env ex inp =
     bindR (findFundingCandidate env ex inp) (\<lambda>candidate.
       case candidate of
         None \<Rightarrow> Inl (EscrowError ''No funding UTXO found'')
       | Some (address, funding) \<Rightarrow>
           bindR (confirmationDepth ex (ux_txid funding)) (\<lambda>(depth, blockHeight, tipHeight).
             if depth < bt_requiredConfirmations env then Inl (EscrowError ''Refusing to lock funds on insufficient confirmation depth'')
             else Inr \<lparr>lr_txId = ux_txid funding, lr_address = address, lr_vout = Some (ux_vout funding),
                       lr_fundedAmount = (if isPolicyAware inp then Some (of_int (ux_value funding)) else None),
                       lr_confirmedAtHeight = blockHeight, lr_tipHeight = tipHeight\<rparr>))"

record funding_scan =
  fs_txId :: string
  fs_vout :: nat
  fs_depth :: int
  fs_confirmedAtHeight :: "int option"
  fs_tipHeight :: "int option"

definition rescanFunding :: "bitcoin_env \<Rightarrow> explorer \<Rightarrow> multisig_input \<Rightarrow> funding_scan option result" where
  "rescanFunding env ex inp =
     bindR (findFundingCandidate env ex inp) (\<lambda>candidate.
       case candidate of
         None \<Rightarrow> Inr None
       | Some (_, utxo) \<Rightarrow>
           bindR (confirmationDepth ex (ux_txid utxo)) (\<lambda>(depth, blockHeight, tipHeight).
             Inr (Some \<lparr>fs_txId = ux_txid utxo, fs_vout = ux_vout utxo, fs_depth = depth,
                        fs_confirmedAtHeight = blockHeight, fs_tipHeight = tipHeight\<rparr>)))"

section \<open>Building transactions\<close>

definition estimateFeeSats :: "rat \<Rightarrow> int \<Rightarrow> int" where
  "estimateFeeSats feeRateSatsPerVByte outputCount = \<lceil>feeRateSatsPerVByte * of_int (estimatedVBytesForOutputCount outputCount)\<rceil>"

definition funding_utxo :: "multisig_input \<Rightarrow> explorer_utxo list \<Rightarrow> explorer_utxo result" where
  "funding_utxo inp utxos =
     (case (case er_txLockVout (mi_row inp) of
              Some vout \<Rightarrow> find (\<lambda>u. Some (ux_txid u) = er_txLockId (mi_row inp) \<and> ux_vout u = vout) utxos
            | None \<Rightarrow> find (\<lambda>u. Some (ux_txid u) = er_txLockId (mi_row inp)) utxos) of
        None \<Rightarrow> Inl (EscrowError ''Funding outpoint not found by the explorer'')
      | Some u \<Rightarrow> Inr u)"

text \<open>An output without an address is refused like one with an invalid address.\<close>

fun validated :: "(string \<Rightarrow> nat list option) \<Rightarrow> (string option \<times> int) list \<Rightarrow> (string \<times> int) list result" where
  "validated toOutputScript [] = Inr []"
| "validated toOutputScript ((None, _) # outs) =
     Inl (EscrowError ''destination address is invalid or does not match the configured network'')"
| "validated toOutputScript ((Some address, value) # outs) =
     bindR (validateOutput toOutputScript address value) (\<lambda>_.
     bindR (validated toOutputScript outs) (\<lambda>rest. Inr ((address, value) # rest)))"

definition buildUnsignedSpend ::
    "bitcoin_env \<Rightarrow> explorer \<Rightarrow> multisig_input \<Rightarrow> nat list \<times> nat list \<times> nat list \<Rightarrow> int \<Rightarrow> (int \<Rightarrow> (string option \<times> int) list)
     \<Rightarrow> (psbt \<times> int) result" where
  "buildUnsignedSpend env ex inp parties outputCount computeOutputs =
     bindR (assertArbiterMatchesScript env inp) (\<lambda>_.
     bindR (buildScript env parties) (\<lambda>(keys, address).
     bindR (guardR (truthy (er_txLockId (mi_row inp))) (EscrowError ''has no recorded funding txid'')) (\<lambda>_.
     bindR (fetchUtxos ex address) (\<lambda>utxos.
     bindR (funding_utxo inp utxos) (\<lambda>utxo.
     bindR (fetchFeeRateSatsPerVByte ex) (\<lambda>rate.
       let feeSats = estimateFeeSats rate outputCount; spendableValue = ux_value utxo - feeSats in
       bindR (guardR (feeSats \<le> maxExecutionCostSats (bt_cost env) outputCount (ux_value utxo))
                (EscrowError ''estimated fee exceeds the deterministic ceiling'')) (\<lambda>_.
       bindR (guardR (0 < spendableValue) (EscrowError ''UTXO value too small to cover the estimated fee'')) (\<lambda>_.
       bindR (validated (s_outputScript (bt_settle env)) (computeOutputs spendableValue)) (\<lambda>outputs.
         Inr (\<lparr>px_txid = ux_txid utxo, px_vout = ux_vout utxo, px_value = ux_value utxo, px_pubkeys = keys,
               px_outputs = outputs, px_signedBy = []\<rparr>, feeSats))))))))))"

text \<open>The wallet library refuses to sign an input whose script does not have the key.\<close>

definition signInput :: "string \<Rightarrow> psbt \<Rightarrow> psbt result" where
  "signInput key p =
     (if hex_bytes key \<in> set (px_pubkeys p) then Inr (p\<lparr>px_signedBy := px_signedBy p @ [key]\<rparr>)
      else Inl (GenericError ''Can not sign for this input with the key''))"

definition arbiterSigned :: "bitcoin_env \<Rightarrow> multisig_input \<Rightarrow> psbt \<Rightarrow> psbt result" where
  "arbiterSigned env inp p =
     bindR (resolveArbiterSigningId env inp) (\<lambda>signer. bindR (deriveArbiterKey env signer) (\<lambda>key. signInput key p))"

text \<open>
  The end of a builder: on a disputed escrow the arbiter signs and the party the funds go to is the remaining
  signer; otherwise both parties sign.
\<close>

definition signersOf :: "string option list \<Rightarrow> string list result" where
  "signersOf ids = (if list_all truthy ids then Inr (map the ids) else Inl (EscrowError ''missing buyerId or sellerId''))"

definition build_result_of :: "bitcoin_env \<Rightarrow> string option \<Rightarrow> (int \<times> bool) option \<Rightarrow> int \<Rightarrow> psbt \<Rightarrow> string list \<Rightarrow> build_result" where
  "build_result_of env toAddress feeCollection feeSats p signers =
     \<lparr>br_psbtBase64 = bt_toBase64 env p, br_requiredSigners = signers, br_toAddress = toAddress,
      br_feeCollection = feeCollection, br_minerFeeSats = Some feeSats\<rparr>"

definition finishBuild ::
    "bitcoin_env \<Rightarrow> multisig_input \<Rightarrow> psbt \<Rightarrow> string option list \<Rightarrow> (psbt \<Rightarrow> string list \<Rightarrow> build_result) \<Rightarrow> build_result result" where
  "finishBuild env inp p parties result =
     (if er_status (mi_row inp) = DISPUTED
      then bindR (arbiterSigned env inp p) (\<lambda>q. bindR (signersOf [hd parties]) (\<lambda>signers. Inr (result q signers)))
      else bindR (signersOf parties) (\<lambda>signers. Inr (result p signers)))"

definition release_outputs :: "bitcoin_env \<Rightarrow> multisig_input \<Rightarrow> string \<Rightarrow> int \<Rightarrow> (string option \<times> int) list" where
  "release_outputs env inp toAddress spendableValue =
     (let fmax = maxFeeSats env inp in
      if \<not> isPolicyAware inp \<or> fmax = 0 then [(Some toAddress, spendableValue)]
      else [(Some toAddress, spendableValue - fmax), (er_snapshotFeeCollectionAddress (mi_row inp), fmax)])"

definition buildUnsignedRelease :: "bitcoin_env \<Rightarrow> explorer \<Rightarrow> multisig_input \<Rightarrow> string \<Rightarrow> build_result result" where
  "buildUnsignedRelease env ex inp toAddress =
     bindR (partiesFor inp) (\<lambda>parties.
     let policyAware = isPolicyAware inp; fmax = maxFeeSats env inp;
         outputCount = (if policyAware \<and> fmax > 0 then 2 else 1) in
     bindR (buildUnsignedSpend env ex inp parties outputCount (release_outputs env inp toAddress)) (\<lambda>(p, feeSats).
       finishBuild env inp p [mi_buyerId inp, mi_sellerId inp]
         (build_result_of env None (if policyAware then Some (fmax, fmax = 0) else None) feeSats)))"

definition buildUnsignedRefund :: "bitcoin_env \<Rightarrow> explorer \<Rightarrow> multisig_input \<Rightarrow> string option \<Rightarrow> build_result result" where
  "buildUnsignedRefund env ex inp authorizedTo =
     (if \<not> truthy authorizedTo then Inl (EscrowError ''requires an authorized destination'')
      else
      bindR (partiesFor inp) (\<lambda>parties.
      bindR (buildUnsignedSpend env ex inp parties 1 (\<lambda>spendableValue. [(authorizedTo, spendableValue)])) (\<lambda>(p, feeSats).
        finishBuild env inp p [mi_sellerId inp, mi_buyerId inp] (build_result_of env authorizedTo None feeSats))))"

definition split_outputs ::
    "bitcoin_env \<Rightarrow> multisig_input \<Rightarrow> fee_decision \<Rightarrow> string \<Rightarrow> string \<Rightarrow> int \<Rightarrow> int \<Rightarrow> (string option \<times> int) list" where
  "split_outputs env inp feeDecision buyerAddress sellerAddress buyerBps spendableValue =
     (let fmax = maxFeeSats env inp;
          collectedFee = (if fd_waived feeDecision then 0 else fd_feeSats feeDecision);
          buyerPool = (if isPolicyAware inp then spendableValue - fmax else spendableValue);
          buyerValue = bigint_div (buyerPool * buyerBps) 10000;
          sellerBase = buyerPool - buyerValue in
      if \<not> isPolicyAware inp \<or> fmax = 0 then [(Some buyerAddress, buyerValue), (Some sellerAddress, sellerBase)]
      else [(Some buyerAddress, buyerValue), (Some sellerAddress, sellerBase + fmax - collectedFee)]
           @ (if fd_waived feeDecision then [] else [(fd_collectionAddress feeDecision, collectedFee)]))"

definition split_decision :: "bitcoin_env \<Rightarrow> multisig_input \<Rightarrow> int \<Rightarrow> fee_decision result" where
  "split_decision env inp buyerBps =
     (if isPolicyAware inp \<and> maxFeeSats env inp > 0
      then let tSats = expectedSats (er_lockedAmount (mi_row inp));
               sellerBasisSats = bigint_div (tSats * (10000 - buyerBps)) 10000
           in decideFeeCollection env inp (s_round (bt_settle env) (of_int sellerBasisSats / 100000000))
      else Inr \<lparr>fd_feeSats = 0, fd_waived = True, fd_collectionAddress = None\<rparr>)"

text \<open>\<^verbatim>\<open>BigInt(10000 - buyerBps)\<close> throws on a number that is not whole.\<close>

definition buildUnsignedSplit :: "bitcoin_env \<Rightarrow> explorer \<Rightarrow> multisig_input \<Rightarrow> string \<Rightarrow> string \<Rightarrow> rat \<Rightarrow> build_result result" where
  "buildUnsignedSplit env ex inp buyerAddress sellerAddress bps =
     bindR (partiesFor inp) (\<lambda>parties.
     bindR (guardR (of_int \<lfloor>bps\<rfloor> = bps) (GenericError ''RangeError'')) (\<lambda>_.
     let buyerBps = \<lfloor>bps\<rfloor>; policyAware = isPolicyAware inp; fmax = maxFeeSats env inp in
     bindR (split_decision env inp buyerBps) (\<lambda>feeDecision.
     let outputCount = (if policyAware \<and> fmax > 0 then (if fd_waived feeDecision then 2 else 3) else 2) in
     bindR (buildUnsignedSpend env ex inp parties outputCount
              (split_outputs env inp feeDecision buyerAddress sellerAddress buyerBps)) (\<lambda>(p, feeSats).
     bindR (arbiterSigned env inp p) (\<lambda>q.
     bindR (signersOf [mi_buyerId inp]) (\<lambda>signers.
       Inr (build_result_of env None
              (if policyAware then Some (if fd_waived feeDecision then 0 else fd_feeSats feeDecision, fd_waived feeDecision) else None)
              feeSats q signers)))))))"

text \<open>The request of the signature collection, answered by this provider.\<close>

definition buildM :: "bitcoin_env \<Rightarrow> explorer \<Rightarrow> build_input \<Rightarrow> build_result result" where
  "buildM env ex b =
     (let inp = \<lparr>mi_row = bi_escrow b, mi_pubkeys = bi_pubkeys b, mi_buyerId = Some (bi_buyerId b),
                 mi_sellerId = Some (bi_sellerId b), mi_triggeredBy = Some (bi_triggeredBy b)\<rparr>
      in case bi_request b of
           BuildRelease toAddress \<Rightarrow> buildUnsignedRelease env ex inp toAddress
         | BuildRefund toAddress \<Rightarrow> buildUnsignedRefund env ex inp (Some toAddress)
         | BuildSplit buyerAddress sellerAddress bps \<Rightarrow> buildUnsignedSplit env ex inp buyerAddress sellerAddress bps)"

section \<open>Finalizing\<close>

definition buildFinalizedTransaction :: "bitcoin_env \<Rightarrow> string \<Rightarrow> string list \<Rightarrow> (string \<times> string) result" where
  "buildFinalizedTransaction env unsignedPsbtBase64 signedPsbtBase64List =
     (case bt_combine env unsignedPsbtBase64 signedPsbtBase64List of
        None \<Rightarrow> Inl (EscrowError ''failed to combine/finalize signatures'')
      | Some tx \<Rightarrow> Inr tx)"

text \<open>The pair of the transaction id and the raw transaction; the id the explorer reports is ignored.\<close>

definition finalizeSpend :: "bitcoin_env \<Rightarrow> explorer \<Rightarrow> string \<Rightarrow> string list \<Rightarrow> (string \<times> string) result" where
  "finalizeSpend env ex unsignedPsbtBase64 signedPsbtBase64List =
     bindR (buildFinalizedTransaction env unsignedPsbtBase64 signedPsbtBase64List) (\<lambda>(txid, raw).
     bindR (broadcast ex raw) (\<lambda>_. Inr (txid, raw)))"

end
