(* ===== verification/Multisig_Outcomes.thy ===== *)
theory Multisig_Outcomes
  imports Multisig_Provider
begin

text \<open>
  What the provider of two-of-three escrows guarantees: the transactions it builds conserve the value they spend,
  pay whom they are to pay, and pass the guard of the dispatch when the escrow was funded exactly.
\<close>

section \<open>Built transactions\<close>

definition input_of :: "build_input \<Rightarrow> multisig_input" where
  "input_of b = \<lparr>mi_row = bi_escrow b, mi_pubkeys = bi_pubkeys b, mi_buyerId = Some (bi_buyerId b),
     mi_sellerId = Some (bi_sellerId b), mi_triggeredBy = Some (bi_triggeredBy b)\<rparr>"

lemma input_of_sel [simp]:
  "mi_row (input_of b) = bi_escrow b" "mi_pubkeys (input_of b) = bi_pubkeys b" "mi_buyerId (input_of b) = Some (bi_buyerId b)"
  "mi_sellerId (input_of b) = Some (bi_sellerId b)" "mi_triggeredBy (input_of b) = Some (bi_triggeredBy b)"
  by (simp_all add: input_of_def)

definition spends_funding :: "escrow_row \<Rightarrow> psbt \<Rightarrow> bool" where
  "spends_funding r p \<longleftrightarrow> er_txLockId r = Some (px_txid p) \<and> (\<forall>v. er_txLockVout r = Some v \<longrightarrow> px_vout p = v)"

definition relayable :: "(string \<Rightarrow> nat list option) \<Rightarrow> string \<times> int \<Rightarrow> bool" where
  "relayable toOutputScript out \<longleftrightarrow>
     (\<exists>script threshold. toOutputScript (fst out) = Some script \<and> dustThresholdSats script = Inr threshold \<and> threshold \<le> snd out)"

definition as_paid :: "(string \<times> int) list \<Rightarrow> (string option \<times> int) list" where
  "as_paid outs = map (\<lambda>(a, v). (Some a, v)) outs"

lemma as_paid_simps [simp]: "as_paid [] = []" "as_paid ((a, v) # outs) = (Some a, v) # as_paid outs"
  "map snd (as_paid outs) = map snd outs" "length (as_paid outs) = length outs" "as_paid (xs @ ys) = as_paid xs @ as_paid ys"
  by (auto simp: as_paid_def)

lemma as_paid_inject [simp]: "as_paid xs = as_paid ys \<longleftrightarrow> xs = ys"
  by (auto simp: as_paid_def inj_def intro: map_injective)

lemma validateOutput_iff: "(\<exists>x. validateOutput tos a v = Inr x) \<longleftrightarrow> relayable tos (a, v)"
  by (auto simp: validateOutput_def relayable_def split: option.splits sum.splits)

lemma validated_iff: "validated tos outs = Inr vs \<longleftrightarrow> outs = as_paid vs \<and> list_all (relayable tos) vs"
proof (induction tos outs arbitrary: vs rule: validated.induct)
  case (3 tos address amount outs)
  have "validated tos ((Some address, amount) # outs) = Inr vs \<longleftrightarrow>
      relayable tos (address, amount) \<and> (\<exists>rest. validated tos outs = Inr rest \<and> vs = (address, amount) # rest)"
    by (auto simp: bindR_eq_Inr simp flip: validateOutput_iff)
  also have "\<dots> \<longleftrightarrow> relayable tos (address, amount) \<and> (\<exists>rest. outs = as_paid rest \<and> list_all (relayable tos) rest \<and> vs = (address, amount) # rest)"
    by (simp add: bindR_eq_Inr "3.IH" flip: validateOutput_iff)
  also have "\<dots> \<longleftrightarrow> (Some address, amount) # outs = as_paid vs \<and> list_all (relayable tos) vs"
    by (cases vs) (auto simp: as_paid_def)
  finally show ?case .
qed (auto simp: as_paid_def)

lemma funding_utxo_ok:
  "funding_utxo inp utxos = Inr u \<Longrightarrow> u \<in> set utxos \<and> er_txLockId (mi_row inp) = Some (ux_txid u) \<and> (\<forall>v. er_txLockVout (mi_row inp) = Some v \<longrightarrow> ux_vout u = v)"
  by (auto simp: funding_utxo_def dest!: find_SomeD split: option.splits)

lemma fee_rate_positive: "fetchFeeRateSatsPerVByte ex = Inr rate \<Longrightarrow> 0 < rate"
  by (auto simp: fetchFeeRateSatsPerVByte_def bindR_eq_Inr split: sum.splits option.splits if_splits)

text \<open>The explorer has reported the spent output with this value.\<close>

definition reported :: "explorer \<Rightarrow> psbt \<Rightarrow> bool" where
  "reported ex p \<longleftrightarrow>
     (\<exists>address utxos u. fetchUtxos ex address = Inr utxos \<and> u \<in> set utxos
        \<and> ux_txid u = px_txid p \<and> ux_vout u = px_vout p \<and> ux_value u = px_value p)"

definition spend_of ::
    "bitcoin_env \<Rightarrow> explorer \<Rightarrow> multisig_input \<Rightarrow> nat list \<times> nat list \<times> nat list \<Rightarrow> int \<Rightarrow> (int \<Rightarrow> (string option \<times> int) list) \<Rightarrow> psbt \<Rightarrow> int \<Rightarrow> bool" where
  "spend_of env ex inp parties n outs p fee \<longleftrightarrow>
     reported ex p \<and> spends_funding (mi_row inp) p \<and> 0 < fee \<and> fee \<le> maxExecutionCostSats (bt_cost env) n (px_value p) \<and> fee < px_value p
     \<and> outs (px_value p - fee) = as_paid (px_outputs p) \<and> list_all (relayable (s_outputScript (bt_settle env))) (px_outputs p)
     \<and> px_signedBy p = [] \<and> px_pubkeys p = sorted_keys parties \<and> assertArbiterMatchesScript env inp = Inr ()"

lemma buildUnsignedSpend_ok:
  assumes "buildUnsignedSpend env ex inp parties n outs = Inr (p, fee)" and "0 \<le> n"
  shows "spend_of env ex inp parties n outs p fee"
proof -
  obtain address utxos u rate where at: "fetchUtxos ex address = Inr utxos" and u: "funding_utxo inp utxos = Inr u" and rate: "fetchFeeRateSatsPerVByte ex = Inr rate"
    and fee: "fee = estimateFeeSats rate n" "fee \<le> maxExecutionCostSats (bt_cost env) n (ux_value u)" "fee < ux_value u"
    and outs: "validated (s_outputScript (bt_settle env)) (outs (ux_value u - fee)) = Inr (px_outputs p)"
    and p: "px_txid p = ux_txid u" "px_vout p = ux_vout u" "px_value p = ux_value u" "px_signedBy p = []"
      "px_pubkeys p = sorted_keys parties"
    and arb: "assertArbiterMatchesScript env inp = Inr ()"
    using assms(1) by (auto simp: buildUnsignedSpend_def bindR_eq_Inr Let_def buildScript_def)
  have "0 < rate * of_int (estimatedVBytesForOutputCount n)"
    using fee_rate_positive [OF rate] assms(2) by (simp add: estimatedVBytesForOutputCount_def)
  then have "0 < fee" by (simp add: fee(1) estimateFeeSats_def)
  moreover have "reported ex p" unfolding reported_def using at p funding_utxo_ok [OF u] by (metis (no_types))
  ultimately show ?thesis using u fee outs p arb funding_utxo_ok [OF u]
    by (simp add: spend_of_def spends_funding_def validated_iff)
qed

lemma arbiterSigned_ok:
  assumes "arbiterSigned env inp p = Inr q" and "px_signedBy p = []"
  obtains who key where "resolveArbiterSigningId env inp = Inr who" and "getArbiterPubkeyHex env who = Inr key"
    and "q = p\<lparr>px_signedBy := [key]\<rparr>" and "hex_bytes key \<in> set (px_pubkeys p)"
  using assms by (auto simp: arbiterSigned_def bindR_eq_Inr signInput_def getArbiterPubkeyHex_def split: if_splits)

text \<open>On a disputed escrow the key that signs is the one committed when the escrow was created.\<close>

lemma disputed_key_committed:
  assumes "assertArbiterMatchesScript env inp = Inr ()" and "er_status (mi_row inp) = DISPUTED"
    and "resolveArbiterSigningId env inp = Inr who" and "getArbiterPubkeyHex env who = Inr key"
  shows "snd (snd (mi_pubkeys inp)) = Some key"
  using assms by (auto simp: assertArbiterMatchesScript_def resolveArbiterSigningId_def bindR_eq_Inr split: option.splits)

lemma maxFee_unaware: "\<not> isPolicyAware inp \<Longrightarrow> maxFeeSats env inp = 0"
  by (simp add: maxFeeSats_def)


text \<open>
  What a request is to pay from the pool that is left of the spent value after the miner fee and the reserve
  for the protocol fee; \<open>c\<close> is the protocol fee that a split collects.
\<close>

definition split_payments :: "string \<Rightarrow> string \<Rightarrow> int \<Rightarrow> int \<Rightarrow> int \<Rightarrow> int \<Rightarrow> string option \<Rightarrow> (string option \<times> int) list" where
  "split_payments buyerAddr sellerAddr bps pool fmax c feeAddr =
     [(Some buyerAddr, bigint_div (pool * bps) 10000), (Some sellerAddr, pool - bigint_div (pool * bps) 10000 + fmax - c)]
       @ (if c = 0 then [] else [(feeAddr, c)])"

definition payments :: "build_request \<Rightarrow> int \<Rightarrow> int \<Rightarrow> int \<Rightarrow> string option \<Rightarrow> (string option \<times> int) list \<Rightarrow> bool" where
  "payments req pool fmax c feeAddr outs \<longleftrightarrow>
     (case req of
        BuildRelease a \<Rightarrow> outs = (Some a, pool) # (if fmax = 0 then [] else [(feeAddr, fmax)])
      | BuildRefund a \<Rightarrow> outs = [(Some a, pool + fmax)]
      | BuildSplit a b bps \<Rightarrow> outs = split_payments a b \<lfloor>bps\<rfloor> pool fmax c feeAddr)"

definition payees :: "build_request \<Rightarrow> string \<Rightarrow> string \<Rightarrow> string list" where
  "payees req buyerId sellerId =
     (case req of BuildRelease _ \<Rightarrow> [buyerId, sellerId] | BuildRefund _ \<Rightarrow> [sellerId, buyerId] | BuildSplit _ _ _ \<Rightarrow> [buyerId])"

definition collected :: "fee_decision \<Rightarrow> int" where
  "collected d = (if fd_waived d then 0 else fd_feeSats d)"

definition built :: "bitcoin_env \<Rightarrow> explorer \<Rightarrow> build_input \<Rightarrow> build_result \<Rightarrow> psbt \<Rightarrow> int \<Rightarrow> int \<Rightarrow> bool" where
  "built env ex b res p fee c \<longleftrightarrow>
     (let fmax = maxFeeSats env (input_of b); r = bi_escrow b in
      br_psbtBase64 res = bt_toBase64 env p \<and> br_minerFeeSats res = Some fee
      \<and> reported ex p \<and> spends_funding r p \<and> 0 < fee \<and> fee < px_value p
      \<and> (\<forall>x y z. bi_request b = BuildSplit x y z \<longrightarrow> (\<exists>d. split_decision env (input_of b) \<lfloor>z\<rfloor> = Inr d \<and> c = collected d))
      \<and> fee \<le> maxExecutionCostSats (bt_cost env) (int (length (px_outputs p))) (px_value p)
      \<and> payments (bi_request b) (px_value p - fee - fmax) fmax c (er_snapshotFeeCollectionAddress r) (as_paid (px_outputs p))
      \<and> list_all (relayable (s_outputScript (bt_settle env))) (px_outputs p)
      \<and> (if er_status r = DISPUTED \<or> (\<exists>x y z. bi_request b = BuildSplit x y z)
          then (\<exists>key. px_signedBy p = [key] \<and> hex_bytes key \<in> set (px_pubkeys p)
                 \<and> (er_status r = DISPUTED \<longrightarrow> snd (snd (bi_pubkeys b)) = Some key))
             \<and> br_requiredSigners res = [hd (payees (bi_request b) (bi_buyerId b) (bi_sellerId b))]
          else px_signedBy p = [] \<and> br_requiredSigners res = payees (bi_request b) (bi_buyerId b) (bi_sellerId b)))"

lemma decideFee_ok:
  assumes "decideFeeCollection env inp basis = Inr d" and "isPolicyAware inp" and "\<not> fd_waived d"
  shows "0 < fd_feeSats d \<and> fd_collectionAddress d = er_snapshotFeeCollectionAddress (mi_row inp)"
  using assms by (auto simp: decideFeeCollection_def Let_def bindR_eq_Inr truthy_def split: if_splits option.splits)

lemma signersOf_iff: "signersOf ids = Inr xs \<longleftrightarrow> list_all truthy ids \<and> xs = map the ids"
  by (auto simp: signersOf_def)

lemma finishBuild_ok:
  assumes "finishBuild env inp p ids result = Inr res" and "spend_of env ex inp parties n outs p fee" and "ids \<noteq> []"
  obtains key where "er_status (mi_row inp) = DISPUTED" and "res = result (p\<lparr>px_signedBy := [key]\<rparr>) [the (hd ids)]"
      and "hex_bytes key \<in> set (px_pubkeys p)" and "snd (snd (mi_pubkeys inp)) = Some key"
  | "er_status (mi_row inp) \<noteq> DISPUTED" and "res = result p (map the ids)"
proof (cases "er_status (mi_row inp) = DISPUTED")
  case True
  with assms(1) obtain q where q: "arbiterSigned env inp p = Inr q" "res = result q [the (hd ids)]"
    by (auto simp: finishBuild_def bindR_eq_Inr signersOf_iff)
  then obtain who key where k: "resolveArbiterSigningId env inp = Inr who" "getArbiterPubkeyHex env who = Inr key"
      "q = p\<lparr>px_signedBy := [key]\<rparr>" "hex_bytes key \<in> set (px_pubkeys p)"
    using arbiterSigned_ok [OF q(1)] assms(2) by (auto simp: spend_of_def)
  have "snd (snd (mi_pubkeys inp)) = Some key"
    using disputed_key_committed [OF _ True k(1,2)] assms(2) by (simp add: spend_of_def)
  with that(1) True q(2) k show ?thesis by blast
next
  case False
  with assms(1) that(2) show ?thesis by (auto simp: finishBuild_def bindR_eq_Inr signersOf_iff)
qed

text \<open>A release or a refund that was finished is as built.\<close>

lemma finished_built:
  assumes fin: "finishBuild env (input_of b) p (map Some (payees (bi_request b) (bi_buyerId b) (bi_sellerId b))) (build_result_of env to fc fee) = Inr res"
    and ok: "spend_of env ex (input_of b) parties n outs p fee"
    and pay: "payments (bi_request b) (px_value p - fee - maxFeeSats env (input_of b)) (maxFeeSats env (input_of b)) c
               (er_snapshotFeeCollectionAddress (bi_escrow b)) (outs (px_value p - fee))"
    and len: "int (length (outs (px_value p - fee))) = n" and kind: "\<nexists>x y z. bi_request b = BuildSplit x y z"
  shows "\<exists>p. built env ex b res p fee c"
proof -
  have outs: "outs (px_value p - fee) = as_paid (px_outputs p)" using ok by (simp add: spend_of_def)
  have ids: "map Some (payees (bi_request b) (bi_buyerId b) (bi_sellerId b)) \<noteq> []" by (simp add: payees_def split: build_request.split)
  from fin ok ids show ?thesis
  proof (cases rule: finishBuild_ok)
    case (1 key)
    with ok pay len kind ids outs show ?thesis
      by (intro exI [of _ "p\<lparr>px_signedBy := [key]\<rparr>"])
        (simp add: built_def Let_def spend_of_def reported_def spends_funding_def build_result_of_def hd_map)
  next
    case 2
    with ok pay len kind outs show ?thesis
      by (intro exI [of _ p]) (simp add: built_def Let_def spend_of_def build_result_of_def o_def)
  qed
qed

lemma release_built:
  assumes "buildUnsignedRelease env ex (input_of b) a = Inr res" and req: "bi_request b = BuildRelease a" and "0 \<le> maxFeeSats env (input_of b)"
  shows "\<exists>p fee. built env ex b res p fee 0"
proof -
  let ?inp = "input_of b" let ?n = "if isPolicyAware ?inp \<and> maxFeeSats env ?inp > 0 then 2 else 1 :: int"
  obtain parties p fee fc where sp: "buildUnsignedSpend env ex ?inp parties ?n (release_outputs env ?inp a) = Inr (p, fee)"
    and fin: "finishBuild env ?inp p [Some (bi_buyerId b), Some (bi_sellerId b)] (build_result_of env None fc fee) = Inr res"
    using assms(1) by (auto simp: buildUnsignedRelease_def bindR_eq_Inr Let_def)
  have ok: "spend_of env ex ?inp parties ?n (release_outputs env ?inp a) p fee" by (rule buildUnsignedSpend_ok [OF sp]) simp
  have "\<exists>p. built env ex b res p fee 0"
    by (rule finished_built [OF _ ok])
      (use fin assms(2,3) maxFee_unaware [of ?inp env] in \<open>auto simp: payees_def payments_def release_outputs_def Let_def\<close>)
  then show ?thesis by blast
qed

lemma refund_built:
  assumes "buildUnsignedRefund env ex (input_of b) (Some a) = Inr res" and req: "bi_request b = BuildRefund a"
  shows "\<exists>p fee. built env ex b res p fee 0"
proof -
  let ?inp = "input_of b"
  obtain parties p fee where sp: "buildUnsignedSpend env ex ?inp parties 1 (\<lambda>v. [(Some a, v)]) = Inr (p, fee)"
    and fin: "finishBuild env ?inp p [Some (bi_sellerId b), Some (bi_buyerId b)] (build_result_of env (Some a) None fee) = Inr res"
    using assms(1) by (auto simp: buildUnsignedRefund_def bindR_eq_Inr split: if_splits)
  have ok: "spend_of env ex ?inp parties 1 (\<lambda>v. [(Some a, v)]) p fee" by (rule buildUnsignedSpend_ok [OF sp]) simp
  have "\<exists>p. built env ex b res p fee 0"
    by (rule finished_built [OF _ ok]) (use fin assms(2) in \<open>auto simp: payees_def payments_def\<close>)
  then show ?thesis by blast
qed

lemma split_outputs_payments:
  assumes "split_decision env (input_of b) bps = Inr d" and "0 \<le> maxFeeSats env (input_of b)"
  shows "split_outputs env (input_of b) d x y bps v
       = split_payments x y bps (v - maxFeeSats env (input_of b)) (maxFeeSats env (input_of b)) (collected d) (er_snapshotFeeCollectionAddress (bi_escrow b))"
    and "(if isPolicyAware (input_of b) \<and> maxFeeSats env (input_of b) > 0 then if fd_waived d then 2 else 3 else 2) = 2 + (if collected d = 0 then 0 else 1 :: int)"
  using assms maxFee_unaware [of "input_of b" env] decideFee_ok [of env "input_of b" _ d]
  by (auto simp: split_outputs_def split_payments_def split_decision_def collected_def Let_def split: if_splits)

lemma split_built:
  assumes "buildUnsignedSplit env ex (input_of b) x y z = Inr res" and req: "bi_request b = BuildSplit x y z"
    and "0 \<le> maxFeeSats env (input_of b)"
  shows "\<exists>p fee c. built env ex b res p fee c"
proof -
  let ?inp = "input_of b"
  obtain parties d p fee q fc where d: "split_decision env ?inp \<lfloor>z\<rfloor> = Inr d"
    and sp: "buildUnsignedSpend env ex ?inp parties (if isPolicyAware ?inp \<and> maxFeeSats env ?inp > 0 then if fd_waived d then 2 else 3 else 2)
               (split_outputs env ?inp d x y \<lfloor>z\<rfloor>) = Inr (p, fee)"
    and q: "arbiterSigned env ?inp p = Inr q" and res: "res = build_result_of env None fc fee q [bi_buyerId b]"
    using assms(1) by (auto simp: buildUnsignedSplit_def bindR_eq_Inr Let_def signersOf_iff)
  have ok: "spend_of env ex ?inp parties (2 + (if collected d = 0 then 0 else 1)) (split_outputs env ?inp d x y \<lfloor>z\<rfloor>) p fee"
    using buildUnsignedSpend_ok [OF sp] unfolding split_outputs_payments(2) [OF d assms(3)] by simp
  then obtain who key where k: "resolveArbiterSigningId env ?inp = Inr who" "getArbiterPubkeyHex env who = Inr key"
      "q = p\<lparr>px_signedBy := [key]\<rparr>" "hex_bytes key \<in> set (px_pubkeys p)"
    using arbiterSigned_ok [OF q] by (auto simp: spend_of_def)
  have "er_status (bi_escrow b) = DISPUTED \<longrightarrow> snd (snd (bi_pubkeys b)) = Some key"
    using disputed_key_committed [OF _ _ k(1,2)] ok by (simp add: spend_of_def)
  moreover have outs: "as_paid (px_outputs p) = split_payments x y \<lfloor>z\<rfloor> (px_value p - fee - maxFeeSats env ?inp) (maxFeeSats env ?inp)
      (collected d) (er_snapshotFeeCollectionAddress (bi_escrow b))"
    using ok split_outputs_payments(1) [OF d assms(3)] by (simp add: spend_of_def)
  moreover have "int (length (px_outputs p)) = 2 + (if collected d = 0 then 0 else 1)"
    using arg_cong [OF outs, of length] by (simp add: split_payments_def)
  ultimately have "built env ex b res q fee (collected d)"
    using ok k res req d
    by (simp add: built_def Let_def spend_of_def reported_def spends_funding_def payees_def build_result_of_def payments_def)
  then show ?thesis by blast
qed

lemma buildM_built:
  assumes "buildM env ex b = Inr res" and "0 \<le> maxFeeSats env (input_of b)"
  shows "\<exists>p fee c. built env ex b res p fee c"
proof (cases "bi_request b")
  case (BuildRelease a)
  with assms release_built [of env ex b a res] show ?thesis by (auto simp: buildM_def simp flip: input_of_def)
next
  case (BuildRefund a)
  with assms refund_built [of env ex b a res] show ?thesis by (auto simp: buildM_def simp flip: input_of_def)
next
  case (BuildSplit x y z)
  with assms split_built [of env ex b x y z res] show ?thesis by (auto simp: buildM_def simp flip: input_of_def)
qed

lemma payments_sum: "payments req pool fmax c feeAddr outs \<Longrightarrow> sum_list (map snd outs) = pool + fmax"
  by (auto simp: payments_def split_payments_def split: build_request.splits if_splits)

lemma built_sum: "built env ex b res p fee c \<Longrightarrow> sum_list (map snd (px_outputs p)) = px_value p - fee"
  using payments_sum [of "bi_request b" _ _ _ _ "as_paid (px_outputs p)"] by (auto simp: built_def Let_def)

section \<open>The protocol fee of a split\<close>

lemma to_fixed_0_mono: "x \<le> y \<Longrightarrow> to_fixed_0 x \<le> to_fixed_0 y"
proof -
  assume "x \<le> y"
  moreover have "\<lceil>x - 1 / 2\<rceil> \<le> \<lfloor>y + 1 / 2\<rfloor>" if "x < 0" "0 \<le> y"
  proof -
    have "\<lceil>x - 1 / 2\<rceil> \<le> 0" "0 \<le> \<lfloor>y + 1 / 2\<rfloor>" using that by (simp_all add: ceiling_le_iff le_floor_iff)
    then show ?thesis by linarith
  qed
  ultimately show ?thesis by (auto simp: to_fixed_0_def intro: floor_mono ceiling_mono)
qed

lemma fee_sats_mono:
  assumes "decimal_rounding rnd" and "rnd = s_round (bt_settle env)" and "0 \<le> rate" and "0 \<le> x" and "x \<le> y"
  shows "decimalBtcToSats env (computeProtocolFee rnd x rate) \<le> decimalBtcToSats env (computeProtocolFee rnd y rate)"
proof -
  have mono: "mono rnd" and zero: "rnd 0 = 0" using assms(1) by (simp_all add: decimal_rounding_def)
  have "x * rate \<le> y * rate" "0 \<le> x * rate" using assms by (simp_all add: mult_right_mono)
  then have "rnd (x * rate) \<le> rnd (y * rate)" "rnd 0 \<le> rnd (x * rate)" using mono by (simp_all add: monoD)
  then have "rnd (x * rate) \<le> rnd (y * rate)" "0 \<le> rnd (x * rate)" unfolding zero by simp_all
  then have "computeProtocolFee rnd x rate \<le> computeProtocolFee rnd y rate" by (simp add: computeProtocolFee_def to_8dp_down_mono)
  then have "rnd (computeProtocolFee rnd x rate * 100000000) \<le> rnd (computeProtocolFee rnd y rate * 100000000)"
    using mono by (simp add: monoD)
  then show ?thesis unfolding decimalBtcToSats_def assms(2) by (rule to_fixed_0_mono)
qed

lemma fee_sats_zero: "decimal_rounding rnd \<Longrightarrow> rnd = s_round (bt_settle env) \<Longrightarrow> decimalBtcToSats env (computeProtocolFee rnd 0 rate) = 0"
  by (simp add: decimalBtcToSats_def computeProtocolFee_def decimal_rounding_def to_8dp_down_def to_fixed_0_def floor_eq_iff)

lemma maxFee_nonneg:
  assumes "decimal_rounding (s_round (bt_settle env))" and "0 \<le> er_lockedAmount (mi_row inp)"
    and "\<And>rate. er_snapshotProtocolFeeRate (mi_row inp) = Some rate \<Longrightarrow> 0 \<le> rate"
  shows "0 \<le> maxFeeSats env inp"
  using assms fee_sats_mono [OF assms(1) refl assms(3) order_refl assms(2)] fee_sats_zero [OF assms(1) refl]
  by (auto simp: maxFeeSats_def isPolicyAware_def computeMaxProtocolFee_def)

lemma split_basis_le:
  assumes "0 \<le> n" and "0 \<le> bps" and "bps \<le> 10000"
  shows "0 \<le> bigint_div (n * (10000 - bps)) 10000 \<and> bigint_div (n * (10000 - bps)) 10000 \<le> n"
proof -
  have "0 \<le> n * (10000 - bps)" "n * (10000 - bps) \<le> n * 10000" using assms by (simp_all add: mult_left_mono)
  then show ?thesis by (auto simp: bigint_div_def dest: zdiv_mono1 [where b = 10000])
qed

lemma split_collected_bounds:
  assumes "decimal_rounding rnd" and rnd: "rnd = s_round (bt_settle env)"
    and whole: "er_lockedAmount (mi_row inp) * 100000000 = of_int n" and "0 \<le> n" and exact: "rnd (er_lockedAmount (mi_row inp)) = er_lockedAmount (mi_row inp)"
    and rate: "\<And>rate. er_snapshotProtocolFeeRate (mi_row inp) = Some rate \<Longrightarrow> 0 \<le> rate"
    and "0 \<le> bps" "bps \<le> 10000" and d: "split_decision env inp bps = Inr d"
  shows "0 \<le> collected d \<and> collected d \<le> maxFeeSats env inp"
proof (cases "isPolicyAware inp \<and> maxFeeSats env inp > 0 \<and> \<not> fd_waived d")
  case True
  let ?locked = "er_lockedAmount (mi_row inp)" let ?basis = "bigint_div (n * (10000 - bps)) 10000"
  obtain r where r: "er_snapshotProtocolFeeRate (mi_row inp) = Some r" using True by (auto simp: isPolicyAware_def)
  have "round (?locked * 100000000) = n" unfolding whole by simp
  then have dec: "decideFeeCollection env inp (rnd (of_int ?basis / 100000000)) = Inr d"
    using d True by (simp add: split_decision_def expectedSats_def rnd)
  then have c: "collected d = decimalBtcToSats env (computeProtocolFee rnd (rnd (of_int ?basis / 100000000)) r)"
    using True r by (auto simp: decideFeeCollection_def collected_def Let_def bindR_eq_Inr rnd split: if_splits option.splits)
  have basis: "0 \<le> ?basis" "?basis \<le> n" using split_basis_le assms(4,7,8) by simp_all
  have "of_int ?basis / 100000000 \<le> ?locked" using whole basis by (simp add: field_simps)
  then have "rnd (of_int ?basis / 100000000) \<le> ?locked" "0 \<le> rnd (of_int ?basis / 100000000)"
    using assms(1) basis(1) exact unfolding decimal_rounding_def by (metis monoD, metis divide_nonneg_nonneg monoD of_int_0_le_iff zero_le_numeral)
  moreover have "maxFeeSats env inp = decimalBtcToSats env (computeProtocolFee rnd ?locked r)"
    using True r by (auto simp: maxFeeSats_def computeMaxProtocolFee_def rnd split: if_splits)
  ultimately show ?thesis
    using fee_sats_mono [OF assms(1) rnd rate [OF r]] fee_sats_mono [OF assms(1) rnd rate [OF r] order_refl] fee_sats_zero [OF assms(1) rnd]
    by (simp add: c)
next
  case False
  moreover have "0 \<le> er_lockedAmount (mi_row inp)"
    using whole assms(4) by (metis of_int_0_le_iff zero_le_mult_iff zero_less_numeral less_le_not_le)
  ultimately show ?thesis
    using maxFee_nonneg [of env inp] assms(1) rnd rate d
    by (auto simp: collected_def split_decision_def split: if_splits)
qed


lemma dust_positive: "dustThresholdSats script = Inr t \<Longrightarrow> 0 < t"
  by (auto simp: dustThresholdSats_def Let_def split: if_splits)

lemma relayable_positive: "relayable tos out \<Longrightarrow> 0 < snd out"
  using dust_positive by (force simp: relayable_def)

lemma bigint_div_pos:
  assumes "0 < bigint_div (pool * bps) 10000" and "0 \<le> bps"
  shows "0 \<le> pool \<and> bigint_div (pool * bps) 10000 = pool * bps div 10000"
proof (cases "0 \<le> pool * bps")
  case True
  with assms have "0 < pool * bps div 10000" by (simp add: bigint_div_def)
  then have "0 < pool * bps" using True by (cases "pool * bps = 0") auto
  with assms(2) True show ?thesis by (auto simp: bigint_div_def zero_less_mult_iff)
next
  case False
  then have "0 \<le> - (pool * bps) div 10000" by (simp add: pos_imp_zdiv_nonneg_iff)
  with False assms(1) show ?thesis by (simp add: bigint_div_def)
qed

section \<open>The guard of the dispatch\<close>

definition psbt_view :: "psbt \<Rightarrow> decoded_psbt" where
  "psbt_view p = \<lparr>dp_inputValue = Some (px_value p), dp_outputs = as_paid (px_outputs p)\<rparr>"

text \<open>The request that carries a ruling out, as the dispatch makes it from the recorded destinations.\<close>

definition request_for :: "ArbitrationRuling \<Rightarrow> js_number option \<Rightarrow> (string \<Rightarrow> string option) \<Rightarrow> string \<Rightarrow> string \<Rightarrow> build_request option" where
  "request_for ruling bps destination buyerId sellerId =
     (case ruling of
        RELEASE \<Rightarrow> map_option BuildRelease (destination buyerId)
      | REFUND \<Rightarrow> map_option BuildRefund (destination sellerId)
      | SPLIT_RULING \<Rightarrow>
          (case (destination buyerId, destination sellerId, bps) of
             (Some x, Some y, Some (Num z)) \<Rightarrow> Some (BuildSplit x y z)
           | _ \<Rightarrow> None))"

lemma guard_accepts:
  assumes "decode c = Some \<lparr>dp_inputValue = Some gross, dp_outputs = outs\<rparr>" and "sum_list (map snd outs) = gross - fee" and "0 \<le> fee"
    and "bound_destinations outcome \<noteq> []" and "parse_bigint (oc_totalUnits (out_content outcome)) = Inr gross"
    and "fee \<le> maxExecutionCostSats cfg (int (length (oc_allocations (out_content outcome)))) gross"
    and "outcome_wf (out_content outcome)"
    and "share_mismatches (bound_destinations outcome) outs
           (allocate_units (gross - fee) (oc_remainderBeneficiary (out_content outcome)) 0 (oc_allocations (out_content outcome))) = Inr []"
    and "length outs = length (allocate_units (gross - fee) (oc_remainderBeneficiary (out_content outcome)) 0 (oc_allocations (out_content outcome)))"
  shows "assertTranslationMatchesOutcome cfg decode c outcome (Some fee) = Inr ()"
proof -
  have "allocateExactUnitsOverTotal (out_content outcome) (gross - fee)
      = Inr (allocate_units (gross - fee) (oc_remainderBeneficiary (out_content outcome)) 0 (oc_allocations (out_content outcome)))"
    using assms(7) by (simp add: allocateOverTotal_iff)
  with assms show ?thesis
    by (simp add: assertTranslationMatchesOutcome_def validateTranslatedOutputsAgainstOutcome_def deriveDistributableTotal_def Let_def)
qed

lemma guard_refuses_excess:
  assumes "decode c = Some \<lparr>dp_inputValue = Some v, dp_outputs = outs\<rparr>"
    and "parse_bigint (oc_totalUnits (out_content outcome)) = Inr gross" and "gross < sum_list (map snd outs)"
  shows "assertTranslationMatchesOutcome cfg decode c outcome declared \<noteq> Inr ()"
  using assms guard_passes [of cfg decode c outcome declared] by fastforce

lemma is_digit_show_int: "0 \<le> n \<Longrightarrow> is_digit_string (show_int n)"
  by (simp add: show_int_def)

lemma ruling_content_wf:
  assumes "buildRulingOutcomeContent ruling (show_int gross) asset buyerId sellerId bps = Inr content" and "0 \<le> gross" and "buyerId \<noteq> sellerId"
  shows "outcome_wf content" and "parse_bigint (oc_totalUnits content) = Inr gross"
  using assms is_digit_show_int [OF assms(2)]
  by (auto simp: buildRulingOutcomeContent_def Let_def outcome_wf_def bps_in_def bps_of_def simp flip: of_int_diff
      split: ArbitrationRuling.splits option.splits if_splits elim!: js_integer.elims)
    (metis of_int_diff of_int_numeral)

text \<open>
  What a transaction without a reserve for the protocol fee pays is what the ruling divides, and the number of its
  outputs is the number of beneficiaries.
\<close>

lemma ruling_payments_match:
  assumes content: "buildRulingOutcomeContent ruling tot asset buyerId sellerId bps = Inr content"
    and req: "request_for ruling bps destination buyerId sellerId = Some req" and "buyerId \<noteq> sellerId"
    and pay: "payments req pool 0 0 feeAddr outs" and dest: "destination = destination_of ds"
  shows "share_mismatches ds outs (allocate_units pool (oc_remainderBeneficiary content) 0 (oc_allocations content)) = Inr []
     \<and> length outs = length (allocate_units pool (oc_remainderBeneficiary content) 0 (oc_allocations content))
     \<and> length outs = length (oc_allocations content)"
proof (cases ruling)
  case SPLIT_RULING
  then obtain x y z where xyz: "destination_of ds buyerId = Some x" "destination_of ds sellerId = Some y" "bps = Some (Num z)" "req = BuildSplit x y z"
    using req dest by (auto simp: request_for_def split: option.splits js_number.splits)
  then have "bps_in 1 9999 (Num z)" "content = \<lparr>oc_ruling = ruling, oc_totalUnits = tot, oc_asset = asset,
      oc_allocations = [\<lparr>al_beneficiary = buyerId, al_basisPoints = Num z\<rparr>, \<lparr>al_beneficiary = sellerId, al_basisPoints = Num (10000 - z)\<rparr>],
      oc_remainderBeneficiary = sellerId\<rparr>"
    using content SPLIT_RULING by (auto simp: buildRulingOutcomeContent_def Let_def split: if_splits)
  with xyz pay assms(3) show ?thesis
    by (auto simp: payments_def split_payments_def share_mismatch_def bps_of_def bps_in_def Let_def split: if_splits)
qed (use assms in \<open>auto simp: buildRulingOutcomeContent_def request_for_def payments_def share_mismatch_def Let_def\<close>)

section \<open>A concrete escrow\<close>

text \<open>An explorer that knows one funding output of a given value, deep enough, at a fee rate of two satoshi per byte.\<close>

definition demo_explorer :: "int \<Rightarrow> explorer" where
  "demo_explorer v = \<lparr>ex_utxos = (\<lambda>_ _. Answer 200 [\<lparr>ux_txid = ''f'', ux_vout = 0, ux_value = v, ux_confirmed = True\<rparr>]),
     ex_status = (\<lambda>_ _. Answer 200 (True, Some 10)), ex_outputs = (\<lambda>_ _. Answer 404 []), ex_outspend = (\<lambda>_ _ _. Answer 404 (False, None)),
     ex_tip = (\<lambda>_. Answer 200 (Some 20)), ex_fees = (\<lambda>_. Answer 200 (Some 2, None)), ex_broadcast = (\<lambda>_ _. Answer 500 [])\<rparr>"

definition demo_key :: "char \<Rightarrow> string" where
  "demo_key c = replicate 66 c"

definition demo_bitcoin :: bitcoin_env where
  "demo_bitcoin = \<lparr>bt_settle = demo_senv\<lparr>s_outputScript := (\<lambda>_. Some (0 # 32 # replicate 32 0))\<rparr>, bt_cost = demo_cost,
     bt_requiredConfirmations = 3, bt_seed = ''seed'', bt_trustedArbitrators = [''carol''],
     bt_derive = (\<lambda>_ _. demo_key CHR ''c''), bt_p2wsh = (\<lambda>_. Inr ''addr''), bt_toBase64 = (\<lambda>_. ''psbt''), bt_combine = (\<lambda>_ _. None)\<rparr>"

definition demo_funded :: "EscrowStatus \<Rightarrow> string option \<Rightarrow> escrow_row" where
  "demo_funded st policy = (demo_escrow st)\<lparr>er_type := MULTISIG, er_lockedAmount := 1 / 1000, er_txLockId := Some ''f'', er_txLockVout := Some 0,
     er_feePolicyVersionId := policy, er_snapshotFeeCollectionAddress := Some ''fee''\<rparr>"

definition demo_build :: "EscrowStatus \<Rightarrow> string option \<Rightarrow> build_request \<Rightarrow> build_input" where
  "demo_build st policy req = \<lparr>bi_escrow = demo_funded st policy, bi_buyerId = ''bob'', bi_sellerId = ''alice'',
     bi_pubkeys = (Some (demo_key CHR ''a''), Some (demo_key CHR ''b''), Some (demo_key CHR ''c'')), bi_triggeredBy = ''carol'', bi_request = req\<rparr>"

lemmas demo_input = demo_build_def demo_funded_def demo_escrow_def

lemma explorer_read_first: "f 1 = Answer 200 x \<Longrightarrow> explorer_read f = Inr (200, x)"
  by (simp add: explorer_read_def boundedFetch_def EXPLORER_READ_RETRY_def boundedFetch_loop.simps is_ok_def Let_def)

lemma demo_chain:
  "fetchUtxos (demo_explorer v) a = Inr [\<lparr>ux_txid = ''f'', ux_vout = 0, ux_value = v, ux_confirmed = True\<rparr>]"
  "fetchFeeRateSatsPerVByte (demo_explorer v) = Inr 2"
  "confirmationDepth (demo_explorer v) t = Inr (11, Some 10, Some 20)"
  by (simp_all add: fetchUtxos_def fetchFeeRateSatsPerVByte_def confirmationDepth_def fetchTransactionConfirmationStatus_def
      fetchChainTipHeight_def explorer_read_first require_ok_def is_ok_def demo_explorer_def)

lemma demo_key_bytes:
  "hex_bytes (demo_key CHR ''a'') = replicate 33 170" "hex_bytes (demo_key CHR ''b'') = replicate 33 187" "hex_bytes (demo_key CHR ''c'') = replicate 33 204"
  by (simp_all add: demo_key_def numeral_eq_Suc hex_digit_def)

lemma demo_parties:
  "partiesFor (input_of (demo_build st policy req)) = Inr (replicate 33 170, replicate 33 187, replicate 33 204)"
  by (simp add: partiesFor_def parsePubkey_def truthy_def demo_input demo_key_bytes Let_def) (simp add: demo_key_def)

lemma demo_arbiter:
  "deriveArbiterKey demo_bitcoin i = Inr (demo_key CHR ''c'')" "defaultArbiterId demo_bitcoin = Inr ''carol''"
  by (simp_all add: deriveArbiterKey_def getMaster_def defaultArbiterId_def demo_bitcoin_def)

lemma demo_script: "buildScript demo_bitcoin ps = Inr (sorted_keys ps, ''addr'')"
  by (simp add: buildScript_def demo_bitcoin_def)

lemma demo_arbiter_matches: "assertArbiterMatchesScript demo_bitcoin (input_of (demo_build st policy req)) = Inr ()"
  by (simp add: assertArbiterMatchesScript_def getArbiterPubkeyHex_def demo_arbiter demo_build_def)

lemma demo_signs: "px_pubkeys p = sorted_keys (x, y, replicate 33 204) \<Longrightarrow>
    arbiterSigned demo_bitcoin inp p = (case resolveArbiterSigningId demo_bitcoin inp of Inl e \<Rightarrow> Inl e | Inr _ \<Rightarrow> Inr (p\<lparr>px_signedBy := px_signedBy p @ [demo_key CHR ''c'']\<rparr>))"
  by (simp add: arbiterSigned_def demo_arbiter signInput_def demo_key_bytes sorted_keys_def split: sum.split)

lemma demo_dust: "dustThresholdSats (0 # 32 # replicate 32 0) = Inr 330"
  by (simp add: dustThresholdSats_def isWitnessProgram_def Let_def)

lemma demo_validated:
  "validated (s_outputScript (bt_settle demo_bitcoin)) (as_paid outs) = (if list_all (\<lambda>out. 330 \<le> snd out) outs then Inr outs else Inl (EscrowError ''output is below the dust threshold''))"
  by (induction outs) (auto simp: demo_bitcoin_def validateOutput_def demo_dust)

lemma demo_reserve: "maxFeeSats demo_bitcoin (input_of (demo_build st (Some ''p'') req)) = 1000" "maxFeeSats demo_bitcoin (input_of (demo_build st None req)) = 0"
  by (simp_all add: maxFeeSats_def isPolicyAware_def truthy_def demo_input demo_bitcoin_def demo_senv_def
      decimalBtcToSats_def computeMaxProtocolFee_def computeProtocolFee_def to_8dp_down_def to_fixed_0_def floor_eq_iff)

lemma demo_spend:
  assumes "outs (v - estimateFeeSats 2 n) = as_paid os" and "list_all (\<lambda>out. 330 \<le> snd out) os"
    and "estimateFeeSats 2 n \<le> maxExecutionCostSats demo_cost n v" and "estimateFeeSats 2 n < v"
  shows "buildUnsignedSpend demo_bitcoin (demo_explorer v) (input_of (demo_build st policy req)) parties n outs =
    Inr (\<lparr>px_txid = ''f'', px_vout = 0, px_value = v, px_pubkeys = sorted_keys parties, px_outputs = os, px_signedBy = []\<rparr>, estimateFeeSats 2 n)"
proof -
  have "bt_cost demo_bitcoin = demo_cost" by (simp add: demo_bitcoin_def)
  moreover have "er_txLockId (bi_escrow (demo_build st policy req)) = Some ''f''" "er_txLockVout (bi_escrow (demo_build st policy req)) = Some 0"
    by (simp_all add: demo_input)
  ultimately show ?thesis
    using assms by (simp add: buildUnsignedSpend_def demo_arbiter_matches demo_script demo_chain funding_utxo_def demo_validated truthy_def Let_def)
qed

lemma demo_fees: "estimateFeeSats 2 2 = 414" "estimateFeeSats 2 3 = 500"
  by (simp_all add: estimateFeeSats_def estimatedVBytesForOutputCount_def)

lemma demo_ceilings:
  "maxExecutionCostSats demo_cost 2 101000 = 2070" "maxExecutionCostSats demo_cost 3 101000 = 2500"
  "maxExecutionCostSats demo_cost 2 100000 = 2070" "maxExecutionCostSats demo_cost 2 110000 = 2070"
  by (simp_all add: maxExecutionCostSats_def estimatedVBytesForOutputCount_def demo_cost_def bigint_div_def Let_def)

lemma demo_policy: "isPolicyAware (input_of (demo_build st (Some ''p'') req))" "\<not> isPolicyAware (input_of (demo_build st None req))"
  by (simp_all add: isPolicyAware_def truthy_def demo_input)

lemma demo_release_builds:
  "buildM demo_bitcoin (demo_explorer 101000) (demo_build FUNDS_LOCKED (Some ''p'') (BuildRelease ''B'')) =
     Inr (build_result_of demo_bitcoin None (Some (1000, False)) 414
       \<lparr>px_txid = ''f'', px_vout = 0, px_value = 101000, px_pubkeys = sorted_keys (replicate 33 170, replicate 33 187, replicate 33 204),
        px_outputs = [(''B'', 99586), (''fee'', 1000)], px_signedBy = []\<rparr> [''bob'', ''alice''])"
  (is "buildM _ _ ?b = _")
proof -
  have "buildUnsignedSpend demo_bitcoin (demo_explorer 101000) (input_of ?b) ps 2 (release_outputs demo_bitcoin (input_of ?b) ''B'') =
      Inr (\<lparr>px_txid = ''f'', px_vout = 0, px_value = 101000, px_pubkeys = sorted_keys ps, px_outputs = [(''B'', 99586), (''fee'', 1000)], px_signedBy = []\<rparr>, estimateFeeSats 2 2)" for ps
    by (rule demo_spend) (simp_all add: release_outputs_def demo_reserve demo_policy demo_fees demo_ceilings, simp add: demo_input)
  then have "buildUnsignedRelease demo_bitcoin (demo_explorer 101000) (input_of ?b) ''B'' = Inr (build_result_of demo_bitcoin None (Some (1000, False)) 414
       \<lparr>px_txid = ''f'', px_vout = 0, px_value = 101000, px_pubkeys = sorted_keys (replicate 33 170, replicate 33 187, replicate 33 204),
        px_outputs = [(''B'', 99586), (''fee'', 1000)], px_signedBy = []\<rparr> [''bob'', ''alice''])"
    by (simp add: buildUnsignedRelease_def demo_parties demo_reserve demo_policy demo_fees finishBuild_def)
      (simp add: demo_input signersOf_def truthy_def)
  then show ?thesis by (simp add: buildM_def flip: input_of_def) (simp add: demo_build_def)
qed

lemma demo_split_builds:
  assumes "split_decision demo_bitcoin (input_of (demo_build DISPUTED policy (BuildSplit ''B'' ''A'' z))) \<lfloor>z\<rfloor> = Inr d"
    and "of_int \<lfloor>z\<rfloor> = z" and "n = (if isPolicyAware (input_of (demo_build DISPUTED policy (BuildSplit ''B'' ''A'' z)))
            \<and> 0 < maxFeeSats demo_bitcoin (input_of (demo_build DISPUTED policy (BuildSplit ''B'' ''A'' z))) then if fd_waived d then 2 else 3 else 2)"
    and "split_outputs demo_bitcoin (input_of (demo_build DISPUTED policy (BuildSplit ''B'' ''A'' z))) d ''B'' ''A'' \<lfloor>z\<rfloor> (v - estimateFeeSats 2 n) = as_paid os"
    and "list_all (\<lambda>out. 330 \<le> snd out) os"
    and "estimateFeeSats 2 n \<le> maxExecutionCostSats demo_cost n v" and "estimateFeeSats 2 n < v"
  shows "\<exists>fc. buildM demo_bitcoin (demo_explorer v) (demo_build DISPUTED policy (BuildSplit ''B'' ''A'' z)) =
     Inr (build_result_of demo_bitcoin None fc (estimateFeeSats 2 n)
       \<lparr>px_txid = ''f'', px_vout = 0, px_value = v, px_pubkeys = sorted_keys (replicate 33 170, replicate 33 187, replicate 33 204),
        px_outputs = os, px_signedBy = [demo_key CHR ''c'']\<rparr> [''bob''])"
  (is "\<exists>fc. buildM _ _ ?b = _ fc")
proof -
  have who: "resolveArbiterSigningId demo_bitcoin (input_of ?b) = Inr ''carol''" "bi_buyerId ?b = ''bob''"
    by (simp_all add: resolveArbiterSigningId_def demo_build_def)
  note spend = demo_spend [where st = DISPUTED and policy = policy and req = "BuildSplit ''B'' ''A'' z"
      and outs = "split_outputs demo_bitcoin (input_of ?b) d ''B'' ''A'' \<lfloor>z\<rfloor>", OF assms(4-7)]
  have "\<exists>fc. buildUnsignedSplit demo_bitcoin (demo_explorer v) (input_of ?b) ''B'' ''A'' z = Inr (build_result_of demo_bitcoin None fc (estimateFeeSats 2 n)
       \<lparr>px_txid = ''f'', px_vout = 0, px_value = v, px_pubkeys = sorted_keys (replicate 33 170, replicate 33 187, replicate 33 204),
        px_outputs = os, px_signedBy = [demo_key CHR ''c'']\<rparr> [''bob''])"
    by (simp add: buildUnsignedSplit_def demo_parties assms(1,2) spend demo_signs Let_def signersOf_def truthy_def who flip: assms(3)) blast
  then show ?thesis by (simp add: buildM_def flip: input_of_def) (simp add: demo_build_def)
qed

lemma payments_length: "payments req pool fmax c feeAddr outs \<Longrightarrow> int (length outs) \<in> {1, 2, 3}"
  by (auto simp: payments_def split_payments_def split: build_request.splits if_splits)

definition demo_split_tx :: "int \<Rightarrow> int \<Rightarrow> int \<Rightarrow> psbt" where
  "demo_split_tx v x y = \<lparr>px_txid = ''f'', px_vout = 0, px_value = v, px_pubkeys = sorted_keys (replicate 33 170, replicate 33 187, replicate 33 204),
     px_outputs = [(''B'', x), (''A'', y)], px_signedBy = [demo_key CHR ''c'']\<rparr>"

definition demo_decode :: "int \<Rightarrow> int \<Rightarrow> int \<Rightarrow> string \<Rightarrow> decoded_psbt option" where
  "demo_decode v x y _ = Some \<lparr>dp_inputValue = Some v, dp_outputs = [(Some ''B'', x), (Some ''A'', y)]\<rparr>"

definition demo_ruled :: "ArbitrationOutcomeContent \<Rightarrow> arbitration_outcome" where
  "demo_ruled content = \<lparr>out_content = content,
     destinationBinding = Some (DestinationBinding [\<lparr>bd_beneficiary = ''alice'', bd_destination = ''A''\<rparr>, \<lparr>bd_beneficiary = ''bob'', bd_destination = ''B''\<rparr>])\<rparr>"

lemma demo_no_decision: "split_decision demo_bitcoin (input_of (demo_build st None req)) bps = Inr \<lparr>fd_feeSats = 0, fd_waived = True, fd_collectionAddress = None\<rparr>"
  by (simp add: split_decision_def demo_policy)

lemma demo_plain_split_builds:
  "\<exists>fc. buildM demo_bitcoin (demo_explorer 100000) (demo_build DISPUTED None (BuildSplit ''B'' ''A'' 4000)) =
     Inr (build_result_of demo_bitcoin None fc (estimateFeeSats 2 2) (demo_split_tx 100000 39834 59752) [''bob''])"
  "\<exists>fc. buildM demo_bitcoin (demo_explorer 110000) (demo_build DISPUTED None (BuildSplit ''B'' ''A'' 4000)) =
     Inr (build_result_of demo_bitcoin None fc (estimateFeeSats 2 2) (demo_split_tx 110000 43834 65752) [''bob''])"
  unfolding demo_split_tx_def
  by (rule demo_split_builds; simp add: demo_no_decision demo_policy demo_reserve demo_fees demo_ceilings split_outputs_def bigint_div_def Let_def)+

lemma demo_policy_split_builds:
  "\<exists>fc. buildM demo_bitcoin (demo_explorer 101000) (demo_build DISPUTED (Some ''p'') (BuildSplit ''B'' ''A'' 5000)) =
     Inr (build_result_of demo_bitcoin None fc (estimateFeeSats 2 3)
       \<lparr>px_txid = ''f'', px_vout = 0, px_value = 101000, px_pubkeys = sorted_keys (replicate 33 170, replicate 33 187, replicate 33 204),
        px_outputs = [(''B'', 49750), (''A'', 50250), (''fee'', 500)], px_signedBy = [demo_key CHR ''c'']\<rparr> [''bob''])"
proof (rule demo_split_builds)
  let ?i = "input_of (demo_build DISPUTED (Some ''p'') (BuildSplit ''B'' ''A'' 5000))"
  let ?d = "\<lparr>fd_feeSats = 500, fd_waived = False, fd_collectionAddress = Some ''fee''\<rparr>"
  have "decideFeeCollection demo_bitcoin ?i (1 / 2000) = Inr ?d"
    by (simp add: decideFeeCollection_def demo_policy Let_def)
      (simp add: demo_input demo_bitcoin_def demo_senv_def truthy_def demo_dust decimalBtcToSats_def computeProtocolFee_def to_8dp_down_def to_fixed_0_def floor_eq_iff)
  moreover have "expectedSats (er_lockedAmount (mi_row ?i)) = 100000" by (simp add: expectedSats_def demo_input)
  moreover have "s_round (bt_settle demo_bitcoin) = id" by (simp add: demo_bitcoin_def demo_senv_def)
  ultimately show "split_decision demo_bitcoin ?i \<lfloor>5000\<rfloor> = Inr ?d"
    by (simp add: split_decision_def demo_policy demo_reserve bigint_div_def)
qed (simp_all add: demo_policy demo_reserve demo_fees demo_ceilings split_outputs_def bigint_div_def Let_def)

text \<open>On this explorer the transaction that was built is determined by its request and its fee.\<close>

lemma demo_decodes:
  assumes "built demo_bitcoin (demo_explorer v) (demo_build DISPUTED None (BuildSplit ''B'' ''A'' z)) (build_result_of demo_bitcoin None fc fee q sg) p fee' c"
  shows "psbt_view p = \<lparr>dp_inputValue = Some v, dp_outputs =
     [(Some ''B'', bigint_div ((v - fee) * \<lfloor>z\<rfloor>) 10000), (Some ''A'', v - fee - bigint_div ((v - fee) * \<lfloor>z\<rfloor>) 10000)]\<rparr>"
proof -
  have "bi_request (demo_build DISPUTED None (BuildSplit ''B'' ''A'' z)) = BuildSplit ''B'' ''A'' z" by (simp add: demo_build_def)
  then show ?thesis
    using assms by (auto simp: built_def Let_def payments_def split_payments_def demo_reserve demo_no_decision collected_def reported_def demo_chain
        psbt_view_def build_result_of_def)
qed

lemma demo_locks: "\<exists>lock. lockFundsM demo_bitcoin (demo_explorer 110000) (input_of (demo_build DISPUTED None req)) = Inr lock"
proof -
  have "bt_requiredConfirmations demo_bitcoin = 3" by (simp add: demo_bitcoin_def)
  moreover have "expectedSats (er_lockedAmount (bi_escrow (demo_build DISPUTED None req))) = 100000" by (simp add: expectedSats_def demo_input)
  ultimately show ?thesis
    by (simp add: lockFundsM_def findFundingCandidate_def demo_parties demo_script demo_chain demo_policy)
qed

lemma demo_build_sel:
  "bi_buyerId (demo_build st policy req) = ''bob''" "bi_sellerId (demo_build st policy req) = ''alice''" "bi_request (demo_build st policy req) = req"
  "bt_cost demo_bitcoin = demo_cost"
  by (simp_all add: demo_build_def demo_bitcoin_def)

lemma demo_reported: "fetchUtxos (demo_explorer v) a = Inr utxos \<Longrightarrow> u \<in> set utxos \<Longrightarrow> ux_value u = v"
  by (auto simp: demo_chain)

lemma demo_ruled_request:
  "out_content (demo_ruled content) = content"
  "request_for SPLIT_RULING (Some (Num z)) (destination_of (bound_destinations (demo_ruled content))) ''bob'' ''alice'' = Some (BuildSplit ''B'' ''A'' z)"
  by (simp_all add: demo_ruled_def request_for_def destination_of_def bound_destinations_def)

lemma demo_over: "n \<in> {1, 2, 3} \<Longrightarrow> 100000 < 110000 - maxExecutionCostSats demo_cost n 110000"
  by (auto simp: maxExecutionCostSats_def estimatedVBytesForOutputCount_def demo_cost_def bigint_div_def Let_def)

section \<open>Properties\<close>

text \<open>
  C12: a built transaction conserves the value it spends. Whatever the explorer answers, a release, refund or split that is built
  spends the recorded funding output, and its outputs and the declared miner fee add up to its value; the fee is positive and
  within the ceiling for its number of outputs; every output is above the dust threshold of its script; a release
  pays the buyer all but the reserved protocol fee, a refund pays the seller everything, a split divides the pool by the basis points.
  On a disputed escrow the transaction carries the signature of the arbiter key committed at creation and waits for the
  winning party alone, otherwise it is unsigned and waits for both.
\<close>

theorem built_transaction_conserves_value:
  assumes "buildM env ex b = Inr res" and "0 \<le> maxFeeSats env (input_of b)"
  shows "\<exists>p fee c. built env ex b res p fee c \<and> sum_list (map snd (px_outputs p)) + fee = px_value p"
  using buildM_built [OF assms] built_sum by fastforce

theorem built_transaction_conserves_value_witness:
  "\<exists>res p fee c. buildM demo_bitcoin (demo_explorer 101000) (demo_build FUNDS_LOCKED (Some ''p'') (BuildRelease ''B'')) = Inr res
     \<and> built demo_bitcoin (demo_explorer 101000) (demo_build FUNDS_LOCKED (Some ''p'') (BuildRelease ''B'')) res p fee c
     \<and> sum_list (map snd (px_outputs p)) + fee = px_value p"
  using built_transaction_conserves_value [OF demo_release_builds] by (auto simp: demo_reserve demo_release_builds)

text \<open>
  The protocol fee of a split comes out of its reserve. With a whole number of satoshi locked, the fee collected by a split is
  between zero and the reserve taken at funding; the buyer gets the basis points of the pool rounded down, whatever fee is
  collected, and the seller never gets less than the rest of the pool.
\<close>

theorem split_fee_within_reserve:
  assumes "buildM env ex b = Inr res" and req: "bi_request b = BuildSplit x y z" and z: "0 \<le> z" "z \<le> 10000"
    and rnd: "decimal_rounding (s_round (bt_settle env))"
    and whole: "er_lockedAmount (bi_escrow b) * 100000000 = of_int n" and n: "0 \<le> n"
    and exact: "s_round (bt_settle env) (er_lockedAmount (bi_escrow b)) = er_lockedAmount (bi_escrow b)"
    and rate: "\<And>rate. er_snapshotProtocolFeeRate (bi_escrow b) = Some rate \<Longrightarrow> 0 \<le> rate"
  shows "\<exists>p fee c. built env ex b res p fee c \<and> 0 \<le> c \<and> c \<le> maxFeeSats env (input_of b)
     \<and> (let pool = px_value p - fee - maxFeeSats env (input_of b) in
          0 \<le> pool \<and> px_outputs p ! 0 = (x, pool * \<lfloor>z\<rfloor> div 10000) \<and> fst (px_outputs p ! 1) = y
          \<and> pool - pool * \<lfloor>z\<rfloor> div 10000 \<le> snd (px_outputs p ! 1))"
proof -
  let ?fmax = "maxFeeSats env (input_of b)"
  have locked: "0 \<le> er_lockedAmount (bi_escrow b)"
    using whole n by (metis of_int_0_le_iff zero_le_mult_iff zero_less_numeral less_le_not_le)
  have "0 \<le> ?fmax" by (rule maxFee_nonneg) (use rnd locked rate in simp_all)
  from buildM_built [OF assms(1) this] req
  obtain p fee d where d: "split_decision env (input_of b) \<lfloor>z\<rfloor> = Inr d" and b: "built env ex b res p fee (collected d)"
    by (fastforce simp: built_def Let_def)
  have floors: "0 \<le> \<lfloor>z\<rfloor>" "\<lfloor>z\<rfloor> \<le> 10000" using z by (simp_all add: floor_le_iff)
  have c: "0 \<le> collected d \<and> collected d \<le> ?fmax"
    by (rule split_collected_bounds [OF rnd refl _ n _ _ floors d]) (use whole exact rate in simp_all)
  let ?pool = "px_value p - fee - ?fmax"
  have outs: "as_paid (px_outputs p) = split_payments x y \<lfloor>z\<rfloor> ?pool ?fmax (collected d) (er_snapshotFeeCollectionAddress (bi_escrow b))"
    using b req by (simp add: built_def Let_def payments_def)
  then obtain rest where two: "px_outputs p = (x, bigint_div (?pool * \<lfloor>z\<rfloor>) 10000) # (y, ?pool - bigint_div (?pool * \<lfloor>z\<rfloor>) 10000 + ?fmax - collected d) # rest"
    by (auto simp: split_payments_def as_paid_def map_eq_Cons_conv)
  then have "0 < bigint_div (?pool * \<lfloor>z\<rfloor>) 10000"
    using b relayable_positive by (fastforce simp: built_def Let_def)
  from bigint_div_pos [OF this floors(1)] b c two show ?thesis
    by (intro exI [of _ p] exI [of _ fee] exI [of _ "collected d"]) (simp add: Let_def)
qed

theorem split_fee_within_reserve_witness:
  "\<exists>res p fee c. buildM demo_bitcoin (demo_explorer 101000) (demo_build DISPUTED (Some ''p'') (BuildSplit ''B'' ''A'' 5000)) = Inr res
     \<and> built demo_bitcoin (demo_explorer 101000) (demo_build DISPUTED (Some ''p'') (BuildSplit ''B'' ''A'' 5000)) res p fee c \<and> 0 \<le> c \<and> c \<le> 1000"
proof -
  obtain fc where build: "buildM demo_bitcoin (demo_explorer 101000) (demo_build DISPUTED (Some ''p'') (BuildSplit ''B'' ''A'' 5000)) =
      Inr (build_result_of demo_bitcoin None fc (estimateFeeSats 2 3)
       \<lparr>px_txid = ''f'', px_vout = 0, px_value = 101000, px_pubkeys = sorted_keys (replicate 33 170, replicate 33 187, replicate 33 204),
        px_outputs = [(''B'', 49750), (''A'', 50250), (''fee'', 500)], px_signedBy = [demo_key CHR ''c'']\<rparr> [''bob''])"
    using demo_policy_split_builds by blast
  have "\<exists>p fee c. built demo_bitcoin (demo_explorer 101000) (demo_build DISPUTED (Some ''p'') (BuildSplit ''B'' ''A'' 5000))
      (build_result_of demo_bitcoin None fc (estimateFeeSats 2 3)
       \<lparr>px_txid = ''f'', px_vout = 0, px_value = 101000, px_pubkeys = sorted_keys (replicate 33 170, replicate 33 187, replicate 33 204),
        px_outputs = [(''B'', 49750), (''A'', 50250), (''fee'', 500)], px_signedBy = [demo_key CHR ''c'']\<rparr> [''bob'']) p fee c
      \<and> 0 \<le> c \<and> c \<le> maxFeeSats demo_bitcoin (input_of (demo_build DISPUTED (Some ''p'') (BuildSplit ''B'' ''A'' 5000)))"
    using split_fee_within_reserve [OF build, of "''B''" "''A''" 5000 100000]
    by (simp add: demo_input demo_bitcoin_def demo_senv_def decimal_rounding_def mono_def) blast
  then show ?thesis using build by (auto simp: demo_reserve)
qed

text \<open>
  A ruling on an exactly funded escrow passes the guard of its dispatch. When the escrow has no reserve for a protocol fee, the
  explorer reports the funding output with exactly the value the ruling divides, and a built transaction decodes to what was built,
  the transaction built for the ruling and its recorded destinations is accepted with its declared fee.
\<close>

theorem exactly_funded_ruling_passes_guard:
  assumes build: "buildM env ex b = Inr res" and "maxFeeSats env (input_of b) = 0" and parties: "bi_buyerId b \<noteq> bi_sellerId b"
    and content: "buildRulingOutcomeContent ruling (show_int gross) asset (bi_buyerId b) (bi_sellerId b) bps = Inr (out_content outcome)"
    and req: "request_for ruling bps (destination_of (bound_destinations outcome)) (bi_buyerId b) (bi_sellerId b) = Some (bi_request b)"
    and funded: "\<And>address utxos u. fetchUtxos ex address = Inr utxos \<Longrightarrow> u \<in> set utxos \<Longrightarrow> er_txLockId (bi_escrow b) = Some (ux_txid u)
           \<Longrightarrow> ux_value u = gross"
    and decode: "\<And>p fee c. built env ex b res p fee c \<Longrightarrow> decode (bt_toBase64 env p) = Some (psbt_view p)"
  shows "assertTranslationMatchesOutcome (bt_cost env) decode (br_psbtBase64 res) outcome (br_minerFeeSats res) = Inr ()"
proof -
  obtain p fee c where b: "built env ex b res p fee c" using buildM_built [OF build] assms(2) by auto
  have gross: "px_value p = gross" using b funded by (auto simp: built_def Let_def reported_def spends_funding_def)
  have pay: "payments (bi_request b) (px_value p - fee) 0 0 (er_snapshotFeeCollectionAddress (bi_escrow b)) (as_paid (px_outputs p))"
    using b assms(2) by (auto simp: built_def Let_def payments_def split_decision_def collected_def split: build_request.splits)
  note match = ruling_payments_match [OF content req parties pay refl]
  have "assertTranslationMatchesOutcome (bt_cost env) decode (bt_toBase64 env p) outcome (Some fee) = Inr ()"
  proof (rule guard_accepts)
    have "0 \<le> gross" using b gross by (simp add: built_def Let_def)
    from ruling_content_wf [OF content this parties]
    show "outcome_wf (out_content outcome)" "parse_bigint (oc_totalUnits (out_content outcome)) = Inr gross" by simp_all
    show "decode (bt_toBase64 env p) = Some \<lparr>dp_inputValue = Some gross, dp_outputs = as_paid (px_outputs p)\<rparr>"
      using decode [OF b] gross by (simp add: psbt_view_def)
    show "sum_list (map snd (as_paid (px_outputs p))) = gross - fee" using built_sum [OF b] gross by simp
    show "0 \<le> fee" using b by (simp add: built_def Let_def)
    show "bound_destinations outcome \<noteq> []"
      using req by (auto simp: request_for_def destination_of_def split: ArbitrationRuling.splits option.splits)
    have "int (length (oc_allocations (out_content outcome))) = int (length (px_outputs p))" using match by simp
    then show "fee \<le> maxExecutionCostSats (bt_cost env) (int (length (oc_allocations (out_content outcome)))) gross"
      using b gross by (simp only:) (simp add: built_def Let_def)
    from match gross show "share_mismatches (bound_destinations outcome) (as_paid (px_outputs p))
        (allocate_units (gross - fee) (oc_remainderBeneficiary (out_content outcome)) 0 (oc_allocations (out_content outcome))) = Inr []"
      "length (as_paid (px_outputs p)) = length (allocate_units (gross - fee) (oc_remainderBeneficiary (out_content outcome)) 0 (oc_allocations (out_content outcome)))"
      by simp_all
  qed
  with b show ?thesis by (simp add: built_def Let_def)
qed

theorem exactly_funded_ruling_passes_guard_witness:
  "\<exists>res content. buildM demo_bitcoin (demo_explorer 100000) (demo_build DISPUTED None (BuildSplit ''B'' ''A'' 4000)) = Inr res
     \<and> buildRulingOutcomeContent SPLIT_RULING (show_int 100000) ''BTC'' ''bob'' ''alice'' (Some (Num 4000)) = Inr content
     \<and> assertTranslationMatchesOutcome demo_cost (demo_decode 100000 39834 59752) (br_psbtBase64 res) (demo_ruled content) (br_minerFeeSats res) = Inr ()"
proof -
  obtain fc where build: "buildM demo_bitcoin (demo_explorer 100000) (demo_build DISPUTED None (BuildSplit ''B'' ''A'' 4000)) =
      Inr (build_result_of demo_bitcoin None fc (estimateFeeSats 2 2) (demo_split_tx 100000 39834 59752) [''bob''])"
    using demo_plain_split_builds(1) by blast
  obtain content where content: "buildRulingOutcomeContent SPLIT_RULING (show_int 100000) ''BTC'' ''bob'' ''alice'' (Some (Num 4000)) = Inr content"
    by (simp add: buildRulingOutcomeContent_def bps_in_def)
  have "assertTranslationMatchesOutcome (bt_cost demo_bitcoin) (demo_decode 100000 39834 59752)
      (br_psbtBase64 (build_result_of demo_bitcoin None fc (estimateFeeSats 2 2) (demo_split_tx 100000 39834 59752) [''bob'']))
      (demo_ruled content) (br_minerFeeSats (build_result_of demo_bitcoin None fc (estimateFeeSats 2 2) (demo_split_tx 100000 39834 59752) [''bob''])) = Inr ()"
  proof (rule exactly_funded_ruling_passes_guard [OF build, where gross = 100000 and ruling = SPLIT_RULING and bps = "Some (Num 4000)" and asset = "''BTC''"])
    show "demo_decode 100000 39834 59752 (bt_toBase64 demo_bitcoin p) = Some (psbt_view p)" if "built demo_bitcoin (demo_explorer 100000)
        (demo_build DISPUTED None (BuildSplit ''B'' ''A'' 4000)) (build_result_of demo_bitcoin None fc (estimateFeeSats 2 2) (demo_split_tx 100000 39834 59752) [''bob'']) p fee c" for p fee c
      using demo_decodes [OF that] by (simp add: demo_decode_def bigint_div_def demo_fees)
    show "ux_value u = 100000" if "fetchUtxos (demo_explorer 100000) address = Inr utxos" "u \<in> set utxos" for address utxos u
      using demo_reported that .
  qed (use content in \<open>simp_all add: demo_reserve demo_build_sel demo_ruled_request\<close>)
  then show ?thesis using build content by (auto simp: demo_build_sel)
qed



end
