(* ===== verification/Chain_Sweeps.thy ===== *)
theory Chain_Sweeps
  imports Multisig_Provider Signature_Submission
begin

text \<open>
  The background jobs that compare the stored escrows with the chain: \<^verbatim>\<open>multisig-funding-reorg-sweep.ts\<close>,
  \<^verbatim>\<open>multisig-release-reorg-sweep.ts\<close> with \<^verbatim>\<open>escrow-release-evidence-repository.ts\<close>,
  \<^verbatim>\<open>multisig-fee-confirmation-job.ts\<close> and \<^verbatim>\<open>multisig-fee-reorg-sweep.ts\<close>. Each job reads its
  candidates once and treats one after the other; an error ends the treatment of one candidate only. The report of a
  job is the list of the outcomes. What the explorer answers may be different for every candidate.
\<close>

section \<open>Loops that continue after an error\<close>

fun each :: "('x \<Rightarrow> ('s, 'a) handler) \<Rightarrow> 'x list \<Rightarrow> ('s, 'a result list) handler" where
  "each f [] = ret []"
| "each f (x # xs) =
     seqH (catchH (seqH (f x) (\<lambda>a. ret (Inr a))) (\<lambda>e. ret (Inl e))) (\<lambda>r.
     seqH (each f xs) (\<lambda>rs. ret (r # rs)))"

lemma preserves_each [preserves_intros]: "(\<And>x. x \<in> set xs \<Longrightarrow> preserves I (f x)) \<Longrightarrow> preserves I (each f xs)"
  by (induction xs) (auto intro!: preserves_intros)

section \<open>Reorganisations of the funding\<close>

datatype funding_outcome =
    SkippedNoBaseline | StillGood | Reconfirmed | ReplacementObserved | StillPending | Reverted

definition scan_evidence :: "string \<Rightarrow> FundingEvidenceKind \<Rightarrow> funding_scan \<Rightarrow> chain_evidence" where
  "scan_evidence i kind scan =
     \<lparr>ev_escrowId = i, ev_kind = kind, ev_txid = Some (fs_txId scan), ev_vout = Some (fs_vout scan), ev_amountSats = None,
      ev_observedAtHeight = fs_confirmedAtHeight scan, ev_tipHeight = fs_tipHeight scan\<rparr>"

definition invalidated :: "string \<Rightarrow> chain_evidence \<Rightarrow> chain_evidence" where
  "invalidated i prev =
     \<lparr>ev_escrowId = i, ev_kind = REORGED_INVALIDATED, ev_txid = ev_txid prev, ev_vout = None, ev_amountSats = None,
      ev_observedAtHeight = None, ev_tipHeight = None\<rparr>"

definition decideFunding :: "int \<Rightarrow> string \<Rightarrow> chain_evidence \<Rightarrow> funding_scan option \<Rightarrow> funding_outcome \<times> chain_evidence option" where
  "decideFunding required i prev scan =
     (let trustworthy = (ev_kind prev = OBSERVED_CONFIRMED \<or> ev_kind prev = RECONFIRMED) in
      case scan of
        Some sc \<Rightarrow>
          if required \<le> fs_depth sc then
            if ev_txid prev = Some (fs_txId sc) then
              if trustworthy then (StillGood, None) else (Reconfirmed, Some (scan_evidence i RECONFIRMED sc))
            else if \<not> (ev_kind prev = REPLACEMENT_OBSERVED \<and> ev_txid prev = Some (fs_txId sc))
            then (ReplacementObserved, Some (scan_evidence i REPLACEMENT_OBSERVED sc))
            else (StillPending, None)
          else if trustworthy then (Reverted, Some (invalidated i prev)) else (StillPending, None)
      | None \<Rightarrow>
          if ev_kind prev \<noteq> REORGED_INVALIDATED then (Reverted, Some (invalidated i prev)) else (StillPending, None))"

definition sweep_input :: "escrow_row \<Rightarrow> string option \<times> string option \<times> string option \<Rightarrow> multisig_input" where
  "sweep_input r keys = \<lparr>mi_row = r, mi_pubkeys = keys, mi_buyerId = None, mi_sellerId = None, mi_triggeredBy = None\<rparr>"

definition decideLocked :: "int \<Rightarrow> string \<Rightarrow> funding_scan option \<Rightarrow> funding_outcome settle" where
  "decideLocked required i scan =
     withEscrowFundingLock
       (seqH (readH (listFundingEvidence i)) (\<lambda>history.
          if history = [] then ret SkippedNoBaseline
          else case decideFunding required i (last history) scan of
                 (outcome, None) \<Rightarrow> ret outcome
               | (outcome, Some ev) \<Rightarrow> seqH (recordFundingEvidence ev) (\<lambda>_. ret outcome)))"

definition sweepFunding :: "bitcoin_env \<Rightarrow> explorer \<Rightarrow> string \<times> escrow_row \<Rightarrow> funding_outcome settle" where
  "sweepFunding env ex candidate =
     (let i = fst candidate; r = snd candidate in
      seqH (readH (listFundingEvidence i)) (\<lambda>peek.
        if peek = [] then ret SkippedNoBaseline
        else
        seqH (loadParticipantPubkeys i) (\<lambda>keys.
        seqH (liftH (rescanFunding env ex (sweep_input r keys))) (\<lambda>scan.
          decideLocked (bt_requiredConfirmations env) i scan))))"

definition funding_candidates :: "settlement_state \<Rightarrow> (string \<times> escrow_row) list" where
  "funding_candidates s =
     List.map_filter (\<lambda>i. case escrows s i of
        Some r \<Rightarrow> if er_type r = MULTISIG \<and> er_status r = FUNDS_LOCKED \<and> er_txLockId r \<noteq> None then Some (i, r) else None
      | None \<Rightarrow> None) (escrow_ids s)"

definition sweepMultisigFundingReorgs :: "bitcoin_env \<Rightarrow> (string \<Rightarrow> explorer) \<Rightarrow> funding_outcome result list settle" where
  "sweepMultisigFundingReorgs env exs =
     seqH (readH funding_candidates) (\<lambda>candidates. each (\<lambda>c. sweepFunding env (exs (fst c)) c) candidates)"

section \<open>Reorganisations of the release\<close>

text \<open>The state of the recovery jobs: the tables, the evidence about releases, and the transactions handed to the explorer.\<close>

record recon_state =
  sg :: signing_state
  release_evidence :: "chain_evidence list"
  broadcasts :: "string list"

type_synonym 'a recon = "(recon_state, 'a) handler"

definition onSigning :: "'a signing \<Rightarrow> 'a recon" where
  "onSigning m s = (case m (sg s) of (r, g) \<Rightarrow> (r, s\<lparr>sg := g\<rparr>))"

definition tables :: "recon_state \<Rightarrow> settlement_state" where
  "tables s = settlement (sd (sg s))"

datatype release_outcome =
    ObservedBaseline | ReleaseReconfirmed | ReleaseStillGood | ReleaseStillPending | BuriedEnough | RequiresManualReview

definition recordReleaseEvidence :: "chain_evidence \<Rightarrow> unit recon" where
  "recordReleaseEvidence ev =
     seqH (onSigning (dbStepS ''escrowReleaseEvidence'' id)) (\<lambda>_.
       writeH (\<lambda>s. s\<lparr>release_evidence := release_evidence s @ [ev]\<rparr>))"

definition listReleaseEvidence :: "string \<Rightarrow> recon_state \<Rightarrow> chain_evidence list" where
  "listReleaseEvidence i s = filter (\<lambda>e. ev_escrowId e = i) (release_evidence s)"

definition release_row :: "string \<Rightarrow> FundingEvidenceKind \<Rightarrow> string option \<Rightarrow> int option \<Rightarrow> int option \<Rightarrow> chain_evidence" where
  "release_row i kind txid height tip =
     \<lparr>ev_escrowId = i, ev_kind = kind, ev_txid = txid, ev_vout = None, ev_amountSats = None, ev_observedAtHeight = height, ev_tipHeight = tip\<rparr>"

definition recordSeen :: "explorer \<Rightarrow> string \<Rightarrow> FundingEvidenceKind \<Rightarrow> string \<Rightarrow> release_outcome \<Rightarrow> release_outcome recon" where
  "recordSeen ex i kind txid outcome =
     seqH (liftH (fetchTransactionConfirmationStatus ex txid)) (\<lambda>status.
     seqH (liftH (fetchChainTipHeight ex)) (\<lambda>tip.
     seqH (recordReleaseEvidence (release_row i kind (Some txid) (snd status) (Some tip))) (\<lambda>_. ret outcome)))"

definition buriedDeep :: "explorer \<Rightarrow> int \<Rightarrow> chain_evidence option \<Rightarrow> bool recon" where
  "buriedDeep ex window lastE =
     (case lastE of
        None \<Rightarrow> ret False
      | Some l \<Rightarrow>
          (case ev_observedAtHeight l of
             None \<Rightarrow> ret False
           | Some h \<Rightarrow>
               if ev_kind l = OBSERVED_CONFIRMED \<or> ev_kind l = RECONFIRMED
               then seqH (liftH (fetchChainTipHeight ex)) (\<lambda>tip. ret (tip - h + 1 > window))
               else ret False))"

definition classifyLost :: "explorer \<Rightarrow> string \<Rightarrow> escrow_row \<Rightarrow> string \<Rightarrow> release_outcome recon" where
  "classifyLost ex i r txReleaseId =
     (case (er_txLockId r, er_txLockVout r) of
        (Some txLockId, Some vout) \<Rightarrow>
          seqH (liftH (fetchOutpointSpendStatus ex txLockId vout)) (\<lambda>(spent, spendingTxid).
            if \<not> spent
            then seqH (recordReleaseEvidence (release_row i REORGED_INVALIDATED (Some txReleaseId) None None)) (\<lambda>_. ret RequiresManualReview)
            else if spendingTxid = Some txReleaseId then ret ReleaseStillGood
            else seqH (recordReleaseEvidence (release_row i AMBIGUOUS spendingTxid None None)) (\<lambda>_. ret RequiresManualReview))
      | _ \<Rightarrow> ret RequiresManualReview)"

definition sweepRelease :: "int \<Rightarrow> explorer \<Rightarrow> string \<times> escrow_row \<Rightarrow> release_outcome recon" where
  "sweepRelease window ex candidate =
     (let i = fst candidate; r = snd candidate; txReleaseId = the (er_txReleaseId r) in
      seqH (readH (listReleaseEvidence i)) (\<lambda>history.
      let lastE = (if history = [] then None else Some (last history)) in
      seqH (buriedDeep ex window lastE) (\<lambda>buried.
        if buried then ret BuriedEnough
        else
        seqH (liftH (fetchTransactionExistence ex txReleaseId)) (\<lambda>(there, confirmed).
          if there then
            if \<not> confirmed then ret ReleaseStillPending
            else case lastE of
                   None \<Rightarrow> recordSeen ex i OBSERVED_CONFIRMED txReleaseId ObservedBaseline
                 | Some l \<Rightarrow>
                     if ev_kind l = REORGED_INVALIDATED \<or> ev_kind l = AMBIGUOUS
                     then recordSeen ex i RECONFIRMED txReleaseId ReleaseReconfirmed
                     else ret ReleaseStillGood
          else classifyLost ex i r txReleaseId))))"

definition release_candidates :: "settlement_state \<Rightarrow> (string \<times> escrow_row) list" where
  "release_candidates s =
     List.map_filter (\<lambda>i. case escrows s i of
        Some r \<Rightarrow> if er_type r = MULTISIG \<and> er_status r \<in> {COMPLETED, REFUNDED, EscrowStatus.SPLIT} \<and> er_txReleaseId r \<noteq> None then Some (i, r) else None
      | None \<Rightarrow> None) (escrow_ids s)"

definition sweepMultisigReleaseReorgs :: "int \<Rightarrow> (string \<Rightarrow> explorer) \<Rightarrow> release_outcome result list recon" where
  "sweepMultisigReleaseReorgs window exs =
     seqH (readH (\<lambda>s. release_candidates (tables s))) (\<lambda>candidates. each (\<lambda>c. sweepRelease window (exs (fst c)) c) candidates)"

section \<open>Confirmation of collected fees\<close>

datatype confirmation_outcome = FeeCollected | FeeStillPending | FeeFailed | FeeOtherRail

text \<open>The candidates come in the order in which the database returns them, which is the parameter \<open>oids\<close>.\<close>

definition fee_candidates :: "(fee_obligation_row \<Rightarrow> bool) \<Rightarrow> string list \<Rightarrow> settlement_state \<Rightarrow> (string \<times> fee_obligation_row) list" where
  "fee_candidates P oids s =
     List.map_filter (\<lambda>oid. case obligations s oid of Some ob \<Rightarrow> if P ob then Some (oid, ob) else None | None \<Rightarrow> None) oids"

definition escrow_type_of :: "settlement_state \<Rightarrow> fee_obligation_row \<Rightarrow> EscrowType option" where
  "escrow_type_of s ob = map_option er_type (escrows s (fo_escrowId ob))"

definition usable_broadcast :: "evidence_row list \<Rightarrow> (string \<times> nat \<times> rat \<times> string option) option" where
  "usable_broadcast rows =
     (case last_of_kind BROADCAST rows of
        None \<Rightarrow> None
      | Some e \<Rightarrow>
          (case (fe_txid e, fe_vout e, fe_amount e) of
             (Some txid, Some vout, Some amount) \<Rightarrow> if txid = [] then None else Some (txid, vout, amount, fe_scriptPubKey e)
           | _ \<Rightarrow> None))"

definition required_confirmations :: "settlement_state \<Rightarrow> fee_obligation_row \<Rightarrow> int option" where
  "required_confirmations s ob =
     (case find (\<lambda>p. fp_id p = fo_feePolicyVersionId ob) (fee_policies s) of
        None \<Rightarrow> None
      | Some p \<Rightarrow> (case fp_requiredConfirmations p of Some n \<Rightarrow> if n \<le> 0 then None else Some n | None \<Rightarrow> None))"

text \<open>The output the broadcast was to pay, checked again on the confirmed transaction.\<close>

definition output_verified :: "bitcoin_env \<Rightarrow> (string \<times> int) list \<Rightarrow> nat \<Rightarrow> rat \<Rightarrow> string option \<Rightarrow> bool" where
  "output_verified env outputs vout amount script \<longleftrightarrow>
     vout < length outputs \<and> truthy script \<and> Some (fst (outputs ! vout)) = script
     \<and> of_int (snd (outputs ! vout)) = s_round (bt_settle env) (amount * 100000000)"

definition confirmFee :: "bitcoin_env \<Rightarrow> explorer \<Rightarrow> string \<times> fee_obligation_row \<Rightarrow> confirmation_outcome revenue" where
  "confirmFee env ex candidate =
     (let oid = fst candidate; ob = snd candidate in
      seqH (readH (\<lambda>s. escrow_type_of (base s) ob)) (\<lambda>type.
        if type \<noteq> Some MULTISIG then ret FeeOtherRail
        else
        seqH (listEvidence oid) (\<lambda>rows.
          case usable_broadcast rows of
            None \<Rightarrow> ret FeeFailed
          | Some (txid, vout, amount, script) \<Rightarrow>
              seqH (readH (\<lambda>s. required_confirmations (base s) ob)) (\<lambda>req.
                case req of
                  None \<Rightarrow> ret FeeFailed
                | Some requiredConfirmations \<Rightarrow>
                    seqH (liftH (fetchTransactionConfirmationStatus ex txid)) (\<lambda>status.
                      case status of
                        (True, Some blockHeight) \<Rightarrow>
                          seqH (liftH (fetchChainTipHeight ex)) (\<lambda>tip.
                            if tip - blockHeight + 1 < requiredConfirmations then ret FeeStillPending
                            else
                            seqH (liftH (fetchTransactionOutputs ex txid)) (\<lambda>outputs.
                              if \<not> output_verified env outputs vout amount script then ret FeeFailed
                              else seqH (recognizeConfirmation (bt_settle env) oid txid blockHeight) (\<lambda>_. ret FeeCollected)))
                      | _ \<Rightarrow> ret FeeStillPending)))))"

definition sweepMultisigFeeConfirmations ::
    "bitcoin_env \<Rightarrow> (string \<Rightarrow> explorer) \<Rightarrow> string list \<Rightarrow> confirmation_outcome result list revenue" where
  "sweepMultisigFeeConfirmations env exs oids =
     seqH (readH (\<lambda>s. fee_candidates (\<lambda>ob. fo_collectionStatus ob = Some IN_PROGRESS) oids (base s))) (\<lambda>candidates.
       each (\<lambda>c. confirmFee env (exs (fst c)) c) candidates)"

datatype fee_reorg_outcome = FeeReverted | FlaggedDistributed | FeeStillGood | FeeBuriedEnough | FeeUnusable

definition checkFeeReorg :: "bitcoin_env \<Rightarrow> int \<Rightarrow> explorer \<Rightarrow> int \<Rightarrow> string \<times> fee_obligation_row \<Rightarrow> fee_reorg_outcome revenue" where
  "checkFeeReorg env window ex tip candidate =
     (let oid = fst candidate in
      seqH (listEvidence oid) (\<lambda>rows.
        case last_of_kind CONFIRMED rows of
          None \<Rightarrow> ret FeeUnusable
        | Some e \<Rightarrow>
            (case (fe_txid e, fe_confirmedAtHeight e) of
               (Some txid, Some height) \<Rightarrow>
                 if txid = [] then ret FeeUnusable
                 else if tip - height + 1 > window then ret FeeBuriedEnough
                 else
                 seqH (liftH (fetchTransactionConfirmationStatus ex txid)) (\<lambda>status.
                   if \<not> fst status
                   then seqH (recordReorgAndRevert (bt_settle env) oid txid) (\<lambda>reverted. ret (if reverted then FeeReverted else FlaggedDistributed))
                   else ret FeeStillGood)
             | _ \<Rightarrow> ret FeeUnusable)))"

definition sweepMultisigFeeReorgs ::
    "bitcoin_env \<Rightarrow> int \<Rightarrow> explorer \<Rightarrow> (string \<Rightarrow> explorer) \<Rightarrow> string list \<Rightarrow> fee_reorg_outcome result list revenue" where
  "sweepMultisigFeeReorgs env window ex exs oids =
     seqH (readH (\<lambda>s. fee_candidates (\<lambda>ob. fo_collectionStatus ob \<in> {Some COLLECTED, Some DISTRIBUTED}
             \<and> escrow_type_of (base s) ob = Some MULTISIG) oids (base s))) (\<lambda>candidates.
       if candidates = [] then ret []
       else seqH (liftH (fetchChainTipHeight ex)) (\<lambda>tip.
              each (\<lambda>c. checkFeeReorg env window (exs (fst c)) tip c) candidates))"

end
