(* ===== verification/Sweep_Outcomes.thy ===== *)
theory Sweep_Outcomes
  imports Chain_Sweeps Escrow_Invariants Multisig_Outcomes Signature_Outcomes Revenue_Accounting
begin

text \<open>
  What the chain sweeps guarantee. The locale \<open>funding_sweep_client\<close> states what an invariant has to tolerate of one
  decision of the funding sweep and shows that the whole job keeps it; it is interpreted for the shape of the evidence
  histories, together with the operations of the escrow service, and for an escrow the job never looks at.
\<close>

section \<open>Invariants of the funding sweep\<close>

locale funding_sweep_client = write_invariant I for I :: "settlement_state \<Rightarrow> bool" +
  fixes watched :: "string \<Rightarrow> bool"
  assumes inv_candidate: "I s \<Longrightarrow> c \<in> set (funding_candidates s) \<Longrightarrow> watched (fst c)"
    and inv_decided: "\<lbrakk>I s; watched i; listFundingEvidence i s \<noteq> [];
        decideFunding required i (last (listFundingEvidence i s)) scan = (outcome, Some ev)\<rbrakk>
      \<Longrightarrow> I (s\<lparr>funding_evidence := funding_evidence s @ [ev]\<rparr>)"
begin

lemma preserves_decideLocked:
  assumes "watched i"
  shows "preserves I (decideLocked required i scan)"
proof -
  have "wpH (decideLocked required i scan) (\<lambda>_. I) (\<lambda>_. I) s" if "I s" for s
  proof -
    have "I (s\<lparr>faults := fs, funding_evidence := funding_evidence s @ [ev]\<rparr>)"
      if "listFundingEvidence i s \<noteq> []" and "decideFunding required i (last (listFundingEvidence i s)) scan = (oc, Some ev)" for fs oc ev
      using inv_decided [OF inv_faults [OF \<open>I s\<close>, of fs] assms] that by (auto simp: listFundingEvidence_def)
    moreover note inv_decided [OF \<open>I s\<close> assms]
    ultimately show ?thesis
      using \<open>I s\<close> by (auto simp: decideLocked_def withEscrowFundingLock_def recordFundingEvidence_def wp_eqs inv_faults
          split: list.split bool.split option.split prod.split)
  qed
  then show ?thesis by (simp add: preserves_def wpH_snd)
qed

lemma preserves_sweepFunding: "watched (fst c) \<Longrightarrow> preserves I (sweepFunding env ex c)"
  unfolding sweepFunding_def Let_def loadParticipantPubkeys_def
  by (intro preserves_intros preserves_decideLocked)

lemma preserves_fundingSweep: "preserves I (sweepMultisigFundingReorgs env exs)"
proof -
  have "I (snd (each (\<lambda>c. sweepFunding env (exs (fst c)) c) (funding_candidates s) s))" if "I s" for s
    using inv_candidate [OF that] that by (blast intro: preservesD preserves_each preserves_sweepFunding)
  then show ?thesis by (simp add: preserves_def sweepMultisigFundingReorgs_def seqH_def readH_def)
qed

end

section \<open>The history of a funding\<close>

text \<open>What may follow one row of evidence.\<close>

definition evidence_step :: "chain_evidence \<Rightarrow> chain_evidence \<Rightarrow> bool" where
  "evidence_step a b =
     (case ev_kind b of
        OBSERVED_CONFIRMED \<Rightarrow> True
      | RECONFIRMED \<Rightarrow> ev_kind a \<notin> {OBSERVED_CONFIRMED, RECONFIRMED} \<and> ev_txid b = ev_txid a
      | REPLACEMENT_OBSERVED \<Rightarrow> ev_txid b \<noteq> ev_txid a
      | REORGED_INVALIDATED \<Rightarrow> ev_kind a \<noteq> REORGED_INVALIDATED \<and> ev_txid b = ev_txid a
      | AMBIGUOUS \<Rightarrow> False)"

definition history_ok :: "chain_evidence list \<Rightarrow> bool" where
  "history_ok rows \<longleftrightarrow> (rows \<noteq> [] \<longrightarrow> ev_kind (hd rows) = OBSERVED_CONFIRMED) \<and> successively evidence_step rows"

definition histories_ok :: "settlement_state \<Rightarrow> bool" where
  "histories_ok s \<longleftrightarrow> (\<forall>i. history_ok (listFundingEvidence i s))"

lemma decided_step:
  "decideFunding required i prev scan = (oc, Some ev) \<Longrightarrow> ev_escrowId ev = i \<and> evidence_step prev ev"
  by (auto simp: decideFunding_def Let_def evidence_step_def scan_evidence_def invalidated_def
      split: option.splits if_splits)

lemma history_snoc:
  "history_ok rows \<Longrightarrow> rows \<noteq> [] \<and> evidence_step (last rows) ev \<or> ev_kind ev = OBSERVED_CONFIRMED \<Longrightarrow> history_ok (rows @ [ev])"
  by (cases "rows = []") (auto simp: history_ok_def successively_append_iff evidence_step_def)

lemma listFundingEvidence_snoc [simp]:
  "listFundingEvidence i (s\<lparr>funding_evidence := funding_evidence s @ [ev]\<rparr>)
     = listFundingEvidence i s @ (if ev_escrowId ev = i then [ev] else [])"
  by (simp add: listFundingEvidence_def)

lemma histories_frame: "funding_evidence s' = funding_evidence s \<Longrightarrow> histories_ok s \<Longrightarrow> histories_ok s'"
  by (simp add: histories_ok_def listFundingEvidence_def)

interpretation history_sweep: funding_sweep_client histories_ok "\<lambda>_. True"
proof unfold_locales
  fix s i required scan outcome ev
  assume ok: "histories_ok s" and ne: "listFundingEvidence i s \<noteq> []"
    and dec: "decideFunding required i (last (listFundingEvidence i s)) scan = (outcome, Some ev)"
  show "histories_ok (s\<lparr>funding_evidence := funding_evidence s @ [ev]\<rparr>)"
    using ok ne decided_step [OF dec] history_snoc by (auto simp: histories_ok_def)
qed (auto elim: histories_frame [rotated])

lemma lock_evidence_sel: "ev_escrowId (lock_evidence i res) = i" "ev_kind (lock_evidence i res) = OBSERVED_CONFIRMED"
  by (simp_all add: lock_evidence_def)

interpretation history_log: event_log_client histories_ok env for env
proof unfold_locales
  fix s s' assume "histories_ok s" "obligation_frame s s'"
  then show "histories_ok s'" by (metis histories_frame obligation_frame_fields(10))
next
  fix s i res assume "histories_ok s"
  then show "histories_ok (s\<lparr>funding_evidence := funding_evidence s @ [lock_evidence i res]\<rparr>)"
    using history_snoc by (auto simp: histories_ok_def lock_evidence_sel)
qed (auto elim: histories_frame [rotated] simp: log_event_def)

section \<open>Requests and sweeps together\<close>

datatype chain_step = Request "int \<times> bool list \<times> escrow_op" | FundingSweep "bool list" "string \<Rightarrow> explorer"

definition run_chain_step :: "bitcoin_env \<Rightarrow> settlement_state \<Rightarrow> chain_step \<Rightarrow> settlement_state" where
  "run_chain_step env s step =
     (case step of
        Request req \<Rightarrow> run_escrow_op (bt_settle env) s req
      | FundingSweep fs exs \<Rightarrow> snd (sweepMultisigFundingReorgs env exs (s\<lparr>faults := fs\<rparr>)))"

lemma histories_run: "histories_ok s \<Longrightarrow> histories_ok (foldl (run_chain_step env) s steps)"
proof (induction steps arbitrary: s)
  case (Cons step steps)
  have "histories_ok (s\<lparr>faults := fs\<rparr>)" for fs by (rule histories_frame [OF _ Cons.prems]) simp
  then have "histories_ok (run_chain_step env s step)"
    using Cons.prems
    by (cases step) (simp_all add: run_chain_step_def history_log.run_op preservesD [OF history_sweep.preserves_fundingSweep])
  then show ?case using Cons.IH by simp
qed simp

text \<open>
  C18: the evidence about a funding tells one story. After any sequence of service requests and funding sweeps,
  whatever the explorer and the providers answer and wherever the database fails, the history of an escrow that has
  one begins with the lock; a reconfirmation follows only a row that was not trustworthy and names the same
  transaction, a replacement names another transaction than the row before it (so a replacement is never trusted
  on first sight), a loss is recorded once, and nothing is recorded as ambiguous.
\<close>

theorem funding_evidence_follows_chain:
  assumes "histories_ok s" and "rows = listFundingEvidence i (foldl (run_chain_step env) s steps)" and "rows \<noteq> []"
  shows "ev_kind (hd rows) = OBSERVED_CONFIRMED
     \<and> (\<forall>n. Suc n < length rows \<longrightarrow> evidence_step (rows ! n) (rows ! Suc n))"
proof -
  have "history_ok rows" using histories_run [OF assms(1)] assms(2) by (simp add: histories_ok_def)
  then show ?thesis using assms(3) by (auto simp: history_ok_def successively_conv_nth)
qed

text \<open>A funded escrow, an explorer that has lost the funding, and the sweep between them.\<close>

definition demo_lost :: explorer where
  "demo_lost = (demo_explorer 0)\<lparr>ex_utxos := (\<lambda>_ _. Answer 200 [])\<rparr>"

definition demo_row :: chain_evidence where
  "demo_row = lock_evidence ''e'' \<lparr>lr_txId = ''f'', lr_address = ''addr'', lr_vout = Some 0, lr_fundedAmount = None,
     lr_confirmedAtHeight = Some 10, lr_tipHeight = Some 20\<rparr>"

definition demo_locked :: "EscrowStatus \<Rightarrow> settlement_state" where
  "demo_locked st = (demo_settlement (Some (demo_funded st None)))\<lparr>funding_evidence := [demo_row],
     participant_keys := map (\<lambda>(role, c). (''e'', \<lparr>k_role = role, k_participantId = [c], k_pubkey = demo_key c, k_capabilityProfile = None\<rparr>))
       [(buyer, CHR ''a''), (seller, CHR ''b''), (arbiter, CHR ''c'')]\<rparr>"

lemma demo_candidates: "funding_candidates (demo_locked FUNDS_LOCKED) = [(''e'', demo_funded FUNDS_LOCKED None)]"
  by (simp add: funding_candidates_def demo_locked_def demo_settlement_def demo_funded_def demo_escrow_def List.map_filter_def)

lemma demo_rescan:
  "rescanFunding demo_bitcoin demo_lost (sweep_input r (Some (demo_key CHR ''a''), Some (demo_key CHR ''b''), Some (demo_key CHR ''c''))) = Inr None"
proof -
  have "partiesFor (sweep_input r (Some (demo_key CHR ''a''), Some (demo_key CHR ''b''), Some (demo_key CHR ''c'')))
      = Inr (replicate 33 170, replicate 33 187, replicate 33 204)"
    by (simp add: partiesFor_def parsePubkey_def truthy_def sweep_input_def demo_key_bytes Let_def) (simp add: demo_key_def)
  moreover have "fetchUtxos demo_lost a = Inr []" for a
    by (simp add: fetchUtxos_def explorer_read_first [where x = "[]"] demo_lost_def require_ok_def is_ok_def)
  ultimately show ?thesis by (simp add: rescanFunding_def findFundingCandidate_def demo_script)
qed

lemma demo_sweep:
  "listFundingEvidence ''e'' (run_chain_step demo_bitcoin (demo_locked FUNDS_LOCKED) (FundingSweep [] (\<lambda>_. demo_lost)))
     = [demo_row, invalidated ''e'' demo_row]"
proof -
  let ?s = "demo_locked FUNDS_LOCKED"
  have flt: "?s\<lparr>faults := []\<rparr> = ?s" "faults ?s = []" by (simp_all add: demo_locked_def demo_settlement_def)
  have ev: "listFundingEvidence ''e'' ?s = [demo_row]" "funding_evidence ?s = [demo_row]"
    by (simp_all add: demo_locked_def listFundingEvidence_def demo_row_def lock_evidence_def)
  have keys: "loadParticipantPubkeys ''e'' ?s = (Inr (Some (demo_key CHR ''a''), Some (demo_key CHR ''b''), Some (demo_key CHR ''c'')), ?s)"
    by (simp add: loadParticipantPubkeys_def readH_def Let_def demo_locked_def)
  have dec: "decideFunding req ''e'' demo_row None = (Reverted, Some (invalidated ''e'' demo_row))" for req
    by (simp add: decideFunding_def demo_row_def lock_evidence_def)
  show ?thesis
    by (simp add: run_chain_step_def flt sweepMultisigFundingReorgs_def demo_candidates sweepFunding_def Let_def decideLocked_def ev keys
        demo_rescan dec withEscrowFundingLock_def transactionH_def recordFundingEvidence_def dbWrite_def seqH_def readH_def ret_def
        liftH_def catchH_def) (simp add: listFundingEvidence_def ev demo_row_def lock_evidence_def invalidated_def)
qed

theorem funding_evidence_follows_chain_witness:
  "evidence_step demo_row (invalidated ''e'' demo_row)"
proof -
  let ?steps = "[FundingSweep [] (\<lambda>_. demo_lost)]"
  have "histories_ok (demo_locked FUNDS_LOCKED)"
    by (simp add: histories_ok_def history_ok_def listFundingEvidence_def demo_locked_def demo_row_def lock_evidence_def)
  from funding_evidence_follows_chain [OF this refl, of "''e''" demo_bitcoin ?steps] show ?thesis
    by (auto simp: demo_sweep dest: spec [of _ 0])
qed

section \<open>Escrows the sweep does not look at\<close>

definition left_alone :: "string \<Rightarrow> escrow_row \<Rightarrow> dispute_assignment list \<Rightarrow> chain_evidence list \<Rightarrow> settlement_state \<Rightarrow> bool" where
  "left_alone i r ds h s \<longleftrightarrow> er_status r \<noteq> FUNDS_LOCKED \<and> escrows s i = Some r \<and> disputes s = ds \<and> listFundingEvidence i s = h"

lemma candidate_locked: "(i, r) \<in> set (funding_candidates s) \<Longrightarrow> escrows s i = Some r \<and> er_status r = FUNDS_LOCKED"
  by (auto simp: funding_candidates_def List.map_filter_def split: option.splits if_splits)

interpretation untouched: funding_sweep_client "left_alone i r ds h" "\<lambda>j. j \<noteq> i" for i r ds h
proof unfold_locales
  fix s c assume "left_alone i r ds h s" "c \<in> set (funding_candidates s)"
  then show "fst c \<noteq> i" using candidate_locked [of "fst c" "snd c" s] by (auto simp: left_alone_def)
next
  fix s j required scan outcome ev
  assume "left_alone i r ds h s" "j \<noteq> i" "decideFunding required j (last (listFundingEvidence j s)) scan = (outcome, Some ev)"
  then show "left_alone i r ds h (s\<lparr>funding_evidence := funding_evidence s @ [ev]\<rparr>)"
    using decided_step by (auto simp: left_alone_def)
qed (auto simp: left_alone_def listFundingEvidence_def)

definition sweep_again :: "bitcoin_env \<Rightarrow> dispute_state \<Rightarrow> (string \<Rightarrow> explorer) \<Rightarrow> dispute_state" where
  "sweep_again benv s exs = snd (onSettle (sweepMultisigFundingReorgs benv exs) s)"

lemma sweep_again_sel:
  "settlement (sweep_again benv s exs) = snd (sweepMultisigFundingReorgs benv exs (settlement s))"
  "dispute_rows (sweep_again benv s exs) = dispute_rows s"
  by (simp_all add: sweep_again_def onSettle_def onBase_def settlement_def split: prod.split)

lemma left_alone_again:
  "left_alone i r ds h (settlement s) \<Longrightarrow>
     left_alone i r ds h (settlement (foldl (sweep_again benv) s exss)) \<and> dispute_rows (foldl (sweep_again benv) s exss) = dispute_rows s"
  by (induction exss arbitrary: s) (simp_all add: sweep_again_sel preservesD [OF untouched.preserves_fundingSweep])

text \<open>
  C39: a reorganisation before a dispute denies the release for good. Once an escrow is disputed while its last
  evidence is not trustworthy, no number of funding sweeps changes that, however often the chain confirms the
  funding again, because the sweep reads locked escrows only; and every release and every split of it is refused,
  so a ruling for the buyer cannot be carried out.
\<close>

theorem dispute_after_reorg_blocks_release:
  assumes sync: "synced s" and row: "escrows (settlement s) i = Some r" and st: "er_status r = DISPUTED"
    and unc: "funding_uncertain i (settlement s)"
    and later: "t = foldl (sweep_again benv) s exss"
    and op: "m = initiateRelease env i a who \<or> m = initiateSplit env i a b bps who"
  shows "funding_uncertain i (settlement t) \<and> (\<exists>e fs. m t = (Inl e, with_faults fs t))"
proof -
  have "left_alone i r (disputes (settlement s)) (listFundingEvidence i (settlement s)) (settlement s)"
    using row st by (simp add: left_alone_def)
  from left_alone_again [OF this, of benv exss] have
    ev: "listFundingEvidence i (settlement t) = listFundingEvidence i (settlement s)" and
    ds: "disputes (settlement t) = disputes (settlement s)" and rows: "dispute_rows t = dispute_rows s"
    by (simp_all add: left_alone_def later)
  have unc': "funding_uncertain i (settlement t)" using unc ev by (simp add: funding_uncertain_def)
  have "synced t" using sync ds rows by (simp add: synced_def)
  note starts = wp_initiates [OF this]
  have "\<not> payout_initiated i kind who t p s'" if "kind \<noteq> KRefund" for kind p s'
    using unc' that by (auto simp: payout_initiated_def)
  then have "wpH m (\<lambda>_ _. False) (\<lambda>_ s'. \<exists>fs. s' = with_faults fs t) t"
    using op starts(1) [of env i a who] starts(3) [of env i a b bps who] by (auto simp: wpH_def split: sum.splits)
  then show ?thesis using unc' by (auto simp: wpH_def split: prod.splits sum.splits)
qed

definition demo_reorged :: dispute_state where
  "demo_reorged = demo_multisig\<lparr>rv := (rv demo_multisig)\<lparr>base := (base (rv demo_multisig))
     \<lparr>funding_evidence := [demo_row, invalidated ''e'' demo_row]\<rparr>\<rparr>\<rparr>"

lemma demo_reorged_ok:
  "synced demo_reorged" "\<exists>r. escrows (settlement demo_reorged) ''e'' = Some r \<and> er_status r = DISPUTED"
  "funding_uncertain ''e'' (settlement demo_reorged)"
  by (simp_all add: demo_reorged_def demo_multisig_def demo_disputed_def synced_def settlement_def demo_settlement_def demo_escrow_def
      funding_uncertain_def listFundingEvidence_def demo_row_def lock_evidence_def invalidated_def)

theorem dispute_after_reorg_blocks_release_witness:
  "\<exists>e fs. initiateRelease demo_builder ''e'' (Some ''A'') ''carol'' (foldl (sweep_again demo_bitcoin) demo_reorged [\<lambda>_. demo_explorer 100000, \<lambda>_. demo_explorer 100000])
     = (Inl e, with_faults fs (foldl (sweep_again demo_bitcoin) demo_reorged [\<lambda>_. demo_explorer 100000, \<lambda>_. demo_explorer 100000]))"
proof -
  obtain r where r: "escrows (settlement demo_reorged) ''e'' = Some r" "er_status r = DISPUTED" using demo_reorged_ok(2) by blast
  show ?thesis
    using dispute_after_reorg_blocks_release [OF demo_reorged_ok(1) r demo_reorged_ok(3) refl, of "initiateRelease demo_builder ''e'' (Some ''A'') ''carol''"
        demo_builder "Some ''A''" "''carol''"] by blast
qed

section \<open>Confirmed fees\<close>

text \<open>What the chain has to show before a fee counts as collected.\<close>

definition fee_confirmed ::
    "bitcoin_env \<Rightarrow> explorer \<Rightarrow> string \<Rightarrow> fee_obligation_row \<Rightarrow> revenue_state \<Rightarrow> string \<Rightarrow> int \<Rightarrow> bool" where
  "fee_confirmed env ex oid ob s txid height \<longleftrightarrow>
     escrow_type_of (base s) ob = Some MULTISIG
     \<and> (\<exists>vout amount script required tip outputs.
          usable_broadcast (evidence_of oid s) = Some (txid, vout, amount, script)
          \<and> required_confirmations (base s) ob = Some required
          \<and> fetchTransactionConfirmationStatus ex txid = Inr (True, Some height)
          \<and> fetchChainTipHeight ex = Inr tip \<and> required \<le> tip - height + 1
          \<and> fetchTransactionOutputs ex txid = Inr outputs \<and> output_verified env outputs vout amount script)"

definition fee_recorded :: "string \<Rightarrow> string \<Rightarrow> int \<Rightarrow> revenue_state \<Rightarrow> revenue_state \<Rightarrow> bool" where
  "fee_recorded oid txid height s s' \<longleftrightarrow>
     (\<exists>ob e. obligations (base s) oid = Some ob \<and> fo_collectionStatus ob = Some IN_PROGRESS
        \<and> obligations (base s') = (obligations (base s))(oid \<mapsto> ob\<lparr>fo_collectionStatus := Some COLLECTED\<rparr>)
        \<and> evidence s' = evidence s @ [e] \<and> fe_feeObligationId e = oid \<and> fe_kind e = CONFIRMED
        \<and> fe_txid e = Some txid \<and> fe_confirmedAtHeight e = Some height)"

definition fees_unchanged :: "revenue_state \<Rightarrow> revenue_state \<Rightarrow> bool" where
  "fees_unchanged s s' \<longleftrightarrow> obligations (base s') = obligations (base s) \<and> evidence s' = evidence s"

lemma fees_unchanged_refl [simp]: "fees_unchanged s s"
  by (simp add: fees_unchanged_def)

lemma wp_recognize:
  "wpH (recognizeConfirmation env oid txid h) (\<lambda>_. fee_recorded oid txid h s) (\<lambda>_. fees_unchanged s) s"
  by (auto simp: recognizeConfirmation_def findObligation_def listEvidence_def findLivePolicy_def findPublishedPolicies_def
      recordEvidence_def transitionCollectionStatus_def claimCollectionStatus_def new_evidence_def inserted_def
      wp_eqs fees_unchanged_def fee_recorded_def split: option.split list.split bool.split)

text \<open>
  C38: a fee counts as collected only when the chain shows it. The confirmation job moves an obligation to
  COLLECTED only when its transaction is the last one broadcast, is buried as deep as the frozen policy asks, and
  pays the recorded script the recorded amount at the recorded position; it then writes one confirmation with the block's
  height. On every other path, an explorer or database failure included, obligations and evidence stay as they were.
\<close>

theorem fee_collected_only_when_confirmed:
  assumes run: "confirmFee env ex (oid, ob) s = (res, s')"
  shows "if res = Inr FeeCollected
         then \<exists>txid height. fee_confirmed env ex oid ob s txid height \<and> fee_recorded oid txid height s s'
         else fees_unchanged s s'"
proof -
  have rec: "wpH (recognizeConfirmation (bt_settle env) oid txid h) (\<lambda>_ s'. \<exists>txid height. fee_confirmed env ex oid ob s txid height \<and> fee_recorded oid txid height s s') (\<lambda>_. fees_unchanged s) s"
    if "fee_confirmed env ex oid ob s txid h" for txid h
    using wp_recognize [of "bt_settle env" oid txid h s] that by (auto simp: wpH_def split: sum.splits) blast+
  have "wpH (confirmFee env ex (oid, ob)) (\<lambda>a s'. if a = FeeCollected
         then \<exists>txid height. fee_confirmed env ex oid ob s txid height \<and> fee_recorded oid txid height s s'
         else fees_unchanged s s') (\<lambda>_. fees_unchanged s) s"
    by (auto simp: confirmFee_def Let_def listEvidence_def wp_seqH wp_readH wp_ret wp_liftH
        intro!: rec split: option.split sum.split prod.split bool.split) (auto simp: fee_confirmed_def)
  then show ?thesis using run by (auto simp: wpH_def split: sum.splits if_splits)
qed

definition demo_paid :: explorer where
  "demo_paid = (demo_explorer 0)\<lparr>ex_outputs := (\<lambda>_ _. Answer 200 [(''s'', 1000)])\<rparr>"

definition demo_obligation :: fee_obligation_row where
  "demo_obligation = \<lparr>fo_escrowId = ''e'', fo_feePolicyVersionId = ''p'', fo_determination = OWED, fo_collectionStatus = Some IN_PROGRESS,
     fo_basisAmount = Some 1, fo_computedFee = Some (1000 / 100000000), fo_asset = Some A_BTC\<rparr>"

definition demo_fee :: revenue_state where
  "demo_fee = (demo_revenue 1000 [])\<lparr>base := (base (demo_revenue 1000 []))\<lparr>escrows := [''e'' \<mapsto> demo_funded COMPLETED (Some ''p'')],
     obligations := [''o'' \<mapsto> demo_obligation]\<rparr>,
     evidence := [(new_evidence ''o'' BROADCAST ''f'')\<lparr>fe_vout := Some 0, fe_scriptPubKey := Some ''s'', fe_amount := Some (1000 / 100000000)\<rparr>]\<rparr>"

lemma demo_fee_confirms: "fst (confirmFee demo_bitcoin demo_paid (''o'', demo_obligation) demo_fee) = Inr FeeCollected"
  by code_simp

theorem fee_collected_only_when_confirmed_witness:
  "\<exists>txid height. fee_confirmed demo_bitcoin demo_paid ''o'' demo_obligation demo_fee txid height
     \<and> fee_recorded ''o'' txid height demo_fee (snd (confirmFee demo_bitcoin demo_paid (''o'', demo_obligation) demo_fee))"
  using fee_collected_only_when_confirmed [OF surjective_pairing, of demo_bitcoin demo_paid "''o''" demo_obligation demo_fee]
  by (simp add: demo_fee_confirms)

text \<open>
  A fee transaction that the explorer no longer knows is never reverted. When the transaction has left the
  chain and the mempool, so that the explorer answers 404, the check of a collected fee inside the window fails
  before it records anything, on every run: the obligation stays COLLECTED (or DISTRIBUTED) without a trace.
\<close>

theorem vanished_fee_is_not_reverted:
  assumes "last_of_kind CONFIRMED (evidence_of oid s) = Some e" and "fe_txid e = Some txid" and "txid \<noteq> []"
    and "fe_confirmedAtHeight e = Some height" and "tip - height + 1 \<le> window"
    and "explorer_read (ex_status ex txid) = Inr (404, found)"
  shows "checkFeeReorg env window ex tip (oid, ob) s = (Inl (EscrowError ''explorer API returned an error status''), s)
     \<and> fetchTransactionExistence ex txid = Inr (False, False)"
  using assms by (simp add: checkFeeReorg_def listEvidence_def seqH_def readH_def liftH_def throw_def
      fetchTransactionConfirmationStatus_def fetchTransactionExistence_def require_ok_def is_ok_def)

definition demo_gone :: explorer where
  "demo_gone = (demo_explorer 0)\<lparr>ex_status := (\<lambda>_ _. Answer 404 (False, None))\<rparr>"

lemma demo_gone_read: "explorer_read (ex_status demo_gone txid) = Inr (404, False, None)"
  by (simp add: demo_gone_def explorer_read_def boundedFetch_def EXPLORER_READ_RETRY_def boundedFetch_loop.simps is_ok_def Let_def)

theorem vanished_fee_is_not_reverted_witness:
  "snd (checkFeeReorg demo_bitcoin 100 demo_gone 20 (''o'', demo_obligation)
     (demo_fee\<lparr>evidence := [(new_evidence ''o'' CONFIRMED ''f'')\<lparr>fe_confirmedAtHeight := Some 10\<rparr>]\<rparr>))
   = demo_fee\<lparr>evidence := [(new_evidence ''o'' CONFIRMED ''f'')\<lparr>fe_confirmedAtHeight := Some 10\<rparr>]\<rparr>"
proof -
  let ?e = "(new_evidence ''o'' CONFIRMED ''f'')\<lparr>fe_confirmedAtHeight := Some 10\<rparr>"
  have "last_of_kind CONFIRMED (evidence_of ''o'' (demo_fee\<lparr>evidence := [?e]\<rparr>)) = Some ?e" "fe_txid ?e = Some ''f''" "fe_confirmedAtHeight ?e = Some 10"
    by (simp_all add: last_of_kind_def evidence_of_def new_evidence_def)
  from vanished_fee_is_not_reverted [OF this(1,2) _ this(3), of 20 100 demo_gone "(False, None)"] show ?thesis
    by (simp add: demo_gone_read)
qed

end
