(* ===== verification/Settlement_Reconciliation.thy ===== *)
theory Settlement_Reconciliation
  imports Chain_Sweeps
begin

text \<open>
  Recovery of settlements that a crash has interrupted: \<^verbatim>\<open>escrow-settlement-reconciliation.service.ts\<close> with
  \<^verbatim>\<open>reconcilePendingSettlement\<close> of \<^verbatim>\<open>multisig.provider.ts\<close> and the two queries of
  \<^verbatim>\<open>escrow-repository.ts\<close>. The job has three passes: fully signed transactions nobody has claimed, settled
  escrows without a transaction id, and settled escrows whose completion effects are missing. Every transaction handed
  to the explorer is appended to \<open>broadcasts\<close>, whatever the explorer answers.
\<close>

section \<open>What the chain knows\<close>

datatype reconcile_result = ALREADY_BROADCAST string string | NEWLY_BROADCAST string string | ANOMALY

definition stillUnspent :: "escrow_row \<Rightarrow> explorer_utxo list \<Rightarrow> bool" where
  "stillUnspent r utxos =
     (case er_txLockVout r of
        Some vout \<Rightarrow> list_ex (\<lambda>u. Some (ux_txid u) = er_txLockId r \<and> ux_vout u = vout) utxos
      | None \<Rightarrow> list_ex (\<lambda>u. Some (ux_txid u) = er_txLockId r) utxos)"

definition broadcastRaw :: "explorer \<Rightarrow> string \<Rightarrow> string recon" where
  "broadcastRaw ex raw =
     seqH (writeH (\<lambda>s. s\<lparr>broadcasts := broadcasts s @ [raw]\<rparr>)) (\<lambda>_. liftH (broadcast ex raw))"

definition reconcilePendingSettlement ::
    "bitcoin_env \<Rightarrow> explorer \<Rightarrow> multisig_input \<Rightarrow> string \<Rightarrow> string list \<Rightarrow> unit recon \<Rightarrow> reconcile_result recon" where
  "reconcilePendingSettlement benv ex inp unsignedPsbtBase64 signed beforeFirstBroadcast =
     seqH (liftH (buildFinalizedTransaction benv unsignedPsbtBase64 signed)) (\<lambda>(expectedTxId, rawTxHex).
     seqH (liftH (fetchTransactionExistence ex expectedTxId)) (\<lambda>(there, _).
       if there then ret (ALREADY_BROADCAST expectedTxId rawTxHex)
       else if \<not> truthy (er_txLockId (mi_row inp)) then ret ANOMALY
       else
       seqH (liftH (partiesFor inp)) (\<lambda>parties.
       seqH (liftH (buildScript benv parties)) (\<lambda>(_, address).
         if address = [] then ret ANOMALY
         else
         seqH (liftH (fetchUtxos ex address)) (\<lambda>utxos.
           if stillUnspent (mi_row inp) utxos
           then seqH beforeFirstBroadcast (\<lambda>_.
                seqH (broadcastRaw ex rawTxHex) (\<lambda>_. ret (NEWLY_BROADCAST expectedTxId rawTxHex)))
           else ret ANOMALY)))))"

definition recon_input :: "escrow_row \<Rightarrow> trade_row \<Rightarrow> string option \<times> string option \<times> string option \<Rightarrow> multisig_input" where
  "recon_input r t keys =
     \<lparr>mi_row = r, mi_pubkeys = keys, mi_buyerId = Some (t_buyerId t), mi_sellerId = Some (t_sellerId t), mi_triggeredBy = None\<rparr>"

section \<open>Completion effects\<close>

definition onTables :: "'a settle \<Rightarrow> 'a recon" where
  "onTables m = onSigning (onDisputes (onSettle m))"

definition lastKnownStatus :: "string \<Rightarrow> EscrowStatus \<Rightarrow> recon_state \<Rightarrow> EscrowStatus" where
  "lastKnownStatus i fallback s =
     (let rows = escrow_rows i (tables s) in if rows = [] then fallback else ee_to (body (last rows)))"

definition status_outcome :: "EscrowStatus \<Rightarrow> SettlementOutcome" where
  "status_outcome target = (if target = COMPLETED then O_RELEASE else if target = REFUNDED then O_FULL_REFUND else O_SPLIT)"

definition status_event :: "EscrowStatus \<Rightarrow> string" where
  "status_event target =
     (if target = COMPLETED then ''settlement.escrow.released''
      else if target = REFUNDED then ''settlement.escrow.refunded'' else ''settlement.escrow.split'')"

text \<open>
  The obligation and the evidence of its broadcast. Without an obligation or an address the evidence is not
  written, which here is the same as the refusal that \<open>recordFeeBroadcast\<close> catches.
\<close>

definition recoverObligation ::
    "signing_env \<Rightarrow> string \<Rightarrow> EscrowStatus \<Rightarrow> string \<Rightarrow> escrow_row \<Rightarrow> pending_tx_row option \<Rightarrow> bool recon" where
  "recoverObligation env i target txId escrow pending =
     (if target = EscrowStatus.SPLIT \<and> pending = None then ret True
      else
      let collected = Option.bind pending actual_collection in
      seqH (onTables (recordObligationForEscrowSettlement (sn_settle env) i escrow (status_outcome target)
              (Option.bind pending pt_buyerBps) collected)) (\<lambda>_.
      seqH (case (pending, collected) of
              (Some p, Some (feeSats, waived)) \<Rightarrow>
                if pt_kind p \<noteq> KRefund \<and> \<not> waived then onSigning (recordFeeBroadcast env i escrow p feeSats txId) else ret ()
            | _ \<Rightarrow> ret ()) (\<lambda>_.
        ret False)))"

definition recovery_note :: string where
  "recovery_note = ''Recovered by settlement reconciliation after a process crash''"

definition applyDownstreamCompletionEffects ::
    "signing_env \<Rightarrow> string \<Rightarrow> EscrowStatus \<Rightarrow> string \<Rightarrow> string \<Rightarrow> escrow_row \<Rightarrow> pending_tx_row option \<Rightarrow> string option \<Rightarrow> (bool \<times> bool) recon" where
  "applyDownstreamCompletionEffects env i target triggeredBy txId escrow pending rawTxHex =
     seqH (recoverObligation env i target txId escrow pending) (\<lambda>obligationSkipped.
     seqH (readH (lastKnownStatus i target)) (\<lambda>fromStatus.
     seqH (onTables (emitEscrowTransition (sn_settle env) i (er_tradeId escrow) fromStatus target triggeredBy (status_event target)
             (Some recovery_note))) (\<lambda>emitted.
     seqH (onSigning (recordLiveCorrespondenceIfApplicable env i (er_tradeId escrow) (er_type escrow) rawTxHex)) (\<lambda>_.
     seqH (case pending of None \<Rightarrow> ret () | Some p \<Rightarrow> catchH (onSigning (deletePending (pt_id p))) (\<lambda>_. ret ())) (\<lambda>_.
       ret (obligationSkipped, emitted))))))"

section \<open>Pass 0: signed but not claimed\<close>

datatype recovery_report =
    StillCollecting | NeedsManualReview | ClaimedConcurrently | ResumedUnclaimed reconcile_result
  | RecoveredTx reconcile_result | EffectsRecovered bool | NothingMissing

definition settled_statuses :: "EscrowStatus list" where
  "settled_statuses = [COMPLETED, REFUNDED, EscrowStatus.SPLIT]"

definition all_signed :: "pending_tx_row \<Rightarrow> (string \<times> string) list \<Rightarrow> bool" where
  "all_signed p sigs \<longleftrightarrow> list_all (\<lambda>who. map_of sigs who \<noteq> None) (pt_requiredSigners p)"

definition authorizeBroadcast :: "signing_env \<Rightarrow> pending_tx_row \<Rightarrow> unit recon" where
  "authorizeBroadcast env p =
     seqH (onSigning (onDisputes (authorizeDisputedPendingExecution (sn_dispute env) p))) (\<lambda>_.
     seqH (onSigning (authorizePendingExecution env p)) (\<lambda>_. ret ()))"

definition settled_tx :: "reconcile_result \<Rightarrow> (string \<times> string) option" where
  "settled_tx result = (case result of ALREADY_BROADCAST t raw \<Rightarrow> Some (t, raw) | NEWLY_BROADCAST t raw \<Rightarrow> Some (t, raw) | ANOMALY \<Rightarrow> None)"

definition claimUnlessTaken :: "signing_env \<Rightarrow> string \<Rightarrow> EscrowStatus \<Rightarrow> EscrowStatus \<Rightarrow> bool recon" where
  "claimUnlessTaken env i from to =
     catchH (seqH (onTables (claimEscrowTransition (sn_settle env) i from to)) (\<lambda>_. ret True))
       (\<lambda>err. if err = EscrowError ''already transitioned by a concurrent request'' then ret False else throw err)"

text \<open>What follows the answer of the chain.\<close>

definition recordResumed :: "signing_env \<Rightarrow> pending_tx_row \<Rightarrow> escrow_row \<Rightarrow> reconcile_result \<Rightarrow> recovery_report recon" where
  "recordResumed env p escrow result =
     (case settled_tx result of
        None \<Rightarrow> ret NeedsManualReview
      | Some (txId, rawTxHex) \<Rightarrow>
          seqH (claimUnlessTaken env (pt_escrowId p) (er_status escrow) (target_status (pt_kind p))) (\<lambda>claimed.
            if \<not> claimed then ret ClaimedConcurrently
            else
            seqH (readH (\<lambda>s. clock (tables s))) (\<lambda>now.
            seqH (onTables (updateSignatureCollectionResult (pt_escrowId p) txId
                    (if target_status (pt_kind p) = REFUNDED then None else Some now))) (\<lambda>_.
            seqH (applyDownstreamCompletionEffects env (pt_escrowId p) (target_status (pt_kind p)) (pt_triggeredBy p) txId escrow
                    (Some p) (Some rawTxHex)) (\<lambda>_.
              ret (ResumedUnclaimed result))))))"

definition resumeUnclaimed ::
    "bitcoin_env \<Rightarrow> signing_env \<Rightarrow> explorer \<Rightarrow> pending_tx_row \<times> (string \<times> string) list \<times> escrow_row \<Rightarrow> recovery_report recon" where
  "resumeUnclaimed benv env ex candidate =
     (case candidate of (p, sigs, escrow) \<Rightarrow>
      if \<not> all_signed p sigs then ret StillCollecting
      else
      seqH (onTables (findTrade (er_tradeId escrow))) (\<lambda>found.
        case found of
          None \<Rightarrow> ret NeedsManualReview
        | Some trade \<Rightarrow>
            seqH (onTables (loadParticipantPubkeys (pt_escrowId p))) (\<lambda>keys.
            seqH (reconcilePendingSettlement benv ex (recon_input escrow trade keys) (pt_unsignedPsbtBase64 p)
                    (signedList (pt_requiredSigners p) sigs) (authorizeBroadcast env p))
              (recordResumed env p escrow))))"

definition unclaimed_candidates :: "recon_state \<Rightarrow> (pending_tx_row \<times> (string \<times> string) list \<times> escrow_row) list" where
  "unclaimed_candidates s =
     List.map_filter (\<lambda>p. case escrows (tables s) (pt_escrowId p) of
        Some r \<Rightarrow> if er_type r = MULTISIG \<and> er_status r \<notin> set settled_statuses then Some (p, signatures_of (pt_id p) (sg s), r) else None
      | None \<Rightarrow> None) (pending_txs (sd (sg s)))"

section \<open>Pass 1: settled without a transaction id\<close>

definition setReleaseIdOnce :: "string \<Rightarrow> EscrowStatus \<Rightarrow> string \<Rightarrow> bool settle" where
  "setReleaseIdOnce i target txId =
     withEscrowFundingLock
       (seqH (findEscrow i) (\<lambda>fresh.
          case fresh of
            None \<Rightarrow> ret False
          | Some r \<Rightarrow>
              if er_txReleaseId r \<noteq> None then ret False
              else
              seqH (readH clock) (\<lambda>now.
              seqH (updateSignatureCollectionResult i txId (if target = REFUNDED then None else Some now)) (\<lambda>_. ret True))))"

definition reconcileTxReleaseId :: "bitcoin_env \<Rightarrow> signing_env \<Rightarrow> explorer \<Rightarrow> string \<times> escrow_row \<Rightarrow> recovery_report recon" where
  "reconcileTxReleaseId benv env ex candidate =
     (let i = fst candidate; escrow = snd candidate in
      if er_type escrow \<noteq> MULTISIG then ret NeedsManualReview
      else
      seqH (readH (\<lambda>s. map_option (\<lambda>p. (p, signatures_of (pt_id p) (sg s))) (pending_of i (sg s)))) (\<lambda>pending.
        case pending of
          None \<Rightarrow> ret NeedsManualReview
        | Some (p, sigs) \<Rightarrow>
            let target = target_status (pt_kind p) in
            if target \<noteq> er_status escrow \<or> \<not> all_signed p sigs then ret NeedsManualReview
            else
            seqH (onTables (findTrade (er_tradeId escrow))) (\<lambda>found.
              case found of
                None \<Rightarrow> ret NeedsManualReview
              | Some trade \<Rightarrow>
                  seqH (onTables (loadParticipantPubkeys i)) (\<lambda>keys.
                  seqH (reconcilePendingSettlement benv ex (recon_input escrow trade keys) (pt_unsignedPsbtBase64 p)
                          (signedList (pt_requiredSigners p) sigs) (ret ())) (\<lambda>result.
                    case settled_tx result of
                      None \<Rightarrow> ret NeedsManualReview
                    | Some (txId, rawTxHex) \<Rightarrow>
                        seqH (onTables (setReleaseIdOnce i target txId)) (\<lambda>_.
                        seqH (applyDownstreamCompletionEffects env i target (pt_triggeredBy p) txId escrow (Some p) (Some rawTxHex)) (\<lambda>_.
                          ret (RecoveredTx result))))))))"

definition findTerminal :: "(string option \<Rightarrow> bool) \<Rightarrow> settlement_state \<Rightarrow> (string \<times> escrow_row) list" where
  "findTerminal P s =
     List.map_filter (\<lambda>i. case escrows s i of
        Some r \<Rightarrow> if er_status r \<in> set settled_statuses \<and> P (er_txReleaseId r) then Some (i, r) else None
      | None \<Rightarrow> None) (escrow_ids s)"

section \<open>Pass 2: missing completion effects\<close>

definition exactTransaction :: "bitcoin_env \<Rightarrow> explorer \<Rightarrow> string \<Rightarrow> escrow_row \<Rightarrow> string option recon" where
  "exactTransaction benv ex i escrow =
     seqH (readH (\<lambda>s. map_option (\<lambda>p. (p, signatures_of (pt_id p) (sg s))) (pending_of i (sg s)))) (\<lambda>pending.
       case pending of
         None \<Rightarrow> ret None
       | Some (p, sigs) \<Rightarrow>
           if \<not> all_signed p sigs then ret None
           else catchH
             (seqH (onTables (findTrade (er_tradeId escrow))) (\<lambda>found.
                case found of
                  None \<Rightarrow> ret None
                | Some trade \<Rightarrow>
                    seqH (onTables (loadParticipantPubkeys i)) (\<lambda>keys.
                    seqH (reconcilePendingSettlement benv ex (recon_input escrow trade keys) (pt_unsignedPsbtBase64 p)
                            (signedList (pt_requiredSigners p) sigs) (ret ())) (\<lambda>result.
                      ret (map_option snd (settled_tx result))))))
             (\<lambda>_. ret None))"

definition reconcileMissingCompletionEffects ::
    "bitcoin_env \<Rightarrow> signing_env \<Rightarrow> explorer \<Rightarrow> string \<times> escrow_row \<Rightarrow> recovery_report recon" where
  "reconcileMissingCompletionEffects benv env ex candidate =
     (let i = fst candidate; escrow = snd candidate in
      seqH (readH (\<lambda>s. already_emitted i (er_status escrow) (tables s))) (\<lambda>alreadyEmitted.
      seqH (if er_type escrow = MULTISIG \<and> truthy (er_txReleaseId escrow)
            then seqH (exactTransaction benv ex i escrow) (\<lambda>rawTxHex.
                   onSigning (recordLiveCorrespondenceIfApplicable env i (er_tradeId escrow) (er_type escrow) rawTxHex))
            else ret ()) (\<lambda>_.
        if alreadyEmitted then ret NothingMissing
        else
        seqH (onTables (findTrade (er_tradeId escrow))) (\<lambda>found.
          case found of
            None \<Rightarrow> ret NeedsManualReview
          | Some trade \<Rightarrow>
              seqH (readH (\<lambda>s. pending_of i (sg s))) (\<lambda>pending.
              let triggeredBy = (case pending of Some p \<Rightarrow> pt_triggeredBy p | None \<Rightarrow> t_sellerId trade) in
              seqH (applyDownstreamCompletionEffects env i (er_status escrow) triggeredBy (the (er_txReleaseId escrow)) escrow pending None) (\<lambda>(skipped, _).
                ret (EffectsRecovered skipped)))))))"

section \<open>The job\<close>

text \<open>The explorer may answer differently in every pass and for every escrow.\<close>

definition reconcilePendingSettlements ::
    "bitcoin_env \<Rightarrow> signing_env \<Rightarrow> (nat \<Rightarrow> string \<Rightarrow> explorer) \<Rightarrow> (recovery_report result list \<times> recovery_report result list \<times> recovery_report result list) recon" where
  "reconcilePendingSettlements benv env exs =
     seqH (readH unclaimed_candidates) (\<lambda>unclaimed.
     seqH (each (\<lambda>c. resumeUnclaimed benv env (exs 0 (pt_escrowId (fst c))) c) unclaimed) (\<lambda>resumed.
     seqH (readH (\<lambda>s. findTerminal (\<lambda>x. x = None) (tables s))) (\<lambda>withoutTx.
     seqH (each (\<lambda>c. reconcileTxReleaseId benv env (exs 1 (fst c)) c) withoutTx) (\<lambda>recovered.
     seqH (readH (\<lambda>s. findTerminal (\<lambda>x. x \<noteq> None) (tables s))) (\<lambda>withTx.
     seqH (each (\<lambda>c. reconcileMissingCompletionEffects benv env (exs 2 (fst c)) c) withTx) (\<lambda>effects.
       ret (resumed, recovered, effects)))))))"

end
