(* ===== verification/Reconciliation_Outcomes.thy ===== *)
theory Reconciliation_Outcomes
  imports Settlement_Reconciliation Sweep_Outcomes
begin

text \<open>
  Properties of the recovery of interrupted settlements: what the job may hand to the network, what a resumed
  settlement leaves in the tables, and which publication it cannot repair.
\<close>

section \<open>Handlers on the recovery state\<close>

lemma wp_onSigning [wp_eqs]:
  "wpH (onSigning m) Q E s = wpH m (\<lambda>a g. Q a (s\<lparr>sg := g\<rparr>)) (\<lambda>e g. E e (s\<lparr>sg := g\<rparr>)) (sg s)"
  by (simp add: wpH_def onSigning_def split: prod.split sum.split)

lemma preserves_onSigning: "preserves I m \<Longrightarrow> preserves (\<lambda>s. I (sg s) \<and> broadcasts s = b) (onSigning m)"
  by (auto simp: preserves_def onSigning_def split: prod.splits)

lemma onTables_read: "wpH (onTables (readH f)) Q E s = Q (f (tables s)) s"
  by (simp add: onTables_def wp_eqs tables_def)

section \<open>What is handed to the network\<close>

definition safe_to_send :: "bitcoin_env \<Rightarrow> explorer \<Rightarrow> multisig_input \<Rightarrow> string \<Rightarrow> string list \<Rightarrow> string \<Rightarrow> bool" where
  "safe_to_send benv ex inp unsigned signed raw \<longleftrightarrow>
     (\<exists>txid confirmed parties keys address utxos.
        buildFinalizedTransaction benv unsigned signed = Inr (txid, raw)
        \<and> fetchTransactionExistence ex txid = Inr (False, confirmed)
        \<and> partiesFor inp = Inr parties \<and> buildScript benv parties = Inr (keys, address)
        \<and> fetchUtxos ex address = Inr utxos \<and> stillUnspent (mi_row inp) utxos)"

lemma wp_reconcile:
  assumes "\<And>a. Q a s" and "\<And>e. E e s"
    and "\<And>raw. safe_to_send benv ex inp u signed raw \<Longrightarrow>
      wpH auth (\<lambda>_ s1. (\<forall>a. Q a (s1\<lparr>broadcasts := broadcasts s1 @ [raw]\<rparr>)) \<and> (\<forall>e. E e (s1\<lparr>broadcasts := broadcasts s1 @ [raw]\<rparr>))) E s"
  shows "wpH (reconcilePendingSettlement benv ex inp u signed auth) Q E s"
proof -
  have "wpH (seqH auth (\<lambda>_. seqH (broadcastRaw ex raw) (\<lambda>_. ret (NEWLY_BROADCAST txid raw)))) Q E s"
    if "safe_to_send benv ex inp u signed raw" for txid raw
    unfolding wp_seqH by (rule wpH_mono [OF assms(3) [OF that]]) (simp_all add: broadcastRaw_def wp_eqs split: sum.split)
  then show ?thesis
    by (auto simp: reconcilePendingSettlement_def wp_seqH wp_liftH wp_ret assms(1,2) safe_to_send_def split: sum.split prod.split)
qed

definition kept :: "recon_state \<Rightarrow> recon_state \<Rightarrow> bool" where
  "kept s0 s \<longleftrightarrow> authorized_as (finalize_calls (sg s0)) (dispositions (sd (sg s0))) (capability_auths (sg s0)) (sg s) \<and> broadcasts s = broadcasts s0"

lemma kept_refl [simp]: "kept s s"
  by (simp add: kept_def authorized_as_def)

lemma kept_onSigning [preserves_intros]:
  "preserves (authorized_as (finalize_calls (sg s0)) (dispositions (sd (sg s0))) (capability_auths (sg s0))) m \<Longrightarrow> preserves (kept s0) (onSigning m)"
  using preserves_onSigning [of "authorized_as (finalize_calls (sg s0)) (dispositions (sd (sg s0))) (capability_auths (sg s0))" m "broadcasts s0"]
  by (simp add: kept_def [abs_def])

lemma kept_onTables [preserves_intros]: "preserves (kept s0) (onTables m)"
  unfolding onTables_def by (intro preserves_intros)

lemma preserves_collected [preserves_intros]:
  "(\<And>p fee waived. preserves I (f p fee waived)) \<Longrightarrow> preserves I m \<Longrightarrow>
   preserves I (case (x, y) of (Some p, Some (fee, waived)) \<Rightarrow> f p fee waived | _ \<Rightarrow> m)"
  by (auto split: option.split)

lemma kept_effects: "preserves (kept s0) (applyDownstreamCompletionEffects env i target who txId r pending raw)"
  unfolding applyDownstreamCompletionEffects_def recoverObligation_def Let_def by (intro preserves_intros)

lemma kept_claim: "preserves (kept s0) (claimUnlessTaken env i from to)"
  unfolding claimUnlessTaken_def by (intro preserves_intros)

text \<open>What a candidate may have handed to the network in the states from \<open>s\<close> to \<open>s'\<close>, with the authorizations on record.\<close>

definition authorized_send ::
    "bitcoin_env \<Rightarrow> signing_env \<Rightarrow> explorer \<Rightarrow> pending_tx_row \<Rightarrow> (string \<times> string) list \<Rightarrow> escrow_row \<Rightarrow> recon_state \<Rightarrow> recon_state \<Rightarrow> bool" where
  "authorized_send benv env ex p sigs r s s' \<longleftrightarrow>
     (\<exists>raw trade keys. trades (tables s) (er_tradeId r) = Some trade
        \<and> safe_to_send benv ex (recon_input r trade keys) (pt_unsignedPsbtBase64 p) (signedList (pt_requiredSigners p) sigs) raw
        \<and> broadcasts s' = broadcasts s @ [raw]
        \<and> disposition_committed (sn_dispute env) p (sd (sg s)) (sd (sg s'))
        \<and> capability_committed env p (capability_auths (sg s')))"

lemma authorized_kept: "authorized_send benv env ex p sigs r s s1 \<Longrightarrow> kept s1 s' \<Longrightarrow> authorized_send benv env ex p sigs r s s'"
  using disposition_cong [of "sd (sg s')" "sd (sg s1)"] by (simp add: authorized_send_def kept_def authorized_as_def)

lemma wp_authorize:
  "wpH (authorizeBroadcast env p)
     (\<lambda>_ s1. disposition_committed (sn_dispute env) p (sd (sg s)) (sd (sg s1)) \<and> capability_committed env p (capability_auths (sg s1)) \<and> broadcasts s1 = broadcasts s)
     (\<lambda>_ s1. broadcasts s1 = broadcasts s) s"
proof -
  have "wpH (onSigning (authorizePendingExecution env p))
     (\<lambda>_ s1. disposition_committed (sn_dispute env) p (sd (sg s)) (sd (sg s1)) \<and> capability_committed env p (capability_auths (sg s1)) \<and> broadcasts s1 = broadcasts s)
     (\<lambda>_ s1. broadcasts s1 = broadcasts s) (s\<lparr>sg := g\<rparr>)" if "disposition_committed (sn_dispute env) p (sd (sg s)) (sd g)" for g
    unfolding wp_onSigning using wp_capability [of env p g] that
    by (auto elim!: wpH_mono simp: disposition_committed_def split: option.splits)
  then show ?thesis
    unfolding authorizeBroadcast_def wp_seqH wp_ret wp_onSigning [of "onDisputes _"] wp_onDisputes
    by (auto intro!: wpH_mono [OF wp_disposition])
qed

lemma wp_resume:
  "wpH (resumeUnclaimed benv env ex (p, sigs, r))
     (\<lambda>_ s'. broadcasts s' = broadcasts s \<or> all_signed p sigs \<and> authorized_send benv env ex p sigs r s s')
     (\<lambda>_ s'. broadcasts s' = broadcasts s \<or> all_signed p sigs \<and> authorized_send benv env ex p sigs r s s') s"
proof -
  define J where "J s' \<longleftrightarrow> broadcasts s' = broadcasts s \<or> all_signed p sigs \<and> authorized_send benv env ex p sigs r s s'" for s'
  have J_kept: "preserves J m" if "\<And>s0. preserves (kept s0) m" for m :: "'a recon"
    unfolding preserves_def
  proof safe
    fix t assume "J t"
    moreover have "kept t (snd (m t))" using that [of t] by (simp add: preserves_def)
    ultimately show "J (snd (m t))" using authorized_kept [of benv env ex p sigs r s t "snd (m t)"] by (auto simp: J_def kept_def)
  qed
  note rules = preserves_intros J_kept kept_effects kept_claim kept_onTables
  have rest: "preserves J (recordResumed env p r result)" for result
    unfolding recordResumed_def by (intro rules)
  have send: "wpH (reconcilePendingSettlement benv ex (recon_input r trade keys) (pt_unsignedPsbtBase64 p)
      (signedList (pt_requiredSigners p) sigs) (authorizeBroadcast env p)) (\<lambda>_. J) (\<lambda>_. J) s"
    if "all_signed p sigs" and "trades (tables s) (er_tradeId r) = Some trade" for trade keys
  proof (rule wp_reconcile)
    fix raw assume "safe_to_send benv ex (recon_input r trade keys) (pt_unsignedPsbtBase64 p) (signedList (pt_requiredSigners p) sigs) raw"
    then have "J (s1\<lparr>broadcasts := broadcasts s1 @ [raw]\<rparr>)"
      if "disposition_committed (sn_dispute env) p (sd (sg s)) (sd (sg s1))" "capability_committed env p (capability_auths (sg s1))" "broadcasts s1 = broadcasts s" for s1
      using \<open>all_signed p sigs\<close> \<open>trades (tables s) (er_tradeId r) = Some trade\<close> that unfolding J_def authorized_send_def by (intro disjI2 conjI exI) auto
    then show "wpH (authorizeBroadcast env p) (\<lambda>_ s1. (\<forall>a :: reconcile_result. J (s1\<lparr>broadcasts := broadcasts s1 @ [raw]\<rparr>)) \<and> (\<forall>e :: sails_error. J (s1\<lparr>broadcasts := broadcasts s1 @ [raw]\<rparr>))) (\<lambda>_. J) s"
      by (auto intro!: wpH_mono [OF wp_authorize]) (simp add: J_def)
  qed (simp_all add: J_def)
  have "wpH (resumeUnclaimed benv env ex (p, sigs, r)) (\<lambda>_. J) (\<lambda>_. J) s"
    by (auto simp: resumeUnclaimed_def Let_def wp_seqH [where m = "onTables _"] findTrade_def loadParticipantPubkeys_def onTables_read wp_ret J_def [of s]
        wp_seqH [where m = "reconcilePendingSettlement _ _ _ _ _ _"] split: option.split
        intro!: wpH_mono [OF send] preserves_wp [OF rest])
  then show ?thesis by (simp add: J_def [abs_def])
qed

text \<open>
  C15: the recovery sends only what was authorized. When the job hands a transaction of an unclaimed settlement to
  the network, every required signer has signed it, the explorer does not know it, the funding is still unspent, a
  disputed one has its committed disposition with the digest of exactly this operation, and where capabilities are enforced the
  execution authorization of this operation is on record; and it is handed over once.
\<close>

theorem recovery_broadcast_is_authorized:
  assumes "resumeUnclaimed benv env ex (p, sigs, r) s = (res, s')" and "broadcasts s' \<noteq> broadcasts s"
  shows "all_signed p sigs \<and> authorized_send benv env ex p sigs r s s'"
  using wpH_snd [OF wp_resume [of benv env ex p sigs r s]] assms by simp

section \<open>The whole job\<close>

definition job_sends :: "bitcoin_env \<Rightarrow> (nat \<Rightarrow> string \<Rightarrow> explorer) \<Rightarrow> string \<Rightarrow> bool" where
  "job_sends benv exs raw \<longleftrightarrow>
     (\<exists>n i p sigs r trade keys. all_signed p sigs
        \<and> safe_to_send benv (exs n i) (recon_input r trade keys) (pt_unsignedPsbtBase64 p) (signedList (pt_requiredSigners p) sigs) raw)"

definition sent_since :: "(string \<Rightarrow> bool) \<Rightarrow> string list \<Rightarrow> recon_state \<Rightarrow> bool" where
  "sent_since P b s \<longleftrightarrow> (\<exists>new. broadcasts s = b @ new \<and> list_all P new)"

lemma sent_onSigning [preserves_intros]: "preserves (sent_since P b) (onSigning m)"
  by (auto simp: preserves_def onSigning_def sent_since_def split: prod.splits)

lemma sent_onTables [preserves_intros]: "preserves (sent_since P b) (onTables m)"
  unfolding onTables_def by (intro preserves_intros)

lemma sent_effects [preserves_intros]:
  "preserves (sent_since P b) (applyDownstreamCompletionEffects env i target who txId r pending raw)"
  "preserves (sent_since P b) (claimUnlessTaken env i from to)" "preserves (sent_since P b) (authorizeBroadcast env p)"
  unfolding applyDownstreamCompletionEffects_def recoverObligation_def claimUnlessTaken_def authorizeBroadcast_def Let_def
  by (intro preserves_intros)+

lemma sent_more: "sent_since P b s \<Longrightarrow> P raw \<Longrightarrow> sent_since P b (s\<lparr>broadcasts := broadcasts s @ [raw]\<rparr>)"
  by (auto simp: sent_since_def)

lemma sent_reconcile [preserves_intros]:
  assumes "\<And>raw. safe_to_send benv ex inp u signed raw \<Longrightarrow> P raw" and "preserves (sent_since P b) auth"
  shows "preserves (sent_since P b) (reconcilePendingSettlement benv ex inp u signed auth)"
proof -
  have "wpH (reconcilePendingSettlement benv ex inp u signed auth) (\<lambda>_. sent_since P b) (\<lambda>_. sent_since P b) s" if "sent_since P b s" for s
    using that assms(1) by (intro wp_reconcile) (auto intro!: wpH_mono [OF preserves_wp [OF assms(2)]] sent_more)
  then show ?thesis by (simp add: preserves_def wpH_snd)
qed

lemma sent_job: "preserves (sent_since (job_sends benv exs) b) (reconcilePendingSettlements benv env exs)"
proof -
  have safe: "job_sends benv exs raw"
    if "safe_to_send benv (exs n i) (recon_input r trade keys) (pt_unsignedPsbtBase64 p) (signedList (pt_requiredSigners p) sigs) raw"
      and "all_signed p sigs" for n i p sigs r trade keys raw
    unfolding job_sends_def using that by (intro exI conjI)
  have "preserves (sent_since (job_sends benv exs) b) (resumeUnclaimed benv env (exs 0 i) c)" for i c
    unfolding resumeUnclaimed_def recordResumed_def Let_def by (intro preserves_intros) (rule safe, assumption, simp)
  moreover have "preserves (sent_since (job_sends benv exs) b) (reconcileTxReleaseId benv env (exs 1 i) c)" for i c
    unfolding reconcileTxReleaseId_def Let_def by (intro preserves_intros) (rule safe, assumption, simp)
  moreover have "preserves (sent_since (job_sends benv exs) b) (reconcileMissingCompletionEffects benv env (exs 2 i) c)" for i c
    unfolding reconcileMissingCompletionEffects_def exactTransaction_def Let_def by (intro preserves_intros) (rule safe, assumption, simp)
  ultimately show ?thesis unfolding reconcilePendingSettlements_def by (intro preserves_intros)
qed


section \<open>What a resumed settlement leaves\<close>

text \<open>The escrow rows, the event log and the published settlement events.\<close>

definition rows_as :: "(string \<rightharpoonup> escrow_row) \<Rightarrow> escrow_event list \<Rightarrow> (string \<times> string) list \<Rightarrow> dispute_state \<Rightarrow> bool" where
  "rows_as rs evs bus d \<longleftrightarrow> escrows (settlement d) = rs \<and> escrow_events (settlement d) = evs \<and> settle_bus (settlement d) = bus"

abbreviation job_rows :: "(string \<rightharpoonup> escrow_row) \<Rightarrow> escrow_event list \<Rightarrow> (string \<times> string) list \<Rightarrow> recon_state \<Rightarrow> bool" where
  "job_rows rs evs bus \<equiv> \<lambda>s. rows_as rs evs bus (sd (sg s))"

lemma rows_signing [preserves_intros]: "preserves (\<lambda>g. I (sd g)) m \<Longrightarrow> preserves (\<lambda>s. I (sd (sg s))) (onSigning m)"
  by (auto simp: preserves_def onSigning_def split: prod.splits)

lemma rows_disputes [preserves_intros]: "preserves I m \<Longrightarrow> preserves (\<lambda>g. I (sd g)) (onDisputes m)"
  by (auto simp: preserves_def onDisputes_def split: prod.splits)

lemma rows_fault [preserves_intros]: "preserves (rows_as rs evs bus) (onSettle (dbWrite tag (\<lambda>b. b)))"
  by (simp add: preserves_def onSettle_def onBase_def dbWrite_def rows_as_def settlement_def split: list.split bool.split)

lemma rows_step [preserves_intros]:
  "(\<And>d. rows_as rs evs bus d \<Longrightarrow> rows_as rs evs bus (f d)) \<Longrightarrow> preserves (rows_as rs evs bus) (dbStep tag f)"
  unfolding dbStep_def by (intro preserves_intros)

lemma rows_stepS [preserves_intros]:
  "(\<And>g. rows_as rs evs bus (sd g) \<Longrightarrow> rows_as rs evs bus (sd (f g))) \<Longrightarrow> preserves (\<lambda>g. rows_as rs evs bus (sd g)) (dbStepS tag f)"
  unfolding dbStepS_def by (intro preserves_intros)

lemma rows_correspondence [preserves_intros]:
  "preserves (\<lambda>g. rows_as rs evs bus (sd g)) (recordLiveCorrespondenceIfApplicable env i tid ty raw)"
  unfolding recordLiveCorrespondenceIfApplicable_def recordLiveCorrespondence_def claimCorrespondenceEvaluation_def publishD_def loadDisputeRulingRecord_def
  by (intro preserves_intros; simp add: rows_as_def)

lemma rows_delete [preserves_intros]: "preserves (\<lambda>g. rows_as rs evs bus (sd g)) (deletePending pid)"
  unfolding deletePending_def by (intro preserves_intros; simp add: rows_as_def)

interpretation frozen_rows: bookkeeping_client "\<lambda>s. escrows s = rs" env for rs env
  by unfold_locales (simp_all add: log_event_def obligation_frame_fields)

text \<open>The escrow rows alone, seen from every layer of the state.\<close>

lemma escrows_onTables [preserves_intros]: "preserves (\<lambda>b. escrows b = rs) m \<Longrightarrow> preserves (\<lambda>s. escrows (tables s) = rs) (onTables m)"
  by (auto simp: preserves_def onTables_def onSigning_def onDisputes_def onSettle_def onBase_def tables_def settlement_def split: prod.splits)

lemma escrows_revenue: "preserves (\<lambda>v. escrows (base v) = rs) (recordBroadcastAndAdvance senv oid ev)"
proof -
  have "wpH (recordBroadcastAndAdvance senv oid ev) (\<lambda>_ v. escrows (base v) = rs) (\<lambda>_ v. escrows (base v) = rs) v" if "escrows (base v) = rs" for v
    using that by (auto simp: recordBroadcastAndAdvance_def recordEvidence_def transitionCollectionStatus_def claimCollectionStatus_def inserted_def
        wp_eqs split: list.split bool.split option.split)
  then show ?thesis by (simp add: preserves_def wpH_snd_iff [of "\<lambda>v. escrows (base v) = rs"])
qed

lemma escrows_fee: "preserves (\<lambda>g. escrows (settlement (sd g)) = rs) (recordFeeBroadcast env i r p fee txId)"
proof -
  have "preserves (\<lambda>d. escrows (settlement d) = rs) (onRevenue (recordBroadcastAndAdvance senv oid ev))" for senv oid ev
    using escrows_revenue [of rs senv oid ev] by (auto simp: preserves_def onRevenue_def settlement_def split: prod.splits)
  moreover have "preserves (\<lambda>d. escrows (settlement d) = rs) (onSettle (readH f))" for f
    by (simp add: preserves_def onSettle_def onBase_def readH_def settlement_def)
  ultimately show ?thesis
    unfolding recordFeeBroadcast_def by (intro preserves_intros rows_disputes [where I = "\<lambda>d. escrows (settlement d) = rs"])
qed

lemma escrows_obligation: "preserves (\<lambda>s. escrows (tables s) = rs) (recoverObligation env i target txId r pending)"
proof -
  have "preserves (\<lambda>s. escrows (tables s) = rs) (onSigning (recordFeeBroadcast env i r p fee txId))" for p fee
    using escrows_fee [of rs env i r p fee txId] by (auto simp: preserves_def onSigning_def tables_def split: prod.splits)
  then show ?thesis
    unfolding recoverObligation_def Let_def by (intro preserves_intros frozen_rows.preserves_record)
qed

lemma emitted_logged: "already_emitted i to (log_event env i st to who nt b)"
  by (simp add: already_emitted_def escrow_rows_log escrow_chain.appended_def Let_def)

lemma wp_emit_logged:
  "wpH (emitEscrowTransition senv i tid st to who ev nt)
     (\<lambda>_ b'. escrows b' = escrows b \<and> already_emitted i to b') (\<lambda>_ _. True) b"
proof -
  have publish: "wpH (dbWrite ''eventBus'' (publish_event ev tid)) (\<lambda>_ b'. escrows b' = escrows b \<and> already_emitted i to b') (\<lambda>_ _. True) c"
    if "escrows c = escrows b" "already_emitted i to c" for c
    using that by (auto simp: wp_dbWrite publish_event_def already_emitted_def escrow_rows_def split: list.split bool.split)
  have "escrows (log_event senv i st to who nt c) = escrows c" for c by (simp add: log_event_def)
  then show ?thesis
    by (simp add: wp_emitEscrowTransition wp_dbWrite [of "''escrowEvent''"] publish emitted_logged split: list.split bool.split)
qed

lemma wp_effects:
  "wpH (applyDownstreamCompletionEffects env i target who txId r pending raw)
     (\<lambda>_ s'. escrows (tables s') = escrows (tables s) \<and> already_emitted i target (tables s')) (\<lambda>_ _. True) s"
proof -
  let ?R = "\<lambda>s'. escrows (tables s') = escrows (tables s)"
  have last: "wpH (seqH (onSigning (recordLiveCorrespondenceIfApplicable env i tid ty raw)) (\<lambda>_.
      seqH (case pending of None \<Rightarrow> ret () | Some p \<Rightarrow> catchH (onSigning (deletePending (pt_id p))) (\<lambda>_. ret ())) (\<lambda>_. ret x)))
      (\<lambda>_ s'. ?R s' \<and> already_emitted i target (tables s')) (\<lambda>_ _. True) t"
    if "?R t" and "already_emitted i target (tables t)" for t tid ty and x :: "bool \<times> bool"
  proof -
    have "preserves (job_rows (escrows (tables t)) (escrow_events (tables t)) (settle_bus (tables t)))
       (seqH (onSigning (recordLiveCorrespondenceIfApplicable env i tid ty raw)) (\<lambda>_.
        seqH (case pending of None \<Rightarrow> ret () | Some p \<Rightarrow> catchH (onSigning (deletePending (pt_id p))) (\<lambda>_. ret ())) (\<lambda>_. ret x)))"
      by (intro preserves_intros)
    from preserves_wp [OF this, of t] show ?thesis
      by (rule wpH_mono) (use that in \<open>auto simp: rows_as_def tables_def already_emitted_def escrow_rows_def\<close>)
  qed
  have emit: "wpH (onTables (emitEscrowTransition senv i tid st target who ev nt)) (\<lambda>_ s'. ?R s' \<and> already_emitted i target (tables s')) (\<lambda>_ _. True) t"
    if "?R t" for t senv tid st ev nt
    using that wp_emit_logged [of senv i tid st target who ev nt "tables t"]
    by (auto elim!: wpH_mono simp: onTables_def wp_onSigning wp_onDisputes wp_onSettle tables_def settlement_def)
  have "wpH (recoverObligation env i target txId r pending) (\<lambda>_. ?R) (\<lambda>_. ?R) s"
    by (rule preserves_wp [OF escrows_obligation]) simp
  then show ?thesis
    unfolding applyDownstreamCompletionEffects_def wp_seqH [where m = "recoverObligation _ _ _ _ _ _"] wp_seqH [where m = "readH _"] wp_readH
      wp_seqH [where m = "onTables _"]
    by (rule wpH_mono) (auto intro!: wpH_mono [OF emit] last)
qed

lemma wp_claimUnlessTaken:
  "wpH (claimUnlessTaken env i st to)
     (\<lambda>claimed s'. claimed \<longrightarrow> (\<exists>row. escrows (tables s') i = Some row \<and> er_status row = to)) (\<lambda>_ _. True) s"
proof -
  have claim: "wpH (claimEscrowTransition senv i st to) (\<lambda>_ b'. \<exists>row. escrows b' i = Some row \<and> er_status row = to) (\<lambda>_ _. True) b" for senv b
    by (auto simp: claimEscrowTransition_def wp_eqs claimEscrowStatus_def split: option.split)
  then show ?thesis
    by (auto simp: claimUnlessTaken_def onTables_def wp_catchH wp_seqH wp_onSigning wp_onDisputes wp_onSettle wp_ret wp_throw tables_def settlement_def
        intro!: wpH_mono [OF claim])
qed

lemma wpH_top [simp]: "wpH m (\<lambda>_ _. True) (\<lambda>_ _. True) = (\<lambda>_. True)"
  by (simp add: wpH_def fun_eq_iff split: prod.split sum.split)

lemma wp_setRelease:
  "escrows (tables s) i = Some row \<Longrightarrow>
   wpH (onTables (updateSignatureCollectionResult i txId moment))
     (\<lambda>_ s'. \<exists>row'. escrows (tables s') i = Some row' \<and> er_status row' = er_status row \<and> er_txReleaseId row' = Some txId) (\<lambda>_ _. True) s"
  by (auto simp: onTables_def updateSignatureCollectionResult_def set_escrow_def wp_eqs tables_def settlement_def split: list.split bool.split)

lemma reconciled_tx:
  "wpH (reconcilePendingSettlement benv ex inp u signed auth)
     (\<lambda>a _. \<forall>tx. settled_tx a = Some tx \<longrightarrow> buildFinalizedTransaction benv u signed = Inr tx) (\<lambda>_ _. True) s"
  by (auto simp: reconcilePendingSettlement_def wp_seqH wp_liftH wp_ret settled_tx_def split: sum.split prod.split)

definition settlement_recorded :: "bitcoin_env \<Rightarrow> pending_tx_row \<Rightarrow> (string \<times> string) list \<Rightarrow> reconcile_result \<Rightarrow> recon_state \<Rightarrow> bool" where
  "settlement_recorded benv p sigs result s \<longleftrightarrow>
     (\<exists>txId raw row. settled_tx result = Some (txId, raw)
        \<and> buildFinalizedTransaction benv (pt_unsignedPsbtBase64 p) (signedList (pt_requiredSigners p) sigs) = Inr (txId, raw)
        \<and> escrows (tables s) (pt_escrowId p) = Some row \<and> er_status row = target_status (pt_kind p) \<and> er_txReleaseId row = Some txId
        \<and> already_emitted (pt_escrowId p) (target_status (pt_kind p)) (tables s))"

lemma wp_recordResumed:
  assumes tx: "\<forall>tx. settled_tx result = Some tx \<longrightarrow> buildFinalizedTransaction benv (pt_unsignedPsbtBase64 p) (signedList (pt_requiredSigners p) sigs) = Inr tx"
  shows "wpH (recordResumed env p r result) (\<lambda>a s'. \<forall>result. a = ResumedUnclaimed result \<longrightarrow> settlement_recorded benv p sigs result s') (\<lambda>_ _. True) t"
proof (cases "settled_tx result")
  case (Some pr)
  let ?i = "pt_escrowId p" and ?target = "target_status (pt_kind p)"
  obtain txId raw where pr: "settled_tx result = Some (txId, raw)" using Some by (cases pr) auto
  have effects: "wpH (applyDownstreamCompletionEffects env ?i ?target (pt_triggeredBy p) txId r (Some p) (Some raw))
      (\<lambda>_ s'. settlement_recorded benv p sigs result s') (\<lambda>_ _. True) u"
    if "escrows (tables u) ?i = Some row" "er_status row = ?target" "er_txReleaseId row = Some txId" for u row
    by (rule wpH_mono [OF wp_effects]) (use that pr tx in \<open>auto simp: settlement_recorded_def\<close>)
  have store: "wpH (onTables (updateSignatureCollectionResult ?i txId moment))
      (\<lambda>_. wpH (applyDownstreamCompletionEffects env ?i ?target (pt_triggeredBy p) txId r (Some p) (Some raw))
         (\<lambda>_ s'. settlement_recorded benv p sigs result s') (\<lambda>_ _. True)) (\<lambda>_ _. True) u"
    if "escrows (tables u) ?i = Some row" "er_status row = ?target" for u row moment
    by (rule wpH_mono [OF wp_setRelease [OF that(1)]]) (use that(2) effects in auto)
  show ?thesis
    unfolding recordResumed_def pr option.case prod.case wp_seqH [where m = "claimUnlessTaken _ _ _ _"]
  proof (rule wpH_mono [OF wp_claimUnlessTaken])
    fix claimed u assume "claimed \<longrightarrow> (\<exists>row. escrows (tables u) ?i = Some row \<and> er_status row = ?target)"
    then show "wpH (if \<not> claimed then ret ClaimedConcurrently
        else seqH (readH (\<lambda>s. clock (tables s))) (\<lambda>now.
             seqH (onTables (updateSignatureCollectionResult ?i txId (if ?target = REFUNDED then None else Some now))) (\<lambda>_.
             seqH (applyDownstreamCompletionEffects env ?i ?target (pt_triggeredBy p) txId r (Some p) (Some raw)) (\<lambda>_. ret (ResumedUnclaimed result)))))
        (\<lambda>a s'. \<forall>result. a = ResumedUnclaimed result \<longrightarrow> settlement_recorded benv p sigs result s') (\<lambda>_ _. True) u"
      by (cases claimed) (auto simp: wp_ret wp_seqH wp_readH intro: store split del: if_split)
  qed simp
qed (simp add: recordResumed_def wp_ret)

text \<open>
  C17: a resumed settlement is on record. When the job reports that it has resumed a settlement nobody had claimed,
  the escrow has the status its pending transaction is for, its release id is that of the transaction the signatures finalize to
  (never one the explorer reports), and the transition is in the event log.
\<close>

theorem resumed_settlement_is_recorded:
  assumes run: "resumeUnclaimed benv env ex (p, sigs, r) s = (Inr (ResumedUnclaimed result), s')"
  shows "settlement_recorded benv p sigs result s'"
proof -
  have "wpH (resumeUnclaimed benv env ex (p, sigs, r))
      (\<lambda>a s'. \<forall>result. a = ResumedUnclaimed result \<longrightarrow> settlement_recorded benv p sigs result s') (\<lambda>_ _. True) s"
    by (auto simp: resumeUnclaimed_def Let_def wp_seqH [where m = "onTables _"] findTrade_def loadParticipantPubkeys_def onTables_read wp_ret
        wp_seqH [where m = "reconcilePendingSettlement _ _ _ _ _ _"] split: option.split intro!: wpH_mono [OF reconciled_tx] wp_recordResumed)
  then show ?thesis using run by (simp add: wpH_def)
qed

section \<open>A publication that is lost\<close>

lemma lost_publication_kept:
  "preserves (job_rows rs evs bus) (reconcilePendingSettlement benv ex inp u signed (ret ()))"
  unfolding reconcilePendingSettlement_def broadcastRaw_def by (intro preserves_intros) simp_all

lemma rows_onTables_read [preserves_intros]: "preserves I (onTables (readH f))"
  by (simp add: preserves_def onTables_def onSigning_def onDisputes_def onSettle_def onBase_def readH_def)

lemma wp_already_emitted:
  assumes "already_emitted i (er_status r) (tables s)"
  shows "wpH (reconcileMissingCompletionEffects benv env ex (i, r)) (\<lambda>a s'. a = NothingMissing \<and> escrow_events (tables s') = escrow_events (tables s)
      \<and> settle_bus (tables s') = settle_bus (tables s)) (\<lambda>_ s'. escrow_events (tables s') = escrow_events (tables s) \<and> settle_bus (tables s') = settle_bus (tables s)) s"
proof -
  let ?J = "job_rows (escrows (tables s)) (escrow_events (tables s)) (settle_bus (tables s))"
  have "preserves ?J (if er_type r = MULTISIG \<and> truthy (er_txReleaseId r)
      then seqH (exactTransaction benv ex i r) (\<lambda>rawTxHex. onSigning (recordLiveCorrespondenceIfApplicable env i (er_tradeId r) (er_type r) rawTxHex))
      else ret ())"
    unfolding exactTransaction_def findTrade_def loadParticipantPubkeys_def by (intro preserves_intros lost_publication_kept)
  moreover have "?J s" by (simp add: rows_as_def tables_def)
  ultimately have "wpH (if er_type r = MULTISIG \<and> truthy (er_txReleaseId r)
      then seqH (exactTransaction benv ex i r) (\<lambda>rawTxHex. onSigning (recordLiveCorrespondenceIfApplicable env i (er_tradeId r) (er_type r) rawTxHex))
      else ret ()) (\<lambda>_. ?J) (\<lambda>_. ?J) s"
    by (rule preserves_wp)
  then show ?thesis
    unfolding reconcileMissingCompletionEffects_def Let_def fst_conv snd_conv wp_seqH [where m = "readH _"] wp_readH wp_seqH [where m = "if _ then _ else _"]
    by (rule wpH_mono) (use assms in \<open>auto simp: rows_as_def tables_def wp_ret\<close>)
qed

definition run_pass_two :: "bitcoin_env \<Rightarrow> signing_env \<Rightarrow> string \<times> escrow_row \<Rightarrow> recon_state \<Rightarrow> explorer \<Rightarrow> recon_state" where
  "run_pass_two benv env c s ex = snd (reconcileMissingCompletionEffects benv env ex c s)"

lemma lost_publication_again:
  "already_emitted i (er_status r) (tables s) \<Longrightarrow>
     already_emitted i (er_status r) (tables (foldl (run_pass_two benv env (i, r)) s exs))
     \<and> settle_bus (tables (foldl (run_pass_two benv env (i, r)) s exs)) = settle_bus (tables s)"
proof (induction exs arbitrary: s)
  case (Cons ex exs)
  let ?t = "run_pass_two benv env (i, r) s ex"
  have "escrow_events (tables ?t) = escrow_events (tables s) \<and> settle_bus (tables ?t) = settle_bus (tables s)"
    unfolding run_pass_two_def by (rule wpH_snd) (rule wpH_mono [OF wp_already_emitted [OF Cons.prems]]; simp)
  with Cons.IH [of ?t] Cons.prems show ?case by (simp add: already_emitted_def escrow_rows_def)
qed simp

lemma wp_publication_fails:
  "wpH (emitEscrowTransition senv i tid st to who ev nt) (\<lambda>_ _. True)
     (\<lambda>e b'. e = DatabaseError ''eventBus'' \<longrightarrow> already_emitted i to b' \<and> settle_bus b' = settle_bus b) b"
proof -
  have publish: "wpH (dbWrite ''eventBus'' (publish_event ev tid)) (\<lambda>_ _. True)
      (\<lambda>e b'. e = DatabaseError ''eventBus'' \<longrightarrow> already_emitted i to b' \<and> settle_bus b' = settle_bus b) c"
    if "settle_bus c = settle_bus b" "already_emitted i to c" for c
    using that by (auto simp: wp_dbWrite publish_event_def already_emitted_def escrow_rows_def split: list.split bool.split)
  have "settle_bus (log_event senv i st to who nt c) = settle_bus c" for c by (simp add: log_event_def)
  then show ?thesis
    by (simp add: wp_emitEscrowTransition wp_dbWrite [of "''escrowEvent''"] publish emitted_logged split: list.split bool.split)
qed

text \<open>
  C40: the recovery takes the log row for the event. The log row of a transition is committed before the event is
  published. When the publication fails, or the process stops in between, the second pass finds the row, reports that nothing
  is missing and publishes nothing, however often the job runs: the trade, the reputation and the volumes never follow.
\<close>

theorem lost_publication_is_not_recovered:
  assumes emit: "emitEscrowTransition senv i tid st (er_status r) who ev nt b = (Inl (DatabaseError ''eventBus''), b')"
    and after: "tables s = b'"
  shows "already_emitted i (er_status r) (tables (foldl (run_pass_two benv env (i, r)) s exs))
     \<and> settle_bus (tables (foldl (run_pass_two benv env (i, r)) s exs)) = settle_bus b"
proof -
  have "already_emitted i (er_status r) b' \<and> settle_bus b' = settle_bus b"
    using wp_publication_fails [of senv i tid st "er_status r" who ev nt b] emit by (simp add: wpH_def)
  with lost_publication_again [of i r s benv env exs] show ?thesis by (simp add: after)
qed

text \<open>A release that both signers have signed, interrupted before the escrow was claimed.\<close>

definition demo_wallet :: bitcoin_env where
  "demo_wallet = demo_bitcoin\<lparr>bt_combine := (\<lambda>_ _. Some (''tx'', ''raw''))\<rparr>"

definition demo_unseen :: explorer where
  "demo_unseen = (demo_explorer 100000)\<lparr>ex_status := (\<lambda>_ _. Answer 404 (False, None)), ex_broadcast := (\<lambda>_ _. Answer 200 ''other'')\<rparr>"

definition demo_unclaimed :: escrow_row where
  "demo_unclaimed = (demo_escrow PAYMENT_PENDING)\<lparr>er_type := MULTISIG, er_feePolicyVersionId := None, er_txLockId := Some ''f'', er_txLockVout := Some 0\<rparr>"

definition demo_signatures :: "(string \<times> string) list" where
  "demo_signatures = [(''carol'', ''P1''), (''bob'', ''P2'')]"

definition demo_crashed :: recon_state where
  "demo_crashed = \<lparr>sg = demo_signing (demo_coop\<lparr>rv := (rv demo_coop)\<lparr>base := (base (rv demo_coop))
       \<lparr>escrows := [''e'' \<mapsto> demo_unclaimed], participant_keys := participant_keys (demo_locked FUNDS_LOCKED)\<rparr>\<rparr>\<rparr>)
       (map (\<lambda>(who, x). \<lparr>sg_pendingTxId = ''op'', sg_participantId = who, sg_signedPsbtBase64 = x\<rparr>) demo_signatures),
     release_evidence = [], broadcasts = []\<rparr>"

lemma demo_resumes:
  "fst (resumeUnclaimed demo_wallet demo_signer demo_unseen (demo_pending\<lparr>pt_disputeId := None\<rparr>, demo_signatures, demo_unclaimed) demo_crashed)
     = Inr (ResumedUnclaimed (NEWLY_BROADCAST ''tx'' ''raw''))"
  "broadcasts (snd (resumeUnclaimed demo_wallet demo_signer demo_unseen (demo_pending\<lparr>pt_disputeId := None\<rparr>, demo_signatures, demo_unclaimed) demo_crashed)) = [''raw'']"
  by (code_simp, code_simp)

theorem recovery_broadcast_is_authorized_witness:
  "all_signed (demo_pending\<lparr>pt_disputeId := None\<rparr>) demo_signatures
     \<and> authorized_send demo_wallet demo_signer demo_unseen (demo_pending\<lparr>pt_disputeId := None\<rparr>) demo_signatures demo_unclaimed demo_crashed
         (snd (resumeUnclaimed demo_wallet demo_signer demo_unseen (demo_pending\<lparr>pt_disputeId := None\<rparr>, demo_signatures, demo_unclaimed) demo_crashed))"
proof -
  have "broadcasts demo_crashed = []" by (simp add: demo_crashed_def)
  then show ?thesis
    using recovery_broadcast_is_authorized [OF surjective_pairing, of demo_wallet demo_signer demo_unseen "demo_pending\<lparr>pt_disputeId := None\<rparr>"
        demo_signatures demo_unclaimed demo_crashed] demo_resumes(2) by simp
qed

theorem resumed_settlement_is_recorded_witness:
  "settlement_recorded demo_wallet (demo_pending\<lparr>pt_disputeId := None\<rparr>) demo_signatures (NEWLY_BROADCAST ''tx'' ''raw'')
     (snd (resumeUnclaimed demo_wallet demo_signer demo_unseen (demo_pending\<lparr>pt_disputeId := None\<rparr>, demo_signatures, demo_unclaimed) demo_crashed))"
  by (rule resumed_settlement_is_recorded) (rule prod_eqI, simp_all add: demo_resumes(1))

text \<open>The event of a release that was logged when the bus refused it.\<close>

definition demo_unpublished :: settlement_state where
  "demo_unpublished = snd (emitEscrowTransition demo_senv ''e'' ''t'' PAYMENT_PENDING COMPLETED ''alice'' ''settlement.escrow.released'' None
     ((demo_settlement (Some (demo_escrow COMPLETED)))\<lparr>faults := [False, True]\<rparr>))"

lemma demo_refused:
  "fst (emitEscrowTransition demo_senv ''e'' ''t'' PAYMENT_PENDING COMPLETED ''alice'' ''settlement.escrow.released'' None
     ((demo_settlement (Some (demo_escrow COMPLETED)))\<lparr>faults := [False, True]\<rparr>)) = Inl (DatabaseError ''eventBus'')"
  by code_simp

theorem lost_publication_is_not_recovered_witness:
  "settle_bus (tables (foldl (run_pass_two demo_wallet demo_signer (''e'', demo_escrow COMPLETED))
     (demo_crashed\<lparr>sg := (sg demo_crashed)\<lparr>sd := (sd (sg demo_crashed))\<lparr>rv := (rv (sd (sg demo_crashed)))\<lparr>base := demo_unpublished\<rparr>\<rparr>\<rparr>\<rparr>)
     [demo_unseen, demo_unseen])) = []"
proof -
  let ?b = "(demo_settlement (Some (demo_escrow COMPLETED)))\<lparr>faults := [False, True]\<rparr>"
  let ?s = "demo_crashed\<lparr>sg := (sg demo_crashed)\<lparr>sd := (sd (sg demo_crashed))\<lparr>rv := (rv (sd (sg demo_crashed)))\<lparr>base := demo_unpublished\<rparr>\<rparr>\<rparr>\<rparr>"
  have "er_status (demo_escrow COMPLETED) = COMPLETED" by (simp add: demo_escrow_def)
  then have "emitEscrowTransition demo_senv ''e'' ''t'' PAYMENT_PENDING (er_status (demo_escrow COMPLETED)) ''alice'' ''settlement.escrow.released'' None ?b
      = (Inl (DatabaseError ''eventBus''), demo_unpublished)"
    using demo_refused by (simp add: prod_eq_iff demo_unpublished_def)
  from lost_publication_is_not_recovered [OF this, of ?s demo_wallet demo_signer "[demo_unseen, demo_unseen]"]
  show ?thesis by (simp add: tables_def settlement_def demo_settlement_def)
qed

end
