(* ===== verification/Wdk_Provider.thy ===== *)
theory Wdk_Provider
  imports Multisig_Provider
begin

text \<open>
  The provider of token escrows on an EVM chain: \<^verbatim>\<open>wdk-settlement.provider.ts\<close> with the durable attempts of
  \<^verbatim>\<open>wdk-execution-truth.ts\<close> and \<^verbatim>\<open>wdk-transfer-attempt-repository.ts\<close>. It sends its transfers itself, so it
  stores what it is about to do before it does it. The wallet library is a parameter: the result of a transfer by its number and
  the receipt of a transaction by the number of the query. Every transfer handed to the wallet is appended to \<open>transfers\<close>, also one whose
  result is an error, for nobody knows whether it was sent. A database write may fail at any point, which is also what a crash at that
  point leaves behind.
\<close>

section \<open>Amounts\<close>

text \<open>The destructuring \<^verbatim>\<open>const [whole, fraction = ''] = s.split('.')\<close>.\<close>

definition split_dot :: "string \<Rightarrow> string \<times> string" where
  "split_dot s =
     (let whole = takeWhile (\<lambda>c. c \<noteq> CHR ''.'') s; rest = drop (length whole) s in
      (whole, takeWhile (\<lambda>c. c \<noteq> CHR ''.'') (drop 1 rest)))"

definition padEnd :: "nat \<Rightarrow> string \<Rightarrow> string" where
  "padEnd n s = s @ replicate (n - length s) (CHR ''0'')"

definition padStart :: "nat \<Rightarrow> string \<Rightarrow> string" where
  "padStart n s = replicate (n - length s) (CHR ''0'') @ s"

definition USDT_DECIMALS :: nat where "USDT_DECIMALS = 6"

definition toBaseUnits :: "string \<Rightarrow> nat \<Rightarrow> int result" where
  "toBaseUnits decimalAmount decimals =
     (case split_dot decimalAmount of (whole, fraction) \<Rightarrow>
      bindR (parse_bigint whole) (\<lambda>w.
      bindR (parse_bigint (padEnd decimals (take decimals fraction))) (\<lambda>f. Inr (w * 10 ^ decimals + f))))"

definition fromBaseUnits :: "int \<Rightarrow> nat \<Rightarrow> string" where
  "fromBaseUnits baseUnits decimals =
     (let a = \<bar>baseUnits\<bar>; divisor = 10 ^ decimals in
      (if baseUnits < 0 then ''-'' else []) @ show_int (a div divisor) @ CHR ''.'' # padStart decimals (show_int (a mod divisor)))"

definition is_blank :: "char \<Rightarrow> bool" where
  "is_blank c \<longleftrightarrow> (of_char c :: nat) \<in> {9, 10, 11, 12, 13, 32, 160}"

definition trim :: "string \<Rightarrow> string" where
  "trim s = rev (dropWhile is_blank (rev (dropWhile is_blank s)))"

text \<open>\<^verbatim>\<open>replace(/^0+(?=\d)/, '')\<close>\<close>

fun strip_zeros :: "string \<Rightarrow> string" where
  "strip_zeros (c # d # s) = (if c = CHR ''0'' \<and> is_digit_char d then strip_zeros (d # s) else c # d # s)"
| "strip_zeros s = s"

definition normalizeDecimalString :: "string \<Rightarrow> string" where
  "normalizeDecimalString s =
     (case split_dot (trim s) of (wholeRaw, fractionRaw) \<Rightarrow>
      let whole = (if strip_zeros wholeRaw = [] then ''0'' else strip_zeros wholeRaw);
          fraction = rev (dropWhile (\<lambda>c. c = CHR ''0'') (rev fractionRaw))
      in if fraction = [] then whole else whole @ CHR ''.'' # fraction)"

definition decimalAmountsEqual :: "string \<Rightarrow> string \<Rightarrow> bool" where
  "decimalAmountsEqual a b \<longleftrightarrow> normalizeDecimalString a = normalizeDecimalString b"

section \<open>Attempts\<close>

datatype wdk_operation = W_LOCK | W_RELEASE | W_REFUND | W_SPLIT_BUYER | W_SPLIT_SELLER

datatype wdk_status = PREPARED | SUBMITTED | SUBMISSION_UNKNOWN | W_CONFIRMED | W_REVERTED | FAILED_BEFORE_SUBMISSION

text \<open>The amount is kept as the string that was stored; its column has more decimals than the token.\<close>

record attempt_row =
  wa_id :: string
  wa_escrowId :: string
  wa_operationType :: wdk_operation
  wa_destination :: string
  wa_amount :: string
  wa_status :: wdk_status
  wa_txHash :: "string option"
  wa_activeKey :: "string option"

datatype wdk_account = TreasuryAccount | EscrowAccount nat

record transfer_call =
  tf_attempt :: string
  tf_escrowId :: string
  tf_operation :: wdk_operation
  tf_source :: wdk_account
  tf_to :: string
  tf_amount :: int
  tf_hash :: "string option"

record wdk_state =
  attempts :: "attempt_row list"
  transfers :: "transfer_call list"
  wk_draws :: nat
  wk_polls :: nat
  wk_faults :: "bool list"

record wdk_env =
  wd_uuid :: "nat \<Rightarrow> string"
  wd_sha256 :: "string \<Rightarrow> string"
  wd_seedPhrase :: string
  wd_usdtContract :: string
  wd_address :: "wdk_account \<Rightarrow> string"
  wd_transfer :: "nat \<Rightarrow> wdk_account \<Rightarrow> string \<Rightarrow> int \<Rightarrow> string result"
  wd_receipt :: "nat \<Rightarrow> string \<Rightarrow> bool option result"
  wd_pollAttempts :: nat

type_synonym 'a wdk = "(wdk_state, 'a) handler"

definition dbW :: "string \<Rightarrow> (wdk_state \<Rightarrow> wdk_state) \<Rightarrow> unit wdk" where
  "dbW tag f s =
     (case wk_faults s of
        True # fs \<Rightarrow> (Inl (DatabaseError tag), s\<lparr>wk_faults := fs\<rparr>)
      | False # fs \<Rightarrow> (Inr (), f (s\<lparr>wk_faults := fs\<rparr>))
      | [] \<Rightarrow> (Inr (), f s))"

definition transactionW :: "'a wdk \<Rightarrow> 'a wdk" where
  "transactionW m s =
     (case m s of (Inl e, s') \<Rightarrow> (Inl e, s\<lparr>wk_faults := wk_faults s'\<rparr>) | (Inr a, s') \<Rightarrow> (Inr a, s'))"

definition operation_name :: "wdk_operation \<Rightarrow> string" where
  "operation_name op =
     (case op of W_LOCK \<Rightarrow> ''LOCK'' | W_RELEASE \<Rightarrow> ''RELEASE'' | W_REFUND \<Rightarrow> ''REFUND''
      | W_SPLIT_BUYER \<Rightarrow> ''SPLIT_BUYER'' | W_SPLIT_SELLER \<Rightarrow> ''SPLIT_SELLER'')"

definition active_key :: "string \<Rightarrow> wdk_operation \<Rightarrow> string" where
  "active_key i op = i @ CHR '':'' # operation_name op"

definition of_operation :: "string \<Rightarrow> wdk_operation \<Rightarrow> attempt_row \<Rightarrow> bool" where
  "of_operation i op a \<longleftrightarrow> wa_escrowId a = i \<and> wa_operationType a = op"

definition findLatest :: "string \<Rightarrow> wdk_operation \<Rightarrow> attempt_row option wdk" where
  "findLatest i op =
     readH (\<lambda>s. let rows = filter (of_operation i op) (attempts s) in if rows = [] then None else Some (last rows))"

definition createAttempt :: "wdk_env \<Rightarrow> string \<Rightarrow> wdk_operation \<Rightarrow> string \<Rightarrow> string \<Rightarrow> string wdk" where
  "createAttempt env i op destination amount =
     seqH (readH (\<lambda>s. list_ex (\<lambda>a. wa_activeKey a = Some (active_key i op)) (attempts s))) (\<lambda>taken.
     seqH (guardH (\<not> taken) (DatabaseError ''P2002'')) (\<lambda>_.
     seqH (readH (\<lambda>s. wd_uuid env (wk_draws s))) (\<lambda>aid.
     seqH (dbW ''wdkTransferAttempt.create'' (\<lambda>s. s\<lparr>wk_draws := Suc (wk_draws s), attempts := attempts s @
             [\<lparr>wa_id = aid, wa_escrowId = i, wa_operationType = op, wa_destination = destination, wa_amount = amount,
               wa_status = PREPARED, wa_txHash = None, wa_activeKey = Some (active_key i op)\<rparr>]\<rparr>)) (\<lambda>_.
       ret aid))))"

definition replaceActive :: "wdk_env \<Rightarrow> string \<Rightarrow> wdk_status list \<Rightarrow> string \<Rightarrow> wdk_operation \<Rightarrow> string \<Rightarrow> string \<Rightarrow> string wdk" where
  "replaceActive env previousId expected i op destination amount =
     transactionW
       (let hit = (\<lambda>a. wa_id a = previousId \<and> wa_activeKey a = Some (active_key i op) \<and> wa_status a \<in> set expected) in
        seqH (readH (\<lambda>s. length (filter hit (attempts s)))) (\<lambda>count.
        seqH (dbW ''wdkTransferAttempt.updateMany'' (\<lambda>s. s\<lparr>attempts := map (\<lambda>a. if hit a then a\<lparr>wa_activeKey := None\<rparr> else a) (attempts s)\<rparr>)) (\<lambda>_.
        seqH (guardH (count = 1) (GenericError ''cannot relinquish active generation'')) (\<lambda>_.
          createAttempt env i op destination amount))))"

definition updateStatus :: "string \<Rightarrow> wdk_status \<Rightarrow> string option \<Rightarrow> wdk_status list \<Rightarrow> attempt_row wdk" where
  "updateStatus aid status txHash expected =
     (let hit = (\<lambda>a. wa_id a = aid \<and> (expected = [] \<or> wa_status a \<in> set expected));
          upd = (\<lambda>a. a\<lparr>wa_status := status, wa_txHash := (case txHash of None \<Rightarrow> wa_txHash a | Some h \<Rightarrow> Some h)\<rparr>) in
      seqH (readH (\<lambda>s. length (filter hit (attempts s)))) (\<lambda>count.
      seqH (dbW ''wdkTransferAttempt.update'' (\<lambda>s. s\<lparr>attempts := map (\<lambda>a. if hit a then upd a else a) (attempts s)\<rparr>)) (\<lambda>_.
      seqH (guardH (count = 1) (GenericError ''transition ownership lost'')) (\<lambda>_.
      seqH (readH (\<lambda>s. find (\<lambda>a. wa_id a = aid) (attempts s))) (\<lambda>found.
        requireH found (GenericError ''disappeared after status transition''))))))"

section \<open>Execution truth\<close>

datatype ensure_result = RESUME_CONFIRMED string | PROCEED string

definition getTransactionReceipt :: "wdk_env \<Rightarrow> string \<Rightarrow> bool option wdk" where
  "getTransactionReceipt env hash =
     seqH (readH wk_polls) (\<lambda>n.
     seqH (writeH (\<lambda>s. s\<lparr>wk_polls := Suc n\<rparr>)) (\<lambda>_. liftH (wd_receipt env n hash)))"

definition requireHash :: "attempt_row \<Rightarrow> string wdk" where
  "requireHash a = requireH (case wa_txHash a of Some [] \<Rightarrow> None | h \<Rightarrow> h) (EscrowError ''has no persisted txHash'')"

definition retryAttempt :: "wdk_env \<Rightarrow> attempt_row \<Rightarrow> wdk_status \<Rightarrow> string \<Rightarrow> wdk_operation \<Rightarrow> string \<Rightarrow> string \<Rightarrow> ensure_result wdk" where
  "retryAttempt env latest status i op destination amount =
     seqH (replaceActive env (wa_id latest) [status] i op destination amount) (\<lambda>aid. ret (PROCEED aid))"

definition ensureAttempt :: "wdk_env \<Rightarrow> string \<Rightarrow> wdk_operation \<Rightarrow> string \<Rightarrow> string \<Rightarrow> ensure_result wdk" where
  "ensureAttempt env i op destination amount =
     seqH (findLatest i op) (\<lambda>found.
       case found of
         None \<Rightarrow> seqH (createAttempt env i op destination amount) (\<lambda>aid. ret (PROCEED aid))
       | Some latest \<Rightarrow>
           seqH (guardH (wa_destination latest = destination \<and> decimalAmountsEqual (wa_amount latest) amount)
                   (EscrowError ''refusing to reconcile against a mismatched prior attempt'')) (\<lambda>_.
           case wa_status latest of
             W_CONFIRMED \<Rightarrow> seqH (requireHash latest) (\<lambda>h. ret (RESUME_CONFIRMED h))
           | SUBMITTED \<Rightarrow>
               seqH (requireHash latest) (\<lambda>h.
               seqH (getTransactionReceipt env h) (\<lambda>receipt.
                 case receipt of
                   None \<Rightarrow> throw (EscrowError ''still pending confirmation on-chain'')
                 | Some True \<Rightarrow>
                     seqH (updateStatus (wa_id latest) W_CONFIRMED None [SUBMITTED]) (\<lambda>_. ret (RESUME_CONFIRMED h))
                 | Some False \<Rightarrow>
                     seqH (updateStatus (wa_id latest) W_REVERTED None [SUBMITTED]) (\<lambda>_.
                       retryAttempt env latest W_REVERTED i op destination amount)))
           | SUBMISSION_UNKNOWN \<Rightarrow> throw (EscrowError ''outcome is UNKNOWN'')
           | PREPARED \<Rightarrow> ret (PROCEED (wa_id latest))
           | FAILED_BEFORE_SUBMISSION \<Rightarrow> retryAttempt env latest FAILED_BEFORE_SUBMISSION i op destination amount
           | W_REVERTED \<Rightarrow> retryAttempt env latest W_REVERTED i op destination amount))"

definition markSubmissionAttempted :: "string \<Rightarrow> unit wdk" where
  "markSubmissionAttempted aid = seqH (updateStatus aid SUBMISSION_UNKNOWN None [PREPARED]) (\<lambda>_. ret ())"

datatype receipt_outcome = R_CONFIRMED | R_REVERTED | R_PENDING

fun pollReceipt :: "wdk_env \<Rightarrow> string \<Rightarrow> nat \<Rightarrow> receipt_outcome wdk" where
  "pollReceipt env hash 0 = ret R_PENDING"
| "pollReceipt env hash (Suc n) =
     seqH (getTransactionReceipt env hash) (\<lambda>receipt.
       case receipt of Some ok \<Rightarrow> ret (if ok then R_CONFIRMED else R_REVERTED) | None \<Rightarrow> pollReceipt env hash n)"

definition waitForReceiptOutcome :: "wdk_env \<Rightarrow> string \<Rightarrow> receipt_outcome wdk" where
  "waitForReceiptOutcome env hash = pollReceipt env hash (wd_pollAttempts env)"

section \<open>The provider\<close>

definition escrowIndexFor :: "wdk_env \<Rightarrow> string \<Rightarrow> nat" where
  "escrowIndexFor env tradeId = nat (int (bytes_value (take 4 (hex_bytes (wd_sha256 env tradeId)))) mod 2147483647)"

definition buyerIndexFor :: "wdk_env \<Rightarrow> string \<Rightarrow> nat" where
  "buyerIndexFor env buyerId = nat (int (bytes_value (take 4 (hex_bytes (wd_sha256 env (''buyer:'' @ buyerId))))) mod 2147483647)"

definition getWallet :: "wdk_env \<Rightarrow> unit result" where
  "getWallet env =
     (if wd_seedPhrase env = [] then Inl (EscrowError ''requires WDK_SEED_PHRASE configured'')
      else if wd_usdtContract env = [] then Inl (EscrowError ''requires WDK_USDT_CONTRACT configured'')
      else Inr ())"

definition callTransfer ::
    "wdk_env \<Rightarrow> string \<Rightarrow> string \<Rightarrow> wdk_operation \<Rightarrow> wdk_account \<Rightarrow> string \<Rightarrow> int \<Rightarrow> string wdk" where
  "callTransfer env aid i op source destination amount s =
     (let r = wd_transfer env (length (transfers s)) source destination amount in
      (r, s\<lparr>transfers := transfers s @
         [\<lparr>tf_attempt = aid, tf_escrowId = i, tf_operation = op, tf_source = source, tf_to = destination, tf_amount = amount,
           tf_hash = (case r of Inl _ \<Rightarrow> None | Inr h \<Rightarrow> Some h)\<rparr>]\<rparr>))"

definition executeTransfer ::
    "wdk_env \<Rightarrow> string \<Rightarrow> wdk_operation \<Rightarrow> wdk_account \<Rightarrow> string \<Rightarrow> string \<Rightarrow> int \<Rightarrow> string wdk" where
  "executeTransfer env i op source destination decimalAmount baseUnitsAmount =
     seqH (ensureAttempt env i op destination decimalAmount) (\<lambda>outcome.
       case outcome of
         RESUME_CONFIRMED h \<Rightarrow> ret h
       | PROCEED aid \<Rightarrow>
           seqH (markSubmissionAttempted aid) (\<lambda>_.
           seqH (callTransfer env aid i op source destination baseUnitsAmount) (\<lambda>hash.
           seqH (updateStatus aid SUBMITTED (Some hash) [SUBMISSION_UNKNOWN]) (\<lambda>_.
           seqH (waitForReceiptOutcome env hash) (\<lambda>receipt.
             case receipt of
               R_CONFIRMED \<Rightarrow> seqH (updateStatus aid W_CONFIRMED None [SUBMITTED]) (\<lambda>_. ret hash)
             | R_REVERTED \<Rightarrow> seqH (updateStatus aid W_REVERTED None [SUBMITTED]) (\<lambda>_. throw (EscrowError ''reverted on-chain''))
             | R_PENDING \<Rightarrow> throw (EscrowError ''submitted but is not yet confirmed on-chain''))))))"

record wdk_escrow =
  we_id :: string
  we_tradeId :: string
  we_lockedAmount :: string

definition escrowAccount :: "wdk_env \<Rightarrow> wdk_escrow \<Rightarrow> wdk_account" where
  "escrowAccount env e = EscrowAccount (escrowIndexFor env (we_tradeId e))"

definition lockFundsW :: "wdk_env \<Rightarrow> wdk_escrow \<Rightarrow> (string \<times> string) wdk" where
  "lockFundsW env e =
     seqH (liftH (getWallet env)) (\<lambda>_.
     let escrowAddress = wd_address env (escrowAccount env e) in
     seqH (liftH (toBaseUnits (we_lockedAmount e) USDT_DECIMALS)) (\<lambda>amount.
     seqH (executeTransfer env (we_id e) W_LOCK TreasuryAccount escrowAddress (we_lockedAmount e) amount) (\<lambda>txId.
       ret (txId, escrowAddress))))"

definition releaseFundsW :: "wdk_env \<Rightarrow> wdk_escrow \<Rightarrow> string \<Rightarrow> string wdk" where
  "releaseFundsW env e toAddress =
     seqH (liftH (getWallet env)) (\<lambda>_.
     seqH (liftH (toBaseUnits (we_lockedAmount e) USDT_DECIMALS)) (\<lambda>amount.
       executeTransfer env (we_id e) W_RELEASE (escrowAccount env e) toAddress (we_lockedAmount e) amount))"

definition refundFundsW :: "wdk_env \<Rightarrow> wdk_escrow \<Rightarrow> string wdk" where
  "refundFundsW env e =
     seqH (liftH (getWallet env)) (\<lambda>_.
     seqH (liftH (toBaseUnits (we_lockedAmount e) USDT_DECIMALS)) (\<lambda>amount.
       executeTransfer env (we_id e) W_REFUND (escrowAccount env e) (wd_address env TreasuryAccount) (we_lockedAmount e) amount))"

text \<open>\<^verbatim>\<open>BigInt(buyerBps)\<close> throws on a fraction; the division truncates.\<close>

definition split_amounts :: "int \<Rightarrow> rat \<Rightarrow> (int \<times> int) result" where
  "split_amounts whole buyerBps =
     (if of_int \<lfloor>buyerBps\<rfloor> \<noteq> buyerBps then Inl (GenericError ''cannot be converted to a BigInt'')
      else let buyerAmount = bigint_div (whole * \<lfloor>buyerBps\<rfloor>) 10000 in Inr (buyerAmount, whole - buyerAmount))"

definition splitFundsW :: "wdk_env \<Rightarrow> wdk_escrow \<Rightarrow> string \<Rightarrow> string \<Rightarrow> rat \<Rightarrow> (string \<times> string) wdk" where
  "splitFundsW env e buyerAddress sellerAddress buyerBps =
     seqH (liftH (getWallet env)) (\<lambda>_.
     seqH (liftH (toBaseUnits (we_lockedAmount e) USDT_DECIMALS)) (\<lambda>whole.
     seqH (liftH (split_amounts whole buyerBps)) (\<lambda>(buyerAmount, sellerAmount).
     seqH (executeTransfer env (we_id e) W_SPLIT_BUYER (escrowAccount env e) buyerAddress (fromBaseUnits buyerAmount USDT_DECIMALS) buyerAmount) (\<lambda>buyerTxId.
     seqH (executeTransfer env (we_id e) W_SPLIT_SELLER (escrowAccount env e) sellerAddress (fromBaseUnits sellerAmount USDT_DECIMALS) sellerAmount) (\<lambda>sellerTxId.
       ret (buyerTxId, sellerTxId))))))"

end
