(* ===== verification/Wdk_Outcomes.thy ===== *)
theory Wdk_Outcomes
  imports Wdk_Provider
begin

text \<open>
  Properties of the token provider: amounts survive their printing, and however often an operation is retried, whatever the wallet
  answers and wherever the database fails, one operation is delivered at most once and a reported success has been delivered.
\<close>

section \<open>Amounts\<close>

definition is_decimal :: "string \<Rightarrow> bool" where
  "is_decimal s \<longleftrightarrow> (case split_dot s of (w, f) \<Rightarrow> is_digit_string w \<and> list_all is_digit_char f \<and> (s = w \<and> f = [] \<or> s = w @ CHR ''.'' # f))"

lemma dot_no_digit: "\<not> is_digit_char (CHR ''.'')"
  by (simp add: is_digit_char_def)

lemma zero_digit: "is_digit_char (CHR ''0'')"
  by (simp add: is_digit_char_def)

lemma digits_no_dot: "list_all is_digit_char w \<Longrightarrow> CHR ''.'' \<notin> set w"
  using dot_no_digit by (auto simp: list_all_iff)

lemma split_dot_simps:
  "CHR ''.'' \<notin> set w \<Longrightarrow> split_dot w = (w, [])"
  "CHR ''.'' \<notin> set w \<Longrightarrow> CHR ''.'' \<notin> set f \<Longrightarrow> split_dot (w @ CHR ''.'' # f) = (w, f)"
  by (simp_all add: split_dot_def takeWhile_no_dot takeWhile_append2 takeWhile_tail Let_def)

lemma digit_char_parts: "is_digit_string w \<Longrightarrow> list_all is_digit_char w"
  by (simp add: is_digit_string_def)

lemma is_decimalI:
  "is_digit_string w \<Longrightarrow> is_decimal w" "is_digit_string w \<Longrightarrow> list_all is_digit_char f \<Longrightarrow> is_decimal (w @ CHR ''.'' # f)"
  by (simp_all add: is_decimal_def split_dot_simps digits_no_dot digit_char_parts)

lemma padEnd_digits: "list_all is_digit_char f \<Longrightarrow> 0 < n \<Longrightarrow> is_digit_string (padEnd n (take n f))"
  by (auto simp: padEnd_def is_digit_string_def list_all_iff zero_digit dest: in_set_takeD)

text \<open>A decimal string as whole units.\<close>

definition units :: "nat \<Rightarrow> string \<Rightarrow> string \<Rightarrow> int" where
  "units n w f = int (parse_digits w) * 10 ^ n + int (parse_digits (padEnd n (take n f)))"

lemma toBaseUnits_decimal:
  assumes "is_digit_string w" and "list_all is_digit_char f" and "0 < n" and "split_dot s = (w, f)"
  shows "toBaseUnits s n = Inr (units n w f)"
  using assms padEnd_digits [OF assms(2,3)] by (simp add: toBaseUnits_def parse_bigint_digits units_def)

lemma parse_digits_append: "parse_digits (xs @ ys) = parse_digits xs * 10 ^ length ys + parse_digits ys"
proof (induction ys rule: rev_induct)
  case (snoc y ys)
  then show ?case
    using parse_digits_snoc [of "xs @ ys" y] parse_digits_snoc [of ys y] by (simp add: algebra_simps)
qed (simp add: parse_digits_def)

lemma parse_zeros: "parse_digits (replicate k (CHR ''0'')) = 0"
  by (induction k) (simp_all add: parse_digits_def)

lemma parse_padStart: "parse_digits (padStart n s) = parse_digits s"
  by (simp add: padStart_def parse_digits_append parse_zeros)

lemma length_show_nat: "0 < n \<Longrightarrow> m < 10 ^ n \<Longrightarrow> length (show_nat m) \<le> n"
proof (induction m arbitrary: n rule: show_nat.induct)
  case (1 m)
  show ?case
  proof (cases "m < 10")
    case True
    then show ?thesis using "1.prems" by (subst show_nat.simps) simp
  next
    case False
    with "1.prems" obtain k where k: "n = Suc k" "0 < k" by (cases n; cases "n = 1") auto
    with "1.prems" have "m div 10 < 10 ^ k" by (simp add: less_mult_imp_div_less mult.commute)
    with "1.IH" [OF False, of k] k False show ?thesis by (subst show_nat.simps) simp
  qed
qed

lemma digits_show_int: "0 \<le> m \<Longrightarrow> is_digit_string (show_int m)"
  by (simp add: show_int_def)

lemma fromBaseUnits_parts:
  assumes "0 \<le> a" and "0 < n"
  shows "\<exists>w f. fromBaseUnits a n = w @ CHR ''.'' # f \<and> is_digit_string w \<and> list_all is_digit_char f \<and> length f = n
     \<and> int (parse_digits w) = a div 10 ^ n \<and> int (parse_digits f) = a mod 10 ^ n"
proof (intro exI conjI)
  let ?w = "show_int (a div 10 ^ n)" and ?f = "padStart n (show_int (a mod 10 ^ n))"
  have nn: "0 \<le> a div 10 ^ n" "0 \<le> a mod 10 ^ n" using assms(1) by (simp_all add: pos_imp_zdiv_nonneg_iff)
  show "fromBaseUnits a n = ?w @ CHR ''.'' # ?f" using assms(1) by (simp add: fromBaseUnits_def Let_def)
  show "is_digit_string ?w" using nn(1) by (rule digits_show_int)
  have "list_all is_digit_char (show_int (a mod 10 ^ n))" using digits_show_int [OF nn(2)] by (simp add: is_digit_string_def)
  then show "list_all is_digit_char ?f" by (auto simp: padStart_def list_all_iff zero_digit)
  have "nat (a mod 10 ^ n) < 10 ^ n" by (simp add: nat_less_iff)
  then have "length (show_int (a mod 10 ^ n)) \<le> n" using length_show_nat [OF assms(2)] leD [OF nn(2)] by (simp add: show_int_def)
  then show "length ?f = n" by (simp add: padStart_def)
  show "int (parse_digits ?w) = a div 10 ^ n" "int (parse_digits ?f) = a mod 10 ^ n"
    using nn leD [OF nn(1)] leD [OF nn(2)] by (simp_all add: parse_padStart show_int_def)
qed

lemma fromBaseUnits_decimal: "0 \<le> a \<Longrightarrow> 0 < n \<Longrightarrow> is_decimal (fromBaseUnits a n) \<and> toBaseUnits (fromBaseUnits a n) n = Inr a"
proof -
  assume "0 \<le> a" "0 < n"
  then obtain w f where p: "fromBaseUnits a n = w @ CHR ''.'' # f" "is_digit_string w" "list_all is_digit_char f" "length f = n"
    "int (parse_digits w) = a div 10 ^ n" "int (parse_digits f) = a mod 10 ^ n"
    using fromBaseUnits_parts by metis
  have "units n w f = int (parse_digits w) * 10 ^ n + int (parse_digits f)" using p(4) by (simp add: units_def padEnd_def)
  then have "units n w f = a" unfolding p(5,6) by (simp only: div_mult_mod_eq)
  with p \<open>0 < n\<close> show ?thesis
    using toBaseUnits_decimal [of w f n "w @ CHR ''.'' # f"] by (simp add: is_decimalI split_dot_simps digits_no_dot digit_char_parts)
qed

section \<open>Equal decimals\<close>

lemma strip_zeros_digits: "is_digit_string w \<Longrightarrow> is_digit_string (strip_zeros w) \<and> parse_digits (strip_zeros w) = parse_digits w"
proof (induction w rule: strip_zeros.induct)
  case (1 c d s)
  then show ?case by (auto simp: is_digit_string_def parse_digits_def)
qed (auto simp: is_digit_string_def)

lemma strip_end: "\<exists>k. f = rev (dropWhile (\<lambda>c. c = CHR ''0'') (rev f)) @ replicate k (CHR ''0'')"
proof -
  have "rev f = takeWhile (\<lambda>c. c = CHR ''0'') (rev f) @ dropWhile (\<lambda>c. c = CHR ''0'') (rev f)" by simp
  then have "f = rev (dropWhile (\<lambda>c. c = CHR ''0'') (rev f)) @ rev (takeWhile (\<lambda>c. c = CHR ''0'') (rev f))"
    using arg_cong [of "rev f" _ rev] by (simp flip: rev_append)
  moreover have "rev (takeWhile (\<lambda>c. c = CHR ''0'') xs) = replicate (length (takeWhile (\<lambda>c. c = CHR ''0'') xs)) (CHR ''0'')" for xs
  proof -
    have "\<forall>y \<in> set (rev (takeWhile (\<lambda>c. c = CHR ''0'') xs)). y = CHR ''0''" by (auto dest: set_takeWhileD)
    from replicate_length_same [OF this] show ?thesis by simp
  qed
  ultimately have "f = rev (dropWhile (\<lambda>c. c = CHR ''0'') (rev f)) @ replicate (length (takeWhile (\<lambda>c. c = CHR ''0'') (rev f))) (CHR ''0'')" by simp
  then show ?thesis by (rule exI)
qed

lemma padEnd_take: "padEnd n (take n f) = take n (f @ replicate n (CHR ''0''))"
  by (simp add: padEnd_def)

lemma padEnd_zeros: "padEnd n (take n (f @ replicate k (CHR ''0''))) = padEnd n (take n f)"
  unfolding padEnd_take by (simp add: replicate_add [symmetric] del: replicate_add)

lemma trim_digits: "list_all (\<lambda>c. \<not> is_blank c) s \<Longrightarrow> trim s = s"
proof -
  assume a: "list_all (\<lambda>c. \<not> is_blank c) s"
  have "dropWhile is_blank xs = xs" if "list_all (\<lambda>c. \<not> is_blank c) xs" for xs using that by (cases xs) auto
  with a show ?thesis by (simp add: trim_def)
qed

lemma decimal_trim: "is_decimal s \<Longrightarrow> trim s = s"
proof (rule trim_digits)
  assume "is_decimal s"
  then obtain w f where "list_all is_digit_char w" "list_all is_digit_char f" "s = w \<or> s = w @ CHR ''.'' # f"
    by (auto simp: is_decimal_def is_digit_string_def split: prod.splits)
  moreover have "\<not> is_blank c" if "is_digit_char c" for c
    using that unfolding is_blank_def is_digit_char_def by auto
  moreover have "\<not> is_blank (CHR ''.'')" by (simp add: is_blank_def)
  ultimately show "list_all (\<lambda>c. \<not> is_blank c) s" by (auto simp: list_all_iff)
qed

definition trailing :: "string \<Rightarrow> string" where
  "trailing f = rev (dropWhile (\<lambda>c. c = CHR ''0'') (rev f))"

lemma decimal_normal:
  assumes "is_decimal s" and "split_dot s = (w, f)"
  shows "normalizeDecimalString s = (if trailing f = [] then strip_zeros w else strip_zeros w @ CHR ''.'' # trailing f)"
proof -
  have "strip_zeros w \<noteq> []" using strip_zeros_digits [of w] assms by (auto simp: is_decimal_def is_digit_string_def)
  then show ?thesis using assms by (simp add: normalizeDecimalString_def decimal_trim trailing_def Let_def)
qed

lemma equal_decimals:
  assumes "is_decimal a" and "is_decimal b" and "decimalAmountsEqual a b" and "0 < n"
  shows "toBaseUnits a n = toBaseUnits b n"
proof -
  obtain w f where a: "split_dot a = (w, f)" by fastforce
  obtain v g where b: "split_dot b = (v, g)" by fastforce
  have dig: "is_digit_string w" "list_all is_digit_char f" "is_digit_string v" "list_all is_digit_char g"
    using assms(1,2) a b by (auto simp: is_decimal_def)
  have sub: "list_all is_digit_char (trailing x)" if "list_all is_digit_char x" for x
    using that by (auto simp: trailing_def list_all_iff dest: set_dropWhileD)
  have nodot: "CHR ''.'' \<notin> set (strip_zeros w)" "CHR ''.'' \<notin> set (strip_zeros v)" "CHR ''.'' \<notin> set (trailing f)" "CHR ''.'' \<notin> set (trailing g)"
    using dig strip_zeros_digits sub digits_no_dot digit_char_parts by blast+
  have "(if trailing f = [] then strip_zeros w else strip_zeros w @ CHR ''.'' # trailing f)
      = (if trailing g = [] then strip_zeros v else strip_zeros v @ CHR ''.'' # trailing g)"
    using assms(3) decimal_normal [OF assms(1) a] decimal_normal [OF assms(2) b] by (simp add: decimalAmountsEqual_def)
  then have eq: "strip_zeros w = strip_zeros v" "trailing f = trailing g"
    using nodot split_first_sep [of "strip_zeros w" "CHR ''.''" "trailing f" "strip_zeros v" "trailing g"]
      in_set_conv_decomp [of "CHR ''.''" "strip_zeros v"] in_set_conv_decomp [of "CHR ''.''" "strip_zeros w"]
    by (simp_all split: if_splits) metis+
  have "parse_digits w = parse_digits v" using eq(1) strip_zeros_digits dig(1,3) by metis
  moreover have "padEnd n (take n f) = padEnd n (take n (trailing f))" "padEnd n (take n g) = padEnd n (take n (trailing g))"
    using strip_end [of f] strip_end [of g] padEnd_zeros unfolding trailing_def by metis+
  ultimately show ?thesis
    using toBaseUnits_decimal [OF dig(1,2) assms(4) a] toBaseUnits_decimal [OF dig(3,4) assms(4) b] eq(2) by (simp add: units_def)
qed

section \<open>Weakest preconditions\<close>

lemma wp_dbW:
  "wpH (dbW tag f) Q E s =
     (case wk_faults s of
        True # fs \<Rightarrow> E (DatabaseError tag) (s\<lparr>wk_faults := fs\<rparr>)
      | False # fs \<Rightarrow> Q () (f (s\<lparr>wk_faults := fs\<rparr>))
      | [] \<Rightarrow> Q () (f s))"
  by (simp add: wpH_def dbW_def split: list.split bool.split)

lemma wpI_dbW: "\<lbrakk>\<And>e fs. E e (s\<lparr>wk_faults := fs\<rparr>); \<And>fs. Q () (f (s\<lparr>wk_faults := fs\<rparr>))\<rbrakk> \<Longrightarrow> wpH (dbW tag f) Q E s"
proof -
  assume e: "\<And>e fs. E e (s\<lparr>wk_faults := fs\<rparr>)" and q: "\<And>fs. Q () (f (s\<lparr>wk_faults := fs\<rparr>))"
  have "Q () (f s)" using q [of "wk_faults s"] by simp
  with e q show ?thesis by (simp add: wp_dbW split: list.split bool.split)
qed

lemma wp_transactionW: "wpH (transactionW m) Q E s = wpH m Q (\<lambda>e s'. E e (s\<lparr>wk_faults := wk_faults s'\<rparr>)) s"
  by (simp add: wpH_def transactionW_def split: prod.split sum.split)

section \<open>What the attempts say about the transfers\<close>

definition own :: "string \<Rightarrow> transfer_call list \<Rightarrow> transfer_call list" where
  "own aid ts = filter (\<lambda>t. tf_attempt t = aid) ts"

definition carries :: "transfer_call \<Rightarrow> attempt_row \<Rightarrow> bool" where
  "carries t a \<longleftrightarrow> tf_escrowId t = wa_escrowId a \<and> tf_operation t = wa_operationType a \<and> tf_to t = wa_destination a
     \<and> toBaseUnits (wa_amount a) USDT_DECIMALS = Inr (tf_amount t)"

definition single :: "transfer_call list \<Rightarrow> string option \<Rightarrow> (string \<Rightarrow> bool) \<Rightarrow> bool" where
  "single ts hash P \<longleftrightarrow> (\<exists>t h. ts = [t] \<and> tf_hash t = Some h \<and> hash = Some h \<and> P h)"

text \<open>\<open>fate h\<close> is whether the chain carries out the transaction \<open>h\<close>.\<close>

definition attempt_ok :: "(string \<Rightarrow> bool) \<Rightarrow> attempt_row \<Rightarrow> transfer_call list \<Rightarrow> bool" where
  "attempt_ok fate a ts \<longleftrightarrow>
     (case wa_status a of
        PREPARED \<Rightarrow> ts = []
      | FAILED_BEFORE_SUBMISSION \<Rightarrow> ts = []
      | SUBMISSION_UNKNOWN \<Rightarrow> length ts \<le> 1
      | SUBMITTED \<Rightarrow> single ts (wa_txHash a) (\<lambda>_. True)
      | W_CONFIRMED \<Rightarrow> single ts (wa_txHash a) fate
      | W_REVERTED \<Rightarrow> single ts (wa_txHash a) (\<lambda>h. \<not> fate h))
     \<and> (\<forall>t \<in> set ts. carries t a) \<and> is_decimal (wa_amount a)"

abbreviation superseded :: "attempt_row \<Rightarrow> bool" where
  "superseded a \<equiv> wa_status a = W_REVERTED \<or> wa_status a = FAILED_BEFORE_SUBMISSION"

definition wdk_ok :: "wdk_env \<Rightarrow> (string \<Rightarrow> bool) \<Rightarrow> wdk_state \<Rightarrow> bool" where
  "wdk_ok env fate s \<longleftrightarrow>
     distinct (map wa_id (attempts s))
     \<and> (\<forall>a \<in> set (attempts s). \<exists>n < wk_draws s. wa_id a = wd_uuid env n)
     \<and> (\<forall>t \<in> set (transfers s). tf_attempt t \<in> wa_id ` set (attempts s))
     \<and> (\<forall>a \<in> set (attempts s). attempt_ok fate a (own (wa_id a) (transfers s)))
     \<and> (\<forall>i op. \<forall>a \<in> set (butlast (filter (of_operation i op) (attempts s))). superseded a)"

lemma wdk_okD:
  assumes "wdk_ok env fate s"
  shows "distinct (map wa_id (attempts s))" "\<And>a. a \<in> set (attempts s) \<Longrightarrow> \<exists>n < wk_draws s. wa_id a = wd_uuid env n"
    "\<And>t. t \<in> set (transfers s) \<Longrightarrow> tf_attempt t \<in> wa_id ` set (attempts s)"
    "\<And>a. a \<in> set (attempts s) \<Longrightarrow> attempt_ok fate a (own (wa_id a) (transfers s))"
    "\<And>a i op. a \<in> set (butlast (filter (of_operation i op) (attempts s))) \<Longrightarrow> superseded a"
  using assms by (auto simp: wdk_ok_def)

lemma wdk_okI:
  assumes "distinct (map wa_id (attempts s))" "\<And>a. a \<in> set (attempts s) \<Longrightarrow> \<exists>n < wk_draws s. wa_id a = wd_uuid env n"
    "\<And>t. t \<in> set (transfers s) \<Longrightarrow> tf_attempt t \<in> wa_id ` set (attempts s)"
    "\<And>a. a \<in> set (attempts s) \<Longrightarrow> attempt_ok fate a (own (wa_id a) (transfers s))"
    "\<And>a i op. a \<in> set (butlast (filter (of_operation i op) (attempts s))) \<Longrightarrow> superseded a"
  shows "wdk_ok env fate s"
  using assms by (simp add: wdk_ok_def)

lemma wdk_ok_frame [simp]:
  "wdk_ok env fate (s\<lparr>wk_faults := fs\<rparr>) = wdk_ok env fate s" "wdk_ok env fate (s\<lparr>wk_polls := n\<rparr>) = wdk_ok env fate s"
  by (simp_all add: wdk_ok_def)

lemma id_inject: "wdk_ok env fate s \<Longrightarrow> a \<in> set (attempts s) \<Longrightarrow> b \<in> set (attempts s) \<Longrightarrow> wa_id a = wa_id b \<Longrightarrow> a = b"
  using wdk_okD(1) [of env fate s] by (auto simp: distinct_map dest: inj_onD)

text \<open>A change of rows that keeps what identifies them.\<close>

lemma wdk_ok_map:
  assumes ok: "wdk_ok env fate s"
    and same: "\<And>a. wa_id (f a) = wa_id a \<and> wa_escrowId (f a) = wa_escrowId a \<and> wa_operationType (f a) = wa_operationType a"
    and rows: "\<And>a. a \<in> set (attempts s) \<Longrightarrow> attempt_ok fate (f a) (own (wa_id a) (transfers s))"
    and old: "\<And>a. a \<in> set (attempts s) \<Longrightarrow> superseded a \<Longrightarrow> superseded (f a)"
  shows "wdk_ok env fate (s\<lparr>attempts := map f (attempts s)\<rparr>)"
proof -
  have "filter (of_operation i op) (map f (attempts s)) = map f (filter (of_operation i op) (attempts s))" for i op
    using same by (simp add: filter_map comp_def of_operation_def [abs_def])
  then have "butlast (filter (of_operation i op) (map f (attempts s))) = map f (butlast (filter (of_operation i op) (attempts s)))" for i op
    by (simp add: map_butlast)
  note old_rows = this
  have ids: "map wa_id (map f (attempts s)) = map wa_id (attempts s)" using same by simp
  have img: "wa_id ` set (map f (attempts s)) = wa_id ` set (attempts s)" using arg_cong [OF ids, of set] by (simp add: image_image)
  show ?thesis
  proof (rule wdk_okI)
    fix b i op assume "b \<in> set (butlast (filter (of_operation i op) (attempts (s\<lparr>attempts := map f (attempts s)\<rparr>))))"
    then obtain a where a: "b = f a" "a \<in> set (butlast (filter (of_operation i op) (attempts s)))" using old_rows by auto
    then have "a \<in> set (attempts s)" by (auto dest: in_set_butlastD)
    then show "superseded b" using a old wdk_okD(5) [OF ok a(2)] by simp
  next
    fix b assume "b \<in> set (attempts (s\<lparr>attempts := map f (attempts s)\<rparr>))"
    then obtain a where a: "b = f a" "a \<in> set (attempts s)" by auto
    then show "\<exists>n < wk_draws (s\<lparr>attempts := map f (attempts s)\<rparr>). wa_id b = wd_uuid env n"
      and "attempt_ok fate b (own (wa_id b) (transfers (s\<lparr>attempts := map f (attempts s)\<rparr>)))"
      using wdk_okD(2) [OF ok a(2)] same rows by simp_all
  next
    fix t assume "t \<in> set (transfers (s\<lparr>attempts := map f (attempts s)\<rparr>))"
    then show "tf_attempt t \<in> wa_id ` set (attempts (s\<lparr>attempts := map f (attempts s)\<rparr>))"
      using wdk_okD(3) [OF ok] img by simp
  next
    have "distinct (map wa_id (map f (attempts s)))" unfolding ids by (rule wdk_okD(1) [OF ok])
    then show "distinct (map wa_id (attempts (s\<lparr>attempts := map f (attempts s)\<rparr>)))" by simp
  qed
qed

lemma wdk_ok_append:
  assumes ok: "wdk_ok env fate s" and inj: "inj (wd_uuid env)"
    and new: "wa_id a = wd_uuid env (wk_draws s)" "wa_status a = PREPARED" "is_decimal (wa_amount a)"
    and prev: "\<And>b. b \<in> set (attempts s) \<Longrightarrow> of_operation (wa_escrowId a) (wa_operationType a) b \<Longrightarrow> superseded b"
  shows "wdk_ok env fate (s\<lparr>wk_draws := Suc (wk_draws s), attempts := attempts s @ [a]\<rparr>)"
proof -
  have fresh: "wa_id a \<notin> wa_id ` set (attempts s)"
    using wdk_okD(2) [OF ok] new(1) inj by (force dest: injD)
  have "own (wa_id a) (transfers s) = []"
    unfolding own_def filter_empty_conv
  proof
    fix t assume "t \<in> set (transfers s)"
    from wdk_okD(3) [OF ok this] fresh show "tf_attempt t \<noteq> wa_id a" by metis
  qed
  then have "attempt_ok fate a (own (wa_id a) (transfers s))" using new by (simp add: attempt_ok_def)
  moreover have "superseded b" if "b \<in> set (butlast (filter (of_operation i op) (attempts s @ [a])))" for i op b
    using that prev wdk_okD(5) [OF ok, of b i op]
    by (cases "of_operation i op a") (auto simp: of_operation_def [of _ _ a] split: if_splits)
  moreover have "\<exists>n < Suc (wk_draws s). wa_id b = wd_uuid env n" if "b \<in> set (attempts s @ [a])" for b
    using that wdk_okD(2) [OF ok, of b] new(1) by (auto intro: less_SucI)
  ultimately show ?thesis
    using wdk_okD(1,3,4) [OF ok] fresh by (auto simp: wdk_ok_def)
qed

lemma wdk_ok_transfer:
  assumes ok: "wdk_ok env fate s" and a: "a \<in> set (attempts s)" "wa_status a = SUBMISSION_UNKNOWN" "own (wa_id a) (transfers s) = []"
    and t: "tf_attempt t = wa_id a" "carries t a"
  shows "wdk_ok env fate (s\<lparr>transfers := transfers s @ [t]\<rparr>)"
proof -
  have "attempt_ok fate b (own (wa_id b) (transfers s @ [t]))" if "b \<in> set (attempts s)" for b
  proof (cases "b = a")
    case True
    then show ?thesis using a t wdk_okD(4) [OF ok that] by (simp add: attempt_ok_def own_def)
  next
    case False
    then have "wa_id b \<noteq> wa_id a" using id_inject [OF ok that a(1)] by blast
    then show ?thesis using wdk_okD(4) [OF ok that] t(1) by (simp add: own_def)
  qed
  then show ?thesis using wdk_okD [OF ok] a(1) t(1) by (auto simp: wdk_ok_def)
qed

section \<open>The repository\<close>

text \<open>The row an operation has in mind is the only one a conditional update can hit.\<close>

lemma filter_once: "distinct xs \<Longrightarrow> a \<in> set xs \<Longrightarrow> (\<And>b. b \<in> set xs \<Longrightarrow> P b \<longleftrightarrow> b = a) \<Longrightarrow> filter P xs = [a]"
proof (induction xs)
  case (Cons x xs)
  show ?case
  proof (cases "x = a")
    case True
    then have "filter P xs = []" using Cons.prems by (auto simp: filter_empty_conv)
    then show ?thesis using True Cons.prems by simp
  qed (use Cons in auto)
qed simp

lemma hit_once:
  assumes ok: "wdk_ok env fate s" and a: "a \<in> set (attempts s)" "P a" and P: "\<And>b. P b \<Longrightarrow> wa_id b = wa_id a"
  shows "filter P (attempts s) = [a]"
proof (rule filter_once)
  show "distinct (attempts s)" using wdk_okD(1) [OF ok] by (simp add: distinct_map)
  show "P b \<longleftrightarrow> b = a" if "b \<in> set (attempts s)" for b using id_inject [OF ok that a(1)] P [of b] a(2) by blast
qed (rule a(1))

lemma wp_updateStatus:
  assumes ok: "wdk_ok env fate s" and a: "a \<in> set (attempts s)" "wa_status a \<in> set expected" "\<not> superseded a"
    and upd: "a' = a\<lparr>wa_status := status, wa_txHash := (case txHash of None \<Rightarrow> wa_txHash a | Some h \<Rightarrow> Some h)\<rparr>"
    and good: "attempt_ok fate a' (own (wa_id a) (transfers s))"
    and E: "\<And>e fs. E e (s\<lparr>wk_faults := fs\<rparr>)"
    and Q: "\<And>s' r. wdk_ok env fate s' \<Longrightarrow> a' \<in> set (attempts s') \<Longrightarrow> transfers s' = transfers s \<Longrightarrow>
        set (attempts s') = (\<lambda>b. if b = a then a' else b) ` set (attempts s) \<Longrightarrow> Q r s'"
  shows "wpH (updateStatus (wa_id a) status txHash expected) Q E s"
proof -
  let ?hit = "\<lambda>b. wa_id b = wa_id a \<and> (expected = [] \<or> wa_status b \<in> set expected)"
  let ?f = "\<lambda>b. if ?hit b then b\<lparr>wa_status := status, wa_txHash := (case txHash of None \<Rightarrow> wa_txHash b | Some h \<Rightarrow> Some h)\<rparr> else b"
  have one: "filter ?hit (attempts s) = [a]" by (rule hit_once [OF ok a(1)]) (use a(2) in auto)
  have f: "?f b = (if b = a then a' else b)" if "b \<in> set (attempts s)" for b
    using id_inject [OF ok that a(1)] a(2) upd by auto
  let ?s = "\<lambda>fs. s\<lparr>wk_faults := fs, attempts := map ?f (attempts s)\<rparr>"
  have "wdk_ok env fate (s\<lparr>wk_faults := fs\<rparr>\<lparr>attempts := map ?f (attempts (s\<lparr>wk_faults := fs\<rparr>))\<rparr>)" for fs
    by (rule wdk_ok_map) (use ok wdk_okD(4) [OF ok] good a(1,3) f in auto)
  then have ok': "wdk_ok env fate (?s fs)" for fs by simp
  have "set (attempts (?s fs)) = (\<lambda>b. if b = a then a' else b) ` set (attempts s)" for fs using f by auto
  moreover from this have in': "a' \<in> set (attempts (?s fs))" for fs using a(1) by (auto simp: image_iff)
  moreover have "\<exists>r. find (\<lambda>b. wa_id b = wa_id a) (map ?f (attempts s)) = Some r"
    using in' upd by (auto simp: find_Some_iff2 find_None_iff not_None_eq [symmetric] simp del: not_None_eq)
  ultimately show ?thesis
    using Q [OF ok'] E one a(2)
    by (auto simp: updateStatus_def Let_def wp_seqH wp_readH wp_guardH wp_requireH intro!: wpI_dbW)
qed

definition prepared :: "string \<Rightarrow> string \<Rightarrow> wdk_operation \<Rightarrow> string \<Rightarrow> string \<Rightarrow> wdk_state \<Rightarrow> attempt_row \<Rightarrow> bool" where
  "prepared aid i op destination amount s a \<longleftrightarrow> a \<in> set (attempts s) \<and> wa_id a = aid \<and> of_operation i op a \<and> wa_destination a = destination
     \<and> decimalAmountsEqual (wa_amount a) amount \<and> wa_status a = PREPARED"

lemma wp_createAttempt:
  assumes ok: "wdk_ok env fate s" and inj: "inj (wd_uuid env)" and dec: "is_decimal amount"
    and prev: "\<And>b. b \<in> set (attempts s) \<Longrightarrow> of_operation i op b \<Longrightarrow> superseded b"
    and E: "\<And>e fs. E e (s\<lparr>wk_faults := fs\<rparr>)"
    and Q: "\<And>aid s' a. wdk_ok env fate s' \<Longrightarrow> prepared aid i op destination amount s' a \<Longrightarrow> Q aid s'"
  shows "wpH (createAttempt env i op destination amount) Q E s"
proof -
  let ?a = "\<lparr>wa_id = wd_uuid env (wk_draws s), wa_escrowId = i, wa_operationType = op, wa_destination = destination, wa_amount = amount,
      wa_status = PREPARED, wa_txHash = None, wa_activeKey = Some (active_key i op)\<rparr>"
  have "Q (wd_uuid env (wk_draws s)) (s\<lparr>wk_faults := fs, wk_draws := Suc (wk_draws s), attempts := attempts s @ [?a]\<rparr>)" for fs
  proof (rule Q)
    have "wdk_ok env fate (s\<lparr>wk_faults := fs\<rparr>)" using ok by simp
    from wdk_ok_append [OF this inj, of ?a] prev dec
    show "wdk_ok env fate (s\<lparr>wk_faults := fs, wk_draws := Suc (wk_draws s), attempts := attempts s @ [?a]\<rparr>)" by simp
    show "prepared (wd_uuid env (wk_draws s)) i op destination amount (s\<lparr>wk_faults := fs, wk_draws := Suc (wk_draws s), attempts := attempts s @ [?a]\<rparr>) ?a"
      by (simp add: prepared_def of_operation_def decimalAmountsEqual_def)
  qed
  moreover have "E e s" for e using E [of e "wk_faults s"] by simp
  ultimately show ?thesis
    using E by (auto simp: createAttempt_def wp_seqH wp_readH wp_guardH wp_ret intro!: wpI_dbW)
qed

lemma attempt_ok_key [simp]: "attempt_ok fate (a\<lparr>wa_activeKey := k\<rparr>) ts = attempt_ok fate a ts"
  by (simp add: attempt_ok_def carries_def split: wdk_status.split)

lemma wp_replaceActive:
  assumes ok: "wdk_ok env fate s" and inj: "inj (wd_uuid env)" and dec: "is_decimal amount"
    and prev: "\<And>b. b \<in> set (attempts s) \<Longrightarrow> of_operation i op b \<Longrightarrow> superseded b"
    and E: "\<And>e fs. E e (s\<lparr>wk_faults := fs\<rparr>)"
    and Q: "\<And>aid s' a. wdk_ok env fate s' \<Longrightarrow> prepared aid i op destination amount s' a \<Longrightarrow> Q aid s'"
  shows "wpH (replaceActive env prevId expected i op destination amount) Q E s"
proof -
  let ?f = "\<lambda>a. if wa_id a = prevId \<and> wa_activeKey a = Some (active_key i op) \<and> wa_status a \<in> set expected then a\<lparr>wa_activeKey := None\<rparr> else a"
  let ?s = "\<lambda>fs. s\<lparr>wk_faults := fs, attempts := map ?f (attempts s)\<rparr>"
  have "wdk_ok env fate (s\<lparr>wk_faults := fs\<rparr>\<lparr>attempts := map ?f (attempts (s\<lparr>wk_faults := fs\<rparr>))\<rparr>)" for fs
    by (rule wdk_ok_map) (use ok wdk_okD(4) [OF ok] in auto)
  then have ok': "wdk_ok env fate (?s fs)" for fs by simp
  have "superseded b" if "b \<in> set (attempts (?s fs))" "of_operation i op b" for fs b
  proof -
    from that(1) obtain x where "x \<in> set (attempts s)" "b = ?f x" by auto
    with that(2) prev [of x] show ?thesis by (auto simp: of_operation_def split: if_splits)
  qed
  then have "wpH (createAttempt env i op destination amount) Q (\<lambda>e s'. E e (s\<lparr>wk_faults := wk_faults s'\<rparr>)) (?s fs)" for fs
    by (rule wp_createAttempt [OF ok' inj dec]) (auto intro: E Q)
  then show ?thesis
    using E by (auto simp: replaceActive_def wp_transactionW Let_def wp_seqH wp_readH wp_guardH intro!: wpI_dbW)
qed

lemma wp_receipt:
  assumes "\<And>e n. E e (s\<lparr>wk_polls := n\<rparr>)" and "\<And>r n m. wd_receipt env m hash = Inr r \<Longrightarrow> Q r (s\<lparr>wk_polls := n\<rparr>)"
  shows "wpH (getTransactionReceipt env hash) Q E s"
  using assms by (auto simp: getTransactionReceipt_def wp_seqH wp_readH wp_writeH wp_liftH split: sum.split)

lemma wp_requireHash:
  assumes "\<And>e. E e s" and "\<And>h. wa_txHash a = Some h \<Longrightarrow> Q h s"
  shows "wpH (requireHash a) Q E s"
  using assms by (auto simp: requireHash_def wp_requireH split: option.split list.split)

section \<open>Ensuring an attempt\<close>

definition confirmed :: "string \<Rightarrow> string \<Rightarrow> wdk_operation \<Rightarrow> string \<Rightarrow> string \<Rightarrow> wdk_state \<Rightarrow> attempt_row \<Rightarrow> bool" where
  "confirmed h i op destination amount s a \<longleftrightarrow> a \<in> set (attempts s) \<and> of_operation i op a \<and> wa_destination a = destination
     \<and> decimalAmountsEqual (wa_amount a) amount \<and> wa_status a = W_CONFIRMED \<and> wa_txHash a = Some h"

definition ensured :: "string \<Rightarrow> wdk_operation \<Rightarrow> string \<Rightarrow> string \<Rightarrow> ensure_result \<Rightarrow> wdk_state \<Rightarrow> bool" where
  "ensured i op destination amount res s \<longleftrightarrow>
     (case res of PROCEED aid \<Rightarrow> \<exists>a. prepared aid i op destination amount s a | RESUME_CONFIRMED h \<Rightarrow> \<exists>a. confirmed h i op destination amount s a)"

text \<open>Identifiers are not reused, and a receipt tells what became of the transaction.\<close>

definition truthful :: "wdk_env \<Rightarrow> (string \<Rightarrow> bool) \<Rightarrow> bool" where
  "truthful env fate \<longleftrightarrow> inj (wd_uuid env) \<and> (\<forall>n h ok. wd_receipt env n h = Inr (Some ok) \<longrightarrow> ok = fate h)"

lemma truthfulD:
  assumes "truthful env fate"
  shows "inj (wd_uuid env)" "wd_receipt env n h = Inr (Some ok) \<Longrightarrow> ok = fate h"
  using assms by (simp_all add: truthful_def)

abbreviation keeps :: "wdk_env \<Rightarrow> (string \<Rightarrow> bool) \<Rightarrow> 'a wdk \<Rightarrow> ('a \<Rightarrow> wdk_state \<Rightarrow> bool) \<Rightarrow> wdk_state \<Rightarrow> bool" where
  "keeps env fate m Q \<equiv> wpH m (\<lambda>r s'. wdk_ok env fate s' \<and> Q r s') (\<lambda>_. wdk_ok env fate)"

lemma wp_retry:
  assumes tc: "truthful env fate" and ok: "wdk_ok env fate s" and dec: "is_decimal amount"
    and prev: "\<And>b. b \<in> set (attempts s) \<Longrightarrow> of_operation i op b \<Longrightarrow> superseded b"
  shows "keeps env fate (retryAttempt env latest st i op destination amount) (ensured i op destination amount) s"
  unfolding retryAttempt_def wp_seqH
  by (rule wp_replaceActive [OF ok truthfulD(1) [OF tc] dec prev]) (use ok in \<open>auto simp: wp_ret ensured_def\<close>)

lemma wp_settle_submitted:
  assumes ok: "wdk_ok env fate s" and a: "a \<in> set (attempts s)" "wa_status a = SUBMITTED" "wa_txHash a = Some h"
    and st: "st = W_CONFIRMED \<and> fate h \<or> st = W_REVERTED \<and> \<not> fate h"
    and E: "\<And>e fs. E e (s\<lparr>wk_faults := fs\<rparr>)"
    and Q: "\<And>s' r. wdk_ok env fate s' \<Longrightarrow> a\<lparr>wa_status := st\<rparr> \<in> set (attempts s') \<Longrightarrow> transfers s' = transfers s \<Longrightarrow>
        set (attempts s') = (\<lambda>b. if b = a then a\<lparr>wa_status := st\<rparr> else b) ` set (attempts s) \<Longrightarrow> Q r s'"
  shows "wpH (updateStatus (wa_id a) st None [SUBMITTED]) Q E s"
proof (rule wp_updateStatus [OF ok a(1), where a' = "a\<lparr>wa_status := st\<rparr>"])
  show "attempt_ok fate (a\<lparr>wa_status := st\<rparr>) (own (wa_id a) (transfers s))"
    using wdk_okD(4) [OF ok a(1)] a st by (auto simp: attempt_ok_def carries_def single_def)
qed (use a E Q in simp_all)

lemma rows_of_latest:
  assumes ok: "wdk_ok env fate s" and ne: "filter (of_operation i op) (attempts s) \<noteq> []" and b: "b \<in> set (attempts s)" "of_operation i op b"
  shows "b = last (filter (of_operation i op) (attempts s)) \<or> superseded b"
proof -
  let ?rows = "filter (of_operation i op) (attempts s)"
  have "b \<in> set (butlast ?rows @ [last ?rows])" using b ne by simp
  then show ?thesis using wdk_okD(5) [OF ok, of b i op] by auto
qed

text \<open>The latest attempt of an operation, as \<open>ensureAttempt\<close> has it before its case distinction.\<close>

definition latest_match :: "string \<Rightarrow> wdk_operation \<Rightarrow> string \<Rightarrow> string \<Rightarrow> wdk_state \<Rightarrow> attempt_row \<Rightarrow> bool" where
  "latest_match i op destination amount s l \<longleftrightarrow>
     l \<in> set (attempts s) \<and> of_operation i op l \<and> wa_destination l = destination \<and> decimalAmountsEqual (wa_amount l) amount
     \<and> (\<forall>b \<in> set (attempts s). of_operation i op b \<longrightarrow> b = l \<or> superseded b)"

lemma latest_match_polls [simp]: "latest_match i op destination amount (s\<lparr>wk_polls := n\<rparr>) l = latest_match i op destination amount s l"
  by (simp add: latest_match_def)

lemma wp_resume_confirmed:
  assumes ok: "wdk_ok env fate s" and l: "latest_match i op destination amount s l" and st: "wa_status l = SUBMITTED" "wa_txHash l = Some h" "fate h"
  shows "keeps env fate (updateStatus (wa_id l) W_CONFIRMED None [SUBMITTED]) (\<lambda>_. ensured i op destination amount (RESUME_CONFIRMED h)) s"
proof (rule wp_settle_submitted [OF ok _ st(1,2)])
  fix s' assume ok': "wdk_ok env fate s'" and mem: "l\<lparr>wa_status := W_CONFIRMED\<rparr> \<in> set (attempts s')"
  then have "confirmed h i op destination amount s' (l\<lparr>wa_status := W_CONFIRMED\<rparr>)"
    using l st by (simp add: confirmed_def latest_match_def of_operation_def)
  with ok' show "wdk_ok env fate s' \<and> ensured i op destination amount (RESUME_CONFIRMED h) s'" by (auto simp: ensured_def)
qed (use l st ok in \<open>simp_all add: latest_match_def\<close>)

lemma wp_retry_reverted:
  assumes tc: "truthful env fate" and ok: "wdk_ok env fate s" and dec: "is_decimal amount" and l: "latest_match i op destination amount s l"
    and st: "wa_status l = SUBMITTED" "wa_txHash l = Some h" "\<not> fate h"
  shows "keeps env fate (seqH (updateStatus (wa_id l) W_REVERTED None [SUBMITTED]) (\<lambda>_. retryAttempt env l W_REVERTED i op destination amount))
    (ensured i op destination amount) s"
  unfolding wp_seqH
proof (rule wp_settle_submitted [OF ok _ st(1,2)])
  fix s' assume "wdk_ok env fate s'" and rows: "set (attempts s') = (\<lambda>b. if b = l then l\<lparr>wa_status := W_REVERTED\<rparr> else b) ` set (attempts s)"
  then show "keeps env fate (retryAttempt env l W_REVERTED i op destination amount) (ensured i op destination amount) s'"
    by (intro wp_retry [OF tc _ dec]) (use l in \<open>auto simp: latest_match_def split: if_splits\<close>)
qed (use l st ok in \<open>simp_all add: latest_match_def\<close>)

lemma wp_submitted:
  assumes tc: "truthful env fate" and ok: "wdk_ok env fate s" and dec: "is_decimal amount" and l: "latest_match i op destination amount s l"
    and st: "wa_status l = SUBMITTED" "wa_txHash l = Some h" and rc: "wd_receipt env m h = Inr receipt"
  shows "keeps env fate (case receipt of None \<Rightarrow> throw (EscrowError ''still pending confirmation on-chain'')
      | Some True \<Rightarrow> seqH (updateStatus (wa_id l) W_CONFIRMED None [SUBMITTED]) (\<lambda>_. ret (RESUME_CONFIRMED h))
      | Some False \<Rightarrow> seqH (updateStatus (wa_id l) W_REVERTED None [SUBMITTED]) (\<lambda>_. retryAttempt env l W_REVERTED i op destination amount))
    (ensured i op destination amount) s"
proof (cases receipt)
  case (Some good)
  then have "good = fate h" using truthfulD(2) [OF tc] rc by blast
  with Some show ?thesis
    using wp_resume_confirmed [OF ok l st] wp_retry_reverted [OF tc ok dec l st]
    by (cases good) (simp_all add: wp_ret wp_seqH [of "updateStatus (wa_id l) W_CONFIRMED None [SUBMITTED]"])
qed (use ok in \<open>simp add: wp_throw\<close>)

lemma wp_ensureAttempt:
  assumes tc: "truthful env fate" and ok: "wdk_ok env fate s" and dec: "is_decimal amount"
  shows "keeps env fate (ensureAttempt env i op destination amount) (ensured i op destination amount) s"
proof (cases "filter (of_operation i op) (attempts s) = []")
  case True
  have "keeps env fate (createAttempt env i op destination amount) (\<lambda>aid. ensured i op destination amount (PROCEED aid)) s"
    by (rule wp_createAttempt [OF ok truthfulD(1) [OF tc] dec]) (use True ok in \<open>auto simp: filter_empty_conv ensured_def\<close>)
  then show ?thesis using True by (simp add: ensureAttempt_def findLatest_def wp_seqH wp_readH wp_ret)
next
  case False
  let ?l = "last (filter (of_operation i op) (attempts s))" and ?Q = "ensured i op destination amount"
  let ?match = "wa_destination ?l = destination \<and> decimalAmountsEqual (wa_amount ?l) amount"
  have l: "latest_match i op destination amount s ?l" if ?match
    using last_in_set [OF False] that rows_of_latest [OF ok False] by (auto simp: latest_match_def)
  have "keeps env fate (retryAttempt env ?l st i op destination amount) ?Q s" if ?match "superseded ?l" for st
    by (rule wp_retry [OF tc ok dec]) (use l that in \<open>auto simp: latest_match_def\<close>)
  moreover have "keeps env fate (seqH (requireHash ?l) (\<lambda>h. seqH (getTransactionReceipt env h) (\<lambda>receipt. case receipt of None \<Rightarrow> throw (EscrowError ''still pending confirmation on-chain'')
        | Some True \<Rightarrow> seqH (updateStatus (wa_id ?l) W_CONFIRMED None [SUBMITTED]) (\<lambda>_. ret (RESUME_CONFIRMED h))
        | Some False \<Rightarrow> seqH (updateStatus (wa_id ?l) W_REVERTED None [SUBMITTED]) (\<lambda>_. retryAttempt env ?l W_REVERTED i op destination amount)))) ?Q s"
    if ?match "wa_status ?l = SUBMITTED"
    unfolding wp_seqH [where m = "requireHash _"] wp_seqH [where m = "getTransactionReceipt _ _"]
    by (intro wp_requireHash wp_receipt) (use ok l that in \<open>simp_all add: wp_submitted [OF tc _ dec]\<close>)
  moreover have "?Q (PROCEED (wa_id ?l)) s" if "wa_status ?l = PREPARED" ?match
    using that l by (auto simp: ensured_def prepared_def latest_match_def)
  moreover have "keeps env fate (seqH (requireHash ?l) (\<lambda>h. ret (RESUME_CONFIRMED h))) ?Q s" if "wa_status ?l = W_CONFIRMED" ?match
    unfolding wp_seqH by (rule wp_requireHash) (use that ok l in \<open>auto simp: wp_ret ensured_def confirmed_def latest_match_def\<close>)
  ultimately show ?thesis
    using False ok
    by (auto simp: ensureAttempt_def findLatest_def Let_def wp_seqH [where m = "readH _"] wp_seqH [where m = "guardH _ _"] wp_readH wp_guardH wp_ret wp_throw
        split: wdk_status.split)
qed

section \<open>Executing a transfer\<close>

definition delivered :: "(string \<Rightarrow> bool) \<Rightarrow> string \<Rightarrow> wdk_operation \<Rightarrow> string \<Rightarrow> int \<Rightarrow> string \<Rightarrow> wdk_state \<Rightarrow> bool" where
  "delivered fate i op destination amount h s \<longleftrightarrow> fate h \<and>
     list_ex (\<lambda>t. tf_escrowId t = i \<and> tf_operation t = op \<and> tf_to t = destination \<and> tf_amount t = amount \<and> tf_hash t = Some h) (transfers s)"

lemma confirmed_delivered:
  assumes ok: "wdk_ok env fate s" and a: "confirmed h i op destination amount s a"
    and dec: "is_decimal amount" "toBaseUnits amount USDT_DECIMALS = Inr u"
  shows "delivered fate i op destination u h s"
proof -
  have row: "attempt_ok fate a (own (wa_id a) (transfers s))" using wdk_okD(4) [OF ok] a by (simp add: confirmed_def)
  then have "toBaseUnits (wa_amount a) USDT_DECIMALS = Inr u"
    using equal_decimals [of "wa_amount a" amount USDT_DECIMALS] a dec by (simp add: attempt_ok_def confirmed_def USDT_DECIMALS_def)
  moreover obtain t where t: "own (wa_id a) (transfers s) = [t]" "tf_hash t = Some h" "fate h" "carries t a"
    using row a by (auto simp: attempt_ok_def confirmed_def single_def)
  moreover have "t \<in> set (own (wa_id a) (transfers s))" unfolding t(1) by simp
  then have "t \<in> set (transfers s)" by (simp add: own_def)
  ultimately show ?thesis
    using a by (auto simp: delivered_def carries_def confirmed_def of_operation_def list_ex_iff intro!: bexI [of _ t])
qed

lemma wp_poll:
  assumes tc: "truthful env fate" and E: "\<And>e n. E e (s\<lparr>wk_polls := n\<rparr>)" and P: "\<And>n. Q R_PENDING (s\<lparr>wk_polls := n\<rparr>)"
    and Q: "\<And>n. Q (if fate h then R_CONFIRMED else R_REVERTED) (s\<lparr>wk_polls := n\<rparr>)"
  shows "wpH (pollReceipt env h k) Q E (s\<lparr>wk_polls := n\<rparr>)"
proof (induction k arbitrary: n)
  case 0
  then show ?case using P by (simp add: wp_ret)
next
  case (Suc k)
  show ?case
    unfolding pollReceipt.simps wp_seqH
  proof (rule wp_receipt)
    fix r m j assume r: "wd_receipt env m h = Inr r"
    show "wpH (case r of Some ok \<Rightarrow> ret (if ok then R_CONFIRMED else R_REVERTED) | None \<Rightarrow> pollReceipt env h k) Q E (s\<lparr>wk_polls := n, wk_polls := j\<rparr>)"
      using Suc.IH [of j] Q truthfulD(2) [OF tc] r by (cases r) (auto simp: wp_ret)
  qed (use E in simp)
qed

lemma wp_wait:
  assumes tc: "truthful env fate" and E: "\<And>e n. E e (s\<lparr>wk_polls := n\<rparr>)" and P: "\<And>n. Q R_PENDING (s\<lparr>wk_polls := n\<rparr>)"
    and Q: "\<And>n. Q (if fate h then R_CONFIRMED else R_REVERTED) (s\<lparr>wk_polls := n\<rparr>)"
  shows "wpH (waitForReceiptOutcome env h) Q E s"
  using wp_poll [of env fate E s Q h "wd_pollAttempts env" "wk_polls s", OF assms] by (simp add: waitForReceiptOutcome_def)

text \<open>The last part of \<open>executeTransfer\<close>, from the wait for the receipt on.\<close>

abbreviation awaitDelivery :: "wdk_env \<Rightarrow> string \<Rightarrow> string \<Rightarrow> string wdk" where
  "awaitDelivery env aid hash \<equiv> seqH (waitForReceiptOutcome env hash) (\<lambda>receipt. case receipt of
      R_CONFIRMED \<Rightarrow> seqH (updateStatus aid W_CONFIRMED None [SUBMITTED]) (\<lambda>_. ret hash)
    | R_REVERTED \<Rightarrow> seqH (updateStatus aid W_REVERTED None [SUBMITTED]) (\<lambda>_. throw (EscrowError ''reverted on-chain''))
    | R_PENDING \<Rightarrow> throw (EscrowError ''submitted but is not yet confirmed on-chain''))"

lemma wp_after_submit:
  assumes tc: "truthful env fate" and ok: "wdk_ok env fate s" and a: "a \<in> set (attempts s)" "wa_status a = SUBMITTED" "wa_txHash a = Some h"
    and row: "of_operation i op a" "wa_destination a = destination" "decimalAmountsEqual (wa_amount a) amount"
    and dec: "is_decimal amount" "toBaseUnits amount USDT_DECIMALS = Inr u"
  shows "keeps env fate (awaitDelivery env (wa_id a) h) (delivered fate i op destination u) s"
proof -
  let ?Q = "\<lambda>h s'. wdk_ok env fate s' \<and> delivered fate i op destination u h s'"
  have good: "wpH (updateStatus (wa_id a) W_CONFIRMED None [SUBMITTED]) (\<lambda>_. ?Q h) (\<lambda>_. wdk_ok env fate) (s\<lparr>wk_polls := n\<rparr>)" if "fate h" for n
  proof (rule wp_settle_submitted [of env fate "s\<lparr>wk_polls := n\<rparr>" a h])
    fix s' assume ok': "wdk_ok env fate s'" and "a\<lparr>wa_status := W_CONFIRMED\<rparr> \<in> set (attempts s')"
    then have "confirmed h i op destination amount s' (a\<lparr>wa_status := W_CONFIRMED\<rparr>)"
      using row a by (simp add: confirmed_def of_operation_def)
    from confirmed_delivered [OF ok' this dec] ok' show "?Q h s'" by simp
  qed (use ok a that in simp_all)
  have bad: "wpH (updateStatus (wa_id a) W_REVERTED None [SUBMITTED]) (\<lambda>_. wdk_ok env fate) (\<lambda>_. wdk_ok env fate) (s\<lparr>wk_polls := n\<rparr>)" if "\<not> fate h" for n
    by (rule wp_settle_submitted [of env fate "s\<lparr>wk_polls := n\<rparr>" a h]) (use ok a that in simp_all)
  show ?thesis
    unfolding wp_seqH [where m = "waitForReceiptOutcome _ _"]
    by (rule wp_wait [OF tc]) (use good bad ok in \<open>simp_all add: wp_seqH wp_throw wp_ret\<close>)
qed

definition claims :: "string \<Rightarrow> wdk_operation \<Rightarrow> string \<Rightarrow> string \<Rightarrow> attempt_row \<Rightarrow> bool" where
  "claims i op destination amount a \<longleftrightarrow> of_operation i op a \<and> wa_destination a = destination \<and> decimalAmountsEqual (wa_amount a) amount"

lemma claims_update [simp]:
  "claims i op destination amount (a\<lparr>wa_status := st\<rparr>) = claims i op destination amount a"
  "claims i op destination amount (a\<lparr>wa_txHash := h\<rparr>) = claims i op destination amount a"
  by (simp_all add: claims_def of_operation_def)

lemma wp_mark_submitted:
  assumes tc: "truthful env fate" and ok: "wdk_ok env fate s" and a: "a \<in> set (attempts s)" "wa_status a = SUBMISSION_UNKNOWN" "claims i op destination amount a"
    and t: "own (wa_id a) (transfers s) = [t]" "tf_hash t = Some hash"
    and dec: "is_decimal amount" "toBaseUnits amount USDT_DECIMALS = Inr u"
  shows "keeps env fate (seqH (updateStatus (wa_id a) SUBMITTED (Some hash) [SUBMISSION_UNKNOWN]) (\<lambda>_. awaitDelivery env (wa_id a) hash))
    (delivered fate i op destination u) s"
  unfolding wp_seqH [where m = "updateStatus _ _ _ _"]
proof (rule wp_updateStatus [OF ok a(1), where a' = "a\<lparr>wa_status := SUBMITTED, wa_txHash := Some hash\<rparr>"])
  show "attempt_ok fate (a\<lparr>wa_status := SUBMITTED, wa_txHash := Some hash\<rparr>) (own (wa_id a) (transfers s))"
    using wdk_okD(4) [OF ok a(1)] a t by (simp add: attempt_ok_def carries_def single_def)
  fix s' assume "wdk_ok env fate s'" "a\<lparr>wa_status := SUBMITTED, wa_txHash := Some hash\<rparr> \<in> set (attempts s')"
  from wp_after_submit [OF tc this _ _ _ _ _ dec, of hash i op destination] a(3)
  show "keeps env fate (awaitDelivery env (wa_id a) hash) (delivered fate i op destination u) s'" by (simp add: claims_def of_operation_def)
qed (use ok a in simp_all)

lemma wp_send:
  assumes tc: "truthful env fate" and ok: "wdk_ok env fate s" and a: "a \<in> set (attempts s)" "wa_status a = SUBMISSION_UNKNOWN" "claims i op destination amount a"
    and unsent: "own (wa_id a) (transfers s) = []" and dec: "is_decimal amount" "toBaseUnits amount USDT_DECIMALS = Inr u"
  shows "keeps env fate (seqH (callTransfer env (wa_id a) i op source destination u) (\<lambda>hash.
      seqH (updateStatus (wa_id a) SUBMITTED (Some hash) [SUBMISSION_UNKNOWN]) (\<lambda>_. awaitDelivery env (wa_id a) hash))) (delivered fate i op destination u) s"
proof -
  let ?r = "wd_transfer env (length (transfers s)) source destination u"
  let ?t = "\<lparr>tf_attempt = wa_id a, tf_escrowId = i, tf_operation = op, tf_source = source, tf_to = destination, tf_amount = u,
     tf_hash = (case ?r of Inl _ \<Rightarrow> None | Inr h \<Rightarrow> Some h)\<rparr>"
  let ?s = "s\<lparr>transfers := transfers s @ [?t]\<rparr>"
  have "is_decimal (wa_amount a)" using wdk_okD(4) [OF ok a(1)] by (simp add: attempt_ok_def)
  then have "toBaseUnits (wa_amount a) USDT_DECIMALS = Inr u"
    using equal_decimals [of "wa_amount a" amount USDT_DECIMALS] a(3) dec by (simp add: claims_def USDT_DECIMALS_def)
  then have "carries ?t a" using a(3) by (simp add: carries_def claims_def of_operation_def)
  then have ok': "wdk_ok env fate ?s" using wdk_ok_transfer [OF ok a(1,2) unsent, of ?t] by simp
  have one: "own (wa_id a) (transfers ?s) = [?t]" using unsent by (simp add: own_def)
  have "keeps env fate (seqH (updateStatus (wa_id a) SUBMITTED (Some hash) [SUBMISSION_UNKNOWN]) (\<lambda>_. awaitDelivery env (wa_id a) hash))
      (delivered fate i op destination u) ?s" if "?r = Inr hash" for hash
    by (rule wp_mark_submitted [OF tc ok' _ a(2,3) one _ dec]) (use a(1) that in simp_all)
  moreover have "wpH (callTransfer env (wa_id a) i op source destination u) Q E s = (case ?r of Inl e \<Rightarrow> E e ?s | Inr h \<Rightarrow> Q h ?s)" for Q E
    by (simp add: wpH_def callTransfer_def Let_def split: sum.split)
  ultimately show ?thesis
    using ok' unfolding wp_seqH [where m = "callTransfer _ _ _ _ _ _ _"] by (cases ?r) simp_all
qed

lemma wp_executeTransfer:
  assumes tc: "truthful env fate" and ok: "wdk_ok env fate s" and dec: "is_decimal amount" "toBaseUnits amount USDT_DECIMALS = Inr u"
  shows "keeps env fate (executeTransfer env i op source destination amount u) (delivered fate i op destination u) s"
proof -
  let ?send = "\<lambda>aid. seqH (callTransfer env aid i op source destination u) (\<lambda>hash.
      seqH (updateStatus aid SUBMITTED (Some hash) [SUBMISSION_UNKNOWN]) (\<lambda>_. awaitDelivery env aid hash))"
  have send: "keeps env fate (seqH (markSubmissionAttempted aid) (\<lambda>_. ?send aid)) (delivered fate i op destination u) s1"
    if ok1: "wdk_ok env fate s1" and a: "prepared aid i op destination amount s1 a" for s1 aid a
  proof -
    have mem: "a \<in> set (attempts s1)" "wa_status a = PREPARED" "aid = wa_id a" "claims i op destination amount a"
      using a by (auto simp: prepared_def claims_def)
    have row: "attempt_ok fate a (own (wa_id a) (transfers s1))" using wdk_okD(4) [OF ok1 mem(1)] .
    have "wpH (updateStatus (wa_id a) SUBMISSION_UNKNOWN None [PREPARED]) (\<lambda>_. keeps env fate (?send (wa_id a)) (delivered fate i op destination u)) (\<lambda>_. wdk_ok env fate) s1"
    proof (rule wp_updateStatus [OF ok1 mem(1), where a' = "a\<lparr>wa_status := SUBMISSION_UNKNOWN\<rparr>"])
      show "attempt_ok fate (a\<lparr>wa_status := SUBMISSION_UNKNOWN\<rparr>) (own (wa_id a) (transfers s1))"
        using row mem(2) by (simp add: attempt_ok_def carries_def)
      fix s' assume "wdk_ok env fate s'" "a\<lparr>wa_status := SUBMISSION_UNKNOWN\<rparr> \<in> set (attempts s')" "transfers s' = transfers s1"
      then show "keeps env fate (?send (wa_id a)) (delivered fate i op destination u) s'"
        using wp_send [OF tc, of s' "a\<lparr>wa_status := SUBMISSION_UNKNOWN\<rparr>" i op destination amount u source] row mem(2,4) dec by (simp add: attempt_ok_def)
    qed (use ok1 mem in simp_all)
    then show ?thesis using mem(3) by (simp add: markSubmissionAttempted_def wp_seqH [where m = "updateStatus _ _ _ _"] wp_seqH [where m = "seqH _ _"] wp_ret)
  qed
  show ?thesis
    unfolding executeTransfer_def wp_seqH [where m = "ensureAttempt _ _ _ _ _"]
  proof (rule wpH_mono [OF wp_ensureAttempt [OF tc ok dec(1)]])
    fix res s1 assume *: "wdk_ok env fate s1 \<and> ensured i op destination amount res s1"
    then show "keeps env fate (case res of RESUME_CONFIRMED h \<Rightarrow> ret h | PROCEED aid \<Rightarrow> seqH (markSubmissionAttempted aid) (\<lambda>_. ?send aid)) (delivered fate i op destination u) s1"
      by (cases res) (auto simp: ensured_def wp_ret intro: send confirmed_delivered [OF _ _ dec])
  qed
qed

section \<open>Transfers are never taken back\<close>

abbreviation recorded :: "transfer_call \<Rightarrow> wdk_state \<Rightarrow> bool" where
  "recorded t \<equiv> \<lambda>s. t \<in> set (transfers s)"

lemma preserves_dbW: "(\<And>s. transfers (f s) = transfers s) \<Longrightarrow> preserves (recorded t) (dbW tag f)"
  by (simp add: preserves_def dbW_def split: list.split bool.split)

lemma preserves_transactionW: "preserves (recorded t) (transactionW m)" if "preserves (recorded t) m"
  using that by (auto simp: preserves_def transactionW_def split: prod.split sum.split)

lemma recorded_updateStatus: "preserves (recorded t) (updateStatus aid st h expected)"
  unfolding updateStatus_def Let_def by (intro preserves_intros preserves_dbW) simp

lemma recorded_ensureAttempt: "preserves (recorded t) (ensureAttempt env i op destination amount)"
proof -
  have create: "preserves (recorded t) (createAttempt env i op destination amount)"
    unfolding createAttempt_def by (intro preserves_intros preserves_dbW) simp
  have "preserves (recorded t) (replaceActive env aid expected i op destination amount)" for aid expected
    unfolding replaceActive_def Let_def by (intro preserves_transactionW preserves_intros preserves_dbW create) simp
  then have retry: "preserves (recorded t) (retryAttempt env l st i op destination amount)" for l st
    unfolding retryAttempt_def by (intro preserves_intros)
  have receipt: "preserves (recorded t) (getTransactionReceipt env h)" for h
    unfolding getTransactionReceipt_def by (intro preserves_intros) simp
  show ?thesis
    unfolding ensureAttempt_def findLatest_def requireHash_def
    by (intro preserves_intros create)
      (auto intro!: preserves_intros receipt retry recorded_updateStatus split: wdk_status.split bool.split)
qed

lemma recorded_poll: "preserves (recorded t) (pollReceipt env h k)"
proof (induction k)
  case (Suc k)
  then show ?case unfolding pollReceipt.simps getTransactionReceipt_def by (intro preserves_intros) auto
qed (simp add: preserves_ret)

lemma recorded_executeTransfer: "preserves (recorded t) (executeTransfer env i op source destination amount u)"
proof -
  have call: "preserves (recorded t) (callTransfer env aid i op source destination u)" for aid
    by (simp add: preserves_def callTransfer_def Let_def)
  have wait: "preserves (recorded t) (awaitDelivery env aid h)" for aid h
    unfolding waitForReceiptOutcome_def
    by (intro preserves_intros recorded_poll) (auto intro!: preserves_intros recorded_updateStatus split: receipt_outcome.split)
  show ?thesis
    unfolding executeTransfer_def markSubmissionAttempted_def
    by (intro preserves_intros recorded_ensureAttempt)
      (auto intro!: preserves_intros recorded_updateStatus call wait split: ensure_result.split)
qed

lemma delivered_executeTransfer:
  assumes "delivered fate j op' to v h s"
  shows "wpH (executeTransfer env i op source destination amount u) (\<lambda>_. delivered fate j op' to v h) (\<lambda>_ _. True) s"
proof -
  obtain t where t: "t \<in> set (transfers s)" "tf_escrowId t = j" "tf_operation t = op'" "tf_to t = to" "tf_amount t = v" "tf_hash t = Some h" and "fate h"
    using assms by (auto simp: delivered_def list_ex_iff)
  show ?thesis
    by (rule wpH_mono [OF preserves_wp [OF recorded_executeTransfer t(1)]]) (use t \<open>fate h\<close> in \<open>auto simp: delivered_def list_ex_iff\<close>)
qed

section \<open>The operations\<close>

lemma wpH_both: "wpH m Q E s \<Longrightarrow> wpH m R F s \<Longrightarrow> wpH m (\<lambda>a t. Q a t \<and> R a t) (\<lambda>e t. E e t \<and> F e t) s"
  by (auto simp: wpH_def split: prod.split sum.split)

lemma decimal_amount: "is_decimal s \<Longrightarrow> 0 < n \<Longrightarrow> \<exists>u. toBaseUnits s n = Inr u \<and> 0 \<le> u"
proof -
  assume s: "is_decimal s" "0 < n"
  obtain w f where wf: "split_dot s = (w, f)" by fastforce
  with s have "is_digit_string w" "list_all is_digit_char f" by (auto simp: is_decimal_def)
  from toBaseUnits_decimal [OF this s(2) wf] show ?thesis by (simp add: units_def)
qed

definition escrow_units :: "wdk_escrow \<Rightarrow> int" where
  "escrow_units e = (case toBaseUnits (we_lockedAmount e) USDT_DECIMALS of Inl _ \<Rightarrow> 0 | Inr u \<Rightarrow> u)"

lemma escrow_units: "is_decimal (we_lockedAmount e) \<Longrightarrow> toBaseUnits (we_lockedAmount e) USDT_DECIMALS = Inr (escrow_units e) \<and> 0 \<le> escrow_units e"
  using decimal_amount [of "we_lockedAmount e" USDT_DECIMALS] by (auto simp: escrow_units_def USDT_DECIMALS_def)

lemma wp_wallet: "wdk_ok env fate s \<Longrightarrow> Q () s \<Longrightarrow> wpH (liftH (getWallet env)) Q (\<lambda>_. wdk_ok env fate) s"
  by (simp add: wp_liftH getWallet_def)

lemma wp_lockFundsW:
  assumes tc: "truthful env fate" and ok: "wdk_ok env fate s" and dec: "is_decimal (we_lockedAmount e)"
  shows "keeps env fate (lockFundsW env e) (\<lambda>(h, address). delivered fate (we_id e) W_LOCK address (escrow_units e) h) s"
  unfolding lockFundsW_def Let_def wp_seqH [where m = "liftH (getWallet _)"]
  by (rule wp_wallet [OF ok])
    (use escrow_units [OF dec] wp_executeTransfer [OF tc ok dec, of "escrow_units e"] in \<open>simp add: wp_seqH wp_liftH wp_ret\<close>)

lemma wp_releaseFundsW:
  assumes tc: "truthful env fate" and ok: "wdk_ok env fate s" and dec: "is_decimal (we_lockedAmount e)"
  shows "keeps env fate (releaseFundsW env e to) (delivered fate (we_id e) W_RELEASE to (escrow_units e)) s"
  unfolding releaseFundsW_def wp_seqH [where m = "liftH (getWallet _)"]
  by (rule wp_wallet [OF ok])
    (use escrow_units [OF dec] wp_executeTransfer [OF tc ok dec, of "escrow_units e"] in \<open>simp add: wp_seqH [where m = "liftH _"] wp_liftH\<close>)

lemma wp_refundFundsW:
  assumes tc: "truthful env fate" and ok: "wdk_ok env fate s" and dec: "is_decimal (we_lockedAmount e)"
  shows "keeps env fate (refundFundsW env e) (delivered fate (we_id e) W_REFUND (wd_address env TreasuryAccount) (escrow_units e)) s"
  unfolding refundFundsW_def wp_seqH [where m = "liftH (getWallet _)"]
  by (rule wp_wallet [OF ok])
    (use escrow_units [OF dec] wp_executeTransfer [OF tc ok dec, of "escrow_units e"] in \<open>simp add: wp_seqH [where m = "liftH _"] wp_liftH\<close>)

definition buyer_share :: "wdk_escrow \<Rightarrow> rat \<Rightarrow> int" where
  "buyer_share e buyerBps = escrow_units e * \<lfloor>buyerBps\<rfloor> div 10000"

lemma buyer_share_range:
  assumes "is_decimal (we_lockedAmount e)" and "0 \<le> buyerBps" and "buyerBps \<le> 10000"
  shows "0 \<le> escrow_units e * \<lfloor>buyerBps\<rfloor>" "0 \<le> buyer_share e buyerBps" "buyer_share e buyerBps \<le> escrow_units e"
proof -
  let ?u = "escrow_units e" and ?k = "\<lfloor>buyerBps\<rfloor>"
  have "0 \<le> ?u" "0 \<le> ?k" "?k \<le> 10000" using escrow_units [OF assms(1)] assms(2,3) by (simp_all add: floor_le_iff)
  then show nn: "0 \<le> ?u * ?k" and "0 \<le> buyer_share e buyerBps" by (simp_all add: buyer_share_def pos_imp_zdiv_nonneg_iff)
  have "?u * ?k \<le> ?u * 10000" using \<open>0 \<le> ?u\<close> \<open>?k \<le> 10000\<close> by (rule mult_left_mono [rotated])
  then show "buyer_share e buyerBps \<le> ?u" unfolding buyer_share_def by linarith
qed

lemma split_amounts_shares:
  assumes "is_decimal (we_lockedAmount e)" and "0 \<le> buyerBps" and "buyerBps \<le> 10000" and "split_amounts (escrow_units e) buyerBps = Inr (b, r)"
  shows "b = buyer_share e buyerBps" "r = escrow_units e - b"
  using assms(4) buyer_share_range(1) [OF assms(1-3)]
  by (auto simp: split_amounts_def bigint_div_def buyer_share_def Let_def split: if_splits)

lemma wp_splitFundsW:
  assumes tc: "truthful env fate" and ok: "wdk_ok env fate s" and dec: "is_decimal (we_lockedAmount e)" and bps: "0 \<le> buyerBps" "buyerBps \<le> 10000"
  shows "keeps env fate (splitFundsW env e ba sa buyerBps) (\<lambda>(hb, hs) s'.
      delivered fate (we_id e) W_SPLIT_BUYER ba (buyer_share e buyerBps) hb s'
      \<and> delivered fate (we_id e) W_SPLIT_SELLER sa (escrow_units e - buyer_share e buyerBps) hs s') s"
proof (cases "split_amounts (escrow_units e) buyerBps")
  case (Inl x)
  then show ?thesis using ok escrow_units [OF dec] by (simp add: splitFundsW_def wp_seqH wp_liftH getWallet_def)
next
  case (Inr br)
  obtain b r where br: "br = (b, r)" by fastforce
  note sh = split_amounts_shares [OF dec bps, of b r]
  have share: "b = buyer_share e buyerBps" "r = escrow_units e - b" "0 \<le> b" "0 \<le> r" using sh Inr br buyer_share_range [OF dec bps] by auto
  let ?second = "executeTransfer env (we_id e) W_SPLIT_SELLER (escrowAccount env e) sa (fromBaseUnits r USDT_DECIMALS) r"
  have units: "is_decimal (fromBaseUnits a USDT_DECIMALS)" "toBaseUnits (fromBaseUnits a USDT_DECIMALS) USDT_DECIMALS = Inr a" if "0 \<le> a" for a
    using fromBaseUnits_decimal [OF that, of USDT_DECIMALS] by (simp_all add: USDT_DECIMALS_def)
  have legs: "keeps env fate (seqH (executeTransfer env (we_id e) W_SPLIT_BUYER (escrowAccount env e) ba (fromBaseUnits b USDT_DECIMALS) b) (\<lambda>hb.
      seqH ?second (\<lambda>hs. ret (hb, hs)))) (\<lambda>(hb, hs) s'. delivered fate (we_id e) W_SPLIT_BUYER ba b hb s' \<and> delivered fate (we_id e) W_SPLIT_SELLER sa r hs s') s"
    unfolding wp_seqH [where m = "executeTransfer _ _ _ _ _ _ _"]
  proof (rule wpH_mono [OF wp_executeTransfer [OF tc ok units [OF share(3)]]])
    fix hb s1 assume first: "wdk_ok env fate s1 \<and> delivered fate (we_id e) W_SPLIT_BUYER ba b hb s1"
    then have ok1: "wdk_ok env fate s1" and d: "delivered fate (we_id e) W_SPLIT_BUYER ba b hb s1" by simp_all
    show "wpH ?second (\<lambda>hs. keeps env fate (ret (hb, hs)) (\<lambda>(hb, hs) s'. delivered fate (we_id e) W_SPLIT_BUYER ba b hb s' \<and> delivered fate (we_id e) W_SPLIT_SELLER sa r hs s'))
        (\<lambda>_. wdk_ok env fate) s1"
      by (rule wpH_mono [OF wpH_both [OF wp_executeTransfer [OF tc ok1 units [OF share(4)]] delivered_executeTransfer [OF d]]]) (auto simp: wp_ret)
  qed
  show ?thesis
    unfolding splitFundsW_def wp_seqH [where m = "liftH _"]
    by (rule wp_wallet [OF ok]) (use escrow_units [OF dec] Inr br legs share in \<open>simp add: wp_liftH\<close>)
qed

section \<open>Sequences of calls\<close>

datatype wdk_call = LockCall wdk_escrow | ReleaseCall wdk_escrow string | RefundCall wdk_escrow | SplitCall wdk_escrow string string rat

fun valid_call :: "wdk_call \<Rightarrow> bool" where
  "valid_call (LockCall e) = is_decimal (we_lockedAmount e)"
| "valid_call (ReleaseCall e to) = is_decimal (we_lockedAmount e)"
| "valid_call (RefundCall e) = is_decimal (we_lockedAmount e)"
| "valid_call (SplitCall e ba sa bps) = (is_decimal (we_lockedAmount e) \<and> 0 \<le> bps \<and> bps \<le> 10000)"

fun perform :: "wdk_env \<Rightarrow> wdk_call \<Rightarrow> wdk_state \<Rightarrow> wdk_state" where
  "perform env (LockCall e) s = snd (lockFundsW env e s)"
| "perform env (ReleaseCall e to) s = snd (releaseFundsW env e to s)"
| "perform env (RefundCall e) s = snd (refundFundsW env e s)"
| "perform env (SplitCall e ba sa bps) s = snd (splitFundsW env e ba sa bps s)"

definition untouched :: "bool list \<Rightarrow> wdk_state" where
  "untouched fs = \<lparr>attempts = [], transfers = [], wk_draws = 0, wk_polls = 0, wk_faults = fs\<rparr>"

definition perform_all :: "wdk_env \<Rightarrow> wdk_call list \<Rightarrow> bool list \<Rightarrow> wdk_state" where
  "perform_all env calls fs = fold (perform env) calls (untouched fs)"

lemma keeps_snd: "keeps env fate m Q s \<Longrightarrow> wdk_ok env fate (snd (m s))"
  by (auto simp: wpH_def split: prod.splits sum.splits)

lemma perform_ok: "truthful env fate \<Longrightarrow> valid_call c \<Longrightarrow> wdk_ok env fate s \<Longrightarrow> wdk_ok env fate (perform env c s)"
  by (cases c) (auto intro: keeps_snd wp_lockFundsW wp_releaseFundsW wp_refundFundsW wp_splitFundsW)

lemma perform_all_ok:
  assumes "truthful env fate" and "list_all valid_call calls"
  shows "wdk_ok env fate (perform_all env calls fs)"
proof -
  have "wdk_ok env fate s \<Longrightarrow> wdk_ok env fate (fold (perform env) calls s)" for s
    using assms(2) by (induction calls arbitrary: s) (simp_all add: perform_ok [OF assms(1)])
  moreover have "wdk_ok env fate (untouched fs)" by (simp add: wdk_ok_def untouched_def)
  ultimately show ?thesis by (simp add: perform_all_def)
qed

text \<open>The transfers of one operation that the chain has not undone.\<close>

definition standing :: "(string \<Rightarrow> bool) \<Rightarrow> string \<Rightarrow> wdk_operation \<Rightarrow> wdk_state \<Rightarrow> transfer_call list" where
  "standing fate i op s =
     filter (\<lambda>t. tf_escrowId t = i \<and> tf_operation t = op \<and> (case tf_hash t of None \<Rightarrow> True | Some h \<Rightarrow> fate h)) (transfers s)"

lemma own_length: "attempt_ok fate a ts \<Longrightarrow> length ts \<le> 1"
  by (auto simp: attempt_ok_def single_def split: wdk_status.splits)

lemma standing_once:
  assumes ok: "wdk_ok env fate s"
  shows "length (standing fate i op s) \<le> 1"
proof (cases "standing fate i op s = []")
  case False
  let ?l = "last (filter (of_operation i op) (attempts s))"
  have owner: "filter (of_operation i op) (attempts s) \<noteq> [] \<and> tf_attempt t = wa_id ?l" if t: "t \<in> set (standing fate i op s)" for t
  proof -
    have st: "t \<in> set (transfers s)" "tf_escrowId t = i" "tf_operation t = op" "case tf_hash t of None \<Rightarrow> True | Some h \<Rightarrow> fate h"
      using t by (auto simp: standing_def)
    then obtain a where a: "a \<in> set (attempts s)" "tf_attempt t = wa_id a" using wdk_okD(3) [OF ok] by auto
    then have mem: "t \<in> set (own (wa_id a) (transfers s))" using st(1) by (simp add: own_def)
    have row: "attempt_ok fate a (own (wa_id a) (transfers s))" using wdk_okD(4) [OF ok a(1)] .
    then have of: "of_operation i op a" using mem st by (auto simp: attempt_ok_def carries_def of_operation_def)
    have "\<not> superseded a" using row mem st(4) by (auto simp: attempt_ok_def single_def)
    moreover have "filter (of_operation i op) (attempts s) \<noteq> []" using a(1) of by (auto simp: filter_empty_conv)
    ultimately show ?thesis using rows_of_latest [OF ok _ a(1) of] a(2) by auto
  qed
  then have sub: "standing fate i op s = filter (\<lambda>t. t \<in> set (standing fate i op s)) (own (wa_id ?l) (transfers s))"
    unfolding standing_def own_def filter_filter by (intro filter_cong refl) auto
  from False owner have "?l \<in> set (attempts s)" using last_in_set [of "filter (of_operation i op) (attempts s)"] by (cases "standing fate i op s") auto
  then have "length (own (wa_id ?l) (transfers s)) \<le> 1" using own_length wdk_okD(4) [OF ok] by blast
  then show ?thesis by (subst sub) (rule order_trans [OF length_filter_le])
qed simp

section \<open>A transfer that reverts, is retried, and is confirmed late\<close>

definition demo_wdk :: wdk_env where
  "demo_wdk = \<lparr>wd_uuid = (\<lambda>n. replicate n (CHR ''a'')), wd_sha256 = (\<lambda>_. ''00000003''), wd_seedPhrase = ''seed'', wd_usdtContract = ''usdt'',
     wd_address = (\<lambda>a. case a of TreasuryAccount \<Rightarrow> ''treasury'' | EscrowAccount _ \<Rightarrow> ''escrow''),
     wd_transfer = (\<lambda>n _ _ _. if n = 0 then Inr ''h0'' else if n = 1 then Inr ''h1'' else Inr ''h2''),
     wd_receipt = (\<lambda>n h. if h = ''h0'' then Inr (Some False) else if n < 3 then Inr None else Inr (Some True)), wd_pollAttempts = 2\<rparr>"

definition demo_fate :: "string \<Rightarrow> bool" where
  "demo_fate h \<longleftrightarrow> h \<noteq> ''h0''"

definition demo_token :: wdk_escrow where
  "demo_token = \<lparr>we_id = ''e'', we_tradeId = ''t'', we_lockedAmount = ''0.000004''\<rparr>"

lemma demo_truthful: "truthful demo_wdk demo_fate"
proof -
  have "inj (\<lambda>n. replicate n (CHR ''a''))" by (auto intro!: injI dest: arg_cong [of _ _ length])
  then show ?thesis by (simp add: truthful_def demo_wdk_def demo_fate_def split: if_splits)
qed

definition demo_calls :: "wdk_call list" where
  "demo_calls = [ReleaseCall demo_token ''seller'', ReleaseCall demo_token ''seller'']"

lemma demo_release: "map tf_hash (transfers (perform_all demo_wdk demo_calls [])) = [Some ''h0'', Some ''h1'']"
  by code_simp

lemma demo_results:
  "fst (releaseFundsW demo_wdk demo_token ''seller'' (perform_all demo_wdk demo_calls [])) = Inr ''h1''"
  "fst (splitFundsW demo_wdk demo_token ''b'' ''s'' 2500 (perform_all demo_wdk demo_calls [])) = Inr (''h2'', ''h2'')"
  by code_simp+

lemma demo_valid: "is_decimal (we_lockedAmount demo_token)"
  by code_simp

section \<open>Properties\<close>

text \<open>
  C13: After any sequence of lock, release, refund and split calls, with database failures anywhere and any answers of the wallet, at most
  one transfer of each operation of an escrow has been handed to the wallet that the chain has not undone; in particular at most one whose
  outcome is unknown. Receipts tell the truth and identifiers are not reused.
\<close>

theorem transfers_at_most_once:
  assumes "truthful env fate" and "list_all valid_call calls"
  shows "length (filter (\<lambda>t. tf_escrowId t = i \<and> tf_operation t = op \<and> (case tf_hash t of None \<Rightarrow> True | Some h \<Rightarrow> fate h))
      (transfers (perform_all env calls fs))) \<le> 1"
  using standing_once [OF perform_all_ok [OF assms]] by (simp add: standing_def)

theorem transfers_at_most_once_witness:
  "length (filter (\<lambda>t. tf_escrowId t = ''e'' \<and> tf_operation t = W_RELEASE \<and> (case tf_hash t of None \<Rightarrow> True | Some h \<Rightarrow> demo_fate h))
      (transfers (perform_all demo_wdk demo_calls []))) \<le> 1
   \<and> map tf_hash (transfers (perform_all demo_wdk demo_calls [])) = [Some ''h0'', Some ''h1'']"
  by (intro conjI transfers_at_most_once [OF demo_truthful] demo_release) (simp add: demo_calls_def demo_valid)

text \<open>
  C14: When a release is reported as done after any sequence of calls, a transfer with the reported hash, to the given address and of exactly
  the locked amount, was handed to the wallet and carried out by the chain; when a split is, both shares were, and they add up to the locked amount.
\<close>

theorem reported_payout_was_delivered:
  assumes "truthful env fate" and "list_all valid_call calls" and "valid_call (SplitCall e ba sa buyerBps)"
  shows "(case releaseFundsW env e to (perform_all env calls fs) of
            (Inl _, _) \<Rightarrow> True
          | (Inr h, s') \<Rightarrow> \<exists>u. toBaseUnits (we_lockedAmount e) USDT_DECIMALS = Inr u \<and> delivered fate (we_id e) W_RELEASE to u h s')
       \<and> (case splitFundsW env e ba sa buyerBps (perform_all env calls fs) of
            (Inl _, _) \<Rightarrow> True
          | (Inr (hb, hs), s') \<Rightarrow> \<exists>b r. toBaseUnits (we_lockedAmount e) USDT_DECIMALS = Inr (b + r) \<and> 0 \<le> b \<and> 0 \<le> r
             \<and> delivered fate (we_id e) W_SPLIT_BUYER ba b hb s' \<and> delivered fate (we_id e) W_SPLIT_SELLER sa r hs s')"
proof
  have dec: "is_decimal (we_lockedAmount e)" and bps: "0 \<le> buyerBps" "buyerBps \<le> 10000" using assms(3) by simp_all
  note ok = perform_all_ok [OF assms(1,2), of fs] and u = escrow_units [OF dec]
  show "case releaseFundsW env e to (perform_all env calls fs) of (Inl _, _) \<Rightarrow> True
      | (Inr h, s') \<Rightarrow> \<exists>u. toBaseUnits (we_lockedAmount e) USDT_DECIMALS = Inr u \<and> delivered fate (we_id e) W_RELEASE to u h s'"
    using wp_releaseFundsW [OF assms(1) ok dec, of to] u by (auto simp: wpH_def split: prod.splits sum.splits)
  show "case splitFundsW env e ba sa buyerBps (perform_all env calls fs) of (Inl _, _) \<Rightarrow> True
      | (Inr (hb, hs), s') \<Rightarrow> \<exists>b r. toBaseUnits (we_lockedAmount e) USDT_DECIMALS = Inr (b + r) \<and> 0 \<le> b \<and> 0 \<le> r
         \<and> delivered fate (we_id e) W_SPLIT_BUYER ba b hb s' \<and> delivered fate (we_id e) W_SPLIT_SELLER sa r hs s'"
  proof (cases "splitFundsW env e ba sa buyerBps (perform_all env calls fs)")
    case (Pair res s')
    let ?b = "buyer_share e buyerBps"
    have "\<exists>b r. toBaseUnits (we_lockedAmount e) USDT_DECIMALS = Inr (b + r) \<and> 0 \<le> b \<and> 0 \<le> r
         \<and> delivered fate (we_id e) W_SPLIT_BUYER ba b hb s' \<and> delivered fate (we_id e) W_SPLIT_SELLER sa r hs s'" if "res = Inr (hb, hs)" for hb hs
      using wpH_I [OF wp_splitFundsW [OF assms(1) ok dec bps] Pair [unfolded that]] u buyer_share_range [OF dec bps]
      by (intro exI [of _ ?b] exI [of _ "escrow_units e - ?b"]) simp
    then show ?thesis using Pair by (auto split: sum.split)
  qed
qed

theorem reported_payout_was_delivered_witness:
  "(case releaseFundsW demo_wdk demo_token ''seller'' (perform_all demo_wdk demo_calls []) of
      (Inl _, _) \<Rightarrow> True
    | (Inr h, s') \<Rightarrow> \<exists>u. toBaseUnits (we_lockedAmount demo_token) USDT_DECIMALS = Inr u \<and> delivered demo_fate (we_id demo_token) W_RELEASE ''seller'' u h s')
   \<and> (case splitFundsW demo_wdk demo_token ''b'' ''s'' 2500 (perform_all demo_wdk demo_calls []) of
      (Inl _, _) \<Rightarrow> True
    | (Inr (hb, hs), s') \<Rightarrow> \<exists>b r. toBaseUnits (we_lockedAmount demo_token) USDT_DECIMALS = Inr (b + r) \<and> 0 \<le> b \<and> 0 \<le> r
       \<and> delivered demo_fate (we_id demo_token) W_SPLIT_BUYER ''b'' b hb s' \<and> delivered demo_fate (we_id demo_token) W_SPLIT_SELLER ''s'' r hs s')
   \<and> fst (releaseFundsW demo_wdk demo_token ''seller'' (perform_all demo_wdk demo_calls [])) = Inr ''h1''
   \<and> fst (splitFundsW demo_wdk demo_token ''b'' ''s'' 2500 (perform_all demo_wdk demo_calls [])) = Inr (''h2'', ''h2'')"
proof -
  have "list_all valid_call demo_calls" "valid_call (SplitCall demo_token ''b'' ''s'' 2500)" by (simp_all add: demo_calls_def demo_valid)
  note all = reported_payout_was_delivered [OF demo_truthful this, of "''seller''" "[]"]
  show ?thesis by (intro conjI conjunct1 [OF all] conjunct2 [OF all] demo_results)
qed

end
