(* ===== verification/Spec2Isabelle.thy ===== *)
theory Spec2Isabelle
  imports Condition_Result Semantic_Core Capability_Registry Intent_Engine Provider_Registry Escrow_Safeguards Escrow_Sweep
    Escrow_Concurrency Revenue_Accounting Dispute_Outcomes Trade_Outcomes Signature_Outcomes Multisig_Outcomes
    Sweep_Outcomes Reconciliation_Outcomes Wdk_Outcomes
begin

text \<open>
  A verification library for the Sails Protocol node (TypeScript, under
  \<^verbatim>\<open>src/src\<close> and \<^verbatim>\<open>src/packages/sails-core\<close>).

  \<^bold>\<open>The program.\<close> Sails coordinates peer-to-peer trades between wallets. A participant
  states an intent; the intent engine checks it and walks it through a state machine with an
  audit log. Once two parties agree, the escrow service holds the traded asset: it picks a
  settlement provider for the asset and rail, locks the funds, and later releases, refunds or
  splits them, by request of the seller or, in a dispute, of the assigned arbiter. Every
  movement of funds passes the same four stages: authorization, a conditional update of the
  status that lets one of several concurrent requests win (the claim), the provider's call, and
  the bookkeeping with its hash-chained event log. A failure after the claim gives the claim back.
  Fees are governed by versioned policies, frozen into the escrow at creation and recorded as
  obligations at settlement; what is collected is divided among recipients in an append-only ledger. On
  the Bitcoin rail a payout is a transaction that the multisig provider builds and the signers sign one after the other; the last
  signature authorizes, claims and finalizes it. A dispute ends in a signed ruling that is committed with a
  durable record and dispatched as such a transaction. Background jobs compare the stored escrows with the chain and finish
  settlements a crash has interrupted. Trades, reputation and the timeline follow the escrow through events. Below all this a small
  pure package defines conditions, evaluators and the correspondence between what was authorized and what was executed.

  \<^bold>\<open>Theories.\<close>
  \<^item> \<open>Sails_Prelude\<close>: the error values of \<^verbatim>\<open>common/errors\<close>, handlers (state
    passing with errors as values), their weakest preconditions, the collection of rules for
    invariants, decimals and strings.
  \<^item> \<open>Interfaces\<close>: three contracts as locales. \<open>forward_lifecycle\<close> is a transition
    table along which a measure grows; \<open>status_claim\<close> is the conditional update on which
    every state machine here rests; \<open>hash_chain\<close> is a log whose rows carry the hash of the
    row before. They are interpreted on the tables, claims and logs of the intents, the escrows,
    the trades, the fee obligations and the timeline. The other locales stand beside the component
    they belong to: the invariants of settlement handlers, of revenue handlers and of the funding sweep, the sources of the offer
    book, the event stores, and the loop with bounded attempts.
  \<^item> \<open>Condition_Result\<close>, \<open>Semantic_Core\<close>: the package \<^verbatim>\<open>sails-core\<close>: the
    four-valued condition algebra, identifiers, evaluators, rulesets, correspondence, the
    conformance runner and the dispatch gate.
  \<^item> \<open>Capability_Registry\<close>: \<^verbatim>\<open>core/capability-registry.ts\<close> and its repository.
  \<^item> \<open>Intent_Engine\<close>: \<^verbatim>\<open>core/state-machine.ts\<close>, \<^verbatim>\<open>intent-engine.ts\<close>,
    \<^verbatim>\<open>intent-repository.ts\<close>, the financial checks of \<^verbatim>\<open>policy-engine.ts\<close>, the trade
    handler.
  \<^item> \<open>Provider_Registry\<close>: settlement scopes, providers, the resolution of an escrow's type,
    arbitration modes.
  \<^item> \<open>Settlement_State\<close>: the tables of the settlement module as one record, the repository
    operations on them, the provider interface, database faults.
  \<^item> \<open>Fee_Obligation\<close>: fee arithmetic, dust and execution cost policies, fee policies,
    snapshots, obligations.
  \<^item> \<open>Escrow_Lifecycle\<close>: \<^verbatim>\<open>escrow-lifecycle.ts\<close>, the circuit breaker, two-person
    approval, the expiry authority and its semantic record.
  \<^item> \<open>Escrow_Service\<close>: the operations of \<^verbatim>\<open>escrow.service.ts\<close>.
  \<^item> \<open>Escrow_Invariants\<close>, \<open>Escrow_Payout\<close>, \<open>Escrow_Safeguards\<close>, \<open>Escrow_Sweep\<close>: the
    properties of the escrow service, its safeguards and its expiry sweep. The locales
    \<open>bookkeeping_client\<close>, \<open>mover_client\<close> and \<open>event_log_client\<close> state what an invariant has to
    tolerate so that every operation preserves it.
  \<^item> \<open>Escrow_Concurrency\<close>: any number of requests interleaved at their awaits, as an inductive
    step relation over the shared state, with mutual exclusion and the bound on payouts by rule
    induction, and the proof that the operations are runs of that relation.

  \<^item> \<open>Revenue_Ledger\<close>, \<open>Revenue_Accounting\<close>: recipients, distribution policies, the evidence of
    collection, allocation and reversal of entitlements, and that the books are exact.
  \<^item> \<open>Economic_Outcome\<close>, \<open>Dispute_Authority\<close>, \<open>Arbitration_Market\<close>, \<open>Dispute_Service\<close>,
    \<open>Dispute_Outcomes\<close>: \<^verbatim>\<open>economic-outcome.ts\<close> and the translation guard, signed decisions and the
    authorization of disputed transactions, the market of arbiters, and \<^verbatim>\<open>dispute.service.ts\<close> with its properties.
  \<^item> \<open>Signature_Collection\<close>, \<open>Signature_Submission\<close>, \<open>Signature_Outcomes\<close>:
    \<^verbatim>\<open>escrow-pending-tx.ts\<close> from the building of a pending transaction to its settlement, the
    execution authorizations, the live correspondence, and the two jobs that repair interrupted dispatches.
  \<^item> \<open>Bounded_Rpc\<close>, \<open>Multisig_Provider\<close>, \<open>Multisig_Outcomes\<close>: \<^verbatim>\<open>bounded-rpc.ts\<close> and
    \<^verbatim>\<open>multisig.provider.ts\<close>: requests with retries, the explorer, keys and scripts, funding, and the transactions it builds.
  \<^item> \<open>Wdk_Provider\<close>, \<open>Wdk_Outcomes\<close>: the token provider (\<^verbatim>\<open>wdk-settlement.provider.ts\<close>,
    \<^verbatim>\<open>wdk-execution-truth.ts\<close>, \<^verbatim>\<open>wdk-transfer-attempt-repository.ts\<close>): amounts, durable attempts, transfers and their
    reconciliation. Calls follow one another; two calls of the same operation at once are not modelled.
  \<^item> \<open>Chain_Sweeps\<close>, \<open>Sweep_Outcomes\<close>: the sweeps over funding, releases and fees
    (\<^verbatim>\<open>multisig-funding-reorg-sweep.ts\<close>, \<^verbatim>\<open>multisig-release-reorg-sweep.ts\<close>,
    \<^verbatim>\<open>multisig-fee-confirmation-job.ts\<close>, \<^verbatim>\<open>multisig-fee-reorg-sweep.ts\<close>).
  \<^item> \<open>Settlement_Reconciliation\<close>, \<open>Reconciliation_Outcomes\<close>: the three passes of
    \<^verbatim>\<open>escrow-settlement-reconciliation.service.ts\<close>.
  \<^item> \<open>Idempotency\<close>: \<^verbatim>\<open>common/idempotency.ts\<close>, alone and under interleaving.
  \<^item> \<open>Liquidity\<close>, \<open>Trade_Service\<close>, \<open>Event_Store\<close>, \<open>Trade_Lifecycle\<close>, \<open>Trade_Outcomes\<close>:
    offers and the aggregated book, trades and their negotiation, the event stores and the timeline, the reactions
    to escrow events with reputation and vouches, and a trade from its acceptance to its end.

  \<^bold>\<open>How the code is read.\<close> An \<^verbatim>\<open>async\<close> function is a handler
  \<open>state \<Rightarrow> result \<times> state\<close>: an early throw returns \<open>Inl\<close> with the state as it is then. A
  table is a map or a list in the state record; the unique indexes of the database schema are
  part of the write that can violate them. Each write of the settlement module first consults a
  script of faults, so a theorem that leaves the script open holds wherever the database fails,
  and \<open>faults s = []\<close> is a working database. A transaction restores the tables when its body
  throws. Providers, the hash function, the identifier generator, date parsing and the rounding of
  the decimal library are parameters; what is needed of them is a hypothesis of the theorem that
  needs it (injectivity of the generator, the shape of a digest, a rounding that is monotone and
  exact on representable values). The wallet libraries and the block explorer are parameters in the same way; the explorer may
  answer differently at every attempt and for every candidate of a sweep. JavaScript numbers are read as exact rationals, which they
  are for the amounts that exist; prices and scores are rounded by the parameter where the code rounds. Messages of
  errors keep their kind and their constant text. Loops over lists are structural recursions; the retry loop of a bounded request
  decreases the attempts left. No definition needs fuel.

  \<^bold>\<open>What is shown.\<close>
  \<^item> Escrow payouts: what release, refund and split do on every branch, that a refused payout
    changes nothing, that a dispute leaves the funds to the arbiter, that the log verifies
    after any sequence of operations and faults, and that no operation writes the tables of
    another module.
  \<^item> Intents: completeness, monotony and tamper evidence of the log, what creating and cancelling do.
  \<^item> Fees: the reserve covers every outcome, the obligation of a settlement, one live policy per
    rail, dust and miner fee bounds.
  \<^item> Conditions and correspondence: the threshold as possibility and as order statistic, evidence
    for every match.
  \<^item> Concurrency: payouts of one escrow exclude each other, and it is paid at most once unless
    bookkeeping fails after a transfer.
  \<^item> Revenue: an allocation hands out exactly what was collected, no balance becomes negative, and a reversal restores what was before.
  \<^item> Disputes: only the assigned arbiter rules, a ruling and its record are one commit, only the current ruling authorizes a
    transaction, and a transaction that passes the guard pays the ruling.
  \<^item> Signatures and transactions: nothing is finalized before every signer has signed and both authorizations are stored, a complete
    set of signatures settles, the built transaction conserves value, and a bounded request ends.
  \<^item> Token transfers: printed amounts read back as themselves, one operation is carried out at most once however often it is retried, and
    a reported payout was delivered in full.
  \<^item> Chain: the history of a funding tells one consistent story, a fee counts as collected only when the chain shows it, and the
    recovery of interrupted settlements sends only transactions that are complete, authorized, unknown to the network and unspent.
  \<^item> Trades, events and keys: an accepted trade completes, timelines verify, and a durable write happens at most once per key.
  \<^item> Defects, each stated as what the code does: an intent that expires after being matched is stuck; a release whose event
    cannot be stored calls the provider again, and the recovery takes its log row for the event; a payment can be marked on a lock that then
    fails; a dispute opened while the funding is in doubt shuts the way to a release for good; a fee transaction that vanished
    altogether is not reverted; the guard accepts a wrong payment when both parties share an address; evidence that races with a
    ruling blocks its payout; an appeal is never decided; an overfunded escrow cannot be ruled on; the outcome of a trade is counted
    once per instance. The manifest lists these and the remaining divergences with their lines.

  \<^bold>\<open>Not modelled.\<close> The Lightning and the guarded EVM provider and the attestation of custody, which are thin layers over
  libraries; evidence files and timestamps; identity and agents; routes, middleware and configuration; networking, the client
  packages, the user interface and the Solidity contract; the Redis store and the demonstration script of a settlement. Of
  some components queries for the interface and reports are left out. The manifest lists them with reasons.
\<close>

end
